(* ===== verification/Prelude.thy ===== *)
theory Prelude
  imports Main "HOL-Library.Word" "HOL-Library.State_Monad" "HOL-Library.Char_ord"
    "HOL-Library.List_Lexorder" "HOL-Library.Product_Lexorder" "HOL-Library.Multiset"
begin

text \<open>
  Shared vocabulary of the netd development: machine integers, the state monad in which every
  stateful function of the daemon is written, the Hoare triples its invariants are proved with,
  the ordered containers of the C++ library (\<^verbatim>\<open>std::set\<close> and \<^verbatim>\<open>std::map\<close>, iterated in key
  order), the errno values the sources return, and decimal and hexadecimal printing.
\<close>

unbundle bit_operations_syntax

named_theorems wp "introduction rules for Hoare triples"
named_theorems run_simps "evaluation of the state monad's operations"
named_theorems errno_defs "the values of the errno constants"

section \<open>Machine integers and C values\<close>

type_synonym u8 = "8 word"
type_synonym u16 = "16 word"
type_synonym u32 = "32 word"
type_synonym u64 = "64 word"
type_synonym bytes = "u8 list"

text \<open>A \<^verbatim>\<open>const char*\<close> that may be NULL is a \<^typ>\<open>string option\<close>.\<close>

type_synonym cstr = "string option"

section \<open>Errno\<close>

definition EPERM :: int where [errno_defs]: "EPERM = 1"
definition ENOENT :: int where [errno_defs]: "ENOENT = 2"
definition ESRCH :: int where [errno_defs]: "ESRCH = 3"
definition EBADF :: int where [errno_defs]: "EBADF = 9"
definition ECHILD :: int where [errno_defs]: "ECHILD = 10"
definition EACCES :: int where [errno_defs]: "EACCES = 13"
definition EFAULT :: int where [errno_defs]: "EFAULT = 14"
definition EBUSY :: int where [errno_defs]: "EBUSY = 16"
definition EEXIST :: int where [errno_defs]: "EEXIST = 17"
definition ENODEV :: int where [errno_defs]: "ENODEV = 19"
definition EINVAL :: int where [errno_defs]: "EINVAL = 22"
definition ENOSPC :: int where [errno_defs]: "ENOSPC = 28"
definition ERANGE :: int where [errno_defs]: "ERANGE = 34"
definition ENAMETOOLONG :: int where [errno_defs]: "ENAMETOOLONG = 36"
definition ENONET :: int where [errno_defs]: "ENONET = 64"
definition EPROTO :: int where [errno_defs]: "EPROTO = 71"
definition EBADMSG :: int where [errno_defs]: "EBADMSG = 74"
definition EUSERS :: int where [errno_defs]: "EUSERS = 87"
definition EAFNOSUPPORT :: int where [errno_defs]: "EAFNOSUPPORT = 97"
definition ENOBUFS :: int where [errno_defs]: "ENOBUFS = 105"
definition EREMOTEIO :: int where [errno_defs]: "EREMOTEIO = 121"

section \<open>The state monad\<close>

text \<open>
  A function of the daemon that changes state is a \<^typ>\<open>('s, 'a) state\<close> of the library's state
  monad, written in do-notation so that it reads like the source. \<open>gets\<close> reads a part of the
  state and \<open>modify\<close> assigns to it; \<open>ret\<close> is \<^verbatim>\<open>return\<close>.
\<close>

abbreviation ret :: "'a \<Rightarrow> ('s, 'a) state" where
  "ret \<equiv> State_Monad.return"

definition gets :: "('s \<Rightarrow> 'a) \<Rightarrow> ('s, 'a) state" where
  "gets f = State (\<lambda>s. (f s, s))"

definition modify :: "('s \<Rightarrow> 's) \<Rightarrow> ('s, unit) state" where
  "modify f = State (\<lambda>s. ((), f s))"

text \<open>
  The idiom \<^verbatim>\<open>if (int ret = m) return ret; k\<close> of the sources, and a loop whose body is used in
  that idiom.
\<close>

definition ok_then :: "('s, int) state \<Rightarrow> ('s, int) state \<Rightarrow> ('s, int) state" where
  "ok_then m k = do { r \<leftarrow> m; if r \<noteq> 0 then ret r else k }"

primrec for_ok :: "('a \<Rightarrow> ('s, int) state) \<Rightarrow> 'a list \<Rightarrow> ('s, int) state" where
  "for_ok f [] = ret 0"
| "for_ok f (x # xs) = ok_then (f x) (for_ok f xs)"

text \<open>The idiom \<^verbatim>\<open>res |= m1; res |= m2; ... return res;\<close>: every statement is run.\<close>

primrec or_all :: "('s, int) state list \<Rightarrow> ('s, int) state" where
  "or_all [] = ret 0"
| "or_all (m # ms) = do { a \<leftarrow> m; b \<leftarrow> or_all ms; ret (a OR b) }"

lemma run_gets [simp, run_simps]: "run_state (gets f) s = (f s, s)"
  by (simp add: gets_def)

lemma run_modify [simp, run_simps]: "run_state (modify f) s = ((), f s)"
  by (simp add: modify_def)

lemma run_ok_then [run_simps]:
  "run_state (ok_then m k) s =
     (case run_state m s of (r, s') \<Rightarrow> if r \<noteq> 0 then (r, s') else run_state k s')"
  by (auto simp: ok_then_def split: prod.splits)

lemmas run_basic [run_simps] = run_state_return run_state_bind

subsection \<open>Hoare triples\<close>

definition hoare :: "('s \<Rightarrow> bool) \<Rightarrow> ('s, 'a) state \<Rightarrow> ('a \<Rightarrow> 's \<Rightarrow> bool) \<Rightarrow> bool" where
  "hoare P m Q \<longleftrightarrow> (\<forall>s. P s \<longrightarrow> (case run_state m s of (a, s') \<Rightarrow> Q a s'))"

abbreviation keeps :: "('s \<Rightarrow> bool) \<Rightarrow> ('s, 'a) state \<Rightarrow> bool" where
  "keeps I m \<equiv> hoare I m (\<lambda>_. I)"

lemma hoareI: "(\<And>s a s'. P s \<Longrightarrow> run_state m s = (a, s') \<Longrightarrow> Q a s') \<Longrightarrow> hoare P m Q"
  by (auto simp: hoare_def split: prod.splits)

lemma hoareD: "hoare P m Q \<Longrightarrow> P s \<Longrightarrow> run_state m s = (a, s') \<Longrightarrow> Q a s'"
  by (fastforce simp: hoare_def)

lemma hoare_snd: "keeps I m \<Longrightarrow> I s \<Longrightarrow> I (snd (run_state m s))"
  by (metis hoareD prod.collapse)

lemma hoare_pre: "hoare P' m Q \<Longrightarrow> (\<And>s. P s \<Longrightarrow> P' s) \<Longrightarrow> hoare P m Q"
  by (auto simp: hoare_def)

lemma hoare_post: "hoare P m Q' \<Longrightarrow> (\<And>a s. Q' a s \<Longrightarrow> Q a s) \<Longrightarrow> hoare P m Q"
  by (fastforce simp: hoare_def split: prod.splits)

lemma hoare_conj: "hoare P m Q \<Longrightarrow> hoare P' m Q' \<Longrightarrow> hoare (\<lambda>s. P s \<and> P' s) m (\<lambda>a s. Q a s \<and> Q' a s)"
  by (auto simp: hoare_def split: prod.splits)

lemma hoare_bind:
  assumes "hoare P m R" and "\<And>a. hoare (R a) (k a) Q"
  shows "hoare P (State_Monad.bind m k) Q"
  using assms by (fastforce simp: hoare_def split: prod.splits)

lemma hoare_return: "(\<And>s. P s \<Longrightarrow> Q a s) \<Longrightarrow> hoare P (ret a) Q"
  by (simp add: hoare_def)

lemma hoare_gets: "(\<And>s. P s \<Longrightarrow> Q (f s) s) \<Longrightarrow> hoare P (gets f) Q"
  by (simp add: hoare_def)

lemma hoare_modify: "(\<And>s. P s \<Longrightarrow> Q () (f s)) \<Longrightarrow> hoare P (modify f) Q"
  by (simp add: hoare_def)

lemma hoare_if:
  "(b \<Longrightarrow> hoare P m Q) \<Longrightarrow> (\<not> b \<Longrightarrow> hoare P k Q) \<Longrightarrow> hoare P (if b then m else k) Q"
  by simp

text \<open>The rules for a single invariant, applied backwards without search.\<close>

lemma keeps_bind [wp]: "keeps I m \<Longrightarrow> (\<And>a. keeps I (k a)) \<Longrightarrow> keeps I (State_Monad.bind m k)"
  by (rule hoare_bind)

lemma keeps_return [wp]: "keeps I (ret a)"
  by (simp add: hoare_return)

lemma keeps_gets [wp]: "keeps I (gets f)"
  by (simp add: hoare_gets)

lemma keeps_if [wp]: "keeps I m \<Longrightarrow> keeps I k \<Longrightarrow> keeps I (if b then m else k)"
  by simp

lemma keeps_ok_then [wp]: "keeps I m \<Longrightarrow> keeps I k \<Longrightarrow> keeps I (ok_then m k)"
  unfolding ok_then_def by (intro wp)

lemma keeps_for_ok [wp]: "(\<And>x. x \<in> set xs \<Longrightarrow> keeps I (f x)) \<Longrightarrow> keeps I (for_ok f xs)"
  by (induction xs) (simp_all add: keeps_return keeps_ok_then)

lemma keeps_or_all [wp]: "(\<And>m. m \<in> set ms \<Longrightarrow> keeps I m) \<Longrightarrow> keeps I (or_all ms)"
  by (induction ms) (auto intro!: keeps_return keeps_bind)

lemma keeps_modify: "(\<And>s. I s \<Longrightarrow> I (f s)) \<Longrightarrow> keeps I (modify f)"
  by (rule hoare_modify)

lemma keeps_case_option [wp]:
  "keeps I m \<Longrightarrow> (\<And>a. x = Some a \<Longrightarrow> keeps I (f a)) \<Longrightarrow> keeps I (case x of None \<Rightarrow> m | Some a \<Rightarrow> f a)"
  by (cases x) simp_all

lemma keeps_case_sum [wp]:
  "(\<And>a. x = Inl a \<Longrightarrow> keeps I (f a)) \<Longrightarrow> (\<And>b. x = Inr b \<Longrightarrow> keeps I (g b)) \<Longrightarrow>
   keeps I (case x of Inl a \<Rightarrow> f a | Inr b \<Rightarrow> g b)"
  by (cases x) simp_all

lemma keeps_case_prod [wp]: "(\<And>a b. x = (a, b) \<Longrightarrow> keeps I (f a b)) \<Longrightarrow> keeps I (case x of (a, b) \<Rightarrow> f a b)"
  by (cases x) simp

lemma keeps_Let [wp]: "keeps I (f x) \<Longrightarrow> keeps I (let y = x in f y)"
  by simp

lemmas wp_basic = keeps_bind keeps_return keeps_gets keeps_if keeps_ok_then keeps_for_ok
  keeps_case_option keeps_case_sum keeps_case_prod keeps_Let

text \<open>
  The rules for triples that speak of a zero result: in \<open>ok_then m k\<close> the continuation starts
  in a state that the success of \<open>m\<close> produced.
\<close>

lemma hoare_ok_then:
  assumes "hoare P m R" and "hoare (R 0) k Q" and "\<And>r s. r \<noteq> 0 \<Longrightarrow> R r s \<Longrightarrow> Q r s"
  shows "hoare P (ok_then m k) Q"
  unfolding ok_then_def
proof (rule hoare_bind [OF assms(1)])
  fix r
  show "hoare (R r) (if r \<noteq> 0 then ret r else k) Q"
    using assms(2,3) by (cases "r = 0") (simp_all add: hoare_return)
qed

section \<open>Ordered containers\<close>

text \<open>
  \<^verbatim>\<open>std::set\<close> is a strictly increasing list, \<^verbatim>\<open>std::map\<close> a list of pairs whose keys increase
  strictly: a range-based for loop visits the list from left to right.
\<close>

definition set_insert :: "'a::linorder \<Rightarrow> 'a list \<Rightarrow> 'a list" where
  "set_insert x xs = (if x \<in> set xs then xs else insort x xs)"

definition set_erase :: "'a::linorder \<Rightarrow> 'a list \<Rightarrow> 'a list" where
  "set_erase x xs = remove1 x xs"

abbreviation wf_set :: "'a::linorder list \<Rightarrow> bool" where
  "wf_set xs \<equiv> sorted xs \<and> distinct xs"

lemma set_set_insert [simp]: "set (set_insert x xs) = insert x (set xs)"
  by (auto simp: set_insert_def set_insort_key)

lemma wf_set_insert [simp]: "wf_set xs \<Longrightarrow> wf_set (set_insert x xs)"
  by (simp add: set_insert_def sorted_insort distinct_insort)

lemma set_set_erase [simp]: "distinct xs \<Longrightarrow> set (set_erase x xs) = set xs - {x}"
  by (simp add: set_erase_def)

lemma wf_set_erase [simp]: "wf_set xs \<Longrightarrow> wf_set (set_erase x xs)"
  by (simp add: set_erase_def sorted_remove1)

lemma set_erase_Cons [simp]: "set_erase x (x # xs) = xs"
  by (simp add: set_erase_def)

lemma mset_set_insert: "x \<notin> set xs \<Longrightarrow> mset (set_insert x xs) = add_mset x (mset xs)"
  by (simp add: set_insert_def mset_insort)

lemma mset_set_erase: "mset (set_erase x xs) = mset xs - {#x#}"
  by (simp add: set_erase_def)

fun map_put :: "'k::linorder \<Rightarrow> 'v \<Rightarrow> ('k \<times> 'v) list \<Rightarrow> ('k \<times> 'v) list" where
  "map_put k v [] = [(k, v)]"
| "map_put k v (e # m) =
     (if k < fst e then (k, v) # e # m
      else if k = fst e then (k, v) # m
      else e # map_put k v m)"

definition map_erase :: "'k \<Rightarrow> ('k \<times> 'v) list \<Rightarrow> ('k \<times> 'v) list" where
  "map_erase k m = filter (\<lambda>e. fst e \<noteq> k) m"

abbreviation wf_map :: "('k::linorder \<times> 'v) list \<Rightarrow> bool" where
  "wf_map m \<equiv> sorted_wrt (<) (map fst m)"

lemma map_of_map_put [simp]: "map_of (map_put k v m) = (map_of m)(k \<mapsto> v)"
  by (induction m) auto

lemma keys_map_put: "fst ` set (map_put k v m) = insert k (fst ` set m)"
  by (induction m) auto

lemma wf_map_put [simp]: "wf_map m \<Longrightarrow> wf_map (map_put k v m)"
proof (induction m)
  case (Cons e m)
  then show ?case
    using keys_map_put [of k v m] by (auto simp: image_iff)
qed simp

lemma map_of_map_erase [simp]: "map_of (map_erase k m) = (map_of m)(k := None)"
  unfolding map_erase_def by (induction m) (auto simp: fun_eq_iff)

lemma set_map_erase [simp]: "set (map_erase k m) = {e \<in> set m. fst e \<noteq> k}"
  by (auto simp: map_erase_def)

lemma wf_map_erase [simp]: "wf_map m \<Longrightarrow> wf_map (map_erase k m)"
  unfolding map_erase_def by (induction m) auto

lemma wf_map_distinct: "wf_map m \<Longrightarrow> distinct (map fst m)"
  by (simp add: strict_sorted_iff)

lemma wf_map_in_set: "wf_map m \<Longrightarrow> (k, v) \<in> set m \<longleftrightarrow> map_of m k = Some v"
  by (simp add: wf_map_distinct)

text \<open>Overwriting an entry that is present, seen as a multiset of entries.\<close>

lemma mset_map_put:
  "wf_map m \<Longrightarrow> map_of m k = Some v \<Longrightarrow> mset (map_put k w m) = add_mset (k, w) (mset m - {#(k, v)#})"
proof (induction m)
  case (Cons e m)
  show ?case
  proof (cases "k = fst e")
    case True
    then show ?thesis using Cons.prems by (cases e) auto
  next
    case False
    then have m: "map_of m k = Some v" using Cons.prems by (cases e) auto
    then have "k \<in> fst ` set m" by (metis domI dom_map_of_conv_image_fst)
    then have "\<not> k < fst e" using Cons.prems(1) by force
    moreover have "(k, v) \<noteq> e" using False by auto
    ultimately show ?thesis using Cons False m by (simp add: add_mset_commute)
  qed
qed simp

lemma mset_map_put_new:
  "map_of m k = None \<Longrightarrow> mset (map_put k w m) = add_mset (k, w) (mset m)"
  by (induction m) (auto simp: add_mset_commute split: if_splits)

lemma mset_map_erase:
  "wf_map m \<Longrightarrow> map_of m k = Some v \<Longrightarrow> mset (map_erase k m) = mset m - {#(k, v)#}"
proof (induction m)
  case (Cons e m)
  show ?case
  proof (cases "k = fst e")
    case True
    then have "filter (\<lambda>x. fst x \<noteq> k) m = m" using Cons.prems(1) by (force simp: filter_id_conv)
    then show ?thesis using True Cons.prems by (cases e) (auto simp: map_erase_def)
  next
    case False
    then show ?thesis using Cons by (cases e) (auto simp: map_erase_def)
  qed
qed simp

section \<open>Printing numbers\<close>

definition digit_char :: "nat \<Rightarrow> char" where
  "digit_char d = (if d < 10 then char_of (48 + d) else char_of (87 + d))"

text \<open>\<^verbatim>\<open>%u\<close>, \<^verbatim>\<open>%x\<close> and \<^verbatim>\<open>%d\<close> of printf.\<close>

fun fmt_u :: "nat \<Rightarrow> string" where
  "fmt_u n = (if n < 10 then [digit_char n] else fmt_u (n div 10) @ [digit_char (n mod 10)])"

fun fmt_x :: "nat \<Rightarrow> string" where
  "fmt_x n = (if n < 16 then [digit_char n] else fmt_x (n div 16) @ [digit_char (n mod 16)])"

definition fmt_d :: "int \<Rightarrow> string" where
  "fmt_d i = (if i < 0 then CHR ''-'' # fmt_u (nat (- i)) else fmt_u (nat i))"

declare fmt_u.simps [simp del] fmt_x.simps [simp del]

lemma fmt_u_nonempty [simp]: "fmt_u n \<noteq> []"
  by (subst fmt_u.simps) simp

lemma fmt_x_nonempty [simp]: "fmt_x n \<noteq> []"
  by (subst fmt_x.simps) simp

end
