(* ===== verification/CLib.thy ===== *)
theory CLib
  imports Prelude
begin

text \<open>
  The parts of the C library that the daemon's parsers use: character classes,
  \<^verbatim>\<open>strtoul\<close>, \<^verbatim>\<open>strchr\<close>, and the wait status macros. A C string is a \<^typ>\<open>string\<close> without the
  terminating NUL; a pointer into it is the suffix it points at, and \<^verbatim>\<open>*p == 0\<close> says that the
  suffix is empty. \<^verbatim>\<open>unsigned long\<close> has 64 bits (LP64).
\<close>

section \<open>Character classes\<close>

definition isspace :: "char \<Rightarrow> bool" where
  "isspace c \<longleftrightarrow> c = CHR '' '' \<or> (9 \<le> (of_char c :: nat) \<and> (of_char c :: nat) \<le> 13)"

definition isdigit :: "char \<Rightarrow> bool" where
  "isdigit c \<longleftrightarrow> CHR ''0'' \<le> c \<and> c \<le> CHR ''9''"

definition isalnum :: "char \<Rightarrow> bool" where
  "isalnum c \<longleftrightarrow> isdigit c \<or> (CHR ''a'' \<le> c \<and> c \<le> CHR ''z'') \<or> (CHR ''A'' \<le> c \<and> c \<le> CHR ''Z'')"

definition digit_val :: "char \<Rightarrow> nat option" where
  "digit_val c =
     (if isdigit c then Some (of_char c - 48)
      else if CHR ''a'' \<le> c \<and> c \<le> CHR ''z'' then Some (of_char c - 87)
      else if CHR ''A'' \<le> c \<and> c \<le> CHR ''Z'' then Some (of_char c - 55)
      else None)"

definition is_base_digit :: "nat \<Rightarrow> char \<Rightarrow> bool" where
  "is_base_digit b c = (case digit_val c of None \<Rightarrow> False | Some d \<Rightarrow> d < b)"

section \<open>Number parsing\<close>

fun take_digits :: "nat \<Rightarrow> nat \<Rightarrow> string \<Rightarrow> nat \<times> string" where
  "take_digits b acc [] = (acc, [])"
| "take_digits b acc (c # cs) =
     (if is_base_digit b c then take_digits b (acc * b + the (digit_val c)) cs else (acc, c # cs))"

definition split_sign :: "string \<Rightarrow> bool \<times> string" where
  "split_sign s =
     (case s of
        [] \<Rightarrow> (False, [])
      | c # cs \<Rightarrow> if c = CHR ''-'' then (True, cs) else if c = CHR ''+'' then (False, cs) else (False, s))"

text \<open>The base that \<^verbatim>\<open>strtoul\<close> settles on, and where the digits start.\<close>

definition split_base :: "nat \<Rightarrow> string \<Rightarrow> nat \<times> string" where
  "split_base base s =
     (if (base = 0 \<or> base = 16) \<and> 3 \<le> length s \<and> s ! 0 = CHR ''0''
         \<and> (s ! 1 = CHR ''x'' \<or> s ! 1 = CHR ''X'') \<and> is_base_digit 16 (s ! 2)
      then (16, drop 2 s)
      else if base = 0 then (if s \<noteq> [] \<and> hd s = CHR ''0'' then 8 else 10, s)
      else (base, s))"

definition ULONG_MAX :: nat where
  "ULONG_MAX = 2 ^ 64 - 1"

text \<open>\<^verbatim>\<open>strtoul(s, &end, base)\<close>: the value and the suffix that \<^verbatim>\<open>end\<close> points at.\<close>

definition strtoul :: "string \<Rightarrow> nat \<Rightarrow> u64 \<times> string" where
  "strtoul s base =
     (let (neg, s2) = split_sign (dropWhile isspace s);
          (b, s3) = split_base base s2
      in if s3 = [] \<or> \<not> is_base_digit b (hd s3) then (0, s)
         else let (v, rest) = take_digits b 0 s3
              in (if v > ULONG_MAX then word_of_nat ULONG_MAX
                  else if neg then - word_of_nat v else word_of_nat v, rest))"

text \<open>
  \<^verbatim>\<open>strtol(s, &end, base)\<close>, which saturates, and the functions built on it: \<^verbatim>\<open>atoll\<close> and \<^verbatim>\<open>atoi\<close>, which keeps
  the low 32 bits.
\<close>

definition strtol :: "string \<Rightarrow> nat \<Rightarrow> int \<times> string" where
  "strtol s base =
     (let (neg, s2) = split_sign (dropWhile isspace s);
          (b, s3) = split_base base s2
      in if s3 = [] \<or> \<not> is_base_digit b (hd s3) then (0, s)
         else let (v, rest) = take_digits b 0 s3
              in (if neg then max (- int v) (- (2 ^ 63)) else min (int v) (2 ^ 63 - 1), rest))"

definition atoll :: "string \<Rightarrow> int" where
  "atoll s = fst (strtol s 10)"

definition atoi :: "string \<Rightarrow> int" where
  "atoi s = sint (word_of_int (fst (strtol s 10)) :: u32)"

text \<open>\<^verbatim>\<open>strchr(s, c)\<close>: the text before the first \<open>c\<close> and the text after it.\<close>

fun strchr :: "string \<Rightarrow> char \<Rightarrow> (string \<times> string) option" where
  "strchr [] c = None"
| "strchr (x # xs) c =
     (if x = c then Some ([], xs)
      else case strchr xs c of None \<Rightarrow> None | Some (p, q) \<Rightarrow> Some (x # p, q))"

lemma strchr_Some: "strchr s c = Some (p, q) \<Longrightarrow> s = p @ c # q \<and> c \<notin> set p"
  by (induction s arbitrary: p) (auto split: if_splits option.splits)

lemma strchr_None: "strchr s c = None \<longleftrightarrow> c \<notin> set s"
  by (induction s) (auto split: option.splits)

lemma strchr_append: "c \<notin> set p \<Longrightarrow> strchr (p @ c # q) c = Some (p, q)"
  by (induction p) auto

text \<open>
  \<^verbatim>\<open>sscanf\<close>: a format is a list of items; the result is the list of values assigned before the first item
  that does not match. White space in a format matches any amount of it; \<^verbatim>\<open>%s\<close> and \<^verbatim>\<open>%lld\<close> skip leading white
  space. Integers are those of the text, which the callers take to fit 64 bits.
\<close>

datatype scan_item = ScanInt | ScanWord | ScanSpace | ScanLit char
datatype scan_value = SInt int | SWord string

definition scan_text :: "string \<Rightarrow> scan_item list" where
  "scan_text s = map (\<lambda>c. if isspace c then ScanSpace else ScanLit c) s"

fun sscanf :: "scan_item list \<Rightarrow> string \<Rightarrow> scan_value list" where
  "sscanf [] s = []"
| "sscanf (ScanSpace # f) s = sscanf f (dropWhile isspace s)"
| "sscanf (ScanLit c # f) s = (case s of [] \<Rightarrow> [] | x # r \<Rightarrow> if x = c then sscanf f r else [])"
| "sscanf (ScanWord # f) s =
     (let s1 = dropWhile isspace s; w = takeWhile (\<lambda>c. \<not> isspace c) s1
      in if w = [] then [] else SWord w # sscanf f (dropWhile (\<lambda>c. \<not> isspace c) s1))"
| "sscanf (ScanInt # f) s =
     (let (neg, s2) = split_sign (dropWhile isspace s)
      in if s2 = [] \<or> \<not> is_base_digit 10 (hd s2) then []
         else let (v, rest) = take_digits 10 0 s2
              in SInt (if neg then - int v else int v) # sscanf f rest)"

text \<open>
  \<^verbatim>\<open>fgets\<close> until it returns NULL: it reads at most as many characters as fit the buffer beside the terminator, the number given
  here, and stops after a newline. The second function is for output that is given as a list of lines.
\<close>

fun fgets_all :: "nat \<Rightarrow> string \<Rightarrow> string \<Rightarrow> string list" where
  "fgets_all n acc [] = (if acc = [] then [] else [acc])"
| "fgets_all n acc (c # cs) =
     (if c = CHR 0x0A \<or> length acc + 1 \<ge> n then (acc @ [c]) # fgets_all n [] cs else fgets_all n (acc @ [c]) cs)"

definition fgets_lines :: "nat \<Rightarrow> string list \<Rightarrow> string list" where
  "fgets_lines n ls = fgets_all n [] (concat ls)"

text \<open>\<^verbatim>\<open>strsep(&s, c)\<close> until it returns NULL: the fields between the separators, empty ones included.\<close>

fun strsep_all :: "char \<Rightarrow> string \<Rightarrow> string list" where
  "strsep_all c [] = [[]]"
| "strsep_all c (x # xs) =
     (if x = c then [] # strsep_all c xs
      else case strsep_all c xs of [] \<Rightarrow> [[x]] | f # fs \<Rightarrow> (x # f) # fs)"

text \<open>Words with single spaces between them, as \<^verbatim>\<open>asprintf\<close> prints them for a format like \<^verbatim>\<open>"%s %s"\<close>.\<close>

fun spaced :: "string list \<Rightarrow> string" where
  "spaced [] = []"
| "spaced [w] = w"
| "spaced (w # ws) = w @ '' '' @ spaced ws"

section \<open>Wait status\<close>

definition WIFEXITED :: "u32 \<Rightarrow> bool" where
  "WIFEXITED status \<longleftrightarrow> status AND 0x7f = 0"

definition WEXITSTATUS :: "u32 \<Rightarrow> int" where
  "WEXITSTATUS status = uint (drop_bit 8 (status AND 0xff00))"

lemma strsep_word: "c \<notin> set w \<Longrightarrow> strsep_all c (w @ c # rest) = w # strsep_all c rest"
  by (induction w) auto

lemma strsep_end: "c \<notin> set w \<Longrightarrow> strsep_all c w = [w]"
  by (induction w) auto

lemma strsep_spaced: "ws \<noteq> [] \<Longrightarrow> \<forall>w\<in>set ws. CHR '' '' \<notin> set w \<Longrightarrow> strsep_all (CHR '' '') (spaced ws) = ws"
  by (induction ws rule: spaced.induct) (simp_all add: strsep_word strsep_end)

lemma WEXITSTATUS_range: "0 \<le> WEXITSTATUS s \<and> WEXITSTATUS s < 256"
proof -
  have "s AND 0xff00 \<le> (0xff00 :: u32)" by (rule word_and_le1)
  then have "uint (s AND 0xff00) \<le> 0xff00" by (simp add: word_le_def)
  then have "uint (s AND 0xff00) div 256 < 256" by simp
  then show ?thesis
    by (simp add: WEXITSTATUS_def drop_bit_eq_div uint_div pos_imp_zdiv_nonneg_iff)
qed

section \<open>Parsing inverts printing\<close>

lemma of_char_digit_char: "d < 10 \<Longrightarrow> (of_char (digit_char d) :: nat) = 48 + d"
  by (simp add: digit_char_def)

lemma isdigit_digit_char: "d < 10 \<Longrightarrow> isdigit (digit_char d)"
  by (simp add: isdigit_def less_eq_char_def of_char_digit_char)

lemma digit_val_digit_char: "d < 10 \<Longrightarrow> digit_val (digit_char d) = Some d"
  by (simp add: digit_val_def isdigit_digit_char of_char_digit_char)

lemma is_base_digit_digit_char: "d < 10 \<Longrightarrow> is_base_digit 10 (digit_char d)"
  by (simp add: is_base_digit_def digit_val_digit_char)

lemma fmt_u_digits: "c \<in> set (fmt_u n) \<Longrightarrow> isdigit c"
proof (induction n rule: fmt_u.induct)
  case (1 n)
  then show ?case
    by (subst (asm) (2) fmt_u.simps) (auto simp: isdigit_digit_char split: if_splits)
qed

lemma take_digits_append:
  "(\<And>c. c \<in> set xs \<Longrightarrow> is_base_digit b c) \<Longrightarrow>
   take_digits b acc (xs @ ys) = take_digits b (fst (take_digits b acc xs)) ys"
  by (induction xs arbitrary: acc) simp_all

lemma isdigit_base10: "isdigit c \<Longrightarrow> is_base_digit 10 c"
  by (auto simp: isdigit_def is_base_digit_def digit_val_def less_eq_char_def)

lemma take_digits_fmt_u: "fst (take_digits 10 0 (fmt_u n)) = n"
proof (induction n rule: fmt_u.induct)
  case (1 n)
  show ?case
  proof (cases "n < 10")
    case True
    then show ?thesis
      by (subst fmt_u.simps) (simp add: is_base_digit_digit_char digit_val_digit_char)
  next
    case False
    have dig: "c \<in> set (fmt_u (n div 10)) \<Longrightarrow> is_base_digit 10 c" for c
      by (simp add: fmt_u_digits isdigit_base10)
    from False 1 show ?thesis
      by (subst fmt_u.simps)
        (simp add: take_digits_append dig is_base_digit_digit_char digit_val_digit_char)
  qed
qed

lemma take_digits_stop:
  "(\<And>c. c \<in> set xs \<Longrightarrow> is_base_digit b c) \<Longrightarrow> ys = [] \<or> \<not> is_base_digit b (hd ys) \<Longrightarrow>
   take_digits b acc (xs @ ys) = (fst (take_digits b acc xs), ys)"
  by (cases ys) (use take_digits_append [of xs b acc ys] in simp_all)

lemma hd_fmt_u_nonzero: "0 < n \<Longrightarrow> hd (fmt_u n) \<noteq> CHR ''0''"
proof (induction n rule: fmt_u.induct)
  case (1 n)
  show ?case
  proof (cases "n < 10")
    case True
    then have "(of_char (digit_char n) :: nat) \<noteq> of_char (CHR ''0'')"
      using 1 by (simp add: of_char_digit_char)
    then show ?thesis using True by (subst fmt_u.simps) auto
  next
    case False
    then show ?thesis using 1 by (subst fmt_u.simps) (simp add: hd_append)
  qed
qed

lemma isdigit_not_sign: "isdigit c \<Longrightarrow> c \<noteq> CHR ''-'' \<and> c \<noteq> CHR ''+'' \<and> \<not> isspace c"
  by (auto simp: isdigit_def isspace_def less_eq_char_def)

text \<open>
  A decimal number without leading zeros, followed by something that is not a digit, is read back
  by \<^verbatim>\<open>strtoul\<close> in base 0 or 10.
\<close>

lemma strtoul_fmt_u:
  assumes "n \<le> ULONG_MAX" and "base = 0 \<and> 0 < n \<or> base = 10"
    and tail: "rest = [] \<or> \<not> is_base_digit 10 (hd rest)"
  shows "strtoul (fmt_u n @ rest) base = (word_of_nat n, rest)"
proof -
  obtain c cs where cs: "fmt_u n = c # cs"
    by (cases "fmt_u n") auto
  then have c: "isdigit c" using fmt_u_digits [of c n] by simp
  have dig: "\<And>x. x \<in> set (fmt_u n) \<Longrightarrow> is_base_digit 10 x"
    by (simp add: fmt_u_digits isdigit_base10)
  have drop: "dropWhile isspace (fmt_u n @ rest) = fmt_u n @ rest"
    using c by (simp add: cs isdigit_not_sign)
  have sign: "split_sign (fmt_u n @ rest) = (False, fmt_u n @ rest)"
    using c by (simp add: cs split_sign_def isdigit_not_sign)
  have base: "split_base base (fmt_u n @ rest) = (10, fmt_u n @ rest)"
    using assms(2) hd_fmt_u_nonzero [of n] by (auto simp: cs split_base_def)
  have "take_digits 10 0 (fmt_u n @ rest) = (n, rest)"
    using take_digits_stop [OF dig tail] by (simp add: take_digits_fmt_u)
  then show ?thesis
    using assms(1) dig [of c] by (simp add: strtoul_def drop sign base) (simp add: cs)
qed

lemma strtoul_fmt_u_0: "n \<le> ULONG_MAX \<Longrightarrow> strtoul (fmt_u n) 0 = (word_of_nat n, [])"
proof (cases "n = 0")
  case True
  have "fmt_u 0 = ''0''" by (subst fmt_u.simps) (simp add: digit_char_def char_of_def bit_0)
  then show ?thesis
    using True by (simp add: strtoul_def split_sign_def split_base_def is_base_digit_def digit_val_def isdigit_def isspace_def
        less_eq_char_def ULONG_MAX_def)
qed (use strtoul_fmt_u [of n 0 "[]"] in simp)

lemma atoi_fmt_u:
  assumes "n < 2 ^ 31"
  shows "atoi (fmt_u n) = int n"
proof -
  obtain c cs where cs: "fmt_u n = c # cs"
    by (cases "fmt_u n") auto
  then have c: "isdigit c" using fmt_u_digits [of c n] by simp
  have dig: "\<And>x. x \<in> set (fmt_u n) \<Longrightarrow> is_base_digit 10 x"
    by (simp add: fmt_u_digits isdigit_base10)
  have drop: "dropWhile isspace (fmt_u n) = fmt_u n" using c by (simp add: cs isdigit_not_sign)
  have sign: "split_sign (fmt_u n) = (False, fmt_u n)" using c by (simp add: cs split_sign_def isdigit_not_sign)
  have base: "split_base 10 (fmt_u n) = (10, fmt_u n)" by (simp add: split_base_def)
  have "take_digits 10 0 (fmt_u n) = (n, [])"
    using take_digits_stop [of "fmt_u n" 10 "[]" 0] dig by (simp add: take_digits_fmt_u)
  then have "strtol (fmt_u n) 10 = (int n, [])"
    using assms dig [of c] by (simp add: strtol_def drop sign base) (simp add: cs)
  moreover have "sint (word_of_int (int n) :: u32) = int n"
    using assms by (simp add: signed_of_nat signed_take_bit_int_eq_self)
  ultimately show ?thesis by (simp add: atoi_def)
qed

end
