(* ===== verification/Sys.thy ===== *)
theory Sys
  imports Prelude
begin

text \<open>
  The world outside the daemon: the kernel (netlink, \<^verbatim>\<open>if_nametoindex\<close>), the programs it runs
  (iptables, ip) and the address parsers of the resolver library. None of it is code of this
  repository, so it is a parameter, the record \<open>env\<close>. Every function of it may depend on the
  whole history of what the daemon has done so far, and each interaction is appended to that
  history: a theorem that holds for every \<open>env\<close> holds for every behaviour of the outside world,
  however it answers.
\<close>

text \<open>
  What \<^verbatim>\<open>sendNetlinkRequest\<close> can meet: a system call failed with an errno, the reply had the wrong
  size, or the kernel acknowledged with an error field (0 for success).
\<close>

datatype nl_reply = NlSysError int | NlBadSize int | NlAck int

text \<open>
  Calls of the system and of its libraries that the daemon makes for their effect, with an integer for
  result. \<open>SysFork\<close> is \<^verbatim>\<open>fork\<close> together with the program and the arguments that the child executes;
  \<open>SysLib\<close> is a function of a library, by name, with its arguments as text.
\<close>

datatype syscall =
    SysFork "string list"
  | SysKill int
  | SysWaitpid int
  | SysWaitNoHang int
  | SysClose int
  | SysWriteFd int string
  | SysAccess string
  | SysSystem string
  | SysLib string "string list"

datatype event =
    EvNetlink bytes nl_reply
  | EvIfIndex string u32
  | EvExec "string list" int u32
  | EvRun "string list" int
  | EvWriteFile string string bool
  | EvPopen string "string list option"
  | EvReadFile string cstr
  | EvFprintf string string bool
  | EvResolvDelete u32
  | EvSend int string
  | EvSendErrno int string "int option"
  | EvCall syscall int
  | EvPipe "(int \<times> int) option"
  | EvReadDir string "(string \<times> bool) list option"
  | EvBroadcast int string
  | EvSendData bytes int

record env =
  env_netlink :: "event list \<Rightarrow> bytes \<Rightarrow> nl_reply"
  env_ifindex :: "event list \<Rightarrow> string \<Rightarrow> u32"
  env_exec :: "event list \<Rightarrow> string list \<Rightarrow> int \<times> u32"
  env_run :: "event list \<Rightarrow> string list \<Rightarrow> int"
  env_write :: "event list \<Rightarrow> string \<Rightarrow> string \<Rightarrow> bool"
  env_popen :: "event list \<Rightarrow> string \<Rightarrow> string list option"
  env_read :: "event list \<Rightarrow> string \<Rightarrow> cstr"
  env_inet_pton :: "u8 \<Rightarrow> string \<Rightarrow> bytes option"
  env_getaddrinfo :: "string \<Rightarrow> (u8 \<times> bytes) option"
  env_inet_aton :: "string \<Rightarrow> bytes option"
  env_property :: "string \<Rightarrow> cstr"
  env_strerror :: "int \<Rightarrow> string"
  env_errno :: "event list \<Rightarrow> int"
  env_call :: "event list \<Rightarrow> syscall \<Rightarrow> int"
  env_pipe :: "event list \<Rightarrow> (int \<times> int) option"
  env_readdir :: "event list \<Rightarrow> string \<Rightarrow> (string \<times> bool) list option"

text \<open>The history, newest interaction first. The controllers' records extend this one.\<close>

record sys =
  hist :: "event list"

definition log_event :: "event \<Rightarrow> ('a sys_scheme, unit) state" where
  "log_event ev = modify (hist_update (\<lambda>h. ev # h))"

definition netlink_io :: "env \<Rightarrow> bytes \<Rightarrow> ('a sys_scheme, nl_reply) state" where
  "netlink_io e msg = do {
     h \<leftarrow> gets hist;
     let r = env_netlink e h msg;
     log_event (EvNetlink msg r);
     ret r }"

definition if_nametoindex :: "env \<Rightarrow> string \<Rightarrow> ('a sys_scheme, u32) state" where
  "if_nametoindex e name = do {
     h \<leftarrow> gets hist;
     let i = env_ifindex e h name;
     log_event (EvIfIndex name i);
     ret i }"

text \<open>\<^verbatim>\<open>android_fork_execvp\<close> with a status pointer, and with NULL.\<close>

definition fork_execvp :: "env \<Rightarrow> string list \<Rightarrow> ('a sys_scheme, int \<times> u32) state" where
  "fork_execvp e argv = do {
     h \<leftarrow> gets hist;
     let (res, status) = env_exec e h argv;
     log_event (EvExec argv res status);
     ret (res, status) }"

definition fork_execvp0 :: "env \<Rightarrow> string list \<Rightarrow> ('a sys_scheme, int) state" where
  "fork_execvp0 e argv = do {
     h \<leftarrow> gets hist;
     let res = env_run e h argv;
     log_event (EvRun argv res);
     ret res }"

text \<open>Opening a file for writing and writing a string to it; true when both succeed.\<close>

definition write_path :: "env \<Rightarrow> string \<Rightarrow> string \<Rightarrow> ('a sys_scheme, bool) state" where
  "write_path e path text = do {
     h \<leftarrow> gets hist;
     let ok = env_write e h path text;
     log_event (EvWriteFile path text ok);
     ret ok }"

text \<open>\<^verbatim>\<open>popen\<close> for reading: the lines of the output, or \<^const>\<open>None\<close> for NULL.\<close>

definition popen_read :: "env \<Rightarrow> string \<Rightarrow> ('a sys_scheme, string list option) state" where
  "popen_read e cmd = do {
     h \<leftarrow> gets hist;
     let out = env_popen e h cmd;
     log_event (EvPopen cmd out);
     ret out }"

text \<open>Reading a whole file, \<^const>\<open>None\<close> when it cannot be opened.\<close>

definition read_path :: "env \<Rightarrow> string \<Rightarrow> ('a sys_scheme, cstr) state" where
  "read_path e path = do {
     h \<leftarrow> gets hist;
     let text = env_read e h path;
     log_event (EvReadFile path text);
     ret text }"

text \<open>
  \<^verbatim>\<open>fopen\<close> for writing, and \<^verbatim>\<open>fprintf\<close> and \<^verbatim>\<open>fclose\<close> whose results nobody looks at: true when the file could be
  opened.
\<close>

definition fprintf_path :: "env \<Rightarrow> string \<Rightarrow> string \<Rightarrow> ('a sys_scheme, bool) state" where
  "fprintf_path e path text = do {
     h \<leftarrow> gets hist;
     let opened = env_write e h path text;
     log_event (EvFprintf path text opened);
     ret opened }"

definition call_sys :: "env \<Rightarrow> syscall \<Rightarrow> ('a sys_scheme, int) state" where
  "call_sys e c = do {
     h \<leftarrow> gets hist;
     let r = env_call e h c;
     log_event (EvCall c r);
     ret r }"

text \<open>\<^verbatim>\<open>pipe\<close>: the ends for reading and for writing.\<close>

definition pipe_sys :: "env \<Rightarrow> ('a sys_scheme, (int \<times> int) option) state" where
  "pipe_sys e = do {
     h \<leftarrow> gets hist;
     let r = env_pipe e h;
     log_event (EvPipe r);
     ret r }"

text \<open>\<^verbatim>\<open>opendir\<close> and all of \<^verbatim>\<open>readdir\<close>: the names with the information whether each is a directory.\<close>

definition read_dir :: "env \<Rightarrow> string \<Rightarrow> ('a sys_scheme, (string \<times> bool) list option) state" where
  "read_dir e path = do {
     h \<leftarrow> gets hist;
     let r = env_readdir e h path;
     log_event (EvReadDir path r);
     ret r }"

text \<open>
  An outside world in which every request succeeds, for examples: all interfaces have the same index.
\<close>

definition sample_env :: env where
  "sample_env =
     \<lparr>env_netlink = (\<lambda>h msg. NlAck 0), env_ifindex = (\<lambda>h n. 7), env_exec = (\<lambda>h argv. (0, 0)),
      env_run = (\<lambda>h argv. 0), env_write = (\<lambda>h p t. True), env_popen = (\<lambda>h c. None), env_read = (\<lambda>h p. None),
      env_inet_pton = (\<lambda>f a. None), env_getaddrinfo = (\<lambda>a. None),
      env_inet_aton = (\<lambda>a. None), env_property = (\<lambda>k. None), env_strerror = (\<lambda>n. ''error''),
      env_errno = (\<lambda>h. 0), env_call = (\<lambda>h c. 0),
      env_pipe = (\<lambda>h. None), env_readdir = (\<lambda>h p. None)\<rparr>"

section \<open>Evaluation and frame\<close>

lemma run_log_event [simp, run_simps]: "run_state (log_event ev) s = ((), s\<lparr>hist := ev # hist s\<rparr>)"
  by (simp add: log_event_def)

lemma run_netlink_io [run_simps]:
  "run_state (netlink_io e msg) s =
     (env_netlink e (hist s) msg, s\<lparr>hist := EvNetlink msg (env_netlink e (hist s) msg) # hist s\<rparr>)"
  by (simp add: netlink_io_def Let_def)

lemma run_if_nametoindex [run_simps]:
  "run_state (if_nametoindex e n) s =
     (env_ifindex e (hist s) n, s\<lparr>hist := EvIfIndex n (env_ifindex e (hist s) n) # hist s\<rparr>)"
  by (simp add: if_nametoindex_def Let_def)

lemma run_fork_execvp [run_simps]:
  "run_state (fork_execvp e argv) s =
     (env_exec e (hist s) argv,
      s\<lparr>hist := EvExec argv (fst (env_exec e (hist s) argv)) (snd (env_exec e (hist s) argv)) # hist s\<rparr>)"
  by (cases "env_exec e (hist s) argv") (simp add: fork_execvp_def Let_def)

lemma run_fork_execvp0 [run_simps]:
  "run_state (fork_execvp0 e argv) s =
     (env_run e (hist s) argv, s\<lparr>hist := EvRun argv (env_run e (hist s) argv) # hist s\<rparr>)"
  by (simp add: fork_execvp0_def Let_def)

lemma run_write_path [run_simps]:
  "run_state (write_path e p t) s =
     (env_write e (hist s) p t, s\<lparr>hist := EvWriteFile p t (env_write e (hist s) p t) # hist s\<rparr>)"
  by (simp add: write_path_def Let_def)

lemma run_popen_read [run_simps]:
  "run_state (popen_read e c) s =
     (env_popen e (hist s) c, s\<lparr>hist := EvPopen c (env_popen e (hist s) c) # hist s\<rparr>)"
  by (simp add: popen_read_def Let_def)

lemma run_read_path [run_simps]:
  "run_state (read_path e p) s =
     (env_read e (hist s) p, s\<lparr>hist := EvReadFile p (env_read e (hist s) p) # hist s\<rparr>)"
  by (simp add: read_path_def Let_def)

lemma run_fprintf_path [run_simps]:
  "run_state (fprintf_path e p t) s =
     (env_write e (hist s) p t, s\<lparr>hist := EvFprintf p t (env_write e (hist s) p t) # hist s\<rparr>)"
  by (simp add: fprintf_path_def Let_def)

lemma run_call_sys [run_simps]:
  "run_state (call_sys e c) s = (env_call e (hist s) c, s\<lparr>hist := EvCall c (env_call e (hist s) c) # hist s\<rparr>)"
  by (simp add: call_sys_def Let_def)

lemma run_pipe_sys [run_simps]:
  "run_state (pipe_sys e) s = (env_pipe e (hist s), s\<lparr>hist := EvPipe (env_pipe e (hist s)) # hist s\<rparr>)"
  by (simp add: pipe_sys_def Let_def)

lemma run_read_dir [run_simps]:
  "run_state (read_dir e p) s = (env_readdir e (hist s) p, s\<lparr>hist := EvReadDir p (env_readdir e (hist s) p) # hist s\<rparr>)"
  by (simp add: read_dir_def Let_def)

text \<open>
  The events that neither start nor end a child, and the predicates that such events do not change. They are kept by every
  interaction other than \<^verbatim>\<open>fork\<close> and \<^verbatim>\<open>waitpid\<close>.
\<close>

fun quiet :: "event \<Rightarrow> bool" where
  "quiet (EvCall (SysFork argv) r) = False"
| "quiet (EvCall (SysWaitpid pid) r) = False"
| "quiet (EvCall (SysWaitNoHang pid) r) = False"
| "quiet _ = True"

definition hist_free :: "('a sys_scheme \<Rightarrow> bool) \<Rightarrow> bool" where
  "hist_free I \<longleftrightarrow> (\<forall>s ev. quiet ev \<longrightarrow> I (s\<lparr>hist := ev # hist s\<rparr>) = I s)"

lemma hist_freeD [simp]: "hist_free I \<Longrightarrow> quiet ev \<Longrightarrow> I (s\<lparr>hist := ev # hist s\<rparr>) = I s"
  by (simp add: hist_free_def)

lemma keeps_log_event [wp]: "hist_free I \<Longrightarrow> quiet ev \<Longrightarrow> keeps I (log_event ev)"
  by (simp add: hoare_def)

lemma keeps_netlink_io [wp]: "hist_free I \<Longrightarrow> keeps I (netlink_io e msg)"
  by (simp add: hoare_def run_netlink_io)

lemma keeps_if_nametoindex [wp]: "hist_free I \<Longrightarrow> keeps I (if_nametoindex e n)"
  by (simp add: hoare_def run_if_nametoindex)

lemma keeps_fork_execvp [wp]: "hist_free I \<Longrightarrow> keeps I (fork_execvp e argv)"
  by (auto simp: hoare_def run_fork_execvp split: prod.splits)

lemma keeps_fork_execvp0 [wp]: "hist_free I \<Longrightarrow> keeps I (fork_execvp0 e argv)"
  by (simp add: hoare_def run_fork_execvp0)

lemma keeps_write_path [wp]: "hist_free I \<Longrightarrow> keeps I (write_path e p t)"
  by (simp add: hoare_def run_write_path)

lemma keeps_popen_read [wp]: "hist_free I \<Longrightarrow> keeps I (popen_read e c)"
  by (simp add: hoare_def run_popen_read)

lemma keeps_read_path [wp]: "hist_free I \<Longrightarrow> keeps I (read_path e p)"
  by (simp add: hoare_def run_read_path)

lemma keeps_fprintf_path [wp]: "hist_free I \<Longrightarrow> keeps I (fprintf_path e p t)"
  by (simp add: hoare_def run_fprintf_path)

lemma keeps_pipe_read_dir [wp]: "hist_free I \<Longrightarrow> keeps I (pipe_sys e)" "hist_free I \<Longrightarrow> keeps I (read_dir e p)"
  by (simp_all add: hoare_def run_pipe_sys run_read_dir)

lemma keeps_call_sys [wp]:
  "hist_free I \<Longrightarrow> keeps I (call_sys e (SysLib f args))" "hist_free I \<Longrightarrow> keeps I (call_sys e (SysWriteFd fd text))"
  "hist_free I \<Longrightarrow> keeps I (call_sys e (SysClose fd))" "hist_free I \<Longrightarrow> keeps I (call_sys e (SysKill pid))"
  "hist_free I \<Longrightarrow> keeps I (call_sys e (SysAccess path))" "hist_free I \<Longrightarrow> keeps I (call_sys e (SysSystem cmd))"
  by (simp_all add: hoare_def run_call_sys)

end
