(* ===== verification/NetdConstants.thy ===== *)
theory NetdConstants
  imports CLib Sys
begin

text \<open>
  \<^verbatim>\<open>server/NetdConstants.cpp\<close>: running iptables for one or both IP versions, the plausibility check
  of interface names, and the parser of address prefixes.
\<close>

section \<open>Model\<close>

definition IPTABLES_PATH :: string where "IPTABLES_PATH = ''/system/bin/iptables''"
definition IP6TABLES_PATH :: string where "IP6TABLES_PATH = ''/system/bin/ip6tables''"
definition IP_PATH :: string where "IP_PATH = ''/system/bin/ip''"

datatype IptablesTarget = V4 | V6 | V4V6

definition IFNAMSIZ :: nat where "IFNAMSIZ = 16"

definition AF_INET :: u8 where "AF_INET = 2"
definition AF_INET6 :: u8 where "AF_INET6 = 10"

text \<open>The \<^verbatim>\<open>silent\<close> flag chooses only what is logged.\<close>

definition execIptablesCommand :: "env \<Rightarrow> string list \<Rightarrow> ('a sys_scheme, int) state" where
  "execIptablesCommand e argv = do {
     (res, status) \<leftarrow> fork_execvp e argv;
     if res \<noteq> 0 then ret res
     else if \<not> WIFEXITED status then ret ECHILD
     else ret (WEXITSTATUS status) }"

definition execIptables :: "env \<Rightarrow> IptablesTarget \<Rightarrow> string list \<Rightarrow> ('a sys_scheme, int) state" where
  "execIptables e target args = do {
     res4 \<leftarrow> (if target = V4 \<or> target = V4V6 then execIptablesCommand e (IPTABLES_PATH # args) else ret 0);
     res6 \<leftarrow> (if target = V6 \<or> target = V4V6 then execIptablesCommand e (IP6TABLES_PATH # args) else ret 0);
     ret (res4 OR res6) }"

definition writeFile :: "env \<Rightarrow> string \<Rightarrow> string \<Rightarrow> ('a sys_scheme, int) state" where
  "writeFile e path value = do { ok \<leftarrow> write_path e path value; ret (if ok then 0 else - 1) }"

text \<open>
  The result, and what is in the buffer of the given size: the beginning of the file, \<^const>\<open>None\<close> when it could not be read.
\<close>

definition readFile :: "env \<Rightarrow> string \<Rightarrow> nat \<Rightarrow> ('a sys_scheme, int \<times> cstr) state" where
  "readFile e path sizep = do {
     text \<leftarrow> read_path e path;
     ret (case text of None \<Rightarrow> (- 1, None) | Some t \<Rightarrow> (0, Some (take sizep t))) }"

definition iface_char :: "char \<Rightarrow> bool" where
  "iface_char c \<longleftrightarrow> isalnum c \<or> c = CHR ''_'' \<or> c = CHR ''-'' \<or> c = CHR '':''"

definition isIfaceName :: "string \<Rightarrow> bool" where
  "isIfaceName name =
     (if length name = 0 \<or> length name > IFNAMSIZ then False
      else if \<not> isalnum (hd name) then False
      else list_all iface_char (tl name))"

text \<open>
  \<^verbatim>\<open>parsePrefix\<close> with non-NULL output pointers: a negative errno, or the family, the raw address
  (whose length is the result of the C function) and the prefix length. \<^verbatim>\<open>unsigned templen\<close> keeps
  32 of the 64 bits that \<^verbatim>\<open>strtoul\<close> returns.
\<close>

definition parsePrefix :: "env \<Rightarrow> cstr \<Rightarrow> nat \<Rightarrow> int + (u8 \<times> bytes \<times> u8)" where
  "parsePrefix e pfx buflen =
     (case pfx of
        None \<Rightarrow> Inl (- EFAULT)
      | Some p \<Rightarrow>
          (case strchr p (CHR ''/'') of
             None \<Rightarrow> Inl (- EINVAL)
           | Some (addressString, prefixlenString) \<Rightarrow>
               if prefixlenString = [] then Inl (- EINVAL)
               else let (v, endptr) = strtoul prefixlenString 10; templen = ucast v :: u32
                    in if endptr \<noteq> [] \<or> templen > 255 then Inl (- EINVAL)
                       else let prefixlen = ucast templen :: u8
                            in (case env_getaddrinfo e addressString of
                                 None \<Rightarrow> Inl (- EINVAL)
                               | Some (family, raw) \<Rightarrow>
                                   if family = AF_INET then
                                     if prefixlen > 32 then Inl (- EINVAL)
                                     else if 4 > buflen then Inl (- ENOSPC)
                                     else Inr (family, take 4 raw, prefixlen)
                                   else if family = AF_INET6 then
                                     if prefixlen > 128 then Inl (- EINVAL)
                                     else if 16 > buflen then Inl (- ENOSPC)
                                     else Inr (family, take 16 raw, prefixlen)
                                   else Inl (- EAFNOSUPPORT))))"

section \<open>Lemmas\<close>

lemma paths_distinct [simp]: "IPTABLES_PATH \<noteq> IP6TABLES_PATH" "IP6TABLES_PATH \<noteq> IPTABLES_PATH"
  by (simp_all add: IPTABLES_PATH_def IP6TABLES_PATH_def)

lemma keeps_execIptablesCommand [wp]: "hist_free I \<Longrightarrow> keeps I (execIptablesCommand e argv)"
  unfolding execIptablesCommand_def by (auto intro!: wp split: prod.split)

lemma keeps_execIptables [wp]: "hist_free I \<Longrightarrow> keeps I (execIptables e t args)"
  unfolding execIptables_def by (auto intro!: wp)

lemma int_or_eq_0 [simp]: "(a OR b :: int) = 0 \<longleftrightarrow> a = 0 \<and> b = 0"
  by (simp add: or_eq_0_iff)

lemma isIfaceName_chars: "isIfaceName name \<Longrightarrow> c \<in> set name \<Longrightarrow> iface_char c"
  by (cases name) (auto simp: isIfaceName_def iface_char_def list_all_iff split: if_splits)

lemma isIfaceName_length: "isIfaceName name \<Longrightarrow> 0 < length name \<and> length name \<le> 16"
  by (auto simp: isIfaceName_def IFNAMSIZ_def split: if_splits)

lemma iface_char_safe: "iface_char c \<Longrightarrow> c \<noteq> CHR ''/'' \<and> c \<noteq> CHR '' '' \<and> c \<noteq> CHR ''.''"
  by (auto simp: iface_char_def isalnum_def isdigit_def less_eq_char_def)

end
