(* ===== verification/Netlink.thy ===== *)
theory Netlink
  imports NetdConstants
begin

text \<open>
  The netlink part of \<^verbatim>\<open>server/RouteController.cpp\<close>: how rule and route requests are laid out in
  memory (little-endian hosts), how they are sent, and, as a specification, how the kernel reads
  such a message back: a header, a fixed-size struct, then attributes aligned to four bytes.
\<close>

section \<open>Model\<close>

definition le16 :: "u16 \<Rightarrow> bytes" where
  "le16 w = [ucast w, ucast (drop_bit 8 w)]"

definition le32 :: "u32 \<Rightarrow> bytes" where
  "le32 w = [ucast w, ucast (drop_bit 8 w), ucast (drop_bit 16 w), ucast (drop_bit 24 w)]"

definition str_bytes :: "string \<Rightarrow> bytes" where
  "str_bytes s = map (\<lambda>c. word_of_nat (of_char c)) s"

definition NLM_F_REQUEST :: u16 where "NLM_F_REQUEST = 1"
definition NLM_F_ACK :: u16 where "NLM_F_ACK = 4"
definition NLM_F_EXCL :: u16 where "NLM_F_EXCL = 0x200"
definition NLM_F_CREATE :: u16 where "NLM_F_CREATE = 0x400"

definition NETLINK_REQUEST_FLAGS :: u16 where
  "NETLINK_REQUEST_FLAGS = NLM_F_REQUEST OR NLM_F_ACK"
definition NETLINK_CREATE_REQUEST_FLAGS :: u16 where
  "NETLINK_CREATE_REQUEST_FLAGS = NETLINK_REQUEST_FLAGS OR NLM_F_CREATE OR NLM_F_EXCL"

definition RTM_NEWROUTE :: u16 where "RTM_NEWROUTE = 24"
definition RTM_DELROUTE :: u16 where "RTM_DELROUTE = 25"
definition RTM_NEWRULE :: u16 where "RTM_NEWRULE = 32"
definition RTM_DELRULE :: u16 where "RTM_DELRULE = 33"

definition FRA_IIFNAME :: u16 where "FRA_IIFNAME = 3"
definition FRA_PRIORITY :: u16 where "FRA_PRIORITY = 6"
definition FRA_FWMARK :: u16 where "FRA_FWMARK = 10"
definition FRA_TABLE :: u16 where "FRA_TABLE = 15"
definition FRA_FWMASK :: u16 where "FRA_FWMASK = 16"
definition FRA_OIFNAME :: u16 where "FRA_OIFNAME = 17"
definition FRA_UID_START :: u16 where "FRA_UID_START = 18"
definition FRA_UID_END :: u16 where "FRA_UID_END = 19"
lemmas FRA_defs = FRA_IIFNAME_def FRA_PRIORITY_def FRA_FWMARK_def FRA_TABLE_def FRA_FWMASK_def
  FRA_OIFNAME_def FRA_UID_START_def FRA_UID_END_def

definition FR_ACT_TO_TBL :: u8 where "FR_ACT_TO_TBL = 1"
definition FR_ACT_UNREACHABLE :: u8 where "FR_ACT_UNREACHABLE = 7"

definition RT_TABLE_UNSPEC :: u32 where "RT_TABLE_UNSPEC = 0"

definition RTA_ALIGN :: "nat \<Rightarrow> nat" where
  "RTA_ALIGN n = (n + 3) div 4 * 4"
definition RTA_LENGTH :: "nat \<Rightarrow> nat" where
  "RTA_LENGTH n = 4 + n"
definition RTA_SPACE :: "nat \<Rightarrow> nat" where
  "RTA_SPACE n = RTA_ALIGN (RTA_LENGTH n)"

text \<open>A \<^verbatim>\<open>struct rtattr\<close> for a payload of the given length.\<close>

definition rtattr :: "nat \<Rightarrow> u16 \<Rightarrow> bytes" where
  "rtattr len type = le16 (word_of_nat (RTA_LENGTH len)) @ le16 type"

text \<open>Two entries of an iovec array that are both empty when the attribute is left out.\<close>

definition attr_iov :: "bool \<Rightarrow> u16 \<Rightarrow> bytes \<Rightarrow> bytes list" where
  "attr_iov present type payload =
     [if present then rtattr (length payload) type else [], if present then payload else []]"

definition nlmsghdr :: "u32 \<Rightarrow> u16 \<Rightarrow> u16 \<Rightarrow> bytes" where
  "nlmsghdr len type flags = le32 len @ le16 type @ le16 flags @ le32 0 @ le32 0"

text \<open>
  The bytes that \<^verbatim>\<open>writev\<close> hands to the kernel: \<^verbatim>\<open>iov[0]\<close> is the header, whose length field is the sum
  of all the \<^verbatim>\<open>iov_len\<close>s.
\<close>

definition netlink_message :: "u16 \<Rightarrow> u16 \<Rightarrow> bytes list \<Rightarrow> bytes" where
  "netlink_message action flags iov =
     nlmsghdr (word_of_nat (16 + sum_list (map length iov))) action flags @ concat iov"

definition sendNetlinkRequest ::
  "env \<Rightarrow> u16 \<Rightarrow> u16 \<Rightarrow> bytes list \<Rightarrow> ('a sys_scheme, int) state" where
  "sendNetlinkRequest e action flags iov = do {
     r \<leftarrow> netlink_io e (netlink_message action flags iov);
     ret (case r of NlAck err \<Rightarrow> err | NlBadSize _ \<Rightarrow> - EBADMSG | NlSysError errno \<Rightarrow> - errno) }"

text \<open>
  \<^verbatim>\<open>padInterfaceName\<close>: an errno, or the bytes of the name with one NUL (none at all for a NULL
  name) and the number of padding bytes.
\<close>

definition padInterfaceName :: "cstr \<Rightarrow> int + (bytes \<times> nat)" where
  "padInterfaceName input =
     (case input of
        None \<Rightarrow> Inr ([], 0)
      | Some name \<Rightarrow>
          let len = length name + 1
          in if len > IFNAMSIZ then Inl (- ENAMETOOLONG)
             else Inr (str_bytes name @ [0], RTA_SPACE len - RTA_LENGTH len))"

definition fib_rule_hdr :: "u8 \<Rightarrow> u8 \<Rightarrow> bytes" where
  "fib_rule_hdr family action = [family, 0, 0, 0, 0, 0, 0, action, 0, 0, 0, 0]"

definition name_iov :: "cstr \<Rightarrow> u16 \<Rightarrow> bytes \<Rightarrow> nat \<Rightarrow> bytes list" where
  "name_iov name type nameBytes padding =
     [if name \<noteq> None then rtattr (length nameBytes) type else [], nameBytes, replicate padding 0]"

text \<open>The iovec array of \<^verbatim>\<open>modifyIpRule\<close>, after \<^verbatim>\<open>iov[0]\<close>.\<close>

definition rule_iov ::
  "u8 \<Rightarrow> u32 \<Rightarrow> u32 \<Rightarrow> u32 \<Rightarrow> u32 \<Rightarrow> cstr \<Rightarrow> bytes \<times> nat \<Rightarrow> cstr \<Rightarrow> bytes \<times> nat \<Rightarrow> bool \<Rightarrow> u32 \<Rightarrow> u32 \<Rightarrow> bytes list" where
  "rule_iov family priority table fwmark fwmask iif iifp oif oifp isUidRule uidStart uidEnd =
     [fib_rule_hdr family (if table \<noteq> RT_TABLE_UNSPEC then FR_ACT_TO_TBL else FR_ACT_UNREACHABLE)] @
     attr_iov True FRA_PRIORITY (le32 priority) @
     attr_iov (table \<noteq> RT_TABLE_UNSPEC) FRA_TABLE (le32 table) @
     attr_iov (fwmask \<noteq> 0) FRA_FWMARK (le32 fwmark) @
     attr_iov (fwmask \<noteq> 0) FRA_FWMASK (le32 fwmask) @
     attr_iov isUidRule FRA_UID_START (le32 uidStart) @
     attr_iov isUidRule FRA_UID_END (le32 uidEnd) @
     name_iov iif FRA_IIFNAME (fst iifp) (snd iifp) @
     name_iov oif FRA_OIFNAME (fst oifp) (snd oifp)"

section \<open>Specification: how the kernel reads a rule request\<close>

definition rd16 :: "bytes \<Rightarrow> u16" where
  "rd16 bs = ucast (bs ! 0) OR push_bit 8 (ucast (bs ! 1))"

definition rd32 :: "bytes \<Rightarrow> u32" where
  "rd32 bs = ucast (bs ! 0) OR push_bit 8 (ucast (bs ! 1)) OR push_bit 16 (ucast (bs ! 2)) OR
             push_bit 24 (ucast (bs ! 3))"

function parse_attrs :: "bytes \<Rightarrow> (u16 \<times> bytes) list option" where
  "parse_attrs bs =
     (if bs = [] then Some []
      else if length bs < 4 then None
      else let len = unat (rd16 bs); type = rd16 (drop 2 bs)
           in if len < 4 \<or> length bs < len then None
              else map_option (Cons (type, take (len - 4) (drop 4 bs)))
                     (parse_attrs (drop (RTA_ALIGN len) bs)))"
  by pat_completeness auto
termination
proof (relation "measure length", goal_cases)
  case (2 bs len type)
  then have "4 \<le> len" by simp
  then have "4 \<le> RTA_ALIGN len" unfolding RTA_ALIGN_def by linarith
  with 2 show ?case by simp
qed simp

declare parse_attrs.simps [simp del]

text \<open>The kernel's reading of a name attribute (\<^verbatim>\<open>nla_strlcpy\<close>): a final NUL is dropped.\<close>

definition nla_string :: "bytes \<Rightarrow> string" where
  "nla_string bs = map (\<lambda>b. char_of (unat b)) (if bs \<noteq> [] \<and> last bs = 0 then butlast bs else bs)"

record fib_rule =
  fr_family :: u8
  fr_action :: u8
  fr_priority :: "u32 option"
  fr_table :: "u32 option"
  fr_mark :: "u32 option"
  fr_mask :: "u32 option"
  fr_uid_start :: "u32 option"
  fr_uid_end :: "u32 option"
  fr_iif :: "string option"
  fr_oif :: "string option"

definition rule_of_attrs :: "u8 \<Rightarrow> u8 \<Rightarrow> (u16 \<times> bytes) list \<Rightarrow> fib_rule" where
  "rule_of_attrs family action as =
     \<lparr>fr_family = family, fr_action = action,
      fr_priority = map_option rd32 (map_of as FRA_PRIORITY),
      fr_table = map_option rd32 (map_of as FRA_TABLE),
      fr_mark = map_option rd32 (map_of as FRA_FWMARK),
      fr_mask = map_option rd32 (map_of as FRA_FWMASK),
      fr_uid_start = map_option rd32 (map_of as FRA_UID_START),
      fr_uid_end = map_option rd32 (map_of as FRA_UID_END),
      fr_iif = map_option nla_string (map_of as FRA_IIFNAME),
      fr_oif = map_option nla_string (map_of as FRA_OIFNAME)\<rparr>"

text \<open>A well-formed rule message: its type, its flags and the rule; the length field must be exact.\<close>

definition parse_rule_msg :: "bytes \<Rightarrow> (u16 \<times> u16 \<times> fib_rule) option" where
  "parse_rule_msg msg =
     (if length msg < 28 \<or> unat (rd32 msg) \<noteq> length msg then None
      else map_option
             (\<lambda>as. (rd16 (drop 4 msg), rd16 (drop 6 msg), rule_of_attrs (msg ! 16) (msg ! 23) as))
             (parse_attrs (drop 28 msg)))"

text \<open>The rule that the arguments of \<^verbatim>\<open>modifyIpRule\<close> describe.\<close>

definition the_rule ::
  "u8 \<Rightarrow> u32 \<Rightarrow> u32 \<Rightarrow> u32 \<Rightarrow> u32 \<Rightarrow> cstr \<Rightarrow> cstr \<Rightarrow> (u32 \<times> u32) option \<Rightarrow> fib_rule" where
  "the_rule family priority table fwmark fwmask iif oif uids =
     \<lparr>fr_family = family,
      fr_action = (if table \<noteq> 0 then FR_ACT_TO_TBL else FR_ACT_UNREACHABLE),
      fr_priority = Some priority,
      fr_table = (if table \<noteq> 0 then Some table else None),
      fr_mark = (if fwmask \<noteq> 0 then Some fwmark else None),
      fr_mask = (if fwmask \<noteq> 0 then Some fwmask else None),
      fr_uid_start = map_option fst uids, fr_uid_end = map_option snd uids,
      fr_iif = iif, fr_oif = oif\<rparr>"

text \<open>The attributes of a rule request, as the kernel sees them.\<close>

definition rule_attrs ::
  "u32 \<Rightarrow> u32 \<Rightarrow> u32 \<Rightarrow> u32 \<Rightarrow> cstr \<Rightarrow> cstr \<Rightarrow> bool \<Rightarrow> u32 \<Rightarrow> u32 \<Rightarrow> (u16 \<times> bytes) list" where
  "rule_attrs priority table fwmark fwmask iif oif isUidRule uidStart uidEnd =
     [(FRA_PRIORITY, le32 priority)] @
     (if table \<noteq> RT_TABLE_UNSPEC then [(FRA_TABLE, le32 table)] else []) @
     (if fwmask \<noteq> 0 then [(FRA_FWMARK, le32 fwmark), (FRA_FWMASK, le32 fwmask)] else []) @
     (if isUidRule then [(FRA_UID_START, le32 uidStart), (FRA_UID_END, le32 uidEnd)] else []) @
     (case iif of None \<Rightarrow> [] | Some s \<Rightarrow> [(FRA_IIFNAME, str_bytes s @ [0])]) @
     (case oif of None \<Rightarrow> [] | Some s \<Rightarrow> [(FRA_OIFNAME, str_bytes s @ [0])])"

section \<open>Lemmas\<close>

lemma length_le16 [simp]: "length (le16 w) = 2"
  by (simp add: le16_def)

lemma length_le32 [simp]: "length (le32 w) = 4"
  by (simp add: le32_def)

lemma length_rtattr [simp]: "length (rtattr n t) = 4"
  by (simp add: rtattr_def)

lemma length_nlmsghdr [simp]: "length (nlmsghdr l t f) = 16"
  by (simp add: nlmsghdr_def)

lemma rd16_le16 [simp]: "rd16 (le16 w @ bs) = w"
  by (rule bit_word_eqI) (auto simp: rd16_def le16_def bit_simps)

lemma rd32_le32 [simp]: "rd32 (le32 w @ bs) = w"
proof (rule bit_word_eqI)
  fix n assume "n < LENGTH(32)"
  then consider "n < 8" | "8 \<le> n" "n < 16" | "16 \<le> n" "n < 24" | "24 \<le> n" "n < 32"
    by (simp, linarith)
  then show "bit (rd32 (le32 w @ bs)) n = bit w n"
    by cases (auto simp: rd32_def le32_def bit_simps)
qed

lemma rd32_le32' [simp]: "rd32 (le32 w) = w"
  using rd32_le32 [of w "[]"] by simp

lemma RTA_ALIGN_dvd: "4 dvd RTA_ALIGN n" and RTA_ALIGN_ge: "n \<le> RTA_ALIGN n"
  by (simp_all add: RTA_ALIGN_def)

text \<open>One attribute in front of the rest of a message.\<close>

lemma parse_attrs_Cons:
  assumes "length payload < 1000" and pad: "length padding = RTA_SPACE (length payload) - RTA_LENGTH (length payload)"
  shows "parse_attrs (rtattr (length payload) t @ payload @ padding @ rest) =
         map_option (Cons (t, payload)) (parse_attrs rest)"
proof -
  let ?n = "length payload"
  let ?bs = "rtattr ?n t @ payload @ padding @ rest"
  have "rd16 ?bs = word_of_nat (4 + ?n)"
    unfolding rtattr_def RTA_LENGTH_def by (simp only: append_assoc rd16_le16)
  moreover have "unat (word_of_nat (4 + ?n) :: u16) = 4 + ?n"
    using assms(1) unfolding unat_of_nat by simp
  ultimately have len: "unat (rd16 ?bs) = 4 + ?n" by simp
  have type: "rd16 (drop 2 ?bs) = t"
    by (simp add: rtattr_def)
  have "RTA_ALIGN (4 + ?n) = 4 + (?n + length padding)"
    using pad RTA_ALIGN_ge [of "4 + ?n"] by (simp add: RTA_SPACE_def RTA_LENGTH_def)
  then have rest: "drop (RTA_ALIGN (4 + ?n)) ?bs = rest"
    by (simp add: drop_append)
  have payload: "take ?n (drop 4 ?bs) = payload" "4 + ?n \<le> length ?bs" "?bs \<noteq> []"
    by (auto simp: rtattr_def le16_def)
  have step: "parse_attrs bs = map_option (Cons (t, payload)) (parse_attrs rest)"
    if "unat (rd16 bs) = 4 + ?n" "rd16 (drop 2 bs) = t" "drop (RTA_ALIGN (4 + ?n)) bs = rest"
      "take ?n (drop 4 bs) = payload" "4 + ?n \<le> length bs" "bs \<noteq> []" for bs
    using that by (subst parse_attrs.simps) simp
  show ?thesis
    by (rule step) (fact len type rest payload)+
qed

lemma parse_attrs_le32:
  "parse_attrs (rtattr 4 t @ le32 v @ rest) = map_option (Cons (t, le32 v)) (parse_attrs rest)"
  using parse_attrs_Cons [of "le32 v" "[]" t rest] by (simp add: RTA_SPACE_def RTA_LENGTH_def RTA_ALIGN_def)

lemma parse_attrs_attr_iov:
  "parse_attrs (concat (attr_iov p t (le32 v)) @ rest) =
     (if p then map_option (Cons (t, le32 v)) (parse_attrs rest) else parse_attrs rest)"
  by (simp add: attr_iov_def parse_attrs_le32)

lemma length_str_bytes [simp]: "length (str_bytes s) = length s"
  by (simp add: str_bytes_def)

lemma parse_attrs_name_iov:
  assumes "padInterfaceName name = Inr (bs, n)"
  shows "parse_attrs (concat (name_iov name t bs n) @ rest) =
     (case name of None \<Rightarrow> parse_attrs rest
      | Some s \<Rightarrow> map_option (Cons (t, str_bytes s @ [0])) (parse_attrs rest))"
proof (cases name)
  case None
  with assms show ?thesis by (simp add: padInterfaceName_def name_iov_def)
next
  case (Some s)
  with assms have bs: "bs = str_bytes s @ [0]" "length bs < 1000"
    and n: "n = RTA_SPACE (length bs) - RTA_LENGTH (length bs)"
    by (auto simp: padInterfaceName_def Let_def IFNAMSIZ_def split: if_splits)
  with parse_attrs_Cons [OF bs(2), of "replicate n 0" t rest] Some show ?thesis
    by (simp add: name_iov_def)
qed

lemma nla_string_str_bytes [simp]: "nla_string (str_bytes s @ [0]) = s"
proof -
  have "(of_char c :: nat) < 256" for c
    using of_char_mod_256 [of c, where ?'a = nat] by (metis mod_less_divisor zero_less_numeral)
  then have "char_of (unat (word_of_nat (of_char c) :: u8)) = c" for c
    by (simp add: unat_of_nat take_bit_nat_eq_self)
  then show ?thesis
    by (simp add: nla_string_def str_bytes_def comp_def)
qed

lemma length_concat_name_iov:
  "padInterfaceName name = Inr (bs, n) \<Longrightarrow> length (concat (name_iov name t bs n)) \<le> 24"
  by (auto simp: padInterfaceName_def name_iov_def IFNAMSIZ_def RTA_SPACE_def RTA_LENGTH_def
      RTA_ALIGN_def Let_def split: option.splits if_splits)

lemma sum_length_concat: "sum_list (map length xs) = length (concat xs)"
  by (simp add: length_concat)

lemma parse_attrs_Nil [simp]: "parse_attrs [] = Some []"
  by (subst parse_attrs.simps) simp

lemma FRA_distinct [simp]:
  "distinct [FRA_IIFNAME, FRA_PRIORITY, FRA_FWMARK, FRA_TABLE, FRA_FWMASK, FRA_OIFNAME, FRA_UID_START, FRA_UID_END]"
  by (simp add: FRA_defs)

lemma parse_attrs_name_iov_last:
  "padInterfaceName name = Inr (bs, n) \<Longrightarrow>
   parse_attrs (concat (name_iov name t bs n)) =
     Some (case name of None \<Rightarrow> [] | Some s \<Rightarrow> [(t, str_bytes s @ [0])])"
  using parse_attrs_name_iov [of name bs n t "[]"] by (simp split: option.splits)

lemma parse_attrs_rule_iov:
  assumes "padInterfaceName iif = Inr iifp" and "padInterfaceName oif = Inr oifp"
  shows "parse_attrs (concat (tl (rule_iov family priority table fwmark fwmask iif iifp oif oifp u us ue))) =
         Some (rule_attrs priority table fwmark fwmask iif oif u us ue)"
proof -
  obtain ib ip ob op where eq: "iifp = (ib, ip)" "oifp = (ob, op)" by (metis prod.exhaust)
  have names: "parse_attrs (concat (name_iov iif FRA_IIFNAME ib ip) @ concat (name_iov oif FRA_OIFNAME ob op)) =
     Some ((case iif of None \<Rightarrow> [] | Some s \<Rightarrow> [(FRA_IIFNAME, str_bytes s @ [0])]) @
           (case oif of None \<Rightarrow> [] | Some s \<Rightarrow> [(FRA_OIFNAME, str_bytes s @ [0])]))"
    unfolding parse_attrs_name_iov [OF assms(1) [unfolded eq]]
      parse_attrs_name_iov_last [OF assms(2) [unfolded eq]]
    by (simp split: option.split)
  show ?thesis
    unfolding rule_iov_def rule_attrs_def eq
    by (cases "table = RT_TABLE_UNSPEC"; cases "fwmask = 0"; cases u)
       (simp_all only: append_Cons append_Nil list.sel concat_append fst_conv snd_conv append_assoc
          parse_attrs_attr_iov names, simp_all)
qed

lemma length_rule_iov:
  assumes "padInterfaceName iif = Inr iifp" and "padInterfaceName oif = Inr oifp"
  shows "length (concat (rule_iov family priority table fwmark fwmask iif iifp oif oifp u us ue)) < 200"
  using length_concat_name_iov [of iif "fst iifp" "snd iifp" FRA_IIFNAME]
    length_concat_name_iov [of oif "fst oifp" "snd oifp" FRA_OIFNAME] assms
  by (simp add: rule_iov_def attr_iov_def fib_rule_hdr_def)

lemma rule_of_rule_attrs:
  "rule_of_attrs family (if table \<noteq> RT_TABLE_UNSPEC then FR_ACT_TO_TBL else FR_ACT_UNREACHABLE)
     (rule_attrs priority table fwmark fwmask iif oif u us ue) =
   the_rule family priority table fwmark fwmask iif oif (if u then Some (us, ue) else None)"
  by (cases iif; cases oif)
     (simp_all add: rule_of_attrs_def rule_attrs_def the_rule_def RT_TABLE_UNSPEC_def FRA_defs)

lemma parse_rule_netlink_message:
  assumes "padInterfaceName iif = Inr iifp" and "padInterfaceName oif = Inr oifp"
  shows "parse_rule_msg (netlink_message action flags
           (rule_iov family priority table fwmark fwmask iif iifp oif oifp u us ue)) =
         Some (action, flags, the_rule family priority table fwmark fwmask iif oif
                 (if u then Some (us, ue) else None))"
proof -
  define iov where "iov = rule_iov family priority table fwmark fwmask iif iifp oif oifp u us ue"
  define hdr where "hdr = fib_rule_hdr family
    (if table \<noteq> RT_TABLE_UNSPEC then FR_ACT_TO_TBL else FR_ACT_UNREACHABLE)"
  define n where "n = (word_of_nat (16 + length (concat iov)) :: u32)"
  have iov: "concat iov = hdr @ concat (tl iov)" "length hdr = 12"
    by (simp_all add: iov_def hdr_def rule_iov_def fib_rule_hdr_def)
  have n: "unat n = 16 + length (concat iov)"
    using length_rule_iov [OF assms, of family priority table fwmark fwmask u us ue]
    unfolding n_def unat_of_nat iov_def by simp
  have msg: "netlink_message action flags iov =
      le32 n @ le16 action @ le16 flags @ le32 0 @ le32 0 @ hdr @ concat (tl iov)"
    using iov by (simp add: netlink_message_def nlmsghdr_def sum_length_concat n_def)
  have "rule_of_attrs (hdr ! 0) (hdr ! 7) (rule_attrs priority table fwmark fwmask iif oif u us ue) =
      the_rule family priority table fwmark fwmask iif oif (if u then Some (us, ue) else None)"
    unfolding hdr_def fib_rule_hdr_def by (simp add: rule_of_rule_attrs)
  moreover have "unat n = 28 + length (concat (tl iov))" using n iov by simp
  ultimately show ?thesis
    using parse_attrs_rule_iov [OF assms, of family priority table fwmark fwmask u us ue] iov(2)
    unfolding parse_rule_msg_def iov_def [symmetric] msg
    by (simp add: nth_append)
qed

section \<open>Properties\<close>

text \<open>
  C8: The bytes that \<^verbatim>\<open>modifyIpRule\<close> hands to the kernel are a well-formed netlink message whose length
  field is exact, and reading it back attribute by attribute gives the action, the flags and exactly
  the rule that the arguments describe, for every combination of absent and present parts.
\<close>

theorem rule_message_roundtrip:
  assumes "padInterfaceName iif = Inr iifp" and "padInterfaceName oif = Inr oifp"
  shows "parse_rule_msg (netlink_message action flags
           (rule_iov family priority table fwmark fwmask iif iifp oif oifp isUidRule uidStart uidEnd)) =
         Some (action, flags, the_rule family priority table fwmark fwmask iif oif
                 (if isUidRule then Some (uidStart, uidEnd) else None))"
  using assms by (rule parse_rule_netlink_message)

theorem rule_message_roundtrip_witness:
  "parse_rule_msg (netlink_message RTM_NEWRULE NETLINK_CREATE_REQUEST_FLAGS
     (rule_iov AF_INET 14000 1007 0 0 None ([], 0) (Some ''wlan0'') (str_bytes ''wlan0'' @ [0], 2) True 10 20)) =
   Some (RTM_NEWRULE, NETLINK_CREATE_REQUEST_FLAGS,
         the_rule AF_INET 14000 1007 0 0 None (Some ''wlan0'') (Some (10, 20)))"
  using rule_message_roundtrip [of None "([], 0)" "Some ''wlan0''" "(str_bytes ''wlan0'' @ [0], 2)" RTM_NEWRULE
      NETLINK_CREATE_REQUEST_FLAGS AF_INET 14000 1007 0 0 True 10 20]
  by (simp add: padInterfaceName_def IFNAMSIZ_def RTA_SPACE_def RTA_LENGTH_def RTA_ALIGN_def)

end
