(* ===== verification/UidRanges.thy ===== *)
theory UidRanges
  imports CLib
begin

text \<open>
  \<^verbatim>\<open>server/UidRanges.cpp\<close>: a sorted vector of inclusive ranges of UIDs, with parsing, membership
  by binary search, merging and set difference.
\<close>

section \<open>Model\<close>

type_synonym uid = u32
type_synonym range = "uid \<times> uid"

definition INVALID_UID :: uid where
  "INVALID_UID = - 1"

text \<open>
  \<^verbatim>\<open>std::lower_bound\<close> on a sorted vector: the index of the first element that is not less than the
  key.
\<close>

definition lower_bound :: "'a::linorder list \<Rightarrow> 'a \<Rightarrow> nat" where
  "lower_bound xs x = length (takeWhile (\<lambda>y. y < x) xs)"

definition hasUid :: "range list \<Rightarrow> uid \<Rightarrow> bool" where
  "hasUid mRanges uid =
     (let iter = lower_bound mRanges (uid, uid)
      in (iter \<noteq> length mRanges \<and> fst (mRanges ! iter) = uid) \<or>
         (iter \<noteq> 0 \<and> snd (mRanges ! (iter - 1)) \<ge> uid))"

text \<open>One argument of \<^verbatim>\<open>parseFrom\<close>; \<^const>\<open>None\<close> is \<^verbatim>\<open>return false\<close>.\<close>

definition parse_range :: "string \<Rightarrow> range option" where
  "parse_range arg =
     (if arg = [] then None
      else let (start, endPtr) = strtoul arg 0; uidStart = ucast start :: uid
           in case (case endPtr of
                      [] \<Rightarrow> Some uidStart
                    | c # rest \<Rightarrow>
                        if c = CHR ''-'' then
                          if rest = [] then None
                          else let (e, endPtr2) = strtoul rest 0; uidEnd = ucast e :: uid
                               in if endPtr2 \<noteq> [] then None
                                  else if uidEnd < uidStart then None
                                  else Some uidEnd
                        else None) of
                None \<Rightarrow> None
              | Some uidEnd \<Rightarrow>
                  if uidStart = INVALID_UID \<or> uidEnd = INVALID_UID then None
                  else Some (uidStart, uidEnd))"

fun parse_ranges :: "range list \<Rightarrow> string list \<Rightarrow> bool \<times> range list" where
  "parse_ranges mRanges [] = (True, sort mRanges)"
| "parse_ranges mRanges (arg # args) =
     (case parse_range arg of
        None \<Rightarrow> (False, mRanges)
      | Some r \<Rightarrow> parse_ranges (mRanges @ [r]) args)"

text \<open>The result of \<^verbatim>\<open>parseFrom\<close> and the ranges it leaves in the object.\<close>

definition parseFrom :: "string list \<Rightarrow> bool \<times> range list" where
  "parseFrom argv = parse_ranges [] argv"

text \<open>\<^verbatim>\<open>std::inplace_merge\<close> of the two sorted halves.\<close>

fun inplace_merge :: "'a::linorder list \<Rightarrow> 'a list \<Rightarrow> 'a list" where
  "inplace_merge [] ys = ys"
| "inplace_merge xs [] = xs"
| "inplace_merge (x # xs) (y # ys) =
     (if y < x then y # inplace_merge (x # xs) ys else x # inplace_merge xs (y # ys))"

definition add_ranges :: "range list \<Rightarrow> range list \<Rightarrow> range list" where
  "add_ranges mRanges other = inplace_merge mRanges other"

text \<open>\<^verbatim>\<open>std::set_difference\<close>.\<close>

fun set_difference :: "'a::linorder list \<Rightarrow> 'a list \<Rightarrow> 'a list" where
  "set_difference [] ys = []"
| "set_difference xs [] = xs"
| "set_difference (x # xs) (y # ys) =
     (if x < y then x # set_difference xs (y # ys)
      else if y < x then set_difference (x # xs) ys
      else set_difference xs ys)"

definition remove_ranges :: "range list \<Rightarrow> range list \<Rightarrow> range list" where
  "remove_ranges mRanges other = set_difference mRanges other"

section \<open>Specification\<close>

text \<open>
  The set of UIDs that a vector of ranges stands for, the invariant of the class, and the extra
  condition under which the binary search is exact: the range ends are sorted too, which fails
  just when a range lies strictly inside an earlier one.
\<close>

definition in_range :: "uid \<Rightarrow> range \<Rightarrow> bool" where
  "in_range uid r \<longleftrightarrow> fst r \<le> uid \<and> uid \<le> snd r"

definition covers :: "range list \<Rightarrow> uid \<Rightarrow> bool" where
  "covers rs uid = list_ex (in_range uid) rs"

definition wf_range :: "range \<Rightarrow> bool" where
  "wf_range r \<longleftrightarrow> fst r \<le> snd r \<and> fst r \<noteq> INVALID_UID \<and> snd r \<noteq> INVALID_UID"

definition wf_ranges :: "range list \<Rightarrow> bool" where
  "wf_ranges rs \<longleftrightarrow> sorted rs \<and> list_all wf_range rs"

definition un_nested :: "range list \<Rightarrow> bool" where
  "un_nested rs \<longleftrightarrow> sorted (map snd rs)"

section \<open>Lemmas\<close>

lemma lower_bound_le: "lower_bound xs x \<le> length xs"
  by (simp add: lower_bound_def length_takeWhile_le)

lemma lower_bound_less: "i < lower_bound xs x \<Longrightarrow> xs ! i < x"
  unfolding lower_bound_def by (metis nth_mem set_takeWhileD takeWhile_nth)

lemma lower_bound_ge:
  assumes "sorted xs" and "lower_bound xs x \<le> i" and "i < length xs"
  shows "x \<le> xs ! i"
proof -
  let ?n = "lower_bound xs x"
  have n: "?n < length xs" using assms by simp
  then have "\<not> xs ! ?n < x"
    unfolding lower_bound_def by (rule nth_length_takeWhile)
  moreover have "xs ! ?n \<le> xs ! i"
    using assms by (simp add: sorted_nth_mono)
  ultimately show ?thesis by simp
qed

lemma hasUid_sound:
  assumes "hasUid rs uid" and "sorted rs"
  shows "covers rs uid"
proof -
  let ?i = "lower_bound rs (uid, uid)"
  from assms(1) consider
      (here) "?i < length rs" "fst (rs ! ?i) = uid"
    | (before) "0 < ?i" "uid \<le> snd (rs ! (?i - 1))"
    using lower_bound_le [of rs "(uid, uid)"] by (auto simp: hasUid_def Let_def)
  then show ?thesis
  proof cases
    case here
    from lower_bound_ge [OF assms(2) le_refl here(1)] have "in_range uid (rs ! ?i)"
      using here by (auto simp: in_range_def less_eq_prod_def)
    with here(1) show ?thesis by (auto simp: covers_def list_ex_iff)
  next
    case before
    then have lt: "rs ! (?i - 1) < (uid, uid)"
      by (simp add: lower_bound_less)
    have len: "?i - 1 < length rs"
      using before lower_bound_le [of rs "(uid, uid)"] by linarith
    from lt before(2) have "in_range uid (rs ! (?i - 1))"
      by (auto simp: in_range_def less_prod_def)
    with len show ?thesis by (auto simp: covers_def list_ex_iff)
  qed
qed

lemma hasUid_complete:
  assumes "covers rs uid" and "sorted rs" and "un_nested rs"
  shows "hasUid rs uid"
proof -
  let ?i = "lower_bound rs (uid, uid)"
  from assms(1) obtain j where j: "j < length rs" "fst (rs ! j) \<le> uid" "uid \<le> snd (rs ! j)"
    by (auto simp: covers_def list_ex_iff in_range_def in_set_conv_nth)
  show ?thesis
  proof (cases "j < ?i")
    case True
    then have "j \<le> ?i - 1" "?i - 1 < length rs" "0 < ?i"
      using lower_bound_le [of rs "(uid, uid)"] by linarith+
    then have "snd (rs ! j) \<le> snd (rs ! (?i - 1))"
      using assms(3) sorted_nth_mono [of "map snd rs" j "?i - 1"] by (simp add: un_nested_def)
    then show ?thesis
      using order_trans [OF j(3)] \<open>0 < ?i\<close> by (simp add: hasUid_def Let_def)
  next
    case False
    then have i: "?i \<le> j" "?i < length rs" using j(1) by simp_all
    have "(uid, uid) \<le> rs ! ?i" "rs ! ?i \<le> rs ! j"
      using lower_bound_ge [OF assms(2) le_refl i(2)] i j(1) assms(2) by (simp_all add: sorted_nth_mono)
    then have "fst (rs ! ?i) = uid"
      using j(2) by (auto simp: less_eq_prod_def)
    with i show ?thesis by (simp add: hasUid_def Let_def)
  qed
qed

lemma parse_range_wf: "parse_range arg = Some r \<Longrightarrow> wf_range r"
  by (auto simp: parse_range_def wf_range_def Let_def
      split: if_splits option.splits list.splits prod.splits)

lemma parse_ranges_wf:
  "parse_ranges acc args = (True, rs) \<Longrightarrow> list_all wf_range acc \<Longrightarrow> wf_ranges rs"
  by (induction acc args rule: parse_ranges.induct)
    (auto simp: wf_ranges_def list_all_iff dest: parse_range_wf split: option.splits)

lemma parse_ranges_mset:
  "parse_ranges acc args = (ok, rs) \<Longrightarrow>
   ok = (\<forall>a \<in> set args. parse_range a \<noteq> None) \<and>
   (ok \<longrightarrow> mset rs = mset acc + mset (map (the \<circ> parse_range) args))"
  by (induction acc args arbitrary: ok rs rule: parse_ranges.induct) (auto split: option.splits)

lemma mset_inplace_merge [simp]: "mset (inplace_merge xs ys) = mset xs + mset ys"
  by (induction xs ys rule: inplace_merge.induct) auto

lemma set_inplace_merge [simp]: "set (inplace_merge xs ys) = set xs \<union> set ys"
  by (metis mset_inplace_merge set_mset_mset set_mset_union)

lemma sorted_inplace_merge: "sorted xs \<Longrightarrow> sorted ys \<Longrightarrow> sorted (inplace_merge xs ys)"
  by (induction xs ys rule: inplace_merge.induct) (auto simp: not_less)

lemma mset_set_difference:
  "sorted xs \<Longrightarrow> sorted ys \<Longrightarrow> mset (set_difference xs ys) = mset xs - mset ys"
proof (induction xs ys rule: set_difference.induct)
  case (3 x xs y ys)
  consider "x < y" | "y < x" | "x = y" by force
  then show ?case
  proof cases
    case 1
    then have "x \<notin># mset (y # ys)" using "3.prems"(2) by auto
    then show ?thesis using 1 "3.IH"(1) "3.prems" by (simp add: diff_add_mset_swap)
  next
    case 2
    then have "y \<notin># mset (x # xs)" using "3.prems"(1) by auto
    then have "mset (x # xs) - mset (y # ys) = mset (x # xs) - mset ys"
      by (metis add_mset_add_single diff_diff_add_mset diff_right_commute diff_single_trivial mset.simps(2))
    then show ?thesis using 2 "3.IH"(2) "3.prems" by auto
  next
    case 3
    then show ?thesis using "3.IH"(3) "3.prems" by simp
  qed
qed simp_all

lemma sorted_set_difference: "sorted xs \<Longrightarrow> sorted (set_difference xs ys)"
proof (induction xs ys rule: set_difference.induct)
  case (3 x xs y ys)
  have sub: "set (set_difference as bs) \<subseteq> set as" for as bs :: "'a list"
    by (induction as bs rule: set_difference.induct) auto
  show ?case using 3 sub [of xs "y # ys"] by (auto simp: subset_iff)
qed simp_all

lemma sorted_mset_eq: "sorted xs \<Longrightarrow> sorted ys \<Longrightarrow> mset xs = mset ys \<Longrightarrow> xs = ys"
  by (metis properties_for_sort)

lemma wf_add_ranges: "wf_ranges rs \<Longrightarrow> wf_ranges rs' \<Longrightarrow> wf_ranges (add_ranges rs rs')"
  by (auto simp: wf_ranges_def add_ranges_def list_all_iff sorted_inplace_merge)

lemma wf_remove_ranges: "wf_ranges rs \<Longrightarrow> wf_ranges rs' \<Longrightarrow> wf_ranges (remove_ranges rs rs')"
  using sorted_set_difference [of rs rs'] mset_set_difference [of rs rs'] in_diffD [of _ "mset rs" "mset rs'"]
  by (auto simp: wf_ranges_def remove_ranges_def list_all_iff simp flip: set_mset_mset)

section \<open>The vector as a bag of ranges\<close>

text \<open>
  What \<^verbatim>\<open>VirtualNetwork\<close> relies on: the class is a bag of ranges. Adding is the sum of bags and
  removing their difference, and two objects with the same bag are equal.
\<close>

locale range_bag =
  fixes inv :: "'r \<Rightarrow> bool"
    and abs :: "'r \<Rightarrow> 'e multiset"
    and add :: "'r \<Rightarrow> 'r \<Rightarrow> 'r"
    and rem :: "'r \<Rightarrow> 'r \<Rightarrow> 'r"
  assumes add_inv: "inv a \<Longrightarrow> inv b \<Longrightarrow> inv (add a b)"
    and rem_inv: "inv a \<Longrightarrow> inv b \<Longrightarrow> inv (rem a b)"
    and add_abs: "inv a \<Longrightarrow> inv b \<Longrightarrow> abs (add a b) = abs a + abs b"
    and rem_abs: "inv a \<Longrightarrow> inv b \<Longrightarrow> abs (rem a b) = abs a - abs b"
    and abs_inj: "inv a \<Longrightarrow> inv b \<Longrightarrow> abs a = abs b \<Longrightarrow> a = b"
begin

lemma bag_add_rem: "inv a \<Longrightarrow> inv b \<Longrightarrow> rem (add a b) b = a"
  by (rule abs_inj) (simp_all add: add_inv rem_inv add_abs rem_abs)

lemma bag_add_commute: "inv a \<Longrightarrow> inv b \<Longrightarrow> add a b = add b a"
  by (rule abs_inj) (simp_all add: add_inv add_abs)

lemma bag_rem_add: "inv a \<Longrightarrow> inv b \<Longrightarrow> abs b \<subseteq># abs a \<Longrightarrow> add (rem a b) b = a"
  by (rule abs_inj) (simp_all add: add_inv rem_inv add_abs rem_abs)

end

interpretation uid_bag: range_bag wf_ranges mset add_ranges remove_ranges
proof
  fix a b :: "range list"
  assume wf: "wf_ranges a" "wf_ranges b"
  show "wf_ranges (add_ranges a b)" "wf_ranges (remove_ranges a b)"
    using wf by (rule wf_add_ranges wf_remove_ranges)+
  show "mset (add_ranges a b) = mset a + mset b" by (simp add: add_ranges_def)
  show "mset (remove_ranges a b) = mset a - mset b"
    using wf by (simp add: remove_ranges_def mset_set_difference wf_ranges_def)
  show "mset a = mset b \<Longrightarrow> a = b" using wf by (simp add: wf_ranges_def sorted_mset_eq)
qed

section \<open>Properties\<close>

lemmas parse_eval = parseFrom_def parse_range_def strtoul_def split_sign_def split_base_def is_base_digit_def
  digit_val_def isdigit_def isspace_def ULONG_MAX_def less_eq_char_def INVALID_UID_def Let_def

text \<open>
  C22: On a vector in which no range lies inside an earlier one, the binary search of \<^verbatim>\<open>hasUid\<close>
  answers exactly whether some range contains the UID.
\<close>

theorem hasUid_exact:
  assumes "wf_ranges rs" and "un_nested rs"
  shows "hasUid rs uid \<longleftrightarrow> covers rs uid"
  using assms hasUid_sound hasUid_complete by (auto simp: wf_ranges_def)

theorem hasUid_exact_witness:
  "hasUid [(10000, 10005), (10003, 10010), (20000, 20000)] 10008 \<longleftrightarrow>
   covers [(10000, 10005), (10003, 10010), (20000, 20000)] 10008"
  using hasUid_exact [of "[(10000, 10005), (10003, 10010), (20000, 20000)]" 10008]
  by (simp add: wf_ranges_def wf_range_def un_nested_def INVALID_UID_def)

text \<open>
  \<^verbatim>\<open>parseFrom\<close> accepts ranges that are nested, and then \<^verbatim>\<open>hasUid\<close> misses users: after parsing
  \<^verbatim>\<open>1-10 2-3\<close> the UID 5 lies in a range of the object, but \<^verbatim>\<open>hasUid\<close> denies it.
\<close>

theorem hasUid_misses_nested:
  "parseFrom [''1-10'', ''2-3''] = (True, [(1, 10), (2, 3)]) \<and>
   covers [(1, 10), (2, 3)] 5 \<and> \<not> hasUid [(1, 10), (2, 3)] 5"
  by (simp add: parse_eval covers_def in_range_def hasUid_def lower_bound_def)

text \<open>
  \<^verbatim>\<open>parseFrom\<close> succeeds exactly when every argument is a valid range; the object then holds these
  ranges, each as often as it was given, sorted, with ordered ends and without the invalid UID.
\<close>

theorem parseFrom_spec:
  assumes "parseFrom args = (ok, rs)"
  shows "(ok \<longleftrightarrow> list_all (\<lambda>a. parse_range a \<noteq> None) args) \<and>
         (ok \<longrightarrow> wf_ranges rs \<and> mset rs = mset (map (the \<circ> parse_range) args))"
  using parse_ranges_mset [of "[]" args ok rs] parse_ranges_wf [of "[]" args rs] assms
  by (auto simp: parseFrom_def list_all_iff)

theorem parseFrom_spec_witness:
  "parseFrom [''30-40'', ''0x10''] = (True, [(16, 16), (30, 40)]) \<and>
   wf_ranges [(16, 16), (30, 40)] \<and>
   mset [(16, 16), (30, 40)] = mset (map (the \<circ> parse_range) [''30-40'', ''0x10''])"
proof -
  have "parseFrom [''30-40'', ''0x10''] = (True, [(16, 16), (30, 40)])" by (simp add: parse_eval)
  with parseFrom_spec [OF this] show ?thesis by simp
qed

text \<open>
  Taking away the ranges that were added gives back the object, whatever overlaps or duplicates
  there are.
\<close>

theorem remove_add_ranges:
  assumes "wf_ranges rs" and "wf_ranges other"
  shows "remove_ranges (add_ranges rs other) other = rs"
  using assms by (rule uid_bag.bag_add_rem)

theorem remove_add_ranges_witness:
  "remove_ranges (add_ranges [(1, 5), (7, 9)] [(1, 5), (2, 3)]) [(1, 5), (2, 3)] = [(1, 5), (7, 9)]"
  by (rule remove_add_ranges) (simp_all add: wf_ranges_def wf_range_def INVALID_UID_def)

end
