(* ===== verification/Fwmark.thy ===== *)
theory Fwmark
  imports Prelude
begin

text \<open>
  \<^verbatim>\<open>include/Permission.h\<close> and \<^verbatim>\<open>include/Fwmark.h\<close>: the permission flags and the union that gives the
  32 bits of a socket's SO_MARK their meaning. The enumeration's values need two bits, the width
  of the bit-field that stores them. The record holds the bit-fields; \<open>intValue\<close> and \<open>fwmark_of\<close>
  are the two views of the union, \<^verbatim>\<open>spare\<close> the twelve bits that no field names.
\<close>

section \<open>Model\<close>

type_synonym permission = "2 word"

definition PERMISSION_NONE :: permission where "PERMISSION_NONE = 0"
definition PERMISSION_NETWORK :: permission where "PERMISSION_NETWORK = 1"
definition PERMISSION_SYSTEM :: permission where "PERMISSION_SYSTEM = 3"

record Fwmark =
  netId :: u16
  explicitlySelected :: bool
  protectedFromVpn :: bool
  permission :: permission
  spare :: "12 word"

text \<open>The constructor \<^verbatim>\<open>Fwmark() : intValue(0) {}\<close>.\<close>

definition new_Fwmark :: Fwmark where
  "new_Fwmark = \<lparr>netId = 0, explicitlySelected = False, protectedFromVpn = False,
                 permission = 0, spare = 0\<rparr>"

definition intValue :: "Fwmark \<Rightarrow> u32" where
  "intValue f =
     ucast (netId f) OR push_bit 16 (of_bool (explicitlySelected f)) OR
     push_bit 17 (of_bool (protectedFromVpn f)) OR push_bit 18 (ucast (permission f)) OR
     push_bit 20 (ucast (spare f))"

definition fwmark_of :: "u32 \<Rightarrow> Fwmark" where
  "fwmark_of w =
     \<lparr>netId = ucast w, explicitlySelected = bit w 16, protectedFromVpn = bit w 17,
      permission = ucast (drop_bit 18 w), spare = ucast (drop_bit 20 w)\<rparr>"

definition FWMARK_NET_ID_MASK :: u32 where
  "FWMARK_NET_ID_MASK = 0xffff"

text \<open>Assigning an unsigned to the 16-bit field keeps its low 16 bits.\<close>

definition set_netId :: "u32 \<Rightarrow> Fwmark \<Rightarrow> Fwmark" where
  "set_netId n f = f\<lparr>netId := ucast n\<rparr>"

definition MARK_UNSET :: u32 where
  "MARK_UNSET = 0"

definition NETID_UNSET :: u32 where
  "NETID_UNSET = 0"

section \<open>The bits of a mark\<close>

lemma bit_intValue:
  "bit (intValue f) n \<longleftrightarrow>
     (if n < 16 then bit (netId f) n
      else if n = 16 then explicitlySelected f
      else if n = 17 then protectedFromVpn f
      else if n < 20 then bit (permission f) (n - 18)
      else n < 32 \<and> bit (spare f) (n - 20))"
proof -
  have "bit (netId f) m \<Longrightarrow> m < 16" "bit (permission f) m \<Longrightarrow> m < 2" "bit (spare f) m \<Longrightarrow> m < 12" for m
    using bit_imp_le_length by fastforce+
  then show ?thesis
    by (auto simp: intValue_def bit_simps) (fastforce)+
qed

lemma fwmark_of_intValue [simp]: "fwmark_of (intValue f) = f"
proof -
  have "ucast (intValue f) = netId f"
    by (rule bit_word_eqI) (simp add: bit_simps bit_intValue)
  moreover have "ucast (drop_bit 18 (intValue f)) = permission f"
    by (rule bit_word_eqI) (auto simp: bit_simps bit_intValue)
  moreover have "ucast (drop_bit 20 (intValue f)) = spare f"
    by (rule bit_word_eqI) (auto simp: bit_simps bit_intValue)
  ultimately show ?thesis
    by (cases f) (simp add: fwmark_of_def bit_intValue)
qed

lemma intValue_fwmark_of [simp]: "intValue (fwmark_of w) = w"
proof (rule bit_word_eqI)
  fix n assume "n < LENGTH(32)"
  then consider "n < 16" | "n = 16" | "n = 17" | "n = 18" | "n = 19" | "20 \<le> n" "n < 32"
    by (simp, linarith)
  then show "bit (intValue (fwmark_of w)) n = bit w n"
    by cases (auto simp: bit_intValue fwmark_of_def bit_simps)
qed

lemma intValue_inject [simp]: "intValue f = intValue g \<longleftrightarrow> f = g"
  by (metis fwmark_of_intValue)

text \<open>The permission test of the sources: \<^verbatim>\<open>(have & need) == need\<close>.\<close>

definition allows :: "permission \<Rightarrow> permission \<Rightarrow> bool" where
  "allows have need \<longleftrightarrow> have AND need = need"

lemma permission_cases:
  fixes p :: permission
  obtains "p = 0" | "p = 1" | "p = 2" | "p = 3"
proof -
  have "unat p < 4" using unsigned_less [of p] by simp
  then have "unat p = 0 \<or> unat p = 1 \<or> unat p = 2 \<or> unat p = 3" by linarith
  moreover have "unat p = n \<Longrightarrow> p = word_of_nat n" for n
    by (drule arg_cong [where f = "word_of_nat :: nat \<Rightarrow> permission"]) simp
  ultimately have "p \<in> {word_of_nat 0, word_of_nat 1, word_of_nat 2, word_of_nat 3}" by blast
  then show ?thesis using that by auto
qed

lemma allows_system_iff: "allows p PERMISSION_SYSTEM \<longleftrightarrow> p = PERMISSION_SYSTEM"
  by (cases p rule: permission_cases) (simp_all add: allows_def PERMISSION_SYSTEM_def)

lemma allows_trans: "allows a b \<Longrightarrow> allows b c \<Longrightarrow> allows a c"
  by (metis allows_def and.assoc)

lemma allows_or: "allows a c \<Longrightarrow> allows (a OR b) c"
  by (auto simp: allows_def bit_eq_iff bit_simps)

lemma allows_none [simp]: "allows p PERMISSION_NONE"
  by (simp add: allows_def PERMISSION_NONE_def)

lemma system_allows [simp]: "allows PERMISSION_SYSTEM p"
  by (cases p rule: permission_cases) (simp_all add: allows_def PERMISSION_SYSTEM_def)

text \<open>Masking a mark with another one works field by field.\<close>

definition fwmark_and :: "Fwmark \<Rightarrow> Fwmark \<Rightarrow> Fwmark" where
  "fwmark_and f g =
     \<lparr>netId = netId f AND netId g, explicitlySelected = (explicitlySelected f \<and> explicitlySelected g),
      protectedFromVpn = (protectedFromVpn f \<and> protectedFromVpn g),
      permission = permission f AND permission g, spare = spare f AND spare g\<rparr>"

lemma intValue_and: "intValue f AND intValue g = intValue (fwmark_and f g)"
  by (rule bit_word_eqI) (auto simp: bit_simps bit_intValue fwmark_and_def)

section \<open>Properties\<close>

text \<open>
  The two views of the union \<^verbatim>\<open>Fwmark\<close> agree: the bit-fields of the integer built from bit-fields are
  those bit-fields, and every 32-bit value is the integer of its bit-fields.
\<close>

theorem fwmark_union: "fwmark_of (intValue f) = f \<and> intValue (fwmark_of w) = w"
  by simp

end
