(* ===== verification/RouteController.thy ===== *)
theory RouteController
  imports Netlink UidRanges Fwmark
begin

text \<open>
  \<^verbatim>\<open>server/RouteController.cpp\<close>: the policy routing rules (which routing table serves which packets),
  the routes in those tables, and the cache of table numbers for interfaces that have gone away.
  The static map \<open>interfaceToTable\<close> is the state.
\<close>

section \<open>Model\<close>

subsection \<open>Constants\<close>

definition RULE_PRIORITY_VPN_OVERRIDE_SYSTEM :: u32 where "RULE_PRIORITY_VPN_OVERRIDE_SYSTEM = 10000"
definition RULE_PRIORITY_VPN_OUTPUT_TO_LOCAL :: u32 where "RULE_PRIORITY_VPN_OUTPUT_TO_LOCAL = 11000"
definition RULE_PRIORITY_SECURE_VPN :: u32 where "RULE_PRIORITY_SECURE_VPN = 12000"
definition RULE_PRIORITY_EXPLICIT_NETWORK :: u32 where "RULE_PRIORITY_EXPLICIT_NETWORK = 13000"
definition RULE_PRIORITY_OUTPUT_INTERFACE :: u32 where "RULE_PRIORITY_OUTPUT_INTERFACE = 14000"
definition RULE_PRIORITY_LEGACY_SYSTEM :: u32 where "RULE_PRIORITY_LEGACY_SYSTEM = 15000"
definition RULE_PRIORITY_LEGACY_NETWORK :: u32 where "RULE_PRIORITY_LEGACY_NETWORK = 16000"
definition RULE_PRIORITY_LOCAL_NETWORK :: u32 where "RULE_PRIORITY_LOCAL_NETWORK = 17000"
definition RULE_PRIORITY_TETHERING :: u32 where "RULE_PRIORITY_TETHERING = 18000"
definition RULE_PRIORITY_IMPLICIT_NETWORK :: u32 where "RULE_PRIORITY_IMPLICIT_NETWORK = 19000"
definition RULE_PRIORITY_BYPASSABLE_VPN :: u32 where "RULE_PRIORITY_BYPASSABLE_VPN = 20000"
definition RULE_PRIORITY_VPN_FALLTHROUGH :: u32 where "RULE_PRIORITY_VPN_FALLTHROUGH = 21000"
definition RULE_PRIORITY_DEFAULT_NETWORK :: u32 where "RULE_PRIORITY_DEFAULT_NETWORK = 22000"
definition RULE_PRIORITY_DIRECTLY_CONNECTED :: u32 where "RULE_PRIORITY_DIRECTLY_CONNECTED = 23000"
definition RULE_PRIORITY_UNREACHABLE :: u32 where "RULE_PRIORITY_UNREACHABLE = 32000"

definition ROUTE_TABLE_LOCAL_NETWORK :: u32 where "ROUTE_TABLE_LOCAL_NETWORK = 97"
definition ROUTE_TABLE_LEGACY_NETWORK :: u32 where "ROUTE_TABLE_LEGACY_NETWORK = 98"
definition ROUTE_TABLE_LEGACY_SYSTEM :: u32 where "ROUTE_TABLE_LEGACY_SYSTEM = 99"
definition ROUTE_TABLE_NAME_LOCAL_NETWORK :: string where "ROUTE_TABLE_NAME_LOCAL_NETWORK = ''local_network''"
definition ROUTE_TABLE_NAME_LEGACY_NETWORK :: string where "ROUTE_TABLE_NAME_LEGACY_NETWORK = ''legacy_network''"
definition ROUTE_TABLE_NAME_LEGACY_SYSTEM :: string where "ROUTE_TABLE_NAME_LEGACY_SYSTEM = ''legacy_system''"
definition ROUTE_TABLE_NAME_LOCAL :: string where "ROUTE_TABLE_NAME_LOCAL = ''local''"
definition ROUTE_TABLE_NAME_MAIN :: string where "ROUTE_TABLE_NAME_MAIN = ''main''"

definition RT_TABLES_PATH :: string where "RT_TABLES_PATH = ''/data/misc/net/rt_tables''"
definition RT_TABLES_FLAGS :: string where "RT_TABLES_FLAGS = ''O_CREAT|O_TRUNC|O_WRONLY|O_NOFOLLOW|O_CLOEXEC''"
definition RT_TABLES_MODE :: string where "RT_TABLES_MODE = ''0644''"
definition RT_TABLE_MAIN :: u32 where "RT_TABLE_MAIN = 254"
definition RT_TABLE_LOCAL :: u32 where "RT_TABLE_LOCAL = 255"
definition ROUTE_TABLE_OFFSET_FROM_INDEX :: u32 where "ROUTE_TABLE_OFFSET_FROM_INDEX = 1000"
definition ROUTE_FLUSH_ATTEMPTS :: nat where "ROUTE_FLUSH_ATTEMPTS = 2"
definition UID_ROOT :: uid where "UID_ROOT = 0"
definition AF_FAMILIES :: "u8 list" where "AF_FAMILIES = [AF_INET, AF_INET6]"
definition IP_VERSIONS :: "string list" where "IP_VERSIONS = [''-4'', ''-6'']"

definition RTPROT_STATIC :: u8 where "RTPROT_STATIC = 4"
definition RTN_UNICAST :: u8 where "RTN_UNICAST = 1"
definition RTN_UNREACHABLE :: u8 where "RTN_UNREACHABLE = 7"
definition RTN_THROW :: u8 where "RTN_THROW = 9"
definition RT_SCOPE_UNIVERSE :: u8 where "RT_SCOPE_UNIVERSE = 0"
definition RT_SCOPE_LINK :: u8 where "RT_SCOPE_LINK = 253"
definition RTA_DST :: u16 where "RTA_DST = 1"
definition RTA_OIF :: u16 where "RTA_OIF = 4"
definition RTA_GATEWAY :: u16 where "RTA_GATEWAY = 5"
definition RTA_TABLE :: u16 where "RTA_TABLE = 15"

datatype TableType = INTERFACE | LOCAL_NETWORK | LEGACY_NETWORK | LEGACY_SYSTEM

record rc = sys +
  interfaceToTable :: "(string \<times> u32) list"

subsection \<open>Tables\<close>

definition getRouteTableForInterface :: "env \<Rightarrow> string \<Rightarrow> ('a rc_scheme, u32) state" where
  "getRouteTableForInterface e iface = do {
     index \<leftarrow> if_nametoindex e iface;
     if index \<noteq> 0 then do {
       let table = index + ROUTE_TABLE_OFFSET_FROM_INDEX;
       modify (interfaceToTable_update (map_put iface table));
       ret table
     } else do {
       m \<leftarrow> gets interfaceToTable;
       case map_of m iface of None \<Rightarrow> ret RT_TABLE_UNSPEC | Some t \<Rightarrow> ret t } }"

definition addTableName :: "u32 \<Rightarrow> string \<Rightarrow> string \<Rightarrow> string" where
  "addTableName table name contents = contents @ fmt_u (unat table) @ '' '' @ name @ [CHR 0x0A]"

definition table_names :: "(string \<times> u32) list \<Rightarrow> string" where
  "table_names m =
     fold (\<lambda>(name, table) contents. addTableName table name contents)
       ([(ROUTE_TABLE_NAME_LOCAL, RT_TABLE_LOCAL), (ROUTE_TABLE_NAME_MAIN, RT_TABLE_MAIN),
         (ROUTE_TABLE_NAME_LOCAL_NETWORK, ROUTE_TABLE_LOCAL_NETWORK),
         (ROUTE_TABLE_NAME_LEGACY_NETWORK, ROUTE_TABLE_LEGACY_NETWORK),
         (ROUTE_TABLE_NAME_LEGACY_SYSTEM, ROUTE_TABLE_LEGACY_SYSTEM)] @ m) []"

text \<open>The file is optional: no error of writing it is reported.\<close>

definition updateTableNamesFile :: "env \<Rightarrow> ('a rc_scheme, unit) state" where
  "updateTableNamesFile e = do {
     m \<leftarrow> gets interfaceToTable;
     let contents = table_names m;
     fd \<leftarrow> call_sys e (SysLib ''open'' [RT_TABLES_PATH, RT_TABLES_FLAGS, RT_TABLES_MODE]);
     if fd = -1 then ret ()
     else do {
       _ \<leftarrow> call_sys e (SysLib ''fchmod'' [fmt_d fd, RT_TABLES_MODE]);
       _ \<leftarrow> call_sys e (SysWriteFd fd contents);
       _ \<leftarrow> call_sys e (SysClose fd);
       ret () } }"

subsection \<open>Rules and routes\<close>

definition modifyIpRule ::
  "env \<Rightarrow> u16 \<Rightarrow> u32 \<Rightarrow> u32 \<Rightarrow> u32 \<Rightarrow> u32 \<Rightarrow> cstr \<Rightarrow> cstr \<Rightarrow> uid \<Rightarrow> uid \<Rightarrow> ('a sys_scheme, int) state" where
  "modifyIpRule e action priority table fwmark fwmask iif oif uidStart uidEnd =
     (if fwmark AND NOT fwmask \<noteq> 0 then ret (- ERANGE)
      else case padInterfaceName iif of
        Inl r \<Rightarrow> ret r
      | Inr iifp \<Rightarrow> (case padInterfaceName oif of
          Inl r \<Rightarrow> ret r
        | Inr oifp \<Rightarrow>
            if (uidStart = INVALID_UID) \<noteq> (uidEnd = INVALID_UID) then ret (- EUSERS)
            else let isUidRule = uidStart \<noteq> INVALID_UID;
                     flags = (if action = RTM_NEWRULE then NETLINK_CREATE_REQUEST_FLAGS
                              else NETLINK_REQUEST_FLAGS)
                 in for_ok (\<lambda>family. sendNetlinkRequest e action flags
                      (rule_iov family priority table fwmark fwmask iif iifp oif oifp
                         isUidRule uidStart uidEnd)) AF_FAMILIES))"

text \<open>The overload without interfaces and UIDs.\<close>

definition modifyIpRule5 :: "env \<Rightarrow> u16 \<Rightarrow> u32 \<Rightarrow> u32 \<Rightarrow> u32 \<Rightarrow> u32 \<Rightarrow> ('a sys_scheme, int) state" where
  "modifyIpRule5 e action priority table fwmark fwmask =
     modifyIpRule e action priority table fwmark fwmask None None INVALID_UID INVALID_UID"

text \<open>\<^verbatim>\<open>struct rtmsg\<close>.\<close>

definition rtmsg :: "u8 \<Rightarrow> u8 \<Rightarrow> u8 \<Rightarrow> u8 \<Rightarrow> bytes" where
  "rtmsg family dst_len scope type = [family, dst_len, 0, 0, 0, RTPROT_STATIC, scope, type, 0, 0, 0, 0]"

definition route_iov ::
  "u8 \<Rightarrow> u8 \<Rightarrow> u8 \<Rightarrow> u32 \<Rightarrow> bytes \<Rightarrow> u32 option \<Rightarrow> bytes option \<Rightarrow> bytes list" where
  "route_iov type family prefixLength table rawAddress ifindex rawNexthop =
     [rtmsg family prefixLength (if rawNexthop \<noteq> None then RT_SCOPE_UNIVERSE else RT_SCOPE_LINK) type] @
     attr_iov True RTA_TABLE (le32 table) @
     attr_iov True RTA_DST rawAddress @
     attr_iov (ifindex \<noteq> None) RTA_OIF (case ifindex of None \<Rightarrow> [] | Some i \<Rightarrow> le32 i) @
     attr_iov (rawNexthop \<noteq> None) RTA_GATEWAY (case rawNexthop of None \<Rightarrow> [] | Some n \<Rightarrow> n)"

text \<open>
  The middle of \<^verbatim>\<open>modifyIpRoute\<close>: the route type, the interface index and the parsed nexthop, or an
  errno.
\<close>

definition route_target ::
  "env \<Rightarrow> u8 \<Rightarrow> cstr \<Rightarrow> cstr \<Rightarrow> ('a sys_scheme, int + (u8 \<times> u32 option \<times> bytes option)) state" where
  "route_target e family iface nexthop =
     (if nexthop = Some ''unreachable'' then ret (Inr (RTN_UNREACHABLE, None, None))
      else if nexthop = Some ''throw'' then ret (Inr (RTN_THROW, None, None))
      else do {
        ifindex \<leftarrow> (case iface of
                      None \<Rightarrow> ret (Some None)
                    | Some name \<Rightarrow> do {
                        i \<leftarrow> if_nametoindex e name;
                        ret (if i = 0 then None else Some (Some i)) });
        case ifindex of
          None \<Rightarrow> ret (Inl (- ENODEV))
        | Some idx \<Rightarrow>
            (case nexthop of
               None \<Rightarrow> ret (Inr (RTN_UNICAST, idx, None))
             | Some hop \<Rightarrow>
                 (case env_inet_pton e family hop of
                    None \<Rightarrow> ret (Inl (- EINVAL))
                  | Some raw \<Rightarrow> ret (Inr (RTN_UNICAST, idx, Some raw)))) })"

definition modifyIpRoute ::
  "env \<Rightarrow> u16 \<Rightarrow> u32 \<Rightarrow> cstr \<Rightarrow> cstr \<Rightarrow> cstr \<Rightarrow> ('a sys_scheme, int) state" where
  "modifyIpRoute e action table iface destination nexthop =
     (case parsePrefix e destination 16 of
        Inl err \<Rightarrow> ret err
      | Inr (family, rawAddress, prefixLength) \<Rightarrow>
          if length rawAddress > 16 then ret (- ENOBUFS)
          else do {
            target \<leftarrow> route_target e family iface nexthop;
            case target of
              Inl err \<Rightarrow> ret err
            | Inr (type, ifindex, rawNexthop) \<Rightarrow>
                sendNetlinkRequest e action
                  (if action = RTM_NEWROUTE then NETLINK_CREATE_REQUEST_FLAGS else NETLINK_REQUEST_FLAGS)
                  (route_iov type family prefixLength table rawAddress ifindex
                     (map_option (take (length rawAddress)) rawNexthop)) })"

definition hex_string :: "u32 \<Rightarrow> string" where
  "hex_string w = ''0x'' @ fmt_x (unat w)"

definition modifyIncomingPacketMark ::
  "env \<Rightarrow> u32 \<Rightarrow> string \<Rightarrow> permission \<Rightarrow> bool \<Rightarrow> ('a sys_scheme, int) state" where
  "modifyIncomingPacketMark e netId' iface perm add = do {
     let fwmark = (set_netId netId' new_Fwmark)\<lparr>explicitlySelected := True, protectedFromVpn := True,
                    permission := perm\<rparr>;
     r \<leftarrow> execIptables e V4V6
            [''-w'', ''-t'', ''mangle'', if add then ''-A'' else ''-D'', ''INPUT'', ''-i'', iface,
             ''-j'', ''MARK'', ''--set-mark'', hex_string (intValue fwmark)];
     ret (if r \<noteq> 0 then - EREMOTEIO else 0) }"

definition rule_action :: "bool \<Rightarrow> u16" where
  "rule_action add = (if add then RTM_NEWRULE else RTM_DELRULE)"

definition modifyVpnOutputToLocalRule :: "env \<Rightarrow> string \<Rightarrow> bool \<Rightarrow> ('a sys_scheme, int) state" where
  "modifyVpnOutputToLocalRule e vpnInterface add =
     modifyIpRule e (rule_action add) RULE_PRIORITY_VPN_OUTPUT_TO_LOCAL ROUTE_TABLE_LOCAL_NETWORK
       MARK_UNSET MARK_UNSET (Some vpnInterface) None INVALID_UID INVALID_UID"

definition vpn_uid_mark :: "bool \<Rightarrow> Fwmark \<times> Fwmark" where
  "vpn_uid_mark secure =
     (let fwmark = new_Fwmark\<lparr>protectedFromVpn := False\<rparr>;
          fwmask = new_Fwmark\<lparr>protectedFromVpn := True\<rparr>
      in if secure then (fwmark, fwmask)
         else (fwmark\<lparr>explicitlySelected := False\<rparr>, fwmask\<lparr>explicitlySelected := True\<rparr>))"

definition modifyVpnUidRangeRule ::
  "env \<Rightarrow> u32 \<Rightarrow> uid \<Rightarrow> uid \<Rightarrow> bool \<Rightarrow> bool \<Rightarrow> ('a sys_scheme, int) state" where
  "modifyVpnUidRangeRule e table uidStart uidEnd secure add =
     (case vpn_uid_mark secure of (fwmark, fwmask) \<Rightarrow>
       modifyIpRule e (rule_action add)
         (if secure then RULE_PRIORITY_SECURE_VPN else RULE_PRIORITY_BYPASSABLE_VPN) table
         (intValue fwmark) (intValue fwmask) None None uidStart uidEnd)"

definition net_mask :: Fwmark where
  "net_mask = set_netId FWMARK_NET_ID_MASK new_Fwmark"

definition modifyVpnSystemPermissionRule ::
  "env \<Rightarrow> u32 \<Rightarrow> u32 \<Rightarrow> bool \<Rightarrow> bool \<Rightarrow> ('a sys_scheme, int) state" where
  "modifyVpnSystemPermissionRule e netId' table secure add = do {
     let fwmark = (set_netId netId' new_Fwmark)\<lparr>permission := PERMISSION_SYSTEM\<rparr>;
     let fwmask = net_mask\<lparr>permission := PERMISSION_SYSTEM\<rparr>;
     modifyIpRule5 e (rule_action add)
       (if secure then RULE_PRIORITY_SECURE_VPN else RULE_PRIORITY_BYPASSABLE_VPN) table
       (intValue fwmark) (intValue fwmask) }"

definition modifyExplicitNetworkRule ::
  "env \<Rightarrow> u32 \<Rightarrow> u32 \<Rightarrow> permission \<Rightarrow> uid \<Rightarrow> uid \<Rightarrow> bool \<Rightarrow> ('a sys_scheme, int) state" where
  "modifyExplicitNetworkRule e netId' table perm uidStart uidEnd add = do {
     let fwmark = (set_netId netId' new_Fwmark)\<lparr>explicitlySelected := True, permission := perm\<rparr>;
     let fwmask = net_mask\<lparr>explicitlySelected := True, permission := perm\<rparr>;
     modifyIpRule e (rule_action add) RULE_PRIORITY_EXPLICIT_NETWORK table
       (intValue fwmark) (intValue fwmask) None None uidStart uidEnd }"

definition modifyOutputInterfaceRule ::
  "env \<Rightarrow> string \<Rightarrow> u32 \<Rightarrow> permission \<Rightarrow> uid \<Rightarrow> uid \<Rightarrow> bool \<Rightarrow> ('a sys_scheme, int) state" where
  "modifyOutputInterfaceRule e iface table perm uidStart uidEnd add = do {
     let fwmark = new_Fwmark\<lparr>permission := perm\<rparr>;
     let fwmask = new_Fwmark\<lparr>permission := perm\<rparr>;
     modifyIpRule e (rule_action add) RULE_PRIORITY_OUTPUT_INTERFACE table
       (intValue fwmark) (intValue fwmask) None (Some iface) uidStart uidEnd }"

definition modifyImplicitNetworkRule ::
  "env \<Rightarrow> u32 \<Rightarrow> u32 \<Rightarrow> permission \<Rightarrow> bool \<Rightarrow> ('a sys_scheme, int) state" where
  "modifyImplicitNetworkRule e netId' table perm add = do {
     let fwmark = (set_netId netId' new_Fwmark)\<lparr>explicitlySelected := False, permission := perm\<rparr>;
     let fwmask = net_mask\<lparr>explicitlySelected := True, permission := perm\<rparr>;
     modifyIpRule5 e (rule_action add) RULE_PRIORITY_IMPLICIT_NETWORK table
       (intValue fwmark) (intValue fwmask) }"

definition modifyVpnFallthroughRule ::
  "env \<Rightarrow> u16 \<Rightarrow> u32 \<Rightarrow> string \<Rightarrow> permission \<Rightarrow> ('a rc_scheme, int) state" where
  "modifyVpnFallthroughRule e action vpnNetId physicalInterface perm = do {
     table \<leftarrow> getRouteTableForInterface e physicalInterface;
     if table = RT_TABLE_UNSPEC then ret (- ESRCH)
     else do {
       let fwmark = (set_netId vpnNetId new_Fwmark)\<lparr>explicitlySelected := False, permission := perm\<rparr>;
       let fwmask = net_mask\<lparr>explicitlySelected := True, permission := perm\<rparr>;
       modifyIpRule5 e action RULE_PRIORITY_VPN_FALLTHROUGH table (intValue fwmark) (intValue fwmask) } }"

subsection \<open>The rules installed at start-up\<close>

definition addLegacyRouteRules :: "env \<Rightarrow> ('a sys_scheme, int) state" where
  "addLegacyRouteRules e = do {
     let fwmark = new_Fwmark\<lparr>explicitlySelected := False\<rparr>;
     let fwmask = new_Fwmark\<lparr>explicitlySelected := True\<rparr>;
     ok_then (modifyIpRule5 e RTM_NEWRULE RULE_PRIORITY_LEGACY_SYSTEM ROUTE_TABLE_LEGACY_SYSTEM
                (intValue fwmark) (intValue fwmask))
      (ok_then (modifyIpRule5 e RTM_NEWRULE RULE_PRIORITY_LEGACY_NETWORK ROUTE_TABLE_LEGACY_NETWORK
                  (intValue fwmark) (intValue fwmask))
        (modifyIpRule5 e RTM_NEWRULE RULE_PRIORITY_VPN_OVERRIDE_SYSTEM ROUTE_TABLE_LEGACY_SYSTEM
           (intValue (fwmark\<lparr>permission := PERMISSION_SYSTEM\<rparr>))
           (intValue (fwmask\<lparr>permission := PERMISSION_SYSTEM\<rparr>)))) }"

definition addLocalNetworkRules :: "env \<Rightarrow> u32 \<Rightarrow> ('a sys_scheme, int) state" where
  "addLocalNetworkRules e localNetId =
     ok_then (modifyExplicitNetworkRule e localNetId ROUTE_TABLE_LOCAL_NETWORK PERMISSION_NONE
                INVALID_UID INVALID_UID True)
       (modifyIpRule5 e RTM_NEWRULE RULE_PRIORITY_LOCAL_NETWORK ROUTE_TABLE_LOCAL_NETWORK
          (intValue (new_Fwmark\<lparr>explicitlySelected := False\<rparr>))
          (intValue (new_Fwmark\<lparr>explicitlySelected := True\<rparr>)))"

definition addDirectlyConnectedRule :: "env \<Rightarrow> ('a sys_scheme, int) state" where
  "addDirectlyConnectedRule e =
     modifyIpRule e RTM_NEWRULE RULE_PRIORITY_DIRECTLY_CONNECTED RT_TABLE_MAIN
       (intValue (set_netId NETID_UNSET new_Fwmark)) (intValue net_mask) None None UID_ROOT UID_ROOT"

definition addUnreachableRule :: "env \<Rightarrow> ('a sys_scheme, int) state" where
  "addUnreachableRule e =
     modifyIpRule5 e RTM_NEWRULE RULE_PRIORITY_UNREACHABLE RT_TABLE_UNSPEC MARK_UNSET MARK_UNSET"

subsection \<open>The rules of a network\<close>

definition modifyLocalNetwork :: "env \<Rightarrow> u32 \<Rightarrow> string \<Rightarrow> bool \<Rightarrow> ('a sys_scheme, int) state" where
  "modifyLocalNetwork e netId' iface add =
     ok_then (modifyIncomingPacketMark e netId' iface PERMISSION_NONE add)
       (modifyOutputInterfaceRule e iface ROUTE_TABLE_LOCAL_NETWORK PERMISSION_NONE INVALID_UID
          INVALID_UID add)"

definition modifyPhysicalNetwork ::
  "env \<Rightarrow> u32 \<Rightarrow> string \<Rightarrow> permission \<Rightarrow> bool \<Rightarrow> ('a rc_scheme, int) state" where
  "modifyPhysicalNetwork e netId' iface perm add = do {
     table \<leftarrow> getRouteTableForInterface e iface;
     if table = RT_TABLE_UNSPEC then ret (- ESRCH)
     else
       ok_then (modifyIncomingPacketMark e netId' iface perm add)
        (ok_then (modifyExplicitNetworkRule e netId' table perm INVALID_UID INVALID_UID add)
          (ok_then (modifyOutputInterfaceRule e iface table perm INVALID_UID INVALID_UID add)
            (modifyImplicitNetworkRule e netId' table perm add))) }"

definition modifyVirtualNetwork ::
  "env \<Rightarrow> u32 \<Rightarrow> string \<Rightarrow> range list \<Rightarrow> bool \<Rightarrow> bool \<Rightarrow> bool \<Rightarrow> ('a rc_scheme, int) state" where
  "modifyVirtualNetwork e netId' iface uidRanges secure add modifyNonUidBasedRules = do {
     table \<leftarrow> getRouteTableForInterface e iface;
     if table = RT_TABLE_UNSPEC then ret (- ESRCH)
     else
       ok_then
         (for_ok (\<lambda>range.
            ok_then (modifyVpnUidRangeRule e table (fst range) (snd range) secure add)
             (ok_then (modifyExplicitNetworkRule e netId' table PERMISSION_NONE (fst range) (snd range) add)
               (modifyOutputInterfaceRule e iface table PERMISSION_NONE (fst range) (snd range) add)))
          uidRanges)
         (if modifyNonUidBasedRules then
            ok_then (modifyIncomingPacketMark e netId' iface PERMISSION_NONE add)
             (ok_then (modifyVpnOutputToLocalRule e iface add)
               (ok_then (modifyVpnSystemPermissionRule e netId' table secure add)
                 (modifyExplicitNetworkRule e netId' table PERMISSION_NONE UID_ROOT UID_ROOT add)))
          else ret 0) }"

definition modifyDefaultNetwork ::
  "env \<Rightarrow> u16 \<Rightarrow> string \<Rightarrow> permission \<Rightarrow> ('a rc_scheme, int) state" where
  "modifyDefaultNetwork e action iface perm = do {
     table \<leftarrow> getRouteTableForInterface e iface;
     if table = RT_TABLE_UNSPEC then ret (- ESRCH)
     else modifyIpRule5 e action RULE_PRIORITY_DEFAULT_NETWORK table
            (intValue ((set_netId NETID_UNSET new_Fwmark)\<lparr>permission := perm\<rparr>))
            (intValue (net_mask\<lparr>permission := perm\<rparr>)) }"

definition modifyTetheredNetwork ::
  "env \<Rightarrow> u16 \<Rightarrow> string \<Rightarrow> string \<Rightarrow> ('a rc_scheme, int) state" where
  "modifyTetheredNetwork e action inputInterface outputInterface = do {
     table \<leftarrow> getRouteTableForInterface e outputInterface;
     if table = RT_TABLE_UNSPEC then ret (- ESRCH)
     else modifyIpRule e action RULE_PRIORITY_TETHERING table MARK_UNSET MARK_UNSET
            (Some inputInterface) None INVALID_UID INVALID_UID }"

definition flushRules :: "env \<Rightarrow> ('a sys_scheme, int) state" where
  "flushRules e =
     for_ok (\<lambda>version. do {
         r \<leftarrow> fork_execvp0 e [IP_PATH, version, ''rule'', ''flush''];
         ret (if r \<noteq> 0 then - EREMOTEIO else 0) }) IP_VERSIONS"

definition RouteController_modifyRoute ::
  "env \<Rightarrow> u16 \<Rightarrow> string \<Rightarrow> cstr \<Rightarrow> cstr \<Rightarrow> TableType \<Rightarrow> ('a rc_scheme, int) state" where
  "RouteController_modifyRoute e action iface destination nexthop tableType = do {
     table \<leftarrow> (case tableType of
                 INTERFACE \<Rightarrow> getRouteTableForInterface e iface
               | LOCAL_NETWORK \<Rightarrow> ret ROUTE_TABLE_LOCAL_NETWORK
               | LEGACY_NETWORK \<Rightarrow> ret ROUTE_TABLE_LEGACY_NETWORK
               | LEGACY_SYSTEM \<Rightarrow> ret ROUTE_TABLE_LEGACY_SYSTEM);
     if tableType = INTERFACE \<and> table = RT_TABLE_UNSPEC then ret (- ESRCH)
     else do {
       r \<leftarrow> modifyIpRoute e action table (Some iface) destination nexthop;
       ret (if r \<noteq> 0 \<and> \<not> (action = RTM_NEWROUTE \<and> r = - EEXIST) then r else 0) } }"

text \<open>The do-while loop of \<^verbatim>\<open>flushRoutes\<close>: at most the given number of attempts.\<close>

fun flush_attempts :: "env \<Rightarrow> string list \<Rightarrow> nat \<Rightarrow> ('a sys_scheme, int) state" where
  "flush_attempts e argv attempts = do {
     err \<leftarrow> fork_execvp0 e argv;
     if err \<noteq> 0 \<and> attempts > 1 then flush_attempts e argv (attempts - 1) else ret err }"

declare flush_attempts.simps [simp del]

primrec flush_versions :: "env \<Rightarrow> string \<Rightarrow> string list \<Rightarrow> int \<Rightarrow> ('a sys_scheme, int) state" where
  "flush_versions e tableString [] r = ret r"
| "flush_versions e tableString (v # vs) r = do {
     err \<leftarrow> flush_attempts e [IP_PATH, v, ''route'', ''flush'', ''table'', tableString] ROUTE_FLUSH_ATTEMPTS;
     flush_versions e tableString vs (if err \<noteq> 0 then - EREMOTEIO else r) }"

definition flushRoutes :: "env \<Rightarrow> string \<Rightarrow> ('a rc_scheme, int) state" where
  "flushRoutes e iface = do {
     table \<leftarrow> getRouteTableForInterface e iface;
     if table = RT_TABLE_UNSPEC then ret (- ESRCH)
     else do {
       r \<leftarrow> flush_versions e (fmt_u (unat table)) IP_VERSIONS 0;
       (if r = 0 then modify (interfaceToTable_update (map_erase iface)) else ret ());
       ret r } }"

subsection \<open>The interface of the class\<close>

definition RouteController_Init :: "env \<Rightarrow> u32 \<Rightarrow> ('a rc_scheme, int) state" where
  "RouteController_Init e localNetId =
     ok_then (flushRules e)
      (ok_then (addLegacyRouteRules e)
        (ok_then (addLocalNetworkRules e localNetId)
          (ok_then (addDirectlyConnectedRule e)
            (ok_then (addUnreachableRule e)
              (do { updateTableNamesFile e; ret 0 })))))"

definition addInterfaceToLocalNetwork :: "env \<Rightarrow> u32 \<Rightarrow> string \<Rightarrow> ('a rc_scheme, int) state" where
  "addInterfaceToLocalNetwork e netId' iface = modifyLocalNetwork e netId' iface True"

definition removeInterfaceFromLocalNetwork :: "env \<Rightarrow> u32 \<Rightarrow> string \<Rightarrow> ('a rc_scheme, int) state" where
  "removeInterfaceFromLocalNetwork e netId' iface = modifyLocalNetwork e netId' iface False"

definition addInterfaceToPhysicalNetwork ::
  "env \<Rightarrow> u32 \<Rightarrow> string \<Rightarrow> permission \<Rightarrow> ('a rc_scheme, int) state" where
  "addInterfaceToPhysicalNetwork e netId' iface perm =
     ok_then (modifyPhysicalNetwork e netId' iface perm True)
       (do { updateTableNamesFile e; ret 0 })"

definition removeInterfaceFromPhysicalNetwork ::
  "env \<Rightarrow> u32 \<Rightarrow> string \<Rightarrow> permission \<Rightarrow> ('a rc_scheme, int) state" where
  "removeInterfaceFromPhysicalNetwork e netId' iface perm =
     ok_then (modifyPhysicalNetwork e netId' iface perm False)
       (ok_then (flushRoutes e iface) (do { updateTableNamesFile e; ret 0 }))"

definition addInterfaceToVirtualNetwork ::
  "env \<Rightarrow> u32 \<Rightarrow> string \<Rightarrow> bool \<Rightarrow> range list \<Rightarrow> ('a rc_scheme, int) state" where
  "addInterfaceToVirtualNetwork e netId' iface secure uidRanges =
     ok_then (modifyVirtualNetwork e netId' iface uidRanges secure True True)
       (do { updateTableNamesFile e; ret 0 })"

definition removeInterfaceFromVirtualNetwork ::
  "env \<Rightarrow> u32 \<Rightarrow> string \<Rightarrow> bool \<Rightarrow> range list \<Rightarrow> ('a rc_scheme, int) state" where
  "removeInterfaceFromVirtualNetwork e netId' iface secure uidRanges =
     ok_then (modifyVirtualNetwork e netId' iface uidRanges secure False True)
       (ok_then (flushRoutes e iface) (do { updateTableNamesFile e; ret 0 }))"

definition modifyPhysicalNetworkPermission ::
  "env \<Rightarrow> u32 \<Rightarrow> string \<Rightarrow> permission \<Rightarrow> permission \<Rightarrow> ('a rc_scheme, int) state" where
  "modifyPhysicalNetworkPermission e netId' iface oldPermission newPermission =
     ok_then (modifyPhysicalNetwork e netId' iface newPermission True)
       (modifyPhysicalNetwork e netId' iface oldPermission False)"

definition addUsersToVirtualNetwork ::
  "env \<Rightarrow> u32 \<Rightarrow> string \<Rightarrow> bool \<Rightarrow> range list \<Rightarrow> ('a rc_scheme, int) state" where
  "addUsersToVirtualNetwork e netId' iface secure uidRanges =
     modifyVirtualNetwork e netId' iface uidRanges secure True False"

definition removeUsersFromVirtualNetwork ::
  "env \<Rightarrow> u32 \<Rightarrow> string \<Rightarrow> bool \<Rightarrow> range list \<Rightarrow> ('a rc_scheme, int) state" where
  "removeUsersFromVirtualNetwork e netId' iface secure uidRanges =
     modifyVirtualNetwork e netId' iface uidRanges secure False False"

definition addInterfaceToDefaultNetwork :: "env \<Rightarrow> string \<Rightarrow> permission \<Rightarrow> ('a rc_scheme, int) state" where
  "addInterfaceToDefaultNetwork e iface perm = modifyDefaultNetwork e RTM_NEWRULE iface perm"

definition removeInterfaceFromDefaultNetwork :: "env \<Rightarrow> string \<Rightarrow> permission \<Rightarrow> ('a rc_scheme, int) state" where
  "removeInterfaceFromDefaultNetwork e iface perm = modifyDefaultNetwork e RTM_DELRULE iface perm"

definition RouteController_addRoute ::
  "env \<Rightarrow> string \<Rightarrow> cstr \<Rightarrow> cstr \<Rightarrow> TableType \<Rightarrow> ('a rc_scheme, int) state" where
  "RouteController_addRoute e iface destination nexthop tableType =
     RouteController_modifyRoute e RTM_NEWROUTE iface destination nexthop tableType"

definition RouteController_removeRoute ::
  "env \<Rightarrow> string \<Rightarrow> cstr \<Rightarrow> cstr \<Rightarrow> TableType \<Rightarrow> ('a rc_scheme, int) state" where
  "RouteController_removeRoute e iface destination nexthop tableType =
     RouteController_modifyRoute e RTM_DELROUTE iface destination nexthop tableType"

definition enableTethering :: "env \<Rightarrow> string \<Rightarrow> string \<Rightarrow> ('a rc_scheme, int) state" where
  "enableTethering e inputInterface outputInterface =
     modifyTetheredNetwork e RTM_NEWRULE inputInterface outputInterface"

definition disableTethering :: "env \<Rightarrow> string \<Rightarrow> string \<Rightarrow> ('a rc_scheme, int) state" where
  "disableTethering e inputInterface outputInterface =
     modifyTetheredNetwork e RTM_DELRULE inputInterface outputInterface"

definition addVirtualNetworkFallthrough ::
  "env \<Rightarrow> u32 \<Rightarrow> string \<Rightarrow> permission \<Rightarrow> ('a rc_scheme, int) state" where
  "addVirtualNetworkFallthrough e vpnNetId physicalInterface perm =
     modifyVpnFallthroughRule e RTM_NEWRULE vpnNetId physicalInterface perm"

definition removeVirtualNetworkFallthrough ::
  "env \<Rightarrow> u32 \<Rightarrow> string \<Rightarrow> permission \<Rightarrow> ('a rc_scheme, int) state" where
  "removeVirtualNetworkFallthrough e vpnNetId physicalInterface perm =
     modifyVpnFallthroughRule e RTM_DELRULE vpnNetId physicalInterface perm"

section \<open>Specification: the rules the kernel has acknowledged\<close>

text \<open>
  Replaying the history: a rule request that was acknowledged without an error adds or deletes the
  rule it encodes, and a successful \<^verbatim>\<open>ip rule flush\<close> deletes the rules of its address family.
\<close>

fun apply_event :: "event \<Rightarrow> fib_rule multiset \<Rightarrow> fib_rule multiset" where
  "apply_event (EvNetlink msg (NlAck err)) M =
     (if err \<noteq> 0 then M
      else case parse_rule_msg msg of
        None \<Rightarrow> M
      | Some (type, flags, r) \<Rightarrow>
          if type = RTM_NEWRULE then M + {#r#} else if type = RTM_DELRULE then M - {#r#} else M)"
| "apply_event (EvRun argv res) M =
     (if res = 0 \<and> argv = [IP_PATH, ''-4'', ''rule'', ''flush''] then filter_mset (\<lambda>r. fr_family r \<noteq> AF_INET) M
      else if res = 0 \<and> argv = [IP_PATH, ''-6'', ''rule'', ''flush''] then filter_mset (\<lambda>r. fr_family r \<noteq> AF_INET6) M
      else M)"
| "apply_event _ M = M"

definition rules_of :: "event list \<Rightarrow> fib_rule multiset" where
  "rules_of h = foldr apply_event h {#}"

definition uid_opt :: "uid \<Rightarrow> uid \<Rightarrow> range option" where
  "uid_opt us ue = (if us \<noteq> INVALID_UID then Some (us, ue) else None)"

text \<open>One rule per address family.\<close>

definition both ::
  "u32 \<Rightarrow> u32 \<Rightarrow> u32 \<Rightarrow> u32 \<Rightarrow> cstr \<Rightarrow> cstr \<Rightarrow> range option \<Rightarrow> fib_rule multiset" where
  "both priority table fwmark fwmask iif oif uids =
     {#the_rule AF_INET priority table fwmark fwmask iif oif uids,
       the_rule AF_INET6 priority table fwmark fwmask iif oif uids#}"

definition rules_add :: "fib_rule multiset \<Rightarrow> fib_rule multiset \<Rightarrow> fib_rule multiset" where
  "rules_add R M = M + R"

definition rules_del :: "fib_rule multiset \<Rightarrow> fib_rule multiset \<Rightarrow> fib_rule multiset" where
  "rules_del R M = M - R"

definition rules_upd :: "bool \<Rightarrow> fib_rule multiset \<Rightarrow> fib_rule multiset \<Rightarrow> fib_rule multiset" where
  "rules_upd add R = (if add then rules_add R else rules_del R)"

text \<open>
  What the code relies on: an interface's index does not change while the daemon runs, although
  the interface may come and go, and a system call that fails sets errno.
\<close>

definition stable_index :: "env \<Rightarrow> (string \<Rightarrow> u32) \<Rightarrow> bool" where
  "stable_index e idx \<longleftrightarrow>
     (\<forall>h n. env_ifindex e h n = 0 \<or> env_ifindex e h n = idx n) \<and>
     (\<forall>h msg. env_netlink e h msg \<noteq> NlSysError 0)"

definition table_of :: "(string \<Rightarrow> u32) \<Rightarrow> string \<Rightarrow> u32" where
  "table_of idx iface = idx iface + ROUTE_TABLE_OFFSET_FROM_INDEX"

definition tables_ok :: "(string \<Rightarrow> u32) \<Rightarrow> 'a rc_scheme \<Rightarrow> bool" where
  "tables_ok idx s \<longleftrightarrow> list_all (\<lambda>(n, t). t = table_of idx n) (interfaceToTable s)"

text \<open>The cached tables are right and the rules are \<open>M\<close>.\<close>

definition tr :: "(string \<Rightarrow> u32) \<Rightarrow> fib_rule multiset \<Rightarrow> 'a rc_scheme \<Rightarrow> bool" where
  "tr idx M s \<longleftrightarrow> tables_ok idx s \<and> rules_of (hist s) = M"

text \<open>
  \<open>effect idx f m\<close>: when \<open>m\<close> returns 0 it has changed the acknowledged rules by \<open>f\<close>; in any case the
  cached tables stay right.
\<close>

definition effect ::
  "(string \<Rightarrow> u32) \<Rightarrow> (fib_rule multiset \<Rightarrow> fib_rule multiset) \<Rightarrow> ('a rc_scheme, int) state \<Rightarrow> bool" where
  "effect idx f m \<longleftrightarrow>
     (\<forall>M. hoare (tr idx M) m (\<lambda>r s. tables_ok idx s \<and> (r = 0 \<longrightarrow> rules_of (hist s) = f M)))"

text \<open>
  The rules each kind of network needs, with the marks and masks of the source. A packet's mark
  matches a rule when its bits under the mask are the rule's mark.
\<close>

definition explicit_rules :: "u32 \<Rightarrow> u32 \<Rightarrow> permission \<Rightarrow> range option \<Rightarrow> fib_rule multiset" where
  "explicit_rules n table perm uids =
     both RULE_PRIORITY_EXPLICIT_NETWORK table
       (intValue ((set_netId n new_Fwmark)\<lparr>explicitlySelected := True, permission := perm\<rparr>))
       (intValue (net_mask\<lparr>explicitlySelected := True, permission := perm\<rparr>)) None None uids"

definition output_rules :: "string \<Rightarrow> u32 \<Rightarrow> permission \<Rightarrow> range option \<Rightarrow> fib_rule multiset" where
  "output_rules iface table perm uids =
     both RULE_PRIORITY_OUTPUT_INTERFACE table (intValue (new_Fwmark\<lparr>permission := perm\<rparr>))
       (intValue (new_Fwmark\<lparr>permission := perm\<rparr>)) None (Some iface) uids"

text \<open>Implicit, fallthrough and default rules: not explicitly selected, and the given permission.\<close>

definition implicit_rules :: "u32 \<Rightarrow> u32 \<Rightarrow> u32 \<Rightarrow> permission \<Rightarrow> fib_rule multiset" where
  "implicit_rules priority n table perm =
     both priority table
       (intValue ((set_netId n new_Fwmark)\<lparr>explicitlySelected := False, permission := perm\<rparr>))
       (intValue (net_mask\<lparr>explicitlySelected := True, permission := perm\<rparr>)) None None None"

definition default_rules :: "u32 \<Rightarrow> permission \<Rightarrow> fib_rule multiset" where
  "default_rules table perm =
     both RULE_PRIORITY_DEFAULT_NETWORK table
       (intValue ((set_netId NETID_UNSET new_Fwmark)\<lparr>permission := perm\<rparr>))
       (intValue (net_mask\<lparr>permission := perm\<rparr>)) None None None"

definition local_rules :: "string \<Rightarrow> fib_rule multiset" where
  "local_rules iface = output_rules iface ROUTE_TABLE_LOCAL_NETWORK PERMISSION_NONE None"

definition physical_rules :: "u32 \<Rightarrow> string \<Rightarrow> u32 \<Rightarrow> permission \<Rightarrow> fib_rule multiset" where
  "physical_rules n iface table perm =
     explicit_rules n table perm None + output_rules iface table perm None +
     implicit_rules RULE_PRIORITY_IMPLICIT_NETWORK n table perm"

definition fallthrough_rules :: "u32 \<Rightarrow> u32 \<Rightarrow> permission \<Rightarrow> fib_rule multiset" where
  "fallthrough_rules = implicit_rules RULE_PRIORITY_VPN_FALLTHROUGH"

definition vpn_priority :: "bool \<Rightarrow> u32" where
  "vpn_priority secure = (if secure then RULE_PRIORITY_SECURE_VPN else RULE_PRIORITY_BYPASSABLE_VPN)"

definition vpn_user_rules :: "u32 \<Rightarrow> string \<Rightarrow> u32 \<Rightarrow> bool \<Rightarrow> range \<Rightarrow> fib_rule multiset" where
  "vpn_user_rules n iface table secure rng =
     both (vpn_priority secure) table (intValue (fst (vpn_uid_mark secure)))
       (intValue (snd (vpn_uid_mark secure))) None None (Some rng) +
     (explicit_rules n table PERMISSION_NONE (Some rng) +
      output_rules iface table PERMISSION_NONE (Some rng))"

definition vpn_base_rules :: "u32 \<Rightarrow> string \<Rightarrow> u32 \<Rightarrow> bool \<Rightarrow> fib_rule multiset" where
  "vpn_base_rules n iface table secure =
     both RULE_PRIORITY_VPN_OUTPUT_TO_LOCAL ROUTE_TABLE_LOCAL_NETWORK MARK_UNSET MARK_UNSET
       (Some iface) None None +
     (both (vpn_priority secure) table
       (intValue ((set_netId n new_Fwmark)\<lparr>permission := PERMISSION_SYSTEM\<rparr>))
       (intValue (net_mask\<lparr>permission := PERMISSION_SYSTEM\<rparr>)) None None None +
      explicit_rules n table PERMISSION_NONE (Some (UID_ROOT, UID_ROOT)))"

definition virtual_rules :: "u32 \<Rightarrow> string \<Rightarrow> u32 \<Rightarrow> bool \<Rightarrow> range list \<Rightarrow> fib_rule multiset" where
  "virtual_rules n iface table secure ranges =
     (\<Sum>r\<leftarrow>ranges. vpn_user_rules n iface table secure r) + vpn_base_rules n iface table secure"

text \<open>A predicate that depends neither on quiet events nor on the cached tables.\<close>

definition rc_free :: "('a rc_scheme \<Rightarrow> bool) \<Rightarrow> bool" where
  "rc_free I \<longleftrightarrow> hist_free I \<and> (\<forall>s m. I (s\<lparr>interfaceToTable := m\<rparr>) = I s)"

text \<open>The rules present after \<^verbatim>\<open>Init\<close>.\<close>

definition init_rules :: "u32 \<Rightarrow> fib_rule multiset" where
  "init_rules localNetId =
     (let sel = intValue (new_Fwmark\<lparr>explicitlySelected := True\<rparr>);
          sys = intValue (new_Fwmark\<lparr>permission := PERMISSION_SYSTEM\<rparr>)
      in both RULE_PRIORITY_LEGACY_SYSTEM ROUTE_TABLE_LEGACY_SYSTEM 0 sel None None None +
         both RULE_PRIORITY_LEGACY_NETWORK ROUTE_TABLE_LEGACY_NETWORK 0 sel None None None +
         both RULE_PRIORITY_VPN_OVERRIDE_SYSTEM ROUTE_TABLE_LEGACY_SYSTEM sys (sel OR sys) None None None +
         explicit_rules localNetId ROUTE_TABLE_LOCAL_NETWORK PERMISSION_NONE None +
         both RULE_PRIORITY_LOCAL_NETWORK ROUTE_TABLE_LOCAL_NETWORK 0 sel None None None +
         both RULE_PRIORITY_DIRECTLY_CONNECTED RT_TABLE_MAIN 0 FWMARK_NET_ID_MASK None None (Some (UID_ROOT, UID_ROOT)) +
         both RULE_PRIORITY_UNREACHABLE RT_TABLE_UNSPEC 0 0 None None None)"

text \<open>
  An environment in which nothing goes wrong: the kernel and the programs accept every request and
  every interface has an index. \<open>returns_0 m\<close>: \<open>m\<close> reports success in every state.
\<close>

definition accepting :: "env \<Rightarrow> bool" where
  "accepting e \<longleftrightarrow>
     (\<forall>h msg. env_netlink e h msg = NlAck 0) \<and> (\<forall>h argv. env_exec e h argv = (0, 0)) \<and>
     (\<forall>h argv. env_run e h argv = 0) \<and>
     (\<forall>h n. env_ifindex e h n \<noteq> 0 \<and> env_ifindex e h n + ROUTE_TABLE_OFFSET_FROM_INDEX \<noteq> RT_TABLE_UNSPEC)"

definition returns_0 :: "('s, int) state \<Rightarrow> bool" where
  "returns_0 m \<longleftrightarrow> (\<forall>s. fst (run_state m s) = 0)"

definition short_name :: "string \<Rightarrow> bool" where
  "short_name iface \<longleftrightarrow> length iface < IFNAMSIZ"

text \<open>Whether the mark of a packet satisfies a rule's mark and mask.\<close>

definition mark_matches :: "u32 \<Rightarrow> fib_rule \<Rightarrow> bool" where
  "mark_matches m r \<longleftrightarrow> (case fr_mask r of None \<Rightarrow> True | Some k \<Rightarrow> m AND k = the (fr_mark r))"

named_theorems tr_wp "operations that leave the rules alone"
named_theorems effects "the effect of operations on the rules"
named_theorems succeed "operations that succeed in an accepting environment"

section \<open>Lemmas\<close>

subsection \<open>Frame\<close>

lemma rc_freeD: "rc_free I \<Longrightarrow> I (s\<lparr>interfaceToTable := m\<rparr>) = I s"
  by (simp add: rc_free_def)

lemma rc_free_hist [intro, simp]: "rc_free I \<Longrightarrow> hist_free I"
  by (simp add: rc_free_def)

lemma keeps_set_tables [wp]: "rc_free I \<Longrightarrow> keeps I (modify (interfaceToTable_update f))"
proof (rule keeps_modify)
  fix s :: "'a rc_scheme" assume "rc_free I" "I s"
  moreover have "interfaceToTable_update f s = s\<lparr>interfaceToTable := f (interfaceToTable s)\<rparr>" by simp
  ultimately show "I (interfaceToTable_update f s)" by (simp only: rc_freeD)
qed

lemma keeps_sendNetlinkRequest [wp]: "hist_free I \<Longrightarrow> keeps I (sendNetlinkRequest e a f iov)"
  unfolding sendNetlinkRequest_def by (intro wp)

lemma keeps_modifyIpRule [wp]:
  "hist_free I \<Longrightarrow> keeps I (modifyIpRule e action priority table fwmark fwmask iif oif us ue)"
  unfolding modifyIpRule_def by (intro wp)

lemma keeps_modifyIpRule5 [wp]: "hist_free I \<Longrightarrow> keeps I (modifyIpRule5 e action priority table fwmark fwmask)"
  unfolding modifyIpRule5_def by (intro wp)

lemma keeps_route_target [wp]: "hist_free I \<Longrightarrow> keeps I (route_target e family iface nexthop)"
  unfolding route_target_def by (intro wp)

lemma keeps_modifyIpRoute [wp]: "hist_free I \<Longrightarrow> keeps I (modifyIpRoute e action table iface dst nexthop)"
  unfolding modifyIpRoute_def by (intro wp)

lemma keeps_modifyIncomingPacketMark [wp]:
  "hist_free I \<Longrightarrow> keeps I (modifyIncomingPacketMark e n i p add)"
  unfolding modifyIncomingPacketMark_def by (intro wp)

lemmas rule_function_defs =
  modifyVpnOutputToLocalRule_def modifyVpnUidRangeRule_def modifyVpnSystemPermissionRule_def
  modifyExplicitNetworkRule_def modifyOutputInterfaceRule_def modifyImplicitNetworkRule_def
  addLegacyRouteRules_def addLocalNetworkRules_def addDirectlyConnectedRule_def addUnreachableRule_def
  modifyLocalNetwork_def

lemma keeps_rule_functions [wp]:
  assumes "hist_free I"
  shows "keeps I (modifyVpnOutputToLocalRule e v add)"
    and "keeps I (modifyVpnUidRangeRule e t us ue secure add)"
    and "keeps I (modifyVpnSystemPermissionRule e n t secure add)"
    and "keeps I (modifyExplicitNetworkRule e n t p us ue add)"
    and "keeps I (modifyOutputInterfaceRule e i t p us ue add)"
    and "keeps I (modifyImplicitNetworkRule e n t p add)"
    and "keeps I (modifyLocalNetwork e n i add)"
    and "keeps I (addLegacyRouteRules e)"
    and "keeps I (addLocalNetworkRules e n)"
    and "keeps I (addDirectlyConnectedRule e)"
    and "keeps I (addUnreachableRule e)"
  unfolding rule_function_defs by (intro wp assms)+

lemma keeps_getRouteTableForInterface [wp]: "rc_free I \<Longrightarrow> keeps I (getRouteTableForInterface e i)"
  unfolding getRouteTableForInterface_def by (intro wp rc_free_hist)

lemma keeps_updateTableNamesFile [wp]: "rc_free I \<Longrightarrow> keeps I (updateTableNamesFile e)"
  unfolding updateTableNamesFile_def Let_def by (intro wp rc_free_hist)

lemma keeps_flush_attempts [wp]: "hist_free I \<Longrightarrow> keeps I (flush_attempts e argv n)"
proof (induction n)
  case (Suc n)
  then show ?case by (subst flush_attempts.simps) (intro wp, simp_all)
next
  case 0
  then show ?case by (subst flush_attempts.simps, simp) (intro wp)
qed

lemma keeps_flush_versions [wp]: "hist_free I \<Longrightarrow> keeps I (flush_versions e t vs r)"
  by (induction vs arbitrary: r) (simp_all add: keeps_return keeps_bind keeps_flush_attempts)

lemma keeps_flushRoutes [wp]: "rc_free I \<Longrightarrow> keeps I (flushRoutes e i)"
  unfolding flushRoutes_def by (intro wp rc_free_hist)

lemma keeps_flushRules [wp]: "rc_free I \<Longrightarrow> keeps I (flushRules e)"
  unfolding flushRules_def by (intro wp rc_free_hist)

lemma keeps_network_rules [wp]:
  assumes "rc_free I"
  shows "keeps I (modifyPhysicalNetwork e n i p add)"
    and "keeps I (modifyVirtualNetwork e n i rs secure add nonuid)"
    and "keeps I (modifyDefaultNetwork e action i p)"
    and "keeps I (modifyTetheredNetwork e action i o')"
    and "keeps I (modifyVpnFallthroughRule e action n i p)"
  unfolding modifyPhysicalNetwork_def modifyVirtualNetwork_def modifyDefaultNetwork_def
    modifyTetheredNetwork_def modifyVpnFallthroughRule_def
  by (intro wp rc_free_hist assms)+

lemma keeps_RouteController_modifyRoute [wp]:
  "rc_free I \<Longrightarrow> keeps I (RouteController_modifyRoute e a i d nh t)"
  unfolding RouteController_modifyRoute_def
  by (cases t; simp only: TableType.case; intro wp rc_free_hist; assumption)

lemmas RouteController_public_defs =
  RouteController_Init_def addInterfaceToLocalNetwork_def removeInterfaceFromLocalNetwork_def
  addInterfaceToPhysicalNetwork_def removeInterfaceFromPhysicalNetwork_def
  addInterfaceToVirtualNetwork_def removeInterfaceFromVirtualNetwork_def
  modifyPhysicalNetworkPermission_def addUsersToVirtualNetwork_def removeUsersFromVirtualNetwork_def
  addInterfaceToDefaultNetwork_def removeInterfaceFromDefaultNetwork_def
  RouteController_addRoute_def RouteController_removeRoute_def enableTethering_def disableTethering_def
  addVirtualNetworkFallthrough_def removeVirtualNetworkFallthrough_def

lemma keeps_RouteController [wp]:
  assumes "rc_free I"
  shows "keeps I (RouteController_Init e n)"
    and "keeps I (addInterfaceToLocalNetwork e n i)"
    and "keeps I (removeInterfaceFromLocalNetwork e n i)"
    and "keeps I (addInterfaceToPhysicalNetwork e n i p)"
    and "keeps I (removeInterfaceFromPhysicalNetwork e n i p)"
    and "keeps I (addInterfaceToVirtualNetwork e n i secure rs)"
    and "keeps I (removeInterfaceFromVirtualNetwork e n i secure rs)"
    and "keeps I (modifyPhysicalNetworkPermission e n i p q)"
    and "keeps I (addUsersToVirtualNetwork e n i secure rs)"
    and "keeps I (removeUsersFromVirtualNetwork e n i secure rs)"
    and "keeps I (addInterfaceToDefaultNetwork e i p)"
    and "keeps I (removeInterfaceFromDefaultNetwork e i p)"
    and "keeps I (RouteController_addRoute e i d nh t)"
    and "keeps I (RouteController_removeRoute e i d nh t)"
    and "keeps I (enableTethering e i o')"
    and "keeps I (disableTethering e i o')"
    and "keeps I (addVirtualNetworkFallthrough e n i p)"
    and "keeps I (removeVirtualNetworkFallthrough e n i p)"
  unfolding RouteController_public_defs by (intro wp rc_free_hist assms)+

subsection \<open>Effects on the acknowledged rules\<close>

lemma rules_of_Cons [simp]: "rules_of (ev # h) = apply_event ev (rules_of h)"
  by (simp add: rules_of_def)

lemma tables_ok_hist [simp]: "tables_ok idx (s\<lparr>hist := h\<rparr>) = tables_ok idx s"
  by (simp add: tables_ok_def)

lemma tr_if_nametoindex [tr_wp]: "keeps (tr idx M) (if_nametoindex e n)"
  by (simp add: hoare_def run_if_nametoindex tr_def)

lemma tr_fork_execvp [tr_wp]: "keeps (tr idx M) (fork_execvp e argv)"
  by (auto simp: hoare_def run_fork_execvp tr_def split: prod.splits)

lemma tr_call_sys [tr_wp]: "keeps (tr idx M) (call_sys e c)"
  by (simp add: hoare_def run_call_sys tr_def)

lemma tr_fork_execvp0 [tr_wp]: "argv ! 2 \<noteq> ''rule'' \<Longrightarrow> keeps (tr idx M) (fork_execvp0 e argv)"
  by (auto simp: hoare_def run_fork_execvp0 tr_def)

lemma tr_flush_attempts [tr_wp]: "argv ! 2 \<noteq> ''rule'' \<Longrightarrow> keeps (tr idx M) (flush_attempts e argv n)"
proof (induction n)
  case 0
  then show ?case by (subst flush_attempts.simps, simp) (intro wp_basic tr_wp)
next
  case (Suc n)
  then show ?case by (subst flush_attempts.simps) (intro wp_basic tr_wp, simp_all)
qed

lemma tr_flush_versions [tr_wp]: "keeps (tr idx M) (flush_versions e t vs r)"
  by (induction vs arbitrary: r) (simp_all add: keeps_return keeps_bind tr_flush_attempts)

lemma tr_execIptables [tr_wp]: "keeps (tr idx M) (execIptables e t args)"
  unfolding execIptables_def execIptablesCommand_def by (intro wp_basic tr_wp)

lemma tr_updateTableNamesFile [tr_wp]: "keeps (tr idx M) (updateTableNamesFile e)"
  unfolding updateTableNamesFile_def Let_def by (intro wp_basic tr_wp)

lemma parse_rule_msg_type: "parse_rule_msg (netlink_message a f iov) = Some (t, g, r) \<Longrightarrow> t = a"
  by (auto simp: parse_rule_msg_def netlink_message_def nlmsghdr_def split: if_splits)

lemma tr_sendNetlinkRequest [tr_wp]:
  assumes "a \<noteq> RTM_NEWRULE" and "a \<noteq> RTM_DELRULE"
  shows "keeps (tr idx M) (sendNetlinkRequest e a f iov)"
proof -
  have "apply_event (EvNetlink (netlink_message a f iov) r) N = N" for r N
    using assms by (cases r) (auto split: option.splits dest: parse_rule_msg_type)
  then show ?thesis
    by (simp add: sendNetlinkRequest_def hoare_def run_netlink_io tr_def)
qed

lemma tr_modifyIpRoute [tr_wp]:
  "a \<noteq> RTM_NEWRULE \<Longrightarrow> a \<noteq> RTM_DELRULE \<Longrightarrow> keeps (tr idx M) (modifyIpRoute e a t i d nh)"
  unfolding modifyIpRoute_def route_target_def by (intro wp_basic tr_wp)

text \<open>A cached table is the one of the interface's index, and so is a fresh one.\<close>

lemma tables_ok_put: "tables_ok idx s \<Longrightarrow> t = table_of idx i \<Longrightarrow>
   tables_ok idx (interfaceToTable_update (map_put i t) s)"
proof -
  have "set (map_put i t m) \<subseteq> insert (i, t) (set m)" for m by (induction m) auto
  then show "tables_ok idx s \<Longrightarrow> t = table_of idx i \<Longrightarrow> ?thesis"
    by (fastforce simp: tables_ok_def list_all_iff)
qed

lemma getRouteTable_spec:
  assumes "stable_index e idx"
  shows "hoare (tr idx M) (getRouteTableForInterface e i)
           (\<lambda>t s. tr idx M s \<and> (t = RT_TABLE_UNSPEC \<or> t = table_of idx i))"
proof (rule hoareI)
  fix s t s'
  assume tr: "tr idx M s" and run: "run_state (getRouteTableForInterface e i) s = (t, s')"
  let ?ix = "env_ifindex e (hist s) i"
  let ?s = "s\<lparr>hist := EvIfIndex i ?ix # hist s\<rparr>"
  show "tr idx M s' \<and> (t = RT_TABLE_UNSPEC \<or> t = table_of idx i)"
  proof (cases "?ix = 0")
    case True
    then show ?thesis
      using run tr
      by (auto simp: getRouteTableForInterface_def run_if_nametoindex tr_def tables_ok_def list_all_iff
          split: option.splits dest!: map_of_SomeD)
  next
    case False
    then have "?ix = idx i" using assms by (auto simp: stable_index_def)
    then show ?thesis
      using False run tr tables_ok_put [of idx ?s "table_of idx i" i]
      by (auto simp: getRouteTableForInterface_def run_if_nametoindex tr_def table_of_def Let_def)
  qed
qed

lemma tr_getRouteTableForInterface [tr_wp]:
  "stable_index e idx \<Longrightarrow> keeps (tr idx M) (getRouteTableForInterface e i)"
  by (rule hoare_post [OF getRouteTable_spec]) auto

lemma tr_erase_table [tr_wp]: "keeps (tr idx M) (modify (interfaceToTable_update (map_erase i)))"
  by (rule keeps_modify) (auto simp: tr_def tables_ok_def list_all_iff)

lemma tr_flushRoutes [tr_wp]: "stable_index e idx \<Longrightarrow> keeps (tr idx M) (flushRoutes e i)"
  unfolding flushRoutes_def by (intro wp_basic tr_wp)

lemma tr_RouteController_routes [tr_wp]:
  assumes "stable_index e idx"
  shows "keeps (tr idx M) (RouteController_addRoute e i d nh t)"
    and "keeps (tr idx M) (RouteController_removeRoute e i d nh t)"
  unfolding RouteController_addRoute_def RouteController_removeRoute_def RouteController_modifyRoute_def
  using assms by (cases t; simp only: TableType.case; intro wp_basic tr_wp;
      simp add: RTM_NEWROUTE_def RTM_DELROUTE_def RTM_NEWRULE_def RTM_DELRULE_def)+

lemma rules_upd_simps [simp]:
  "rules_upd add {#} = id" "rules_upd add B (rules_upd add A M) = rules_upd add (A + B) M"
  by (simp_all add: rules_upd_def rules_add_def rules_del_def fun_eq_iff add.assoc diff_diff_add)

lemma effect_quiet: "(\<And>M. keeps (tr idx M) m) \<Longrightarrow> effect idx id m"
  unfolding effect_def hoare_def by (fastforce simp: tr_def)

lemma effect_error: "r \<noteq> 0 \<Longrightarrow> effect idx f (ret r)"
  by (simp add: effect_def hoare_def tr_def)

lemma effect_if:
  "(b \<Longrightarrow> effect idx f m) \<Longrightarrow> (\<not> b \<Longrightarrow> effect idx f k) \<Longrightarrow> effect idx f (if b then m else k)"
  by simp

lemma effect_case_sum:
  "(\<And>a. x = Inl a \<Longrightarrow> effect idx f (m a)) \<Longrightarrow> (\<And>b. x = Inr b \<Longrightarrow> effect idx f (k b)) \<Longrightarrow>
   effect idx f (case x of Inl a \<Rightarrow> m a | Inr b \<Rightarrow> k b)"
  by (cases x) simp_all

lemma effect_ret_0: "effect idx id (ret 0)"
  by (rule effect_quiet) (rule keeps_return)

lemma effect_ok_then:
  assumes "effect idx f m" and "effect idx g k"
  shows "effect idx (\<lambda>M. g (f M)) (ok_then m k)"
  unfolding effect_def
proof (rule allI, rule hoare_ok_then)
  fix M
  show "hoare (tr idx M) m (\<lambda>r s. tables_ok idx s \<and> (r = 0 \<longrightarrow> rules_of (hist s) = f M))"
    using assms(1) by (simp add: effect_def)
  show "hoare (\<lambda>s. tables_ok idx s \<and> ((0::int) = 0 \<longrightarrow> rules_of (hist s) = f M)) k
     (\<lambda>r s. tables_ok idx s \<and> (r = 0 \<longrightarrow> rules_of (hist s) = g (f M)))"
    using assms(2) by (fastforce simp: effect_def hoare_def tr_def)
qed auto

lemma effect_seq [effects]:
  "effect idx (rules_upd add A) m \<Longrightarrow> effect idx (rules_upd add B) k \<Longrightarrow>
   effect idx (rules_upd add (A + B)) (ok_then m k)"
  by (drule (1) effect_ok_then) simp

lemma effect_id_then: "effect idx id m \<Longrightarrow> effect idx f k \<Longrightarrow> effect idx f (ok_then m k)"
  by (drule (1) effect_ok_then) simp

lemma effect_then_id: "effect idx f m \<Longrightarrow> effect idx id k \<Longrightarrow> effect idx f (ok_then m k)"
  by (drule (1) effect_ok_then) simp

lemma effect_for_ok:
  assumes "\<And>x. x \<in> set xs \<Longrightarrow> effect idx (rules_upd add (F x)) (f x)"
  shows "effect idx (rules_upd add (\<Sum>x\<leftarrow>xs. F x)) (for_ok f xs)"
  using assms by (induction xs) (simp_all add: effect_ret_0 effect_seq)

text \<open>One request per family changes the rules by the encoded rule.\<close>

lemma RTM_rule_neq [simp]: "RTM_NEWRULE \<noteq> RTM_DELRULE" "RTM_DELRULE \<noteq> RTM_NEWRULE"
  by (simp_all add: RTM_NEWRULE_def RTM_DELRULE_def)

lemma effect_send_rule:
  assumes "stable_index e idx"
    and "padInterfaceName iif = Inr iifp" and "padInterfaceName oif = Inr oifp"
  shows "effect idx
     (rules_upd add {#the_rule family priority table fwmark fwmask iif oif (if u then Some (us, ue) else None)#})
     (sendNetlinkRequest e (rule_action add) flags
        (rule_iov family priority table fwmark fwmask iif iifp oif oifp u us ue))"
proof -
  note parse = parse_rule_netlink_message [OF assms(2,3)]
  show ?thesis
    using assms(1) unfolding effect_def hoare_def sendNetlinkRequest_def stable_index_def
    by (auto simp: run_netlink_io parse tr_def rules_upd_def rules_add_def rules_del_def rule_action_def
        errno_defs split: nl_reply.splits)
qed

lemma effect_modifyIpRule [effects]:
  assumes "stable_index e idx"
  shows "effect idx
     (rules_upd add (both priority table fwmark fwmask iif oif
        (if us \<noteq> INVALID_UID then Some (us, ue) else None)))
     (modifyIpRule e (rule_action add) priority table fwmark fwmask iif oif us ue)"
proof -
  have two: "effect idx (rules_upd add (both priority table fwmark fwmask iif oif (if u then Some (us, ue) else None)))
      (for_ok (\<lambda>family. sendNetlinkRequest e (rule_action add) flags
         (rule_iov family priority table fwmark fwmask iif iifp oif oifp u us ue)) AF_FAMILIES)"
    if "padInterfaceName iif = Inr iifp" "padInterfaceName oif = Inr oifp" for flags iifp oifp u
  proof -
    let ?R = "\<lambda>family. {#the_rule family priority table fwmark fwmask iif oif (if u then Some (us, ue) else None)#}"
    have "(\<Sum>f\<leftarrow>AF_FAMILIES. ?R f) = both priority table fwmark fwmask iif oif (if u then Some (us, ue) else None)"
      unfolding AF_FAMILIES_def both_def by (simp only: list.map sum_list.Cons sum_list.Nil) simp
    then show ?thesis
      using effect_for_ok [of AF_FAMILIES idx add ?R, OF effect_send_rule [OF assms that, of add _ _ _ _ _ u us ue flags]]
      by simp
  qed
  have "padInterfaceName x = Inl r \<Longrightarrow> r \<noteq> 0" for x r
    by (auto simp: padInterfaceName_def Let_def errno_defs split: option.splits if_splits)
  then show ?thesis
    unfolding modifyIpRule_def Let_def
    by (intro effect_if effect_case_sum two effect_error) (simp_all add: errno_defs)
qed

lemma effect_modifyIpRule5 [effects]:
  "stable_index e idx \<Longrightarrow>
   effect idx (rules_upd add (both priority table fwmark fwmask None None None))
     (modifyIpRule5 e (rule_action add) priority table fwmark fwmask)"
  using effect_modifyIpRule [where us = INVALID_UID and ue = INVALID_UID and iif = None and oif = None]
  by (simp add: modifyIpRule5_def)

lemma effect_modifyIncomingPacketMark [effects]: "effect idx id (modifyIncomingPacketMark e n i p add)"
  unfolding modifyIncomingPacketMark_def by (rule effect_quiet) (intro wp_basic tr_wp)

lemma uid_opt_simps [simp]: "uid_opt INVALID_UID ue = None" "uid_opt UID_ROOT ue = Some (UID_ROOT, ue)"
  by (simp_all add: uid_opt_def INVALID_UID_def UID_ROOT_def)

lemma effect_rule_functions [effects]:
  assumes "stable_index e idx"
  shows "effect idx (rules_upd add (explicit_rules n t p (uid_opt us ue)))
           (modifyExplicitNetworkRule e n t p us ue add)"
    and "effect idx (rules_upd add (output_rules i t p (uid_opt us ue)))
           (modifyOutputInterfaceRule e i t p us ue add)"
    and "effect idx (rules_upd add (implicit_rules RULE_PRIORITY_IMPLICIT_NETWORK n t p))
           (modifyImplicitNetworkRule e n t p add)"
  unfolding modifyExplicitNetworkRule_def modifyOutputInterfaceRule_def modifyImplicitNetworkRule_def
    Let_def explicit_rules_def output_rules_def implicit_rules_def uid_opt_def
  by (rule effect_modifyIpRule effect_modifyIpRule5, rule assms)+

lemma effect_modifyLocalNetwork [effects]:
  assumes "stable_index e idx"
  shows "effect idx (rules_upd add (local_rules i)) (modifyLocalNetwork e n i add)"
  unfolding modifyLocalNetwork_def local_rules_def
  using effect_rule_functions(2) [OF assms, of add i ROUTE_TABLE_LOCAL_NETWORK PERMISSION_NONE INVALID_UID INVALID_UID]
  by (intro effect_id_then effect_modifyIncomingPacketMark) simp

text \<open>Looking up the table of an interface, and giving up when there is none.\<close>

lemma effect_table:
  assumes "stable_index e idx" and "effect idx f (k (table_of idx i))"
  shows "effect idx f (do {
     table \<leftarrow> getRouteTableForInterface e i;
     if table = RT_TABLE_UNSPEC then ret (- ESRCH) else k table })"
  unfolding effect_def
proof (rule allI, rule hoare_bind [OF getRouteTable_spec [OF assms(1)]])
  fix M t
  let ?Q = "\<lambda>r s. tables_ok idx s \<and> (r = 0 \<longrightarrow> rules_of (hist s) = f M)"
  show "hoare (\<lambda>s. tr idx M s \<and> (t = RT_TABLE_UNSPEC \<or> t = table_of idx i))
          (if t = RT_TABLE_UNSPEC then ret (- ESRCH) else k t) ?Q"
  proof (cases "t = table_of idx i \<and> t \<noteq> RT_TABLE_UNSPEC")
    case True
    then have "hoare (tr idx M) (k t) ?Q" using assms(2) by (simp add: effect_def)
    then show ?thesis using True by (auto elim: hoare_pre)
  next
    case False
    then show ?thesis by (auto simp: hoare_def tr_def errno_defs)
  qed
qed

lemma effect_modifyPhysicalNetwork [effects]:
  assumes "stable_index e idx"
  shows "effect idx (rules_upd add (physical_rules n i (table_of idx i) p)) (modifyPhysicalNetwork e n i p add)"
  unfolding modifyPhysicalNetwork_def physical_rules_def add.assoc
  using effect_rule_functions(1,2) [OF assms, of add _ _ _ INVALID_UID INVALID_UID] assms
  by (intro effect_table effect_id_then effect_seq effects) simp_all

text \<open>The actions of the functions that take one, as additions and deletions.\<close>

lemma rule_actions: "RTM_NEWRULE = rule_action True" "RTM_DELRULE = rule_action False"
  by (simp_all add: rule_action_def)

lemma effect_modifyDefaultNetwork [effects]:
  "stable_index e idx \<Longrightarrow>
   effect idx (rules_upd add (default_rules (table_of idx i) p)) (modifyDefaultNetwork e (rule_action add) i p)"
  unfolding modifyDefaultNetwork_def default_rules_def by (intro effect_table effects)

lemma effect_modifyTetheredNetwork [effects]:
  assumes "stable_index e idx"
  shows "effect idx
     (rules_upd add (both RULE_PRIORITY_TETHERING (table_of idx o') MARK_UNSET MARK_UNSET (Some i) None None))
     (modifyTetheredNetwork e (rule_action add) i o')"
  unfolding modifyTetheredNetwork_def
  using effect_modifyIpRule [OF assms, of add _ _ _ _ _ _ INVALID_UID INVALID_UID] assms
  by (intro effect_table) simp_all

lemma effect_modifyVpnFallthroughRule [effects]:
  "stable_index e idx \<Longrightarrow>
   effect idx (rules_upd add (fallthrough_rules n (table_of idx i) p))
     (modifyVpnFallthroughRule e (rule_action add) n i p)"
  unfolding modifyVpnFallthroughRule_def Let_def fallthrough_rules_def implicit_rules_def
  by (intro effect_table effects)

lemma effect_vpn_user_rules:
  assumes "stable_index e idx" and "fst r \<noteq> INVALID_UID"
  shows "effect idx (rules_upd add (vpn_user_rules n i t secure r))
     (ok_then (modifyVpnUidRangeRule e t (fst r) (snd r) secure add)
       (ok_then (modifyExplicitNetworkRule e n t PERMISSION_NONE (fst r) (snd r) add)
         (modifyOutputInterfaceRule e i t PERMISSION_NONE (fst r) (snd r) add)))"
  unfolding vpn_user_rules_def modifyVpnUidRangeRule_def vpn_priority_def
  using effect_rule_functions(1,2) [OF assms(1), of add _ _ _ "fst r" "snd r"]
    effect_modifyIpRule [OF assms(1), of add _ _ _ _ _ _ "fst r" "snd r"] assms(2)
  by (cases "vpn_uid_mark secure") (auto simp: uid_opt_def intro!: effect_seq)

lemma effect_vpn_base_rules:
  assumes "stable_index e idx"
  shows "effect idx (rules_upd add (vpn_base_rules n i t secure))
     (ok_then (modifyIncomingPacketMark e n i PERMISSION_NONE add)
       (ok_then (modifyVpnOutputToLocalRule e i add)
         (ok_then (modifyVpnSystemPermissionRule e n t secure add)
           (modifyExplicitNetworkRule e n t PERMISSION_NONE UID_ROOT UID_ROOT add))))"
  unfolding vpn_base_rules_def modifyVpnOutputToLocalRule_def modifyVpnSystemPermissionRule_def
    vpn_priority_def Let_def
  using effect_rule_functions(1) [OF assms, of add _ _ _ UID_ROOT UID_ROOT]
    effect_modifyIpRule [OF assms, of add _ _ _ _ _ _ INVALID_UID INVALID_UID]
  by (intro effect_id_then effect_modifyIncomingPacketMark effect_seq effect_modifyIpRule5 [OF assms]) simp_all

lemma effect_modifyVirtualNetwork:
  assumes "stable_index e idx" and "\<And>r. r \<in> set ranges \<Longrightarrow> fst r \<noteq> INVALID_UID"
  shows "effect idx (rules_upd add (virtual_rules n i (table_of idx i) secure ranges))
           (modifyVirtualNetwork e n i ranges secure add True)"
    and "effect idx (rules_upd add (\<Sum>r\<leftarrow>ranges. vpn_user_rules n i (table_of idx i) secure r))
           (modifyVirtualNetwork e n i ranges secure add False)"
  unfolding modifyVirtualNetwork_def virtual_rules_def if_True if_False
   by (intro effect_table effect_seq effect_for_ok effect_vpn_user_rules effect_vpn_base_rules assms,
       assumption,
       intro effect_table effect_then_id effect_ret_0 effect_for_ok effect_vpn_user_rules assms)

lemma effect_then_names: "effect idx f m \<Longrightarrow> effect idx f (ok_then m (do { updateTableNamesFile e; ret 0 }))"
  by (intro effect_then_id effect_quiet wp_basic tr_wp)

lemma effect_flushRoutes: "stable_index e idx \<Longrightarrow> effect idx id (flushRoutes e i)"
  by (intro effect_quiet tr_wp)

lemma rules_upd_True: "rules_upd True = rules_add" and rules_upd_False: "rules_upd False = rules_del"
  by (simp_all add: rules_upd_def fun_eq_iff)

text \<open>What the public operations do to the rules.\<close>

lemma effect_RouteController [effects]:
  assumes "stable_index e idx"
  shows "effect idx (rules_add (local_rules i)) (addInterfaceToLocalNetwork e n i)"
    and "effect idx (rules_del (local_rules i)) (removeInterfaceFromLocalNetwork e n i)"
    and "effect idx (rules_add (physical_rules n i (table_of idx i) p)) (addInterfaceToPhysicalNetwork e n i p)"
    and "effect idx (rules_del (physical_rules n i (table_of idx i) p)) (removeInterfaceFromPhysicalNetwork e n i p)"
    and "effect idx (rules_add (default_rules (table_of idx i) p)) (addInterfaceToDefaultNetwork e i p)"
    and "effect idx (rules_del (default_rules (table_of idx i) p)) (removeInterfaceFromDefaultNetwork e i p)"
    and "effect idx (rules_add (fallthrough_rules n (table_of idx i) p)) (addVirtualNetworkFallthrough e n i p)"
    and "effect idx (rules_del (fallthrough_rules n (table_of idx i) p)) (removeVirtualNetworkFallthrough e n i p)"
    and "effect idx (\<lambda>M. rules_del (physical_rules n i (table_of idx i) p)
                           (rules_add (physical_rules n i (table_of idx i) q) M))
           (modifyPhysicalNetworkPermission e n i p q)"
  unfolding RouteController_public_defs rule_actions rules_upd_True [symmetric] rules_upd_False [symmetric]
  by (intro effect_then_names effect_then_id effect_quiet effect_ok_then effect_flushRoutes effects assms
      wp_basic tr_wp)+

lemma effect_RouteController_users:
  assumes "stable_index e idx" and "\<And>r. r \<in> set ranges \<Longrightarrow> fst r \<noteq> INVALID_UID"
  shows "effect idx (rules_add (virtual_rules n i (table_of idx i) secure ranges))
           (addInterfaceToVirtualNetwork e n i secure ranges)"
    and "effect idx (rules_del (virtual_rules n i (table_of idx i) secure ranges))
           (removeInterfaceFromVirtualNetwork e n i secure ranges)"
    and "effect idx (rules_add (\<Sum>r\<leftarrow>ranges. vpn_user_rules n i (table_of idx i) secure r))
           (addUsersToVirtualNetwork e n i secure ranges)"
    and "effect idx (rules_del (\<Sum>r\<leftarrow>ranges. vpn_user_rules n i (table_of idx i) secure r))
           (removeUsersFromVirtualNetwork e n i secure ranges)"
  unfolding RouteController_public_defs rules_upd_True [symmetric] rules_upd_False [symmetric]
  by (intro effect_then_names effect_then_id effect_flushRoutes effect_modifyVirtualNetwork assms, assumption)+

text \<open>Start-up leaves exactly the initial rules.\<close>

lemma effect_flushRules:
  "effect idx (filter_mset (\<lambda>r. fr_family r \<noteq> AF_INET \<and> fr_family r \<noteq> AF_INET6)) (flushRules e)"
  unfolding effect_def flushRules_def hoare_def IP_VERSIONS_def
  by (auto simp: run_simps tr_def errno_defs filter_filter_mset conj_commute split: prod.splits)

lemma init_marks [simp]:
  "intValue (new_Fwmark\<lparr>explicitlySelected := False\<rparr>) = 0"
  "intValue (new_Fwmark\<lparr>explicitlySelected := False, permission := p\<rparr>) = intValue (new_Fwmark\<lparr>permission := p\<rparr>)"
  "intValue (new_Fwmark\<lparr>explicitlySelected := True, permission := p\<rparr>) =
     intValue (new_Fwmark\<lparr>explicitlySelected := True\<rparr>) OR intValue (new_Fwmark\<lparr>permission := p\<rparr>)"
  "intValue (set_netId NETID_UNSET new_Fwmark) = 0" "intValue net_mask = FWMARK_NET_ID_MASK"
  by (simp_all add: intValue_def new_Fwmark_def set_netId_def NETID_UNSET_def net_mask_def FWMARK_NET_ID_MASK_def)

lemma effect_RouteController_Init:
  assumes "stable_index e idx"
  shows "effect idx
     (\<lambda>M. filter_mset (\<lambda>r. fr_family r \<noteq> AF_INET \<and> fr_family r \<noteq> AF_INET6) M + init_rules n)
     (RouteController_Init e n)"
proof -
  note five = effect_modifyIpRule5 [OF assms, of True, folded rule_actions]
  have direct: "effect idx (rules_upd True
      (both RULE_PRIORITY_DIRECTLY_CONNECTED RT_TABLE_MAIN 0 FWMARK_NET_ID_MASK None None (Some (UID_ROOT, UID_ROOT))))
      (addDirectlyConnectedRule e)"
    unfolding addDirectlyConnectedRule_def init_marks
    using effect_modifyIpRule [OF assms, of True _ _ _ _ _ _ UID_ROOT UID_ROOT, folded rule_actions]
    by (simp add: UID_ROOT_def INVALID_UID_def)
  have explicit: "effect idx (rules_upd True (explicit_rules n ROUTE_TABLE_LOCAL_NETWORK PERMISSION_NONE None))
      (modifyExplicitNetworkRule e n ROUTE_TABLE_LOCAL_NETWORK PERMISSION_NONE INVALID_UID INVALID_UID True)"
    using effect_rule_functions(1) [OF assms, of True _ _ _ INVALID_UID INVALID_UID] by simp
  have rest: "effect idx (rules_upd True R)
      (ok_then (addLegacyRouteRules e) (ok_then (addLocalNetworkRules e n)
        (ok_then (addDirectlyConnectedRule e) (ok_then (addUnreachableRule e)
          (do { updateTableNamesFile e; ret 0 })))))"
    if "R = init_rules n" for R
    unfolding that init_rules_def Let_def add.assoc addLegacyRouteRules_def addLocalNetworkRules_def
      addUnreachableRule_def MARK_UNSET_def
    using effect_seq [OF effect_seq [OF five effect_seq [OF five five]] effect_seq [OF effect_seq [OF explicit five]
      effect_seq [OF direct effect_then_names [OF five]]]]
    by (simp add: add.assoc)
  show ?thesis
    unfolding RouteController_Init_def
    using effect_ok_then [OF effect_flushRules rest [OF refl]]
    by (simp add: rules_upd_def rules_add_def)
qed

subsection \<open>Marks and masks\<close>

text \<open>
  Every mark the class builds lies under its mask, so the \<^verbatim>\<open>-ERANGE\<close> check of \<^verbatim>\<open>modifyIpRule\<close> never
  fires for it.
\<close>

lemma mark_under_mask:
  assumes "\<And>n. bit (netId f) n \<Longrightarrow> bit (netId g) n" and "explicitlySelected f \<longrightarrow> explicitlySelected g"
    and "protectedFromVpn f \<longrightarrow> protectedFromVpn g" and "\<And>n. bit (permission f) n \<Longrightarrow> bit (permission g) n"
    and "spare f = 0"
  shows "intValue f AND NOT (intValue g) = 0"
  using assms by (intro bit_word_eqI) (auto simp: bit_simps bit_intValue)

lemma net_mask_fields [simp]:
  "netId net_mask = - 1" "permission net_mask = 0" "explicitlySelected net_mask = False"
  "protectedFromVpn net_mask = False" "spare net_mask = 0"
  by (simp_all add: net_mask_def set_netId_def FWMARK_NET_ID_MASK_def new_Fwmark_def)

lemma new_Fwmark_fields [simp]:
  "netId new_Fwmark = 0" "permission new_Fwmark = 0" "explicitlySelected new_Fwmark = False"
  "protectedFromVpn new_Fwmark = False" "spare new_Fwmark = 0"
  by (simp_all add: new_Fwmark_def)

lemma set_netId_fields [simp]:
  "netId (set_netId n f) = ucast n" "permission (set_netId n f) = permission f"
  "explicitlySelected (set_netId n f) = explicitlySelected f"
  "protectedFromVpn (set_netId n f) = protectedFromVpn f" "spare (set_netId n f) = spare f"
  by (simp_all add: set_netId_def)

lemma bit_u16: "bit (w :: u16) n \<Longrightarrow> n < 16"
  using bit_imp_le_length by fastforce

subsection \<open>Success\<close>

lemma returns_0_ok_then [succeed]: "returns_0 m \<Longrightarrow> returns_0 k \<Longrightarrow> returns_0 (ok_then m k)"
  by (auto simp: returns_0_def run_ok_then split: prod.splits) (metis fst_conv)+

lemma returns_0_ret [succeed]: "returns_0 (ret 0)"
  by (simp add: returns_0_def)

lemma returns_0_for_ok [succeed]: "(\<And>x. x \<in> set xs \<Longrightarrow> returns_0 (f x)) \<Longrightarrow> returns_0 (for_ok f xs)"
  by (induction xs) (simp_all add: returns_0_ret returns_0_ok_then)

lemma returns_0_error: "returns_0 m \<Longrightarrow> returns_0 (do { r \<leftarrow> m; ret (if r \<noteq> 0 then err else 0) })"
  by (auto simp: returns_0_def split: prod.splits) (metis fst_conv)

lemma returns_0_modifyIpRule [succeed]:
  assumes "accepting e" and "fwmark AND NOT fwmask = 0" and "\<And>i. iif = Some i \<Longrightarrow> short_name i"
    and "\<And>i. oif = Some i \<Longrightarrow> short_name i" and "(us = INVALID_UID) = (ue = INVALID_UID)"
  shows "returns_0 (modifyIpRule e action priority table fwmark fwmask iif oif us ue)"
proof -
  have "returns_0 (sendNetlinkRequest e action flags iov)" for flags iov
    using assms(1) by (simp add: returns_0_def sendNetlinkRequest_def run_netlink_io accepting_def)
  moreover have "\<exists>p. padInterfaceName x = Inr p" if "\<And>i. x = Some i \<Longrightarrow> short_name i" for x
    using that by (cases x) (auto simp: padInterfaceName_def short_name_def)
  ultimately show ?thesis
    using assms unfolding modifyIpRule_def
    by (auto simp: Let_def split: sum.splits intro!: returns_0_for_ok) (metis Inl_Inr_False)+
qed

lemma returns_0_modifyIpRule5 [succeed]:
  "accepting e \<Longrightarrow> fwmark AND NOT fwmask = 0 \<Longrightarrow> returns_0 (modifyIpRule5 e action priority table fwmark fwmask)"
  unfolding modifyIpRule5_def by (intro succeed) simp_all

lemma returns_0_execIptables: "accepting e \<Longrightarrow> returns_0 (execIptables e t args)"
  by (simp add: returns_0_def execIptables_def execIptablesCommand_def run_fork_execvp accepting_def
      WIFEXITED_def WEXITSTATUS_def split: prod.splits)

lemma returns_0_modifyIncomingPacketMark [succeed]:
  "accepting e \<Longrightarrow> returns_0 (modifyIncomingPacketMark e n i p add)"
  unfolding modifyIncomingPacketMark_def Let_def by (intro returns_0_error returns_0_execIptables)

lemma returns_0_rule_functions [succeed]:
  assumes "accepting e"
  shows "short_name v \<Longrightarrow> returns_0 (modifyVpnOutputToLocalRule e v add)"
    and "(us = INVALID_UID) = (ue = INVALID_UID) \<Longrightarrow> returns_0 (modifyVpnUidRangeRule e t us ue secure add)"
    and "returns_0 (modifyVpnSystemPermissionRule e n t secure add)"
    and "(us = INVALID_UID) = (ue = INVALID_UID) \<Longrightarrow> returns_0 (modifyExplicitNetworkRule e n t p us ue add)"
    and "short_name i \<Longrightarrow> (us = INVALID_UID) = (ue = INVALID_UID) \<Longrightarrow> returns_0 (modifyOutputInterfaceRule e i t p us ue add)"
    and "returns_0 (modifyImplicitNetworkRule e n t p add)"
  unfolding modifyVpnOutputToLocalRule_def modifyVpnUidRangeRule_def modifyVpnSystemPermissionRule_def
    modifyExplicitNetworkRule_def modifyOutputInterfaceRule_def modifyImplicitNetworkRule_def Let_def
    vpn_uid_mark_def
  by (auto intro!: succeed assms mark_under_mask simp: MARK_UNSET_def dest: bit_u16)

lemma returns_0_table [succeed]:
  assumes "accepting e" and "\<And>t. returns_0 (k t)"
  shows "returns_0 (do { table \<leftarrow> getRouteTableForInterface e i;
     if table = RT_TABLE_UNSPEC then ret (- ESRCH) else k table })"
  using assms by (auto simp: returns_0_def getRouteTableForInterface_def run_if_nametoindex accepting_def Let_def)

lemma returns_0D: "returns_0 m \<Longrightarrow> run_state m s = (r, s') \<Longrightarrow> r = 0"
  by (auto simp: returns_0_def dest: spec [of _ s])

lemma returns_0_flush_attempts [succeed]: "accepting e \<Longrightarrow> returns_0 (flush_attempts e argv n)"
  by (subst flush_attempts.simps) (simp add: returns_0_def run_fork_execvp0 accepting_def)

lemma returns_0_flush_versions [succeed]: "accepting e \<Longrightarrow> returns_0 (flush_versions e t vs 0)"
  by (induction vs) (auto simp: returns_0_def split: prod.splits
      dest!: returns_0D [OF returns_0_flush_attempts])

lemma returns_0_flushRoutes [succeed]: "accepting e \<Longrightarrow> returns_0 (flushRoutes e i)"
  unfolding flushRoutes_def
  by (rule returns_0_table)
    (auto simp: returns_0_def split: prod.splits dest: returns_0D [OF returns_0_flush_versions])

lemma returns_0_names [succeed]: "returns_0 (do { updateTableNamesFile e; ret 0 })"
  by (simp add: returns_0_def split: prod.splits)

lemma returns_0_networks [succeed]:
  assumes "accepting e" and "short_name i"
  shows "returns_0 (modifyLocalNetwork e n i add)"
    and "returns_0 (modifyPhysicalNetwork e n i p add)"
    and "wf_ranges rs \<Longrightarrow> returns_0 (modifyVirtualNetwork e n i rs secure add nonuid)"
    and "returns_0 (modifyDefaultNetwork e action i p)"
    and "returns_0 (modifyVpnFallthroughRule e action n i p)"
    and "returns_0 (modifyTetheredNetwork e action i o')"
proof -
  have uids: "(fst r = INVALID_UID) = (snd r = INVALID_UID)" if "wf_ranges rs" "r \<in> set rs" for r
    using that by (auto simp: wf_ranges_def wf_range_def list_all_iff)
  show "returns_0 (modifyLocalNetwork e n i add)"
    unfolding modifyLocalNetwork_def by (intro succeed assms refl)
  show "returns_0 (modifyPhysicalNetwork e n i p add)"
    unfolding modifyPhysicalNetwork_def by (intro succeed assms refl)
  show "returns_0 (modifyVirtualNetwork e n i rs secure add nonuid)" if "wf_ranges rs"
    unfolding modifyVirtualNetwork_def
    by (cases nonuid; simp only: if_True if_False; intro succeed assms uids refl that)
  show "returns_0 (modifyDefaultNetwork e action i p)"
    unfolding modifyDefaultNetwork_def
    by (intro succeed assms mark_under_mask) (auto dest: bit_u16)
  show "returns_0 (modifyVpnFallthroughRule e action n i p)"
    unfolding modifyVpnFallthroughRule_def Let_def
    by (intro succeed assms mark_under_mask) (auto dest: bit_u16)
  show "returns_0 (modifyTetheredNetwork e action i o')"
    unfolding modifyTetheredNetwork_def by (intro succeed assms) (auto simp: MARK_UNSET_def assms)
qed

lemma returns_0_Init [succeed]:
  assumes "accepting e"
  shows "returns_0 (RouteController_Init e n)"
proof -
  have flush: "returns_0 (flushRules e)"
    unfolding flushRules_def
    by (intro succeed returns_0_error) (use assms in \<open>simp add: returns_0_def run_fork_execvp0 accepting_def\<close>)
  show ?thesis
    unfolding RouteController_Init_def addLegacyRouteRules_def addLocalNetworkRules_def
      addDirectlyConnectedRule_def addUnreachableRule_def Let_def
    by (intro succeed flush assms mark_under_mask refl)
      (auto simp: UID_ROOT_def INVALID_UID_def MARK_UNSET_def dest: bit_u16)
qed

lemma returns_0_RouteController [succeed]:
  assumes "accepting e" and "short_name i"
  shows "returns_0 (addInterfaceToLocalNetwork e n i)"
    and "returns_0 (removeInterfaceFromLocalNetwork e n i)"
    and "returns_0 (addInterfaceToPhysicalNetwork e n i p)"
    and "returns_0 (removeInterfaceFromPhysicalNetwork e n i p)"
    and "wf_ranges rs \<Longrightarrow> returns_0 (addInterfaceToVirtualNetwork e n i secure rs)"
    and "wf_ranges rs \<Longrightarrow> returns_0 (removeInterfaceFromVirtualNetwork e n i secure rs)"
    and "returns_0 (modifyPhysicalNetworkPermission e n i p q)"
    and "wf_ranges rs \<Longrightarrow> returns_0 (addUsersToVirtualNetwork e n i secure rs)"
    and "wf_ranges rs \<Longrightarrow> returns_0 (removeUsersFromVirtualNetwork e n i secure rs)"
    and "returns_0 (addInterfaceToDefaultNetwork e i p)"
    and "returns_0 (removeInterfaceFromDefaultNetwork e i p)"
    and "returns_0 (enableTethering e i o')"
    and "returns_0 (disableTethering e i o')"
    and "returns_0 (addVirtualNetworkFallthrough e n i p)"
    and "returns_0 (removeVirtualNetworkFallthrough e n i p)"
  unfolding RouteController_public_defs by (intro succeed assms; assumption)+

subsection \<open>Which packets a rule matches\<close>

lemma mark_matches_both:
  "r \<in># both priority table fwmark (intValue g) iif oif uids \<Longrightarrow> intValue g \<noteq> 0 \<Longrightarrow>
   mark_matches (intValue f) r \<longleftrightarrow> intValue (fwmark_and f g) = fwmark"
  by (auto simp: both_def mark_matches_def the_rule_def intValue_and)

lemma intValue_nonzero: "netId f \<noteq> 0 \<or> explicitlySelected f \<or> protectedFromVpn f \<or> permission f \<noteq> 0 \<Longrightarrow> intValue f \<noteq> 0"
proof
  assume "netId f \<noteq> 0 \<or> explicitlySelected f \<or> protectedFromVpn f \<or> permission f \<noteq> 0" and "intValue f = 0"
  moreover from this have "f = fwmark_of 0" by (metis fwmark_of_intValue)
  ultimately show False by (auto simp: fwmark_of_def)
qed

lemma and_minus_1_u16 [simp]: "(w :: u16) AND - 1 = w"
  by simp

section \<open>Properties\<close>



text \<open>
  C10: A rule for the users of a secure VPN matches exactly the marks that are not protected from VPNs;
  for a bypassable VPN, those that in addition did not explicitly select a network. Explicitly
  selecting a network therefore never escapes a secure VPN.
\<close>

theorem vpn_rule_matches:
  assumes "r \<in># both (vpn_priority secure) table (intValue (fst (vpn_uid_mark secure)))
             (intValue (snd (vpn_uid_mark secure))) None None (Some users)"
  shows "mark_matches (intValue f) r \<longleftrightarrow>
         \<not> protectedFromVpn f \<and> (secure \<or> \<not> explicitlySelected f)"
  using assms
  by (auto simp: intValue_nonzero mark_matches_both vpn_uid_mark_def fwmark_and_def new_Fwmark_def Let_def
      split: if_splits)

theorem vpn_rule_matches_witness:
  "\<not> mark_matches (intValue (new_Fwmark\<lparr>explicitlySelected := True\<rparr>))
     (the_rule AF_INET (vpn_priority False) 1007 (intValue (fst (vpn_uid_mark False)))
        (intValue (snd (vpn_uid_mark False))) None None (Some (10000, 10010)))"
  by (subst vpn_rule_matches [of _ False 1007 "(10000, 10010)"]) (simp_all add: both_def)


lemma sample_env_accepting: "accepting sample_env" and sample_env_stable: "stable_index sample_env (\<lambda>n. 7)"
  by (simp_all add: accepting_def stable_index_def sample_env_def ROUTE_TABLE_OFFSET_FROM_INDEX_def RT_TABLE_UNSPEC_def)

definition sample_rc :: rc where
  "sample_rc = \<lparr>hist = [], interfaceToTable = []\<rparr>"


text \<open>
  A table number outlives its interface: once a lookup has found an interface, later lookups return
  the same table when the kernel no longer knows the interface.
\<close>

theorem table_survives_interface:
  assumes "env_ifindex e (hist s) i \<noteq> 0"
    and "run_state (getRouteTableForInterface e i) s = (t, smid)"
    and "interfaceToTable slate = interfaceToTable smid" and "env_ifindex e (hist slate) i = 0"
  shows "fst (run_state (getRouteTableForInterface e i) slate) = t"
  using assms by (auto simp: getRouteTableForInterface_def run_if_nametoindex Let_def)

theorem table_survives_interface_witness:
  "fst (run_state (getRouteTableForInterface
      (sample_env\<lparr>env_ifindex := \<lambda>h n. if h = [] then 7 else 0\<rparr>) ''rndis0'')
      \<lparr>hist = [EvIfIndex ''rndis0'' 7], interfaceToTable = [(''rndis0'', 1007)]\<rparr>) = 1007"
  by (rule table_survives_interface [where s = sample_rc and
        smid = "\<lparr>hist = [EvIfIndex ''rndis0'' 7], interfaceToTable = [(''rndis0'', 1007)]\<rparr>"])
    (simp_all add: sample_rc_def getRouteTableForInterface_def run_if_nametoindex ROUTE_TABLE_OFFSET_FROM_INDEX_def Let_def)

lemma length_IP_VERSIONS: "length IP_VERSIONS = 2"
  by (simp add: IP_VERSIONS_def)

lemma flush_attempts_hist:
  "1 \<le> n \<Longrightarrow> run_state (flush_attempts e argv n) s = (r, s') \<Longrightarrow>
   length (hist s') \<le> length (hist s) + n \<and> (\<exists>h. hist s' = h @ hist s)"
proof (induction n arbitrary: s)
  case (Suc n)
  show ?case
  proof (cases "env_run e (hist s) argv \<noteq> 0 \<and> Suc n > 1")
    case True
    with Suc.prems have "run_state (flush_attempts e argv n) (s\<lparr>hist := EvRun argv (env_run e (hist s) argv) # hist s\<rparr>) = (r, s')"
      by (subst (asm) flush_attempts.simps) (simp add: run_fork_execvp0)
    from Suc.IH [OF _ this] True show ?thesis by auto
  next
    case False
    with Suc.prems show ?thesis
      by (subst (asm) flush_attempts.simps) (auto simp: run_fork_execvp0)
  qed
qed simp

lemma flush_versions_hist:
  "run_state (flush_versions e t vs r0) s = (r, s') \<Longrightarrow>
   length (hist s') \<le> length (hist s) + 2 * length vs \<and> (r0 \<in> {0, - EREMOTEIO} \<longrightarrow> r \<in> {0, - EREMOTEIO})"
proof (induction vs arbitrary: r0 s)
  case (Cons v vs)
  obtain err s1 where a: "run_state (flush_attempts e [IP_PATH, v, ''route'', ''flush'', ''table'', t] 2) s = (err, s1)"
    by fastforce
  then have "run_state (flush_versions e t vs (if err \<noteq> 0 then - EREMOTEIO else r0)) s1 = (r, s')"
    using Cons.prems by (simp add: ROUTE_FLUSH_ATTEMPTS_def)
  from Cons.IH [OF this] flush_attempts_hist [OF _ a] show ?case by (auto split: if_splits)
qed simp

text \<open>
  C21: \<^verbatim>\<open>flushRoutes\<close> ends after at most five interactions (one index lookup and two attempts per IP
  version), reports only \<^verbatim>\<open>-ESRCH\<close> or \<^verbatim>\<open>-EREMOTEIO\<close>, and forgets the interface's table just when it
  succeeds.
\<close>

theorem flushRoutes_bounded:
  assumes "run_state (flushRoutes e i) s = (r, s')"
  shows "length (hist s') \<le> length (hist s) + 5 \<and> r \<in> {0, - ESRCH, - EREMOTEIO} \<and>
         (r = 0 \<longrightarrow> map_of (interfaceToTable s') i = None) \<and>
         (r = - EREMOTEIO \<longrightarrow> map_of (interfaceToTable s') i \<noteq> None)"
proof -
  obtain t s1 where get: "run_state (getRouteTableForInterface e i) s = (t, s1)" by fastforce
  have s1: "length (hist s1) = length (hist s) + 1" "t \<noteq> RT_TABLE_UNSPEC \<longrightarrow> map_of (interfaceToTable s1) i = Some t"
    using get by (auto simp: getRouteTableForInterface_def run_if_nametoindex Let_def split: if_splits option.splits)
  show ?thesis
  proof (cases "t = RT_TABLE_UNSPEC")
    case True
    then show ?thesis using assms get s1 by (auto simp: flushRoutes_def errno_defs)
  next
    case False
    obtain q s2 where fl: "run_state (flush_versions e (fmt_u (unat t)) IP_VERSIONS 0) s1 = (q, s2)" by fastforce
    have "interfaceToTable s2 = interfaceToTable s1"
      using hoareD [OF keeps_flush_versions [of "\<lambda>u. interfaceToTable u = interfaceToTable s1"] _ fl]
      by (simp add: hist_free_def)
    then show ?thesis
      using False assms get s1 fl flush_versions_hist [OF fl] length_IP_VERSIONS
      by (auto simp: flushRoutes_def errno_defs)
  qed
qed

theorem flushRoutes_bounded_witness:
  "\<exists>r s'. run_state (flushRoutes sample_env ''wlan0'') sample_rc = (r, s') \<and>
     length (hist s') \<le> 5 \<and> map_of (interfaceToTable s') ''wlan0'' = None"
proof -
  obtain r s' where run: "run_state (flushRoutes sample_env ''wlan0'') sample_rc = (r, s')" by fastforce
  moreover have "r = 0"
    by (rule returns_0D [OF returns_0_flushRoutes [OF sample_env_accepting] run])
  ultimately show ?thesis using flushRoutes_bounded [OF run] by (auto simp: sample_rc_def)
qed



end
