(* ===== verification/Networks.thy ===== *)
theory Networks
  imports RouteController
begin

text \<open>
  \<^verbatim>\<open>server/Network.cpp\<close> and its three subclasses \<^verbatim>\<open>LocalNetwork\<close>, \<^verbatim>\<open>PhysicalNetwork\<close> and
  \<^verbatim>\<open>VirtualNetwork\<close>. An object is a record, a method that changes it returns the changed record next to
  its \<^verbatim>\<open>int\<close>; \<open>network\<close> is a \<^verbatim>\<open>Network*\<close>, whose constructor is what \<^verbatim>\<open>getType\<close> reports, and the virtual
  methods dispatch on it. The delegate of a physical network is a record of the two functions of its
  abstract class.
\<close>

section \<open>Model\<close>

record net_base =
  mNetId :: u32
  mInterfaces :: "string list"

record physical = net_base +
  mPermission :: permission
  mIsDefault :: bool

record virtual_network = net_base +
  mHasDns :: bool
  mSecure :: bool
  mUidRanges :: "range list"

datatype network = Local net_base | Physical physical | Virtual virtual_network

datatype network_type = LOCAL | PHYSICAL | VIRTUAL

record 's delegate =
  addFallthrough_op :: "string \<Rightarrow> permission \<Rightarrow> ('s, int) state"
  removeFallthrough_op :: "string \<Rightarrow> permission \<Rightarrow> ('s, int) state"

text \<open>The idiom \<^verbatim>\<open>if (int ret = m) return ret; mutate this; return 0\<close> of the methods.\<close>

definition on_success :: "('s, int) state \<Rightarrow> 'n \<Rightarrow> ('n \<Rightarrow> 'n) \<Rightarrow> ('s, int \<times> 'n) state" where
  "on_success m this mutate = do { r \<leftarrow> m; if r \<noteq> 0 then ret (r, this) else ret (0, mutate this) }"

definition hasInterface :: "'a net_base_scheme \<Rightarrow> string \<Rightarrow> bool" where
  "hasInterface this iface \<longleftrightarrow> iface \<in> set (mInterfaces this)"

subsection \<open>LocalNetwork\<close>

definition LocalNetwork_new :: "u32 \<Rightarrow> net_base" where
  "LocalNetwork_new n = \<lparr>mNetId = n, mInterfaces = []\<rparr>"

definition LocalNetwork_addInterface ::
  "env \<Rightarrow> string \<Rightarrow> net_base \<Rightarrow> ('a rc_scheme, int \<times> net_base) state" where
  "LocalNetwork_addInterface e iface this =
     (if hasInterface this iface then ret (0, this)
      else on_success (addInterfaceToLocalNetwork e (mNetId this) iface) this
             (mInterfaces_update (set_insert iface)))"

definition LocalNetwork_removeInterface ::
  "env \<Rightarrow> string \<Rightarrow> net_base \<Rightarrow> ('a rc_scheme, int \<times> net_base) state" where
  "LocalNetwork_removeInterface e iface this =
     (if \<not> hasInterface this iface then ret (0, this)
      else on_success (removeInterfaceFromLocalNetwork e (mNetId this) iface) this
             (mInterfaces_update (set_erase iface)))"

subsection \<open>PhysicalNetwork\<close>

definition addToDefault ::
  "env \<Rightarrow> string \<Rightarrow> permission \<Rightarrow> 'a rc_scheme delegate \<Rightarrow> ('a rc_scheme, int) state" where
  "addToDefault e iface perm delegate =
     ok_then (addInterfaceToDefaultNetwork e iface perm)
       (ok_then (addFallthrough_op delegate iface perm) (ret 0))"

definition removeFromDefault ::
  "env \<Rightarrow> string \<Rightarrow> permission \<Rightarrow> 'a rc_scheme delegate \<Rightarrow> ('a rc_scheme, int) state" where
  "removeFromDefault e iface perm delegate =
     ok_then (removeInterfaceFromDefaultNetwork e iface perm)
       (ok_then (removeFallthrough_op delegate iface perm) (ret 0))"

definition PhysicalNetwork_new :: "u32 \<Rightarrow> physical" where
  "PhysicalNetwork_new n = \<lparr>mNetId = n, mInterfaces = [], mPermission = PERMISSION_NONE, mIsDefault = False\<rparr>"

definition PhysicalNetwork_setPermission ::
  "env \<Rightarrow> 'a rc_scheme delegate \<Rightarrow> permission \<Rightarrow> physical \<Rightarrow> ('a rc_scheme, int \<times> physical) state" where
  "PhysicalNetwork_setPermission e delegate perm this =
     (if perm = mPermission this then ret (0, this)
      else on_success
        (ok_then
          (for_ok (\<lambda>iface. modifyPhysicalNetworkPermission e (mNetId this) iface (mPermission this) perm)
             (mInterfaces this))
          (if mIsDefault this then
             for_ok (\<lambda>iface. ok_then (addToDefault e iface perm delegate)
                               (removeFromDefault e iface (mPermission this) delegate))
               (mInterfaces this)
           else ret 0))
        this (mPermission_update (\<lambda>_. perm)))"

definition addAsDefault ::
  "env \<Rightarrow> 'a rc_scheme delegate \<Rightarrow> physical \<Rightarrow> ('a rc_scheme, int \<times> physical) state" where
  "addAsDefault e delegate this =
     (if mIsDefault this then ret (0, this)
      else on_success
        (for_ok (\<lambda>iface. addToDefault e iface (mPermission this) delegate) (mInterfaces this))
        this (mIsDefault_update (\<lambda>_. True)))"

definition removeAsDefault ::
  "env \<Rightarrow> 'a rc_scheme delegate \<Rightarrow> physical \<Rightarrow> ('a rc_scheme, int \<times> physical) state" where
  "removeAsDefault e delegate this =
     (if \<not> mIsDefault this then ret (0, this)
      else on_success
        (for_ok (\<lambda>iface. removeFromDefault e iface (mPermission this) delegate) (mInterfaces this))
        this (mIsDefault_update (\<lambda>_. False)))"

definition PhysicalNetwork_addInterface ::
  "env \<Rightarrow> 'a rc_scheme delegate \<Rightarrow> string \<Rightarrow> physical \<Rightarrow> ('a rc_scheme, int \<times> physical) state" where
  "PhysicalNetwork_addInterface e delegate iface this =
     (if hasInterface this iface then ret (0, this)
      else on_success
        (ok_then (addInterfaceToPhysicalNetwork e (mNetId this) iface (mPermission this))
          (if mIsDefault this then addToDefault e iface (mPermission this) delegate else ret 0))
        this (mInterfaces_update (set_insert iface)))"

definition PhysicalNetwork_removeInterface ::
  "env \<Rightarrow> 'a rc_scheme delegate \<Rightarrow> string \<Rightarrow> physical \<Rightarrow> ('a rc_scheme, int \<times> physical) state" where
  "PhysicalNetwork_removeInterface e delegate iface this =
     (if \<not> hasInterface this iface then ret (0, this)
      else on_success
        (ok_then
          (if mIsDefault this then removeFromDefault e iface (mPermission this) delegate else ret 0)
          (removeInterfaceFromPhysicalNetwork e (mNetId this) iface (mPermission this)))
        this (mInterfaces_update (set_erase iface)))"

subsection \<open>VirtualNetwork\<close>

definition VirtualNetwork_new :: "u32 \<Rightarrow> bool \<Rightarrow> bool \<Rightarrow> virtual_network" where
  "VirtualNetwork_new n hasDns secure =
     \<lparr>mNetId = n, mInterfaces = [], mHasDns = hasDns, mSecure = secure, mUidRanges = []\<rparr>"

definition appliesToUser :: "virtual_network \<Rightarrow> uid \<Rightarrow> bool" where
  "appliesToUser this uid = hasUid (mUidRanges this) uid"

definition addUsers :: "env \<Rightarrow> range list \<Rightarrow> virtual_network \<Rightarrow> ('a rc_scheme, int \<times> virtual_network) state" where
  "addUsers e uidRanges this =
     on_success
       (for_ok (\<lambda>iface. addUsersToVirtualNetwork e (mNetId this) iface (mSecure this) uidRanges)
          (mInterfaces this))
       this (mUidRanges_update (\<lambda>rs. add_ranges rs uidRanges))"

definition removeUsers :: "env \<Rightarrow> range list \<Rightarrow> virtual_network \<Rightarrow> ('a rc_scheme, int \<times> virtual_network) state" where
  "removeUsers e uidRanges this =
     on_success
       (for_ok (\<lambda>iface. removeUsersFromVirtualNetwork e (mNetId this) iface (mSecure this) uidRanges)
          (mInterfaces this))
       this (mUidRanges_update (\<lambda>rs. remove_ranges rs uidRanges))"

definition VirtualNetwork_addInterface ::
  "env \<Rightarrow> string \<Rightarrow> virtual_network \<Rightarrow> ('a rc_scheme, int \<times> virtual_network) state" where
  "VirtualNetwork_addInterface e iface this =
     (if hasInterface this iface then ret (0, this)
      else on_success
        (addInterfaceToVirtualNetwork e (mNetId this) iface (mSecure this) (mUidRanges this))
        this (mInterfaces_update (set_insert iface)))"

definition VirtualNetwork_removeInterface ::
  "env \<Rightarrow> string \<Rightarrow> virtual_network \<Rightarrow> ('a rc_scheme, int \<times> virtual_network) state" where
  "VirtualNetwork_removeInterface e iface this =
     (if \<not> hasInterface this iface then ret (0, this)
      else on_success
        (removeInterfaceFromVirtualNetwork e (mNetId this) iface (mSecure this) (mUidRanges this))
        this (mInterfaces_update (set_erase iface)))"

subsection \<open>Network\<close>

fun getNetId :: "network \<Rightarrow> u32" where
  "getNetId (Local n) = mNetId n"
| "getNetId (Physical n) = mNetId n"
| "getNetId (Virtual n) = mNetId n"

fun getInterfaces :: "network \<Rightarrow> string list" where
  "getInterfaces (Local n) = mInterfaces n"
| "getInterfaces (Physical n) = mInterfaces n"
| "getInterfaces (Virtual n) = mInterfaces n"

fun getType :: "network \<Rightarrow> network_type" where
  "getType (Local n) = LOCAL"
| "getType (Physical n) = PHYSICAL"
| "getType (Virtual n) = VIRTUAL"

definition as_network :: "('n \<Rightarrow> network) \<Rightarrow> ('s, int \<times> 'n) state \<Rightarrow> ('s, int \<times> network) state" where
  "as_network wrap m = do { (r, n) \<leftarrow> m; ret (r, wrap n) }"

fun Network_addInterface ::
  "env \<Rightarrow> 'a rc_scheme delegate \<Rightarrow> string \<Rightarrow> network \<Rightarrow> ('a rc_scheme, int \<times> network) state" where
  "Network_addInterface e d iface (Local n) = as_network Local (LocalNetwork_addInterface e iface n)"
| "Network_addInterface e d iface (Physical n) = as_network Physical (PhysicalNetwork_addInterface e d iface n)"
| "Network_addInterface e d iface (Virtual n) = as_network Virtual (VirtualNetwork_addInterface e iface n)"

fun Network_removeInterface ::
  "env \<Rightarrow> 'a rc_scheme delegate \<Rightarrow> string \<Rightarrow> network \<Rightarrow> ('a rc_scheme, int \<times> network) state" where
  "Network_removeInterface e d iface (Local n) = as_network Local (LocalNetwork_removeInterface e iface n)"
| "Network_removeInterface e d iface (Physical n) = as_network Physical (PhysicalNetwork_removeInterface e d iface n)"
| "Network_removeInterface e d iface (Virtual n) = as_network Virtual (VirtualNetwork_removeInterface e iface n)"

lemma set_state_bindI [fundef_cong]:
  "m = m' \<Longrightarrow> (\<And>z. z \<in> set_state m' \<Longrightarrow> f z = g z) \<Longrightarrow> State_Monad.bind m f = State_Monad.bind m' g"
  unfolding State_Monad.bind_def set_state_iff by (auto simp: fun_eq_iff split: prod.splits) (metis)

section \<open>The contract of a network's interface set\<close>

text \<open>
  What every network class promises: adding an interface that reports success has put it into the
  set, removing one that reports success has taken it out, and a failing call leaves the object as
  it was.
\<close>

locale network_class =
  fixes ifs :: "'n \<Rightarrow> string list"
    and upd :: "(string list \<Rightarrow> string list) \<Rightarrow> 'n \<Rightarrow> 'n"
    and add :: "string \<Rightarrow> 'n \<Rightarrow> ('s, int \<times> 'n) state"
    and rem :: "string \<Rightarrow> 'n \<Rightarrow> ('s, int \<times> 'n) state"
  assumes ifs_upd: "ifs (upd f n) = f (ifs n)"
    and upd_same: "f (ifs n) = ifs n \<Longrightarrow> upd f n = n"
    and upd_upd: "upd f (upd g n) = upd (\<lambda>x. f (g x)) n"
    and add_run: "run_state (add i n) s = ((r, n'), s') \<Longrightarrow> n' = (if r = 0 then upd (set_insert i) n else n)"
    and rem_run: "run_state (rem i n) s = ((r, n'), s') \<Longrightarrow> n' = (if r = 0 then upd (set_erase i) n else n)"
begin

lemma add_ifs:
  "run_state (add i n) s = ((r, n'), s') \<Longrightarrow> set (ifs n') = (if r = 0 then insert i (set (ifs n)) else set (ifs n))"
  by (drule add_run) (simp add: ifs_upd)

lemma rem_ifs:
  "run_state (rem i n) s = ((r, n'), s') \<Longrightarrow> distinct (ifs n) \<Longrightarrow>
   set (ifs n') = (if r = 0 then set (ifs n) - {i} else set (ifs n))"
  by (drule rem_run) (simp add: ifs_upd)

lemma add_wf: "run_state (add i n) s = ((r, n'), s') \<Longrightarrow> wf_set (ifs n) \<Longrightarrow> wf_set (ifs n')"
  by (drule add_run) (simp add: ifs_upd)

lemma rem_wf: "run_state (rem i n) s = ((r, n'), s') \<Longrightarrow> wf_set (ifs n) \<Longrightarrow> wf_set (ifs n')"
  by (drule rem_run) (simp add: ifs_upd)

text \<open>A successful removal of a member makes the set smaller: \<^verbatim>\<open>clearInterfaces\<close> ends.\<close>

lemma rem_shrinks:
  "run_state (rem i n) s = ((0, n'), s') \<Longrightarrow> i \<in> set (ifs n) \<Longrightarrow> length (ifs n') < length (ifs n)"
  by (drule rem_run) (auto simp: ifs_upd set_erase_def length_remove1 dest: length_pos_if_in_set)

text \<open>Adding a new interface and removing it again gives back the object.\<close>

lemma add_rem:
  assumes "run_state (add i n) s = ((0, n'), s')" and "run_state (rem i n') t = ((0, n''), t')"
    and "wf_set (ifs n)" and "i \<notin> set (ifs n)"
  shows "n'' = n"
proof -
  have "remove1 i (insort i (ifs n)) = ifs n"
    using assms(4) by (simp add: remove1_insort_key)
  then show ?thesis
    using add_run [OF assms(1)] rem_run [OF assms(2)] assms(4)
    by (simp add: upd_upd upd_same set_insert_def set_erase_def)
qed

end

lemma run_on_success [run_simps]:
  "run_state (on_success m this f) s =
     (case run_state m s of (r, s') \<Rightarrow> ((r, if r = 0 then f this else this), s'))"
  by (auto simp: on_success_def split: prod.splits)

lemma mInterfaces_upd_same: "f (mInterfaces n) = mInterfaces n \<Longrightarrow> mInterfaces_update f n = n"
  by (cases n) simp

lemma set_insert_absorb: "i \<in> set xs \<Longrightarrow> set_insert i xs = xs"
  by (simp add: set_insert_def)

lemma set_erase_absent: "i \<notin> set xs \<Longrightarrow> set_erase i xs = xs"
  by (simp add: set_erase_def remove1_idem)

lemmas network_class_simps = mInterfaces_upd_same hasInterface_def set_insert_absorb set_erase_absent
  run_on_success comp_def

interpretation local_net: network_class mInterfaces mInterfaces_update
  "LocalNetwork_addInterface e" "LocalNetwork_removeInterface e" for e
  by unfold_locales
    (auto simp: LocalNetwork_addInterface_def LocalNetwork_removeInterface_def network_class_simps
      split: if_splits prod.splits)

interpretation physical_net: network_class mInterfaces mInterfaces_update
  "PhysicalNetwork_addInterface e d" "PhysicalNetwork_removeInterface e d" for e d
  by unfold_locales
    (auto simp: PhysicalNetwork_addInterface_def PhysicalNetwork_removeInterface_def network_class_simps
      split: if_splits prod.splits)

interpretation virtual_net: network_class mInterfaces mInterfaces_update
  "VirtualNetwork_addInterface e" "VirtualNetwork_removeInterface e" for e
  by unfold_locales
    (auto simp: VirtualNetwork_addInterface_def VirtualNetwork_removeInterface_def network_class_simps
      split: if_splits prod.splits)

text \<open>Dynamic dispatch keeps the contract.\<close>

fun upd_interfaces :: "(string list \<Rightarrow> string list) \<Rightarrow> network \<Rightarrow> network" where
  "upd_interfaces f (Local n) = Local (mInterfaces_update f n)"
| "upd_interfaces f (Physical n) = Physical (mInterfaces_update f n)"
| "upd_interfaces f (Virtual n) = Virtual (mInterfaces_update f n)"

lemma run_as_network [run_simps]:
  "run_state (as_network w m) s = (case run_state m s of ((r, n), s') \<Rightarrow> ((r, w n), s'))"
  by (auto simp: as_network_def split: prod.splits)

interpretation net: network_class getInterfaces upd_interfaces
  "Network_addInterface e d" "Network_removeInterface e d" for e d
proof
  fix f n
  show "getInterfaces (upd_interfaces f n) = f (getInterfaces n)" by (cases n) simp_all
next
  fix f n
  show "f (getInterfaces n) = getInterfaces n \<Longrightarrow> upd_interfaces f n = n"
    by (cases n) (simp_all add: mInterfaces_upd_same)
next
  fix f g n
  show "upd_interfaces f (upd_interfaces g n) = upd_interfaces (\<lambda>x. f (g x)) n"
    by (cases n) (simp_all add: comp_def)
next
  fix i n and s :: "'a rc_scheme" and r n' s'
  assume "run_state (Network_addInterface e d i n) s = ((r, n'), s')"
  then show "n' = (if r = 0 then upd_interfaces (set_insert i) n else n)"
    by (cases n) (auto simp: run_as_network split: prod.splits
        dest: local_net.add_run physical_net.add_run virtual_net.add_run)
next
  fix i n and s :: "'a rc_scheme" and r n' s'
  assume "run_state (Network_removeInterface e d i n) s = ((r, n'), s')"
  then show "n' = (if r = 0 then upd_interfaces (set_erase i) n else n)"
    by (cases n) (auto simp: run_as_network split: prod.splits
        dest: local_net.rem_run physical_net.rem_run virtual_net.rem_run)
qed

section \<open>clearInterfaces\<close>

function clearInterfaces ::
  "env \<Rightarrow> 'a rc_scheme delegate \<Rightarrow> network \<Rightarrow> ('a rc_scheme, int \<times> network) state" where
  "clearInterfaces e d this =
     (case getInterfaces this of
        [] \<Rightarrow> ret (0, this)
      | iface # _ \<Rightarrow> do {
          (r, this') \<leftarrow> Network_removeInterface e d iface this;
          if r \<noteq> 0 then ret (r, this') else clearInterfaces e d this' })"
  by pat_completeness auto
termination
  by (relation "measure (\<lambda>(e, d, n). length (getInterfaces n))")
    (auto simp: set_state_iff dest: net.rem_shrinks)

declare clearInterfaces.simps [simp del]

section \<open>Specification: the rules of a network\<close>

text \<open>
  \<open>def_rules\<close> are the rules that make an interface serve default traffic while the virtual networks
  \<open>V\<close> exist: the default rule, and one fallthrough rule for each of them.
\<close>

definition fall_rules :: "(string \<Rightarrow> u32) \<Rightarrow> u32 multiset \<Rightarrow> string \<Rightarrow> permission \<Rightarrow> fib_rule multiset" where
  "fall_rules idx V iface perm = (\<Sum>v\<in>#V. fallthrough_rules v (table_of idx iface) perm)"

definition def_rules :: "(string \<Rightarrow> u32) \<Rightarrow> u32 multiset \<Rightarrow> string \<Rightarrow> permission \<Rightarrow> fib_rule multiset" where
  "def_rules idx V iface perm = default_rules (table_of idx iface) perm + fall_rules idx V iface perm"

fun iface_rules :: "(string \<Rightarrow> u32) \<Rightarrow> u32 multiset \<Rightarrow> network \<Rightarrow> string \<Rightarrow> fib_rule multiset" where
  "iface_rules idx V (Local n) iface = local_rules iface"
| "iface_rules idx V (Physical n) iface =
     physical_rules (mNetId n) iface (table_of idx iface) (mPermission n) +
     (if mIsDefault n then def_rules idx V iface (mPermission n) else {#})"
| "iface_rules idx V (Virtual n) iface =
     virtual_rules (mNetId n) iface (table_of idx iface) (mSecure n) (mUidRanges n)"

definition network_rules :: "(string \<Rightarrow> u32) \<Rightarrow> u32 multiset \<Rightarrow> network \<Rightarrow> fib_rule multiset" where
  "network_rules idx V n = (\<Sum>i\<in>#mset (getInterfaces n). iface_rules idx V n i)"

text \<open>\<^verbatim>\<open>effect\<close> in a context: \<open>J\<close> holds throughout.\<close>

definition effect_in ::
  "('a rc_scheme \<Rightarrow> bool) \<Rightarrow> (string \<Rightarrow> u32) \<Rightarrow> (fib_rule multiset \<Rightarrow> fib_rule multiset) \<Rightarrow>
   ('a rc_scheme, int) state \<Rightarrow> bool" where
  "effect_in J idx f m \<longleftrightarrow>
     (\<forall>M. hoare (\<lambda>s. J s \<and> tr idx M s) m
            (\<lambda>r s. J s \<and> tables_ok idx s \<and> (r = 0 \<longrightarrow> rules_of (hist s) = f M)))"

text \<open>
  An operation on the object \<open>n\<close> implements the specification when, on success, it replaces the rules
  of \<open>n\<close> by the rules of the object it returns and touches no other rule.
\<close>

definition net_refines ::
  "('a rc_scheme \<Rightarrow> bool) \<Rightarrow> (string \<Rightarrow> u32) \<Rightarrow> u32 multiset \<Rightarrow> network \<Rightarrow>
   ('a rc_scheme, int \<times> network) state \<Rightarrow> bool" where
  "net_refines J idx V n m \<longleftrightarrow>
     (\<forall>X. hoare (\<lambda>s. J s \<and> tr idx (X + network_rules idx V n) s) m
            (\<lambda>(r, n') s. J s \<and> tables_ok idx s \<and>
               (r = 0 \<longrightarrow> rules_of (hist s) = X + network_rules idx V n')))"

fun wf_network :: "network \<Rightarrow> bool" where
  "wf_network (Local n) = wf_set (mInterfaces n)"
| "wf_network (Physical n) = wf_set (mInterfaces n)"
| "wf_network (Virtual n) \<longleftrightarrow> wf_set (mInterfaces n) \<and> wf_ranges (mUidRanges n)"

section \<open>Lemmas\<close>

lemma effect_frame: "effect idx f m \<Longrightarrow> keeps J m \<Longrightarrow> effect_in J idx f m"
  unfolding effect_def effect_in_def hoare_def by (fastforce split: prod.splits)

lemma effect_inD:
  "effect_in J idx f m \<Longrightarrow> J s \<Longrightarrow> tr idx M s \<Longrightarrow> run_state m s = (r, s') \<Longrightarrow>
   J s' \<and> tables_ok idx s' \<and> (r = 0 \<longrightarrow> rules_of (hist s') = f M)"
  by (fastforce simp: effect_in_def dest: hoareD)

lemma effect_in_ok_then:
  assumes "effect_in J idx f m" and "effect_in J idx g k"
  shows "effect_in J idx (\<lambda>M. g (f M)) (ok_then m k)"
  unfolding effect_in_def
proof (rule allI, rule hoare_ok_then)
  fix M
  show "hoare (\<lambda>s. J s \<and> tr idx M s) m (\<lambda>r s. J s \<and> tables_ok idx s \<and> (r = 0 \<longrightarrow> rules_of (hist s) = f M))"
    using assms(1) by (simp add: effect_in_def)
  show "hoare (\<lambda>s. J s \<and> tables_ok idx s \<and> ((0::int) = 0 \<longrightarrow> rules_of (hist s) = f M)) k
     (\<lambda>r s. J s \<and> tables_ok idx s \<and> (r = 0 \<longrightarrow> rules_of (hist s) = g (f M)))"
    using assms(2) by (fastforce simp: effect_in_def hoare_def tr_def)
qed auto

lemma effect_in_ret_0: "effect_in J idx id (ret 0)"
  by (auto simp: effect_in_def hoare_def tr_def)

lemma effect_in_for_ok:
  "(\<And>x. x \<in> set xs \<Longrightarrow> effect_in J idx (f x) (m x)) \<Longrightarrow> effect_in J idx (fold f xs) (for_ok m xs)"
proof (induction xs)
  case (Cons x xs)
  then show ?case using effect_in_ok_then [of J idx "f x" "m x" "fold f xs"] by (simp add: comp_def)
qed (simp add: effect_in_ret_0 [unfolded id_def] id_def)

lemma fold_rules_add: "fold (\<lambda>x. rules_add (F x)) xs M = M + (\<Sum>x\<in>#mset xs. F x)"
  by (induction xs arbitrary: M) (simp_all add: rules_add_def)

lemma fold_rules_del: "fold (\<lambda>x. rules_del (F x)) xs M = M - (\<Sum>x\<in>#mset xs. F x)"
  by (induction xs arbitrary: M) (simp_all add: rules_del_def)

text \<open>Replacing rules one by one replaces them all, when the old ones are present.\<close>

lemma fold_rules_swap:
  "fold (\<lambda>x M. rules_del (A x) (rules_add (B x) M)) xs (X + (\<Sum>x\<in>#mset xs. A x)) = X + (\<Sum>x\<in>#mset xs. B x)"
proof (induction xs arbitrary: X)
  case (Cons x xs)
  have "fold (\<lambda>x M. rules_del (A x) (rules_add (B x) M)) (x # xs) (X + (\<Sum>x\<in>#mset (x # xs). A x)) =
      fold (\<lambda>x M. rules_del (A x) (rules_add (B x) M)) xs ((X + B x) + (\<Sum>x\<in>#mset xs. A x))"
    by (simp add: rules_del_def rules_add_def add_ac)
  also have "\<dots> = (X + B x) + (\<Sum>x\<in>#mset xs. B x)" by (rule Cons.IH)
  finally show ?case by (simp add: add_ac)
qed simp

lemma net_refines_on_success:
  assumes "effect_in J idx f m"
    and "\<And>X. f (X + network_rules idx V (w n)) = X + network_rules idx V (w (g n))"
  shows "net_refines J idx V (w n) (as_network w (on_success m n g))"
  using assms unfolding net_refines_def effect_in_def hoare_def
  by (fastforce simp: run_as_network run_on_success split: prod.splits)

lemma net_refines_skip: "net_refines J idx V (w n) (as_network w (ret (0, n)))"
  by (auto simp: net_refines_def hoare_def tr_def run_as_network)

subsection \<open>The rules of an object whose interfaces change\<close>

lemma iface_rules_upd [simp]: "iface_rules idx V (upd_interfaces f n) i = iface_rules idx V n i"
  by (cases n) simp_all

lemma network_rules_insert:
  "i \<notin> set (getInterfaces n) \<Longrightarrow>
   network_rules idx V (upd_interfaces (set_insert i) n) = network_rules idx V n + iface_rules idx V n i"
  by (simp add: network_rules_def net.ifs_upd mset_set_insert)

lemma network_rules_erase:
  "i \<in> set (getInterfaces n) \<Longrightarrow>
   network_rules idx V n = network_rules idx V (upd_interfaces (set_erase i) n) + iface_rules idx V n i"
  by (simp add: network_rules_def net.ifs_upd mset_set_erase)
    (metis add.commute image_mset_add_mset insert_DiffM set_mset_mset sum_mset.add_mset)

text \<open>Adding and removing an interface of a network of any class, given the effect on the rules.\<close>

lemma net_refines_insert:
  assumes "effect_in J idx (rules_add (iface_rules idx V (w n) i)) m" and "i \<notin> set (getInterfaces (w n))"
    and "w (g n) = upd_interfaces (set_insert i) (w n)"
  shows "net_refines J idx V (w n) (as_network w (on_success m n g))"
  using assms(1) by (rule net_refines_on_success)
    (simp add: assms(2,3) network_rules_insert rules_add_def add.assoc)

lemma net_refines_erase:
  assumes "effect_in J idx (rules_del (iface_rules idx V (w n) i)) m" and "i \<in> set (getInterfaces (w n))"
    and "w (g n) = upd_interfaces (set_erase i) (w n)"
  shows "net_refines J idx V (w n) (as_network w (on_success m n g))"
  using assms(1)
proof (rule net_refines_on_success)
  fix X
  show "rules_del (iface_rules idx V (w n) i) (X + network_rules idx V (w n)) = X + network_rules idx V (w (g n))"
    unfolding network_rules_erase [OF assms(2)] assms(3) rules_del_def
    by (simp add: add.assoc [symmetric])
qed

lemma wf_range_valid: "wf_ranges rs \<Longrightarrow> r \<in> set rs \<Longrightarrow> fst r \<noteq> INVALID_UID"
  by (auto simp: wf_ranges_def wf_range_def list_all_iff)

section \<open>The contract of a physical network's delegate\<close>

text \<open>
  What \<^verbatim>\<open>PhysicalNetwork\<close> relies on: while \<open>J\<close> holds, \<^verbatim>\<open>addFallthrough\<close> adds one fallthrough rule per
  virtual network of \<open>V\<close> and \<^verbatim>\<open>removeFallthrough\<close> takes them away.
\<close>

locale fallthrough_delegate =
  fixes e :: env
    and J :: "'a rc_scheme \<Rightarrow> bool"
    and V :: "u32 multiset"
    and d :: "'a rc_scheme delegate"
  assumes J_free: "rc_free J"
    and add_effect: "stable_index e idx \<Longrightarrow>
      effect_in J idx (rules_add (fall_rules idx V i p)) (addFallthrough_op d i p)"
    and remove_effect: "stable_index e idx \<Longrightarrow>
      effect_in J idx (rules_del (fall_rules idx V i p)) (removeFallthrough_op d i p)"
begin

lemma addToDefault_effect:
  assumes "stable_index e idx"
  shows "effect_in J idx (rules_add (def_rules idx V i p)) (addToDefault e i p d)"
proof -
  have "effect_in J idx (rules_add (default_rules (table_of idx i) p)) (addInterfaceToDefaultNetwork e i p)"
    by (intro effect_frame effects wp assms J_free)
  from effect_in_ok_then [OF this effect_in_ok_then [OF add_effect [OF assms] effect_in_ret_0]]
  show ?thesis by (simp add: addToDefault_def def_rules_def rules_add_def [abs_def] add.assoc)
qed

lemma removeFromDefault_effect:
  assumes "stable_index e idx"
  shows "effect_in J idx (rules_del (def_rules idx V i p)) (removeFromDefault e i p d)"
proof -
  have "effect_in J idx (rules_del (default_rules (table_of idx i) p)) (removeInterfaceFromDefaultNetwork e i p)"
    by (intro effect_frame effects wp assms J_free)
  from effect_in_ok_then [OF this effect_in_ok_then [OF remove_effect [OF assms] effect_in_ret_0]]
  show ?thesis by (simp add: removeFromDefault_def def_rules_def rules_del_def [abs_def])
qed

lemma add_refines:
  assumes "stable_index e idx" and "wf_network n"
  shows "net_refines J idx V n (Network_addInterface e d i n)"
proof (cases n)
  case (Local l)
  have "effect_in J idx (rules_add (local_rules i)) (addInterfaceToLocalNetwork e (mNetId l) i)"
    by (intro effect_frame effects wp assms J_free)
  then show ?thesis
    using Local by (simp add: LocalNetwork_addInterface_def net_refines_skip net_refines_insert hasInterface_def)
next
  case (Physical p)
  have "effect_in J idx (rules_add (physical_rules (mNetId p) i (table_of idx i) (mPermission p)))
      (addInterfaceToPhysicalNetwork e (mNetId p) i (mPermission p))"
    by (intro effect_frame effects wp assms J_free)
  from effect_in_ok_then [OF this addToDefault_effect [OF assms(1)]]
    effect_in_ok_then [OF this effect_in_ret_0]
  have "effect_in J idx (rules_add (iface_rules idx V n i))
      (ok_then (addInterfaceToPhysicalNetwork e (mNetId p) i (mPermission p))
        (if mIsDefault p then addToDefault e i (mPermission p) d else ret 0))"
    using Physical by (simp add: rules_add_def [abs_def] add.assoc)
  then show ?thesis
    using Physical by (simp add: PhysicalNetwork_addInterface_def net_refines_skip net_refines_insert hasInterface_def)
next
  case (Virtual v)
  then have wf: "wf_ranges (mUidRanges v)" using assms(2) by simp
  have "effect_in J idx (rules_add (virtual_rules (mNetId v) i (table_of idx i) (mSecure v) (mUidRanges v)))
     (addInterfaceToVirtualNetwork e (mNetId v) i (mSecure v) (mUidRanges v))"
    by (intro effect_frame effect_RouteController_users wp assms(1) J_free wf_range_valid [OF wf])
  then show ?thesis
    using Virtual by (simp add: VirtualNetwork_addInterface_def net_refines_skip net_refines_insert hasInterface_def)
qed

lemma remove_refines:
  assumes "stable_index e idx" and "wf_network n"
  shows "net_refines J idx V n (Network_removeInterface e d i n)"
proof (cases n)
  case (Local l)
  have "effect_in J idx (rules_del (local_rules i)) (removeInterfaceFromLocalNetwork e (mNetId l) i)"
    by (intro effect_frame effects wp assms J_free)
  then show ?thesis
    using Local by (simp add: LocalNetwork_removeInterface_def net_refines_skip net_refines_erase hasInterface_def)
next
  case (Physical p)
  have "effect_in J idx (rules_del (physical_rules (mNetId p) i (table_of idx i) (mPermission p)))
      (removeInterfaceFromPhysicalNetwork e (mNetId p) i (mPermission p))"
    by (intro effect_frame effects wp assms J_free)
  from effect_in_ok_then [OF removeFromDefault_effect [OF assms(1)] this]
    effect_in_ok_then [OF effect_in_ret_0 this]
  have "effect_in J idx (rules_del (iface_rules idx V n i))
      (ok_then (if mIsDefault p then removeFromDefault e i (mPermission p) d else ret 0)
        (removeInterfaceFromPhysicalNetwork e (mNetId p) i (mPermission p)))"
    using Physical by (simp add: rules_del_def [abs_def] add.commute)
  then show ?thesis
    using Physical by (simp add: PhysicalNetwork_removeInterface_def net_refines_skip net_refines_erase hasInterface_def)
next
  case (Virtual v)
  then have wf: "wf_ranges (mUidRanges v)" using assms(2) by simp
  have "effect_in J idx (rules_del (virtual_rules (mNetId v) i (table_of idx i) (mSecure v) (mUidRanges v)))
     (removeInterfaceFromVirtualNetwork e (mNetId v) i (mSecure v) (mUidRanges v))"
    by (intro effect_frame effect_RouteController_users wp assms(1) J_free wf_range_valid [OF wf])
  then show ?thesis
    using Virtual by (simp add: VirtualNetwork_removeInterface_def net_refines_skip net_refines_erase hasInterface_def)
qed

lemma addAsDefault_refines:
  assumes "stable_index e idx"
  shows "net_refines J idx V (Physical p) (as_network Physical (addAsDefault e d p))"
proof (cases "mIsDefault p")
  case False
  have "effect_in J idx (fold (\<lambda>i. rules_add (def_rules idx V i (mPermission p))) (mInterfaces p))
      (for_ok (\<lambda>i. addToDefault e i (mPermission p) d) (mInterfaces p))"
    by (intro effect_in_for_ok addToDefault_effect assms)
  then show ?thesis
    unfolding addAsDefault_def using False
    by simp (erule net_refines_on_success, simp add: fold_rules_add network_rules_def sum_mset.distrib add.assoc)
qed (simp add: addAsDefault_def net_refines_skip)

lemma removeAsDefault_refines:
  assumes "stable_index e idx"
  shows "net_refines J idx V (Physical p) (as_network Physical (removeAsDefault e d p))"
proof (cases "mIsDefault p")
  case True
  have "effect_in J idx (fold (\<lambda>i. rules_del (def_rules idx V i (mPermission p))) (mInterfaces p))
      (for_ok (\<lambda>i. removeFromDefault e i (mPermission p) d) (mInterfaces p))"
    by (intro effect_in_for_ok removeFromDefault_effect assms)
  then show ?thesis
    unfolding removeAsDefault_def using True
    by simp (erule net_refines_on_success,
        simp add: fold_rules_del network_rules_def sum_mset.distrib add.assoc [symmetric])
qed (simp add: removeAsDefault_def net_refines_skip)

lemma setPermission_refines:
  assumes "stable_index e idx"
  shows "net_refines J idx V (Physical p) (as_network Physical (PhysicalNetwork_setPermission e d perm p))"
proof (cases "perm = mPermission p")
  case False
  let ?P = "\<lambda>q i. physical_rules (mNetId p) i (table_of idx i) q"
  let ?D = "\<lambda>q i. def_rules idx V i q"
  let ?swap = "\<lambda>R i M. rules_del (R (mPermission p) i) (rules_add (R perm i) M)"
  have phys: "effect_in J idx (fold (?swap ?P) (mInterfaces p))
      (for_ok (\<lambda>i. modifyPhysicalNetworkPermission e (mNetId p) i (mPermission p) perm) (mInterfaces p))"
    by (intro effect_in_for_ok effect_frame effects wp assms J_free)
  have dflt: "effect_in J idx (if mIsDefault p then fold (?swap ?D) (mInterfaces p) else id)
      (if mIsDefault p then for_ok (\<lambda>i. ok_then (addToDefault e i perm d) (removeFromDefault e i (mPermission p) d))
         (mInterfaces p) else ret 0)"
    by (simp add: effect_in_ret_0)
      (intro impI effect_in_for_ok effect_in_ok_then addToDefault_effect removeFromDefault_effect assms)
  let ?S = "\<lambda>R q. \<Sum>i\<in>#mset (mInterfaces p). R q i"
  have sum: "network_rules idx V (Physical (p\<lparr>mPermission := q\<rparr>)) =
      ?S ?P q + (if mIsDefault p then ?S ?D q else {#})" for q
    by (simp add: network_rules_def sum_mset.distrib)
  have swap: "(if mIsDefault p then fold (?swap ?D) (mInterfaces p) else id)
      (fold (?swap ?P) (mInterfaces p) (X + network_rules idx V (Physical p))) =
      X + network_rules idx V (Physical (p\<lparr>mPermission := perm\<rparr>))" for X
  proof (cases "mIsDefault p")
    case True
    then have "X + network_rules idx V (Physical p) = (X + ?S ?D (mPermission p)) + ?S ?P (mPermission p)"
      using sum [of "mPermission p"] by (simp add: add_ac)
    moreover have "(X + ?S ?D (mPermission p)) + ?S ?P perm = (X + ?S ?P perm) + ?S ?D (mPermission p)"
      by (simp add: add_ac)
    ultimately show ?thesis
      using True by (simp only: fold_rules_swap if_True sum) (simp add: add_ac)
  next
    case False
    then show ?thesis
      using sum [of "mPermission p"] sum [of perm] by (simp add: fold_rules_swap)
  qed
  show ?thesis
    unfolding PhysicalNetwork_setPermission_def if_not_P [OF False]
    by (rule net_refines_on_success [OF effect_in_ok_then [OF phys dflt]]) (rule swap)
qed (simp add: PhysicalNetwork_setPermission_def net_refines_skip)

lemma clear_refines:
  assumes "stable_index e idx" and "wf_network n"
  shows "net_refines J idx V n (clearInterfaces e d n)"
  using assms(2)
proof (induction "length (getInterfaces n)" arbitrary: n rule: less_induct)
  case less
  show ?case
  proof (cases "getInterfaces n")
    case Nil
    then show ?thesis
      by (subst clearInterfaces.simps) (auto simp: net_refines_def hoare_def tr_def)
  next
    case (Cons i rest)
    show ?thesis
      unfolding net_refines_def
    proof (intro allI hoareI)
      fix X s a s'
      assume pre: "J s \<and> tr idx (X + network_rules idx V n) s"
        and run: "run_state (clearInterfaces e d n) s = (a, s')"
      obtain r n1 s1 where rem: "run_state (Network_removeInterface e d i n) s = ((r, n1), s1)"
        by (metis prod.exhaust)
      have post: "J s1 \<and> tables_ok idx s1 \<and> (r = 0 \<longrightarrow> rules_of (hist s1) = X + network_rules idx V n1)"
        using remove_refines [OF assms(1) less.prems, of i] pre rem
        unfolding net_refines_def by (fastforce dest: hoareD)
      show "(case a of (r, n') \<Rightarrow> \<lambda>s. J s \<and> tables_ok idx s \<and>
              (r = 0 \<longrightarrow> rules_of (hist s) = X + network_rules idx V n')) s'"
      proof (cases "r = 0")
        case True
        have "length (getInterfaces n1) < length (getInterfaces n)"
          using net.rem_shrinks rem True Cons by fastforce
        moreover have "wf_network n1"
          using net.rem_run [OF rem] True less.prems by (cases n) simp_all
        ultimately have "net_refines J idx V n1 (clearInterfaces e d n1)" by (rule less.hyps)
        moreover have "run_state (clearInterfaces e d n1) s1 = (a, s')"
          using run rem True Cons by (subst (asm) clearInterfaces.simps) simp
        ultimately show ?thesis
          using post True unfolding net_refines_def tr_def by (fastforce dest: hoareD)
      next
        case False
        then have "a = (r, n1)" "s' = s1"
          using run rem Cons by (subst (asm) clearInterfaces.simps, simp)+
        with post show ?thesis using False by simp
      qed
    qed
  qed
qed

end

text \<open>
  After \<^verbatim>\<open>clearInterfaces\<close> the object has lost interfaces from the front of the set and nothing else,
  all of them when it reports success.
\<close>

lemma set_erase_hd: "set_erase (hd xs) xs = drop 1 xs" if "xs \<noteq> []"
  using that by (cases xs) simp_all

lemma clear_run:
  "run_state (clearInterfaces e d n) s = ((r, n'), s') \<Longrightarrow>
   \<exists>k. n' = upd_interfaces (drop k) n \<and> (r = 0 \<longrightarrow> getInterfaces n' = [])"
proof (induction "length (getInterfaces n)" arbitrary: n s rule: less_induct)
  case less
  show ?case
  proof (cases "getInterfaces n")
    case Nil
    then have "n' = upd_interfaces (drop 0) n \<and> getInterfaces n' = []"
      using less.prems by (subst (asm) clearInterfaces.simps) (simp add: net.upd_same)
    then show ?thesis by blast
  next
    case (Cons i rest)
    obtain q n1 s1 where rem: "run_state (Network_removeInterface e d i n) s = ((q, n1), s1)"
      by (metis prod.exhaust)
    note n1 = net.rem_run [OF rem]
    show ?thesis
    proof (cases "q = 0")
      case True
      then have eq: "n1 = upd_interfaces (drop 1) n"
        using n1 Cons by (cases n) (auto simp: set_erase_def intro!: net_base.equality physical.equality virtual_network.equality)
      have "length (getInterfaces n1) < length (getInterfaces n)"
        using net.rem_shrinks rem True Cons by fastforce
      moreover have "run_state (clearInterfaces e d n1) s1 = ((r, n'), s')"
        using less.prems rem True Cons by (subst (asm) clearInterfaces.simps) simp
      ultimately obtain k where "n' = upd_interfaces (drop k) n1" "r = 0 \<longrightarrow> getInterfaces n' = []"
        using less.hyps by blast
      then show ?thesis
        using eq by (intro exI [of _ "k + 1"]) (simp add: net.upd_upd)
    next
      case False
      then have "r \<noteq> 0 \<and> n' = n"
        using less.prems rem Cons n1 by (subst (asm) clearInterfaces.simps) simp
      then show ?thesis by (intro exI [of _ 0]) (simp add: net.upd_same)
    qed
  qed
qed

subsection \<open>The users of a virtual network\<close>

lemma vpn_users_mset: "(\<Sum>r\<leftarrow>rs. vpn_user_rules n i t secure r) = (\<Sum>r\<in>#mset rs. vpn_user_rules n i t secure r)"
  by (simp flip: sum_mset_sum_list mset_map)

lemma virtual_rules_mset:
  "virtual_rules n i t secure rs =
     (\<Sum>r\<in>#mset rs. vpn_user_rules n i t secure r) + vpn_base_rules n i t secure"
  by (simp add: virtual_rules_def vpn_users_mset)

lemma addUsers_refines:
  assumes "stable_index e idx" and "rc_free J" and "wf_ranges rs"
  shows "net_refines J idx V (Virtual v) (as_network Virtual (addUsers e rs v))"
proof -
  let ?U = "\<lambda>i. \<Sum>r\<leftarrow>rs. vpn_user_rules (mNetId v) i (table_of idx i) (mSecure v) r"
  have "effect_in J idx (fold (\<lambda>i. rules_add (?U i)) (mInterfaces v))
      (for_ok (\<lambda>i. addUsersToVirtualNetwork e (mNetId v) i (mSecure v) rs) (mInterfaces v))"
    by (intro effect_in_for_ok effect_frame effect_RouteController_users wp assms wf_range_valid [OF assms(3)])
  then show ?thesis
    unfolding addUsers_def
    by (rule net_refines_on_success)
      (simp add: fold_rules_add network_rules_def virtual_rules_mset vpn_users_mset add_ranges_def
        sum_mset.distrib add_ac)
qed

lemma removeUsers_refines:
  assumes "stable_index e idx" and "rc_free J" and "wf_ranges rs"
    and "wf_network (Virtual v)" and sub: "mset rs \<subseteq># mset (mUidRanges v)"
  shows "net_refines J idx V (Virtual v) (as_network Virtual (removeUsers e rs v))"
proof -
  let ?R = "\<lambda>i r. vpn_user_rules (mNetId v) i (table_of idx i) (mSecure v) r"
  let ?U = "\<lambda>i. \<Sum>r\<leftarrow>rs. ?R i r"
  have "effect_in J idx (fold (\<lambda>i. rules_del (?U i)) (mInterfaces v))
      (for_ok (\<lambda>i. removeUsersFromVirtualNetwork e (mNetId v) i (mSecure v) rs) (mInterfaces v))"
    by (intro effect_in_for_ok effect_frame effect_RouteController_users wp assms wf_range_valid [OF assms(3)])
  then show ?thesis
    unfolding removeUsers_def
  proof (rule net_refines_on_success)
    fix X
    have "mset (remove_ranges (mUidRanges v) rs) = mset (mUidRanges v) - mset rs"
      using assms(3,4) by (simp add: remove_ranges_def mset_set_difference wf_ranges_def)
    then have "mset (mUidRanges v) = mset (remove_ranges (mUidRanges v) rs) + mset rs"
      using sub by simp
    then have "(\<Sum>r\<in>#mset (mUidRanges v). ?R i r) =
        (\<Sum>r\<in>#mset (remove_ranges (mUidRanges v) rs). ?R i r) + ?U i" for i
      by (simp add: vpn_users_mset)
    then have "network_rules idx V (Virtual v) =
        network_rules idx V (Virtual (v\<lparr>mUidRanges := remove_ranges (mUidRanges v) rs\<rparr>)) +
        (\<Sum>i\<in>#mset (mInterfaces v). ?U i)"
      by (simp add: network_rules_def virtual_rules_mset sum_mset.distrib add_ac)
    moreover have "v\<lparr>mUidRanges := remove_ranges (mUidRanges v) rs\<rparr> =
        mUidRanges_update (\<lambda>ra. remove_ranges ra rs) v"
      by (cases v) simp
    ultimately show "fold (\<lambda>i. rules_del (?U i)) (mInterfaces v) (X + network_rules idx V (Virtual v)) =
        X + network_rules idx V (Virtual (mUidRanges_update (\<lambda>ra. remove_ranges ra rs) v))"
      by (simp add: fold_rules_del add.assoc [symmetric])
  qed
qed

subsection \<open>What the methods leave in the object, and what they keep\<close>

lemma run_addAsDefault:
  "run_state (addAsDefault e d p) s = ((r, p'), s') \<Longrightarrow> p' = (if r = 0 then p\<lparr>mIsDefault := True\<rparr> else p)"
  by (auto simp: addAsDefault_def run_on_success split: if_splits prod.splits)

lemma run_removeAsDefault:
  "run_state (removeAsDefault e d p) s = ((r, p'), s') \<Longrightarrow> p' = (if r = 0 then p\<lparr>mIsDefault := False\<rparr> else p)"
  by (auto simp: removeAsDefault_def run_on_success split: if_splits prod.splits)

lemma run_setPermission:
  "run_state (PhysicalNetwork_setPermission e d perm p) s = ((r, p'), s') \<Longrightarrow>
   p' = (if r = 0 then p\<lparr>mPermission := perm\<rparr> else p)"
  by (auto simp: PhysicalNetwork_setPermission_def run_on_success split: if_splits prod.splits)

lemma run_addUsers:
  "run_state (addUsers e rs v) s = ((r, v'), s') \<Longrightarrow>
   v' = (if r = 0 then v\<lparr>mUidRanges := add_ranges (mUidRanges v) rs\<rparr> else v)"
  by (auto simp: addUsers_def run_on_success split: if_splits prod.splits)

lemma run_removeUsers:
  "run_state (removeUsers e rs v) s = ((r, v'), s') \<Longrightarrow>
   v' = (if r = 0 then v\<lparr>mUidRanges := remove_ranges (mUidRanges v) rs\<rparr> else v)"
  by (auto simp: removeUsers_def run_on_success split: if_splits prod.splits)

lemma keeps_on_success [wp]: "keeps I m \<Longrightarrow> keeps I (on_success m n f)"
  unfolding on_success_def by (intro wp_basic)

lemma keeps_as_network [wp]: "keeps I m \<Longrightarrow> keeps I (as_network w m)"
  unfolding as_network_def by (intro wp_basic)

definition delegate_keeps :: "('a rc_scheme \<Rightarrow> bool) \<Rightarrow> 'a rc_scheme delegate \<Rightarrow> bool" where
  "delegate_keeps I d \<longleftrightarrow> (\<forall>i p. keeps I (addFallthrough_op d i p) \<and> keeps I (removeFallthrough_op d i p))"

lemma keeps_delegate [wp]:
  "delegate_keeps I d \<Longrightarrow> keeps I (addFallthrough_op d i p)"
  "delegate_keeps I d \<Longrightarrow> keeps I (removeFallthrough_op d i p)"
  by (simp_all add: delegate_keeps_def)

lemma keeps_physical [wp]:
  assumes "rc_free I" and "delegate_keeps I d"
  shows "keeps I (addAsDefault e d p)" and "keeps I (removeAsDefault e d p)"
    and "keeps I (PhysicalNetwork_setPermission e d perm p)"
    and "keeps I (PhysicalNetwork_addInterface e d i p)" and "keeps I (PhysicalNetwork_removeInterface e d i p)"
  unfolding addAsDefault_def removeAsDefault_def PhysicalNetwork_setPermission_def addToDefault_def
    removeFromDefault_def PhysicalNetwork_addInterface_def PhysicalNetwork_removeInterface_def
  by (intro wp assms)+

lemma keeps_virtual [wp]:
  assumes "rc_free I"
  shows "keeps I (addUsers e rs v)" and "keeps I (removeUsers e rs v)"
    and "keeps I (VirtualNetwork_addInterface e i v)" and "keeps I (VirtualNetwork_removeInterface e i v)"
    and "keeps I (LocalNetwork_addInterface e i l)" and "keeps I (LocalNetwork_removeInterface e i l)"
  unfolding addUsers_def removeUsers_def VirtualNetwork_addInterface_def VirtualNetwork_removeInterface_def
    LocalNetwork_addInterface_def LocalNetwork_removeInterface_def
  by (intro wp assms)+

lemma keeps_network [wp]:
  assumes "rc_free I" and "delegate_keeps I d"
  shows "keeps I (Network_addInterface e d i n)" and "keeps I (Network_removeInterface e d i n)"
  by (cases n; simp; intro wp assms)+

lemma keeps_clearInterfaces [wp]:
  assumes "rc_free I" and "delegate_keeps I d"
  shows "keeps I (clearInterfaces e d n)"
proof (induction "length (getInterfaces n)" arbitrary: n rule: less_induct)
  case less
  show ?case
  proof (cases "getInterfaces n")
    case Nil
    then show ?thesis by (subst clearInterfaces.simps) (simp add: keeps_return)
  next
    case (Cons i rest)
    show ?thesis
    proof (rule hoareI)
      fix s a s'
      assume I: "I s" and run: "run_state (clearInterfaces e d n) s = (a, s')"
      obtain r n1 s1 where rem: "run_state (Network_removeInterface e d i n) s = ((r, n1), s1)"
        by (metis prod.exhaust)
      have "I s1" using keeps_network(2) [OF assms] I rem by (rule hoareD)
      moreover have "r = 0 \<Longrightarrow> keeps I (clearInterfaces e d n1)"
        using net.rem_shrinks rem Cons by (intro less) fastforce
      moreover have "(a, s') = (if r \<noteq> 0 then ((r, n1), s1) else run_state (clearInterfaces e d n1) s1)"
        using run rem Cons by (subst (asm) clearInterfaces.simps) (auto split: if_splits)
      ultimately show "I s'" by (cases "r = 0") (auto dest: hoareD [OF _ _ sym])
    qed
  qed
qed

end
