(* ===== verification/NetworkController.thy ===== *)
theory NetworkController
  imports Networks
begin

text \<open>
  \<^verbatim>\<open>server/NetworkController.cpp\<close>: the map of networks, the default network, the permissions of users
  and the users that may protect sockets. Each public method takes the lock for as long as it looks at
  or changes the state and all commands come from one thread, so a method is one atomic step on
  the record \<open>nc\<close>. A \<^verbatim>\<open>static_cast\<close> to the wrong class has no defined behaviour: the functions in
  which one occurs return \<^const>\<open>None\<close> there.
\<close>

section \<open>Model\<close>

definition MIN_NET_ID :: u32 where "MIN_NET_ID = 100"
definition MAX_NET_ID :: u32 where "MAX_NET_ID = 65535"
definition MIN_OEM_ID :: u32 where "MIN_OEM_ID = 1"
definition MAX_OEM_ID :: u32 where "MAX_OEM_ID = 50"
definition LOCAL_NET_ID :: u32 where "LOCAL_NET_ID = 99"
definition FIRST_APPLICATION_UID :: uid where "FIRST_APPLICATION_UID = 10000"

lemmas net_id_defs = MIN_NET_ID_def MAX_NET_ID_def MIN_OEM_ID_def MAX_OEM_ID_def LOCAL_NET_ID_def
  NETID_UNSET_def

record nc = rc +
  mDefaultNetId :: u32
  mNetworks :: "(u32 \<times> network) list"
  mUsers :: "(uid \<times> permission) list"
  mProtectableUsers :: "uid list"

text \<open>The constructor.\<close>

definition NetworkController_new :: "'a nc_scheme \<Rightarrow> 'a nc_scheme" where
  "NetworkController_new s =
     s\<lparr>mDefaultNetId := NETID_UNSET, mNetworks := [(LOCAL_NET_ID, Local (LocalNetwork_new LOCAL_NET_ID))],
       mUsers := [], mProtectableUsers := []\<rparr>"

subsection \<open>The delegate of physical networks\<close>

definition modifyFallthrough :: "env \<Rightarrow> u32 \<Rightarrow> string \<Rightarrow> permission \<Rightarrow> bool \<Rightarrow> ('a rc_scheme, int) state" where
  "modifyFallthrough e vpnNetId physicalInterface perm add =
     (if add then ok_then (addVirtualNetworkFallthrough e vpnNetId physicalInterface perm) (ret 0)
      else ok_then (removeVirtualNetworkFallthrough e vpnNetId physicalInterface perm) (ret 0))"

definition modifyFallthrough_all :: "env \<Rightarrow> string \<Rightarrow> permission \<Rightarrow> bool \<Rightarrow> ('a nc_scheme, int) state" where
  "modifyFallthrough_all e physicalInterface perm add = do {
     ns \<leftarrow> gets mNetworks;
     for_ok (\<lambda>entry. if getType (snd entry) = VIRTUAL
                     then modifyFallthrough e (fst entry) physicalInterface perm add
                     else ret 0) ns }"

definition DelegateImpl :: "env \<Rightarrow> 'a nc_scheme delegate" where
  "DelegateImpl e =
     \<lparr>addFallthrough_op = (\<lambda>i p. modifyFallthrough_all e i p True),
      removeFallthrough_op = (\<lambda>i p. modifyFallthrough_all e i p False)\<rparr>"

subsection \<open>Queries\<close>

definition getNetworkLocked :: "'a nc_scheme \<Rightarrow> u32 \<Rightarrow> network option" where
  "getNetworkLocked s n = map_of (mNetworks s) n"

definition isValidNetwork :: "'a nc_scheme \<Rightarrow> u32 \<Rightarrow> bool" where
  "isValidNetwork s n \<longleftrightarrow> getNetworkLocked s n \<noteq> None"

definition getDefaultNetwork :: "'a nc_scheme \<Rightarrow> u32" where
  "getDefaultNetwork s = mDefaultNetId s"

fun find_virtual :: "(u32 \<times> network) list \<Rightarrow> uid \<Rightarrow> virtual_network option" where
  "find_virtual [] uid = None"
| "find_virtual ((k, Virtual v) # ns) uid = (if appliesToUser v uid then Some v else find_virtual ns uid)"
| "find_virtual ((k, _) # ns) uid = find_virtual ns uid"

definition getVirtualNetworkForUserLocked :: "'a nc_scheme \<Rightarrow> uid \<Rightarrow> virtual_network option" where
  "getVirtualNetworkForUserLocked s uid = find_virtual (mNetworks s) uid"

definition getPermissionForUser :: "'a nc_scheme \<Rightarrow> uid \<Rightarrow> permission" where
  "getPermissionForUser s uid =
     (case map_of (mUsers s) uid of
        Some p \<Rightarrow> p
      | None \<Rightarrow> if uid < FIRST_APPLICATION_UID then PERMISSION_SYSTEM else PERMISSION_NONE)"

definition checkUserNetworkAccess :: "'a nc_scheme \<Rightarrow> uid \<Rightarrow> u32 \<Rightarrow> int option" where
  "checkUserNetworkAccess s uid n =
     (case getNetworkLocked s n of
        None \<Rightarrow> Some (- ENONET)
      | Some network \<Rightarrow>
          if uid = INVALID_UID then Some (- EREMOTEIO)
          else let userPermission = getPermissionForUser s uid
               in if userPermission AND PERMISSION_SYSTEM = PERMISSION_SYSTEM then Some 0
                  else case network of
                    Virtual v \<Rightarrow> Some (if appliesToUser v uid then 0 else - EPERM)
                  | _ \<Rightarrow>
                      if (case getVirtualNetworkForUserLocked s uid of
                            None \<Rightarrow> False | Some v \<Rightarrow> mSecure v) \<and>
                         uid \<notin> set (mProtectableUsers s) then Some (- EPERM)
                      else case network of
                        Physical p \<Rightarrow>
                          Some (if userPermission AND mPermission p = mPermission p then 0 else - EACCES)
                      | _ \<Rightarrow> None)"

text \<open>The NetId written back and the mark returned.\<close>

definition getNetworkForDns :: "'a nc_scheme \<Rightarrow> u32 \<Rightarrow> uid \<Rightarrow> (u32 \<times> u32) option" where
  "getNetworkForDns s n uid =
     (case checkUserNetworkAccess s uid n of
        None \<Rightarrow> None
      | Some access \<Rightarrow>
          let fwmark = new_Fwmark\<lparr>protectedFromVpn := True, permission := PERMISSION_SYSTEM\<rparr>;
              n' = (if access = 0 then n
                    else case getVirtualNetworkForUserLocked s uid of
                      Some v \<Rightarrow> if mHasDns v then mNetId v else mDefaultNetId s
                    | None \<Rightarrow> mDefaultNetId s);
              fwmark = (if access = 0 then fwmark\<lparr>explicitlySelected := True\<rparr> else fwmark)
          in Some (n', intValue (set_netId n' fwmark)))"

definition getNetworkForUser :: "'a nc_scheme \<Rightarrow> uid \<Rightarrow> u32" where
  "getNetworkForUser s uid =
     (case getVirtualNetworkForUserLocked s uid of Some v \<Rightarrow> mNetId v | None \<Rightarrow> mDefaultNetId s)"

definition getNetworkForConnect :: "'a nc_scheme \<Rightarrow> uid \<Rightarrow> u32" where
  "getNetworkForConnect s uid =
     (case getVirtualNetworkForUserLocked s uid of
        Some v \<Rightarrow> if \<not> mSecure v then mNetId v else mDefaultNetId s
      | None \<Rightarrow> mDefaultNetId s)"

definition getNetworkForInterface :: "'a nc_scheme \<Rightarrow> string \<Rightarrow> u32" where
  "getNetworkForInterface s iface =
     (case List.find (\<lambda>entry. iface \<in> set (getInterfaces (snd entry))) (mNetworks s) of
        Some entry \<Rightarrow> fst entry
      | None \<Rightarrow> NETID_UNSET)"

definition isVirtualNetwork :: "'a nc_scheme \<Rightarrow> u32 \<Rightarrow> bool" where
  "isVirtualNetwork s n =
     (case getNetworkLocked s n of None \<Rightarrow> False | Some network \<Rightarrow> getType network = VIRTUAL)"

definition canProtect :: "'a nc_scheme \<Rightarrow> uid \<Rightarrow> bool" where
  "canProtect s uid \<longleftrightarrow>
     getPermissionForUser s uid AND PERMISSION_SYSTEM = PERMISSION_SYSTEM \<or> uid \<in> set (mProtectableUsers s)"

subsection \<open>Commands\<close>

text \<open>Calling a method of the network with the given NetId: the changed object goes back into the map.\<close>

definition call_network :: "u32 \<Rightarrow> ('a nc_scheme, int \<times> network) state \<Rightarrow> ('a nc_scheme, int) state" where
  "call_network n m = do {
     (r, network) \<leftarrow> m;
     modify (mNetworks_update (map_put n network));
     ret r }"

definition setDefaultNetwork :: "env \<Rightarrow> u32 \<Rightarrow> ('a nc_scheme, int) state" where
  "setDefaultNetwork e n = do {
     old \<leftarrow> gets mDefaultNetId;
     if n = old then ret 0
     else
       ok_then
         (if n \<noteq> NETID_UNSET then do {
            network \<leftarrow> gets (\<lambda>s. getNetworkLocked s n);
            case network of
              None \<Rightarrow> ret (- ENONET)
            | Some (Physical p) \<Rightarrow> call_network n (as_network Physical (addAsDefault e (DelegateImpl e) p))
            | Some _ \<Rightarrow> ret (- EINVAL)
          } else ret 0)
         (ok_then
           (if old \<noteq> NETID_UNSET then do {
              network \<leftarrow> gets (\<lambda>s. getNetworkLocked s old);
              case network of
                Some (Physical p) \<Rightarrow>
                  call_network old (as_network Physical (removeAsDefault e (DelegateImpl e) p))
              | _ \<Rightarrow> ret (- ESRCH)
            } else ret 0)
           (do { modify (mDefaultNetId_update (\<lambda>_. n)); ret 0 })) }"

definition createPhysicalNetwork :: "env \<Rightarrow> u32 \<Rightarrow> permission \<Rightarrow> ('a nc_scheme, int) state" where
  "createPhysicalNetwork e n perm =
     (if \<not> ((MIN_NET_ID \<le> n \<and> n \<le> MAX_NET_ID) \<or> (MIN_OEM_ID \<le> n \<and> n \<le> MAX_OEM_ID)) then ret (- EINVAL)
      else do {
        valid \<leftarrow> gets (\<lambda>s. isValidNetwork s n);
        if valid then ret (- EEXIST)
        else do {
          (r, p) \<leftarrow> PhysicalNetwork_setPermission e (DelegateImpl e) perm (PhysicalNetwork_new n);
          if r \<noteq> 0 then ret r
          else do {
            modify (mNetworks_update (map_put n (Physical p)));
            ret 0 } } })"

definition modifyFallthroughLocked :: "env \<Rightarrow> u32 \<Rightarrow> bool \<Rightarrow> ('a nc_scheme, int) state" where
  "modifyFallthroughLocked e vpnNetId add = do {
     dflt \<leftarrow> gets mDefaultNetId;
     if dflt = NETID_UNSET then ret 0
     else do {
       network \<leftarrow> gets (\<lambda>s. getNetworkLocked s dflt);
       case network of
         None \<Rightarrow> ret (- ESRCH)
       | Some (Physical p) \<Rightarrow>
           for_ok (\<lambda>physicalInterface. modifyFallthrough e vpnNetId physicalInterface (mPermission p) add)
             (mInterfaces p)
       | Some _ \<Rightarrow> ret (- EINVAL) } }"

definition createVirtualNetwork :: "env \<Rightarrow> u32 \<Rightarrow> bool \<Rightarrow> bool \<Rightarrow> ('a nc_scheme, int) state" where
  "createVirtualNetwork e n hasDns secure =
     (if \<not> (MIN_NET_ID \<le> n \<and> n \<le> MAX_NET_ID) then ret (- EINVAL)
      else do {
        valid \<leftarrow> gets (\<lambda>s. isValidNetwork s n);
        if valid then ret (- EEXIST)
        else ok_then (modifyFallthroughLocked e n True)
          (do {
            modify (mNetworks_update (map_put n (Virtual (VirtualNetwork_new n hasDns secure))));
            ret 0 }) })"

text \<open>\<^verbatim>\<open>_resolv_delete_cache_for_net\<close> of the resolver library.\<close>

definition resolv_delete_cache_for_net :: "u32 \<Rightarrow> ('a sys_scheme, unit) state" where
  "resolv_delete_cache_for_net n = log_event (EvResolvDelete n)"

definition destroyNetwork :: "env \<Rightarrow> u32 \<Rightarrow> ('a nc_scheme, int option) state" where
  "destroyNetwork e n =
     (if n = LOCAL_NET_ID then ret (Some (- EINVAL))
      else do {
        found \<leftarrow> gets (\<lambda>s. getNetworkLocked s n);
        case found of
          None \<Rightarrow> ret (Some (- ENONET))
        | Some network \<Rightarrow> do {
            (r, network) \<leftarrow> clearInterfaces e (DelegateImpl e) network;
            modify (mNetworks_update (map_put n network));
            dflt \<leftarrow> gets mDefaultNetId;
            r \<leftarrow> (if dflt = n then
                   (case network of
                      Physical p \<Rightarrow> do {
                        (err, p) \<leftarrow> removeAsDefault e (DelegateImpl e) p;
                        modify (mDefaultNetId_update (\<lambda>_. NETID_UNSET));
                        ret (Some (if r = 0 then err else r)) }
                    | _ \<Rightarrow> ret None)
                 else if getType network = VIRTUAL then do {
                   err \<leftarrow> modifyFallthroughLocked e n False;
                   ret (Some (if r = 0 then err else r)) }
                 else ret (Some r));
            modify (mNetworks_update (map_erase n));
            resolv_delete_cache_for_net n;
            ret r } })"

definition addInterfaceToNetwork :: "env \<Rightarrow> u32 \<Rightarrow> string \<Rightarrow> ('a nc_scheme, int) state" where
  "addInterfaceToNetwork e n iface = do {
     found \<leftarrow> gets (\<lambda>s. getNetworkLocked s n);
     existingNetId \<leftarrow> gets (\<lambda>s. getNetworkForInterface s iface);
     case found of
       None \<Rightarrow> ret (- ENONET)
     | Some network \<Rightarrow>
         if existingNetId \<noteq> NETID_UNSET \<and> existingNetId \<noteq> n then ret (- EBUSY)
         else call_network n (Network_addInterface e (DelegateImpl e) iface network) }"

definition removeInterfaceFromNetwork :: "env \<Rightarrow> u32 \<Rightarrow> string \<Rightarrow> ('a nc_scheme, int) state" where
  "removeInterfaceFromNetwork e n iface = do {
     found \<leftarrow> gets (\<lambda>s. getNetworkLocked s n);
     case found of
       None \<Rightarrow> ret (- ENONET)
     | Some network \<Rightarrow> call_network n (Network_removeInterface e (DelegateImpl e) iface network) }"

definition setPermissionForUsers :: "permission \<Rightarrow> uid list \<Rightarrow> ('a nc_scheme, unit) state" where
  "setPermissionForUsers perm uids = modify (mUsers_update (fold (\<lambda>uid. map_put uid perm) uids))"

definition setPermissionForNetworks :: "env \<Rightarrow> permission \<Rightarrow> u32 list \<Rightarrow> ('a nc_scheme, int) state" where
  "setPermissionForNetworks e perm netIds =
     for_ok (\<lambda>n. do {
       found \<leftarrow> gets (\<lambda>s. getNetworkLocked s n);
       case found of
         None \<Rightarrow> ret (- ENONET)
       | Some (Physical p) \<Rightarrow>
           call_network n (as_network Physical (PhysicalNetwork_setPermission e (DelegateImpl e) perm p))
       | Some _ \<Rightarrow> ret (- EINVAL) }) netIds"

definition addUsersToNetwork :: "env \<Rightarrow> u32 \<Rightarrow> range list \<Rightarrow> ('a nc_scheme, int) state" where
  "addUsersToNetwork e n uidRanges = do {
     found \<leftarrow> gets (\<lambda>s. getNetworkLocked s n);
     case found of
       None \<Rightarrow> ret (- ENONET)
     | Some (Virtual v) \<Rightarrow> call_network n (as_network Virtual (addUsers e uidRanges v))
     | Some _ \<Rightarrow> ret (- EINVAL) }"

definition removeUsersFromNetwork :: "env \<Rightarrow> u32 \<Rightarrow> range list \<Rightarrow> ('a nc_scheme, int) state" where
  "removeUsersFromNetwork e n uidRanges = do {
     found \<leftarrow> gets (\<lambda>s. getNetworkLocked s n);
     case found of
       None \<Rightarrow> ret (- ENONET)
     | Some (Virtual v) \<Rightarrow> call_network n (as_network Virtual (removeUsers e uidRanges v))
     | Some _ \<Rightarrow> ret (- EINVAL) }"

definition modifyRoute ::
  "env \<Rightarrow> u32 \<Rightarrow> string \<Rightarrow> cstr \<Rightarrow> cstr \<Rightarrow> bool \<Rightarrow> bool \<Rightarrow> uid \<Rightarrow> ('a nc_scheme, int) state" where
  "modifyRoute e n iface destination nexthop add legacy uid = do {
     s \<leftarrow> gets (\<lambda>s. s);
     if \<not> isValidNetwork s n then ret (- ENONET)
     else let existingNetId = getNetworkForInterface s iface
          in if existingNetId = NETID_UNSET then ret (- ENODEV)
             else if existingNetId \<noteq> n then ret (- ENOENT)
             else let tableType =
                        (if n = LOCAL_NET_ID then LOCAL_NETWORK
                         else if legacy then
                           if getPermissionForUser s uid AND PERMISSION_SYSTEM = PERMISSION_SYSTEM
                           then LEGACY_SYSTEM else LEGACY_NETWORK
                         else INTERFACE)
                  in if add then RouteController_addRoute e iface destination nexthop tableType
                     else RouteController_removeRoute e iface destination nexthop tableType }"

definition addRoute ::
  "env \<Rightarrow> u32 \<Rightarrow> string \<Rightarrow> cstr \<Rightarrow> cstr \<Rightarrow> bool \<Rightarrow> uid \<Rightarrow> ('a nc_scheme, int) state" where
  "addRoute e n iface destination nexthop legacy uid = modifyRoute e n iface destination nexthop True legacy uid"

definition removeRoute ::
  "env \<Rightarrow> u32 \<Rightarrow> string \<Rightarrow> cstr \<Rightarrow> cstr \<Rightarrow> bool \<Rightarrow> uid \<Rightarrow> ('a nc_scheme, int) state" where
  "removeRoute e n iface destination nexthop legacy uid = modifyRoute e n iface destination nexthop False legacy uid"

definition allowProtect :: "uid list \<Rightarrow> ('a nc_scheme, unit) state" where
  "allowProtect uids = modify (mProtectableUsers_update (fold set_insert uids))"

definition denyProtect :: "uid list \<Rightarrow> ('a nc_scheme, unit) state" where
  "denyProtect uids = modify (mProtectableUsers_update (fold set_erase uids))"

section \<open>Specification: the invariant\<close>

text \<open>
  NetIds are in the ranges the class hands out, the map files each network under its own NetId, the
  local network is always there, an interface belongs to at most one network, and the default network,
  if there is one, is a physical network that carries the default rules.
\<close>

definition physical_id :: "u32 \<Rightarrow> bool" where
  "physical_id n \<longleftrightarrow> (MIN_NET_ID \<le> n \<and> n \<le> MAX_NET_ID) \<or> (MIN_OEM_ID \<le> n \<and> n \<le> MAX_OEM_ID)"

definition virtual_id :: "u32 \<Rightarrow> bool" where
  "virtual_id n \<longleftrightarrow> MIN_NET_ID \<le> n \<and> n \<le> MAX_NET_ID"

fun id_ok :: "network \<Rightarrow> bool" where
  "id_ok (Local n) \<longleftrightarrow> mNetId n = LOCAL_NET_ID"
| "id_ok (Physical n) \<longleftrightarrow> physical_id (mNetId n)"
| "id_ok (Virtual n) \<longleftrightarrow> virtual_id (mNetId n)"

definition entry_ok :: "u32 \<times> network \<Rightarrow> bool" where
  "entry_ok e \<longleftrightarrow> getNetId (snd e) = fst e \<and> wf_network (snd e) \<and> id_ok (snd e)"

definition disjoint_interfaces :: "(u32 \<times> network) list \<Rightarrow> bool" where
  "disjoint_interfaces ns \<longleftrightarrow>
     (\<forall>e\<in>set ns. \<forall>e'\<in>set ns. fst e = fst e' \<or> set (getInterfaces (snd e)) \<inter> set (getInterfaces (snd e')) = {})"

definition networks_ok :: "(u32 \<times> network) list \<Rightarrow> bool" where
  "networks_ok ns \<longleftrightarrow>
     wf_map ns \<and> list_all entry_ok ns \<and> map_of ns LOCAL_NET_ID \<noteq> None \<and> disjoint_interfaces ns"

definition default_ok :: "u32 \<Rightarrow> (u32 \<times> network) list \<Rightarrow> bool" where
  "default_ok d ns \<longleftrightarrow>
     d = NETID_UNSET \<or>
     (case map_of ns d of Some (Physical p) \<Rightarrow> mIsDefault p | _ \<Rightarrow> False)"

definition nc_inv :: "'a nc_scheme \<Rightarrow> bool" where
  "nc_inv s \<longleftrightarrow>
     networks_ok (mNetworks s) \<and> default_ok (mDefaultNetId s) (mNetworks s) \<and>
     wf_map (mUsers s) \<and> wf_set (mProtectableUsers s)"

text \<open>Two states with the same networks, default, permissions and protectable users.\<close>

definition nc_same :: "'a nc_scheme \<Rightarrow> 'a nc_scheme \<Rightarrow> bool" where
  "nc_same s s' \<longleftrightarrow>
     mDefaultNetId s' = mDefaultNetId s \<and> mNetworks s' = mNetworks s \<and> mUsers s' = mUsers s \<and>
     mProtectableUsers s' = mProtectableUsers s"

section \<open>Lemmas\<close>

subsection \<open>The map of networks\<close>

lemma set_map_put: "wf_map m \<Longrightarrow> set (map_put k v m) = insert (k, v) {e \<in> set m. fst e \<noteq> k}"
proof -
  assume wf: "wf_map m"
  have "e \<in> set (map_put k v m) \<longleftrightarrow> e = (k, v) \<or> e \<in> set m \<and> fst e \<noteq> k" for e
    using wf by (cases e) (auto simp: wf_map_in_set)
  then show ?thesis by auto
qed

lemma networks_okD:
  assumes "networks_ok ns" and "map_of ns k = Some n"
  shows "getNetId n = k" and "wf_network n" and "id_ok n"
  using assms by (auto simp: networks_ok_def list_all_iff entry_ok_def dest!: map_of_SomeD)

lemma id_ok_nonzero: "id_ok n \<Longrightarrow> getNetId n \<noteq> NETID_UNSET"
  by (cases n) (auto simp: physical_id_def virtual_id_def net_id_defs)

lemma networks_ok_disjoint:
  assumes "networks_ok ns" and "map_of ns k = Some n" and "map_of ns k' = Some n'" and "k \<noteq> k'"
  shows "set (getInterfaces n) \<inter> set (getInterfaces n') = {}"
  using assms(1) map_of_SomeD [OF assms(2)] map_of_SomeD [OF assms(3)] assms(4)
  by (fastforce simp: networks_ok_def disjoint_interfaces_def)

lemma networks_ok_put:
  assumes ok: "networks_ok ns" and n: "entry_ok (k, n)"
    and disj: "\<And>k' n'. map_of ns k' = Some n' \<Longrightarrow> k' \<noteq> k \<Longrightarrow> set (getInterfaces n) \<inter> set (getInterfaces n') = {}"
  shows "networks_ok (map_put k n ns)"
proof -
  have wf: "wf_map ns" using ok by (simp add: networks_ok_def)
  have "set (getInterfaces n) \<inter> set (getInterfaces n') = {}" if "(k', n') \<in> set ns" "k' \<noteq> k" for k' n'
    using disj that wf by (simp add: wf_map_in_set)
  then have "disjoint_interfaces (map_put k n ns)"
    using ok wf unfolding networks_ok_def disjoint_interfaces_def set_map_put [OF wf]
    by (fastforce simp: Int_commute)
  then show ?thesis
    using ok n wf by (auto simp: networks_ok_def list_all_iff set_map_put)
qed

lemma networks_ok_update:
  assumes "networks_ok ns" and "map_of ns k = Some n" and "entry_ok (k, n')"
    and "set (getInterfaces n') \<subseteq> set (getInterfaces n)"
  shows "networks_ok (map_put k n' ns)"
  using networks_ok_disjoint [OF assms(1,2)] assms by (intro networks_ok_put) blast+

lemma networks_ok_erase: "networks_ok ns \<Longrightarrow> k \<noteq> LOCAL_NET_ID \<Longrightarrow> networks_ok (map_erase k ns)"
  by (auto simp: networks_ok_def list_all_iff disjoint_interfaces_def)

lemma getNetworkForInterface_unset:
  assumes "networks_ok (mNetworks s)" and "getNetworkForInterface s i = NETID_UNSET"
    and "map_of (mNetworks s) k = Some n"
  shows "i \<notin> set (getInterfaces n)"
proof
  assume i: "i \<in> set (getInterfaces n)"
  show False
  proof (cases "List.find (\<lambda>entry. i \<in> set (getInterfaces (snd entry))) (mNetworks s)")
    case None
    then show ?thesis using i map_of_SomeD [OF assms(3)] by (auto simp: find_None_iff)
  next
    case (Some entry)
    then have "entry \<in> set (mNetworks s)" by (auto simp: find_Some_iff)
    then have "fst entry \<noteq> NETID_UNSET"
      using assms(1) id_ok_nonzero by (auto simp: networks_ok_def list_all_iff entry_ok_def)
    then show ?thesis using assms(2) Some by (simp add: getNetworkForInterface_def)
  qed
qed

lemma getNetworkForInterface_has:
  assumes "networks_ok (mNetworks s)" and "getNetworkForInterface s i = k" and "k \<noteq> NETID_UNSET"
  shows "\<exists>n. map_of (mNetworks s) k = Some n \<and> i \<in> set (getInterfaces n)"
proof -
  obtain n where "List.find (\<lambda>entry. i \<in> set (getInterfaces (snd entry))) (mNetworks s) = Some (k, n)"
    using assms(2,3) by (auto simp: getNetworkForInterface_def split: option.splits)
  then have "(k, n) \<in> set (mNetworks s)" "i \<in> set (getInterfaces (snd (k, n)))"
    by (metis find_Some_iff nth_mem)+
  then show ?thesis using assms(1) by (auto simp: networks_ok_def wf_map_in_set)
qed

text \<open>The lookup by interface and the lookup by NetId agree.\<close>

lemma getNetworkForInterface_iff:
  assumes "networks_ok (mNetworks s)"
  shows "getNetworkForInterface s i = k \<and> k \<noteq> NETID_UNSET \<longleftrightarrow>
         (\<exists>n. map_of (mNetworks s) k = Some n \<and> i \<in> set (getInterfaces n))"
proof (intro iffI conjI)
  assume "\<exists>n. map_of (mNetworks s) k = Some n \<and> i \<in> set (getInterfaces n)"
  then obtain n where n: "map_of (mNetworks s) k = Some n" "i \<in> set (getInterfaces n)" by blast
  let ?k = "getNetworkForInterface s i"
  have "?k \<noteq> NETID_UNSET" using getNetworkForInterface_unset [OF assms] n by blast
  then obtain n' where "map_of (mNetworks s) ?k = Some n'" "i \<in> set (getInterfaces n')"
    using getNetworkForInterface_has [OF assms refl] by blast
  then show "?k = k" using networks_ok_disjoint [OF assms n(1)] n(2) by blast
  then show "k \<noteq> NETID_UNSET" using \<open>?k \<noteq> NETID_UNSET\<close> by simp
qed (use getNetworkForInterface_has [OF assms] in blast)

subsection \<open>Frame\<close>

lemma keeps_modifyFallthrough [wp]: "rc_free I \<Longrightarrow> keeps I (modifyFallthrough e n i p add)"
  unfolding modifyFallthrough_def by (intro wp)

lemma keeps_modifyFallthrough_all [wp]: "rc_free I \<Longrightarrow> keeps I (modifyFallthrough_all e i p add)"
  unfolding modifyFallthrough_all_def by (intro wp)

lemma DelegateImpl_keeps [wp]: "rc_free I \<Longrightarrow> delegate_keeps I (DelegateImpl e)"
  unfolding delegate_keeps_def DelegateImpl_def by (auto intro: keeps_modifyFallthrough_all)

lemma keeps_case_network [wp]:
  "(\<And>l. x = Local l \<Longrightarrow> keeps I (f l)) \<Longrightarrow> (\<And>p. x = Physical p \<Longrightarrow> keeps I (g p)) \<Longrightarrow>
   (\<And>v. x = Virtual v \<Longrightarrow> keeps I (h v)) \<Longrightarrow>
   keeps I (case x of Local l \<Rightarrow> f l | Physical p \<Rightarrow> g p | Virtual v \<Rightarrow> h v)"
  by (cases x) simp_all

lemma keeps_modifyFallthroughLocked [wp]: "rc_free I \<Longrightarrow> keeps I (modifyFallthroughLocked e n add)"
  unfolding modifyFallthroughLocked_def by (intro wp)

lemma rc_free_nc_same [simp, intro]: "rc_free (nc_same s)"
  by (simp add: rc_free_def hist_free_def nc_same_def)

lemma nc_same_refl [simp]: "nc_same s s"
  by (simp add: nc_same_def)

lemma nc_same_run: "run_state m s = (a, s') \<Longrightarrow> keeps (nc_same s) m \<Longrightarrow> nc_same s s'"
  using hoareD [of "nc_same s" m "\<lambda>_. nc_same s" s a s'] by simp

text \<open>The state after a call into a network object, in terms of the object's new value.\<close>

lemma call_network_run:
  assumes "run_state (call_network k m) s = (r, s')" and "keeps (nc_same s) m"
  obtains n s1 where "run_state m s = ((r, n), s1)" and "nc_same s s1"
    and "s' = s1\<lparr>mNetworks := map_put k n (mNetworks s)\<rparr>"
proof -
  obtain n s1 where m: "run_state m s = ((r, n), s1)"
    and "s' = mNetworks_update (map_put k n) s1"
    using assms(1) by (auto simp: call_network_def split: prod.splits)
  moreover have "nc_same s s1" using hoareD [OF assms(2) _ m] by simp
  ultimately show thesis using that by (auto simp: nc_same_def)
qed

text \<open>
  A method call that keeps the kind of the object, its NetId and (for a default network) the flag,
  and adds no interface that another network has, keeps the invariant.
\<close>

lemma call_network_inv:
  assumes inv: "nc_inv s" and k: "map_of (mNetworks s) k = Some n"
    and run: "run_state (call_network k m) s = (r, s')" and keeps: "keeps (nc_same s) m"
    and step: "\<And>n' s1. run_state m s = ((r, n'), s1) \<Longrightarrow>
      entry_ok (k, n') \<and>
      (\<forall>k' n2. map_of (mNetworks s) k' = Some n2 \<longrightarrow> k' \<noteq> k \<longrightarrow> set (getInterfaces n') \<inter> set (getInterfaces n2) = {}) \<and>
      (k = mDefaultNetId s \<longrightarrow> k \<noteq> NETID_UNSET \<longrightarrow> (case n' of Physical p \<Rightarrow> mIsDefault p | _ \<Rightarrow> False))"
  shows "nc_inv s'"
proof -
  obtain n' s1 where m: "run_state m s = ((r, n'), s1)" and same: "nc_same s s1"
    and s': "s' = s1\<lparr>mNetworks := map_put k n' (mNetworks s)\<rparr>"
    using call_network_run [OF run keeps] by blast
  from step [OF m] inv show ?thesis
    unfolding s' using same by (auto simp: nc_inv_def nc_same_def default_ok_def intro!: networks_ok_put)
qed

lemma nc_inv_default:
  assumes "nc_inv s" and "mDefaultNetId s \<noteq> NETID_UNSET"
  obtains p where "map_of (mNetworks s) (mDefaultNetId s) = Some (Physical p)" and "mIsDefault p"
  using assms by (auto simp: nc_inv_def default_ok_def split: option.splits network.splits)

lemma nc_inv_entry: "nc_inv s \<Longrightarrow> map_of (mNetworks s) k = Some n \<Longrightarrow> entry_ok (k, n)"
  using networks_okD [of "mNetworks s" k n] by (simp add: nc_inv_def entry_ok_def)

lemma nc_inv_others:
  "nc_inv s \<Longrightarrow> map_of (mNetworks s) k = Some n \<Longrightarrow> map_of (mNetworks s) k' = Some n2 \<Longrightarrow> k' \<noteq> k \<Longrightarrow>
   set (getInterfaces n) \<inter> set (getInterfaces n2) = {}"
  using networks_ok_disjoint [of "mNetworks s" k n k' n2] by (simp add: nc_inv_def)

lemma entry_ok_upd:
  "entry_ok (k, n) \<Longrightarrow> wf_set (f (getInterfaces n)) \<Longrightarrow> entry_ok (k, upd_interfaces f n)"
  by (cases n) (auto simp: entry_ok_def)

lemma addInterfaceToNetwork_inv: "keeps nc_inv (addInterfaceToNetwork e k i)"
proof (rule hoareI)
  fix s r and s' :: "'a nc_scheme"
  assume inv: "nc_inv s" and run: "run_state (addInterfaceToNetwork e k i) s = (r, s')"
  let ?ex = "getNetworkForInterface s i"
  show "nc_inv s'"
  proof (cases "\<exists>n. map_of (mNetworks s) k = Some n \<and> (?ex = NETID_UNSET \<or> ?ex = k)")
    case False
    then show ?thesis
      using run inv by (auto simp: addInterfaceToNetwork_def getNetworkLocked_def split: option.splits if_splits)
  next
    case True
    then obtain n where n: "map_of (mNetworks s) k = Some n" and ex: "?ex = NETID_UNSET \<or> ?ex = k" by blast
    have run': "run_state (call_network k (Network_addInterface e (DelegateImpl e) i n)) s = (r, s')"
      using run n ex by (auto simp: addInterfaceToNetwork_def getNetworkLocked_def)
    show ?thesis
    proof (rule call_network_inv [OF inv n run'])
      fix n' s1 assume m: "run_state (Network_addInterface e (DelegateImpl e) i n) s = ((r, n'), s1)"
      note n' = net.add_run [OF m]
      have free: "i \<notin> set (getInterfaces n2)" if "map_of (mNetworks s) k' = Some n2" "k' \<noteq> k" for k' n2
        using ex that getNetworkForInterface_iff [of s i k'] getNetworkForInterface_unset [of s i k' n2] inv
        by (auto simp: nc_inv_def)
      show "entry_ok (k, n') \<and>
        (\<forall>k' n2. map_of (mNetworks s) k' = Some n2 \<longrightarrow> k' \<noteq> k \<longrightarrow> set (getInterfaces n') \<inter> set (getInterfaces n2) = {}) \<and>
        (k = mDefaultNetId s \<longrightarrow> k \<noteq> NETID_UNSET \<longrightarrow> (case n' of Physical p \<Rightarrow> mIsDefault p | _ \<Rightarrow> False))"
      proof (intro conjI)
        show "entry_ok (k, n')"
          using n' nc_inv_entry [OF inv n] entry_ok_upd [OF nc_inv_entry [OF inv n], of "set_insert i"]
          by (cases n) (auto simp: entry_ok_def)
      qed (use n' nc_inv_others [OF inv n] free inv n in
          \<open>auto simp: net.ifs_upd nc_inv_def default_ok_def split: network.splits if_splits elim!: upd_interfaces.elims\<close>)
    qed (intro wp rc_free_nc_same)
  qed
qed

lemma call_network_inv_sub:
  assumes inv: "nc_inv s" and k: "map_of (mNetworks s) k = Some n"
    and run: "run_state (call_network k m) s = (r, s')" and keeps: "keeps (nc_same s) m"
    and step: "\<And>n' s1. run_state m s = ((r, n'), s1) \<Longrightarrow>
      entry_ok (k, n') \<and> set (getInterfaces n') \<subseteq> set (getInterfaces n) \<and>
      ((case n of Physical p \<Rightarrow> mIsDefault p | _ \<Rightarrow> False) \<longrightarrow> (case n' of Physical p \<Rightarrow> mIsDefault p | _ \<Rightarrow> False))"
  shows "nc_inv s'"
  by (rule call_network_inv [OF inv k run keeps])
    (use step nc_inv_others [OF inv k] inv k in \<open>fastforce simp: nc_inv_def default_ok_def\<close>)

lemma removeInterfaceFromNetwork_inv: "keeps nc_inv (removeInterfaceFromNetwork e k i)"
proof (rule hoareI)
  fix s r and s' :: "'a nc_scheme"
  assume inv: "nc_inv s" and run: "run_state (removeInterfaceFromNetwork e k i) s = (r, s')"
  show "nc_inv s'"
  proof (cases "map_of (mNetworks s) k")
    case None
    then show ?thesis using run inv by (simp add: removeInterfaceFromNetwork_def getNetworkLocked_def)
  next
    case (Some n)
    then have run': "run_state (call_network k (Network_removeInterface e (DelegateImpl e) i n)) s = (r, s')"
      using run by (simp add: removeInterfaceFromNetwork_def getNetworkLocked_def)
    note entry = nc_inv_entry [OF inv Some]
    have wf: "wf_set (getInterfaces n)" using entry by (cases n) (auto simp: entry_ok_def)
    show ?thesis
      by (rule call_network_inv_sub [OF inv Some run'], intro wp rc_free_nc_same, drule net.rem_run)
        (use entry wf entry_ok_upd [OF entry, of "set_erase i"] in
          \<open>cases n; auto simp: net.ifs_upd split: if_splits\<close>)
  qed
qed

lemma setPermission_step_inv:
  "keeps nc_inv (do {
       found \<leftarrow> gets (\<lambda>s. getNetworkLocked s k);
       case found of
         None \<Rightarrow> ret (- ENONET)
       | Some (Physical p) \<Rightarrow>
           call_network k (as_network Physical (PhysicalNetwork_setPermission e (DelegateImpl e) perm p))
       | Some _ \<Rightarrow> ret (- EINVAL) })" (is "keeps _ ?m")
proof (rule hoareI)
  fix s r and s' :: "'a nc_scheme"
  assume inv: "nc_inv s" and run: "run_state ?m s = (r, s')"
  show "nc_inv s'"
  proof (cases "\<exists>p. map_of (mNetworks s) k = Some (Physical p)")
    case False
    then show ?thesis
      using run inv by (auto simp: getNetworkLocked_def split: option.splits network.splits)
  next
    case True
    then obtain p where p: "map_of (mNetworks s) k = Some (Physical p)" by blast
    then have run': "run_state (call_network k (as_network Physical
        (PhysicalNetwork_setPermission e (DelegateImpl e) perm p))) s = (r, s')"
      using run by (simp add: getNetworkLocked_def)
    show ?thesis
      by (rule call_network_inv_sub [OF inv p run'], intro wp rc_free_nc_same)
        (use nc_inv_entry [OF inv p] in \<open>auto simp: run_as_network entry_ok_def
          split: prod.splits if_splits dest!: run_setPermission\<close>)
  qed
qed

lemma setPermissionForNetworks_inv: "keeps nc_inv (setPermissionForNetworks e perm ks)"
  unfolding setPermissionForNetworks_def by (intro keeps_for_ok setPermission_step_inv)

lemma addUsersToNetwork_inv:
  assumes "wf_ranges rs"
  shows "keeps nc_inv (addUsersToNetwork e k rs)"
proof (rule hoareI)
  fix s r and s' :: "'a nc_scheme"
  assume inv: "nc_inv s" and run: "run_state (addUsersToNetwork e k rs) s = (r, s')"
  show "nc_inv s'"
  proof (cases "\<exists>v. map_of (mNetworks s) k = Some (Virtual v)")
    case False
    then show ?thesis
      using run inv by (auto simp: addUsersToNetwork_def getNetworkLocked_def split: option.splits network.splits)
  next
    case True
    then obtain v where v: "map_of (mNetworks s) k = Some (Virtual v)" by blast
    then have run': "run_state (call_network k (as_network Virtual (addUsers e rs v))) s = (r, s')"
      using run by (simp add: addUsersToNetwork_def getNetworkLocked_def)
    show ?thesis
      by (rule call_network_inv_sub [OF inv v run'], intro wp rc_free_nc_same)
        (use nc_inv_entry [OF inv v] assms in \<open>auto simp: run_as_network entry_ok_def wf_add_ranges
          split: prod.splits if_splits dest!: run_addUsers\<close>)
  qed
qed

lemma removeUsersFromNetwork_inv:
  assumes "wf_ranges rs"
  shows "keeps nc_inv (removeUsersFromNetwork e k rs)"
proof (rule hoareI)
  fix s r and s' :: "'a nc_scheme"
  assume inv: "nc_inv s" and run: "run_state (removeUsersFromNetwork e k rs) s = (r, s')"
  show "nc_inv s'"
  proof (cases "\<exists>v. map_of (mNetworks s) k = Some (Virtual v)")
    case False
    then show ?thesis
      using run inv by (auto simp: removeUsersFromNetwork_def getNetworkLocked_def split: option.splits network.splits)
  next
    case True
    then obtain v where v: "map_of (mNetworks s) k = Some (Virtual v)" by blast
    then have run': "run_state (call_network k (as_network Virtual (removeUsers e rs v))) s = (r, s')"
      using run by (simp add: removeUsersFromNetwork_def getNetworkLocked_def)
    show ?thesis
      by (rule call_network_inv_sub [OF inv v run'], intro wp rc_free_nc_same)
        (use nc_inv_entry [OF inv v] assms in \<open>auto simp: run_as_network entry_ok_def wf_remove_ranges
          split: prod.splits if_splits dest!: run_removeUsers\<close>)
  qed
qed

text \<open>On a network without interfaces \<^verbatim>\<open>setPermission\<close> cannot fail, as the source's log message says.\<close>

lemma setPermission_new:
  "PhysicalNetwork_setPermission e d perm (PhysicalNetwork_new k) =
     ret (0, (PhysicalNetwork_new k)\<lparr>mPermission := perm\<rparr>)"
  by (auto simp: PhysicalNetwork_setPermission_def PhysicalNetwork_new_def on_success_def ok_then_def)

lemma new_network_inv:
  assumes "nc_inv s" and "getNetworkLocked s k = None" and "entry_ok (k, n)" and "getInterfaces n = []"
  shows "nc_inv (mNetworks_update (map_put k n) s)"
proof -
  have "networks_ok (map_put k n (mNetworks s))"
    using assms by (intro networks_ok_put) (simp_all add: nc_inv_def)
  then show ?thesis
    using assms by (auto simp: nc_inv_def default_ok_def getNetworkLocked_def split: option.splits)
qed

lemma createPhysicalNetwork_inv: "keeps nc_inv (createPhysicalNetwork e k perm)"
proof -
  have entry: "entry_ok (k, Physical \<lparr>mNetId = k, mInterfaces = [], mPermission = perm, mIsDefault = False\<rparr>)"
    if "physical_id k" using that by (simp add: entry_ok_def)
  show ?thesis
    unfolding createPhysicalNetwork_def setPermission_new
    by (rule hoareI) (auto simp: isValidNetwork_def physical_id_def [symmetric] PhysicalNetwork_new_def
        split: if_splits intro!: new_network_inv entry)
qed

lemma createVirtualNetwork_inv: "keeps nc_inv (createVirtualNetwork e k hasDns secure)"
proof (rule hoareI)
  fix s r and s' :: "'a nc_scheme"
  assume inv: "nc_inv s" and run: "run_state (createVirtualNetwork e k hasDns secure) s = (r, s')"
  let ?n = "Virtual (VirtualNetwork_new k hasDns secure)"
  obtain q s1 where f: "run_state (modifyFallthroughLocked e k True) s = (q, s1)" by fastforce
  have same: "nc_same s s1" using hoareD [OF keeps_modifyFallthroughLocked [OF rc_free_nc_same] _ f] by simp
  then have inv1: "nc_inv s1" using inv by (simp add: nc_same_def nc_inv_def)
  show "nc_inv s'"
  proof (cases "virtual_id k \<and> getNetworkLocked s k = None \<and> q = 0")
    case True
    then have "entry_ok (k, ?n)" "getNetworkLocked s1 k = None"
      using same by (simp_all add: entry_ok_def VirtualNetwork_new_def wf_ranges_def getNetworkLocked_def nc_same_def)
    with True show ?thesis
      using run f new_network_inv [OF inv1, of k ?n]
      by (simp add: createVirtualNetwork_def virtual_id_def isValidNetwork_def run_ok_then VirtualNetwork_new_def)
  next
    case False
    then show ?thesis
      using run f inv inv1
      by (auto simp: createVirtualNetwork_def virtual_id_def isValidNetwork_def run_ok_then split: if_splits)
  qed
qed

lemma nc_inv_simple:
  "keeps nc_inv (setPermissionForUsers perm uids)" "keeps nc_inv (allowProtect uids)" "keeps nc_inv (denyProtect uids)"
proof -
  have "wf_map m \<Longrightarrow> wf_map (fold (\<lambda>uid. map_put uid perm) uids m)" for m :: "(uid \<times> permission) list"
    by (induction uids arbitrary: m) simp_all
  moreover have "wf_set m \<Longrightarrow> wf_set (fold set_insert uids m)" for m :: "uid list"
    by (induction uids arbitrary: m) (simp_all del: wf_set_insert add: wf_set_insert [simplified])
  moreover have "wf_set m \<Longrightarrow> wf_set (fold set_erase uids m)" for m :: "uid list"
    by (induction uids arbitrary: m) (simp_all del: wf_set_erase add: wf_set_erase [simplified])
  ultimately show "keeps nc_inv (setPermissionForUsers perm uids)" "keeps nc_inv (allowProtect uids)"
      "keeps nc_inv (denyProtect uids)"
    unfolding setPermissionForUsers_def allowProtect_def denyProtect_def
    by (auto simp: hoare_def nc_inv_def)
qed

lemma rc_free_nc_inv [simp]: "rc_free nc_inv"
  by (simp add: rc_free_def hist_free_def nc_inv_def)

lemma modifyRoute_inv: "keeps nc_inv (modifyRoute e k i d nh add legacy uid)"
  unfolding modifyRoute_def Let_def by (intro wp rc_free_nc_inv)

lemma NetworkController_new_inv: "nc_inv (NetworkController_new s)"
  by (simp add: nc_inv_def NetworkController_new_def networks_ok_def entry_ok_def LocalNetwork_new_def
      disjoint_interfaces_def default_ok_def)

lemma map_erase_put [simp]: "map_erase k (map_put k v m) = map_erase k m"
  unfolding map_erase_def by (induction m) auto

lemma default_is_physical:
  assumes "nc_inv s" and "map_of (mNetworks s) k = Some n" and "mDefaultNetId s = k"
  shows "getType n = PHYSICAL"
  using assms id_ok_nonzero [of n] nc_inv_entry [OF assms(1,2)]
  by (cases n) (auto simp: nc_inv_def default_ok_def entry_ok_def)

text \<open>Destroying a network always takes it out of the map, whatever fails on the way.\<close>

lemma destroyNetwork_run:
  assumes inv: "nc_inv s" and n: "map_of (mNetworks s) k = Some n" and k: "k \<noteq> LOCAL_NET_ID"
    and run: "run_state (destroyNetwork e k) s = (r, s')"
  shows "r \<noteq> None" and "mNetworks s' = map_erase k (mNetworks s)"
    and "mDefaultNetId s' = (if mDefaultNetId s = k then NETID_UNSET else mDefaultNetId s)"
    and "mUsers s' = mUsers s" and "mProtectableUsers s' = mProtectableUsers s"
proof -
  obtain q n1 s1 where clear: "run_state (clearInterfaces e (DelegateImpl e) n) s = ((q, n1), s1)"
    by (metis prod.exhaust)
  have s1: "nc_same s s1"
    using clear by (rule nc_same_run) (intro wp rc_free_nc_same)
  have kind: "getType n1 = getType n" using clear_run [OF clear] by (cases n) auto
  let ?s2 = "mNetworks_update (map_put k n1) s1"
  have s2: "mNetworks ?s2 = map_put k n1 (mNetworks s)" "mUsers ?s2 = mUsers s"
      "mProtectableUsers ?s2 = mProtectableUsers s" "mDefaultNetId ?s2 = mDefaultNetId s"
    using s1 by (simp_all add: nc_same_def)
  note run' = run [unfolded destroyNetwork_def getNetworkLocked_def resolv_delete_cache_for_net_def]
  consider (dflt) p where "mDefaultNetId s = k" "n1 = Physical p"
    | (virt) "mDefaultNetId s \<noteq> k" "getType n1 = VIRTUAL" | (other) "mDefaultNetId s \<noteq> k" "getType n1 \<noteq> VIRTUAL"
    using kind default_is_physical [OF inv n] by (cases n1) auto
  then have "r \<noteq> None \<and> mNetworks s' = map_erase k (mNetworks s) \<and>
    mDefaultNetId s' = (if mDefaultNetId s = k then NETID_UNSET else mDefaultNetId s) \<and>
    mUsers s' = mUsers s \<and> mProtectableUsers s' = mProtectableUsers s"
  proof cases
    case (dflt p)
    obtain q2 p2 s3 where rem: "run_state (removeAsDefault e (DelegateImpl e) p) ?s2 = ((q2, p2), s3)"
      by (metis prod.exhaust)
    have "nc_same ?s2 s3" using rem by (rule nc_same_run) (intro wp rc_free_nc_same)
    then show ?thesis using run' n k clear rem dflt s2 by (auto simp: nc_same_def)
  next
    case virt
    obtain q2 s3 where f: "run_state (modifyFallthroughLocked e k False) ?s2 = (q2, s3)" by fastforce
    have "nc_same ?s2 s3" using f by (rule nc_same_run) (intro wp rc_free_nc_same)
    then show ?thesis using run' n k clear f virt s2 by (auto simp: nc_same_def)
  next
    case other
    then show ?thesis using run' n k clear s2 by auto
  qed
  then show "r \<noteq> None" "mNetworks s' = map_erase k (mNetworks s)"
    "mDefaultNetId s' = (if mDefaultNetId s = k then NETID_UNSET else mDefaultNetId s)"
    "mUsers s' = mUsers s" "mProtectableUsers s' = mProtectableUsers s" by simp_all
qed

lemma destroyNetwork_reject:
  "k = LOCAL_NET_ID \<or> map_of (mNetworks s) k = None \<Longrightarrow>
   run_state (destroyNetwork e k) s = (Some (if k = LOCAL_NET_ID then - EINVAL else - ENONET), s)"
  by (auto simp: destroyNetwork_def getNetworkLocked_def)

lemma destroyNetwork_inv: "keeps nc_inv (destroyNetwork e k)"
proof (rule hoareI)
  fix s r and s' :: "'a nc_scheme"
  assume inv: "nc_inv s" and run: "run_state (destroyNetwork e k) s = (r, s')"
  show "nc_inv s'"
  proof (cases "k = LOCAL_NET_ID \<or> map_of (mNetworks s) k = None")
    case True
    from destroyNetwork_reject [OF this, of e] run inv show ?thesis by simp
  next
    case False
    then obtain n where n: "map_of (mNetworks s) k = Some n" and k: "k \<noteq> LOCAL_NET_ID" by blast
    note eqs = destroyNetwork_run [OF inv n k run]
    show ?thesis
      using inv k by (auto simp: nc_inv_def eqs default_ok_def networks_ok_erase)
  qed
qed

text \<open>Switching the default network: first the new network gets the rules, then the old one loses them.\<close>

lemma call_addAsDefault_inv:
  assumes inv: "nc_inv s" and p: "map_of (mNetworks s) k = Some (Physical p)"
    and run: "run_state (call_network k (as_network Physical (addAsDefault e (DelegateImpl e) p))) s = (r, s')"
  shows "nc_inv s'" and "mDefaultNetId s' = mDefaultNetId s" and "r = 0 \<Longrightarrow> default_ok k (mNetworks s')"
proof -
  let ?m = "as_network Physical (addAsDefault e (DelegateImpl e) p)"
  have keeps: "keeps (nc_same s) ?m" by (intro wp rc_free_nc_same)
  show "nc_inv s'"
    by (rule call_network_inv_sub [OF inv p run keeps])
      (use nc_inv_entry [OF inv p] in \<open>auto simp: run_as_network entry_ok_def
        split: prod.splits if_splits dest!: run_addAsDefault\<close>)
  obtain n s1 where n: "run_state ?m s = ((r, n), s1)" "nc_same s s1"
    "s' = s1\<lparr>mNetworks := map_put k n (mNetworks s)\<rparr>"
    using call_network_run [OF run keeps] by blast
  then show "mDefaultNetId s' = mDefaultNetId s" by (simp add: nc_same_def)
  from n show "r = 0 \<Longrightarrow> default_ok k (mNetworks s')"
    by (auto simp: default_ok_def run_as_network split: prod.splits dest!: run_addAsDefault)
qed

lemma call_removeAsDefault_inv:
  assumes inv: "nc_inv s" and p: "map_of (mNetworks s) (mDefaultNetId s) = Some (Physical p)"
    and run: "run_state (call_network (mDefaultNetId s) (as_network Physical (removeAsDefault e (DelegateImpl e) p))) s = (r, s')"
    and k: "k = NETID_UNSET \<or> default_ok k (mNetworks s)" "k \<noteq> mDefaultNetId s"
  shows "r \<noteq> 0 \<Longrightarrow> nc_inv s'" and "r = 0 \<Longrightarrow> nc_inv (s'\<lparr>mDefaultNetId := k\<rparr>)"
proof -
  let ?m = "as_network Physical (removeAsDefault e (DelegateImpl e) p)"
  have keeps: "keeps (nc_same s) ?m" by (intro wp rc_free_nc_same)
  obtain n s1 where n: "run_state ?m s = ((r, n), s1)" "nc_same s s1"
    "s' = s1\<lparr>mNetworks := map_put (mDefaultNetId s) n (mNetworks s)\<rparr>"
    using call_network_run [OF run keeps] by blast
  then have n': "n = Physical (if r = 0 then p\<lparr>mIsDefault := False\<rparr> else p)"
    by (auto simp: run_as_network split: prod.splits dest!: run_removeAsDefault)
  have "networks_ok (map_put (mDefaultNetId s) n (mNetworks s))"
    by (rule networks_ok_update [OF _ p])
      (use inv nc_inv_entry [OF inv p] in \<open>auto simp: nc_inv_def n' entry_ok_def\<close>)
  then show "r \<noteq> 0 \<Longrightarrow> nc_inv s'" "r = 0 \<Longrightarrow> nc_inv (s'\<lparr>mDefaultNetId := k\<rparr>)"
    using inv k n p by (auto simp: nc_inv_def nc_same_def default_ok_def n')
qed

lemma setDefaultNetwork_inv: "keeps nc_inv (setDefaultNetwork e k)"
  unfolding setDefaultNetwork_def
proof (rule hoare_bind [where R = "\<lambda>old s. nc_inv s \<and> mDefaultNetId s = old"])
  fix old
  let ?add = "do { network \<leftarrow> gets (\<lambda>s. getNetworkLocked s k);
      case network of None \<Rightarrow> ret (- ENONET)
      | Some (Physical p) \<Rightarrow> call_network k (as_network Physical (addAsDefault e (DelegateImpl e) p))
      | Some _ \<Rightarrow> ret (- EINVAL) }"
  let ?rem = "do { network \<leftarrow> gets (\<lambda>s. getNetworkLocked s old);
      case network of
        Some (Physical p) \<Rightarrow> call_network old (as_network Physical (removeAsDefault e (DelegateImpl e) p))
      | _ \<Rightarrow> ret (- ESRCH) }"
  have add: "hoare (\<lambda>s. nc_inv s \<and> mDefaultNetId s = old) (if k \<noteq> NETID_UNSET then ?add else ret 0)
      (\<lambda>r s. nc_inv s \<and> mDefaultNetId s = old \<and> (r = 0 \<longrightarrow> k = NETID_UNSET \<or> default_ok k (mNetworks s)))"
    by (rule hoareI) (auto simp: getNetworkLocked_def errno_defs split: if_splits option.splits network.splits
        dest: call_addAsDefault_inv)
  have rem: "hoare (\<lambda>s. nc_inv s \<and> mDefaultNetId s = old \<and> (k = NETID_UNSET \<or> default_ok k (mNetworks s)))
      (if old \<noteq> NETID_UNSET then ?rem else ret 0) (\<lambda>r s. if r = 0 then nc_inv (s\<lparr>mDefaultNetId := k\<rparr>) else nc_inv s)"
    if "k \<noteq> old"
  proof (rule hoareI)
    fix s r s'
    assume pre: "nc_inv s \<and> mDefaultNetId s = old \<and> (k = NETID_UNSET \<or> default_ok k (mNetworks s))"
      and run: "run_state (if old \<noteq> NETID_UNSET then ?rem else ret 0) s = (r, s')"
    show "if r = 0 then nc_inv (s'\<lparr>mDefaultNetId := k\<rparr>) else nc_inv s'"
    proof (cases "old = NETID_UNSET")
      case True
      then show ?thesis using run pre by (auto simp: nc_inv_def default_ok_def)
    next
      case False
      then obtain p where p: "map_of (mNetworks s) (mDefaultNetId s) = Some (Physical p)"
        using pre nc_inv_default [of s] by blast
      have "run_state (call_network (mDefaultNetId s) (as_network Physical (removeAsDefault e (DelegateImpl e) p))) s = (r, s')"
        using run pre p False by (auto simp: getNetworkLocked_def)
      from call_removeAsDefault_inv [OF _ p this, of k] that pre show ?thesis by auto
    qed
  qed
  show "hoare (\<lambda>s. nc_inv s \<and> mDefaultNetId s = old)
     (if k = old then ret 0 else ok_then (if k \<noteq> NETID_UNSET then ?add else ret 0)
        (ok_then (if old \<noteq> NETID_UNSET then ?rem else ret 0)
          (do { modify (mDefaultNetId_update (\<lambda>_. k)); ret 0 }))) (\<lambda>_. nc_inv)"
  proof (rule hoare_if)
    assume "k \<noteq> old"
    have set: "hoare (\<lambda>s. nc_inv (s\<lparr>mDefaultNetId := k\<rparr>)) (do { modify (mDefaultNetId_update (\<lambda>_. k)); ret 0 }) (\<lambda>_. nc_inv)"
      by (simp add: hoare_def)
    have "hoare (\<lambda>s. nc_inv s \<and> mDefaultNetId s = old \<and> (k = NETID_UNSET \<or> default_ok k (mNetworks s)))
      (ok_then (if old \<noteq> NETID_UNSET then ?rem else ret 0) (do { modify (mDefaultNetId_update (\<lambda>_. k)); ret 0 })) (\<lambda>_. nc_inv)"
      by (rule hoare_ok_then [OF rem [OF \<open>k \<noteq> old\<close>]]) (use set in simp_all)
    then show "hoare (\<lambda>s. nc_inv s \<and> mDefaultNetId s = old)
      (ok_then (if k \<noteq> NETID_UNSET then ?add else ret 0) (ok_then (if old \<noteq> NETID_UNSET then ?rem else ret 0)
          (do { modify (mDefaultNetId_update (\<lambda>_. k)); ret 0 }))) (\<lambda>_. nc_inv)"
      by (intro hoare_ok_then [OF add]) simp_all
  qed (simp add: hoare_def)
qed (rule hoare_gets, simp)

section \<open>Access control\<close>

text \<open>The user is confined to a secure VPN and may not leave it.\<close>

definition locked_in_vpn :: "'a nc_scheme \<Rightarrow> uid \<Rightarrow> bool" where
  "locked_in_vpn s uid \<longleftrightarrow>
     (case getVirtualNetworkForUserLocked s uid of None \<Rightarrow> False | Some v \<Rightarrow> mSecure v) \<and>
     uid \<notin> set (mProtectableUsers s)"

definition is_system :: "'a nc_scheme \<Rightarrow> uid \<Rightarrow> bool" where
  "is_system s uid \<longleftrightarrow> allows (getPermissionForUser s uid) PERMISSION_SYSTEM"

lemma find_virtual_Some:
  "find_virtual ns uid = Some v \<Longrightarrow> \<exists>k. (k, Virtual v) \<in> set ns \<and> appliesToUser v uid"
  by (induction ns uid rule: find_virtual.induct) (auto split: if_splits)

lemma find_virtual_None:
  "find_virtual ns uid = None \<longleftrightarrow> (\<forall>k v. (k, Virtual v) \<in> set ns \<longrightarrow> \<not> appliesToUser v uid)"
  by (induction ns uid rule: find_virtual.induct) (auto split: if_splits)

lemma checkUserNetworkAccess_alt:
  "checkUserNetworkAccess s uid k =
     (case map_of (mNetworks s) k of
        None \<Rightarrow> Some (- ENONET)
      | Some n \<Rightarrow>
          if uid = INVALID_UID then Some (- EREMOTEIO)
          else if is_system s uid then Some 0
          else case n of
            Virtual v \<Rightarrow> Some (if appliesToUser v uid then 0 else - EPERM)
          | Physical p \<Rightarrow>
              Some (if locked_in_vpn s uid then - EPERM
                    else if allows (getPermissionForUser s uid) (mPermission p) then 0 else - EACCES)
          | Local l \<Rightarrow> if locked_in_vpn s uid then Some (- EPERM) else None)"
  by (auto simp: checkUserNetworkAccess_def getNetworkLocked_def is_system_def locked_in_vpn_def allows_def Let_def
      split: option.splits network.splits)

definition sample_nc :: nc where
  "sample_nc =
     \<lparr>hist = [], interfaceToTable = [], mDefaultNetId = 100,
      mNetworks = [(99, Local \<lparr>mNetId = 99, mInterfaces = [''lo'']\<rparr>),
                   (100, Physical \<lparr>mNetId = 100, mInterfaces = [''rmnet0'', ''wlan0''],
                                   mPermission = PERMISSION_NONE, mIsDefault = True\<rparr>),
                   (101, Physical \<lparr>mNetId = 101, mInterfaces = [], mPermission = PERMISSION_NETWORK,
                                   mIsDefault = False\<rparr>),
                   (102, Virtual \<lparr>mNetId = 102, mInterfaces = [''tun0''], mHasDns = True, mSecure = True,
                                  mUidRanges = [(10000, 10009)]\<rparr>)],
      mUsers = [], mProtectableUsers = [10003]\<rparr>"

lemma nc_inv_sample: "nc_inv sample_nc"
  by (simp add: nc_inv_def sample_nc_def networks_ok_def entry_ok_def disjoint_interfaces_def default_ok_def
      physical_id_def virtual_id_def net_id_defs wf_ranges_def wf_range_def INVALID_UID_def)

section \<open>Properties\<close>

text \<open>
  C3: A user may use a network exactly when the network exists, the user is known, and either the user
  has the system permission, or the network is a VPN that applies to the user, or it is a physical
  network whose permission the user has and no secure VPN confines the user.
\<close>

theorem access_granted_iff:
  "checkUserNetworkAccess s uid k = Some 0 \<longleftrightarrow>
     uid \<noteq> INVALID_UID \<and>
     (\<exists>n. map_of (mNetworks s) k = Some n \<and>
       (is_system s uid \<or>
        (\<exists>v. n = Virtual v \<and> appliesToUser v uid) \<or>
        (\<exists>p. n = Physical p \<and> \<not> locked_in_vpn s uid \<and>
             allows (getPermissionForUser s uid) (mPermission p))))"
  unfolding checkUserNetworkAccess_alt
  by (auto simp: errno_defs split: option.splits network.splits if_splits)

text \<open>
  C19: The check has no defined result in exactly one situation: an ordinary user who is not confined to
  a secure VPN asks for the local network, whose object is then treated as a physical network. The
  situation is present in the very first state of the daemon.
\<close>

theorem access_undefined_iff:
  "(checkUserNetworkAccess s uid k = None \<longleftrightarrow>
      (\<exists>l. map_of (mNetworks s) k = Some (Local l)) \<and> uid \<noteq> INVALID_UID \<and> \<not> is_system s uid \<and>
      \<not> locked_in_vpn s uid) \<and>
   checkUserNetworkAccess (NetworkController_new s) 10000 LOCAL_NET_ID = None"
  unfolding checkUserNetworkAccess_alt
  by (auto simp: NetworkController_new_def is_system_def locked_in_vpn_def allows_def getPermissionForUser_def
      getVirtualNetworkForUserLocked_def FIRST_APPLICATION_UID_def PERMISSION_SYSTEM_def PERMISSION_NONE_def
      INVALID_UID_def split: option.splits network.splits if_splits)

text \<open>
  C4: Destroying an existing network other than the local one always takes it out of the map and, if it
  was the default network, resets the default, whatever the kernel answers on the way; every other
  network stays as it is, and the call never leaves defined behaviour.
\<close>

theorem destroyNetwork_removes:
  assumes "nc_inv s" and "isValidNetwork s k" and "k \<noteq> LOCAL_NET_ID"
    and "run_state (destroyNetwork e k) s = (r, s')"
  shows "r \<noteq> None \<and> mNetworks s' = map_erase k (mNetworks s) \<and>
         mDefaultNetId s' = (if mDefaultNetId s = k then NETID_UNSET else mDefaultNetId s)"
  using destroyNetwork_run [OF assms(1) _ assms(3,4)] assms(2)
  by (auto simp: isValidNetwork_def getNetworkLocked_def)

theorem destroyNetwork_removes_witness:
  "mNetworks (snd (run_state (destroyNetwork sample_env 100) sample_nc)) = map_erase 100 (mNetworks sample_nc) \<and>
   mDefaultNetId (snd (run_state (destroyNetwork sample_env 100) sample_nc)) = NETID_UNSET"
proof -
  have "isValidNetwork sample_nc 100" "mDefaultNetId sample_nc = 100"
    by (simp_all add: isValidNetwork_def getNetworkLocked_def sample_nc_def)
  then show ?thesis
    using destroyNetwork_removes [OF nc_inv_sample, of 100 sample_env, OF _ _ prod.collapse [symmetric]]
    by (simp add: LOCAL_NET_ID_def)
qed

text \<open>
  Finding a network by interface agrees with the networks' interface sets: the answer is the NetId
  of the one network that has the interface, and 0 exactly when no network has it.
\<close>

theorem getNetworkForInterface_exact:
  assumes "nc_inv s"
  shows "(getNetworkForInterface s i = k \<and> k \<noteq> NETID_UNSET \<longleftrightarrow>
            (\<exists>n. map_of (mNetworks s) k = Some n \<and> i \<in> set (getInterfaces n))) \<and>
         (getNetworkForInterface s i = NETID_UNSET \<longleftrightarrow>
            (\<forall>k n. map_of (mNetworks s) k = Some n \<longrightarrow> i \<notin> set (getInterfaces n)))"
proof -
  have ok: "networks_ok (mNetworks s)" using assms by (simp add: nc_inv_def)
  show ?thesis
    using getNetworkForInterface_iff [OF ok] getNetworkForInterface_has [OF ok refl, of i]
      getNetworkForInterface_unset [OF ok, of i] by blast
qed

theorem getNetworkForInterface_exact_witness:
  "getNetworkForInterface sample_nc ''tun0'' = 102 \<and> getNetworkForInterface sample_nc ''eth0'' = NETID_UNSET"
  using getNetworkForInterface_exact [OF nc_inv_sample, of "''tun0''" 102]
    getNetworkForInterface_exact [OF nc_inv_sample, of "''eth0''" 102]
  by (simp add: sample_nc_def net_id_defs)

lemma interface_lookup_after_add:
  assumes inv: "nc_inv s" and run: "run_state (addInterfaceToNetwork e k i) s = (0, s')"
  shows "getNetworkForInterface s' i = k"
proof -
  obtain n where n: "map_of (mNetworks s) k = Some n"
    and run': "run_state (call_network k (Network_addInterface e (DelegateImpl e) i n)) s = (0, s')"
    using run by (auto simp: addInterfaceToNetwork_def getNetworkLocked_def errno_defs split: option.splits if_splits)
  obtain n' s1 where m: "run_state (Network_addInterface e (DelegateImpl e) i n) s = ((0, n'), s1)"
    and s': "s' = s1\<lparr>mNetworks := map_put k n' (mNetworks s)\<rparr>"
    by (rule call_network_run [OF run']) (intro wp rc_free_nc_same)
  have "networks_ok (mNetworks s')" using hoareD [OF addInterfaceToNetwork_inv inv run] by (simp add: nc_inv_def)
  from getNetworkForInterface_iff [OF this, of i k] net.add_ifs [OF m] show ?thesis by (simp add: s')
qed

lemma interface_lookup_after_remove:
  assumes inv: "nc_inv s" and run: "run_state (removeInterfaceFromNetwork e k i) s = (0, s')"
  shows "getNetworkForInterface s' i \<noteq> k"
proof -
  obtain n where n: "map_of (mNetworks s) k = Some n"
    and run': "run_state (call_network k (Network_removeInterface e (DelegateImpl e) i n)) s = (0, s')"
    using run by (auto simp: removeInterfaceFromNetwork_def getNetworkLocked_def errno_defs split: option.splits)
  obtain n' s1 where m: "run_state (Network_removeInterface e (DelegateImpl e) i n) s = ((0, n'), s1)"
    and s': "s' = s1\<lparr>mNetworks := map_put k n' (mNetworks s)\<rparr>"
    by (rule call_network_run [OF run']) (intro wp rc_free_nc_same)
  have ok: "networks_ok (mNetworks s')" using hoareD [OF removeInterfaceFromNetwork_inv inv run] by (simp add: nc_inv_def)
  have "distinct (getInterfaces n)" using nc_inv_entry [OF inv n] by (cases n) (simp_all add: entry_ok_def)
  moreover have "k \<noteq> NETID_UNSET" using nc_inv_entry [OF inv n] id_ok_nonzero [of n] by (auto simp: entry_ok_def)
  ultimately show ?thesis
    using getNetworkForInterface_iff [OF ok, of i k] net.rem_ifs [OF m] by (simp add: s')
qed

text \<open>
  Insert and look up: an interface that was added with success is found in that network, and one
  that was removed with success is not.
\<close>

theorem interface_lookup:
  assumes "nc_inv s"
  shows "(run_state (addInterfaceToNetwork e k i) s = (0, s') \<longrightarrow> getNetworkForInterface s' i = k) \<and>
         (run_state (removeInterfaceFromNetwork e k i) s = (0, s') \<longrightarrow> getNetworkForInterface s' i \<noteq> k)"
  using interface_lookup_after_add [OF assms] interface_lookup_after_remove [OF assms] by blast

theorem interface_lookup_witness:
  "getNetworkForInterface (snd (run_state (removeInterfaceFromNetwork sample_env 100 ''eth7'') sample_nc)) ''eth7'' \<noteq> 100"
proof -
  have "run_state (removeInterfaceFromNetwork sample_env 100 ''eth7'') sample_nc =
      (0, snd (run_state (removeInterfaceFromNetwork sample_env 100 ''eth7'') sample_nc))"
    by (simp add: removeInterfaceFromNetwork_def getNetworkLocked_def sample_nc_def call_network_def
        PhysicalNetwork_removeInterface_def hasInterface_def as_network_def)
  with interface_lookup [OF nc_inv_sample] show ?thesis by blast
qed

text \<open>
  An interface is never taken over: adding an interface that another network has fails with
  \<^verbatim>\<open>-EBUSY\<close>, and adding to a network that does not exist with \<^verbatim>\<open>-ENONET\<close>, in both cases without any effect
  on the state or the outside world.
\<close>

theorem addInterface_rejected:
  assumes "nc_inv s"
  shows "(map_of (mNetworks s) k = None \<longrightarrow> run_state (addInterfaceToNetwork e k i) s = (- ENONET, s)) \<and>
         (map_of (mNetworks s) k \<noteq> None \<and> k' \<noteq> k \<and>
          (\<exists>n. map_of (mNetworks s) k' = Some n \<and> i \<in> set (getInterfaces n)) \<longrightarrow>
          run_state (addInterfaceToNetwork e k i) s = (- EBUSY, s))"
proof -
  have ok: "networks_ok (mNetworks s)" using assms by (simp add: nc_inv_def)
  show ?thesis
    using getNetworkForInterface_iff [OF ok, of i k']
    by (auto simp: addInterfaceToNetwork_def getNetworkLocked_def)
qed

theorem addInterface_rejected_witness:
  "run_state (addInterfaceToNetwork sample_env 101 ''wlan0'') sample_nc = (- EBUSY, sample_nc) \<and>
   run_state (addInterfaceToNetwork sample_env 200 ''wlan0'') sample_nc = (- ENONET, sample_nc)"
proof -
  have "map_of (mNetworks sample_nc) 200 = None"
    "map_of (mNetworks sample_nc) 101 \<noteq> None"
    "\<exists>n. map_of (mNetworks sample_nc) 100 = Some n \<and> ''wlan0'' \<in> set (getInterfaces n)"
    by (simp_all add: sample_nc_def)
  then show ?thesis
    using addInterface_rejected [OF nc_inv_sample, of 101 sample_env "''wlan0''" 100]
      addInterface_rejected [OF nc_inv_sample, of 200 sample_env "''wlan0''" 100] by simp
qed

lemma call_network_default:
  "run_state (call_network k m) s = (r, s') \<Longrightarrow> keeps (nc_same s) m \<Longrightarrow> mDefaultNetId s' = mDefaultNetId s"
  by (erule (1) call_network_run) (simp add: nc_same_def)

lemma setDefault_stage_default:
  "run_state (call_network k (as_network Physical (addAsDefault e (DelegateImpl e) p))) s = (r, s') \<Longrightarrow>
   mDefaultNetId s' = mDefaultNetId s"
  "run_state (call_network k (as_network Physical (removeAsDefault e (DelegateImpl e) p))) s = (r, s') \<Longrightarrow>
   mDefaultNetId s' = mDefaultNetId s"
  by (erule call_network_default, intro wp rc_free_nc_same)+

text \<open>
  C13: The default network changes only when \<^verbatim>\<open>setDefaultNetwork\<close> reports success, and then to the given
  network; a NetId that does not exist is refused with \<^verbatim>\<open>-ENONET\<close> and a network that is not physical
  with \<^verbatim>\<open>-EINVAL\<close>, without any effect.
\<close>

theorem setDefaultNetwork_result:
  assumes "nc_inv s" and "run_state (setDefaultNetwork e k) s = (r, s')"
  shows "mDefaultNetId s' = (if r = 0 then k else mDefaultNetId s) \<and>
         (k \<noteq> NETID_UNSET \<and> map_of (mNetworks s) k = None \<longrightarrow> r = - ENONET \<and> s' = s) \<and>
         ((\<exists>n. map_of (mNetworks s) k = Some n \<and> getType n \<noteq> PHYSICAL) \<longrightarrow> r = - EINVAL \<and> s' = s)"
proof (intro conjI impI)
  show "mDefaultNetId s' = (if r = 0 then k else mDefaultNetId s)"
    using assms(2) unfolding setDefaultNetwork_def
    by (auto simp: run_ok_then getNetworkLocked_def errno_defs dest!: setDefault_stage_default
        split: if_splits prod.splits option.splits network.splits)
  have old: "\<exists>p. map_of (mNetworks s) (mDefaultNetId s) = Some (Physical p)" if "mDefaultNetId s \<noteq> NETID_UNSET"
    using nc_inv_default [OF assms(1) that] by blast
  assume "k \<noteq> NETID_UNSET \<and> map_of (mNetworks s) k = None"
  with assms(2) old show "r = - ENONET" "s' = s"
    by (auto simp: setDefaultNetwork_def run_ok_then getNetworkLocked_def errno_defs split: if_splits)
next
  have old: "\<exists>p. map_of (mNetworks s) (mDefaultNetId s) = Some (Physical p)" if "mDefaultNetId s \<noteq> NETID_UNSET"
    using nc_inv_default [OF assms(1) that] by blast
  assume "\<exists>n. map_of (mNetworks s) k = Some n \<and> getType n \<noteq> PHYSICAL"
  then obtain n where n: "map_of (mNetworks s) k = Some n" "getType n \<noteq> PHYSICAL" by blast
  then have "k \<noteq> NETID_UNSET" using nc_inv_entry [OF assms(1)] id_ok_nonzero by (fastforce simp: entry_ok_def)
  moreover from this have "k \<noteq> mDefaultNetId s" using old n by auto
  ultimately show "r = - EINVAL" "s' = s"
    using assms(2) n by (cases n; simp add: setDefaultNetwork_def run_ok_then getNetworkLocked_def errno_defs)+
qed

theorem setDefaultNetwork_result_witness:
  "run_state (setDefaultNetwork sample_env 102) sample_nc = (- EINVAL, sample_nc)"
proof -
  obtain r s' where run: "run_state (setDefaultNetwork sample_env 102) sample_nc = (r, s')" by fastforce
  have "\<exists>n. map_of (mNetworks sample_nc) 102 = Some n \<and> getType n \<noteq> PHYSICAL" by (simp add: sample_nc_def)
  with setDefaultNetwork_result [OF nc_inv_sample run] run show ?thesis by simp
qed

lemma nc_inv_id_bound: "nc_inv s \<Longrightarrow> map_of (mNetworks s) k = Some n \<Longrightarrow> k \<le> 65535"
  by (drule (1) nc_inv_entry, cases n)
    (auto simp: entry_ok_def physical_id_def virtual_id_def net_id_defs dest: order_trans [of _ 50 65535])

lemma ucast_u16_u32: "k \<le> 65535 \<Longrightarrow> ucast (ucast (k :: u32) :: u16) = k"
proof -
  assume "k \<le> 65535"
  then have "unat k \<le> 65535" by (simp add: word_le_nat_alt)
  then have "unat (ucast (ucast k :: u16) :: u32) = unat k"
    by (simp add: unsigned_ucast_eq unsigned_take_bit_eq take_bit_nat_eq_self)
  then show ?thesis by (rule unsigned_word_eqI)
qed

lemma getVirtualNetworkForUser_valid:
  "nc_inv s \<Longrightarrow> getVirtualNetworkForUserLocked s uid = Some v \<Longrightarrow> map_of (mNetworks s) (mNetId v) = Some (Virtual v)"
  unfolding getVirtualNetworkForUserLocked_def
  using nc_inv_entry [of s _ "Virtual v"] by (auto simp: nc_inv_def networks_ok_def wf_map_in_set entry_ok_def
      dest!: find_virtual_Some)

lemma getNetworkForDns_spec:
  assumes "nc_inv s" and "getNetworkForDns s n uid = Some (n', m)"
  shows "n' = (if checkUserNetworkAccess s uid n = Some 0 then n
               else case getVirtualNetworkForUserLocked s uid of
                 Some v \<Rightarrow> if mHasDns v then mNetId v else mDefaultNetId s
               | None \<Rightarrow> mDefaultNetId s) \<and>
         (n' = NETID_UNSET \<or> isValidNetwork s n') \<and>
         fwmark_of m = \<lparr>netId = ucast n', explicitlySelected = (checkUserNetworkAccess s uid n = Some 0),
                        protectedFromVpn = True, permission = PERMISSION_SYSTEM, spare = 0\<rparr> \<and>
         ucast (netId (fwmark_of m)) = n'"
proof -
  let ?v = "getVirtualNetworkForUserLocked s uid"
  obtain access where a: "checkUserNetworkAccess s uid n = Some access"
    using assms(2) by (cases "checkUserNetworkAccess s uid n") (simp_all add: getNetworkForDns_def)
  have n': "n' = (if access = 0 then n else case ?v of
      Some v \<Rightarrow> if mHasDns v then mNetId v else mDefaultNetId s | None \<Rightarrow> mDefaultNetId s)"
    and m: "m = intValue \<lparr>netId = ucast n', explicitlySelected = (access = 0),
        protectedFromVpn = True, permission = PERMISSION_SYSTEM, spare = 0\<rparr>"
    using assms(2) a by (auto simp: getNetworkForDns_def Let_def set_netId_def new_Fwmark_def split: option.splits)
  have dflt: "mDefaultNetId s = NETID_UNSET \<or> isValidNetwork s (mDefaultNetId s)"
    using nc_inv_default [OF assms(1)] by (auto simp: isValidNetwork_def getNetworkLocked_def)
  have valid: "n' = NETID_UNSET \<or> isValidNetwork s n'"
  proof (cases "access = 0")
    case True
    then show ?thesis
      using n' a by (auto simp: isValidNetwork_def getNetworkLocked_def checkUserNetworkAccess_def errno_defs split: option.splits)
  next
    case False
    then show ?thesis
      using n' dflt getVirtualNetworkForUser_valid [OF assms(1)]
      by (auto simp: isValidNetwork_def getNetworkLocked_def split: option.splits)
  qed
  then have "n' \<le> 65535"
    using nc_inv_id_bound [OF assms(1)] by (auto simp: isValidNetwork_def getNetworkLocked_def NETID_UNSET_def)
  with n' m a valid show ?thesis by (simp add: ucast_u16_u32)
qed

text \<open>
  C18: The NetId that DNS requests are sent on is the requested one when the user may use it, otherwise
  that of the user's VPN if it has DNS servers, and the default network's in all other cases; it is 0
  or names an existing network, and the mark carries it without truncation, explicitly selected just
  in the first case, protected from VPNs and with the system permission.
\<close>

theorem getNetworkForDns_result:
  assumes "nc_inv s" and "getNetworkForDns s n uid = Some (n', m)"
  shows "n' = (if checkUserNetworkAccess s uid n = Some 0 then n
               else case getVirtualNetworkForUserLocked s uid of
                 Some v \<Rightarrow> if mHasDns v then mNetId v else mDefaultNetId s
               | None \<Rightarrow> mDefaultNetId s) \<and>
         (n' = NETID_UNSET \<or> isValidNetwork s n') \<and>
         fwmark_of m = \<lparr>netId = ucast n', explicitlySelected = (checkUserNetworkAccess s uid n = Some 0),
                        protectedFromVpn = True, permission = PERMISSION_SYSTEM, spare = 0\<rparr> \<and>
         ucast (netId (fwmark_of m)) = n'"
  using assms by (rule getNetworkForDns_spec)

theorem getNetworkForDns_result_witness:
  "\<exists>m. getNetworkForDns sample_nc 100 10001 = Some (102, m) \<and> ucast (netId (fwmark_of m)) = (102 :: u32)"
proof -
  have "\<exists>m. getNetworkForDns sample_nc 100 10001 = Some (102, m)"
    by (simp add: getNetworkForDns_def checkUserNetworkAccess_def getNetworkLocked_def getPermissionForUser_def
        getVirtualNetworkForUserLocked_def appliesToUser_def hasUid_def lower_bound_def sample_nc_def
        FIRST_APPLICATION_UID_def INVALID_UID_def PERMISSION_NONE_def PERMISSION_SYSTEM_def EPERM_def Let_def)
  then obtain m where "getNetworkForDns sample_nc 100 10001 = Some (102, m)" by blast
  with getNetworkForDns_result [OF nc_inv_sample this] show ?thesis by blast
qed

end
