(* ===== verification/NetworkRules.thy ===== *)
theory NetworkRules
  imports NetworkController
begin

text \<open>
  The refinement between \<^verbatim>\<open>NetworkController\<close> and the kernel: as long as every command reports success,
  the rules that the kernel has acknowledged are exactly the rules that the networks, their interfaces,
  permissions, users and the default network call for.
\<close>

section \<open>Specification\<close>

definition vpn_ids :: "(u32 \<times> network) list \<Rightarrow> u32 multiset" where
  "vpn_ids ns = image_mset fst (filter_mset (\<lambda>e. getType (snd e) = VIRTUAL) (mset ns))"

definition expected_rules :: "(string \<Rightarrow> u32) \<Rightarrow> (u32 \<times> network) list \<Rightarrow> fib_rule multiset" where
  "expected_rules idx ns =
     init_rules LOCAL_NET_ID + (\<Sum>e\<in>#mset ns. network_rules idx (vpn_ids ns) (snd e))"

text \<open>The networks that carry default rules are those with a NetId in \<open>D\<close>.\<close>

definition flags_are :: "u32 set \<Rightarrow> (u32 \<times> network) list \<Rightarrow> bool" where
  "flags_are D ns \<longleftrightarrow>
     (\<forall>e\<in>set ns. case snd e of Physical p \<Rightarrow> mIsDefault p = (fst e \<in> D) | _ \<Rightarrow> True)"

definition rules_match :: "(string \<Rightarrow> u32) \<Rightarrow> 'a nc_scheme \<Rightarrow> bool" where
  "rules_match idx s \<longleftrightarrow> tables_ok idx s \<and> rules_of (hist s) = expected_rules idx (mNetworks s)"

definition in_sync :: "(string \<Rightarrow> u32) \<Rightarrow> 'a nc_scheme \<Rightarrow> bool" where
  "in_sync idx s \<longleftrightarrow> nc_inv s \<and> rules_match idx s \<and> flags_are {mDefaultNetId s} (mNetworks s)"

text \<open>The fallthrough rules that a virtual network needs on the interfaces of one network.\<close>

fun fall_one :: "(string \<Rightarrow> u32) \<Rightarrow> u32 \<Rightarrow> network \<Rightarrow> fib_rule multiset" where
  "fall_one idx k (Physical p) =
     (if mIsDefault p then \<Sum>i\<in>#mset (mInterfaces p). fallthrough_rules k (table_of idx i) (mPermission p) else {#})"
| "fall_one idx k _ = {#}"

section \<open>The delegate implements its contract\<close>

lemma fold_virtual:
  "fold (\<lambda>entry. if getType (snd entry) = VIRTUAL then rules_upd add (F (fst entry)) else id) ns =
   rules_upd add (\<Sum>v\<in>#vpn_ids ns. F v)"
proof (induction ns)
  case (Cons a ns)
  then show ?case by (auto simp: vpn_ids_def fun_eq_iff)
qed (simp add: vpn_ids_def)

lemma effect_modifyFallthrough:
  assumes "stable_index e idx" and "rc_free J"
  shows "effect_in J idx (rules_upd add (fallthrough_rules k (table_of idx i) p)) (modifyFallthrough e k i p add)"
proof -
  have "effect_in J idx (rules_add (fallthrough_rules k (table_of idx i) p)) (addVirtualNetworkFallthrough e k i p)"
    "effect_in J idx (rules_del (fallthrough_rules k (table_of idx i) p)) (removeVirtualNetworkFallthrough e k i p)"
    by (intro effect_frame effects wp assms)+
  from this [THEN effect_in_ok_then, OF effect_in_ret_0] show ?thesis
    by (cases add) (simp_all add: modifyFallthrough_def rules_upd_True rules_upd_False)
qed

lemma effect_modifyFallthrough_all:
  fixes ns :: "(u32 \<times> network) list"
  assumes "stable_index e idx"
  shows "effect_in (\<lambda>s :: 'a nc_scheme. mNetworks s = ns) idx (rules_upd add (fall_rules idx (vpn_ids ns) i p))
           (modifyFallthrough_all e i p add)"
proof -
  let ?J = "\<lambda>s :: 'a nc_scheme. mNetworks s = ns"
  have free: "rc_free ?J" by (simp add: rc_free_def hist_free_def)
  let ?m = "\<lambda>entry. if getType (snd entry) = VIRTUAL then modifyFallthrough e (fst entry) i p add else ret 0"
  have "effect_in ?J idx
      (fold (\<lambda>entry. if getType (snd entry) = VIRTUAL
         then rules_upd add (fallthrough_rules (fst entry) (table_of idx i) p) else id) ns) (for_ok ?m ns)"
    by (rule effect_in_for_ok) (simp add: effect_in_ret_0 effect_modifyFallthrough assms free)
  then have "effect_in ?J idx (rules_upd add (fall_rules idx (vpn_ids ns) i p)) (for_ok ?m ns)"
    by (simp only: fold_virtual [of add "\<lambda>v. fallthrough_rules v (table_of idx i) p"] fall_rules_def)
  then show ?thesis
    unfolding effect_in_def hoare_def modifyFallthrough_all_def by auto
qed

interpretation fallthrough: fallthrough_delegate e "\<lambda>s. mNetworks s = ns" "vpn_ids ns" "DelegateImpl e"
  for e and ns :: "(u32 \<times> network) list"
proof
  show "rc_free (\<lambda>s. mNetworks s = ns)" by (simp add: rc_free_def hist_free_def)
next
  fix idx i p assume "stable_index e idx"
  from effect_modifyFallthrough_all [OF this]
  show "effect_in (\<lambda>s. mNetworks s = ns) idx (rules_add (fall_rules idx (vpn_ids ns) i p))
      (addFallthrough_op (DelegateImpl e) i p)"
    and "effect_in (\<lambda>s. mNetworks s = ns) idx (rules_del (fall_rules idx (vpn_ids ns) i p))
      (removeFallthrough_op (DelegateImpl e) i p)"
    by (simp_all add: DelegateImpl_def flip: rules_upd_True rules_upd_False)
qed

section \<open>Commands\<close>

lemma vpn_ids_put:
  assumes "wf_map ns" and "map_of ns k = Some n" and "getType n' = getType n"
  shows "vpn_ids (map_put k n' ns) = vpn_ids ns"
proof -
  have "(k, n) \<in># mset ns" using map_of_SomeD [OF assms(2)] by simp
  then obtain A where A: "mset ns = add_mset (k, n) A" by (metis insert_DiffM)
  then have "mset (map_put k n' ns) = add_mset (k, n') A"
    using mset_map_put [OF assms(1,2), of n'] by simp
  with A assms(3) show ?thesis by (simp add: vpn_ids_def)
qed

text \<open>Replacing one network's rules, as a context around them.\<close>

lemma expected_rules_split:
  assumes "wf_map ns" and "map_of ns k = Some n"
  obtains X where "expected_rules idx ns = X + network_rules idx (vpn_ids ns) n"
    and "\<And>n'. getType n' = getType n \<Longrightarrow>
      expected_rules idx (map_put k n' ns) = X + network_rules idx (vpn_ids ns) n'"
proof -
  have "(k, n) \<in># mset ns" using map_of_SomeD [OF assms(2)] by simp
  then obtain A where A: "mset ns = add_mset (k, n) A" by (metis insert_DiffM)
  then have put: "mset (map_put k n' ns) = add_mset (k, n') A" for n'
    using mset_map_put [OF assms, of n'] by simp
  let ?X = "init_rules LOCAL_NET_ID + (\<Sum>e\<in>#A. network_rules idx (vpn_ids ns) (snd e))"
  show thesis
    by (rule that [of ?X])
      (simp_all add: expected_rules_def A put vpn_ids_put [OF assms] add_ac)
qed

lemma call_network_match:
  assumes inv: "nc_inv s" and match: "rules_match idx s" and k: "map_of (mNetworks s) k = Some n"
    and run: "run_state (call_network k m) s = (0, s')" and keeps: "keeps (nc_same s) m"
    and ref: "net_refines (\<lambda>t. mNetworks t = mNetworks s) idx (vpn_ids (mNetworks s)) n m"
    and kind: "\<And>n' s1. run_state m s = ((0, n'), s1) \<Longrightarrow> getType n' = getType n"
  shows "rules_match idx s'"
proof -
  obtain n' s1 where m: "run_state m s = ((0, n'), s1)" and same: "nc_same s s1"
    and s': "s' = s1\<lparr>mNetworks := map_put k n' (mNetworks s)\<rparr>"
    using call_network_run [OF run keeps] by blast
  have "wf_map (mNetworks s)" using inv by (simp add: nc_inv_def networks_ok_def)
  then obtain X where X: "expected_rules idx (mNetworks s) = X + network_rules idx (vpn_ids (mNetworks s)) n"
    and put: "\<And>n'. getType n' = getType n \<Longrightarrow>
      expected_rules idx (map_put k n' (mNetworks s)) = X + network_rules idx (vpn_ids (mNetworks s)) n'"
    by (rule expected_rules_split [OF _ k]) blast
  have "tr idx (X + network_rules idx (vpn_ids (mNetworks s)) n) s"
    using match X by (simp add: rules_match_def tr_def)
  then have "tables_ok idx s1 \<and> rules_of (hist s1) = X + network_rules idx (vpn_ids (mNetworks s)) n'"
    using ref m unfolding net_refines_def by (fastforce dest: hoareD)
  then show ?thesis
    unfolding s' rules_match_def using put [OF kind [OF m]] by (simp add: tables_ok_def)
qed

lemma nc_inv_wf: "nc_inv s \<Longrightarrow> map_of (mNetworks s) k = Some n \<Longrightarrow> wf_network n"
  by (drule (1) nc_inv_entry) (simp add: entry_ok_def)

lemma upd_interfaces_type [simp]: "getType (upd_interfaces f n) = getType n"
  by (cases n) simp_all

text \<open>The flags of the default networks after one object is replaced.\<close>

lemma flags_are_put:
  assumes "wf_map ns" and "flags_are D ns"
    and "case n' of Physical p \<Rightarrow> mIsDefault p = (k \<in> D') | _ \<Rightarrow> True"
    and "\<And>k'. k' \<noteq> k \<Longrightarrow> k' \<in> D' \<longleftrightarrow> k' \<in> D"
  shows "flags_are D' (map_put k n' ns)"
  using assms unfolding flags_are_def set_map_put [OF assms(1)] by (auto split: network.splits)

lemma call_network_flags:
  assumes "nc_inv s" and "flags_are D (mNetworks s)"
    and run: "run_state (call_network k m) s = (r, s')" and keeps: "keeps (nc_same s) m"
    and step: "\<And>n' s1. run_state m s = ((r, n'), s1) \<Longrightarrow> case n' of Physical p \<Rightarrow> mIsDefault p = (k \<in> D') | _ \<Rightarrow> True"
    and "\<And>k'. k' \<noteq> k \<Longrightarrow> k' \<in> D' \<longleftrightarrow> k' \<in> D"
  shows "flags_are D' (mNetworks s')" and "mDefaultNetId s' = mDefaultNetId s"
proof -
  obtain n' s1 where m: "run_state m s = ((r, n'), s1)" and same: "nc_same s s1"
    and s': "s' = s1\<lparr>mNetworks := map_put k n' (mNetworks s)\<rparr>"
    using call_network_run [OF run keeps] by blast
  show "mDefaultNetId s' = mDefaultNetId s" using same s' by (simp add: nc_same_def)
  show "flags_are D' (mNetworks s')"
    unfolding s' using assms step [OF m] by (auto intro!: flags_are_put simp: nc_inv_def networks_ok_def)
qed

lemma flags_are_at:
  "flags_are D ns \<Longrightarrow> map_of ns k = Some (Physical p) \<Longrightarrow> mIsDefault p = (k \<in> D)"
  unfolding flags_are_def by (drule map_of_SomeD) fastforce

text \<open>One object is replaced, its kind and default flag are kept: the state stays in sync.\<close>

lemma call_network_sync:
  assumes sync: "in_sync idx s" and k: "map_of (mNetworks s) k = Some n"
    and run: "run_state (call_network k m) s = (0, s')" and keeps: "keeps (nc_same s) m"
    and ref: "net_refines (\<lambda>t. mNetworks t = mNetworks s) idx (vpn_ids (mNetworks s)) n m"
    and inv: "nc_inv s'"
    and step: "\<And>n' s1. run_state m s = ((0, n'), s1) \<Longrightarrow>
      getType n' = getType n \<and> (\<forall>p p'. n = Physical p \<longrightarrow> n' = Physical p' \<longrightarrow> mIsDefault p' = mIsDefault p)"
  shows "in_sync idx s'"
proof -
  have inv0: "nc_inv s" and match: "rules_match idx s" and flags: "flags_are {mDefaultNetId s} (mNetworks s)"
    using sync by (simp_all add: in_sync_def)
  have "case n' of Physical p \<Rightarrow> mIsDefault p = (k \<in> {mDefaultNetId s}) | _ \<Rightarrow> True"
    if m: "run_state m s = ((0, n'), s1)" for n' s1
  proof (cases n')
    case (Physical p')
    then obtain p where p: "n = Physical p" using step [OF m] by (cases n) simp_all
    then show ?thesis
      using Physical step [OF m] flags_are_at [OF flags, of k p] k by simp
  qed simp_all
  note f = call_network_flags [OF inv0 flags run keeps, OF this]
  show ?thesis
    unfolding in_sync_def
    using inv call_network_match [OF inv0 match k run keeps ref] step f by simp
qed

lemma addInterfaceToNetwork_sync:
  assumes env: "stable_index e idx" and sync: "in_sync idx s"
    and run: "run_state (addInterfaceToNetwork e k i) s = (0, s')"
  shows "in_sync idx s'"
proof -
  have inv: "nc_inv s" using sync by (simp add: in_sync_def)
  note inv' = hoareD [OF addInterfaceToNetwork_inv inv run]
  obtain n where n: "map_of (mNetworks s) k = Some n"
    and run': "run_state (call_network k (Network_addInterface e (DelegateImpl e) i n)) s = (0, s')"
    using run by (auto simp: addInterfaceToNetwork_def getNetworkLocked_def errno_defs split: option.splits if_splits)
  show ?thesis
    by (rule call_network_sync [OF sync n run' _ fallthrough.add_refines [OF env nc_inv_wf [OF inv n]] inv'],
        intro wp rc_free_nc_same, drule net.add_run) (auto elim: upd_interfaces.elims)
qed

lemma removeInterfaceFromNetwork_sync:
  assumes env: "stable_index e idx" and sync: "in_sync idx s"
    and run: "run_state (removeInterfaceFromNetwork e k i) s = (0, s')"
  shows "in_sync idx s'"
proof -
  have inv: "nc_inv s" using sync by (simp add: in_sync_def)
  note inv' = hoareD [OF removeInterfaceFromNetwork_inv inv run]
  obtain n where n: "map_of (mNetworks s) k = Some n"
    and run': "run_state (call_network k (Network_removeInterface e (DelegateImpl e) i n)) s = (0, s')"
    using run by (auto simp: removeInterfaceFromNetwork_def getNetworkLocked_def errno_defs split: option.splits)
  show ?thesis
    by (rule call_network_sync [OF sync n run' _ fallthrough.remove_refines [OF env nc_inv_wf [OF inv n]] inv'],
        intro wp rc_free_nc_same, drule net.rem_run) (auto elim: upd_interfaces.elims)
qed

lemma for_ok_success:
  assumes "\<And>x. hoare P (f x) (\<lambda>r s. r = 0 \<longrightarrow> P s)"
  shows "hoare P (for_ok f xs) (\<lambda>r s. r = 0 \<longrightarrow> P s)"
proof (induction xs)
  case (Cons x xs)
  then show ?case using assms [of x] by (auto intro!: hoare_ok_then elim: hoare_pre)
qed (simp add: hoare_def)

lemma setPermissionForNetworks_sync:
  assumes env: "stable_index e idx" and sync: "in_sync idx s"
    and run: "run_state (setPermissionForNetworks e perm ks) s = (0, s')"
  shows "in_sync idx s'"
proof -
  let ?m = "\<lambda>k. do {
       found \<leftarrow> gets (\<lambda>s. getNetworkLocked s k);
       case found of
         None \<Rightarrow> ret (- ENONET)
       | Some (Physical p) \<Rightarrow>
           call_network k (as_network Physical (PhysicalNetwork_setPermission e (DelegateImpl e) perm p))
       | Some _ \<Rightarrow> ret (- EINVAL) }"
  have "hoare (in_sync idx) (?m k) (\<lambda>r s. r = 0 \<longrightarrow> in_sync idx s)" for k
  proof (rule hoareI, rule impI)
    fix s r s'
    assume sync: "in_sync idx s" and run: "run_state (?m k) s = (r, s')" and [simp]: "r = 0"
    have inv: "nc_inv s" using sync by (simp add: in_sync_def)
    note inv' = hoareD [OF setPermission_step_inv inv run]
    obtain p where p: "map_of (mNetworks s) k = Some (Physical p)"
      and run': "run_state (call_network k (as_network Physical
          (PhysicalNetwork_setPermission e (DelegateImpl e) perm p))) s = (0, s')"
      using run by (auto simp: getNetworkLocked_def errno_defs split: option.splits network.splits)
    show "in_sync idx s'"
      by (rule call_network_sync [OF sync p run' _ fallthrough.setPermission_refines [OF env] inv'],
          intro wp rc_free_nc_same)
        (auto simp: run_as_network split: prod.splits dest!: run_setPermission)
  qed
  from hoareD [OF for_ok_success [OF this] sync run [unfolded setPermissionForNetworks_def]]
  show ?thesis by simp
qed

lemma addUsersToNetwork_sync:
  assumes env: "stable_index e idx" and sync: "in_sync idx s" and rs: "wf_ranges rs"
    and run: "run_state (addUsersToNetwork e k rs) s = (0, s')"
  shows "in_sync idx s'"
proof -
  have inv: "nc_inv s" using sync by (simp add: in_sync_def)
  note inv' = hoareD [OF addUsersToNetwork_inv [OF rs] inv run]
  obtain v where v: "map_of (mNetworks s) k = Some (Virtual v)"
    and run': "run_state (call_network k (as_network Virtual (addUsers e rs v))) s = (0, s')"
    using run by (auto simp: addUsersToNetwork_def getNetworkLocked_def errno_defs split: option.splits network.splits)
  show ?thesis
    by (rule call_network_sync [OF sync v run' _ addUsers_refines [OF env fallthrough.J_free rs] inv'],
        intro wp rc_free_nc_same) (auto simp: run_as_network split: prod.splits)
qed

lemma removeUsersFromNetwork_sync:
  assumes env: "stable_index e idx" and sync: "in_sync idx s" and rs: "wf_ranges rs"
    and sub: "\<And>v. map_of (mNetworks s) k = Some (Virtual v) \<Longrightarrow> mset rs \<subseteq># mset (mUidRanges v)"
    and run: "run_state (removeUsersFromNetwork e k rs) s = (0, s')"
  shows "in_sync idx s'"
proof -
  have inv: "nc_inv s" using sync by (simp add: in_sync_def)
  note inv' = hoareD [OF removeUsersFromNetwork_inv [OF rs] inv run]
  obtain v where v: "map_of (mNetworks s) k = Some (Virtual v)"
    and run': "run_state (call_network k (as_network Virtual (removeUsers e rs v))) s = (0, s')"
    using run by (auto simp: removeUsersFromNetwork_def getNetworkLocked_def errno_defs split: option.splits network.splits)
  show ?thesis
    by (rule call_network_sync [OF sync v run' _
          removeUsers_refines [OF env fallthrough.J_free rs nc_inv_wf [OF inv v] sub [OF v]] inv'],
        intro wp rc_free_nc_same) (auto simp: run_as_network split: prod.splits)
qed

text \<open>Routes, permissions of users and protectable users do not matter to the rules.\<close>

lemma in_sync_tr:
  "in_sync idx s \<longleftrightarrow> nc_inv s \<and> tr idx (expected_rules idx (mNetworks s)) s \<and> flags_are {mDefaultNetId s} (mNetworks s)"
  by (auto simp: in_sync_def rules_match_def tr_def)

lemma quiet_sync:
  assumes "in_sync idx s" and "run_state m s = (r, s')" and "keeps (nc_same s) m"
    and "\<And>M. keeps (tr idx M) m"
  shows "in_sync idx s'"
proof -
  have "nc_same s s'" using assms(2,3) by (rule nc_same_run)
  moreover have "tr idx (expected_rules idx (mNetworks s)) s'"
    using hoareD [OF assms(4) _ assms(2)] assms(1) by (auto simp: in_sync_tr)
  ultimately show ?thesis using assms(1) by (auto simp: in_sync_tr nc_same_def nc_inv_def)
qed

lemma modifyRoute_sync:
  assumes "stable_index e idx" and "in_sync idx s"
    and "run_state (modifyRoute e k i d nh add legacy uid) s = (r, s')"
  shows "in_sync idx s'"
  using assms(2,3)
  by (rule quiet_sync) (unfold modifyRoute_def Let_def, intro wp rc_free_nc_same, intro wp_basic tr_wp assms)

lemma simple_commands_sync:
  "in_sync idx s \<Longrightarrow> run_state (setPermissionForUsers perm uids) s = (u, s') \<Longrightarrow> in_sync idx s'"
  "in_sync idx s \<Longrightarrow> run_state (allowProtect uids) s = (u, s') \<Longrightarrow> in_sync idx s'"
  "in_sync idx s \<Longrightarrow> run_state (denyProtect uids) s = (u, s') \<Longrightarrow> in_sync idx s'"
  using nc_inv_simple(1) [of perm uids] nc_inv_simple(2,3) [of uids]
  by (auto simp: hoare_def in_sync_def rules_match_def tables_ok_def setPermissionForUsers_def allowProtect_def
      denyProtect_def)

lemma new_network_sync:
  assumes "in_sync idx s" and "getNetworkLocked s k = None" and "entry_ok (k, n)" and "getInterfaces n = []"
    and "getType n = PHYSICAL" and "case n of Physical p \<Rightarrow> \<not> mIsDefault p | _ \<Rightarrow> True"
  shows "in_sync idx (mNetworks_update (map_put k n) s)"
proof -
  have inv: "nc_inv s" using assms by (simp add: in_sync_def)
  have k: "map_of (mNetworks s) k = None" using assms by (simp add: getNetworkLocked_def)
  then have m: "mset (map_put k n (mNetworks s)) = add_mset (k, n) (mset (mNetworks s))"
    by (rule mset_map_put_new)
  have "k \<noteq> NETID_UNSET" using id_ok_nonzero [of n] assms by (auto simp: entry_ok_def)
  then have "k \<noteq> mDefaultNetId s" using inv k by (auto simp: nc_inv_def default_ok_def)
  then have "flags_are {mDefaultNetId s} (map_put k n (mNetworks s))"
    using assms inv by (intro flags_are_put [of _ "{mDefaultNetId s}"])
      (auto simp: in_sync_def nc_inv_def networks_ok_def split: network.splits)
  moreover have "expected_rules idx (map_put k n (mNetworks s)) = expected_rules idx (mNetworks s)"
    using assms m by (simp add: expected_rules_def vpn_ids_def network_rules_def)
  ultimately show ?thesis
    using assms new_network_inv [OF inv assms(2,3,4)]
    by (simp add: in_sync_def rules_match_def tables_ok_def)
qed

lemma createPhysicalNetwork_sync:
  assumes "in_sync idx s" and "run_state (createPhysicalNetwork e k perm) s = (0, s')"
  shows "in_sync idx s'"
proof -
  let ?n = "Physical ((PhysicalNetwork_new k)\<lparr>mPermission := perm\<rparr>)"
  have "physical_id k" "getNetworkLocked s k = None" "s' = mNetworks_update (map_put k ?n) s"
    using assms(2) unfolding createPhysicalNetwork_def setPermission_new
    by (auto simp: physical_id_def isValidNetwork_def errno_defs split: if_splits)
  then show ?thesis
    using new_network_sync [OF assms(1), of k ?n] by (simp add: entry_ok_def PhysicalNetwork_new_def)
qed

subsection \<open>Virtual networks and their fallthrough rules\<close>

lemma network_rules_add_vpn: "network_rules idx (add_mset k V) n = network_rules idx V n + fall_one idx k n"
  by (cases n) (simp_all add: network_rules_def def_rules_def fall_rules_def sum_mset.distrib add_ac)

lemma fall_one_unflagged:
  "flags_are {d} ns \<Longrightarrow> e \<in> set ns \<Longrightarrow> fst e \<noteq> d \<Longrightarrow> fall_one idx k (snd e) = {#}"
  unfolding flags_are_def by (cases "snd e") fastforce+

text \<open>Only the default network contributes to the fallthrough rules.\<close>

lemma fall_sum:
  assumes "wf_map ns" and "flags_are {d} ns"
  shows "(\<Sum>e\<in>#mset ns. fall_one idx k (snd e)) =
         (case map_of ns d of Some n \<Rightarrow> fall_one idx k n | None \<Rightarrow> {#})"
proof -
  have zero: "(\<Sum>e\<in>#mset (map_erase d ns). fall_one idx k (snd e)) = {#}"
    using fall_one_unflagged [OF assms(2)] by (simp add: sum_mset.neutral)
  show ?thesis
  proof (cases "map_of ns d")
    case None
    then have "map_erase d ns = ns"
      unfolding map_erase_def by (auto simp: filter_id_conv map_of_eq_None_iff)
    with zero None show ?thesis by simp
  next
    case (Some n)
    then have "mset ns = add_mset (d, n) (mset (map_erase d ns))"
      using mset_map_erase [OF assms(1) Some] map_of_SomeD [OF Some] by simp
    with zero Some show ?thesis by simp
  qed
qed

lemma effect_modifyFallthroughLocked:
  assumes env: "stable_index e idx" and inv: "nc_inv s0" and flags: "flags_are {mDefaultNetId s0} (mNetworks s0)"
  shows "effect_in (nc_same s0) idx (rules_upd add (\<Sum>e\<in>#mset (mNetworks s0). fall_one idx k (snd e)))
           (modifyFallthroughLocked e k add)"
proof (cases "mDefaultNetId s0 = NETID_UNSET")
  case True
  have "map_of (mNetworks s0) NETID_UNSET = None"
    using nc_inv_entry [OF inv, of NETID_UNSET] id_ok_nonzero
    by (cases "map_of (mNetworks s0) NETID_UNSET") (auto simp: entry_ok_def)
  then have "(\<Sum>e\<in>#mset (mNetworks s0). fall_one idx k (snd e)) = {#}"
    using fall_sum [OF _ flags, of idx k] inv True by (simp add: nc_inv_def networks_ok_def)
  then have sum: "rules_upd add (\<Sum>e\<in>#mset (mNetworks s0). fall_one idx k (snd e)) = id" by (simp only: rules_upd_simps)
  show ?thesis
    unfolding sum using True by (auto simp: effect_in_def hoare_def modifyFallthroughLocked_def nc_same_def tr_def)
next
  case False
  then obtain p where p: "map_of (mNetworks s0) (mDefaultNetId s0) = Some (Physical p)" "mIsDefault p"
    using inv nc_inv_default by blast
  then have sum: "(\<Sum>e\<in>#mset (mNetworks s0). fall_one idx k (snd e)) =
      (\<Sum>i\<in>#mset (mInterfaces p). fallthrough_rules k (table_of idx i) (mPermission p))"
    using fall_sum [OF _ flags, of idx k] inv by (simp add: nc_inv_def networks_ok_def)
  have "effect_in (nc_same s0) idx
      (fold (\<lambda>i. rules_upd add (fallthrough_rules k (table_of idx i) (mPermission p))) (mInterfaces p))
      (for_ok (\<lambda>i. modifyFallthrough e k i (mPermission p) add) (mInterfaces p))"
    by (intro effect_in_for_ok effect_modifyFallthrough env rc_free_nc_same)
  moreover have "fold (\<lambda>i. rules_upd add (fallthrough_rules k (table_of idx i) (mPermission p))) (mInterfaces p) =
      rules_upd add (\<Sum>e\<in>#mset (mNetworks s0). fall_one idx k (snd e))"
    unfolding sum by (cases add) (simp_all add: fun_eq_iff rules_upd_def fold_rules_add fold_rules_del
        rules_add_def [of "sum_mset _"] rules_del_def [of "sum_mset _"])
  ultimately show ?thesis
    using False p unfolding effect_in_def hoare_def modifyFallthroughLocked_def
    by (auto simp: nc_same_def getNetworkLocked_def)
qed

lemma createVirtualNetwork_sync:
  assumes env: "stable_index e idx" and sync: "in_sync idx s"
    and run: "run_state (createVirtualNetwork e k hasDns secure) s = (0, s')"
  shows "in_sync idx s'"
proof -
  let ?n = "Virtual (VirtualNetwork_new k hasDns secure)"
  have inv: "nc_inv s" and flags: "flags_are {mDefaultNetId s} (mNetworks s)" and match: "rules_match idx s"
    using sync by (simp_all add: in_sync_def)
  have inv': "nc_inv s'" by (rule hoareD [OF createVirtualNetwork_inv inv run])
  obtain s1 where f: "run_state (modifyFallthroughLocked e k True) s = (0, s1)"
    and k: "map_of (mNetworks s) k = None" and s': "s' = mNetworks_update (map_put k ?n) s1"
    using run by (auto simp: createVirtualNetwork_def isValidNetwork_def getNetworkLocked_def run_ok_then errno_defs
        split: if_splits prod.splits)
  let ?F = "\<Sum>e\<in>#mset (mNetworks s). fall_one idx k (snd e)"
  have s1: "nc_same s s1" "tables_ok idx s1" "rules_of (hist s1) = expected_rules idx (mNetworks s) + ?F"
    using effect_inD [OF effect_modifyFallthroughLocked [OF env inv flags] _ _ f] match
    by (auto simp: rules_match_def tr_def rules_upd_def rules_add_def)
  have m: "mset (map_put k ?n (mNetworks s)) = add_mset (k, ?n) (mset (mNetworks s))"
    using k by (rule mset_map_put_new)
  then have V: "vpn_ids (map_put k ?n (mNetworks s)) = add_mset k (vpn_ids (mNetworks s))"
    by (simp add: vpn_ids_def)
  have "network_rules idx W ?n = {#}" for W by (simp add: network_rules_def VirtualNetwork_new_def)
  then have "expected_rules idx (map_put k ?n (mNetworks s)) = expected_rules idx (mNetworks s) + ?F"
    by (simp add: expected_rules_def m V network_rules_add_vpn sum_mset.distrib add_ac)
  moreover have "flags_are {mDefaultNetId s} (map_put k ?n (mNetworks s))"
    using inv flags by (intro flags_are_put) (auto simp: nc_inv_def networks_ok_def)
  ultimately show ?thesis
    using s1 inv' by (simp add: in_sync_def rules_match_def s' tables_ok_def nc_same_def)
qed

subsection \<open>Destroying a network\<close>

lemma removeAsDefault_empty:
  "mInterfaces p = [] \<Longrightarrow> removeAsDefault e d p = ret (0, p\<lparr>mIsDefault := False\<rparr>)"
  by (cases p) (auto simp: removeAsDefault_def on_success_def)

lemma network_rules_empty: "getInterfaces n = [] \<Longrightarrow> network_rules idx V n = {#}"
  by (simp add: network_rules_def)

text \<open>Taking an empty network that is not virtual out of the map does not change what is expected.\<close>

lemma expected_rules_erase:
  assumes "wf_map ns" and "map_of ns k = Some n" and "getInterfaces n = []"
  shows "getType n \<noteq> VIRTUAL \<Longrightarrow> expected_rules idx (map_erase k ns) = expected_rules idx ns"
    and "getType n = VIRTUAL \<Longrightarrow>
      expected_rules idx ns = expected_rules idx (map_erase k ns) + (\<Sum>e\<in>#mset ns. fall_one idx k (snd e))"
proof -
  have ns: "mset ns = add_mset (k, n) (mset (map_erase k ns))"
    using mset_map_erase [OF assms(1,2)] map_of_SomeD [OF assms(2)] by simp
  show "getType n \<noteq> VIRTUAL \<Longrightarrow> expected_rules idx (map_erase k ns) = expected_rules idx ns"
    by (simp add: expected_rules_def ns vpn_ids_def network_rules_empty [OF assms(3)])
  assume type: "getType n = VIRTUAL"
  then have V: "vpn_ids ns = add_mset k (vpn_ids (map_erase k ns))" by (simp add: vpn_ids_def ns)
  have "fall_one idx k n = {#}" using type by (cases n) simp_all
  then show "expected_rules idx ns = expected_rules idx (map_erase k ns) + (\<Sum>e\<in>#mset ns. fall_one idx k (snd e))"
    unfolding expected_rules_def V
    by (simp add: ns network_rules_add_vpn sum_mset.distrib network_rules_empty [OF assms(3)] add_ac)
qed

lemma flags_are_erase:
  "flags_are D ns \<Longrightarrow> flags_are D (map_erase k ns)"
  by (auto simp: flags_are_def)

text \<open>Emptying a network first, as \<^verbatim>\<open>destroyNetwork\<close> does.\<close>

lemma clear_sync:
  assumes env: "stable_index e idx" and sync: "in_sync idx s" and n: "map_of (mNetworks s) k = Some n"
    and clear: "run_state (clearInterfaces e (DelegateImpl e) n) s = ((0, n1), s1)"
  shows "in_sync idx (mNetworks_update (map_put k n1) s1)" and "nc_same s s1"
    and "getInterfaces n1 = []" and "getType n1 = getType n"
proof -
  have inv: "nc_inv s" using sync by (simp add: in_sync_def)
  let ?m = "clearInterfaces e (DelegateImpl e) n"
  have keeps: "keeps (nc_same s) ?m" by (intro wp rc_free_nc_same)
  show same: "nc_same s s1" using clear keeps by (rule nc_same_run)
  obtain j where j: "n1 = upd_interfaces (drop j) n" "getInterfaces n1 = []" using clear_run [OF clear] by blast
  then show "getInterfaces n1 = []" "getType n1 = getType n" by simp_all
  have run: "run_state (call_network k ?m) s = (0, mNetworks_update (map_put k n1) s1)"
    by (simp add: call_network_def clear)
  have step: "getType n' = getType n \<and> (\<forall>p p'. n = Physical p \<longrightarrow> n' = Physical p' \<longrightarrow> mIsDefault p' = mIsDefault p)"
    if "run_state ?m s = ((0, n'), s2)" for n' s2
    using that clear j by (cases n) auto
  have sub: "entry_ok (k, n') \<and> set (getInterfaces n') \<subseteq> set (getInterfaces n) \<and>
      ((case n of Physical p \<Rightarrow> mIsDefault p | _ \<Rightarrow> False) \<longrightarrow> (case n' of Physical p \<Rightarrow> mIsDefault p | _ \<Rightarrow> False))"
    if "run_state ?m s = ((0, n'), s2)" for n' s2
    using that clear j nc_inv_entry [OF inv n] by (cases n) (auto simp: entry_ok_def dest: in_set_dropD)
  show "in_sync idx (mNetworks_update (map_put k n1) s1)"
    by (rule call_network_sync [OF sync n run keeps fallthrough.clear_refines [OF env nc_inv_wf [OF inv n]]
          call_network_inv_sub [OF inv n run keeps sub] step])
qed

lemma flags_are_unset:
  assumes "networks_ok ns" and "flags_are {k} ns"
  shows "flags_are {NETID_UNSET} (map_erase k ns)"
proof -
  have "fst e \<noteq> NETID_UNSET" if "e \<in> set ns" for e
    using that assms(1) id_ok_nonzero by (auto simp: networks_ok_def list_all_iff entry_ok_def)
  then show ?thesis using assms(2) by (fastforce simp: flags_are_def split: network.splits)
qed

lemma destroyNetwork_sync:
  assumes env: "stable_index e idx" and sync: "in_sync idx s"
    and run: "run_state (destroyNetwork e k) s = (Some 0, s')"
  shows "in_sync idx s'"
proof -
  have inv: "nc_inv s" using sync by (simp add: in_sync_def)
  have inv': "nc_inv s'" by (rule hoareD [OF destroyNetwork_inv inv run])
  have k: "k \<noteq> LOCAL_NET_ID" "map_of (mNetworks s) k \<noteq> None"
    using run destroyNetwork_reject [of k s e] by (fastforce simp: errno_defs split: if_splits)+
  then obtain n where n: "map_of (mNetworks s) k = Some n" by blast
  note run' = run [unfolded destroyNetwork_def getNetworkLocked_def resolv_delete_cache_for_net_def]
  obtain q n1 s1 where clear: "run_state (clearInterfaces e (DelegateImpl e) n) s = ((q, n1), s1)"
    by (metis prod.exhaust)
  let ?s2 = "mNetworks_update (map_put k n1) s1"
  let ?ns = "map_put k n1 (mNetworks s)"
  have "q = 0"
    using run' n k clear by (auto split: if_splits prod.splits network.splits)
  note cl = clear_sync [OF env sync n clear [unfolded this]]
  have s2: "mNetworks ?s2 = ?ns" "mDefaultNetId ?s2 = mDefaultNetId s" using cl(2) by (simp_all add: nc_same_def)
  have sync2: "nc_inv ?s2" "tr idx (expected_rules idx ?ns) ?s2" "flags_are {mDefaultNetId s} ?ns"
    using cl(1) s2 by (simp_all add: in_sync_tr)
  have ns: "wf_map ?ns" "map_of ?ns k = Some n1" "networks_ok ?ns"
    using sync2(1) s2 by (simp_all add: nc_inv_def networks_ok_def)
  note erase = expected_rules_erase [OF ns(1,2) cl(3), of idx]
  note fields = destroyNetwork_run [OF inv n k(1) run]
  consider (dflt) p where "mDefaultNetId s = k" "n1 = Physical p" "mInterfaces p = []"
    | (virt) "mDefaultNetId s \<noteq> k" "getType n1 = VIRTUAL" | (other) "mDefaultNetId s \<noteq> k" "getType n1 \<noteq> VIRTUAL"
    using cl(3,4) default_is_physical [OF inv n] by (cases n1) auto
  then show ?thesis
  proof cases
    case (dflt p)
    then have "hist s' = EvResolvDelete k # hist ?s2" "interfaceToTable s' = interfaceToTable ?s2"
      using run' n k clear \<open>q = 0\<close> s2 by (auto simp: removeAsDefault_empty)
    then show ?thesis
      using inv' sync2 erase dflt flags_are_unset [OF ns(3), of k] by (simp add: in_sync_tr tr_def tables_ok_def fields)
  next
    case virt
    then obtain s3 where f: "run_state (modifyFallthroughLocked e k False) ?s2 = (0, s3)"
      and "hist s' = EvResolvDelete k # hist s3" "interfaceToTable s' = interfaceToTable s3"
      using run' n k clear \<open>q = 0\<close> s2 by (auto split: prod.splits)
    moreover have "nc_same ?s2 s3 \<and> tables_ok idx s3 \<and>
        rules_of (hist s3) = expected_rules idx ?ns - (\<Sum>e\<in>#mset ?ns. fall_one idx k (snd e))"
      using effect_inD [OF effect_modifyFallthroughLocked [OF env sync2(1)] _ sync2(2) f] sync2(3) s2
      by (simp add: rules_upd_def rules_del_def)
    ultimately show ?thesis
      using inv' sync2(3) virt(1) erase(2) [OF virt(2)] flags_are_erase [of _ ?ns k]
      by (simp add: in_sync_tr tr_def tables_ok_def fields)
  next
    case other
    then have "hist s' = EvResolvDelete k # hist ?s2" "interfaceToTable s' = interfaceToTable ?s2"
      using run' n k clear \<open>q = 0\<close> s2 by auto
    then show ?thesis
      using inv' sync2 other erase(1) [OF other(2)] flags_are_erase [of _ ?ns k]
      by (simp add: in_sync_tr tr_def tables_ok_def fields)
  qed
qed

subsection \<open>Switching the default network\<close>

lemma call_addAsDefault_sync:
  assumes env: "stable_index e idx" and inv: "nc_inv s" and match: "rules_match idx s"
    and flags: "flags_are D (mNetworks s)" and p: "map_of (mNetworks s) k = Some (Physical p)"
    and run: "run_state (call_network k (as_network Physical (addAsDefault e (DelegateImpl e) p))) s = (0, s')"
  shows "rules_match idx s'" and "flags_are (insert k D) (mNetworks s')"
proof -
  let ?m = "as_network Physical (addAsDefault e (DelegateImpl e) p)"
  have keeps: "keeps (nc_same s) ?m" by (intro wp rc_free_nc_same)
  have obj: "\<exists>q. n' = Physical q \<and> mIsDefault q" if "run_state ?m s = ((0, n'), s1)" for n' s1
    using that by (auto simp: run_as_network split: prod.splits dest!: run_addAsDefault)
  show "rules_match idx s'"
    by (rule call_network_match [OF inv match p run keeps fallthrough.addAsDefault_refines [OF env]])
      (use obj in fastforce)
  show "flags_are (insert k D) (mNetworks s')"
    by (rule call_network_flags [OF inv flags run keeps]) (use obj in fastforce)+
qed

lemma call_removeAsDefault_sync:
  assumes env: "stable_index e idx" and inv: "nc_inv s" and match: "rules_match idx s"
    and flags: "flags_are D (mNetworks s)" and p: "map_of (mNetworks s) k = Some (Physical p)"
    and run: "run_state (call_network k (as_network Physical (removeAsDefault e (DelegateImpl e) p))) s = (0, s')"
  shows "rules_match idx s'" and "flags_are (D - {k}) (mNetworks s')"
proof -
  let ?m = "as_network Physical (removeAsDefault e (DelegateImpl e) p)"
  have keeps: "keeps (nc_same s) ?m" by (intro wp rc_free_nc_same)
  have obj: "\<exists>q. n' = Physical q \<and> \<not> mIsDefault q" if "run_state ?m s = ((0, n'), s1)" for n' s1
    using that by (auto simp: run_as_network split: prod.splits dest!: run_removeAsDefault)
  show "rules_match idx s'"
    by (rule call_network_match [OF inv match p run keeps fallthrough.removeAsDefault_refines [OF env]])
      (use obj in fastforce)
  show "flags_are (D - {k}) (mNetworks s')"
    by (rule call_network_flags [OF inv flags run keeps]) (use obj in fastforce)+
qed

lemma flags_are_skip_unset:
  "networks_ok ns \<Longrightarrow> flags_are (insert NETID_UNSET D) ns = flags_are D ns"
proof -
  assume ok: "networks_ok ns"
  have "fst e \<noteq> NETID_UNSET" if "e \<in> set ns" for e
    using that ok id_ok_nonzero by (auto simp: networks_ok_def list_all_iff entry_ok_def)
  then show ?thesis by (auto simp: flags_are_def split: network.splits)
qed

text \<open>The two stages of a successful switch.\<close>

lemma setDefaultNetwork_stages:
  assumes "run_state (setDefaultNetwork e k) s = (0, s')" and "k \<noteq> mDefaultNetId s"
  obtains s1 s2 where
    "k = NETID_UNSET \<and> s1 = s \<or> (\<exists>p. map_of (mNetworks s) k = Some (Physical p) \<and>
       run_state (call_network k (as_network Physical (addAsDefault e (DelegateImpl e) p))) s = (0, s1))"
    "mDefaultNetId s = NETID_UNSET \<and> s2 = s1 \<or> (\<exists>p. map_of (mNetworks s1) (mDefaultNetId s) = Some (Physical p) \<and>
       run_state (call_network (mDefaultNetId s)
         (as_network Physical (removeAsDefault e (DelegateImpl e) p))) s1 = (0, s2))"
    "s' = s2\<lparr>mDefaultNetId := k\<rparr>"
  using assms unfolding setDefaultNetwork_def
  by (auto simp: run_ok_then getNetworkLocked_def errno_defs split: if_splits prod.splits option.splits network.splits)

lemma setDefaultNetwork_sync:
  assumes env: "stable_index e idx" and sync: "in_sync idx s"
    and run: "run_state (setDefaultNetwork e k) s = (0, s')"
  shows "in_sync idx s'" and "mDefaultNetId s' = k"
proof -
  let ?d = "mDefaultNetId s"
  have inv: "nc_inv s" and match: "rules_match idx s" and flags: "flags_are {?d} (mNetworks s)"
    using sync by (simp_all add: in_sync_def)
  have inv': "nc_inv s'" by (rule hoareD [OF setDefaultNetwork_inv inv run])
  have "mDefaultNetId s' = k \<and> rules_match idx s' \<and> flags_are {k} (mNetworks s')"
  proof (cases "k = ?d")
    case True
    then show ?thesis using run match flags by (simp add: setDefaultNetwork_def)
  next
    case False
    from setDefaultNetwork_stages [OF run False] obtain s1 s2 where
      one: "k = NETID_UNSET \<and> s1 = s \<or> (\<exists>p. map_of (mNetworks s) k = Some (Physical p) \<and>
        run_state (call_network k (as_network Physical (addAsDefault e (DelegateImpl e) p))) s = (0, s1))" and
      two: "?d = NETID_UNSET \<and> s2 = s1 \<or> (\<exists>p. map_of (mNetworks s1) ?d = Some (Physical p) \<and>
        run_state (call_network ?d (as_network Physical (removeAsDefault e (DelegateImpl e) p))) s1 = (0, s2))" and
      s': "s' = s2\<lparr>mDefaultNetId := k\<rparr>" by blast
    have s1: "nc_inv s1 \<and> rules_match idx s1 \<and> flags_are {k, ?d} (mNetworks s1)"
      using one inv match flags call_addAsDefault_inv(1) [OF inv] call_addAsDefault_sync [OF env inv match flags]
      by (auto simp: flags_are_skip_unset nc_inv_def)
    then have "rules_match idx s2 \<and> flags_are ({k, ?d} - {?d}) (mNetworks s2)"
      using two call_removeAsDefault_sync [OF env, of s1 "{k, ?d}" ?d] False
      by (auto simp: flags_are_skip_unset nc_inv_def insert_commute)
    then show ?thesis
      using False by (simp add: s' rules_match_def tables_ok_def insert_Diff_if)
  qed
  with inv' show "in_sync idx s'" "mDefaultNetId s' = k" by (simp_all add: in_sync_def)
qed

section \<open>Sequences of commands\<close>

text \<open>
  The commands of the class and what each of them runs. Ranges of users reach the class only through
  \<^verbatim>\<open>UidRanges::parseFrom\<close>, so they are well formed.
\<close>

datatype nc_command =
    SetDefault u32
  | CreatePhysical u32 permission
  | CreateVirtual u32 bool bool
  | Destroy u32
  | AddInterface u32 string
  | RemoveInterface u32 string
  | SetUserPermission permission "uid list"
  | SetNetworkPermission permission "u32 list"
  | AddUsers u32 "range list"
  | RemoveUsers u32 "range list"
  | AddRoute u32 string cstr cstr bool uid
  | RemoveRoute u32 string cstr cstr bool uid
  | AllowProtect "uid list"
  | DenyProtect "uid list"

definition some_result :: "('s, int) state \<Rightarrow> ('s, int option) state" where
  "some_result m = do { r \<leftarrow> m; ret (Some r) }"

definition no_result :: "('s, unit) state \<Rightarrow> ('s, int option) state" where
  "no_result m = do { m; ret (Some 0) }"

fun nc_exec :: "env \<Rightarrow> nc_command \<Rightarrow> ('a nc_scheme, int option) state" where
  "nc_exec e (SetDefault k) = some_result (setDefaultNetwork e k)"
| "nc_exec e (CreatePhysical k p) = some_result (createPhysicalNetwork e k p)"
| "nc_exec e (CreateVirtual k dns secure) = some_result (createVirtualNetwork e k dns secure)"
| "nc_exec e (Destroy k) = destroyNetwork e k"
| "nc_exec e (AddInterface k i) = some_result (addInterfaceToNetwork e k i)"
| "nc_exec e (RemoveInterface k i) = some_result (removeInterfaceFromNetwork e k i)"
| "nc_exec e (SetUserPermission p uids) = no_result (setPermissionForUsers p uids)"
| "nc_exec e (SetNetworkPermission p ks) = some_result (setPermissionForNetworks e p ks)"
| "nc_exec e (AddUsers k rs) = some_result (addUsersToNetwork e k rs)"
| "nc_exec e (RemoveUsers k rs) = some_result (removeUsersFromNetwork e k rs)"
| "nc_exec e (AddRoute k i d nh legacy uid) = some_result (addRoute e k i d nh legacy uid)"
| "nc_exec e (RemoveRoute k i d nh legacy uid) = some_result (removeRoute e k i d nh legacy uid)"
| "nc_exec e (AllowProtect uids) = no_result (allowProtect uids)"
| "nc_exec e (DenyProtect uids) = no_result (denyProtect uids)"

fun command_ok :: "nc_command \<Rightarrow> bool" where
  "command_ok (AddUsers k rs) = wf_ranges rs"
| "command_ok (RemoveUsers k rs) = wf_ranges rs"
| "command_ok _ = True"

text \<open>Users are removed from a network only after they have been added.\<close>

fun users_present :: "'a nc_scheme \<Rightarrow> nc_command \<Rightarrow> bool" where
  "users_present s (RemoveUsers k rs) =
     (case map_of (mNetworks s) k of Some (Virtual v) \<Rightarrow> mset rs \<subseteq># mset (mUidRanges v) | _ \<Rightarrow> True)"
| "users_present s _ = True"

inductive nc_reach :: "env \<Rightarrow> 'a nc_scheme \<Rightarrow> bool" for e where
  start: "nc_reach e (NetworkController_new s)"
| step: "nc_reach e s \<Longrightarrow> command_ok c \<Longrightarrow> run_state (nc_exec e c) s = (r, s') \<Longrightarrow> nc_reach e s'"

text \<open>The runs in which start-up and every command report success.\<close>

inductive nc_success :: "env \<Rightarrow> 'a nc_scheme \<Rightarrow> bool" for e where
  start: "hist s = [] \<Longrightarrow> interfaceToTable s = [] \<Longrightarrow>
    run_state (RouteController_Init e LOCAL_NET_ID) (NetworkController_new s) = (0, s') \<Longrightarrow> nc_success e s'"
| step: "nc_success e s \<Longrightarrow> command_ok c \<Longrightarrow> users_present s c \<Longrightarrow>
    run_state (nc_exec e c) s = (Some 0, s') \<Longrightarrow> nc_success e s'"

inductive_cases nc_reachE: "nc_reach e s"
inductive_cases nc_successE: "nc_success e s"

lemma keeps_some_result: "keeps I m \<Longrightarrow> keeps I (some_result m)"
  unfolding some_result_def by (intro wp_basic)

lemma keeps_no_result: "keeps I m \<Longrightarrow> keeps I (no_result m)"
  unfolding no_result_def by (intro wp_basic)

lemma nc_exec_inv: "command_ok c \<Longrightarrow> keeps nc_inv (nc_exec e c)"
  by (cases c) (simp_all add: keeps_some_result keeps_no_result setDefaultNetwork_inv createPhysicalNetwork_inv
      createVirtualNetwork_inv destroyNetwork_inv addInterfaceToNetwork_inv removeInterfaceFromNetwork_inv
      nc_inv_simple setPermissionForNetworks_inv addUsersToNetwork_inv removeUsersFromNetwork_inv
      addRoute_def removeRoute_def modifyRoute_inv)

lemma run_some_result: "run_state (some_result m) s = (Some r, s') \<longleftrightarrow> run_state m s = (r, s')"
  by (auto simp: some_result_def split: prod.splits)

lemma run_no_result: "run_state (no_result m) s = (r, s') \<Longrightarrow> run_state m s = ((), s')"
  by (auto simp: no_result_def split: prod.splits)

lemma nc_exec_sync:
  assumes env: "stable_index e idx" and sync: "in_sync idx s" and ok: "command_ok c" "users_present s c"
    and run: "run_state (nc_exec e c) s = (Some 0, s')"
  shows "in_sync idx s'"
proof (cases c)
  case (RemoveUsers k rs)
  then have sub: "mset rs \<subseteq># mset (mUidRanges v)" if "map_of (mNetworks s) k = Some (Virtual v)" for v
    using ok that by simp
  show ?thesis
    using removeUsersFromNetwork_sync [OF env sync, of rs k s', OF _ sub] ok run RemoveUsers
    by (simp add: run_some_result)
qed (use run ok sync simple_commands_sync [OF sync] in
    \<open>auto simp: run_some_result addRoute_def removeRoute_def dest!: run_no_result
      intro: setDefaultNetwork_sync(1) [OF env sync] createPhysicalNetwork_sync [OF sync]
        createVirtualNetwork_sync [OF env sync] destroyNetwork_sync [OF env sync]
        addInterfaceToNetwork_sync [OF env sync] removeInterfaceFromNetwork_sync [OF env sync]
        setPermissionForNetworks_sync [OF env sync] addUsersToNetwork_sync [OF env sync]
        modifyRoute_sync [OF env sync]\<close>)

text \<open>Start-up brings the kernel in sync with the new object.\<close>

lemma start_sync:
  assumes env: "stable_index e idx" and "hist s = []" and "interfaceToTable s = []"
    and run: "run_state (RouteController_Init e LOCAL_NET_ID) (NetworkController_new s) = (0, s')"
  shows "in_sync idx s'"
proof -
  let ?s = "NetworkController_new s"
  have "tr idx {#} ?s"
    using assms by (simp add: tr_def tables_ok_def rules_of_def NetworkController_new_def)
  then have "tables_ok idx s' \<and> rules_of (hist s') = init_rules LOCAL_NET_ID"
    using effect_RouteController_Init [OF env, of LOCAL_NET_ID] run unfolding effect_def
    by (fastforce dest: hoareD)
  moreover have "nc_same ?s s'" using run by (rule nc_same_run) (intro wp rc_free_nc_same)
  ultimately show ?thesis
    using NetworkController_new_inv [of s]
    by (simp add: in_sync_def rules_match_def expected_rules_def nc_same_def NetworkController_new_def nc_inv_def
        network_rules_def LocalNetwork_new_def flags_are_def)
qed

section \<open>Success\<close>

text \<open>In an accepting environment a method of a network succeeds.\<close>

definition method_ok :: "('s, int \<times> 'n) state \<Rightarrow> bool" where
  "method_ok m \<longleftrightarrow> (\<forall>s. fst (fst (run_state m s)) = 0)"

lemma method_ok_on_success [succeed]: "returns_0 m \<Longrightarrow> method_ok (on_success m n f)"
  unfolding method_ok_def returns_0_def by (auto simp: run_on_success split: prod.splits) (metis fst_conv)

lemma method_ok_as_network [succeed]: "method_ok m \<Longrightarrow> method_ok (as_network w m)"
  unfolding method_ok_def by (auto simp: run_as_network split: prod.splits) (metis fst_conv)

lemma method_ok_return [succeed]: "method_ok (ret (0, n))"
  by (simp add: method_ok_def)

lemma returns_0_call_network [succeed]: "method_ok m \<Longrightarrow> returns_0 (call_network k m)"
  unfolding method_ok_def returns_0_def call_network_def by (auto split: prod.splits) (metis fst_conv)

lemma returns_0_modifyFallthrough_all [succeed]:
  assumes "accepting e" and "short_name i"
  shows "returns_0 (modifyFallthrough_all e i p add :: ('a nc_scheme, int) state)"
proof -
  have "returns_0 (for_ok (\<lambda>entry. if getType (snd entry) = VIRTUAL
      then modifyFallthrough e (fst entry) i p add else ret 0) ns :: ('a nc_scheme, int) state)"
    for ns :: "(u32 \<times> network) list"
    unfolding modifyFallthrough_def using assms by (auto intro!: succeed)
  then show ?thesis by (simp add: modifyFallthrough_all_def returns_0_def)
qed

lemma returns_0_default [succeed]:
  assumes "accepting e" and "short_name i"
  shows "returns_0 (addToDefault e i p (DelegateImpl e))" and "returns_0 (removeFromDefault e i p (DelegateImpl e))"
  unfolding addToDefault_def removeFromDefault_def DelegateImpl_def delegate.simps
  by (intro succeed assms)+

definition short_names :: "network \<Rightarrow> bool" where
  "short_names n \<longleftrightarrow> list_all short_name (getInterfaces n)"

lemma method_ok_add [succeed]:
  assumes "accepting e" and "short_name i" and "wf_network n"
  shows "method_ok (Network_addInterface e (DelegateImpl e) i n)"
proof (cases n)
  case (Local l)
  then show ?thesis using assms by (auto simp: LocalNetwork_addInterface_def intro!: succeed)
next
  case (Physical p)
  then show ?thesis using assms by (auto simp: PhysicalNetwork_addInterface_def intro!: succeed)
next
  case (Virtual v)
  then show ?thesis using assms by (auto simp: VirtualNetwork_addInterface_def intro!: succeed)
qed

lemma method_ok_remove [succeed]:
  assumes "accepting e" and "short_names n" and "wf_network n"
  shows "method_ok (Network_removeInterface e (DelegateImpl e) i n)"
proof (cases n)
  case (Local l)
  then show ?thesis using assms
    by (auto simp: LocalNetwork_removeInterface_def hasInterface_def short_names_def list_all_iff intro!: succeed)
next
  case (Physical p)
  then show ?thesis using assms
    by (auto simp: PhysicalNetwork_removeInterface_def hasInterface_def short_names_def list_all_iff intro!: succeed)
next
  case (Virtual v)
  then show ?thesis using assms
    by (auto simp: VirtualNetwork_removeInterface_def hasInterface_def short_names_def list_all_iff intro!: succeed)
qed

lemma method_ok_default [succeed]:
  assumes "accepting e" and "short_names (Physical p)"
  shows "method_ok (addAsDefault e (DelegateImpl e) p)" and "method_ok (removeAsDefault e (DelegateImpl e) p)"
  using assms unfolding addAsDefault_def removeAsDefault_def
  by (auto simp: short_names_def list_all_iff intro!: succeed)

lemma addInterfaceToNetwork_ok:
  assumes "accepting e" and "nc_inv s" and "map_of (mNetworks s) k = Some n" and "short_name i"
    and "getNetworkForInterface s i \<in> {NETID_UNSET, k}"
  shows "fst (run_state (addInterfaceToNetwork e k i) s) = 0"
  using returns_0_call_network [OF method_ok_add [OF assms(1,4) nc_inv_wf [OF assms(2,3)]], of k] assms(3,5)
  by (auto simp: addInterfaceToNetwork_def getNetworkLocked_def returns_0_def)

end
