(* ===== verification/FwmarkServer.thy ===== *)
theory FwmarkServer
  imports NetworkController
begin

text \<open>
  \<^verbatim>\<open>server/FwmarkServer.cpp\<close> and \<^verbatim>\<open>include/FwmarkCommand.h\<close>: the server that marks the sockets of other
  processes. A request is the twelve bytes of a \<^verbatim>\<open>FwmarkCommand\<close> and a socket passed along; the server
  reads the socket's mark, changes it according to the command and the sender's UID, and writes it back.
  The networks and permissions it consults are those of \<^verbatim>\<open>NetworkController\<close>.
\<close>

section \<open>Model\<close>

record FwmarkCommand =
  cmdId :: u32
  cmd_netId :: u32
  cmd_uid :: u32

definition ON_ACCEPT :: u32 where "ON_ACCEPT = 0"
definition ON_CONNECT :: u32 where "ON_CONNECT = 1"
definition SELECT_NETWORK :: u32 where "SELECT_NETWORK = 2"
definition PROTECT_FROM_VPN :: u32 where "PROTECT_FROM_VPN = 3"
definition SELECT_FOR_USER :: u32 where "SELECT_FOR_USER = 4"

lemmas command_defs = ON_ACCEPT_def ON_CONNECT_def SELECT_NETWORK_def PROTECT_FROM_VPN_def SELECT_FOR_USER_def

text \<open>The memory of a \<^verbatim>\<open>FwmarkCommand\<close>, and its reading.\<close>

definition command_bytes :: "FwmarkCommand \<Rightarrow> bytes" where
  "command_bytes c = le32 (cmdId c) @ le32 (cmd_netId c) @ le32 (cmd_uid c)"

definition command_of :: "bytes \<Rightarrow> FwmarkCommand" where
  "command_of bs = \<lparr>cmdId = rd32 bs, cmd_netId = rd32 (drop 4 bs), cmd_uid = rd32 (drop 8 bs)\<rparr>"

text \<open>
  What \<^verbatim>\<open>recvmsg\<close> delivers: an errno, or data and the descriptor of a well-formed \<^verbatim>\<open>SCM_RIGHTS\<close> control
  message. An end of stream is empty data; \<^verbatim>\<open>processClient\<close> then reports whatever \<^verbatim>\<open>errno\<close> some earlier call
  has left, the first component. \<open>mark_io\<close> is \<^verbatim>\<open>getsockopt\<close> and \<^verbatim>\<open>setsockopt\<close>
  of \<^verbatim>\<open>SO_MARK\<close>: an errno or the mark, and an errno or nothing.
\<close>

datatype recv_result = RecvError int | RecvData int bytes "int option"

record mark_io =
  get_mark :: "int \<Rightarrow> int + u32"
  set_mark :: "int \<Rightarrow> u32 \<Rightarrow> int option"

text \<open>
  The switch of \<^verbatim>\<open>processClient\<close>, with the assignment of the permission after it: an errno or the new
  mark, \<^const>\<open>None\<close> where \<^verbatim>\<open>checkUserNetworkAccess\<close> has no defined result.
\<close>

definition apply_command ::
  "'a nc_scheme \<Rightarrow> uid \<Rightarrow> FwmarkCommand \<Rightarrow> Fwmark \<Rightarrow> (int + Fwmark) option" where
  "apply_command s clientUid command fwmark =
     (let perm = getPermissionForUser s clientUid in
      if cmdId command = ON_ACCEPT then
        Some (Inr (fwmark\<lparr>permission := perm OR permission fwmark\<rparr>))
      else if cmdId command = ON_CONNECT then
        Some (Inr ((if \<not> explicitlySelected fwmark then
                      if \<not> protectedFromVpn fwmark then set_netId (getNetworkForConnect s clientUid) fwmark
                      else if \<not> isVirtualNetwork s (ucast (netId fwmark))
                           then set_netId (getDefaultNetwork s) fwmark
                           else fwmark
                    else fwmark)\<lparr>permission := perm\<rparr>))
      else if cmdId command = SELECT_NETWORK then
        let fwmark = set_netId (cmd_netId command) fwmark in
        if cmd_netId command = NETID_UNSET then
          Some (Inr (fwmark\<lparr>explicitlySelected := False, protectedFromVpn := False,
                            permission := PERMISSION_NONE\<rparr>))
        else case checkUserNetworkAccess s clientUid (cmd_netId command) of
          None \<Rightarrow> None
        | Some access \<Rightarrow>
            if access \<noteq> 0 then Some (Inl access)
            else Some (Inr (fwmark\<lparr>explicitlySelected := True,
                                   protectedFromVpn := canProtect s clientUid, permission := perm\<rparr>))
      else if cmdId command = PROTECT_FROM_VPN then
        if \<not> canProtect s clientUid then Some (Inl (- EPERM))
        else Some (Inr ((if \<not> explicitlySelected fwmark \<and> isVirtualNetwork s (ucast (netId fwmark))
                         then set_netId (getDefaultNetwork s) fwmark else fwmark)
                        \<lparr>protectedFromVpn := True, permission := perm OR permission fwmark\<rparr>))
      else if cmdId command = SELECT_FOR_USER then
        if perm AND PERMISSION_SYSTEM \<noteq> PERMISSION_SYSTEM then Some (Inl (- EPERM))
        else Some (Inr ((set_netId (getNetworkForUser s (cmd_uid command)) fwmark)
                        \<lparr>protectedFromVpn := True, permission := perm\<rparr>))
      else Some (Inl (- EPROTO)))"

text \<open>\<^verbatim>\<open>processClient\<close>: its result, and the mark it has written to which socket, if any.\<close>

definition processClient ::
  "'a nc_scheme \<Rightarrow> mark_io \<Rightarrow> uid \<Rightarrow> recv_result \<Rightarrow> (int \<times> (int \<times> u32) option) option" where
  "processClient s io clientUid msg =
     (case msg of
        RecvError errno \<Rightarrow> Some (- errno, None)
      | RecvData errno data fd \<Rightarrow>
          if length data = 0 then Some (- errno, None)
          else if length data \<noteq> 12 then Some (- EBADMSG, None)
          else let socketFd = (case fd of None \<Rightarrow> - 1 | Some f \<Rightarrow> f) in
            if socketFd < 0 then Some (- EBADF, None)
            else case get_mark io socketFd of
              Inl errno \<Rightarrow> Some (- errno, None)
            | Inr m \<Rightarrow>
                (case apply_command s clientUid (command_of data) (fwmark_of m) of
                   None \<Rightarrow> None
                 | Some (Inl err) \<Rightarrow> Some (err, None)
                 | Some (Inr fwmark) \<Rightarrow>
                     (case set_mark io socketFd (intValue fwmark) of
                        Some errno \<Rightarrow> Some (- errno, None)
                      | None \<Rightarrow> Some (0, Some (socketFd, intValue fwmark)))))"

text \<open>
  \<^verbatim>\<open>onDataAvailable\<close>: the four bytes that are always sent back, the descriptor that is always closed, the
  mark written, and the result \<^verbatim>\<open>false\<close> that closes the connection.
\<close>

definition onDataAvailable ::
  "'a nc_scheme \<Rightarrow> mark_io \<Rightarrow> uid \<Rightarrow> recv_result \<Rightarrow>
   (bytes \<times> int option \<times> (int \<times> u32) option \<times> bool) option" where
  "onDataAvailable s io clientUid msg =
     (case processClient s io clientUid msg of
        None \<Rightarrow> None
      | Some (err, written) \<Rightarrow>
          let received = (case msg of RecvData _ data fd \<Rightarrow> if length data = 12 then fd else None | _ \<Rightarrow> None)
          in Some (le32 (word_of_int err),
                   (case received of None \<Rightarrow> None | Some f \<Rightarrow> if f \<ge> 0 then Some f else None),
                   written, False))"

section \<open>Lemmas\<close>

lemma command_roundtrip [simp]: "command_of (command_bytes c) = c"
  by (cases c) (simp add: command_of_def command_bytes_def)

lemma length_command_bytes [simp]: "length (command_bytes c) = 12"
  by (simp add: command_bytes_def)

lemma command_bytes_nonempty [simp]: "command_bytes c \<noteq> []"
  by (metis length_command_bytes list.size(3) zero_neq_numeral)

text \<open>
  The marks a user can give a socket by sending any commands, the networks and permissions changing
  in any way in between, as long as the user is never allowed to protect sockets.
\<close>

inductive socket_mark :: "uid \<Rightarrow> Fwmark \<Rightarrow> Fwmark \<Rightarrow> bool" for uid f0 where
  fresh: "socket_mark uid f0 f0"
| command: "socket_mark uid f0 f \<Longrightarrow> \<not> canProtect (s :: nc) uid \<Longrightarrow>
            apply_command s uid c f = Some (Inr f') \<Longrightarrow> socket_mark uid f0 f'"

lemma apply_command_cases:
  assumes "apply_command s uid c f = Some (Inr f')"
  obtains
    (accept) "f' = f\<lparr>permission := getPermissionForUser s uid OR permission f\<rparr>"
  | (connect) n where "f' = f\<lparr>netId := n, permission := getPermissionForUser s uid\<rparr>" "\<not> explicitlySelected f \<or> n = netId f"
  | (unselect) "f' = f\<lparr>netId := 0, explicitlySelected := False, protectedFromVpn := False, permission := PERMISSION_NONE\<rparr>"
  | (select) "cmdId c = SELECT_NETWORK" "checkUserNetworkAccess s uid (cmd_netId c) = Some 0"
      "f' = f\<lparr>netId := ucast (cmd_netId c), explicitlySelected := True, protectedFromVpn := canProtect s uid,
             permission := getPermissionForUser s uid\<rparr>"
  | (protect) n where "canProtect s uid" "\<not> explicitlySelected f \<or> n = netId f"
      "f' = f\<lparr>netId := n, protectedFromVpn := True, permission := getPermissionForUser s uid OR permission f\<rparr>"
  | (for_user) n where "is_system s uid"
      "f' = f\<lparr>netId := n, protectedFromVpn := True, permission := getPermissionForUser s uid\<rparr>"
proof -
  let ?p = "getPermissionForUser s uid"
  consider "cmdId c = ON_ACCEPT" | "cmdId c = ON_CONNECT" | "cmdId c = SELECT_NETWORK" "cmd_netId c = NETID_UNSET"
    | "cmdId c = SELECT_NETWORK" "cmd_netId c \<noteq> NETID_UNSET" | "cmdId c = PROTECT_FROM_VPN" | "cmdId c = SELECT_FOR_USER"
    using assms by (auto simp: apply_command_def Let_def split: if_splits)
  then show thesis
  proof cases
    case 1
    then show ?thesis using assms accept by (simp add: apply_command_def Let_def)
  next
    case 2
    then have f': "f' = (if \<not> explicitlySelected f then
        if \<not> protectedFromVpn f then set_netId (getNetworkForConnect s uid) f
        else if \<not> isVirtualNetwork s (ucast (netId f)) then set_netId (getDefaultNetwork s) f else f
        else f)\<lparr>permission := ?p\<rparr>"
      using assms by (simp add: apply_command_def command_defs Let_def)
    show ?thesis by (rule connect [of "netId f'"]) (auto simp: f' set_netId_def)
  next
    case 3
    then show ?thesis using assms unselect
      by (simp add: apply_command_def command_defs Let_def set_netId_def NETID_UNSET_def)
  next
    case 4
    then show ?thesis using assms select
      by (auto simp: apply_command_def command_defs Let_def set_netId_def split: option.splits if_splits)
  next
    case 5
    then have can: "canProtect s uid" and f': "f' = (if \<not> explicitlySelected f \<and> isVirtualNetwork s (ucast (netId f))
        then set_netId (getDefaultNetwork s) f else f)\<lparr>protectedFromVpn := True, permission := ?p OR permission f\<rparr>"
      using assms by (auto simp: apply_command_def command_defs Let_def split: if_splits)
    show ?thesis using can by (rule protect [of "netId f'"]) (auto simp: f' set_netId_def)
  next
    case 6
    then have "is_system s uid" and f': "f' = (set_netId (getNetworkForUser s (cmd_uid c)) f)\<lparr>protectedFromVpn := True,
        permission := ?p\<rparr>"
      using assms by (auto simp: apply_command_def command_defs Let_def is_system_def allows_def split: if_splits)
    then show ?thesis by (intro for_user [of "netId f'"]) (simp_all add: set_netId_def)
  qed
qed

lemma apply_command_None:
  "apply_command s uid c f = None \<longleftrightarrow>
     cmdId c = SELECT_NETWORK \<and> cmd_netId c \<noteq> NETID_UNSET \<and> checkUserNetworkAccess s uid (cmd_netId c) = None"
  by (auto simp: apply_command_def command_defs Let_def split: option.splits)

lemma processClient_written:
  assumes "processClient s io uid msg = Some (r, Some (fd, m))"
  obtains errno data old f' where "msg = RecvData errno data (Some fd)" "length data = 12" "fd \<ge> 0"
    "get_mark io fd = Inr old" "apply_command s uid (command_of data) (fwmark_of old) = Some (Inr f')"
    "m = intValue f'" "set_mark io fd m = None" "r = 0"
  using assms
  by (auto simp: processClient_def Let_def split: recv_result.splits if_splits option.splits sum.splits)

lemma permission_bits_subset:
  fixes p q :: permission
  shows "p AND (p OR q) = p" "p AND (q OR p) = p" "(p OR q) AND (p OR q) = p OR q" "PERMISSION_NONE AND q = PERMISSION_NONE"
  by (auto simp: bit_eq_iff bit_simps PERMISSION_NONE_def)

text \<open>The relation between a socket's mark before and after an accepted command.\<close>

definition no_escalation :: "'a nc_scheme \<Rightarrow> uid \<Rightarrow> Fwmark \<Rightarrow> Fwmark \<Rightarrow> bool" where
  "no_escalation s uid f f' \<longleftrightarrow>
     allows (getPermissionForUser s uid OR permission f) (permission f') \<and>
     (protectedFromVpn f' \<longrightarrow> protectedFromVpn f \<or> canProtect s uid) \<and>
     (explicitlySelected f' \<longrightarrow> explicitlySelected f \<or>
        (\<exists>n. checkUserNetworkAccess s uid n = Some 0 \<and> netId f' = ucast n)) \<and>
     spare f' = spare f"

lemma system_canProtect: "is_system s uid \<Longrightarrow> canProtect s uid"
  by (simp add: is_system_def canProtect_def allows_def)

lemma apply_command_no_escalation:
  "apply_command s uid c f = Some (Inr f') \<Longrightarrow> no_escalation s uid f f'"
  by (erule apply_command_cases)
    (auto simp: no_escalation_def allows_def permission_bits_subset and.commute [of "_ OR _"] system_canProtect)

lemma socket_mark_unprotected:
  "socket_mark uid f0 f \<Longrightarrow> \<not> protectedFromVpn f0 \<Longrightarrow> \<not> protectedFromVpn f"
  by (induction rule: socket_mark.induct) (auto dest!: apply_command_no_escalation simp: no_escalation_def)

lemma secure_vpn_rule_matches:
  assumes "r \<in># both (vpn_priority True) table (intValue (fst (vpn_uid_mark True)))
             (intValue (snd (vpn_uid_mark True))) None None (Some users)" and "\<not> protectedFromVpn f"
  shows "mark_matches (intValue f) r"
  using assms
  by (auto simp: intValue_nonzero mark_matches_both vpn_uid_mark_def fwmark_and_def new_Fwmark_def Let_def)

text \<open>A server whose sockets all have one mark, and a client that asks for network 100.\<close>

definition sample_io :: mark_io where
  "sample_io = \<lparr>get_mark = (\<lambda>fd. Inr 0), set_mark = (\<lambda>fd m. None)\<rparr>"

definition sample_select :: FwmarkCommand where
  "sample_select = \<lparr>cmdId = SELECT_NETWORK, cmd_netId = 102, cmd_uid = 0\<rparr>"

lemmas sample_eval = getPermissionForUser_def checkUserNetworkAccess_def getNetworkLocked_def sample_nc_def
  getVirtualNetworkForUserLocked_def appliesToUser_def hasUid_def lower_bound_def canProtect_def
  FIRST_APPLICATION_UID_def INVALID_UID_def PERMISSION_NONE_def PERMISSION_SYSTEM_def NETID_UNSET_def Let_def

lemma sample_access: "checkUserNetworkAccess sample_nc 10001 102 = Some 0" "\<not> canProtect sample_nc 10001"
  "getPermissionForUser sample_nc 10001 = PERMISSION_NONE"
  by (simp_all add: sample_eval)

lemma sample_apply: "apply_command sample_nc 10001 sample_select new_Fwmark =
    Some (Inr (new_Fwmark\<lparr>netId := 102, explicitlySelected := True\<rparr>))"
  by (simp add: apply_command_def sample_select_def command_defs sample_access NETID_UNSET_def set_netId_def
      new_Fwmark_def PERMISSION_NONE_def)

lemma fwmark_of_0: "fwmark_of 0 = new_Fwmark"
  by (simp add: fwmark_of_def new_Fwmark_def)

lemma sample_process: "processClient sample_nc sample_io 10001 (RecvData 0 (command_bytes sample_select) (Some 5)) =
    Some (0, Some (5, intValue (new_Fwmark\<lparr>netId := 102, explicitlySelected := True\<rparr>)))"
  by (simp add: processClient_def sample_io_def fwmark_of_0 sample_apply)

section \<open>Properties\<close>

text \<open>
  When the server marks a socket for a request to select a network, the sender has access to that
  network, the mark names it untruncated and as explicitly selected, is protected from VPNs just if
  the sender may protect sockets, and carries exactly the sender's permissions.
\<close>

theorem select_network_marks:
  assumes "nc_inv s" and "cmdId c = SELECT_NETWORK" and "cmd_netId c \<noteq> NETID_UNSET"
    and "processClient s io uid (RecvData errno (command_bytes c) (Some fd)) = Some (r, Some (fd', m))"
  shows "fd' = fd \<and> checkUserNetworkAccess s uid (cmd_netId c) = Some 0 \<and>
         ucast (netId (fwmark_of m)) = cmd_netId c \<and> explicitlySelected (fwmark_of m) \<and>
         (protectedFromVpn (fwmark_of m) \<longleftrightarrow> canProtect s uid) \<and>
         permission (fwmark_of m) = getPermissionForUser s uid"
  using assms(4)
proof (rule processClient_written)
  fix e data old f'
  assume msg: "RecvData errno (command_bytes c) (Some fd) = RecvData e data (Some fd')"
    and app: "apply_command s uid (command_of data) (fwmark_of old) = Some (Inr f')" and m: "m = intValue f'"
  have access: "checkUserNetworkAccess s uid (cmd_netId c) = Some 0"
    and f': "f' = (set_netId (cmd_netId c) (fwmark_of old))\<lparr>explicitlySelected := True,
      protectedFromVpn := canProtect s uid, permission := getPermissionForUser s uid\<rparr>"
    using app msg assms(2,3)
    by (auto simp: apply_command_def command_defs Let_def split: option.splits if_splits)
  obtain n where "map_of (mNetworks s) (cmd_netId c) = Some n"
    using access by (auto simp: checkUserNetworkAccess_def getNetworkLocked_def errno_defs split: option.splits)
  then have "cmd_netId c \<le> 65535" by (rule nc_inv_id_bound [OF assms(1)])
  then show ?thesis using access f' m msg by (simp add: set_netId_def ucast_u16_u32)
qed

theorem select_network_marks_witness:
  "\<exists>m. processClient sample_nc sample_io 10001 (RecvData 0 (command_bytes sample_select) (Some 5)) = Some (0, Some (5, m)) \<and>
       ucast (netId (fwmark_of m)) = (102 :: u32) \<and> \<not> protectedFromVpn (fwmark_of m)"
  using select_network_marks [OF nc_inv_sample _ _ sample_process] sample_process sample_access(2)
  by (auto simp: sample_select_def NETID_UNSET_def)



text \<open>
  C5: A user who is never allowed to protect sockets cannot escape a secure VPN by talking to the server:
  whatever commands it sends for a socket that is not protected to begin with, and however the networks
  change in between, the mark still matches the routing rules of the VPN's users.
\<close>

theorem secure_vpn_confines:
  assumes "socket_mark uid f0 f" and "\<not> protectedFromVpn f0"
    and "r \<in># both (vpn_priority True) table (intValue (fst (vpn_uid_mark True)))
             (intValue (snd (vpn_uid_mark True))) None None (Some users)"
  shows "mark_matches (intValue f) r"
  using assms by (blast intro: secure_vpn_rule_matches dest: socket_mark_unprotected)

theorem secure_vpn_confines_witness:
  "mark_matches (intValue (new_Fwmark\<lparr>netId := 102, explicitlySelected := True\<rparr>))
     (the_rule AF_INET (vpn_priority True) 1007 (intValue (fst (vpn_uid_mark True)))
        (intValue (snd (vpn_uid_mark True))) None None (Some (10000, 10010)))"
proof (rule secure_vpn_confines)
  show "socket_mark 10001 new_Fwmark (new_Fwmark\<lparr>netId := 102, explicitlySelected := True\<rparr>)"
    by (rule socket_mark.command [OF socket_mark.fresh sample_access(2) sample_apply])
qed (auto simp: both_def new_Fwmark_def)

text \<open>
  The server answers every request with its error code and closes the connection, except where the access
  check it makes has no defined behaviour. When it has marked a socket it reports 0 and has closed its
  descriptor. A descriptor that comes with a message of the wrong length, however, is never closed.
\<close>

theorem onDataAvailable_answers:
  "(onDataAvailable s io uid msg = None \<longrightarrow>
      (\<exists>errno data fd n. msg = RecvData errno data (Some fd) \<and> cmdId (command_of data) = SELECT_NETWORK \<and>
         n = cmd_netId (command_of data) \<and> checkUserNetworkAccess s uid n = None)) \<and>
   (\<forall>reply closed written keep. onDataAvailable s io uid msg = Some (reply, closed, written, keep) \<longrightarrow>
      \<not> keep \<and> length reply = 4 \<and>
      (\<forall>fd m. written = Some (fd, m) \<longrightarrow> reply = le32 0 \<and> closed = Some fd) \<and>
      (\<forall>errno data fd. msg = RecvData errno data (Some fd) \<and> length data \<noteq> 12 \<longrightarrow> closed = None))"
proof -
  have "msg = RecvData errno data (Some fd) \<Longrightarrow> length data = 12" if "processClient s io uid msg = None" for errno data fd
    using that by (auto simp: processClient_def Let_def split: if_splits)
  moreover have "\<exists>errno data fd n. msg = RecvData errno data (Some fd) \<and> cmdId (command_of data) = SELECT_NETWORK \<and>
      n = cmd_netId (command_of data) \<and> checkUserNetworkAccess s uid n = None" if "processClient s io uid msg = None"
    using that by (auto simp: processClient_def Let_def apply_command_None
        split: recv_result.splits if_splits option.splits sum.splits)
  ultimately show ?thesis
    by (auto simp: onDataAvailable_def Let_def split: option.splits recv_result.splits elim!: processClient_written)
qed

theorem onDataAvailable_answers_witness:
  "onDataAvailable sample_nc sample_io 10001 (RecvData 0 [1, 2, 3] (Some 5)) =
     Some (le32 (word_of_int (- EBADMSG)), None, None, False) \<and>
   (\<exists>w. onDataAvailable sample_nc sample_io 10001 (RecvData 0 (command_bytes sample_select) (Some 5)) =
     Some (le32 0, Some 5, w, False))"
  using onDataAvailable_answers [of sample_nc sample_io 10001 "RecvData 0 [1, 2, 3] (Some 5)"]
  by (simp add: onDataAvailable_def sample_process) (simp add: processClient_def)

end
