(* ===== verification/NetdClient.thy ===== *)
theory NetdClient
  imports FwmarkServer
begin

text \<open>
  \<^verbatim>\<open>client/NetdClient.cpp\<close> and \<^verbatim>\<open>client/FwmarkClient.cpp\<close>: the library that libc loads into every process.
  It wraps \<^verbatim>\<open>accept4\<close>, \<^verbatim>\<open>connect\<close> and \<^verbatim>\<open>socket\<close>, asks the fwmark server to mark sockets, and keeps the
  networks that the process has chosen. The kernel, the wrapped functions, the vendor library and the
  answers of the server are the parameter \<open>kernel_io\<close>, whose functions may depend on all that the process
  has done so far.
\<close>

section \<open>Model\<close>

text \<open>What a function pointer points at.\<close>

datatype callee = LibcFn | NetdClientFn | VendorFn

datatype cevent =
    CAccept callee int
  | CSocket callee int
  | CConnect callee int int
  | CClose int
  | CChannel int
  | CCommand FwmarkCommand int int
  | CVendorHook string "callee option"

record kernel_io =
  k_accept4 :: "cevent list \<Rightarrow> callee \<Rightarrow> int \<Rightarrow> int \<times> int"
  k_connect :: "cevent list \<Rightarrow> callee \<Rightarrow> int \<Rightarrow> int"
  k_socket :: "cevent list \<Rightarrow> callee \<Rightarrow> int \<Rightarrow> int"
  k_domain :: "cevent list \<Rightarrow> int \<Rightarrow> int option"
  k_mark :: "cevent list \<Rightarrow> int \<Rightarrow> u32 option"
  k_errno :: "cevent list \<Rightarrow> int"
  k_getenv :: "string \<Rightarrow> cstr"
  k_channel :: "cevent list \<Rightarrow> int"
  k_reach :: "cevent list \<Rightarrow> bool"
  k_sendmsg :: "cevent list \<Rightarrow> bytes \<Rightarrow> int \<Rightarrow> bool"
  k_recv :: "cevent list \<Rightarrow> bytes \<Rightarrow> int \<Rightarrow> bytes option"
  k_dlopen :: "string \<Rightarrow> bool"
  k_dlsym :: "string \<Rightarrow> bool"

text \<open>The static variables of the library, \<^verbatim>\<open>errno\<close>, and what the process has done, newest first.\<close>

record client =
  clog :: "cevent list"
  errno :: int
  netIdForProcess :: u32
  netIdForResolv :: u32
  libcAccept4 :: "callee option"
  libcConnect :: "callee option"
  libcSocket :: "callee option"
  propConnect :: "callee option"
  propSocket :: "callee option"
  setConnect :: bool
  setSocket :: bool
  propClientHandle :: bool

definition clog_event :: "cevent \<Rightarrow> (client, unit) state" where
  "clog_event ev = modify (clog_update (\<lambda>h. ev # h))"

definition get_errno :: "kernel_io \<Rightarrow> (client, int) state" where
  "get_errno k = do { h \<leftarrow> gets clog; ret (k_errno k h) }"

definition set_errno :: "int \<Rightarrow> (client, unit) state" where
  "set_errno n = modify (errno_update (\<lambda>_. n))"

definition close_fd :: "int \<Rightarrow> (client, unit) state" where
  "close_fd fd = clog_event (CClose fd)"

subsection \<open>FwmarkClient\<close>

definition shouldSetFwmark :: "kernel_io \<Rightarrow> int \<Rightarrow> bool" where
  "shouldSetFwmark k family \<longleftrightarrow>
     (family = uint AF_INET \<or> family = uint AF_INET6) \<and> k_getenv k ''ANDROID_NO_USE_FWMARK_CLIENT'' = None"

text \<open>\<^verbatim>\<open>int error = 0\<close>, of which \<^verbatim>\<open>recv\<close> overwrites as many bytes as arrive.\<close>

definition received_error :: "bytes \<Rightarrow> int" where
  "received_error bs = sint (rd32 (take 4 bs @ drop (length bs) (le32 0)))"

text \<open>
  The temporary object \<^verbatim>\<open>FwmarkClient()\<close> with its destructor, and \<^verbatim>\<open>send\<close>. The message is the memory of the
  command and the descriptor.
\<close>

definition FwmarkClient_send :: "kernel_io \<Rightarrow> FwmarkCommand \<Rightarrow> int \<Rightarrow> (client, int) state" where
  "FwmarkClient_send k command fd = do {
     h \<leftarrow> gets clog;
     let mChannel = k_channel k h;
     clog_event (CChannel mChannel);
     h \<leftarrow> gets clog;
     error \<leftarrow> (if mChannel = - 1 then ret (- k_errno k h)
               else if \<not> k_reach k h then ret 0
               else if \<not> k_sendmsg k h (command_bytes command) fd then ret (- k_errno k h)
               else case k_recv k h (command_bytes command) fd of
                 None \<Rightarrow> ret (- k_errno k h)
               | Some bs \<Rightarrow> do {
                   clog_event (CCommand command fd (received_error bs));
                   ret (received_error bs) });
     (if mChannel \<ge> 0 then close_fd mChannel else ret ());
     ret error }"

subsection \<open>The wrapped functions\<close>

definition closeFdAndSetErrno :: "int \<Rightarrow> int \<Rightarrow> (client, int) state" where
  "closeFdAndSetErrno fd err = do { close_fd fd; set_errno (- err); ret (- 1) }"

definition setNetworkForSocket :: "kernel_io \<Rightarrow> u32 \<Rightarrow> int \<Rightarrow> (client, int) state" where
  "setNetworkForSocket k n socketFd =
     (if socketFd < 0 then ret (- EBADF)
      else FwmarkClient_send k \<lparr>cmdId = SELECT_NETWORK, cmd_netId = n, cmd_uid = 0\<rparr> socketFd)"

text \<open>
  \<^verbatim>\<open>addr\<close> says whether the caller passed an address to be filled in. \<^const>\<open>None\<close> is a call through a NULL
  pointer.
\<close>

definition netdClientAccept4 :: "kernel_io \<Rightarrow> int \<Rightarrow> bool \<Rightarrow> (client, int option) state" where
  "netdClientAccept4 k sockfd addr = do {
     f \<leftarrow> gets libcAccept4;
     h \<leftarrow> gets clog;
     case f of
       None \<Rightarrow> ret None
     | Some callee \<Rightarrow> do {
         let (acceptedSocket, sa_family) = k_accept4 k h callee sockfd;
         clog_event (CAccept callee acceptedSocket);
         if acceptedSocket = - 1 then ret (Some (- 1))
         else do {
           h \<leftarrow> gets clog;
           case (if addr then Some sa_family else k_domain k h acceptedSocket) of
             None \<Rightarrow> do {
               err \<leftarrow> get_errno k;
               r \<leftarrow> closeFdAndSetErrno acceptedSocket (- err);
               ret (Some r) }
           | Some family \<Rightarrow>
               if shouldSetFwmark k family then do {
                 error \<leftarrow> FwmarkClient_send k \<lparr>cmdId = ON_ACCEPT, cmd_netId = 0, cmd_uid = 0\<rparr> acceptedSocket;
                 if error \<noteq> 0 then do { r \<leftarrow> closeFdAndSetErrno acceptedSocket error; ret (Some r) }
                 else ret (Some acceptedSocket) }
               else ret (Some acceptedSocket) } } }"

text \<open>\<^verbatim>\<open>addr\<close>: the family of the address, \<^const>\<open>None\<close> for NULL. Reading the family of NULL has no result.\<close>

definition netdClientConnect :: "kernel_io \<Rightarrow> int \<Rightarrow> int option \<Rightarrow> (client, int option) state" where
  "netdClientConnect k sockfd addr = do {
     error \<leftarrow> (if sockfd \<ge> 0 \<and> (case addr of None \<Rightarrow> False | Some family \<Rightarrow> shouldSetFwmark k family)
               then FwmarkClient_send k \<lparr>cmdId = ON_CONNECT, cmd_netId = 0, cmd_uid = 0\<rparr> sockfd
               else ret 0);
     if error \<noteq> 0 then do { set_errno (- error); ret (Some (- 1)) }
     else do {
       vendor \<leftarrow> gets propConnect;
       libc \<leftarrow> gets libcConnect;
       h \<leftarrow> gets clog;
       let call = (\<lambda>callee. do {
         let r = k_connect k h callee sockfd;
         clog_event (CConnect callee sockfd r);
         ret (Some r) });
       case vendor of
         Some callee \<Rightarrow>
           (case addr of
              None \<Rightarrow> ret None
            | Some family \<Rightarrow>
                if shouldSetFwmark k family then call callee
                else case libc of None \<Rightarrow> ret None | Some callee \<Rightarrow> call callee)
       | None \<Rightarrow> (case libc of None \<Rightarrow> ret None | Some callee \<Rightarrow> call callee) } }"

definition open_socket :: "kernel_io \<Rightarrow> callee \<Rightarrow> int \<Rightarrow> (client, int) state" where
  "open_socket k callee domain = do {
     h \<leftarrow> gets clog;
     let fd = k_socket k h callee domain;
     clog_event (CSocket callee fd);
     ret fd }"

definition netdClientSocket :: "kernel_io \<Rightarrow> int \<Rightarrow> (client, int) state" where
  "netdClientSocket k domain = do {
     vendor \<leftarrow> gets propSocket;
     libc \<leftarrow> gets libcSocket;
     socketFd \<leftarrow> (case vendor of
         Some callee \<Rightarrow> open_socket k callee domain
       | None \<Rightarrow> (case libc of Some callee \<Rightarrow> open_socket k callee domain | None \<Rightarrow> ret (- 1)));
     if - 1 = socketFd then ret (- 1)
     else do {
       n \<leftarrow> gets netIdForProcess;
       if n \<noteq> NETID_UNSET \<and> shouldSetFwmark k domain then do {
         error \<leftarrow> setNetworkForSocket k n socketFd;
         if error \<noteq> 0 then closeFdAndSetErrno socketFd error else ret socketFd }
       else ret socketFd } }"

definition getNetworkForResolv :: "client \<Rightarrow> u32 \<Rightarrow> u32" where
  "getNetworkForResolv s n =
     (if n \<noteq> NETID_UNSET then n
      else if netIdForProcess s \<noteq> NETID_UNSET then netIdForProcess s
      else netIdForResolv s)"

text \<open>
  The pointer \<^verbatim>\<open>target\<close> is the update of the variable it points at. Where libc has not been hooked, \<^verbatim>\<open>socket()\<close>
  itself is called.
\<close>

definition setNetworkForTarget :: "kernel_io \<Rightarrow> u32 \<Rightarrow> (u32 \<Rightarrow> client \<Rightarrow> client) \<Rightarrow> (client, int) state" where
  "setNetworkForTarget k n target =
     (if n = NETID_UNSET then do { modify (target n); ret 0 }
      else do {
        f \<leftarrow> gets libcSocket;
        socketFd \<leftarrow> open_socket k (case f of Some callee \<Rightarrow> callee | None \<Rightarrow> LibcFn) (uint AF_INET6);
        if socketFd < 0 then do { err \<leftarrow> get_errno k; ret (- err) }
        else do {
          error \<leftarrow> setNetworkForSocket k n socketFd;
          (if error = 0 then modify (target n) else ret ());
          close_fd socketFd;
          ret error } })"

definition setNetworkForProcess :: "kernel_io \<Rightarrow> u32 \<Rightarrow> (client, int) state" where
  "setNetworkForProcess k n = setNetworkForTarget k n (\<lambda>n. netIdForProcess_update (\<lambda>_. n))"

definition setNetworkForResolv :: "kernel_io \<Rightarrow> u32 \<Rightarrow> (client, int) state" where
  "setNetworkForResolv k n = setNetworkForTarget k n (\<lambda>n. netIdForResolv_update (\<lambda>_. n))"

definition getNetworkForProcess :: "client \<Rightarrow> u32" where
  "getNetworkForProcess s = netIdForProcess s"

text \<open>The result and, on success, what is stored in \<^verbatim>\<open>*netId\<close>; \<open>out\<close> says whether that pointer is not NULL.\<close>

definition getNetworkForSocket :: "kernel_io \<Rightarrow> bool \<Rightarrow> int \<Rightarrow> (client, int \<times> u32 option) state" where
  "getNetworkForSocket k out socketFd =
     (if \<not> out \<or> socketFd < 0 then ret (- EBADF, None)
      else do {
        h \<leftarrow> gets clog;
        case k_mark k h socketFd of
          None \<Rightarrow> ret (- k_errno k h, None)
        | Some m \<Rightarrow> ret (0, Some (ucast (netId (fwmark_of m)))) })"

definition protectFromVpn :: "kernel_io \<Rightarrow> int \<Rightarrow> (client, int) state" where
  "protectFromVpn k socketFd =
     (if socketFd < 0 then ret (- EBADF)
      else FwmarkClient_send k \<lparr>cmdId = PROTECT_FROM_VPN, cmd_netId = 0, cmd_uid = 0\<rparr> socketFd)"

definition setNetworkForUser :: "kernel_io \<Rightarrow> uid \<Rightarrow> int \<Rightarrow> (client, int) state" where
  "setNetworkForUser k u socketFd =
     (if socketFd < 0 then ret (- EBADF)
      else FwmarkClient_send k \<lparr>cmdId = SELECT_FOR_USER, cmd_netId = 0, cmd_uid = u\<rparr> socketFd)"

subsection \<open>Initialisation\<close>

text \<open>
  The argument is a pointer (\<^const>\<open>None\<close> for NULL) to a function pointer; the result is what it holds
  afterwards.
\<close>

definition netdClientInitAccept4 :: "callee option option \<Rightarrow> (client, callee option option) state" where
  "netdClientInitAccept4 f =
     (case f of
        Some (Some callee) \<Rightarrow> do {
          modify (libcAccept4_update (\<lambda>_. Some callee));
          ret (Some (Some NetdClientFn)) }
      | _ \<Rightarrow> ret f)"

definition open_vendor_library :: "kernel_io \<Rightarrow> (client, bool) state" where
  "open_vendor_library k = do {
     handle \<leftarrow> gets propClientHandle;
     (if \<not> handle then modify (propClientHandle_update (\<lambda>_. k_dlopen k ''libvendorconn.so'')) else ret ());
     gets propClientHandle }"

definition netdClientInitConnect :: "kernel_io \<Rightarrow> callee option option \<Rightarrow> (client, callee option option) state" where
  "netdClientInitConnect k f = do {
     f' \<leftarrow> (case f of
         Some (Some callee) \<Rightarrow> do {
           modify (libcConnect_update (\<lambda>_. Some callee));
           ret (Some (Some NetdClientFn)) }
       | _ \<Rightarrow> ret f);
     handle \<leftarrow> open_vendor_library k;
     if \<not> handle then ret f'
     else do {
       modify (propConnect_update (\<lambda>_. if k_dlsym k ''vendorConnect'' then Some VendorFn else None));
       modify (setConnect_update (\<lambda>_. k_dlsym k ''setConnectFunc''));
       hook \<leftarrow> gets setConnect;
       libc \<leftarrow> gets libcConnect;
       (if hook \<and> libc \<noteq> None then clog_event (CVendorHook ''setConnectFunc'' libc) else ret ());
       ret f' } }"

definition netdClientInitSocket :: "kernel_io \<Rightarrow> callee option option \<Rightarrow> (client, callee option option) state" where
  "netdClientInitSocket k f = do {
     f' \<leftarrow> (case f of
         Some (Some callee) \<Rightarrow> do {
           modify (libcSocket_update (\<lambda>_. Some callee));
           ret (Some (Some NetdClientFn)) }
       | _ \<Rightarrow> ret f);
     handle \<leftarrow> open_vendor_library k;
     if \<not> handle then ret f'
     else do {
       modify (propSocket_update (\<lambda>_. if k_dlsym k ''vendorSocket'' then Some VendorFn else None));
       modify (setSocket_update (\<lambda>_. k_dlsym k ''setSocketFunc''));
       hook \<leftarrow> gets setSocket;
       libc \<leftarrow> gets libcSocket;
       (if hook \<and> libc \<noteq> None then clog_event (CVendorHook ''setSocketFunc'' libc) else ret ());
       ret f' } }"

text \<open>\<^verbatim>\<open>*function = getNetworkForResolv\<close>, unless the pointer is NULL.\<close>

definition netdClientInitNetIdForResolv :: "callee option option \<Rightarrow> callee option option" where
  "netdClientInitNetIdForResolv f = (case f of None \<Rightarrow> None | Some _ \<Rightarrow> Some (Some NetdClientFn))"

section \<open>Lemmas\<close>

text \<open>The descriptors that the process has obtained from this library and not closed.\<close>

fun held :: "cevent list \<Rightarrow> int multiset" where
  "held [] = {#}"
| "held (CAccept _ fd # h) = (if fd \<ge> 0 then add_mset fd (held h) else held h)"
| "held (CSocket _ fd # h) = (if fd \<ge> 0 then add_mset fd (held h) else held h)"
| "held (CChannel fd # h) = (if fd \<ge> 0 then add_mset fd (held h) else held h)"
| "held (CClose fd # h) = held h - {#fd#}"
| "held (_ # h) = held h"

text \<open>Documented results of the system calls: a descriptor or -1, and a positive errno after a failure.\<close>

definition wf_kernel :: "kernel_io \<Rightarrow> bool" where
  "wf_kernel k \<longleftrightarrow> (\<forall>h. k_errno k h > 0) \<and> (\<forall>h f fd. fst (k_accept4 k h f fd) \<ge> - 1) \<and> (\<forall>h f d. k_socket k h f d \<ge> - 1)"

lemma run_client_basic [run_simps]:
  "run_state (clog_event ev) s = ((), s\<lparr>clog := ev # clog s\<rparr>)"
  "run_state (get_errno k) s = (k_errno k (clog s), s)"
  "run_state (set_errno n) s = ((), s\<lparr>errno := n\<rparr>)"
  "run_state (close_fd fd) s = ((), s\<lparr>clog := CClose fd # clog s\<rparr>)"
  "run_state (closeFdAndSetErrno fd err) s = (- 1, s\<lparr>clog := CClose fd # clog s, errno := - err\<rparr>)"
  "run_state (open_socket k f d) s =
     (k_socket k (clog s) f d, s\<lparr>clog := CSocket f (k_socket k (clog s) f d) # clog s\<rparr>)"
  by (simp_all add: clog_event_def get_errno_def set_errno_def close_fd_def closeFdAndSetErrno_def open_socket_def
      Let_def run_simps)

lemma send_frame:
  assumes "run_state (FwmarkClient_send k c fd) s = (r, s')"
  shows "\<exists>h. s' = s\<lparr>clog := h\<rparr> \<and> held h = held (clog s)"
  using assms
  by (cases s) (auto simp: FwmarkClient_send_def run_simps Let_def split: if_splits option.splits prod.splits)

lemma setNetworkForSocket_frame:
  assumes "run_state (setNetworkForSocket k n fd) s = (r, s')"
  shows "\<exists>h. s' = s\<lparr>clog := h\<rparr> \<and> held h = held (clog s)"
  using assms by (cases s) (auto simp: setNetworkForSocket_def run_simps split: if_splits dest!: send_frame)

lemma setNetworkForTarget_run:
  assumes "wf_kernel k" and "run_state (setNetworkForTarget k n target) s = (r, s')"
    and target: "\<And>n h s. target n (s\<lparr>clog := h\<rparr>) = (target n s)\<lparr>clog := h\<rparr>" "\<And>n s. clog (target n s) = clog s"
  shows "\<exists>h. s' = (if r = 0 then target n s else s)\<lparr>clog := h\<rparr> \<and> held h = held (clog s)"
proof (cases "n = NETID_UNSET")
  case True
  then have "r = 0" "s' = target n s" using assms(2) by (simp_all add: setNetworkForTarget_def run_simps)
  then show ?thesis using target(2) [of n s] by (intro exI [of _ "clog s"]) (simp flip: target(1))
next
  case False
  let ?f = "case libcSocket s of Some callee \<Rightarrow> callee | None \<Rightarrow> LibcFn"
  let ?fd = "k_socket k (clog s) ?f (uint AF_INET6)"
  let ?s1 = "s\<lparr>clog := CSocket ?f ?fd # clog s\<rparr>"
  show ?thesis
  proof (cases "?fd < 0")
    case True
    moreover have "k_errno k h > 0" for h using assms(1) by (simp add: wf_kernel_def)
    ultimately show ?thesis
      using assms(2) False by (auto simp: setNetworkForTarget_def run_simps less_le cong: option.case_cong)
  next
    case nonneg: False
    obtain r1 s2 where m: "run_state (setNetworkForSocket k n ?fd) ?s1 = (r1, s2)" by fastforce
    obtain h where h: "s2 = ?s1\<lparr>clog := h\<rparr>" "held h = add_mset ?fd (held (clog s))"
      using setNetworkForSocket_frame [OF m] nonneg by auto
    have "r = r1" "s' = (if r1 = 0 then target n s2 else s2)\<lparr>clog := CClose ?fd # h\<rparr>"
      using assms(2) False nonneg m h(1) by (auto simp: setNetworkForTarget_def run_simps target split: if_splits)
    then show ?thesis using h by (intro exI [of _ "CClose ?fd # h"]) (simp add: target)
  qed
qed

lemma process_resolv_run:
  assumes "wf_kernel k"
  shows "run_state (setNetworkForProcess k n) s = (r, s') \<Longrightarrow>
           \<exists>h. s' = (if r = 0 then s\<lparr>netIdForProcess := n\<rparr> else s)\<lparr>clog := h\<rparr> \<and> held h = held (clog s)"
    and "run_state (setNetworkForResolv k n) s = (r, s') \<Longrightarrow>
           \<exists>h. s' = (if r = 0 then s\<lparr>netIdForResolv := n\<rparr> else s)\<lparr>clog := h\<rparr> \<and> held h = held (clog s)"
  unfolding setNetworkForProcess_def setNetworkForResolv_def
  by (drule setNetworkForTarget_run [OF assms]; simp)+

lemma socket_held:
  assumes "wf_kernel k" and "run_state (netdClientSocket k d) s = (r, s')"
  shows "held (clog s') = held (clog s) + (if r = - 1 then {#} else {#r#})"
proof -
  have ge: "k_socket k h f d \<ge> - 1" for h f d using assms(1) by (simp add: wf_kernel_def)
  have neg: "k_socket k h f d \<noteq> - 1 \<Longrightarrow> k_socket k h f d \<ge> 0" for h f d using ge [of h f d] by linarith
  show ?thesis
    using assms(2) neg
    by (auto simp: netdClientSocket_def run_simps split: option.splits if_splits prod.splits
        dest!: setNetworkForSocket_frame)
qed

lemma accept_held:
  assumes "wf_kernel k" and "run_state (netdClientAccept4 k fd addr) s = (Some r, s')"
  shows "held (clog s') = held (clog s) + (if r = - 1 then {#} else {#r#})"
proof -
  have ge: "fst (k_accept4 k h f fd) \<ge> - 1" for h f fd using assms(1) by (simp add: wf_kernel_def)
  have neg: "k_accept4 k h f fd = (a, b) \<Longrightarrow> a \<noteq> - 1 \<Longrightarrow> a \<ge> 0" for h f fd a b using ge [of h f fd] by simp
  show ?thesis
    using assms(2) neg
    by (auto simp: netdClientAccept4_def run_simps Let_def split: option.splits if_splits prod.splits dest!: send_frame)
qed

lemma checkUserNetworkAccess_values:
  "checkUserNetworkAccess s uid n = Some a \<Longrightarrow> a \<in> {0, - ENONET, - EREMOTEIO, - EPERM, - EACCES}"
  by (auto simp: checkUserNetworkAccess_def Let_def split: option.splits network.splits if_splits)

lemma received_error_reply:
  "- (2 ^ 31) \<le> a \<Longrightarrow> a < 2 ^ 31 \<Longrightarrow> received_error (le32 (word_of_int a)) = a"
  by (simp add: received_error_def signed_of_int signed_take_bit_int_eq_self)

text \<open>
  A process of user \<open>u\<close> whose channel leads to a server in state \<open>s\<close>. A descriptor \<open>fd\<close> of the process
  arrives there as \<open>dup fd\<close>. Nothing is said about requests for which the server has no defined behaviour.
\<close>

definition connected :: "kernel_io \<Rightarrow> 'a nc_scheme \<Rightarrow> mark_io \<Rightarrow> uid \<Rightarrow> (int \<Rightarrow> int) \<Rightarrow> bool" where
  "connected k s io u dup \<longleftrightarrow>
     (\<forall>h. k_channel k h \<ge> 0 \<and> k_reach k h) \<and> (\<forall>h bs fd. k_sendmsg k h bs fd) \<and>
     (\<forall>h bs fd reply rest. onDataAvailable s io u (RecvData 0 bs (Some (dup fd))) = Some (reply, rest) \<longrightarrow>
        k_recv k h bs fd = Some reply)"

text \<open>Sockets whose marks the server can read and write.\<close>

definition markable :: "mark_io \<Rightarrow> (int \<Rightarrow> int) \<Rightarrow> bool" where
  "markable io dup \<longleftrightarrow> (\<forall>fd \<ge> 0. dup fd \<ge> 0 \<and> (\<exists>m. get_mark io (dup fd) = Inr m) \<and> (\<forall>m. set_mark io (dup fd) m = None))"

lemma send_select:
  assumes "connected k s io u dup" and "markable io dup" and "fd \<ge> 0" and "n \<noteq> NETID_UNSET"
    and "checkUserNetworkAccess s u n = Some a"
  shows "fst (run_state (setNetworkForSocket k n fd) c) = a"
proof -
  let ?c = "\<lparr>cmdId = SELECT_NETWORK, cmd_netId = n, cmd_uid = 0\<rparr>"
  obtain m where m: "get_mark io (dup fd) = Inr m" "dup fd \<ge> 0" "\<And>m. set_mark io (dup fd) m = None"
    using assms(2,3) by (auto simp: markable_def)
  have "\<exists>w. processClient s io u (RecvData 0 (command_bytes ?c) (Some (dup fd))) = Some (a, w)"
    using m assms(4,5) by (auto simp: processClient_def apply_command_def command_defs Let_def)
  then have "\<exists>rest. onDataAvailable s io u (RecvData 0 (command_bytes ?c) (Some (dup fd))) =
      Some (le32 (word_of_int a), rest)"
    by (auto simp: onDataAvailable_def Let_def)
  then obtain rest where "onDataAvailable s io u (RecvData 0 (command_bytes ?c) (Some (dup fd))) =
      Some (le32 (word_of_int a), rest)" by blast
  then have "k_recv k h (command_bytes ?c) fd = Some (le32 (word_of_int a))" for h
    using assms(1) unfolding connected_def by blast
  moreover have "received_error (le32 (word_of_int a)) = a"
    using checkUserNetworkAccess_values [OF assms(5)] by (intro received_error_reply) (auto simp: errno_defs)
  moreover have "k_channel k h \<ge> 0" "k_reach k h" "k_sendmsg k h bs fd" for h bs
    using assms(1) by (auto simp: connected_def)
  moreover have "k_channel k h \<noteq> - 1" for h
    using calculation(3) [of h] by linarith
  ultimately show ?thesis
    using assms(3) by (simp add: setNetworkForSocket_def FwmarkClient_send_def run_simps Let_def)
qed

section \<open>Properties\<close>

text \<open>
  C7: Choosing a network for the process goes through all three parts: the call returns the verdict of the
  daemon's access check for the process's user, and the network takes effect, for new sockets and for
  name resolution, exactly when the check grants access.
\<close>

theorem setNetworkForProcess_end_to_end:
  assumes "wf_kernel k" and "connected k s io u dup" and "markable io dup" and "\<And>h f d. k_socket k h f d \<ge> 0"
    and "n \<noteq> NETID_UNSET" and "checkUserNetworkAccess s u n = Some access"
    and "run_state (setNetworkForProcess k n) c = (r, c')"
  shows "r = access \<and> getNetworkForProcess c' = (if access = 0 then n else getNetworkForProcess c) \<and>
         (access = 0 \<longrightarrow> getNetworkForResolv c' NETID_UNSET = n)"
proof -
  let ?f = "case libcSocket c of Some callee \<Rightarrow> callee | None \<Rightarrow> LibcFn"
  let ?fd = "k_socket k (clog c) ?f (uint AF_INET6)"
  have fd: "?fd \<ge> 0" by (rule assms(4))
  have "fst (run_state (setNetworkForSocket k n ?fd) c1) = access" for c1
    by (rule send_select [OF assms(2,3) fd assms(5,6)])
  then have "r = access"
    using assms(5,7) fd
    by (auto simp: setNetworkForProcess_def setNetworkForTarget_def run_simps split: prod.splits if_splits)
      (metis fst_conv)+
  then show ?thesis
    using process_resolv_run(1) [OF assms(1,7)] assms(5) by (auto simp: getNetworkForProcess_def getNetworkForResolv_def)
qed

definition sample_kernel :: kernel_io where
  "sample_kernel =
     \<lparr>k_accept4 = (\<lambda>h f fd. (8, uint AF_INET)), k_connect = (\<lambda>h f fd. 0), k_socket = (\<lambda>h f d. 9),
      k_domain = (\<lambda>h fd. Some (uint AF_INET)), k_mark = (\<lambda>h fd. Some 0), k_errno = (\<lambda>h. EPERM),
      k_getenv = (\<lambda>v. None), k_channel = (\<lambda>h. 3), k_reach = (\<lambda>h. True), k_sendmsg = (\<lambda>h bs fd. True),
      k_recv = (\<lambda>h bs fd. map_option fst (onDataAvailable sample_nc sample_io 10001 (RecvData 0 bs (Some fd)))),
      k_dlopen = (\<lambda>l. False), k_dlsym = (\<lambda>n. False)\<rparr>"

definition sample_client :: client where
  "sample_client =
     \<lparr>clog = [], errno = 0, netIdForProcess = 0, netIdForResolv = 0, libcAccept4 = Some LibcFn,
      libcConnect = Some LibcFn, libcSocket = Some LibcFn, propConnect = None, propSocket = None,
      setConnect = False, setSocket = False, propClientHandle = False\<rparr>"

lemma sample_kernel_ok: "wf_kernel sample_kernel" "connected sample_kernel sample_nc sample_io 10001 (\<lambda>fd. fd)"
  "markable sample_io (\<lambda>fd. fd)" "k_socket sample_kernel h f d \<ge> 0"
  by (auto simp: wf_kernel_def connected_def markable_def sample_kernel_def sample_io_def errno_defs)

theorem setNetworkForProcess_end_to_end_witness:
  "getNetworkForProcess (snd (run_state (setNetworkForProcess sample_kernel 102) sample_client)) = 102"
  using setNetworkForProcess_end_to_end [OF sample_kernel_ok _ sample_access(1) prod.collapse [symmetric]]
  by (simp add: NETID_UNSET_def)

text \<open>
  C20: The library loses no descriptor: choosing a network leaves the open descriptors as they were, and the
  wrapped \<^verbatim>\<open>socket\<close> and \<^verbatim>\<open>accept4\<close> leave exactly the one they return, on every error path.
\<close>

theorem no_descriptor_leak:
  assumes "wf_kernel k"
  shows "(run_state (setNetworkForProcess k n) c = (r, c') \<longrightarrow> held (clog c') = held (clog c)) \<and>
         (run_state (setNetworkForResolv k n) c = (r, c') \<longrightarrow> held (clog c') = held (clog c)) \<and>
         (run_state (netdClientSocket k d) c = (r, c') \<longrightarrow>
            held (clog c') = held (clog c) + (if r = - 1 then {#} else {#r#})) \<and>
         (run_state (netdClientAccept4 k fd addr) c = (Some r, c') \<longrightarrow>
            held (clog c') = held (clog c) + (if r = - 1 then {#} else {#r#}))"
proof (intro conjI impI)
  show "run_state (setNetworkForProcess k n) c = (r, c') \<Longrightarrow> held (clog c') = held (clog c)"
    by (drule process_resolv_run(1) [OF assms]) auto
  show "run_state (setNetworkForResolv k n) c = (r, c') \<Longrightarrow> held (clog c') = held (clog c)"
    by (drule process_resolv_run(2) [OF assms]) auto
qed (rule socket_held [OF assms] accept_held [OF assms], assumption)+

theorem no_descriptor_leak_witness:
  "held (clog (snd (run_state (setNetworkForProcess sample_kernel 102) sample_client))) = {#}"
  using no_descriptor_leak [OF sample_kernel_ok(1), of 102 sample_client] prod.collapse
  by (metis client.select_convs(1) held.simps(1) sample_client_def)

text \<open>
  The networks of the process change only when the call reports success, each call changes only its own,
  and an explicit choice wins over the process's network, which wins over the one for name resolution.
\<close>

theorem resolv_precedence:
  assumes "wf_kernel k" and "run_state (setNetworkForProcess k p) c = (r1, c1)"
    and "run_state (setNetworkForResolv k q) c1 = (r2, c2)"
  shows "getNetworkForResolv c2 n =
           (let process = if r1 = 0 then p else netIdForProcess c;
                resolv = if r2 = 0 then q else netIdForResolv c
            in if n \<noteq> NETID_UNSET then n else if process \<noteq> NETID_UNSET then process else resolv)"
  using process_resolv_run(1) [OF assms(1,2)] process_resolv_run(2) [OF assms(1,3)]
  by (auto simp: getNetworkForResolv_def Let_def)

theorem resolv_precedence_witness:
  "getNetworkForResolv (snd (run_state (setNetworkForResolv sample_kernel NETID_UNSET)
      (snd (run_state (setNetworkForProcess sample_kernel NETID_UNSET) sample_client)))) 5 = 5"
  using resolv_precedence [OF sample_kernel_ok(1) prod.collapse [symmetric] prod.collapse [symmetric],
      of NETID_UNSET NETID_UNSET sample_client 5]
  by (simp add: NETID_UNSET_def)

text \<open>
  The wrapped \<^verbatim>\<open>connect\<close>, installed over libc's, reads the family of a NULL address exactly when the vendor
  library provides a \<^verbatim>\<open>connect\<close>; in all other cases it returns.
\<close>

theorem connect_null_address:
  assumes "libcConnect c \<noteq> None"
  shows "fst (run_state (netdClientConnect k fd addr) c) = None \<longleftrightarrow> addr = None \<and> propConnect c \<noteq> None"
proof -
  have frame: "libcConnect c' = libcConnect c \<and> propConnect c' = propConnect c"
    if "run_state (FwmarkClient_send k m fd) c = (r, c')" for m r c'
    using send_frame [OF that] by auto
  show ?thesis
    using assms
    by (auto simp: netdClientConnect_def run_simps Let_def split: option.splits if_splits prod.splits dest!: frame)
qed

theorem connect_null_address_witness:
  "fst (run_state (netdClientConnect sample_kernel 5 None) (sample_client\<lparr>propConnect := Some VendorFn\<rparr>)) = None"
  by (subst connect_null_address) (simp_all add: sample_client_def)

end
