(* ===== verification/Iptables.thy ===== *)
theory Iptables
  imports NetdConstants
begin

text \<open>
  What the daemon's iptables commands do to the kernel's chains, as iptables documents it: a specification
  in which the controllers that run iptables are judged, not a model of code of the repository. A command
  that the program has acknowledged with exit status 0 appends, inserts or deletes a rule, or flushes a
  chain; any other has no effect. A rule is the list of its arguments.
\<close>

section \<open>Chains\<close>

text \<open>The program (and with it the IP version), the table and the name identify a chain.\<close>

type_synonym chain_id = "string \<times> string \<times> string"
type_synonym rule_args = "string list"
type_synonym chains = "chain_id \<Rightarrow> rule_args list"

definition skip_wait :: "string list \<Rightarrow> string list" where
  "skip_wait args = (case args of a # r \<Rightarrow> if a = ''-w'' then r else args | [] \<Rightarrow> [])"

definition take_table :: "string list \<Rightarrow> string \<times> string list" where
  "take_table args = (case args of a # t # r \<Rightarrow> if a = ''-t'' then (t, r) else (''filter'', args) | _ \<Rightarrow> (''filter'', args))"

text \<open>A rule number after the chain's name of \<^verbatim>\<open>-I\<close>, counted from 1.\<close>

definition take_position :: "string list \<Rightarrow> nat \<times> string list" where
  "take_position args =
     (case args of a # r \<Rightarrow> if a \<noteq> [] \<and> list_all isdigit a then (fst (take_digits 10 0 a) - 1, r) else (0, args)
      | [] \<Rightarrow> (0, []))"

definition ipt_change :: "string \<Rightarrow> string list \<Rightarrow> rule_args list \<Rightarrow> rule_args list" where
  "ipt_change op rule rs =
     (if op = ''-A'' then rs @ [rule]
      else if op = ''-I'' then (case take_position rule of (n, r) \<Rightarrow> take n rs @ r # drop n rs)
      else if op = ''-D'' then remove1 rule rs
      else if op = ''-F'' \<or> op = ''-X'' then []
      else rs)"

definition ipt_run :: "string list \<Rightarrow> chains \<Rightarrow> chains" where
  "ipt_run argv c =
     (case argv of
        [] \<Rightarrow> c
      | path # args \<Rightarrow>
          (case take_table (skip_wait args) of
             (table, op # chain # rule) \<Rightarrow>
               if path = IPTABLES_PATH \<or> path = IP6TABLES_PATH
               then c((path, table, chain) := ipt_change op rule (c (path, table, chain))) else c
           | _ \<Rightarrow> c))"

definition exec_ok :: "int \<Rightarrow> u32 \<Rightarrow> bool" where
  "exec_ok res status \<longleftrightarrow> res = 0 \<and> WIFEXITED status \<and> WEXITSTATUS status = 0"

fun ipt_event :: "event \<Rightarrow> chains \<Rightarrow> chains" where
  "ipt_event (EvExec argv res status) c = (if exec_ok res status then ipt_run argv c else c)"
| "ipt_event (EvRun argv res) c = (if res = 0 then ipt_run argv c else c)"
| "ipt_event _ c = c"

text \<open>The chains after a history, from those that the daemon found when it started.\<close>

primrec chains_of :: "chains \<Rightarrow> event list \<Rightarrow> chains" where
  "chains_of c0 [] = c0"
| "chains_of c0 (ev # h) = ipt_event ev (chains_of c0 h)"

abbreviation chains_at :: "chains \<Rightarrow> 'a sys_scheme \<Rightarrow> chains" where
  "chains_at c0 s \<equiv> chains_of c0 (hist s)"

section \<open>Evaluation\<close>

lemma take_position_option [simp]: "take_position ((CHR ''-'' # x) # r) = (0, (CHR ''-'' # x) # r)"
  by (simp add: take_position_def isdigit_def less_eq_char_def)

lemma ipt_run_filter [simp]:
  "op \<noteq> ''-t'' \<Longrightarrow> path = IPTABLES_PATH \<or> path = IP6TABLES_PATH \<Longrightarrow>
   ipt_run (path # ''-w'' # op # chain # rule) c =
     c((path, ''filter'', chain) := ipt_change op rule (c (path, ''filter'', chain)))"
  by (simp add: ipt_run_def skip_wait_def take_table_def)

lemma ipt_run_plain [simp]:
  "op \<noteq> ''-t'' \<Longrightarrow> op \<noteq> ''-w'' \<Longrightarrow> path = IPTABLES_PATH \<or> path = IP6TABLES_PATH \<Longrightarrow>
   ipt_run (path # op # chain # rule) c =
     c((path, ''filter'', chain) := ipt_change op rule (c (path, ''filter'', chain)))"
  by (simp add: ipt_run_def skip_wait_def take_table_def)

lemma ipt_run_table [simp]:
  "path = IPTABLES_PATH \<or> path = IP6TABLES_PATH \<Longrightarrow>
   ipt_run (path # ''-t'' # table # op # chain # rule) c =
     c((path, table, chain) := ipt_change op rule (c (path, table, chain)))"
  by (simp add: ipt_run_def skip_wait_def take_table_def)

section \<open>Invariants of the chains\<close>

lemma run_execIptablesCommand:
  "run_state (execIptablesCommand e argv) s = (r, s') \<Longrightarrow>
     \<exists>ev. s' = s\<lparr>hist := ev # hist s\<rparr> \<and> ipt_event ev = (if r = 0 then ipt_run argv else (\<lambda>c. c))"
  by (auto simp: execIptablesCommand_def run_simps exec_ok_def errno_defs fun_eq_iff split: prod.splits if_splits)

lemma run_execvp0_chains:
  "run_state (fork_execvp0 e argv) s = (r, s') \<Longrightarrow>
     \<exists>ev. s' = s\<lparr>hist := ev # hist s\<rparr> \<and> ipt_event ev = (if r = 0 then ipt_run argv else (\<lambda>c. c))"
  by (auto simp: run_simps fun_eq_iff)

lemma keeps_chains_command:
  "(\<And>c. I c \<Longrightarrow> I (ipt_run argv c)) \<Longrightarrow> keeps (\<lambda>s. I (chains_at c0 s)) (execIptablesCommand e argv)"
  by (rule hoareI) (auto dest!: run_execIptablesCommand)

lemma keeps_chains_execvp0:
  "(\<And>c. I c \<Longrightarrow> I (ipt_run argv c)) \<Longrightarrow> keeps (\<lambda>s. I (chains_at c0 s)) (fork_execvp0 e argv)"
  by (rule hoareI) (auto dest!: run_execvp0_chains)

lemma keeps_chains_execIptables:
  assumes "\<And>path c. path = IPTABLES_PATH \<or> path = IP6TABLES_PATH \<Longrightarrow> I c \<Longrightarrow> I (ipt_run (path # args) c)"
  shows "keeps (\<lambda>s. I (chains_at c0 s)) (execIptables e t args)"
  unfolding execIptables_def using assms by (intro wp_basic keeps_chains_command) auto

section \<open>Effects of success\<close>

text \<open>Whenever \<open>m\<close> returns 0, it has changed the chains by \<open>f\<close>.\<close>

definition ipt_effect :: "('a sys_scheme, int) state \<Rightarrow> (chains \<Rightarrow> chains) \<Rightarrow> bool" where
  "ipt_effect m f \<longleftrightarrow> (\<forall>s s' c0. run_state m s = (0, s') \<longrightarrow> chains_at c0 s' = f (chains_at c0 s))"

lemma ipt_effectD: "ipt_effect m f \<Longrightarrow> run_state m s = (0, s') \<Longrightarrow> chains_at c0 s' = f (chains_at c0 s)"
  by (simp add: ipt_effect_def)

named_theorems ipt_effects "effects of successful operations on the chains"

lemma effect_execIptablesCommand [ipt_effects]: "ipt_effect (execIptablesCommand e argv) (ipt_run argv)"
  by (auto simp: ipt_effect_def dest!: run_execIptablesCommand)

lemma effect_fork_execvp0 [ipt_effects]: "ipt_effect (fork_execvp0 e argv) (ipt_run argv)"
  by (auto simp: ipt_effect_def dest!: run_execvp0_chains)

lemma effect_ret [ipt_effects]: "ipt_effect (ret r) (\<lambda>c. c)"
  by (simp add: ipt_effect_def)

lemma effect_or [ipt_effects]:
  "ipt_effect m f \<Longrightarrow> ipt_effect k g \<Longrightarrow>
   ipt_effect (State_Monad.bind m (\<lambda>a. State_Monad.bind k (\<lambda>b. ret (a OR b)))) (\<lambda>c. g (f c))"
  by (auto simp: ipt_effect_def run_simps split: prod.splits)

lemma ipt_effect_if: "ipt_effect m f \<Longrightarrow> ipt_effect k g \<Longrightarrow> ipt_effect (if b then m else k) (if b then f else g)"
  by simp

lemma effect_or_all2:
  "ipt_effect m f \<Longrightarrow> ipt_effect k g \<Longrightarrow> ipt_effect (or_all [m, k]) (\<lambda>c. g (f c))"
  by (auto simp: ipt_effect_def run_simps split: prod.splits)

lemma effect_or_all3:
  "ipt_effect m f \<Longrightarrow> ipt_effect k g \<Longrightarrow> ipt_effect l h \<Longrightarrow> ipt_effect (or_all [m, k, l]) (\<lambda>c. h (g (f c)))"
  by (auto simp: ipt_effect_def run_simps split: prod.splits)

lemma effect_fail: "r \<noteq> 0 \<Longrightarrow> ipt_effect (ret r) f"
  by (simp add: ipt_effect_def)

lemma ipt_effect_ok_then: "ipt_effect m f \<Longrightarrow> ipt_effect k g \<Longrightarrow> ipt_effect (ok_then m k) (\<lambda>c. g (f c))"
  by (auto simp: ipt_effect_def run_simps split: prod.splits if_splits)

definition both_run :: "IptablesTarget \<Rightarrow> string list \<Rightarrow> chains \<Rightarrow> chains" where
  "both_run t args c =
     (let c4 = if t = V4 \<or> t = V4V6 then ipt_run (IPTABLES_PATH # args) c else c
      in if t = V6 \<or> t = V4V6 then ipt_run (IP6TABLES_PATH # args) c4 else c4)"

lemma effect_execIptables [ipt_effects]: "ipt_effect (execIptables e t args) (both_run t args)"
proof -
  let ?four = "t = V4 \<or> t = V4V6" and ?six = "t = V6 \<or> t = V4V6"
  have "ipt_effect (execIptables e t args)
      (\<lambda>c. (if ?six then ipt_run (IP6TABLES_PATH # args) else (\<lambda>c. c))
           ((if ?four then ipt_run (IPTABLES_PATH # args) else (\<lambda>c. c)) c))"
    unfolding execIptables_def by (intro effect_or ipt_effect_if ipt_effects)
  also have "(\<lambda>c. (if ?six then ipt_run (IP6TABLES_PATH # args) else (\<lambda>c. c))
           ((if ?four then ipt_run (IPTABLES_PATH # args) else (\<lambda>c. c)) c)) = both_run t args"
    by (auto simp: both_run_def fun_eq_iff)
  finally show ?thesis .
qed

end
