(* ===== verification/FirewallController.thy ===== *)
theory FirewallController
  imports Iptables
begin

text \<open>
  \<^verbatim>\<open>server/FirewallController.cpp\<close>: a firewall that rejects everything except what explicit rules allow.
  The controller keeps no state of its own; the chains \<^verbatim>\<open>fw_INPUT\<close>, \<^verbatim>\<open>fw_OUTPUT\<close> and \<^verbatim>\<open>fw_FORWARD\<close> are its
  state, and every operation is a sequence of iptables commands.
\<close>

section \<open>Model\<close>

definition fw_LOCAL_INPUT :: string where "fw_LOCAL_INPUT = ''fw_INPUT''"
definition fw_LOCAL_OUTPUT :: string where "fw_LOCAL_OUTPUT = ''fw_OUTPUT''"
definition fw_LOCAL_FORWARD :: string where "fw_LOCAL_FORWARD = ''fw_FORWARD''"

lemmas fw_chain_defs = fw_LOCAL_INPUT_def fw_LOCAL_OUTPUT_def fw_LOCAL_FORWARD_def

lemma fw_chains_distinct [simp]:
  "fw_LOCAL_INPUT \<noteq> fw_LOCAL_OUTPUT" "fw_LOCAL_OUTPUT \<noteq> fw_LOCAL_INPUT" "fw_LOCAL_INPUT \<noteq> fw_LOCAL_FORWARD"
  "fw_LOCAL_FORWARD \<noteq> fw_LOCAL_INPUT" "fw_LOCAL_OUTPUT \<noteq> fw_LOCAL_FORWARD" "fw_LOCAL_FORWARD \<noteq> fw_LOCAL_OUTPUT"
  by (simp_all add: fw_chain_defs)

datatype FirewallRule = ALLOW | DENY

definition disableFirewall :: "env \<Rightarrow> ('a sys_scheme, int) state" where
  "disableFirewall e =
     or_all [execIptables e V4V6 [''-w'', ''-F'', fw_LOCAL_INPUT],
             execIptables e V4V6 [''-w'', ''-F'', fw_LOCAL_OUTPUT],
             execIptables e V4V6 [''-w'', ''-F'', fw_LOCAL_FORWARD]]"

definition enableFirewall :: "env \<Rightarrow> ('a sys_scheme, int) state" where
  "enableFirewall e = do {
     _ \<leftarrow> disableFirewall e;
     or_all [execIptables e V4V6 [''-w'', ''-A'', fw_LOCAL_INPUT, ''-j'', ''DROP''],
             execIptables e V4V6 [''-w'', ''-A'', fw_LOCAL_OUTPUT, ''-j'', ''REJECT''],
             execIptables e V4V6 [''-w'', ''-A'', fw_LOCAL_FORWARD, ''-j'', ''REJECT'']] }"

definition isFirewallEnabled :: int where
  "isFirewallEnabled = - 1"

definition rule_op :: "FirewallRule \<Rightarrow> string" where
  "rule_op rule = (if rule = ALLOW then ''-I'' else ''-D'')"

definition setInterfaceRule :: "env \<Rightarrow> string \<Rightarrow> FirewallRule \<Rightarrow> ('a sys_scheme, int) state" where
  "setInterfaceRule e iface rule =
     (if \<not> isIfaceName iface then ret (- 1)
      else let op = rule_op rule in
        or_all [execIptables e V4V6 [''-w'', op, fw_LOCAL_INPUT, ''-i'', iface, ''-j'', ''RETURN''],
                execIptables e V4V6 [''-w'', op, fw_LOCAL_OUTPUT, ''-o'', iface, ''-j'', ''RETURN'']])"

definition addr_target :: "string \<Rightarrow> IptablesTarget" where
  "addr_target addr = (if strchr addr (CHR '':'') \<noteq> None then V6 else V4)"

definition setEgressSourceRule :: "env \<Rightarrow> string \<Rightarrow> FirewallRule \<Rightarrow> ('a sys_scheme, int) state" where
  "setEgressSourceRule e addr rule =
     (let target = addr_target addr; op = rule_op rule in
      or_all [execIptables e target [''-w'', op, fw_LOCAL_INPUT, ''-d'', addr, ''-j'', ''RETURN''],
              execIptables e target [''-w'', op, fw_LOCAL_OUTPUT, ''-s'', addr, ''-j'', ''RETURN'']])"

definition setEgressDestRule :: "env \<Rightarrow> string \<Rightarrow> int \<Rightarrow> int \<Rightarrow> FirewallRule \<Rightarrow> ('a sys_scheme, int) state" where
  "setEgressDestRule e addr protocol port rule =
     (let target = addr_target addr; protocolStr = fmt_d protocol; portStr = fmt_d port; op = rule_op rule in
      or_all [execIptables e target [''-w'', op, fw_LOCAL_INPUT, ''-s'', addr, ''-p'', protocolStr,
                ''--sport'', portStr, ''-j'', ''RETURN''],
              execIptables e target [''-w'', op, fw_LOCAL_OUTPUT, ''-d'', addr, ''-p'', protocolStr,
                ''--dport'', portStr, ''-j'', ''RETURN'']])"

definition setUidRule :: "env \<Rightarrow> int \<Rightarrow> FirewallRule \<Rightarrow> ('a sys_scheme, int) state" where
  "setUidRule e uid rule =
     (let uidStr = fmt_d uid; op = rule_op rule in
      or_all [execIptables e V4V6 [''-w'', op, fw_LOCAL_INPUT, ''-m'', ''owner'', ''--uid-owner'', uidStr,
                ''-j'', ''RETURN''],
              execIptables e V4V6 [''-w'', op, fw_LOCAL_OUTPUT, ''-m'', ''owner'', ''--uid-owner'', uidStr,
                ''-j'', ''RETURN'']])"

text \<open>A call of one of the four operations that change the rules of an enabled firewall.\<close>

datatype fw_call =
    InterfaceRule string FirewallRule
  | EgressSourceRule string FirewallRule
  | EgressDestRule string int int FirewallRule
  | UidRule int FirewallRule

fun fw_run :: "env \<Rightarrow> fw_call \<Rightarrow> ('a sys_scheme, int) state" where
  "fw_run e (InterfaceRule i r) = setInterfaceRule e i r"
| "fw_run e (EgressSourceRule a r) = setEgressSourceRule e a r"
| "fw_run e (EgressDestRule a p n r) = setEgressDestRule e a p n r"
| "fw_run e (UidRule u r) = setUidRule e u r"

primrec fw_runs :: "env \<Rightarrow> fw_call list \<Rightarrow> ('a sys_scheme, int list) state" where
  "fw_runs e [] = ret []"
| "fw_runs e (c # cs) = do { r \<leftarrow> fw_run e c; rs \<leftarrow> fw_runs e cs; ret (r # rs) }"

section \<open>Lemmas\<close>

text \<open>
  A rule of these chains is a condition followed by \<^verbatim>\<open>-j\<close> and a target. The verdict of a chain on a packet,
  given by the conditions that hold for it, is the target of the first rule whose condition holds.
\<close>

definition condition :: "rule_args \<Rightarrow> string list" where
  "condition r = take (length r - 2) r"

fun verdict :: "(string list \<Rightarrow> bool) \<Rightarrow> rule_args list \<Rightarrow> string option" where
  "verdict holds [] = None"
| "verdict holds (r # rs) = (if holds (condition r) then Some (last r) else verdict holds rs)"

text \<open>A chain that ends with the given target without condition and otherwise only returns.\<close>

definition allows_only :: "string \<Rightarrow> rule_args list \<Rightarrow> bool" where
  "allows_only target rs \<longleftrightarrow> (\<forall>r\<in>set rs. last r = ''RETURN'' \<or> r = [''-j'', target])"

definition sealed :: "string \<Rightarrow> rule_args list \<Rightarrow> bool" where
  "sealed target rs \<longleftrightarrow> allows_only target rs \<and> rs \<noteq> [] \<and> last rs = [''-j'', target]"

lemma sealed_verdict:
  assumes "sealed target rs" and "target \<noteq> ''RETURN''" and "holds []"
    and "\<forall>r\<in>set rs. last r = ''RETURN'' \<longrightarrow> \<not> holds (condition r)"
  shows "verdict holds rs = Some target"
  using assms
proof (induction rs)
  case (Cons r rs)
  show ?case
  proof (cases "rs = []")
    case True
    then show ?thesis using Cons.prems by (simp add: sealed_def condition_def)
  next
    case False
    then have "verdict holds rs = Some target" using Cons by (simp add: sealed_def allows_only_def)
    then show ?thesis using Cons.prems by (auto simp: sealed_def allows_only_def)
  qed
qed (simp add: sealed_def)

lemma allows_only_change:
  assumes "allows_only target rs" and "last rule = ''RETURN''" and "rule \<noteq> []" and "take_position rule = (0, rule)"
  shows "allows_only target (ipt_change (rule_op op) rule rs)"
proof -
  have "set (remove1 rule rs) \<subseteq> set rs" by (rule set_remove1_subset)
  then show ?thesis using assms by (auto simp: allows_only_def ipt_change_def rule_op_def)
qed

lemma last_remove1: "xs \<noteq> [] \<Longrightarrow> last xs \<noteq> x \<Longrightarrow> remove1 x xs \<noteq> [] \<and> last (remove1 x xs) = last xs"
  by (induction xs) auto

lemma sealed_change:
  assumes "sealed target rs" and "target \<noteq> ''RETURN''" and "last rule = ''RETURN''" and "rule \<noteq> []"
    and "take_position rule = (0, rule)"
  shows "sealed target (ipt_change (rule_op op) rule rs)"
proof -
  have "last rs \<noteq> rule" using assms(1,2,3) by (auto simp: sealed_def)
  then have "ipt_change (rule_op op) rule rs \<noteq> [] \<and> last (ipt_change (rule_op op) rule rs) = [''-j'', target]"
    using assms(1,5) last_remove1 [of rs rule] by (auto simp: ipt_change_def rule_op_def sealed_def)
  then show ?thesis using assms allows_only_change [of target rs rule op] by (simp add: sealed_def)
qed

lemma rule_op_neq [simp]: "rule_op r \<noteq> ''-t''"
  by (simp add: rule_op_def)

text \<open>The chains of the firewall, for both IP versions, satisfy a property of their target and content.\<close>

definition fw_targets :: "(string \<times> string) set" where
  "fw_targets = {(fw_LOCAL_INPUT, ''DROP''), (fw_LOCAL_OUTPUT, ''REJECT''), (fw_LOCAL_FORWARD, ''REJECT'')}"

definition fw_chains :: "(string \<Rightarrow> rule_args list \<Rightarrow> bool) \<Rightarrow> chains \<Rightarrow> bool" where
  "fw_chains P c \<longleftrightarrow>
     (\<forall>path\<in>{IPTABLES_PATH, IP6TABLES_PATH}. \<forall>(chain, target)\<in>fw_targets. P target (c (path, ''filter'', chain)))"

definition rule_closed :: "(string \<Rightarrow> rule_args list \<Rightarrow> bool) \<Rightarrow> bool" where
  "rule_closed P \<longleftrightarrow>
     (\<forall>target op rule rs. P target rs \<longrightarrow> target \<noteq> ''RETURN'' \<longrightarrow> last rule = ''RETURN'' \<longrightarrow> rule \<noteq> [] \<longrightarrow>
        take_position rule = (0, rule) \<longrightarrow> P target (ipt_change (rule_op op) rule rs))"

lemma rule_closed_sealed: "rule_closed sealed" "rule_closed allows_only"
  unfolding rule_closed_def using sealed_change allows_only_change by blast+

lemma fw_chains_upd:
  assumes "fw_chains P c" and "\<And>target. (chain, target) \<in> fw_targets \<Longrightarrow> P target rs"
  shows "fw_chains P (c((path, ''filter'', chain) := rs))"
  using assms by (fastforce simp: fw_chains_def)

lemma fw_chains_rule:
  assumes "rule_closed P" and "fw_chains P c" and path: "path = IPTABLES_PATH \<or> path = IP6TABLES_PATH"
    and "last rule = ''RETURN''" "rule \<noteq> []" "take_position rule = (0, rule)"
  shows "fw_chains P (ipt_run (path # ''-w'' # rule_op op # chain # rule) c)"
proof -
  have "P target (ipt_change (rule_op op) rule (c (path, ''filter'', chain)))" if "(chain, target) \<in> fw_targets" for target
  proof -
    have "P target (c (path, ''filter'', chain))" using that assms(2) path by (force simp: fw_chains_def)
    moreover have "target \<noteq> ''RETURN''" using that by (auto simp: fw_targets_def)
    ultimately show ?thesis using assms by (simp add: rule_closed_def)
  qed
  then show ?thesis using assms(2) path by (simp add: fw_chains_upd)
qed

lemma keeps_fw_command:
  assumes "rule_closed P" and "last rule = ''RETURN''" "rule \<noteq> []" "take_position rule = (0, rule)"
  shows "keeps (\<lambda>s. fw_chains P (chains_at c0 s)) (execIptables e t (''-w'' # rule_op op # chain # rule))"
  using assms by (intro keeps_chains_execIptables fw_chains_rule) auto

lemma keeps_fw_run:
  assumes "rule_closed P"
  shows "keeps (\<lambda>s. fw_chains P (chains_at c0 s)) (fw_run e call)"
  by (cases call)
    (auto simp: setInterfaceRule_def setEgressSourceRule_def setEgressDestRule_def setUidRule_def Let_def
      intro!: wp_basic keeps_fw_command assms)

lemma keeps_fw_runs:
  assumes "\<And>call. keeps I (fw_run e call)"
  shows "keeps I (fw_runs e calls)"
  by (induction calls) (auto intro!: wp_basic assms)

lemma allows_only_simps [simp]:
  "allows_only t []" "allows_only t (r # rs) \<longleftrightarrow> (last r = ''RETURN'' \<or> r = [''-j'', t]) \<and> allows_only t rs"
  "allows_only t (xs @ ys) \<longleftrightarrow> allows_only t xs \<and> allows_only t ys"
  by (auto simp: allows_only_def)

lemma fw_chains_flush:
  assumes "path = IPTABLES_PATH \<or> path = IP6TABLES_PATH" and "fw_chains allows_only c"
  shows "fw_chains allows_only (ipt_run [path, ''-w'', ''-F'', chain] c)"
  unfolding ipt_run_filter [OF _ assms(1), of "''-F''", simplified]
  using assms(2) by (rule fw_chains_upd) (simp add: ipt_change_def)

lemma keeps_disableFirewall: "keeps (\<lambda>s. fw_chains allows_only (chains_at c0 s)) (disableFirewall e)"
  unfolding disableFirewall_def or_all.simps
  by (intro wp_basic keeps_chains_execIptables fw_chains_flush)

lemma enable_effect:
  assumes "fw_chains allows_only c"
  shows "fw_chains sealed (both_run V4V6 [''-w'', ''-A'', fw_LOCAL_FORWARD, ''-j'', ''REJECT'']
           (both_run V4V6 [''-w'', ''-A'', fw_LOCAL_OUTPUT, ''-j'', ''REJECT'']
             (both_run V4V6 [''-w'', ''-A'', fw_LOCAL_INPUT, ''-j'', ''DROP''] c)))"
  using assms
  by (simp add: both_run_def Let_def fw_chains_def fw_targets_def ipt_change_def sealed_def)

lemma enableFirewall_seals:
  assumes "run_state (enableFirewall e) s = (0, s')" and "fw_chains allows_only (chains_at c0 s)"
  shows "fw_chains sealed (chains_at c0 s')"
proof -
  obtain r s1 where 1: "run_state (disableFirewall e) s = (r, s1)" by fastforce
  let ?m = "or_all [execIptables e V4V6 [''-w'', ''-A'', fw_LOCAL_INPUT, ''-j'', ''DROP''],
      execIptables e V4V6 [''-w'', ''-A'', fw_LOCAL_OUTPUT, ''-j'', ''REJECT''],
      execIptables e V4V6 [''-w'', ''-A'', fw_LOCAL_FORWARD, ''-j'', ''REJECT'']]"
  have 2: "run_state ?m s1 = (0, s')" using assms(1) 1 by (simp add: enableFirewall_def run_simps)
  have "ipt_effect ?m (\<lambda>c. both_run V4V6 [''-w'', ''-A'', fw_LOCAL_FORWARD, ''-j'', ''REJECT'']
           (both_run V4V6 [''-w'', ''-A'', fw_LOCAL_OUTPUT, ''-j'', ''REJECT'']
             (both_run V4V6 [''-w'', ''-A'', fw_LOCAL_INPUT, ''-j'', ''DROP''] c)))"
    by (intro effect_or_all3 effect_execIptables)
  from ipt_effectD [OF this 2, of c0] enable_effect [OF hoareD [OF keeps_disableFirewall assms(2) 1]]
  show ?thesis by (simp only:)
qed

text \<open>Allowing and then denying.\<close>

fun with_rule :: "fw_call \<Rightarrow> FirewallRule \<Rightarrow> fw_call" where
  "with_rule (InterfaceRule i _) r = InterfaceRule i r"
| "with_rule (EgressSourceRule a _) r = EgressSourceRule a r"
| "with_rule (EgressDestRule a p n _) r = EgressDestRule a p n r"
| "with_rule (UidRule u _) r = UidRule u r"

definition two_rules :: "IptablesTarget \<Rightarrow> rule_args \<Rightarrow> rule_args \<Rightarrow> FirewallRule \<Rightarrow> chains \<Rightarrow> chains" where
  "two_rules t r1 r2 rule c =
     both_run t (''-w'' # rule_op rule # fw_LOCAL_OUTPUT # r2) (both_run t (''-w'' # rule_op rule # fw_LOCAL_INPUT # r1) c)"

lemma two_rules_inverse:
  "take_position r1 = (0, r1) \<Longrightarrow> take_position r2 = (0, r2) \<Longrightarrow>
   two_rules t r1 r2 DENY (two_rules t r1 r2 ALLOW c) = c"
  by (cases t) (auto simp: two_rules_def both_run_def ipt_change_def rule_op_def fun_eq_iff)

lemma effect_two_rules:
  "ipt_effect (or_all [execIptables e t (''-w'' # rule_op rule # fw_LOCAL_INPUT # r1),
     execIptables e t (''-w'' # rule_op rule # fw_LOCAL_OUTPUT # r2)]) (two_rules t r1 r2 rule)"
  unfolding two_rules_def by (intro effect_or_all2 effect_execIptables)

lemma effect_fw_run:
  "\<exists>t r1 r2. take_position r1 = (0, r1) \<and> take_position r2 = (0, r2) \<and>
     (\<forall>rule. ipt_effect (fw_run e (with_rule call rule)) (two_rules t r1 r2 rule))"
proof (cases call)
  case (InterfaceRule i rule)
  show ?thesis
    unfolding InterfaceRule with_rule.simps fw_run.simps setInterfaceRule_def Let_def
    by (rule exI [of _ V4V6], rule exI [of _ "[''-i'', i, ''-j'', ''RETURN'']"],
        rule exI [of _ "[''-o'', i, ''-j'', ''RETURN'']"])
      (simp del: or_all.simps add: effect_two_rules effect_fail)
next
  case (EgressSourceRule a rule)
  show ?thesis
    unfolding EgressSourceRule with_rule.simps fw_run.simps setEgressSourceRule_def Let_def
    by (rule exI [of _ "addr_target a"], rule exI [of _ "[''-d'', a, ''-j'', ''RETURN'']"],
        rule exI [of _ "[''-s'', a, ''-j'', ''RETURN'']"])
      (simp del: or_all.simps add: effect_two_rules)
next
  case (EgressDestRule a p n rule)
  show ?thesis
    unfolding EgressDestRule with_rule.simps fw_run.simps setEgressDestRule_def Let_def
    by (rule exI [of _ "addr_target a"],
        rule exI [of _ "[''-s'', a, ''-p'', fmt_d p, ''--sport'', fmt_d n, ''-j'', ''RETURN'']"],
        rule exI [of _ "[''-d'', a, ''-p'', fmt_d p, ''--dport'', fmt_d n, ''-j'', ''RETURN'']"])
      (simp del: or_all.simps add: effect_two_rules)
next
  case (UidRule u rule)
  show ?thesis
    unfolding UidRule with_rule.simps fw_run.simps setUidRule_def Let_def
    by (rule exI [of _ V4V6], rule exI [of _ "[''-m'', ''owner'', ''--uid-owner'', fmt_d u, ''-j'', ''RETURN'']"],
        rule exI [of _ "[''-m'', ''owner'', ''--uid-owner'', fmt_d u, ''-j'', ''RETURN'']"])
      (simp del: or_all.simps add: effect_two_rules)
qed

definition sample_sys :: sys where
  "sample_sys = \<lparr>hist = []\<rparr>"

definition no_chains :: chains where
  "no_chains = (\<lambda>_. [])"

lemma accepted_0: "fst (run_state (execIptables sample_env t args) s) = 0"
  by (simp add: execIptables_def execIptablesCommand_def run_simps sample_env_def WIFEXITED_def WEXITSTATUS_def)

lemma or_all_0: "(\<And>m s. m \<in> set ms \<Longrightarrow> fst (run_state m s) = 0) \<Longrightarrow> fst (run_state (or_all ms) s) = 0"
proof (induction ms arbitrary: s)
  case (Cons m ms)
  then have "fst (run_state m s) = 0" "fst (run_state (or_all ms) s') = 0" for s' by simp_all
  then show ?case by (auto simp: run_simps split: prod.splits) (metis fst_conv)+
qed (simp add: run_simps)

section \<open>Properties\<close>

text \<open>
  C14: Once \<^verbatim>\<open>enableFirewall\<close> has reported success, the firewall denies by default: after any sequence of calls
  that allow or deny interfaces, addresses and users, whichever of their commands fail, a packet for which
  none of the installed allow rules holds is dropped by the input chain and rejected by the output and
  forward chains, for both IP versions.
\<close>

theorem default_deny:
  assumes "fw_chains allows_only (chains_at c0 s)" and "run_state (enableFirewall e) s = (0, s1)"
    and "run_state (fw_runs e calls) s1 = (results, s2)"
    and "path \<in> {IPTABLES_PATH, IP6TABLES_PATH}" and "(chain, target) \<in> fw_targets" and "holds []"
    and "\<forall>r\<in>set (chains_at c0 s2 (path, ''filter'', chain)). last r = ''RETURN'' \<longrightarrow> \<not> holds (condition r)"
  shows "verdict holds (chains_at c0 s2 (path, ''filter'', chain)) = Some target"
proof -
  have "keeps (\<lambda>s. fw_chains sealed (chains_at c0 s)) (fw_runs e calls)"
    by (intro keeps_fw_runs keeps_fw_run rule_closed_sealed)
  then have "fw_chains sealed (chains_at c0 s2)"
    using enableFirewall_seals [OF assms(2,1)] assms(3) by (rule hoareD)
  then have "sealed target (chains_at c0 s2 (path, ''filter'', chain))"
    using assms(4,5) by (auto simp: fw_chains_def)
  moreover have "target \<noteq> ''RETURN''" using assms(5) by (auto simp: fw_targets_def)
  ultimately show ?thesis using assms(6,7) by (rule sealed_verdict)
qed

theorem default_deny_witness:
  "\<exists>s1. run_state (enableFirewall sample_env) sample_sys = (0, s1) \<and>
        verdict (\<lambda>cond. cond = []) (chains_at no_chains s1 (IPTABLES_PATH, ''filter'', fw_LOCAL_INPUT)) = Some ''DROP''"
proof -
  have "fst (run_state (enableFirewall sample_env) sample_sys) = 0"
    unfolding enableFirewall_def run_simps by (auto split: prod.split intro!: or_all_0 accepted_0 simp del: or_all.simps)
  then obtain s1 where s1: "run_state (enableFirewall sample_env) sample_sys = (0, s1)" by (metis prod.collapse)
  have ok: "fw_chains allows_only (chains_at no_chains sample_sys)"
    by (simp add: sample_sys_def no_chains_def fw_chains_def split: prod.split)
  have "verdict (\<lambda>cond. cond = []) (chains_at no_chains s1 (IPTABLES_PATH, ''filter'', fw_LOCAL_INPUT)) = Some ''DROP''"
  proof (rule default_deny [OF ok s1, of "[]"])
    show "\<forall>r\<in>set (chains_at no_chains s1 (IPTABLES_PATH, ''filter'', fw_LOCAL_INPUT)). last r = ''RETURN'' \<longrightarrow> condition r \<noteq> []"
      using s1
      by (auto simp: enableFirewall_def disableFirewall_def execIptables_def execIptablesCommand_def run_simps sample_env_def
          WIFEXITED_def WEXITSTATUS_def sample_sys_def exec_ok_def no_chains_def ipt_change_def)
  qed (simp_all add: fw_targets_def run_simps)
  with s1 show ?thesis by blast
qed

text \<open>
  Taking an allow rule back leaves every chain as it was before the rule was added, when both calls report
  success.
\<close>

theorem allow_deny_roundtrip:
  fixes s :: "'a sys_scheme"
  assumes "run_state (fw_run e (with_rule call ALLOW)) s = (0, s1)"
    and "run_state (fw_run e (with_rule call DENY)) s1 = (0, s2)"
  shows "chains_at c0 s2 = chains_at c0 s"
proof -
  obtain t r1 r2 where "take_position r1 = (0, r1)" "take_position r2 = (0, r2)"
    and "\<And>rule. ipt_effect (fw_run e (with_rule call rule) :: ('a sys_scheme, int) state) (two_rules t r1 r2 rule)"
    using effect_fw_run [of e call] by blast
  with ipt_effectD [OF this(3) assms(1)] ipt_effectD [OF this(3) assms(2)] show ?thesis
    by (simp add: two_rules_inverse)
qed

theorem allow_deny_roundtrip_witness:
  "\<exists>s1 s2. run_state (setUidRule sample_env 10001 ALLOW) sample_sys = (0, s1) \<and>
     run_state (setUidRule sample_env 10001 DENY) s1 = (0, s2) \<and> chains_at no_chains s2 = no_chains"
proof -
  have 0: "fst (run_state (setUidRule sample_env u rule) s) = 0" for u rule and s :: sys
    unfolding setUidRule_def Let_def by (auto intro!: or_all_0 accepted_0 simp del: or_all.simps)
  obtain s1 s2 where "run_state (setUidRule sample_env 10001 ALLOW) sample_sys = (0, s1)"
      "run_state (setUidRule sample_env 10001 DENY) s1 = (0, s2)"
    using 0 by (metis prod.collapse)
  with allow_deny_roundtrip [of sample_env "UidRule 10001 ALLOW" sample_sys s1 s2 no_chains]
  show ?thesis by (auto simp: sample_sys_def)
qed

end
