(* ===== verification/IdletimerController.thy ===== *)
theory IdletimerController
  imports Iptables
begin

text \<open>
  \<^verbatim>\<open>server/IdletimerController.cpp\<close>: timers that report when an interface becomes idle, as pairs of rules in
  the raw and mangle tables of both IP versions. The controller keeps no state of its own.
\<close>

section \<open>Model\<close>

definition idle_RAW_PREROUTING :: string where "idle_RAW_PREROUTING = ''idletimer_raw_PREROUTING''"
definition idle_MANGLE_POSTROUTING :: string where "idle_MANGLE_POSTROUTING = ''idletimer_mangle_POSTROUTING''"

text \<open>\<^verbatim>\<open>argv[0]\<close> is filled in for each program.\<close>

definition idle_runIpxtablesCmd :: "env \<Rightarrow> string list \<Rightarrow> ('a sys_scheme, int) state" where
  "idle_runIpxtablesCmd e args = do {
     resIpv4 \<leftarrow> fork_execvp0 e (IPTABLES_PATH # args);
     resIpv6 \<leftarrow> fork_execvp0 e (IP6TABLES_PATH # args);
     ret (if resIpv4 = 0 \<and> resIpv6 = 0 then 0 else - 1) }"

definition idle_setDefaults :: "env \<Rightarrow> ('a sys_scheme, int) state" where
  "idle_setDefaults e =
     ok_then (idle_runIpxtablesCmd e [''-t'', ''raw'', ''-F'', idle_RAW_PREROUTING])
       (idle_runIpxtablesCmd e [''-t'', ''mangle'', ''-F'', idle_MANGLE_POSTROUTING])"

definition enableIdletimerControl :: "env \<Rightarrow> ('a sys_scheme, int) state" where
  "enableIdletimerControl e = idle_setDefaults e"

definition disableIdletimerControl :: "env \<Rightarrow> ('a sys_scheme, int) state" where
  "disableIdletimerControl e = idle_setDefaults e"

datatype idle_op = IdleOpAdd | IdleOpDelete

text \<open>\<^verbatim>\<open>snprintf\<close> keeps at most ten characters of the timeout.\<close>

definition modifyInterfaceIdletimer :: "env \<Rightarrow> idle_op \<Rightarrow> string \<Rightarrow> u32 \<Rightarrow> string \<Rightarrow> ('a sys_scheme, int) state" where
  "modifyInterfaceIdletimer e op iface timeout classLabel =
     (if \<not> isIfaceName iface then ret (- 1)
      else let timeout_str = take 10 (fmt_u (unat timeout)); flag = (if op = IdleOpAdd then ''-A'' else ''-D'') in
        ok_then
          (idle_runIpxtablesCmd e [''-t'', ''raw'', flag, idle_RAW_PREROUTING, ''-i'', iface, ''-j'', ''IDLETIMER'',
             ''--timeout'', timeout_str, ''--label'', classLabel, ''--send_nl_msg'', ''1''])
          (idle_runIpxtablesCmd e [''-t'', ''mangle'', flag, idle_MANGLE_POSTROUTING, ''-o'', iface, ''-j'', ''IDLETIMER'',
             ''--timeout'', timeout_str, ''--label'', classLabel, ''--send_nl_msg'', ''1'']))"

definition addInterfaceIdletimer :: "env \<Rightarrow> string \<Rightarrow> u32 \<Rightarrow> string \<Rightarrow> ('a sys_scheme, int) state" where
  "addInterfaceIdletimer e iface timeout classLabel = modifyInterfaceIdletimer e IdleOpAdd iface timeout classLabel"

definition removeInterfaceIdletimer :: "env \<Rightarrow> string \<Rightarrow> u32 \<Rightarrow> string \<Rightarrow> ('a sys_scheme, int) state" where
  "removeInterfaceIdletimer e iface timeout classLabel = modifyInterfaceIdletimer e IdleOpDelete iface timeout classLabel"

section \<open>Lemmas\<close>

lemma fmt_u_length: "n < 10 ^ k \<Longrightarrow> 0 < k \<Longrightarrow> length (fmt_u n) \<le> k"
proof (induction k arbitrary: n)
  case (Suc k)
  show ?case
  proof (cases "n < 10")
    case True
    then show ?thesis by (subst fmt_u.simps) simp
  next
    case False
    then have "0 < k" using Suc.prems by (cases k) auto
    moreover have "n div 10 < 10 ^ k" using Suc.prems by (simp add: less_mult_imp_div_less mult.commute)
    ultimately have "length (fmt_u (n div 10)) \<le> k" using Suc.IH by blast
    then show ?thesis using False by (subst fmt_u.simps) simp
  qed
qed simp

text \<open>The buffer of eleven bytes is long enough: nothing is cut off.\<close>

lemma timeout_str_complete: "take 10 (fmt_u (unat (timeout :: u32))) = fmt_u (unat timeout)"
proof -
  have "unat timeout < 2 ^ 32" using unsigned_less [of timeout] by simp
  then have "unat timeout < 10 ^ 10" by simp
  then show ?thesis using fmt_u_length [of "unat timeout" 10] by simp
qed

lemma effect_idle_run [ipt_effects]: "ipt_effect (idle_runIpxtablesCmd e args) (both_run V4V6 args)"
  unfolding ipt_effect_def idle_runIpxtablesCmd_def both_run_def
  by (auto simp: run_simps Let_def split: if_splits)

definition idle_rule :: "string \<Rightarrow> string \<Rightarrow> u32 \<Rightarrow> string \<Rightarrow> rule_args" where
  "idle_rule dir iface timeout classLabel =
     [dir, iface, ''-j'', ''IDLETIMER'', ''--timeout'', fmt_u (unat timeout), ''--label'', classLabel, ''--send_nl_msg'', ''1'']"

text \<open>The rule that an interface's timer has in a chain, and the chains of the timers.\<close>

definition idle_change ::
  "(rule_args \<Rightarrow> rule_args list \<Rightarrow> rule_args list) \<Rightarrow> string \<Rightarrow> u32 \<Rightarrow> string \<Rightarrow> chains \<Rightarrow> chains" where
  "idle_change f iface timeout classLabel c = (\<lambda>(path, table, chain).
     if path \<notin> {IPTABLES_PATH, IP6TABLES_PATH} then c (path, table, chain)
     else if (table, chain) = (''raw'', idle_RAW_PREROUTING)
          then f (idle_rule ''-i'' iface timeout classLabel) (c (path, table, chain))
     else if (table, chain) = (''mangle'', idle_MANGLE_POSTROUTING)
          then f (idle_rule ''-o'' iface timeout classLabel) (c (path, table, chain))
     else c (path, table, chain))"

lemma effect_idle:
  "ipt_effect (modifyInterfaceIdletimer e op iface timeout label)
     (idle_change (\<lambda>r rs. if op = IdleOpAdd then rs @ [r] else remove1 r rs) iface timeout label)"
proof (cases "isIfaceName iface")
  case True
  let ?flag = "if op = IdleOpAdd then ''-A'' else ''-D''"
  let ?r = "\<lambda>dir. idle_rule dir iface timeout label"
  have m: "modifyInterfaceIdletimer e op iface timeout label =
      ok_then (idle_runIpxtablesCmd e (''-t'' # ''raw'' # ?flag # idle_RAW_PREROUTING # ?r ''-i''))
        (idle_runIpxtablesCmd e (''-t'' # ''mangle'' # ?flag # idle_MANGLE_POSTROUTING # ?r ''-o''))"
    using True by (simp add: modifyInterfaceIdletimer_def Let_def timeout_str_complete idle_rule_def)
  have "(\<lambda>c. both_run V4V6 (''-t'' # ''mangle'' # ?flag # idle_MANGLE_POSTROUTING # ?r ''-o'')
         (both_run V4V6 (''-t'' # ''raw'' # ?flag # idle_RAW_PREROUTING # ?r ''-i'') c)) =
      idle_change (\<lambda>r rs. if op = IdleOpAdd then rs @ [r] else remove1 r rs) iface timeout label"
    by (auto simp: both_run_def idle_change_def ipt_change_def fun_eq_iff)
  from this [symmetric] show ?thesis
    unfolding m by (simp only: ipt_effect_ok_then effect_idle_run)
qed (simp add: modifyInterfaceIdletimer_def effect_fail)

definition sample_idle :: sys where
  "sample_idle = \<lparr>hist = []\<rparr>"

lemma idle_accepted: "isIfaceName iface \<Longrightarrow> fst (run_state (modifyInterfaceIdletimer sample_env op iface timeout label) s) = 0"
  by (simp add: modifyInterfaceIdletimer_def idle_runIpxtablesCmd_def run_simps sample_env_def Let_def)

section \<open>Properties\<close>

text \<open>
  Adding a timer and removing it with the same interface, timeout and label leaves in every chain of both
  IP versions the rules it had before, up to the order among equal rules, when both calls report success;
  the timeout is printed without truncation, and a removal takes away one of several equal timers only.
\<close>

theorem idletimer_roundtrip:
  assumes "run_state (addInterfaceIdletimer e iface timeout label) s = (0, s1)"
    and "run_state (removeInterfaceIdletimer e iface timeout label) s1 = (0, s2)"
  shows "chains_at c0 s1 = idle_change (\<lambda>r rs. rs @ [r]) iface timeout label (chains_at c0 s) \<and>
         mset (chains_at c0 s2 (path, table, chain)) = mset (chains_at c0 s (path, table, chain))"
proof -
  have 1: "chains_at c0 s1 = idle_change (\<lambda>r rs. rs @ [r]) iface timeout label (chains_at c0 s)"
    using ipt_effectD [OF effect_idle assms(1) [unfolded addInterfaceIdletimer_def], of c0] by simp
  have 2: "chains_at c0 s2 = idle_change remove1 iface timeout label (chains_at c0 s1)"
    using ipt_effectD [OF effect_idle assms(2) [unfolded removeInterfaceIdletimer_def], of c0] by simp
  have "mset (remove1 r (rs @ [r])) = mset rs" for r :: rule_args and rs by simp
  with 1 2 show ?thesis by (simp add: idle_change_def del: mset_remove1)
qed

theorem idletimer_roundtrip_witness:
  "\<exists>s1 s2. run_state (addInterfaceIdletimer sample_env ''rmnet0'' 5 ''x'') sample_idle = (0, s1) \<and>
     run_state (removeInterfaceIdletimer sample_env ''rmnet0'' 5 ''x'') s1 = (0, s2) \<and>
     mset (chains_at (\<lambda>_. []) s2 (IPTABLES_PATH, ''raw'', idle_RAW_PREROUTING)) = {#}"
proof -
  have "isIfaceName ''rmnet0''"
    by (simp add: isIfaceName_def IFNAMSIZ_def iface_char_def isalnum_def isdigit_def less_eq_char_def)
  then have 0: "fst (run_state (modifyInterfaceIdletimer sample_env op ''rmnet0'' 5 ''x'') s) = 0" for op and s :: sys
    by (rule idle_accepted)
  obtain s1 where s1: "run_state (addInterfaceIdletimer sample_env ''rmnet0'' 5 ''x'') sample_idle = (0, s1)"
    using 0 unfolding addInterfaceIdletimer_def by (metis prod.collapse)
  obtain s2 where s2: "run_state (removeInterfaceIdletimer sample_env ''rmnet0'' 5 ''x'') s1 = (0, s2)"
    using 0 unfolding removeInterfaceIdletimer_def by (metis prod.collapse)
  from idletimer_roundtrip [OF s1 s2, of "\<lambda>_. []" IPTABLES_PATH "''raw''" idle_RAW_PREROUTING] s1 s2
  show ?thesis by (auto simp: sample_idle_def)
qed

end
