(* ===== verification/NatController.thy ===== *)
theory NatController
  imports RouteController Iptables
begin

text \<open>
  \<^verbatim>\<open>server/NatController.cpp\<close>: tethering. Each pair of an internal and an external interface has three rules in
  the chain \<^verbatim>\<open>natctrl_FORWARD\<close>, which must end with a rule that drops everything else; the first pair adds a
  masquerading rule, and a routing rule is added through \<^verbatim>\<open>RouteController\<close>. The state is the number of pairs
  and the list of pairs that have traffic counters.
\<close>

section \<open>Model\<close>

definition nat_FORWARD :: string where "nat_FORWARD = ''natctrl_FORWARD''"
definition nat_MANGLE_FORWARD :: string where "nat_MANGLE_FORWARD = ''natctrl_mangle_FORWARD''"
definition nat_POSTROUTING :: string where "nat_POSTROUTING = ''natctrl_nat_POSTROUTING''"
definition nat_TETHER_COUNTERS :: string where "nat_TETHER_COUNTERS = ''natctrl_tether_counters''"

record natctl = rc +
  natCount :: int
  ifacePairList :: "string list"
  nat_errno :: int

definition nat_set_errno :: "int \<Rightarrow> ('a natctl_scheme, unit) state" where
  "nat_set_errno n = modify (nat_errno_update (\<lambda>_. n))"

definition nat_runCmd :: "env \<Rightarrow> string list \<Rightarrow> ('a sys_scheme, int) state" where
  "nat_runCmd e argv = fork_execvp0 e argv"

text \<open>A table of commands, each with the flag that says whether its failure ends the loop.\<close>

definition run_commands :: "env \<Rightarrow> (string list \<times> bool) list \<Rightarrow> ('a sys_scheme, int) state" where
  "run_commands e cmds =
     for_ok (\<lambda>(argv, checkRes). do { r \<leftarrow> nat_runCmd e argv; ret (if r \<noteq> 0 \<and> checkRes then - 1 else 0) }) cmds"

definition nat_setDefaults :: "env \<Rightarrow> ('a natctl_scheme, int) state" where
  "nat_setDefaults e =
     ok_then (run_commands e
         [([IPTABLES_PATH, ''-F'', nat_FORWARD], True),
          ([IPTABLES_PATH, ''-A'', nat_FORWARD, ''-j'', ''DROP''], True),
          ([IPTABLES_PATH, ''-t'', ''nat'', ''-F'', nat_POSTROUTING], True)])
       (do { modify (natCount_update (\<lambda>_. 0)); ret 0 })"

definition nat_setupIptablesHooks :: "env \<Rightarrow> ('a natctl_scheme, int) state" where
  "nat_setupIptablesHooks e = do {
     res \<leftarrow> nat_setDefaults e;
     if res < 0 then ret res
     else ok_then (run_commands e
         [([IPTABLES_PATH, ''-F'', nat_TETHER_COUNTERS], False),
          ([IPTABLES_PATH, ''-X'', nat_TETHER_COUNTERS], False),
          ([IPTABLES_PATH, ''-N'', nat_TETHER_COUNTERS], True),
          ([IPTABLES_PATH, ''-t'', ''mangle'', ''-A'', nat_MANGLE_FORWARD, ''-p'', ''tcp'', ''--tcp-flags'',
            ''SYN'', ''SYN'', ''-j'', ''TCPMSS'', ''--clamp-mss-to-pmtu''], False)])
       (do { modify (ifacePairList_update (\<lambda>_. [])); ret 0 }) }"

definition checkTetherCountingRuleExist :: "'a natctl_scheme \<Rightarrow> string \<Rightarrow> bool" where
  "checkTetherCountingRuleExist s pair_name \<longleftrightarrow> pair_name \<in> set (ifacePairList s)"

definition pair_name :: "string \<Rightarrow> string \<Rightarrow> string" where
  "pair_name a b = a @ ''_'' @ b"

definition setTetherCountingRules :: "env \<Rightarrow> bool \<Rightarrow> string \<Rightarrow> string \<Rightarrow> ('a natctl_scheme, int) state" where
  "setTetherCountingRules e add intIface extIface =
     (if \<not> add then ret 0
      else do {
        found \<leftarrow> gets (\<lambda>s. checkTetherCountingRuleExist s (pair_name intIface extIface));
        if found then ret 0
        else do {
          r \<leftarrow> nat_runCmd e [IPTABLES_PATH, ''-A'', nat_TETHER_COUNTERS, ''-i'', intIface, ''-o'', extIface, ''-j'', ''RETURN''];
          if r \<noteq> 0 \<and> add then ret (- 1)
          else do {
            modify (ifacePairList_update (\<lambda>l. pair_name intIface extIface # l));
            found \<leftarrow> gets (\<lambda>s. checkTetherCountingRuleExist s (pair_name extIface intIface));
            if found then ret 0
            else do {
              r \<leftarrow> nat_runCmd e [IPTABLES_PATH, ''-A'', nat_TETHER_COUNTERS, ''-i'', extIface, ''-o'', intIface,
                     ''-j'', ''RETURN''];
              if r \<noteq> 0 \<and> add then ret (- 1)
              else do {
                modify (ifacePairList_update (\<lambda>l. pair_name extIface intIface # l));
                ret 0 } } } } })"

text \<open>The three rules of a pair.\<close>

definition established_rule :: "string \<Rightarrow> string \<Rightarrow> string list" where
  "established_rule intIface extIface = [''-i'', extIface, ''-o'', intIface, ''-m'', ''state'', ''--state'',
     ''ESTABLISHED,RELATED'', ''-g'', nat_TETHER_COUNTERS]"

definition invalid_rule :: "string \<Rightarrow> string \<Rightarrow> string list" where
  "invalid_rule intIface extIface = [''-i'', intIface, ''-o'', extIface, ''-m'', ''state'', ''--state'',
     ''INVALID'', ''-j'', ''DROP'']"

definition outgoing_rule :: "string \<Rightarrow> string \<Rightarrow> string list" where
  "outgoing_rule intIface extIface = [''-i'', intIface, ''-o'', extIface, ''-g'', nat_TETHER_COUNTERS]"

definition setForwardRules :: "env \<Rightarrow> bool \<Rightarrow> string \<Rightarrow> string \<Rightarrow> ('a natctl_scheme, int) state" where
  "setForwardRules e add intIface extIface =
     (let cmd1 = (\<lambda>op. [IPTABLES_PATH, op, nat_FORWARD] @ established_rule intIface extIface);
          cmd2 = (\<lambda>op. [IPTABLES_PATH, op, nat_FORWARD] @ invalid_rule intIface extIface);
          cmd3 = (\<lambda>op. [IPTABLES_PATH, op, nat_FORWARD] @ outgoing_rule intIface extIface);
          op = (if add then ''-A'' else ''-D'');
          err_invalid_drop = do { _ \<leftarrow> nat_runCmd e (cmd1 ''-D''); ret (- 1) };
          err_return = do { _ \<leftarrow> nat_runCmd e (cmd2 ''-D''); err_invalid_drop }
      in do {
        r \<leftarrow> nat_runCmd e (cmd1 op);
        if r \<noteq> 0 \<and> add then ret (- 1)
        else do {
          r \<leftarrow> nat_runCmd e (cmd2 op);
          if r \<noteq> 0 \<and> add then err_invalid_drop
          else do {
            r \<leftarrow> nat_runCmd e (cmd3 op);
            if r \<noteq> 0 \<and> add then err_return
            else do {
              r \<leftarrow> setTetherCountingRules e add intIface extIface;
              if r \<noteq> 0 \<and> add then err_return else ret 0 } } } })"

text \<open>\<^verbatim>\<open>if (natCount == 0) setDefaults();\<close> on the error paths.\<close>

definition unwind_first :: "env \<Rightarrow> ('a natctl_scheme, unit) state" where
  "unwind_first e = do {
     n \<leftarrow> gets natCount;
     if n = 0 then do { _ \<leftarrow> nat_setDefaults e; ret () } else ret () }"

definition enableNat :: "env \<Rightarrow> string \<Rightarrow> string \<Rightarrow> ('a natctl_scheme, int) state" where
  "enableNat e intIface extIface =
     (if \<not> isIfaceName intIface \<or> \<not> isIfaceName extIface then do { nat_set_errno ENODEV; ret (- 1) }
      else if intIface = extIface then do { nat_set_errno EINVAL; ret (- 1) }
      else do {
        n \<leftarrow> gets natCount;
        r \<leftarrow> (if n = 0
              then nat_runCmd e [IPTABLES_PATH, ''-t'', ''nat'', ''-A'', nat_POSTROUTING, ''-o'', extIface, ''-j'', ''MASQUERADE'']
              else ret 0);
        if r \<noteq> 0 then do { _ \<leftarrow> nat_setDefaults e; ret (- 1) }
        else do {
          r \<leftarrow> setForwardRules e True intIface extIface;
          if r \<noteq> 0 then do { unwind_first e; nat_set_errno ENODEV; ret (- 1) }
          else do {
            _ \<leftarrow> nat_runCmd e [IPTABLES_PATH, ''-D'', nat_FORWARD, ''-j'', ''DROP''];
            _ \<leftarrow> nat_runCmd e [IPTABLES_PATH, ''-A'', nat_FORWARD, ''-j'', ''DROP''];
            r \<leftarrow> enableTethering e intIface extIface;
            if r \<noteq> 0 then do { unwind_first e; nat_set_errno (- r); ret (- 1) }
            else do { modify (natCount_update (\<lambda>n. n + 1)); ret 0 } } } })"

definition disableNat :: "env \<Rightarrow> string \<Rightarrow> string \<Rightarrow> ('a natctl_scheme, int) state" where
  "disableNat e intIface extIface =
     (if \<not> isIfaceName intIface \<or> \<not> isIfaceName extIface then do { nat_set_errno ENODEV; ret (- 1) }
      else do {
        r \<leftarrow> disableTethering e intIface extIface;
        if r \<noteq> 0 then do { nat_set_errno (- r); ret (- 1) }
        else do {
          _ \<leftarrow> setForwardRules e False intIface extIface;
          modify (natCount_update (\<lambda>n. n - 1));
          n \<leftarrow> gets natCount;
          (if n \<le> 0 then do { _ \<leftarrow> nat_setDefaults e; ret () } else ret ());
          ret 0 } })"

section \<open>Lemmas\<close>

lemma nat_chains_distinct [simp]:
  "nat_FORWARD \<noteq> nat_TETHER_COUNTERS" "nat_TETHER_COUNTERS \<noteq> nat_FORWARD"
  by (simp_all add: nat_FORWARD_def nat_TETHER_COUNTERS_def)

abbreviation forward_chain :: "chains \<Rightarrow> 'a sys_scheme \<Rightarrow> rule_args list" where
  "forward_chain c0 s \<equiv> chains_at c0 s (IPTABLES_PATH, ''filter'', nat_FORWARD)"

abbreviation postrouting_chain :: "chains \<Rightarrow> 'a sys_scheme \<Rightarrow> rule_args list" where
  "postrouting_chain c0 s \<equiv> chains_at c0 s (IPTABLES_PATH, ''nat'', nat_POSTROUTING)"

text \<open>The parts of the state that tethering rules for packets depend on, as a predicate to be kept.\<close>

definition nat_view :: "chains \<Rightarrow> rule_args list \<Rightarrow> rule_args list \<Rightarrow> int \<Rightarrow> 'a natctl_scheme \<Rightarrow> bool" where
  "nat_view c0 fwd post n s \<longleftrightarrow> forward_chain c0 s = fwd \<and> postrouting_chain c0 s = post \<and> natCount s = n"

lemma nat_view_netlink:
  "keeps (nat_view c0 fwd post n) (netlink_io e msg)" "keeps (nat_view c0 fwd post n) (if_nametoindex e i)"
  "keeps (nat_view c0 fwd post n) (modify (interfaceToTable_update f))"
  by (simp_all add: hoare_def nat_view_def run_simps)

lemma nat_view_tethering:
  "keeps (nat_view c0 fwd post n) (modifyTetheredNetwork e a i x)"
  unfolding modifyTetheredNetwork_def getRouteTableForInterface_def modifyIpRule_def sendNetlinkRequest_def
  by (intro wp_basic nat_view_netlink)

text \<open>A world in which every iptables command is accepted.\<close>

definition ipt_accepting :: "env \<Rightarrow> bool" where
  "ipt_accepting e \<longleftrightarrow> (\<forall>h argv. env_run e h argv = 0)"

lemma run_accepted:
  "ipt_accepting e \<Longrightarrow> run_state (nat_runCmd e argv) s = (0, s\<lparr>hist := EvRun argv 0 # hist s\<rparr>)"
  by (simp add: nat_runCmd_def run_simps ipt_accepting_def)

abbreviation drop_rule :: rule_args where
  "drop_rule \<equiv> [''-j'', ''DROP'']"

definition pair_rules :: "string \<times> string \<Rightarrow> rule_args list" where
  "pair_rules p = [established_rule (fst p) (snd p), invalid_rule (fst p) (snd p), outgoing_rule (fst p) (snd p)]"

lemma setDefaults_accepted:
  assumes "ipt_accepting e" and "run_state (nat_setDefaults e) s = (r, s')"
  shows "r = 0 \<and> nat_view c0 [drop_rule] [] 0 s'"
  using assms
  by (auto simp: nat_setDefaults_def run_commands_def run_simps run_accepted nat_view_def ipt_change_def)

lemma setup_accepted:
  assumes "ipt_accepting e" and "run_state (nat_setupIptablesHooks e) s = (r, s')"
  shows "nat_view c0 [drop_rule] [] 0 s'"
proof -
  obtain r1 s1 where 1: "run_state (nat_setDefaults e) s = (r1, s1)" by fastforce
  with setDefaults_accepted [OF assms(1) 1, of c0] have "r1 = 0" "nat_view c0 [drop_rule] [] 0 s1" by auto
  then show ?thesis
    using assms 1
    by (auto simp: nat_setupIptablesHooks_def run_commands_def run_simps run_accepted nat_view_def ipt_change_def)
qed

lemma counting_accepted:
  assumes "ipt_accepting e" and "run_state (setTetherCountingRules e add i x) s = (r, s')" and "nat_view c0 fwd post n s"
  shows "r = 0 \<and> nat_view c0 fwd post n s'"
  using assms
  by (auto simp: setTetherCountingRules_def run_simps run_accepted nat_view_def ipt_change_def split: if_splits)

lemma setForwardRules_accepted:
  assumes "ipt_accepting e" and "run_state (setForwardRules e add i x) s = (r, s')" and "nat_view c0 fwd post n s"
  shows "r = 0 \<and> nat_view c0 (if add then fwd @ pair_rules (i, x)
           else remove1 (outgoing_rule i x) (remove1 (invalid_rule i x) (remove1 (established_rule i x) fwd))) post n s'"
proof -
  let ?op = "if add then ''-A'' else ''-D''"
  let ?cmd = "\<lambda>rule. [IPTABLES_PATH, ?op, nat_FORWARD] @ rule"
  let ?s1 = "s\<lparr>hist := [EvRun (?cmd (outgoing_rule i x)) 0, EvRun (?cmd (invalid_rule i x)) 0,
      EvRun (?cmd (established_rule i x)) 0] @ hist s\<rparr>"
  obtain r1 s2 where 1: "run_state (setTetherCountingRules e add i x) ?s1 = (r1, s2)" by fastforce
  have "nat_view c0 (if add then fwd @ pair_rules (i, x)
           else remove1 (outgoing_rule i x) (remove1 (invalid_rule i x) (remove1 (established_rule i x) fwd))) post n ?s1"
    using assms(3) by (auto simp: nat_view_def ipt_change_def pair_rules_def)
  from counting_accepted [OF assms(1) 1 this]
  show ?thesis using assms(1,2) 1 by (cases add) (simp_all add: setForwardRules_def Let_def run_simps run_accepted)
qed

lemma rules_distinct [simp]:
  "established_rule i x \<noteq> invalid_rule j y" "invalid_rule j y \<noteq> established_rule i x"
  "established_rule i x \<noteq> outgoing_rule j y" "outgoing_rule j y \<noteq> established_rule i x"
  "invalid_rule i x \<noteq> outgoing_rule j y" "outgoing_rule j y \<noteq> invalid_rule i x"
  "established_rule i x = established_rule j y \<longleftrightarrow> i = j \<and> x = y"
  "invalid_rule i x = invalid_rule j y \<longleftrightarrow> i = j \<and> x = y" "outgoing_rule i x = outgoing_rule j y \<longleftrightarrow> i = j \<and> x = y"
  "established_rule i x \<noteq> drop_rule" "invalid_rule i x \<noteq> drop_rule" "outgoing_rule i x \<noteq> drop_rule"
  by (auto simp: established_rule_def invalid_rule_def outgoing_rule_def)

text \<open>The forward chain for a list of pairs.\<close>

abbreviation pairs_chain :: "(string \<times> string) list \<Rightarrow> rule_args list" where
  "pairs_chain ps \<equiv> concat (map pair_rules ps)"

lemma drop_notin_pair [simp]: "drop_rule \<notin> set (pair_rules p)"
  by (simp add: pair_rules_def established_rule_def invalid_rule_def outgoing_rule_def)

lemma remove_pair:
  "(i, x) \<in> set ps \<Longrightarrow>
   remove1 (outgoing_rule i x) (remove1 (invalid_rule i x) (remove1 (established_rule i x) (pairs_chain ps @ rest))) =
     pairs_chain (remove1 (i, x) ps) @ rest"
proof (induction ps)
  case (Cons p ps)
  then show ?case by (cases p) (auto simp: pair_rules_def)
qed simp

lemma move_drop:
  "remove1 drop_rule ((pairs_chain ps @ [drop_rule]) @ new) = pairs_chain ps @ new"
  by (simp add: remove1_append)

text \<open>What an enabling call does up to the routing rule.\<close>

lemma enableNat_prefix:
  assumes "ipt_accepting e" and "nat_view c0 (pairs_chain ps @ [drop_rule]) post n s"
    and "isIfaceName i" "isIfaceName x" "i \<noteq> x"
  obtains s1 where "nat_view c0 (pairs_chain (ps @ [(i, x)]) @ [drop_rule])
      (if n = 0 then post @ [[''-o'', x, ''-j'', ''MASQUERADE'']] else post) n s1"
    and "run_state (enableNat e i x) s = run_state (do {
           r \<leftarrow> enableTethering e i x;
           if r \<noteq> 0 then do { unwind_first e; nat_set_errno (- r); ret (- 1) }
           else do { modify (natCount_update (\<lambda>n. n + 1)); ret 0 } }) s1"
proof -
  let ?post = "if n = 0 then post @ [[''-o'', x, ''-j'', ''MASQUERADE'']] else post"
  let ?masq = "[IPTABLES_PATH, ''-t'', ''nat'', ''-A'', nat_POSTROUTING, ''-o'', x, ''-j'', ''MASQUERADE'']"
  let ?s0 = "if n = 0 then s\<lparr>hist := EvRun ?masq 0 # hist s\<rparr> else s"
  have n: "natCount s = n" using assms(2) by (simp add: nat_view_def)
  have v0: "nat_view c0 (pairs_chain ps @ [drop_rule]) ?post n ?s0"
    using assms(2) by (auto simp: nat_view_def ipt_change_def)
  obtain r s2 where f: "run_state (setForwardRules e True i x) ?s0 = (r, s2)" by fastforce
  from setForwardRules_accepted [OF assms(1) f v0]
  have r: "r = 0" and v2: "nat_view c0 ((pairs_chain ps @ [drop_rule]) @ pair_rules (i, x)) ?post n s2" by simp_all
  let ?s1 = "s2\<lparr>hist := [EvRun [IPTABLES_PATH, ''-A'', nat_FORWARD, ''-j'', ''DROP''] 0,
      EvRun [IPTABLES_PATH, ''-D'', nat_FORWARD, ''-j'', ''DROP''] 0] @ hist s2\<rparr>"
  have "nat_view c0 (pairs_chain (ps @ [(i, x)]) @ [drop_rule]) ?post n ?s1"
    using v2 move_drop [of ps "pair_rules (i, x)"] by (simp add: nat_view_def ipt_change_def)
  moreover have "run_state (enableNat e i x) s = run_state (do {
           r \<leftarrow> enableTethering e i x;
           if r \<noteq> 0 then do { unwind_first e; nat_set_errno (- r); ret (- 1) }
           else do { modify (natCount_update (\<lambda>n. n + 1)); ret 0 } }) ?s1"
    using assms(1,3-5) n f r by (cases "n = 0") (simp_all add: enableNat_def run_simps run_accepted)
  ultimately show thesis by (rule that)
qed

lemma nat_view_enableTethering:
  assumes "run_state (enableTethering e i x) s = (r, s')" and "nat_view c0 fwd post n s"
  shows "nat_view c0 fwd post n s'"
  using hoareD [OF nat_view_tethering assms(2) assms(1) [unfolded enableTethering_def]] .

lemma enableNat_returns_0:
  assumes "ipt_accepting e" and "nat_view c0 (pairs_chain ps @ [drop_rule]) post n s"
    and "isIfaceName i" "isIfaceName x" "i \<noteq> x"
    and tether: "\<And>s :: 'a natctl_scheme. fst (run_state (enableTethering e i x) s) = 0 \<longleftrightarrow> b"
  shows "fst (run_state (enableNat e i x) (s :: 'a natctl_scheme)) = 0 \<longleftrightarrow> b"
proof -
  from enableNat_prefix [OF assms(1-5)] obtain s1 where
    run: "run_state (enableNat e i x) s = run_state (do {
           r \<leftarrow> enableTethering e i x;
           if r \<noteq> 0 then do { unwind_first e; nat_set_errno (- r); ret (- 1) }
           else do { modify (natCount_update (\<lambda>n. n + 1)); ret 0 } }) s1" .
  obtain r s2 where t: "run_state (enableTethering e i x) s1 = (r, s2)" by fastforce
  then have "r = 0 \<longleftrightarrow> b" using tether [of s1] by simp
  then show ?thesis unfolding run by (auto simp: run_simps t split: prod.splits)
qed

lemma enableNat_success:
  assumes "ipt_accepting e" and "nat_view c0 (pairs_chain ps @ [drop_rule]) post n s"
    and "run_state (enableNat e i x) s = (0, s')"
  shows "nat_view c0 (pairs_chain (ps @ [(i, x)]) @ [drop_rule])
           (if n = 0 then post @ [[''-o'', x, ''-j'', ''MASQUERADE'']] else post) (n + 1) s'"
proof -
  have valid: "isIfaceName i" "isIfaceName x" "i \<noteq> x"
    using assms(3) by (auto simp: enableNat_def run_simps nat_set_errno_def split: if_splits)
  from enableNat_prefix [OF assms(1,2) valid] obtain s1 where
    v: "nat_view c0 (pairs_chain (ps @ [(i, x)]) @ [drop_rule])
          (if n = 0 then post @ [[''-o'', x, ''-j'', ''MASQUERADE'']] else post) n s1"
    and run: "run_state (enableNat e i x) s = run_state (do {
           r \<leftarrow> enableTethering e i x;
           if r \<noteq> 0 then do { unwind_first e; nat_set_errno (- r); ret (- 1) }
           else do { modify (natCount_update (\<lambda>n. n + 1)); ret 0 } }) s1" .
  obtain r s2 where t: "run_state (enableTethering e i x) s1 = (r, s2)" by fastforce
  with run assms(3) have "r = 0" "s' = natCount_update (\<lambda>n. n + 1) s2" by (auto simp: run_simps split: if_splits prod.splits)
  with nat_view_enableTethering [OF t v] show ?thesis by (simp add: nat_view_def)
qed

lemma enableNat_failure:
  assumes "ipt_accepting e" and "nat_view c0 (pairs_chain ps @ [drop_rule]) post n s"
    and "run_state (enableNat e i x) s = (r, s')" and "r \<noteq> 0"
  shows "r = - 1 \<and>
         (if \<not> isIfaceName i \<or> \<not> isIfaceName x \<or> i = x then nat_view c0 (pairs_chain ps @ [drop_rule]) post n s'
          else if n = 0 then nat_view c0 [drop_rule] [] 0 s'
          else nat_view c0 (pairs_chain (ps @ [(i, x)]) @ [drop_rule]) post n s')"
proof (cases "\<not> isIfaceName i \<or> \<not> isIfaceName x \<or> i = x")
  case True
  then show ?thesis
    using assms(2,3) by (auto simp: enableNat_def run_simps nat_set_errno_def nat_view_def split: if_splits)
next
  case False
  then have valid: "isIfaceName i" "isIfaceName x" "i \<noteq> x" by auto
  from enableNat_prefix [OF assms(1,2) valid] obtain s1 where
    v: "nat_view c0 (pairs_chain (ps @ [(i, x)]) @ [drop_rule])
          (if n = 0 then post @ [[''-o'', x, ''-j'', ''MASQUERADE'']] else post) n s1"
    and run: "run_state (enableNat e i x) s = run_state (do {
           r \<leftarrow> enableTethering e i x;
           if r \<noteq> 0 then do { unwind_first e; nat_set_errno (- r); ret (- 1) }
           else do { modify (natCount_update (\<lambda>n. n + 1)); ret 0 } }) s1" .
  obtain r1 s2 where t: "run_state (enableTethering e i x) s1 = (r1, s2)" by fastforce
  note v2 = nat_view_enableTethering [OF t v]
  have r1: "r1 \<noteq> 0" using run assms(3,4) t by (auto simp: run_simps split: if_splits)
  obtain q s3 where d: "run_state (nat_setDefaults e) s2 = (q, s3)" by fastforce
  note v3 = setDefaults_accepted [OF assms(1) d, of c0]
  show ?thesis
  proof (cases "n = 0")
    case True
    then have "r = - 1" "s' = s3\<lparr>nat_errno := - r1\<rparr>"
      using run assms(3) t r1 d v2 by (auto simp: run_simps unwind_first_def nat_set_errno_def nat_view_def)
    with v3 valid True show ?thesis by (simp add: nat_view_def)
  next
    case False
    then have "r = - 1" "s' = s2\<lparr>nat_errno := - r1\<rparr>"
      using run assms(3) t r1 v2 by (auto simp: run_simps unwind_first_def nat_set_errno_def nat_view_def)
    with v2 valid False show ?thesis by (simp add: nat_view_def)
  qed
qed

lemma disableNat_success:
  assumes "ipt_accepting e" and "nat_view c0 (pairs_chain ps @ [drop_rule]) post (int (length ps)) s"
    and "(i, x) \<in> set ps" and "run_state (disableNat e i x) s = (0, s')"
  shows "nat_view c0 (pairs_chain (remove1 (i, x) ps) @ [drop_rule]) (if remove1 (i, x) ps = [] then [] else post)
           (int (length (remove1 (i, x) ps))) s'"
proof -
  obtain r s1 where t: "run_state (disableTethering e i x) s = (r, s1)" by fastforce
  have valid: "isIfaceName i" "isIfaceName x" "r = 0"
    using assms(4) t by (auto simp: disableNat_def run_simps nat_set_errno_def split: if_splits)
  have v1: "nat_view c0 (pairs_chain ps @ [drop_rule]) post (int (length ps)) s1"
    using hoareD [OF nat_view_tethering assms(2) t [unfolded disableTethering_def]] .
  obtain r2 s2 where f: "run_state (setForwardRules e False i x) s1 = (r2, s2)" by fastforce
  have v2: "nat_view c0 (pairs_chain (remove1 (i, x) ps) @ [drop_rule]) post (int (length ps)) s2"
    using setForwardRules_accepted [OF assms(1) f v1] remove_pair [OF assms(3), of "[drop_rule]"] by simp
  let ?s3 = "s2\<lparr>natCount := int (length ps) - 1\<rparr>"
  have len: "int (length (remove1 (i, x) ps)) = int (length ps) - 1"
    using assms(3) length_pos_if_in_set [OF assms(3)] by (simp add: length_remove1 of_nat_diff Suc_leI del: length_greater_0_conv)
  have n2: "natCount s2 = int (length ps)" and s3: "natCount_update (\<lambda>n. n - 1) s2 = ?s3"
    using v2 by (simp_all add: nat_view_def)
  show ?thesis
  proof (cases "remove1 (i, x) ps = []")
    case True
    obtain q s4 where d: "run_state (nat_setDefaults e) ?s3 = (q, s4)" by fastforce
    have "s' = s4" using assms(4) t valid f d len True s3 n2 by (simp add: disableNat_def run_simps)
    then show ?thesis using setDefaults_accepted [OF assms(1) d, of c0] True by simp
  next
    case False
    then have "natCount s2 > 1" using len n2 by (cases "remove1 (i, x) ps") simp_all
    then have "s' = ?s3" using assms(4) t valid f s3 n2 by (simp add: disableNat_def run_simps)
    then show ?thesis using v2 len False by (simp add: nat_view_def)
  qed
qed

lemma disableNat_failure:
  assumes "nat_view c0 fwd post n s" and "run_state (disableNat e i x) s = (r, s')" and "r \<noteq> 0"
  shows "nat_view c0 fwd post n s'"
proof (cases "isIfaceName i \<and> isIfaceName x")
  case True
  obtain r1 s1 where t: "run_state (disableTethering e i x) s = (r1, s1)" by fastforce
  have "s' = s1\<lparr>nat_errno := - r1\<rparr>"
    using assms(2,3) t True by (auto simp: disableNat_def run_simps nat_set_errno_def split: if_splits prod.splits)
  then show ?thesis
    using hoareD [OF nat_view_tethering assms(1) t [unfolded disableTethering_def]] by (simp add: nat_view_def)
next
  case False
  then show ?thesis
    using assms by (auto simp: disableNat_def run_simps nat_set_errno_def nat_view_def split: if_splits)
qed

text \<open>
  The states that calls reach, with the pairs for which tethering is on: an enabling call adds its pair on
  success; a failing one, while no pair is on or with names that are refused at once, adds none. A disabling
  call is for a pair that is on, and removes it on success.
\<close>

inductive nat_reach :: "env \<Rightarrow> (string \<times> string) list \<Rightarrow> natctl \<Rightarrow> bool" for e where
  start: "run_state (nat_setupIptablesHooks e) s0 = (0, s) \<Longrightarrow> nat_reach e [] s"
| enable: "nat_reach e ps s \<Longrightarrow> run_state (enableNat e i x) s = (0, s') \<Longrightarrow> nat_reach e (ps @ [(i, x)]) s'"
| enable_fails: "nat_reach e ps s \<Longrightarrow> run_state (enableNat e i x) s = (r, s') \<Longrightarrow> r \<noteq> 0 \<Longrightarrow>
     ps = [] \<or> \<not> isIfaceName i \<or> \<not> isIfaceName x \<or> i = x \<Longrightarrow> nat_reach e ps s'"
| disable: "nat_reach e ps s \<Longrightarrow> (i, x) \<in> set ps \<Longrightarrow> run_state (disableNat e i x) s = (0, s') \<Longrightarrow>
     nat_reach e (remove1 (i, x) ps) s'"
| disable_fails: "nat_reach e ps s \<Longrightarrow> run_state (disableNat e i x) s = (r, s') \<Longrightarrow> r \<noteq> 0 \<Longrightarrow> nat_reach e ps s'"

inductive_cases nat_reach_Nil: "nat_reach e [] s"

definition nat_ok :: "chains \<Rightarrow> (string \<times> string) list \<Rightarrow> 'a natctl_scheme \<Rightarrow> bool" where
  "nat_ok c0 ps s \<longleftrightarrow>
     (\<exists>post. nat_view c0 (pairs_chain ps @ [drop_rule]) post (int (length ps)) s \<and>
             (if ps = [] then post = [] else \<exists>x. post = [[''-o'', x, ''-j'', ''MASQUERADE'']]))"

lemma nat_reach_ok: "nat_reach e ps s \<Longrightarrow> ipt_accepting e \<Longrightarrow> nat_ok c0 ps s"
proof (induction rule: nat_reach.induct)
  case (start s0 s)
  then show ?case using setup_accepted by (auto simp: nat_ok_def)
next
  case (enable ps s i x s')
  then obtain post where "nat_view c0 (pairs_chain ps @ [drop_rule]) post (int (length ps)) s"
      and post: "if ps = [] then post = [] else \<exists>x. post = [[''-o'', x, ''-j'', ''MASQUERADE'']]"
    by (auto simp: nat_ok_def)
  from enableNat_success [OF \<open>ipt_accepting e\<close> this(1) enable.hyps(2)] post show ?case
    by (auto simp: nat_ok_def add.commute split: if_splits)
next
  case (enable_fails ps s i x r s')
  then obtain post where "nat_view c0 (pairs_chain ps @ [drop_rule]) post (int (length ps)) s"
      and post: "if ps = [] then post = [] else \<exists>x. post = [[''-o'', x, ''-j'', ''MASQUERADE'']]"
    by (auto simp: nat_ok_def)
  from enableNat_failure [OF \<open>ipt_accepting e\<close> this(1) enable_fails.hyps(2,3)] post enable_fails.hyps(4) show ?case
    by (auto simp: nat_ok_def split: if_splits)
next
  case (disable ps s i x s')
  then obtain post where "nat_view c0 (pairs_chain ps @ [drop_rule]) post (int (length ps)) s"
      and post: "\<exists>x. post = [[''-o'', x, ''-j'', ''MASQUERADE'']]"
    by (auto simp: nat_ok_def split: if_splits)
  from disableNat_success [OF \<open>ipt_accepting e\<close> this(1) disable.hyps(2,3)] post show ?case
    by (auto simp: nat_ok_def split: if_splits)
next
  case (disable_fails ps s i x r s')
  then show ?case using disableNat_failure [OF _ disable_fails.hyps(2,3)] unfolding nat_ok_def by blast
qed

definition sample_nat :: natctl where
  "sample_nat = \<lparr>hist = [], interfaceToTable = [], natCount = 0, ifacePairList = [], nat_errno = 0\<rparr>"

lemma sample_ipt_accepting: "ipt_accepting sample_env"
  by (simp add: ipt_accepting_def sample_env_def)

lemma setup_returns_0: "ipt_accepting e \<Longrightarrow> fst (run_state (nat_setupIptablesHooks e) s) = 0"
  by (simp add: nat_setupIptablesHooks_def nat_setDefaults_def run_commands_def run_simps run_accepted)

lemma sample_ifaces: "isIfaceName ''wlan0''" "isIfaceName ''rmnet0''" "isIfaceName ''usb0''"
  by (simp_all add: isIfaceName_def IFNAMSIZ_def iface_char_def isalnum_def isdigit_def less_eq_char_def)

lemmas tether_eval = enableTethering_def modifyTetheredNetwork_def getRouteTableForInterface_def run_simps sample_env_def
  Let_def RT_TABLE_UNSPEC_def ROUTE_TABLE_OFFSET_FROM_INDEX_def modifyIpRule_def padInterfaceName_def
  sendNetlinkRequest_def AF_FAMILIES_def MARK_UNSET_def IFNAMSIZ_def errno_defs

section \<open>Properties\<close>



text \<open>
  When tethering is on for some pair and a further pair cannot be enabled because the routing rule is
  refused, the call reports failure and the counter stays, but the three forwarding rules of the refused pair
  remain in the chain: only the failure of a first pair is unwound.
\<close>

theorem enableNat_leaves_rules:
  assumes "ipt_accepting e" and "nat_reach e ps s" and "ps \<noteq> []"
    and "isIfaceName i" "isIfaceName x" "i \<noteq> x" and "run_state (enableNat e i x) s = (r, s')" and "r \<noteq> 0"
  shows "r = - 1 \<and> natCount s' = natCount s \<and>
         forward_chain c0 s' = concat (map pair_rules (ps @ [(i, x)])) @ [drop_rule]"
proof -
  obtain post where "nat_view c0 (pairs_chain ps @ [drop_rule]) post (int (length ps)) s"
    using nat_reach_ok [OF assms(2,1), of c0] by (auto simp: nat_ok_def)
  from this enableNat_failure [OF assms(1) this assms(7,8)] assms(3-6) show ?thesis
    by (simp add: nat_view_def)
qed

theorem enableNat_leaves_rules_witness:
  "\<exists>s s'. nat_reach sample_env [(''usb0'', ''rmnet0'')] s \<and>
     run_state (enableNat sample_env ''usb0123456789abc'' ''rmnet0'') s = (- 1, s') \<and> natCount s' = natCount s \<and>
     invalid_rule ''usb0123456789abc'' ''rmnet0'' \<in> set (forward_chain (\<lambda>_. []) s')"
proof -
  note acc = sample_ipt_accepting
  let ?long = "''usb0123456789abc''"
  have long: "isIfaceName ?long"
    by (simp add: isIfaceName_def IFNAMSIZ_def iface_char_def isalnum_def isdigit_def less_eq_char_def)
  have view: "nat_reach sample_env ps s \<Longrightarrow> \<exists>post n. nat_view (\<lambda>_. []) (pairs_chain ps @ [drop_rule]) post n s" for ps s
    using nat_reach_ok [OF _ acc] by (fastforce simp: nat_ok_def)
  have ack: "fst (run_state (enableTethering sample_env ''usb0'' ''rmnet0'') s) = 0"
    and nack: "fst (run_state (enableTethering sample_env ?long ''rmnet0'') s) \<noteq> 0" for s :: natctl
    by (simp_all add: tether_eval)
  obtain s0 where "run_state (nat_setupIptablesHooks sample_env) sample_nat = (0, s0)"
    using setup_returns_0 [OF acc, of sample_nat] by (metis prod.collapse)
  then have r0: "nat_reach sample_env [] s0" by (rule nat_reach.start)
  obtain post n where v0: "nat_view (\<lambda>_. []) (pairs_chain [] @ [drop_rule]) post n s0" using view [OF r0] by blast
  have "fst (run_state (enableNat sample_env ''usb0'' ''rmnet0'') s0) = 0"
    using enableNat_returns_0 [OF acc v0 sample_ifaces(3,2), of True] ack by simp
  then obtain s where s: "run_state (enableNat sample_env ''usb0'' ''rmnet0'') s0 = (0, s)" by (metis prod.collapse)
  have r1: "nat_reach sample_env [(''usb0'', ''rmnet0'')] s" using nat_reach.enable [OF r0 s] by simp
  obtain post n where v1: "nat_view (\<lambda>_. []) (pairs_chain [(''usb0'', ''rmnet0'')] @ [drop_rule]) post n s"
    using view [OF r1] by blast
  obtain r s' where s': "run_state (enableNat sample_env ?long ''rmnet0'') s = (r, s')" by fastforce
  moreover have "r \<noteq> 0"
    using enableNat_returns_0 [OF acc v1 long sample_ifaces(2), of False] nack s' by simp
  ultimately show ?thesis
    using enableNat_leaves_rules [OF acc r1 _ long sample_ifaces(2) _ s', of "\<lambda>_. []"] r1
    by (auto simp: pair_rules_def)
qed

end
