(* ===== verification/ResponseCode.thy ===== *)
theory ResponseCode
  imports Sys
begin

text \<open>
  \<^verbatim>\<open>server/ResponseCode.h\<close>, the codes of the messages to clients, and \<^verbatim>\<open>SocketClient::sendMsg\<close> of the system's
  library: the code and the text of a message become an event. With its last argument true, \<^verbatim>\<open>sendMsg\<close> adds
  the text of \<^verbatim>\<open>errno\<close>; the event keeps the value where the daemon itself has set it, and \<^const>\<open>None\<close> where it
  is what an earlier call of the library has left.
\<close>

section \<open>Model\<close>

definition ActionInitiated :: int where "ActionInitiated = 100"
definition InterfaceListResult :: int where "InterfaceListResult = 110"
definition TetherInterfaceListResult :: int where "TetherInterfaceListResult = 111"
definition TetherDnsFwdTgtListResult :: int where "TetherDnsFwdTgtListResult = 112"
definition TtyListResult :: int where "TtyListResult = 113"
definition TetheringStatsListResult :: int where "TetheringStatsListResult = 114"
definition TetherDnsFwdNetIdResult :: int where "TetherDnsFwdNetIdResult = 115"
definition CommandOkay :: int where "CommandOkay = 200"
definition TetherStatusResult :: int where "TetherStatusResult = 210"
definition IpFwdStatusResult :: int where "IpFwdStatusResult = 211"
definition InterfaceGetCfgResult :: int where "InterfaceGetCfgResult = 213"
definition SoftapStatusResult :: int where "SoftapStatusResult = 214"
definition UsbRNDISStatusResult :: int where "UsbRNDISStatusResult = 215"
definition InterfaceRxCounterResult :: int where "InterfaceRxCounterResult = 216"
definition InterfaceTxCounterResult :: int where "InterfaceTxCounterResult = 217"
definition InterfaceRxThrottleResult :: int where "InterfaceRxThrottleResult = 218"
definition InterfaceTxThrottleResult :: int where "InterfaceTxThrottleResult = 219"
definition QuotaCounterResult :: int where "QuotaCounterResult = 220"
definition TetheringStatsResult :: int where "TetheringStatsResult = 221"
definition DnsProxyQueryResult :: int where "DnsProxyQueryResult = 222"
definition ClatdStatusResult :: int where "ClatdStatusResult = 223"
definition V6RtrAdvResult :: int where "V6RtrAdvResult = 227"
definition OperationFailed :: int where "OperationFailed = 400"
definition DnsProxyOperationFailed :: int where "DnsProxyOperationFailed = 401"
definition ServiceStartFailed :: int where "ServiceStartFailed = 402"
definition ServiceStopFailed :: int where "ServiceStopFailed = 403"
definition CommandSyntaxError :: int where "CommandSyntaxError = 500"
definition CommandParameterError :: int where "CommandParameterError = 501"
definition InterfaceChange :: int where "InterfaceChange = 600"
definition BandwidthControl :: int where "BandwidthControl = 601"
definition ServiceDiscoveryFailed :: int where "ServiceDiscoveryFailed = 602"
definition ServiceDiscoveryServiceAdded :: int where "ServiceDiscoveryServiceAdded = 603"
definition ServiceDiscoveryServiceRemoved :: int where "ServiceDiscoveryServiceRemoved = 604"
definition ServiceRegistrationFailed :: int where "ServiceRegistrationFailed = 605"
definition ServiceRegistrationSucceeded :: int where "ServiceRegistrationSucceeded = 606"
definition ServiceResolveFailed :: int where "ServiceResolveFailed = 607"
definition ServiceResolveSuccess :: int where "ServiceResolveSuccess = 608"
definition ServiceSetHostnameFailed :: int where "ServiceSetHostnameFailed = 609"
definition ServiceSetHostnameSuccess :: int where "ServiceSetHostnameSuccess = 610"
definition ServiceGetAddrInfoFailed :: int where "ServiceGetAddrInfoFailed = 611"
definition ServiceGetAddrInfoSuccess :: int where "ServiceGetAddrInfoSuccess = 612"
definition InterfaceClassActivity :: int where "InterfaceClassActivity = 613"
definition InterfaceAddressChange :: int where "InterfaceAddressChange = 614"
definition InterfaceDnsInfo :: int where "InterfaceDnsInfo = 615"
definition RouteChange :: int where "RouteChange = 616"

definition sendMsg :: "int \<Rightarrow> string \<Rightarrow> ('a sys_scheme, unit) state" where
  "sendMsg code msg = log_event (EvSend code msg)"

definition sendMsgErrno :: "int \<Rightarrow> string \<Rightarrow> int option \<Rightarrow> ('a sys_scheme, unit) state" where
  "sendMsgErrno code msg err = log_event (EvSendErrno code msg err)"

text \<open>A message to every client of a listener.\<close>

definition sendBroadcast :: "int \<Rightarrow> string \<Rightarrow> ('a sys_scheme, unit) state" where
  "sendBroadcast code msg = log_event (EvBroadcast code msg)"

text \<open>One message for each element of a list.\<close>

primrec send_each :: "int \<Rightarrow> string list \<Rightarrow> ('a sys_scheme, unit) state" where
  "send_each code [] = ret ()"
| "send_each code (x # xs) = do { sendMsg code x; send_each code xs }"

section \<open>Lemmas\<close>

lemma run_sendMsg [run_simps]: "run_state (sendMsg code msg) s = ((), s\<lparr>hist := EvSend code msg # hist s\<rparr>)"
  by (simp add: sendMsg_def)

lemma run_sendBroadcast [run_simps]:
  "run_state (sendBroadcast code msg) s = ((), s\<lparr>hist := EvBroadcast code msg # hist s\<rparr>)"
  by (simp add: sendBroadcast_def)

lemma run_sendMsgErrno [run_simps]:
  "run_state (sendMsgErrno code msg err) s = ((), s\<lparr>hist := EvSendErrno code msg err # hist s\<rparr>)"
  by (simp add: sendMsgErrno_def)

lemma run_send_each [run_simps]:
  "run_state (send_each code xs) s = ((), s\<lparr>hist := rev (map (EvSend code) xs) @ hist s\<rparr>)"
  by (induction xs arbitrary: s) (simp_all add: run_simps)

lemma keeps_send [wp]:
  "hist_free I \<Longrightarrow> keeps I (sendMsg code msg)" "hist_free I \<Longrightarrow> keeps I (sendMsgErrno code msg err)"
  "hist_free I \<Longrightarrow> keeps I (sendBroadcast code msg)"
  by (simp_all add: hoare_def run_simps)

lemma keeps_send_each [wp]: "hist_free I \<Longrightarrow> keeps I (send_each code xs)"
  by (induction xs) (auto intro!: wp)

end
