(* ===== verification/BandwidthController.thy ===== *)
theory BandwidthController
  imports NatController ResponseCode
begin

text \<open>
  \<^verbatim>\<open>server/BandwidthController.cpp\<close>: data quotas and alerts per interface, shared quotas, apps that are denied or
  granted metered data, and the traffic counters of tethering. Commands are texts that are split at spaces
  and run for both IP versions. The logging flag of the commands has no effect on what is run.
\<close>

section \<open>Constants and state\<close>

definition ALERT_GLOBAL_NAME :: string where "ALERT_GLOBAL_NAME = ''globalAlert''"
definition MAX_CMD_ARGS :: nat where "MAX_CMD_ARGS = 32"
definition MAX_CMD_LEN :: nat where "MAX_CMD_LEN = 1024"
definition MAX_IFACENAME_LEN :: nat where "MAX_IFACENAME_LEN = 64"

definition IPT_FLUSH_COMMANDS :: "string list" where
  "IPT_FLUSH_COMMANDS =
     [''-F bw_INPUT'', ''-F bw_OUTPUT'', ''-F bw_FORWARD'', ''-F bw_happy_box'', ''-F bw_penalty_box'',
      ''-F bw_costly_shared'', ''-t raw -F bw_raw_PREROUTING'', ''-t mangle -F bw_mangle_POSTROUTING'']"

definition IPT_CLEANUP_COMMANDS :: "string list" where
  "IPT_CLEANUP_COMMANDS = [''-X bw_happy_box'', ''-X bw_penalty_box'', ''-X bw_costly_shared'']"

definition IPT_SETUP_COMMANDS :: "string list" where
  "IPT_SETUP_COMMANDS = [''-w -N bw_happy_box'', ''-w -N bw_penalty_box'', ''-w -N bw_costly_shared'']"

definition IPT_BASIC_ACCOUNTING_COMMANDS :: "string list" where
  "IPT_BASIC_ACCOUNTING_COMMANDS =
     [''-w -A bw_INPUT -m owner --socket-exists'', ''-w -A bw_OUTPUT -m owner --socket-exists'',
      ''-w -A bw_costly_shared --jump bw_penalty_box'',
      ''-w -t raw -A bw_raw_PREROUTING -m owner --socket-exists'',
      ''-w -t mangle -A bw_mangle_POSTROUTING -m owner --socket-exists'']"

datatype IptIpVer = IptIpV4 | IptIpV6
datatype IptOp = IptOpInsert | IptOpReplace | IptOpDelete | IptOpAppend
datatype IptJumpOp = IptJumpReject | IptJumpReturn | IptJumpNoAdd
datatype SpecialAppOp = SpecialAppOpAdd | SpecialAppOpRemove
datatype QuotaType = QuotaUnique | QuotaShared
datatype RunCmdErrHandling = RunCmdFailureBad | RunCmdFailureOk

record QuotaInfo =
  ifaceName :: string
  quota :: int
  alert :: int

record bw = sys +
  sharedQuotaIfaces :: "string list"
  sharedQuotaBytes :: int
  sharedAlertBytes :: int
  globalAlertBytes :: int
  globalAlertTetherCount :: int
  quotaIfaces :: "QuotaInfo list"
  naughtyAppUids :: "int list"
  niceAppUids :: "int list"

section \<open>Running commands\<close>

text \<open>\<^verbatim>\<open>StrncpyAndCheck\<close>: whether the text and its terminator do not fit the buffer.\<close>

definition StrncpyAndCheck :: "string \<Rightarrow> nat \<Rightarrow> bool" where
  "StrncpyAndCheck src buffSize \<longleftrightarrow> buffSize \<le> length src"

text \<open>\<^verbatim>\<open>snprintf\<close> into a command buffer.\<close>

definition cmd_text :: "string \<Rightarrow> string" where
  "cmd_text s = take (MAX_CMD_LEN - 1) s"

definition jump_text :: "IptJumpOp \<Rightarrow> string" where
  "jump_text jumpHandling =
     (case jumpHandling of
        IptJumpReject \<Rightarrow> '' --jump REJECT''
      | IptJumpReturn \<Rightarrow> '' --jump RETURN''
      | IptJumpNoAdd \<Rightarrow> [])"

definition ipt_path :: "IptIpVer \<Rightarrow> string" where
  "ipt_path iptVer = (if iptVer = IptIpV4 then IPTABLES_PATH else IP6TABLES_PATH)"

definition runIptablesCmd :: "env \<Rightarrow> string \<Rightarrow> IptJumpOp \<Rightarrow> IptIpVer \<Rightarrow> ('a sys_scheme, int) state" where
  "runIptablesCmd e cmd jumpHandling iptVer =
     (let fullCmd = ipt_path iptVer @ '' '' @ cmd @ jump_text jumpHandling in
      if StrncpyAndCheck fullCmd MAX_CMD_LEN then ret (- 1)
      else let argv = strsep_all (CHR '' '') fullCmd in
        if length argv \<ge> MAX_CMD_ARGS then ret (- 1)
        else do {
          (res, status) \<leftarrow> fork_execvp e argv;
          ret (if res \<noteq> 0 \<or> \<not> WIFEXITED status \<or> WEXITSTATUS status \<noteq> 0 then 1 else 0) })"

definition bw_runIpxtablesCmd :: "env \<Rightarrow> string \<Rightarrow> IptJumpOp \<Rightarrow> ('a sys_scheme, int) state" where
  "bw_runIpxtablesCmd e cmd jumpHandling =
     or_all [runIptablesCmd e cmd jumpHandling IptIpV4, runIptablesCmd e cmd jumpHandling IptIpV6]"

definition runCommands :: "env \<Rightarrow> string list \<Rightarrow> RunCmdErrHandling \<Rightarrow> ('a sys_scheme, int) state" where
  "runCommands e commands cmdErrHandling =
     for_ok (\<lambda>cmd. do {
         res \<leftarrow> bw_runIpxtablesCmd e cmd IptJumpNoAdd;
         ret (if res \<noteq> 0 \<and> cmdErrHandling \<noteq> RunCmdFailureOk then res else 0) }) commands"

section \<open>Set-up\<close>

text \<open>What \<^verbatim>\<open>fgets(lineBuffer, MAX_IPT_OUTPUT_LINE_LEN, fp)\<close> reads; the parsers get these pieces.\<close>

definition MAX_IPT_OUTPUT_LINE_LEN :: nat where "MAX_IPT_OUTPUT_LINE_LEN = 256"

definition ipt_lines :: "string list \<Rightarrow> string list" where
  "ipt_lines fp = fgets_lines (MAX_IPT_OUTPUT_LINE_LEN - 1) fp"

text \<open>\<^verbatim>\<open>sscanf(buffPtr, "-N bw_costly_%s", costlyIfaceName) == 1\<close>.\<close>

definition scan_costly :: "string \<Rightarrow> cstr" where
  "scan_costly line =
     (case sscanf (scan_text ''-N bw_costly_'' @ [ScanWord]) line of [SWord name] \<Rightarrow> Some name | _ \<Rightarrow> None)"

primrec parseAndFlushCostlyTables :: "env \<Rightarrow> bool \<Rightarrow> string list \<Rightarrow> ('a sys_scheme, unit) state" where
  "parseAndFlushCostlyTables e doRemove [] = ret ()"
| "parseAndFlushCostlyTables e doRemove (line # fp) = do {
     (case scan_costly line of
        None \<Rightarrow> ret ()
      | Some costlyIfaceName \<Rightarrow>
          if costlyIfaceName = ''shared'' then ret ()
          else do {
            _ \<leftarrow> bw_runIpxtablesCmd e (cmd_text (''-F bw_costly_'' @ costlyIfaceName)) IptJumpNoAdd;
            if doRemove then do {
              _ \<leftarrow> bw_runIpxtablesCmd e (cmd_text (''-X bw_costly_'' @ costlyIfaceName)) IptJumpNoAdd;
              ret () }
            else ret () });
     parseAndFlushCostlyTables e doRemove fp }"

definition flushExistingCostlyTables :: "env \<Rightarrow> bool \<Rightarrow> ('a sys_scheme, unit) state" where
  "flushExistingCostlyTables e doClean = do {
     iptOutput \<leftarrow> popen_read e (IPTABLES_PATH @ '' -S'');
     case iptOutput of None \<Rightarrow> ret () | Some fp \<Rightarrow> parseAndFlushCostlyTables e doClean (ipt_lines fp) }"

definition flushCleanTables :: "env \<Rightarrow> bool \<Rightarrow> ('a sys_scheme, unit) state" where
  "flushCleanTables e doClean = do {
     flushExistingCostlyTables e doClean;
     _ \<leftarrow> runCommands e IPT_FLUSH_COMMANDS RunCmdFailureOk;
     if doClean then do { _ \<leftarrow> runCommands e IPT_CLEANUP_COMMANDS RunCmdFailureOk; ret () } else ret () }"

definition bw_setupIptablesHooks :: "env \<Rightarrow> ('a sys_scheme, int) state" where
  "bw_setupIptablesHooks e = do {
     flushCleanTables e True;
     _ \<leftarrow> runCommands e IPT_SETUP_COMMANDS RunCmdFailureBad;
     ret 0 }"

text \<open>\<open>property\<close> is the value of \<^verbatim>\<open>persist.bandwidth.enable\<close>, \<^verbatim>\<open>"1"\<close> if it is not set.\<close>

definition enableBandwidthControl :: "env \<Rightarrow> bool \<Rightarrow> cstr \<Rightarrow> ('a bw_scheme, int) state" where
  "enableBandwidthControl e force property =
     (if \<not> force \<and> (case property of None \<Rightarrow> ''1'' | Some v \<Rightarrow> v) = ''0'' then ret 0
      else do {
        modify (\<lambda>s. s\<lparr>sharedQuotaIfaces := [], quotaIfaces := [], naughtyAppUids := [], niceAppUids := [],
                      globalAlertBytes := 0, globalAlertTetherCount := 0, sharedQuotaBytes := 0, sharedAlertBytes := 0\<rparr>);
        flushCleanTables e False;
        runCommands e IPT_BASIC_ACCOUNTING_COMMANDS RunCmdFailureBad })"

definition disableBandwidthControl :: "env \<Rightarrow> ('a sys_scheme, int) state" where
  "disableBandwidthControl e = do { flushCleanTables e False; ret 0 }"

section \<open>Apps\<close>

definition op_flag :: "IptOp \<Rightarrow> string" where
  "op_flag op =
     (case op of IptOpInsert \<Rightarrow> ''-I'' | IptOpAppend \<Rightarrow> ''-A'' | IptOpReplace \<Rightarrow> ''-R'' | IptOpDelete \<Rightarrow> ''-D'')"

definition makeIptablesSpecialAppCmd :: "IptOp \<Rightarrow> int \<Rightarrow> string \<Rightarrow> string" where
  "makeIptablesSpecialAppCmd op uid chain =
     (if op = IptOpAppend then []
      else op_flag op @ '' '' @ chain @ '' -m owner --uid-owner '' @ fmt_d uid)"

definition enableHappyBox :: "env \<Rightarrow> ('a bw_scheme, int) state" where
  "enableHappyBox e = do {
     _ \<leftarrow> bw_runIpxtablesCmd e ''-N bw_happy_box'' IptJumpNoAdd;
     modify (niceAppUids_update (\<lambda>_. []));
     r1 \<leftarrow> bw_runIpxtablesCmd e ''-F bw_happy_box'' IptJumpNoAdd;
     _ \<leftarrow> bw_runIpxtablesCmd e ''-D bw_penalty_box -j bw_happy_box'' IptJumpNoAdd;
     r2 \<leftarrow> bw_runIpxtablesCmd e ''-A bw_penalty_box -j bw_happy_box'' IptJumpNoAdd;
     _ \<leftarrow> bw_runIpxtablesCmd e ''-D bw_happy_box -j REJECT'' IptJumpNoAdd;
     r3 \<leftarrow> bw_runIpxtablesCmd e ''-A bw_happy_box -j REJECT'' IptJumpNoAdd;
     ret (r1 OR r2 OR r3) }"

definition disableHappyBox :: "env \<Rightarrow> ('a bw_scheme, int) state" where
  "disableHappyBox e = do {
     _ \<leftarrow> bw_runIpxtablesCmd e ''-D bw_penalty_box -j bw_happy_box'' IptJumpNoAdd;
     modify (niceAppUids_update (\<lambda>_. []));
     _ \<leftarrow> bw_runIpxtablesCmd e ''-F bw_happy_box'' IptJumpNoAdd;
     _ \<leftarrow> bw_runIpxtablesCmd e ''-X bw_happy_box'' IptJumpNoAdd;
     ret 0 }"

text \<open>The first loop: \<^verbatim>\<open>int\<close> keeps 32 bits of what \<^verbatim>\<open>strtoul\<close> returns; \<^const>\<open>None\<close> is the jump to \<^verbatim>\<open>fail_parse\<close>.\<close>

fun parse_uids :: "string list \<Rightarrow> int list option" where
  "parse_uids [] = Some []"
| "parse_uids (str # strs) =
     (let (v, end) = strtoul str 0 in
      if end \<noteq> [] \<or> str = [] then None
      else case parse_uids strs of None \<Rightarrow> None | Some us \<Rightarrow> Some (sint (ucast v :: u32) # us))"

text \<open>
  The second loop. The list of UIDs that the reference parameter refers to is given by how it is read and
  updated.
\<close>

primrec special_apps_loop ::
  "env \<Rightarrow> string \<Rightarrow> ('a bw_scheme \<Rightarrow> int list) \<Rightarrow> ((int list \<Rightarrow> int list) \<Rightarrow> 'a bw_scheme \<Rightarrow> 'a bw_scheme) \<Rightarrow>
   IptJumpOp \<Rightarrow> SpecialAppOp \<Rightarrow> int list \<Rightarrow> ('a bw_scheme, int) state" where
  "special_apps_loop e chain get upd jump appOp [] = ret 0"
| "special_apps_loop e chain get upd jump appOp (uid # uids) = do {
     found \<leftarrow> gets (\<lambda>s. uid \<in> set (get s));
     if (appOp = SpecialAppOpRemove) \<noteq> found then ret (- 1)
     else do {
       modify (upd (if appOp = SpecialAppOpRemove then remove1 uid else (\<lambda>l. uid # l)));
       r \<leftarrow> bw_runIpxtablesCmd e
              (makeIptablesSpecialAppCmd (if appOp = SpecialAppOpAdd then IptOpInsert else IptOpDelete) uid chain) jump;
       if r \<noteq> 0 then do {
         _ \<leftarrow> bw_runIpxtablesCmd e (makeIptablesSpecialAppCmd IptOpDelete uid chain) jump;
         ret (- 1) }
       else special_apps_loop e chain get upd jump appOp uids } }"

definition manipulateSpecialApps ::
  "env \<Rightarrow> string list \<Rightarrow> string \<Rightarrow> ('a bw_scheme \<Rightarrow> int list) \<Rightarrow>
   ((int list \<Rightarrow> int list) \<Rightarrow> 'a bw_scheme \<Rightarrow> 'a bw_scheme) \<Rightarrow> IptJumpOp \<Rightarrow> SpecialAppOp \<Rightarrow> ('a bw_scheme, int) state" where
  "manipulateSpecialApps e appStrUids chain get upd jumpHandling appOp =
     (case parse_uids appStrUids of
        None \<Rightarrow> ret (- 1)
      | Some appUids \<Rightarrow> special_apps_loop e chain get upd jumpHandling appOp appUids)"

definition manipulateNaughtyApps :: "env \<Rightarrow> string list \<Rightarrow> SpecialAppOp \<Rightarrow> ('a bw_scheme, int) state" where
  "manipulateNaughtyApps e appStrUids appOp =
     manipulateSpecialApps e appStrUids ''bw_penalty_box'' naughtyAppUids naughtyAppUids_update IptJumpReject appOp"

definition manipulateNiceApps :: "env \<Rightarrow> string list \<Rightarrow> SpecialAppOp \<Rightarrow> ('a bw_scheme, int) state" where
  "manipulateNiceApps e appStrUids appOp =
     manipulateSpecialApps e appStrUids ''bw_happy_box'' niceAppUids niceAppUids_update IptJumpReturn appOp"

definition addNaughtyApps :: "env \<Rightarrow> string list \<Rightarrow> ('a bw_scheme, int) state" where
  "addNaughtyApps e appUids = manipulateNaughtyApps e appUids SpecialAppOpAdd"

definition removeNaughtyApps :: "env \<Rightarrow> string list \<Rightarrow> ('a bw_scheme, int) state" where
  "removeNaughtyApps e appUids = manipulateNaughtyApps e appUids SpecialAppOpRemove"

definition addNiceApps :: "env \<Rightarrow> string list \<Rightarrow> ('a bw_scheme, int) state" where
  "addNiceApps e appUids = manipulateNiceApps e appUids SpecialAppOpAdd"

definition removeNiceApps :: "env \<Rightarrow> string list \<Rightarrow> ('a bw_scheme, int) state" where
  "removeNiceApps e appUids = manipulateNiceApps e appUids SpecialAppOpRemove"

section \<open>Quotas\<close>

definition makeIptablesQuotaCmd :: "IptOp \<Rightarrow> string \<Rightarrow> int \<Rightarrow> string" where
  "makeIptablesQuotaCmd op costName q =
     op_flag op @ '' bw_costly_'' @ costName @ '' -m quota2 ! --quota '' @ fmt_d q @ '' --name '' @ costName"

definition cost_chain :: "string \<Rightarrow> QuotaType \<Rightarrow> string" where
  "cost_chain ifn quotaType = (if quotaType = QuotaUnique then ''bw_costly_'' @ ifn else ''bw_costly_shared'')"

definition prepCostlyIface :: "env \<Rightarrow> string \<Rightarrow> QuotaType \<Rightarrow> ('a bw_scheme, int) state" where
  "prepCostlyIface e ifn quotaType = do {
     let cost = cost_chain ifn quotaType;
     res \<leftarrow> (if quotaType = QuotaUnique then do {
               res1 \<leftarrow> bw_runIpxtablesCmd e (cmd_text (''-F '' @ cost)) IptJumpNoAdd;
               res2 \<leftarrow> bw_runIpxtablesCmd e (cmd_text (''-N '' @ cost)) IptJumpNoAdd;
               res3 \<leftarrow> bw_runIpxtablesCmd e (cmd_text (''-A '' @ cost @ '' -j bw_penalty_box'')) IptJumpNoAdd;
               ret ((if (res1 \<noteq> 0 \<and> res2 \<noteq> 0) \<or> (res1 = 0 \<and> res2 = 0) then 1 else 0) OR res3) }
             else ret 0);
     alertBytes \<leftarrow> gets globalAlertBytes;
     let pos = (if alertBytes \<noteq> 0 then ''2'' else ''1'');
     _ \<leftarrow> bw_runIpxtablesCmd e (cmd_text (''-D bw_INPUT -i '' @ ifn @ '' --jump '' @ cost)) IptJumpNoAdd;
     r1 \<leftarrow> bw_runIpxtablesCmd e (cmd_text (''-I bw_INPUT '' @ pos @ '' -i '' @ ifn @ '' --jump '' @ cost)) IptJumpNoAdd;
     _ \<leftarrow> bw_runIpxtablesCmd e (cmd_text (''-D bw_OUTPUT -o '' @ ifn @ '' --jump '' @ cost)) IptJumpNoAdd;
     r2 \<leftarrow> bw_runIpxtablesCmd e (cmd_text (''-I bw_OUTPUT '' @ pos @ '' -o '' @ ifn @ '' --jump '' @ cost)) IptJumpNoAdd;
     ret (res OR r1 OR r2) }"

definition cleanupCostlyIface :: "env \<Rightarrow> string \<Rightarrow> QuotaType \<Rightarrow> ('a sys_scheme, int) state" where
  "cleanupCostlyIface e ifn quotaType =
     (let cost = cost_chain ifn quotaType in
      or_all ([bw_runIpxtablesCmd e (cmd_text (''-D bw_INPUT -i '' @ ifn @ '' --jump '' @ cost)) IptJumpNoAdd,
               bw_runIpxtablesCmd e (cmd_text (''-D bw_OUTPUT -o '' @ ifn @ '' --jump '' @ cost)) IptJumpNoAdd] @
              (if quotaType = QuotaUnique
               then [bw_runIpxtablesCmd e (cmd_text (''-F '' @ cost)) IptJumpNoAdd,
                     bw_runIpxtablesCmd e (cmd_text (''-X '' @ cost)) IptJumpNoAdd]
               else [])))"

definition xt_quota_path :: "string \<Rightarrow> string" where
  "xt_quota_path name = ''/proc/net/xt_quota/'' @ name"

definition updateQuota :: "env \<Rightarrow> string \<Rightarrow> int \<Rightarrow> ('a sys_scheme, int) state" where
  "updateQuota e quotaName bytes =
     (if \<not> isIfaceName quotaName then ret (- 1)
      else do {
        opened \<leftarrow> fprintf_path e (xt_quota_path quotaName) (fmt_d bytes @ [CHR 0x0A]);
        ret (if opened then 0 else - 1) })"

text \<open>The result and, when a number could be read, that number.\<close>

definition getInterfaceQuota :: "env \<Rightarrow> string \<Rightarrow> ('a sys_scheme, int \<times> int option) state" where
  "getInterfaceQuota e costName =
     (if \<not> isIfaceName costName then ret (- 1, None)
      else do {
        text \<leftarrow> read_path e (xt_quota_path costName);
        ret (case text of
            None \<Rightarrow> (- 1, None)
          | Some t \<Rightarrow> (case sscanf [ScanInt] t of [SInt bytes] \<Rightarrow> (0, Some bytes) | _ \<Rightarrow> (- 1, None))) })"

definition getInterfaceSharedQuota :: "env \<Rightarrow> ('a sys_scheme, int \<times> int option) state" where
  "getInterfaceSharedQuota e = getInterfaceQuota e ''shared''"

text \<open>\<^verbatim>\<open>ALERT_IPT_TEMPLATE\<close>.\<close>

definition alert_cmd :: "string \<Rightarrow> string \<Rightarrow> int \<Rightarrow> string \<Rightarrow> string" where
  "alert_cmd opFlag chain bytes alertName =
     opFlag @ '' '' @ chain @ '' -m quota2 ! --quota '' @ fmt_d bytes @ '' --name '' @ alertName"

text \<open>
  The pointer \<^verbatim>\<open>alertBytes\<close> is passed as its value; the functions return their result and the value that the
  pointer refers to afterwards.
\<close>

definition setCostlyAlert :: "env \<Rightarrow> string \<Rightarrow> int \<Rightarrow> int \<Rightarrow> ('a sys_scheme, int \<times> int) state" where
  "setCostlyAlert e costName bytes alertBytes =
     (if \<not> isIfaceName costName then ret (- 1, alertBytes)
      else if bytes = 0 then ret (- 1, alertBytes)
      else do {
        let alertName = costName @ ''Alert'';
        res \<leftarrow> (if alertBytes \<noteq> 0 then updateQuota e alertName alertBytes
                else bw_runIpxtablesCmd e (alert_cmd ''-A'' (''bw_costly_'' @ costName) bytes alertName) IptJumpNoAdd);
        ret (res, bytes) })"

definition removeCostlyAlert :: "env \<Rightarrow> string \<Rightarrow> int \<Rightarrow> ('a sys_scheme, int \<times> int) state" where
  "removeCostlyAlert e costName alertBytes =
     (if \<not> isIfaceName costName then ret (- 1, alertBytes)
      else if alertBytes = 0 then ret (- 1, alertBytes)
      else do {
        res \<leftarrow> bw_runIpxtablesCmd e (alert_cmd ''-D'' (''bw_costly_'' @ costName) alertBytes (costName @ ''Alert''))
                 IptJumpNoAdd;
        ret (res, 0) })"

definition setSharedAlert :: "env \<Rightarrow> int \<Rightarrow> ('a bw_scheme, int) state" where
  "setSharedAlert e bytes = do {
     q \<leftarrow> gets sharedQuotaBytes;
     if q = 0 then ret (- 1)
     else if bytes = 0 then ret (- 1)
     else do {
       a \<leftarrow> gets sharedAlertBytes;
       (res, a') \<leftarrow> setCostlyAlert e ''shared'' bytes a;
       modify (sharedAlertBytes_update (\<lambda>_. a'));
       ret res } }"

definition removeSharedAlert :: "env \<Rightarrow> ('a bw_scheme, int) state" where
  "removeSharedAlert e = do {
     a \<leftarrow> gets sharedAlertBytes;
     (res, a') \<leftarrow> removeCostlyAlert e ''shared'' a;
     modify (sharedAlertBytes_update (\<lambda>_. a'));
     ret res }"

definition removeInterfaceSharedQuota :: "env \<Rightarrow> string \<Rightarrow> ('a bw_scheme, int) state" where
  "removeInterfaceSharedQuota e iface =
     (if \<not> isIfaceName iface then ret (- 1)
      else if StrncpyAndCheck iface MAX_IFACENAME_LEN then ret (- 1)
      else do {
        found \<leftarrow> gets (\<lambda>s. iface \<in> set (sharedQuotaIfaces s));
        if \<not> found then ret (- 1)
        else do {
          res \<leftarrow> cleanupCostlyIface e iface QuotaShared;
          modify (sharedQuotaIfaces_update (remove1 iface));
          ifaces \<leftarrow> gets sharedQuotaIfaces;
          if ifaces = [] then do {
            q \<leftarrow> gets sharedQuotaBytes;
            r \<leftarrow> bw_runIpxtablesCmd e (makeIptablesQuotaCmd IptOpDelete ''shared'' q) IptJumpReject;
            modify (sharedQuotaBytes_update (\<lambda>_. 0));
            a \<leftarrow> gets sharedAlertBytes;
            (if a \<noteq> 0 then do {
               _ \<leftarrow> removeSharedAlert e;
               modify (sharedAlertBytes_update (\<lambda>_. 0)) }
             else ret ());
            ret (res OR r) }
          else ret res } })"

text \<open>
  \<^verbatim>\<open>setInterfaceSharedQuota\<close> in three parts: the insertion of a new interface, the update of the quota, and the
  label \<^verbatim>\<open>fail\<close>. A nonzero result of one of the first two jumps there.
\<close>

definition shared_insert :: "env \<Rightarrow> string \<Rightarrow> int \<Rightarrow> ('a bw_scheme, int \<times> bool) state" where
  "shared_insert e ifn maxBytes = do {
     ifaces \<leftarrow> gets sharedQuotaIfaces;
     if ifn \<in> set ifaces then ret (0, False)
     else do {
       res \<leftarrow> prepCostlyIface e ifn QuotaShared;
       (res, failed) \<leftarrow> (if ifaces = [] then do {
           r \<leftarrow> bw_runIpxtablesCmd e (makeIptablesQuotaCmd IptOpInsert ''shared'' maxBytes) IptJumpReject;
           let res = res OR r;
           if res \<noteq> 0 then ret (res, True)
           else do { modify (sharedQuotaBytes_update (\<lambda>_. maxBytes)); ret (res, False) } }
         else ret (res, False));
       if failed then ret (res, True)
       else do { modify (sharedQuotaIfaces_update (\<lambda>l. ifn # l)); ret (res, False) } } }"

definition shared_update :: "env \<Rightarrow> int \<Rightarrow> int \<Rightarrow> ('a bw_scheme, bool) state" where
  "shared_update e res maxBytes = do {
     q \<leftarrow> gets sharedQuotaBytes;
     if maxBytes \<noteq> q then do {
       r \<leftarrow> updateQuota e ''shared'' maxBytes;
       if res OR r \<noteq> 0 then ret True
       else do { modify (sharedQuotaBytes_update (\<lambda>_. maxBytes)); ret False } }
     else ret False }"

definition setInterfaceSharedQuota :: "env \<Rightarrow> string \<Rightarrow> int \<Rightarrow> ('a bw_scheme, int) state" where
  "setInterfaceSharedQuota e iface maxBytes =
     (if maxBytes = 0 then ret (- 1)
      else if \<not> isIfaceName iface then ret (- 1)
      else if StrncpyAndCheck iface MAX_IFACENAME_LEN then ret (- 1)
      else if maxBytes = - 1 then removeInterfaceSharedQuota e iface
      else do {
        (res, failed) \<leftarrow> shared_insert e iface maxBytes;
        failed \<leftarrow> (if failed then ret True else shared_update e res maxBytes);
        if failed then do { _ \<leftarrow> removeInterfaceSharedQuota e iface; ret (- 1) } else ret 0 })"

definition find_quota :: "string \<Rightarrow> QuotaInfo list \<Rightarrow> QuotaInfo option" where
  "find_quota ifn qs = List.find (\<lambda>q. ifaceName q = ifn) qs"

text \<open>An assignment through the iterator changes the first entry with the name, \<^verbatim>\<open>erase\<close> removes it.\<close>

fun upd_quota :: "string \<Rightarrow> (QuotaInfo \<Rightarrow> QuotaInfo) \<Rightarrow> QuotaInfo list \<Rightarrow> QuotaInfo list" where
  "upd_quota ifn f [] = []"
| "upd_quota ifn f (q # qs) = (if ifaceName q = ifn then f q # qs else q # upd_quota ifn f qs)"

fun erase_quota :: "string \<Rightarrow> QuotaInfo list \<Rightarrow> QuotaInfo list" where
  "erase_quota ifn [] = []"
| "erase_quota ifn (q # qs) = (if ifaceName q = ifn then qs else q # erase_quota ifn qs)"

definition removeInterfaceQuota :: "env \<Rightarrow> string \<Rightarrow> ('a bw_scheme, int) state" where
  "removeInterfaceQuota e iface =
     (if \<not> isIfaceName iface then ret (- 1)
      else if StrncpyAndCheck iface MAX_IFACENAME_LEN then ret (- 1)
      else do {
        qs \<leftarrow> gets quotaIfaces;
        if find_quota iface qs = None then ret (- 1)
        else do {
          res \<leftarrow> cleanupCostlyIface e iface QuotaUnique;
          modify (quotaIfaces_update (erase_quota iface));
          ret res } })"

definition setInterfaceQuota :: "env \<Rightarrow> string \<Rightarrow> int \<Rightarrow> ('a bw_scheme, int) state" where
  "setInterfaceQuota e iface maxBytes =
     (if \<not> isIfaceName iface then ret (- 1)
      else if maxBytes = 0 then ret (- 1)
      else if maxBytes = - 1 then removeInterfaceQuota e iface
      else if StrncpyAndCheck iface MAX_IFACENAME_LEN then ret (- 1)
      else do {
        qs \<leftarrow> gets quotaIfaces;
        res \<leftarrow> (if find_quota iface qs = None then do {
                  r1 \<leftarrow> prepCostlyIface e iface QuotaUnique;
                  r2 \<leftarrow> bw_runIpxtablesCmd e (makeIptablesQuotaCmd IptOpAppend iface maxBytes) IptJumpReject;
                  (if r1 OR r2 = 0
                   then modify (quotaIfaces_update (\<lambda>l. \<lparr>ifaceName = iface, quota = maxBytes, alert = 0\<rparr> # l))
                   else ret ());
                  ret (r1 OR r2) }
                else do {
                  r \<leftarrow> updateQuota e iface maxBytes;
                  (if r = 0 then modify (quotaIfaces_update (upd_quota iface (quota_update (\<lambda>_. maxBytes)))) else ret ());
                  ret r });
        if res \<noteq> 0 then do { _ \<leftarrow> removeInterfaceSharedQuota e iface; ret (- 1) } else ret 0 })"

section \<open>Alerts\<close>

definition runIptablesAlertCmd :: "env \<Rightarrow> IptOp \<Rightarrow> string \<Rightarrow> int \<Rightarrow> ('a sys_scheme, int) state" where
  "runIptablesAlertCmd e op alertName bytes =
     or_all [bw_runIpxtablesCmd e (alert_cmd (op_flag op) ''bw_INPUT'' bytes alertName) IptJumpNoAdd,
             bw_runIpxtablesCmd e (alert_cmd (op_flag op) ''bw_OUTPUT'' bytes alertName) IptJumpNoAdd]"

definition runIptablesAlertFwdCmd :: "env \<Rightarrow> IptOp \<Rightarrow> string \<Rightarrow> int \<Rightarrow> ('a sys_scheme, int) state" where
  "runIptablesAlertFwdCmd e op alertName bytes =
     bw_runIpxtablesCmd e (alert_cmd (op_flag op) ''bw_FORWARD'' bytes alertName) IptJumpNoAdd"

definition setGlobalAlert :: "env \<Rightarrow> int \<Rightarrow> ('a bw_scheme, int) state" where
  "setGlobalAlert e bytes =
     (if bytes = 0 then ret (- 1)
      else do {
        a \<leftarrow> gets globalAlertBytes;
        n \<leftarrow> gets globalAlertTetherCount;
        res \<leftarrow> (if a \<noteq> 0 then updateQuota e ALERT_GLOBAL_NAME bytes
                else do {
                  r1 \<leftarrow> runIptablesAlertCmd e IptOpInsert ALERT_GLOBAL_NAME bytes;
                  r2 \<leftarrow> (if n \<noteq> 0 then runIptablesAlertFwdCmd e IptOpInsert ALERT_GLOBAL_NAME bytes else ret 0);
                  ret (r1 OR r2) });
        modify (globalAlertBytes_update (\<lambda>_. bytes));
        ret res })"

definition setGlobalAlertInForwardChain :: "env \<Rightarrow> ('a bw_scheme, int) state" where
  "setGlobalAlertInForwardChain e = do {
     modify (globalAlertTetherCount_update (\<lambda>n. n + 1));
     a \<leftarrow> gets globalAlertBytes;
     n \<leftarrow> gets globalAlertTetherCount;
     if a = 0 \<or> n \<noteq> 1 then ret 0
     else runIptablesAlertFwdCmd e IptOpInsert ALERT_GLOBAL_NAME a }"

definition removeGlobalAlert :: "env \<Rightarrow> ('a bw_scheme, int) state" where
  "removeGlobalAlert e = do {
     a \<leftarrow> gets globalAlertBytes;
     n \<leftarrow> gets globalAlertTetherCount;
     if a = 0 then ret (- 1)
     else do {
       r1 \<leftarrow> runIptablesAlertCmd e IptOpDelete ALERT_GLOBAL_NAME a;
       r2 \<leftarrow> (if n \<noteq> 0 then runIptablesAlertFwdCmd e IptOpDelete ALERT_GLOBAL_NAME a else ret 0);
       modify (globalAlertBytes_update (\<lambda>_. 0));
       ret (r1 OR r2) } }"

definition removeGlobalAlertInForwardChain :: "env \<Rightarrow> ('a bw_scheme, int) state" where
  "removeGlobalAlertInForwardChain e = do {
     n \<leftarrow> gets globalAlertTetherCount;
     if n = 0 then ret (- 1)
     else do {
       modify (globalAlertTetherCount_update (\<lambda>n. n - 1));
       a \<leftarrow> gets globalAlertBytes;
       n \<leftarrow> gets globalAlertTetherCount;
       if a = 0 \<or> n \<ge> 1 then ret 0
       else runIptablesAlertFwdCmd e IptOpDelete ALERT_GLOBAL_NAME a } }"

definition setInterfaceAlert :: "env \<Rightarrow> string \<Rightarrow> int \<Rightarrow> ('a bw_scheme, int) state" where
  "setInterfaceAlert e iface bytes =
     (if \<not> isIfaceName iface then ret (- 1)
      else if bytes = 0 then ret (- 1)
      else do {
        qs \<leftarrow> gets quotaIfaces;
        case find_quota iface qs of
          None \<Rightarrow> ret (- 1)
        | Some q \<Rightarrow> do {
            (res, a) \<leftarrow> setCostlyAlert e iface bytes (alert q);
            modify (quotaIfaces_update (upd_quota iface (alert_update (\<lambda>_. a))));
            ret res } })"

definition removeInterfaceAlert :: "env \<Rightarrow> string \<Rightarrow> ('a bw_scheme, int) state" where
  "removeInterfaceAlert e iface =
     (if \<not> isIfaceName iface then ret (- 1)
      else do {
        qs \<leftarrow> gets quotaIfaces;
        case find_quota iface qs of
          None \<Rightarrow> ret (- 1)
        | Some q \<Rightarrow> do {
            (res, a) \<leftarrow> removeCostlyAlert e iface (alert q);
            modify (quotaIfaces_update (upd_quota iface (alert_update (\<lambda>_. a))));
            ret res } })"

section \<open>Tethering statistics\<close>

record TetherStats =
  intIface :: string
  extIface :: string
  rxBytes :: int
  rxPackets :: int
  txBytes :: int
  txPackets :: int

definition new_TetherStats :: TetherStats where
  "new_TetherStats = \<lparr>intIface = [], extIface = [], rxBytes = - 1, rxPackets = - 1, txBytes = - 1, txPackets = - 1\<rparr>"

definition getStatsLine :: "TetherStats \<Rightarrow> string" where
  "getStatsLine st = intIface st @ '' '' @ extIface st @ '' '' @ fmt_d (rxBytes st) @ '' '' @ fmt_d (rxPackets st) @
     '' '' @ fmt_d (txBytes st) @ '' '' @ fmt_d (txPackets st)"

text \<open>The two \<^verbatim>\<open>sscanf\<close> formats: packets, bytes and the interfaces of a line that has all five fields.\<close>

definition stats_fields :: "scan_value list \<Rightarrow> (int \<times> int \<times> string \<times> string) option" where
  "stats_fields vs =
     (case vs of [SInt packets, SInt bytes, SWord iface0, SWord iface1, SWord rest] \<Rightarrow> Some (packets, bytes, iface0, iface1)
      | _ \<Rightarrow> None)"

definition scan_stats :: "string \<Rightarrow> (int \<times> int \<times> string \<times> string) option" where
  "scan_stats line = stats_fields (sscanf ([ScanInt, ScanSpace, ScanInt] @ scan_text '' RETURN all -- '' @
     [ScanWord, ScanSpace, ScanWord] @ scan_text '' 0.'' @ [ScanWord]) line)"

definition scan_stats6 :: "string \<Rightarrow> (int \<times> int \<times> string \<times> string) option" where
  "scan_stats6 line = stats_fields (sscanf ([ScanInt, ScanSpace, ScanInt] @ scan_text '' RETURN all  '' @
     [ScanWord, ScanSpace, ScanWord] @ scan_text '' ::'' @ [ScanWord]) line)"

text \<open>The body of the loop, the same in both functions, up to the test whether both directions are known.\<close>

definition stats_step :: "TetherStats \<Rightarrow> int \<times> int \<times> string \<times> string \<Rightarrow> TetherStats \<Rightarrow> TetherStats" where
  "stats_step filt flds stats =
     (case flds of (packets, bytes, iface0, iface1) \<Rightarrow>
        if intIface filt \<noteq> [] \<and> extIface filt \<noteq> [] then
          if intIface filt = iface0 \<and> extIface filt = iface1 then stats\<lparr>rxPackets := packets, rxBytes := bytes\<rparr>
          else if intIface filt = iface1 \<and> extIface filt = iface0 then stats\<lparr>txPackets := packets, txBytes := bytes\<rparr>
          else stats
        else if intIface filt \<noteq> [] \<or> extIface filt \<noteq> [] then
          if intIface filt = iface0 \<or> extIface filt = iface1
          then stats\<lparr>intIface := iface0, extIface := iface1, rxPackets := packets, rxBytes := bytes\<rparr>
          else if intIface filt = iface1 \<or> extIface filt = iface0
          then stats\<lparr>intIface := iface1, extIface := iface0, txPackets := packets, txBytes := bytes\<rparr>
          else stats
        else
          if intIface stats = []
          then stats\<lparr>intIface := iface0, extIface := iface1, rxPackets := packets, rxBytes := bytes\<rparr>
          else if intIface stats = iface1 \<and> extIface stats = iface0
          then stats\<lparr>txPackets := packets, txBytes := bytes\<rparr>
          else stats)"

text \<open>
  The loop over the lines: the messages sent, the statistics left over, the number of complete entries, and
  whether the function returned from inside the loop.
\<close>

fun stats_loop ::
  "(string \<Rightarrow> (int \<times> int \<times> string \<times> string) option) \<Rightarrow> TetherStats \<Rightarrow> TetherStats \<Rightarrow> nat \<Rightarrow> string list \<Rightarrow>
   (int \<times> string) list \<times> TetherStats \<times> nat \<times> bool" where
  "stats_loop scan filt stats found [] = ([], stats, found, False)"
| "stats_loop scan filt stats found (line # fp) =
     (case scan line of
        None \<Rightarrow> stats_loop scan filt stats found fp
      | Some flds \<Rightarrow>
          let stats = stats_step filt flds stats in
          if rxBytes stats \<noteq> - 1 \<and> txBytes stats \<noteq> - 1 then
            if intIface filt \<noteq> [] \<and> extIface filt \<noteq> []
            then ([(TetheringStatsResult, getStatsLine stats)], stats, found, True)
            else case stats_loop scan filt filt (found + 1) fp of
              (msgs, rest) \<Rightarrow> ((TetheringStatsListResult, getStatsLine stats) # msgs, rest)
          else stats_loop scan filt stats found fp)"

primrec send_all :: "(int \<times> string) list \<Rightarrow> ('a sys_scheme, unit) state" where
  "send_all [] = ret ()"
| "send_all (m # ms) = do { log_event (EvSend (fst m) (snd m)); send_all ms }"

text \<open>The lines that the loop has read, which are added to \<^verbatim>\<open>extraProcessingInfo\<close>.\<close>

fun lines_read :: "(string \<Rightarrow> (int \<times> int \<times> string \<times> string) option) \<Rightarrow> TetherStats \<Rightarrow> TetherStats \<Rightarrow> string list \<Rightarrow> string" where
  "lines_read scan filt stats [] = []"
| "lines_read scan filt stats (line # fp) = line @
     (case scan line of
        None \<Rightarrow> lines_read scan filt stats fp
      | Some flds \<Rightarrow>
          let stats = stats_step filt flds stats in
          if rxBytes stats \<noteq> - 1 \<and> txBytes stats \<noteq> - 1 then
            if intIface filt \<noteq> [] \<and> extIface filt \<noteq> [] then [] else lines_read scan filt filt fp
          else lines_read scan filt stats fp)"

definition parseForwardChainStats :: "TetherStats \<Rightarrow> string list \<Rightarrow> ('a sys_scheme, int) state" where
  "parseForwardChainStats filt fp =
     (case stats_loop scan_stats filt filt 0 fp of (msgs, stats, statsFound, returned) \<Rightarrow> do {
        send_all msgs;
        ret (if returned then 0
             else if (rxBytes stats = - 1) \<noteq> (txBytes stats = - 1) \<or>
                     (statsFound = 0 \<and> \<not> (intIface filt \<noteq> [] \<and> extIface filt \<noteq> [])) then - 1
             else 0) })"

definition parseForwardChainStatsv6 :: "TetherStats \<Rightarrow> string list \<Rightarrow> ('a sys_scheme, int) state" where
  "parseForwardChainStatsv6 filt fp =
     (case stats_loop scan_stats6 filt filt 0 fp of (msgs, stats, statsFound, returned) \<Rightarrow> do {
        send_all msgs;
        if returned then ret 0
        else if (rxBytes stats = - 1) = (txBytes stats = - 1) then do {
          log_event (EvSend CommandOkay ''Tethering stats list completed'');
          ret 0 }
        else ret (- 1) })"

text \<open>The result, and what is added to \<^verbatim>\<open>extraProcessingInfo\<close>.\<close>

definition getTetherStats :: "env \<Rightarrow> TetherStats \<Rightarrow> ('a sys_scheme, int \<times> string) state" where
  "getTetherStats e stats = do {
     iptOutput \<leftarrow> popen_read e (IPTABLES_PATH @ '' -nvx -L '' @ nat_TETHER_COUNTERS);
     case iptOutput of
       None \<Rightarrow> ret (- 1, ''Failed to run iptables.'')
     | Some fp \<Rightarrow> do {
         res \<leftarrow> parseForwardChainStats stats (ipt_lines fp);
         let info = lines_read scan_stats stats stats (ipt_lines fp);
         iptOutput6 \<leftarrow> popen_read e (IP6TABLES_PATH @ '' -nvx -L '' @ nat_TETHER_COUNTERS);
         case iptOutput6 of
           None \<Rightarrow> ret (res, info @ ''Failed to run ip6tables.'')
         | Some fp6 \<Rightarrow> do {
             res6 \<leftarrow> parseForwardChainStatsv6 stats (ipt_lines fp6);
             ret (res + res6, info @ lines_read scan_stats6 stats stats (ipt_lines fp6)) } } }"

end
