(* ===== verification/BandwidthRules.thy ===== *)
theory BandwidthRules
  imports BandwidthController
begin

text \<open>
  Properties of \<^verbatim>\<open>BandwidthController\<close>: the bookkeeping of quotas, alerts and apps stays consistent whatever the
  commands return; the alert in the forward chain follows the number of tethers; the statistics of
  tethering are reported as iptables prints them; and what the error paths leave behind.
\<close>

section \<open>Frame\<close>

lemma keeps_runIptablesCmd [wp]: "hist_free I \<Longrightarrow> keeps I (runIptablesCmd e cmd j v)"
  unfolding runIptablesCmd_def by (intro wp)

lemma keeps_bw_run [wp]: "hist_free I \<Longrightarrow> keeps I (bw_runIpxtablesCmd e cmd j)"
  unfolding bw_runIpxtablesCmd_def by (auto intro!: wp)

lemma keeps_runCommands [wp]: "hist_free I \<Longrightarrow> keeps I (runCommands e cmds h)"
  unfolding runCommands_def by (intro wp)

lemma keeps_parseAndFlush [wp]: "hist_free I \<Longrightarrow> keeps I (parseAndFlushCostlyTables e r fp)"
  by (induction fp) (auto intro!: wp split: option.split)

lemma keeps_flushClean [wp]: "hist_free I \<Longrightarrow> keeps I (flushCleanTables e c)"
  unfolding flushCleanTables_def flushExistingCostlyTables_def by (intro wp)

lemma keeps_cleanupCostlyIface [wp]: "hist_free I \<Longrightarrow> keeps I (cleanupCostlyIface e i t)"
  unfolding cleanupCostlyIface_def Let_def by (auto intro!: wp split: if_splits)

lemma keeps_prepCostlyIface [wp]: "hist_free I \<Longrightarrow> keeps I (prepCostlyIface e i t)"
  unfolding prepCostlyIface_def by (intro wp)

lemma keeps_updateQuota [wp]: "hist_free I \<Longrightarrow> keeps I (updateQuota e n b)"
  unfolding updateQuota_def by (intro wp)

lemma keeps_alert_cmds [wp]:
  "hist_free I \<Longrightarrow> keeps I (runIptablesAlertCmd e op n b)" "hist_free I \<Longrightarrow> keeps I (runIptablesAlertFwdCmd e op n b)"
  unfolding runIptablesAlertCmd_def runIptablesAlertFwdCmd_def by (auto intro!: wp)

section \<open>Consistency of the bookkeeping\<close>

definition bw_inv :: "'a bw_scheme \<Rightarrow> bool" where
  "bw_inv s \<longleftrightarrow>
     distinct (sharedQuotaIfaces s) \<and> list_all isIfaceName (sharedQuotaIfaces s) \<and>
     (sharedQuotaBytes s = 0 \<longleftrightarrow> sharedQuotaIfaces s = []) \<and> (sharedQuotaIfaces s = [] \<longrightarrow> sharedAlertBytes s = 0) \<and>
     distinct (map ifaceName (quotaIfaces s)) \<and>
     list_all (\<lambda>q. isIfaceName (ifaceName q) \<and> quota q \<noteq> 0) (quotaIfaces s) \<and>
     distinct (naughtyAppUids s) \<and> distinct (niceAppUids s) \<and> 0 \<le> globalAlertTetherCount s"

lemma bw_inv_hist [simp]: "bw_inv (s\<lparr>hist := h\<rparr>) = bw_inv s"
  by (simp add: bw_inv_def)

lemma bw_inv_hist_free [simp]: "hist_free bw_inv"
  by (simp add: hist_free_def bw_inv_def)

text \<open>The calls that other parts of the daemon make, and sequences of them.\<close>

datatype bw_call =
    SetSharedQuota string int | RemoveSharedQuota string | SetQuota string int | RemoveQuota string
  | EnableHappyBox | DisableHappyBox | NaughtyApps SpecialAppOp "string list" | NiceApps SpecialAppOp "string list"
  | SetGlobalAlert int | RemoveGlobalAlert | AlertInForwardChain | NoAlertInForwardChain
  | SetSharedAlert int | RemoveSharedAlert | SetInterfaceAlert string int | RemoveInterfaceAlert string
  | EnableBandwidth bool cstr | DisableBandwidth

fun bw_run :: "env \<Rightarrow> bw_call \<Rightarrow> ('a bw_scheme, int) state" where
  "bw_run e (SetSharedQuota i b) = setInterfaceSharedQuota e i b"
| "bw_run e (RemoveSharedQuota i) = removeInterfaceSharedQuota e i"
| "bw_run e (SetQuota i b) = setInterfaceQuota e i b"
| "bw_run e (RemoveQuota i) = removeInterfaceQuota e i"
| "bw_run e EnableHappyBox = enableHappyBox e"
| "bw_run e DisableHappyBox = disableHappyBox e"
| "bw_run e (NaughtyApps SpecialAppOpAdd us) = addNaughtyApps e us"
| "bw_run e (NaughtyApps SpecialAppOpRemove us) = removeNaughtyApps e us"
| "bw_run e (NiceApps SpecialAppOpAdd us) = addNiceApps e us"
| "bw_run e (NiceApps SpecialAppOpRemove us) = removeNiceApps e us"
| "bw_run e (SetGlobalAlert b) = setGlobalAlert e b"
| "bw_run e RemoveGlobalAlert = removeGlobalAlert e"
| "bw_run e AlertInForwardChain = setGlobalAlertInForwardChain e"
| "bw_run e NoAlertInForwardChain = removeGlobalAlertInForwardChain e"
| "bw_run e (SetSharedAlert b) = setSharedAlert e b"
| "bw_run e RemoveSharedAlert = removeSharedAlert e"
| "bw_run e (SetInterfaceAlert i b) = setInterfaceAlert e i b"
| "bw_run e (RemoveInterfaceAlert i) = removeInterfaceAlert e i"
| "bw_run e (EnableBandwidth f p) = enableBandwidthControl e f p"
| "bw_run e DisableBandwidth = disableBandwidthControl e"

primrec bw_runs :: "env \<Rightarrow> bw_call list \<Rightarrow> ('a bw_scheme, int list) state" where
  "bw_runs e [] = ret []"
| "bw_runs e (c # cs) = do { r \<leftarrow> bw_run e c; rs \<leftarrow> bw_runs e cs; ret (r # rs) }"

text \<open>Simple calls, whose every assignment keeps the invariant.\<close>

lemma keeps_happyBox: "keeps bw_inv (enableHappyBox e)" "keeps bw_inv (disableHappyBox e)"
  unfolding enableHappyBox_def disableHappyBox_def
  by (intro wp keeps_modify bw_inv_hist_free; simp add: bw_inv_def)+

lemma keeps_enable: "keeps bw_inv (enableBandwidthControl e f p)"
  unfolding enableBandwidthControl_def
  by (intro wp keeps_modify bw_inv_hist_free) (simp add: bw_inv_def)

lemma keeps_disable: "keeps bw_inv (disableBandwidthControl e)"
  unfolding disableBandwidthControl_def by (intro wp bw_inv_hist_free)

lemma keeps_globalAlert: "keeps bw_inv (setGlobalAlert e b)" "keeps bw_inv (removeGlobalAlert e)"
  "keeps bw_inv (setGlobalAlertInForwardChain e)"
  unfolding setGlobalAlert_def removeGlobalAlert_def setGlobalAlertInForwardChain_def
  by (intro wp keeps_modify bw_inv_hist_free; simp add: bw_inv_def)+

lemma keeps_removeForwardAlert: "keeps bw_inv (removeGlobalAlertInForwardChain e)"
proof (rule hoareI)
  fix s s' :: "'a bw_scheme" and r assume inv: "bw_inv s" and run: "run_state (removeGlobalAlertInForwardChain e) s = (r, s')"
  show "bw_inv s'"
  proof (cases "globalAlertTetherCount s = 0")
    case True
    then show ?thesis using inv run by (simp add: removeGlobalAlertInForwardChain_def run_simps)
  next
    case False
    let ?s = "globalAlertTetherCount_update (\<lambda>n. n - 1) s"
    have "bw_inv ?s" using inv False by (simp add: bw_inv_def)
    moreover have "s' = ?s \<or> (\<exists>a. run_state (runIptablesAlertFwdCmd e IptOpDelete ALERT_GLOBAL_NAME a) ?s = (r, s'))"
      using run False by (auto simp: removeGlobalAlertInForwardChain_def run_simps split: if_splits)
    ultimately show ?thesis by (auto dest: hoareD [OF keeps_alert_cmds(2) [OF bw_inv_hist_free]])
  qed
qed

text \<open>The apps: the list that a call works on.\<close>

lemma keeps_special_apps:
  assumes "\<And>s f. get (upd f s) = f (get s)" and "hist_free I"
    and "\<And>s us. I s \<Longrightarrow> distinct (get s) \<Longrightarrow> (\<And>f. distinct (f (get s)) \<Longrightarrow> I (upd f s))"
    and "\<And>s. I s \<Longrightarrow> distinct (get s)"
  shows "keeps I (special_apps_loop e chain get upd j op us)"
proof (induction us)
  case (Cons u us)
  show ?case
  proof (rule hoareI)
    fix s s' and r assume I: "I s" and run: "run_state (special_apps_loop e chain get upd j op (u # us)) s = (r, s')"
    let ?f = "if op = SpecialAppOpRemove then remove1 u else (\<lambda>l. u # l)"
    let ?cmd = "makeIptablesSpecialAppCmd (if op = SpecialAppOpAdd then IptOpInsert else IptOpDelete) u chain"
    let ?k = "do {
       r \<leftarrow> bw_runIpxtablesCmd e ?cmd j;
       if r \<noteq> 0 then do { _ \<leftarrow> bw_runIpxtablesCmd e (makeIptablesSpecialAppCmd IptOpDelete u chain) j; ret (- 1) }
       else special_apps_loop e chain get upd j op us }"
    show "I s'"
    proof (cases "(op = SpecialAppOpRemove) \<noteq> (u \<in> set (get s))")
      case True
      then show ?thesis using I run by (simp add: run_simps)
    next
      case False
      then have "distinct (?f (get s))" using assms(4) [OF I] by auto
      then have "I (upd ?f s)" using I assms(3,4) by blast
      moreover have "run_state ?k (upd ?f s) = (r, s')" using run False by (simp add: run_simps)
      moreover have "keeps I ?k" by (intro wp assms(2) Cons)
      ultimately show ?thesis by (blast dest: hoareD)
    qed
  qed
qed (simp add: keeps_return)

lemma keeps_apps: "keeps bw_inv (manipulateNaughtyApps e us op)" "keeps bw_inv (manipulateNiceApps e us op)"
  unfolding manipulateNaughtyApps_def manipulateNiceApps_def manipulateSpecialApps_def
  by (intro wp keeps_special_apps; simp add: bw_inv_def)+

text \<open>Functions that only talk to the outside world change nothing but the history.\<close>

lemma hist_only:
  assumes "\<And>I. hist_free I \<Longrightarrow> keeps I m" and "run_state m s = (r, s')"
  shows "\<exists>h. s' = s\<lparr>hist := h\<rparr>"
proof -
  have "hist_free (\<lambda>s'. \<exists>h. s' = s\<lparr>hist := h\<rparr>)"
    unfolding hist_free_def by (metis sys.surjective sys.update_convs(1))
  from hoareD [OF assms(1) [OF this] _ assms(2)] show ?thesis by (metis sys.surjective sys.update_convs(1))
qed

lemma keeps_costlyAlert [wp]:
  "hist_free I \<Longrightarrow> keeps I (setCostlyAlert e n b a)" "hist_free I \<Longrightarrow> keeps I (removeCostlyAlert e n a)"
  unfolding setCostlyAlert_def removeCostlyAlert_def by (intro wp; assumption)+

lemmas hist_only_rules = hist_only [OF keeps_bw_run] hist_only [OF keeps_prepCostlyIface]
  hist_only [OF keeps_cleanupCostlyIface] hist_only [OF keeps_updateQuota] hist_only [OF keeps_costlyAlert(1)]
  hist_only [OF keeps_costlyAlert(2)]

definition without_shared :: "string \<Rightarrow> 'a bw_scheme \<Rightarrow> 'a bw_scheme" where
  "without_shared i s =
     (if i \<notin> set (sharedQuotaIfaces s) then s
      else if remove1 i (sharedQuotaIfaces s) = []
           then s\<lparr>sharedQuotaIfaces := [], sharedQuotaBytes := 0, sharedAlertBytes := 0\<rparr>
      else s\<lparr>sharedQuotaIfaces := remove1 i (sharedQuotaIfaces s)\<rparr>)"

lemma removeSharedAlert_run:
  "run_state (removeSharedAlert e) s = (r, s') \<Longrightarrow> \<exists>h a. s' = s\<lparr>hist := h, sharedAlertBytes := a\<rparr> \<and> (a = 0 \<or> a = sharedAlertBytes s)"
proof -
  assume run: "run_state (removeSharedAlert e) s = (r, s')"
  obtain res a s1 where 1: "run_state (removeCostlyAlert e ''shared'' (sharedAlertBytes s)) s = ((res, a), s1)"
    by (metis prod.collapse)
  then obtain h where "s1 = s\<lparr>hist := h\<rparr>" using hist_only_rules(6) by blast
  moreover have "a = 0 \<or> a = sharedAlertBytes s"
    using 1 by (auto simp: removeCostlyAlert_def run_simps split: if_splits prod.splits)
  ultimately show ?thesis using run 1 by (auto simp: removeSharedAlert_def run_simps)
qed

lemma removeInterfaceSharedQuota_run:
  assumes "run_state (removeInterfaceSharedQuota e i) s = (r, s')"
  shows "\<exists>h. s' = (if isIfaceName i then without_shared i s else s)\<lparr>hist := h\<rparr>"
proof (cases "isIfaceName i \<and> i \<in> set (sharedQuotaIfaces s)")
  case False
  then show ?thesis
    using assms isIfaceName_length [of i]
    by (auto simp: removeInterfaceSharedQuota_def without_shared_def run_simps StrncpyAndCheck_def MAX_IFACENAME_LEN_def
        split: if_splits intro: exI [of _ "hist s"])
next
  case True
  then have len: "\<not> StrncpyAndCheck i MAX_IFACENAME_LEN"
    using isIfaceName_length [of i] by (simp add: StrncpyAndCheck_def MAX_IFACENAME_LEN_def)
  let ?l = "remove1 i (sharedQuotaIfaces s)"
  obtain r1 s1 where c: "run_state (cleanupCostlyIface e i QuotaShared) s = (r1, s1)" by fastforce
  then obtain h1 where s1: "s1 = s\<lparr>hist := h1\<rparr>" using hist_only_rules(3) by blast
  show ?thesis
  proof (cases "?l = []")
    case False
    then show ?thesis
      using assms True len c s1
      by (intro exI [of _ h1]) (auto simp: removeInterfaceSharedQuota_def without_shared_def run_simps)
  next
    case empty: True
    let ?s2 = "s\<lparr>hist := h1, sharedQuotaIfaces := []\<rparr>"
    let ?cmd = "makeIptablesQuotaCmd IptOpDelete ''shared'' (sharedQuotaBytes s)"
    obtain r2 s3 where q: "run_state (bw_runIpxtablesCmd e ?cmd IptJumpReject) ?s2 = (r2, s3)" by fastforce
    then obtain h3 where s3: "s3 = ?s2\<lparr>hist := h3\<rparr>" using hist_only_rules(1) by blast
    let ?s4 = "s\<lparr>sharedQuotaIfaces := [], hist := h3, sharedQuotaBytes := 0\<rparr>"
    have "remove1 i (sharedQuotaIfaces s1) = []" "sharedQuotaIfaces_update (remove1 i) s1 = ?s2"
      using s1 empty by simp_all
    then have run: "run_state (do {
          a \<leftarrow> gets sharedAlertBytes;
          (if a \<noteq> 0 then do { _ \<leftarrow> removeSharedAlert e; modify (sharedAlertBytes_update (\<lambda>_. 0)) } else ret ());
          ret (r1 OR r2) }) ?s4 = (r, s')"
      using assms True len c q s3 by (simp add: removeInterfaceSharedQuota_def run_simps)
    obtain r5 s5 where a: "run_state (removeSharedAlert e) ?s4 = (r5, s5)" by fastforce
    from removeSharedAlert_run [OF this] obtain h5 b where s5: "s5 = ?s4\<lparr>hist := h5, sharedAlertBytes := b\<rparr>" by blast
    show ?thesis
    proof (cases "sharedAlertBytes s = 0")
      case True
      then have "s' = s\<lparr>sharedQuotaIfaces := [], sharedQuotaBytes := 0, sharedAlertBytes := 0\<rparr>\<lparr>hist := h3\<rparr>"
        using run by (cases s) (simp add: run_simps)
      then show ?thesis using \<open>isIfaceName i \<and> _\<close> empty by (auto simp: without_shared_def)
    next
      case False
      then have "s' = s\<lparr>sharedQuotaIfaces := [], sharedQuotaBytes := 0, sharedAlertBytes := 0\<rparr>\<lparr>hist := h5\<rparr>"
        using run a s5 by (auto simp: run_simps)
      then show ?thesis using \<open>isIfaceName i \<and> _\<close> empty by (auto simp: without_shared_def)
    qed
  qed
qed

lemma without_shared_fields:
  "quotaIfaces (without_shared i s) = quotaIfaces s"
  "distinct (sharedQuotaIfaces s) \<Longrightarrow> set (sharedQuotaIfaces (without_shared i s)) = set (sharedQuotaIfaces s) - {i}"
proof -
  assume "distinct (sharedQuotaIfaces s)"
  then have e: "set (remove1 i (sharedQuotaIfaces s)) = set (sharedQuotaIfaces s) - {i}" by simp
  then have "remove1 i (sharedQuotaIfaces s) = [] \<Longrightarrow> set (sharedQuotaIfaces s) - {i} = {}" by (metis list.set(1))
  with e show "set (sharedQuotaIfaces (without_shared i s)) = set (sharedQuotaIfaces s) - {i}"
    by (auto simp: without_shared_def)
qed (simp add: without_shared_def)

lemma without_shared_inv: "bw_inv s \<Longrightarrow> bw_inv (without_shared i s)"
  by (auto simp: bw_inv_def without_shared_def list_all_iff set_remove1_eq)

lemma keeps_removeSharedQuota: "keeps bw_inv (removeInterfaceSharedQuota e i)"
  by (rule hoareI) (auto dest!: removeInterfaceSharedQuota_run simp: without_shared_inv)

lemma keeps_removeSharedAlert: "keeps bw_inv (removeSharedAlert e)"
  by (rule hoareI) (auto dest!: removeSharedAlert_run simp: bw_inv_def)

lemma keeps_setSharedAlert: "keeps bw_inv (setSharedAlert e b)"
proof (rule hoareI)
  fix s s' :: "'a bw_scheme" and r assume inv: "bw_inv s" and run: "run_state (setSharedAlert e b) s = (r, s')"
  obtain res a s1 where 1: "run_state (setCostlyAlert e ''shared'' b (sharedAlertBytes s)) s = ((res, a), s1)"
    by (metis prod.collapse)
  then obtain h where "s1 = s\<lparr>hist := h\<rparr>" using hist_only_rules(5) by blast
  then show "bw_inv s'"
    using run inv 1 by (auto simp: setSharedAlert_def run_simps bw_inv_def split: if_splits)
qed

lemma map_ifaceName_upd: "(\<And>q. ifaceName (f q) = ifaceName q) \<Longrightarrow> map ifaceName (upd_quota i f qs) = map ifaceName qs"
  by (induction qs) auto

lemma list_all_upd_quota: "list_all P qs \<Longrightarrow> (\<And>q. P q \<Longrightarrow> P (f q)) \<Longrightarrow> list_all P (upd_quota i f qs)"
  by (induction qs) auto

lemma erase_quota_eq: "distinct (map ifaceName qs) \<Longrightarrow> erase_quota i qs = filter (\<lambda>q. ifaceName q \<noteq> i) qs"
proof (induction qs)
  case (Cons q qs)
  have "ifaceName q = i \<Longrightarrow> filter (\<lambda>q. ifaceName q \<noteq> i) qs = qs"
    using Cons.prems by (auto simp: filter_id_conv image_iff)
  then show ?case using Cons by auto
qed simp

lemma bw_inv_erase: "bw_inv s \<Longrightarrow> bw_inv (quotaIfaces_update (erase_quota i) s)"
  by (auto simp: bw_inv_def erase_quota_eq list_all_iff distinct_map inj_on_def)

lemma keeps_removeQuota: "keeps bw_inv (removeInterfaceQuota e i)"
  unfolding removeInterfaceQuota_def by (intro wp keeps_modify bw_inv_hist_free bw_inv_erase)

lemma bw_inv_upd:
  "bw_inv s \<Longrightarrow> (\<And>q. ifaceName (f q) = ifaceName q) \<Longrightarrow> (\<And>q. quota q \<noteq> 0 \<Longrightarrow> quota (f q) \<noteq> 0) \<Longrightarrow>
   bw_inv (quotaIfaces_update (upd_quota i f) s)"
  by (auto simp: bw_inv_def map_ifaceName_upd intro!: list_all_upd_quota)

lemma keeps_interfaceAlert: "keeps bw_inv (setInterfaceAlert e i b)" "keeps bw_inv (removeInterfaceAlert e i)"
  unfolding setInterfaceAlert_def removeInterfaceAlert_def
  by (intro wp keeps_modify bw_inv_hist_free bw_inv_upd; simp)+

lemma find_quota_None: "find_quota i qs = None \<longleftrightarrow> i \<notin> set (map ifaceName qs)"
  by (auto simp: find_quota_def find_None_iff)

lemma keeps_setQuota: "keeps bw_inv (setInterfaceQuota e i b)"
proof (rule hoareI)
  fix s s' :: "'a bw_scheme" and r assume inv: "bw_inv s" and run: "run_state (setInterfaceQuota e i b) s = (r, s')"
  show "bw_inv s'"
  proof (cases "\<not> isIfaceName i \<or> b = 0 \<or> b = - 1 \<or> StrncpyAndCheck i MAX_IFACENAME_LEN")
    case True
    then show ?thesis
      using run inv hoareD [OF keeps_removeQuota inv]
      by (auto simp: setInterfaceQuota_def run_simps split: if_splits)
  next
    case False
    let ?new = "find_quota i (quotaIfaces s) = None"
    let ?m = "if ?new then do {
                  r1 \<leftarrow> prepCostlyIface e i QuotaUnique;
                  r2 \<leftarrow> bw_runIpxtablesCmd e (makeIptablesQuotaCmd IptOpAppend i b) IptJumpReject;
                  (if r1 OR r2 = 0 then modify (quotaIfaces_update (\<lambda>l. \<lparr>ifaceName = i, quota = b, alert = 0\<rparr> # l)) else ret ());
                  ret (r1 OR r2) }
                else do {
                  r \<leftarrow> updateQuota e i b;
                  (if r = 0 then modify (quotaIfaces_update (upd_quota i (quota_update (\<lambda>_. b)))) else ret ());
                  ret r }"
    let ?I = "\<lambda>s'. bw_inv s' \<and> (?new \<longrightarrow> find_quota i (quotaIfaces s') = None)"
    have free: "hist_free ?I" by (simp add: hist_free_def bw_inv_def)
    have "hoare ?I ?m (\<lambda>_. bw_inv)"
    proof (cases ?new)
      case True
      have "hoare ?I (do { r1 \<leftarrow> prepCostlyIface e i QuotaUnique;
          r2 \<leftarrow> bw_runIpxtablesCmd e (makeIptablesQuotaCmd IptOpAppend i b) IptJumpReject;
          (if r1 OR r2 = 0 then modify (quotaIfaces_update (\<lambda>l. \<lparr>ifaceName = i, quota = b, alert = 0\<rparr> # l)) else ret ());
          ret (r1 OR r2) }) (\<lambda>_. bw_inv)"
        using False True free
        by (auto intro!: hoare_bind [OF keeps_prepCostlyIface] hoare_bind [OF keeps_bw_run] hoare_if hoare_return
            hoare_bind [OF _ hoare_return, where R = "\<lambda>_. bw_inv"] hoare_modify simp: bw_inv_def find_quota_None)
      then show ?thesis using True by simp
    next
      case old: False
      then show ?thesis
        using False
        by (auto intro!: hoare_pre [of bw_inv] wp bw_inv_hist_free keeps_modify bw_inv_upd)
    qed
    moreover obtain r1 s1 where m: "run_state ?m s = (r1, s1)" by fastforce
    ultimately have s1: "bw_inv s1" using inv by (blast dest: hoareD)
    have "s' = s1 \<or> (\<exists>r2. run_state (removeInterfaceSharedQuota e i) s1 = (r2, s'))"
      using run False m by (auto simp: setInterfaceQuota_def run_simps split: if_splits prod.splits)
    then show ?thesis using s1 hoareD [OF keeps_removeSharedQuota s1] by blast
  qed
qed

lemma shared_insert_run:
  assumes "run_state (shared_insert e i b) s = ((res, failed), s')"
  shows "\<exists>h. s' = (if failed \<or> i \<in> set (sharedQuotaIfaces s) then s
                  else if sharedQuotaIfaces s = [] then s\<lparr>sharedQuotaBytes := b, sharedQuotaIfaces := [i]\<rparr>
                  else s\<lparr>sharedQuotaIfaces := i # sharedQuotaIfaces s\<rparr>)\<lparr>hist := h\<rparr>"
proof (cases "i \<in> set (sharedQuotaIfaces s)")
  case True
  then show ?thesis using assms by (intro exI [of _ "hist s"]) (simp add: shared_insert_def run_simps)
next
  case False
  obtain r1 s1 where p: "run_state (prepCostlyIface e i QuotaShared) s = (r1, s1)" by fastforce
  then obtain h1 where s1: "s1 = s\<lparr>hist := h1\<rparr>" using hist_only_rules(2) by blast
  obtain r2 s2 where q: "run_state (bw_runIpxtablesCmd e (makeIptablesQuotaCmd IptOpInsert ''shared'' b) IptJumpReject) s1 = (r2, s2)"
    by fastforce
  then obtain h2 where s2: "s2 = s\<lparr>hist := h2\<rparr>" using hist_only_rules(1) [OF _ q] s1 by auto
  show ?thesis
  proof (cases "sharedQuotaIfaces s = []")
    case True
    then show ?thesis
      using assms False p q s2
      by (intro exI [of _ h2]) (auto simp: shared_insert_def run_simps Let_def split: if_splits)
  next
    case ne: False
    then show ?thesis
      using assms False p s1 by (intro exI [of _ h1]) (auto simp: shared_insert_def run_simps Let_def)
  qed
qed

lemma shared_update_run:
  assumes "run_state (shared_update e res b) s = (failed, s')"
  shows "\<exists>h. s' = s\<lparr>hist := h\<rparr> \<or> s' = s\<lparr>hist := h, sharedQuotaBytes := b\<rparr>"
proof -
  obtain r1 s1 where u: "run_state (updateQuota e ''shared'' b) s = (r1, s1)" by fastforce
  then obtain h1 where "s1 = s\<lparr>hist := h1\<rparr>" using hist_only_rules(4) by blast
  then show ?thesis
    using assms u
    by (intro exI [of _ "if b = sharedQuotaBytes s then hist s else h1"])
      (auto simp: shared_update_def run_simps split: if_splits)
qed

lemma keeps_setSharedQuota: "keeps bw_inv (setInterfaceSharedQuota e i b)"
proof (rule hoareI)
  fix s s' :: "'a bw_scheme" and r assume inv: "bw_inv s" and run: "run_state (setInterfaceSharedQuota e i b) s = (r, s')"
  show "bw_inv s'"
  proof (cases "b = 0 \<or> \<not> isIfaceName i \<or> StrncpyAndCheck i MAX_IFACENAME_LEN \<or> b = - 1")
    case True
    then show ?thesis
      using run inv hoareD [OF keeps_removeSharedQuota inv]
      by (auto simp: setInterfaceSharedQuota_def run_simps split: if_splits)
  next
    case False
    obtain res f1 s1 where 1: "run_state (shared_insert e i b) s = ((res, f1), s1)" by (metis prod.collapse)
    obtain f2 s2 where 2: "run_state (if f1 then ret True else shared_update e res b) s1 = (f2, s2)" by fastforce
    have inv1: "bw_inv s1" and nonempty: "\<not> f1 \<Longrightarrow> sharedQuotaIfaces s1 \<noteq> []"
      using shared_insert_run [OF 1] inv False by (auto simp: bw_inv_def split: if_splits)
    have inv2: "bw_inv s2"
      using 2 shared_update_run [of e res b s1 f2 s2] inv1 nonempty False
      by (auto simp: run_simps bw_inv_def split: if_splits)
    have "s' = s2 \<or> (\<exists>r2. run_state (removeInterfaceSharedQuota e i) s2 = (r2, s'))"
      using run False 1 2 by (auto simp: setInterfaceSharedQuota_def run_simps split: if_splits prod.splits)
    then show ?thesis using inv2 hoareD [OF keeps_removeSharedQuota inv2] by blast
  qed
qed

lemma keeps_bw_call: "keeps bw_inv (bw_run e c)"
  by (cases "(e, c)" rule: bw_run.cases)
    (simp_all add: keeps_setSharedQuota keeps_removeSharedQuota keeps_setQuota keeps_removeQuota keeps_happyBox
      addNaughtyApps_def removeNaughtyApps_def addNiceApps_def removeNiceApps_def keeps_apps keeps_globalAlert
      keeps_removeForwardAlert keeps_setSharedAlert keeps_removeSharedAlert keeps_interfaceAlert keeps_enable keeps_disable)

lemma keeps_bw_runs: "keeps bw_inv (bw_runs e cs)"
  by (induction cs) (auto intro!: wp_basic keeps_bw_call)

definition sample_bw :: bw where
  "sample_bw = \<lparr>hist = [], sharedQuotaIfaces = [''rmnet0''], sharedQuotaBytes = 500, sharedAlertBytes = 0,
     globalAlertBytes = 0, globalAlertTetherCount = 0, quotaIfaces = [\<lparr>ifaceName = ''wlan0'', quota = 9, alert = 5\<rparr>],
     naughtyAppUids = [], niceAppUids = []\<rparr>"

text \<open>A world in which no command and no write succeeds.\<close>

definition failing_env :: env where
  "failing_env = sample_env\<lparr>env_exec := (\<lambda>h argv. (- 1, 0)), env_write := (\<lambda>h p t. False)\<rparr>"

section \<open>Properties\<close>

text \<open>
  C16: From the moment bandwidth control is enabled, any sequence of calls keeps the bookkeeping consistent,
  whatever the commands and files answer: no interface or app is listed twice, all interface names are
  plausible, a shared quota is recorded just as long as some interface shares it and a shared alert only
  then, no recorded quota is 0, and the number of tethers is never negative.
\<close>

theorem bandwidth_consistent:
  assumes "force \<or> property \<noteq> Some ''0''" and "run_state (enableBandwidthControl e force property) s = (r, s1)"
    and "run_state (bw_runs e calls) s1 = (results, s2)"
  shows "distinct (sharedQuotaIfaces s2) \<and> list_all isIfaceName (sharedQuotaIfaces s2) \<and>
         (sharedQuotaBytes s2 = 0 \<longleftrightarrow> sharedQuotaIfaces s2 = []) \<and>
         (sharedAlertBytes s2 \<noteq> 0 \<longrightarrow> sharedQuotaIfaces s2 \<noteq> []) \<and>
         distinct (map ifaceName (quotaIfaces s2)) \<and>
         list_all (\<lambda>q. isIfaceName (ifaceName q) \<and> quota q \<noteq> 0) (quotaIfaces s2) \<and>
         distinct (naughtyAppUids s2) \<and> distinct (niceAppUids s2) \<and> 0 \<le> globalAlertTetherCount s2"
proof -
  have "hoare (\<lambda>_. True) (enableBandwidthControl e force property) (\<lambda>_. bw_inv)"
    using assms(1) unfolding enableBandwidthControl_def
    by (auto intro!: hoare_bind [where R = "\<lambda>_. bw_inv", OF hoare_modify] keeps_bind keeps_flushClean keeps_runCommands
        simp: bw_inv_def hist_free_def split: option.splits)
  with assms(2) have "bw_inv s1" by (blast dest: hoareD)
  with assms(3) have "bw_inv s2" by (blast dest: hoareD [OF keeps_bw_runs])
  then show ?thesis by (auto simp: bw_inv_def)
qed

theorem bandwidth_consistent_witness:
  "distinct (sharedQuotaIfaces (snd (run_state (bw_runs failing_env [SetSharedQuota ''rmnet0'' 500])
     (snd (run_state (enableBandwidthControl failing_env True None) sample_bw)))))"
  by (rule bandwidth_consistent [of True None failing_env sample_bw, OF _ prod.collapse [symmetric] prod.collapse [symmetric],
      THEN conjunct1]) simp

text \<open>
  When a quota for one interface cannot be set, the quota list keeps what it had, but the interface loses
  its part in the shared quota: the error path removes the wrong kind of quota.
\<close>

theorem failed_quota_drops_shared:
  assumes "isIfaceName i" and "b \<noteq> 0" and "b \<noteq> - 1" and "distinct (sharedQuotaIfaces s)"
    and "run_state (setInterfaceQuota e i b) s = (r, s')" and "r \<noteq> 0"
  shows "r = - 1 \<and> quotaIfaces s' = quotaIfaces s \<and> set (sharedQuotaIfaces s') = set (sharedQuotaIfaces s) - {i}"
proof -
  have len: "\<not> StrncpyAndCheck i MAX_IFACENAME_LEN"
    using isIfaceName_length [OF assms(1)] by (simp add: StrncpyAndCheck_def MAX_IFACENAME_LEN_def)
  obtain r1 s1 where p: "run_state (prepCostlyIface e i QuotaUnique) s = (r1, s1)" by fastforce
  then obtain h1 where s1: "s1 = s\<lparr>hist := h1\<rparr>" using hist_only_rules(2) by blast
  obtain r2 s2 where q: "run_state (bw_runIpxtablesCmd e (makeIptablesQuotaCmd IptOpAppend i b) IptJumpReject) s1 = (r2, s2)"
    by fastforce
  then obtain h2 where s2: "s2 = s\<lparr>hist := h2\<rparr>" using hist_only_rules(1) [OF _ q] s1 by auto
  obtain r3 s3 where u: "run_state (updateQuota e i b) s = (r3, s3)" by fastforce
  then obtain h3 where s3: "s3 = s\<lparr>hist := h3\<rparr>" using hist_only_rules(4) by blast
  have "r = - 1 \<and> (\<exists>h r4. run_state (removeInterfaceSharedQuota e i) (s\<lparr>hist := h\<rparr>) = (r4, s'))"
    using assms(1-3,5,6) len p q s2 u s3
    by (cases "find_quota i (quotaIfaces s) = None")
      (auto simp: setInterfaceQuota_def run_simps split: if_splits prod.splits)
  then show ?thesis
    using assms(1,4) by (auto dest!: removeInterfaceSharedQuota_run simp: without_shared_fields)
qed

lemma sample_names: "isIfaceName ''rmnet0''" "isIfaceName ''wlan0''" "isIfaceName ''wlan0Alert''"
  by (simp_all add: isIfaceName_def IFNAMSIZ_def iface_char_def isalnum_def isdigit_def less_eq_char_def)

theorem failed_quota_drops_shared_witness:
  "\<exists>s'. run_state (setInterfaceQuota (failing_env :: env) ''rmnet0'' 100) sample_bw = (- 1, s') \<and>
        set (sharedQuotaIfaces s') = {}"
proof -
  obtain r s' where run: "run_state (setInterfaceQuota failing_env ''rmnet0'' 100) sample_bw = (r, s')" by fastforce
  have fails: "fst (run_state (bw_runIpxtablesCmd failing_env c j) s) \<noteq> 0" for c j and s :: bw
    by (simp add: bw_runIpxtablesCmd_def runIptablesCmd_def run_simps failing_env_def Let_def)
  have "r \<noteq> 0"
    using run fails sample_names(1)
    by (auto simp: setInterfaceQuota_def run_simps find_quota_def sample_bw_def StrncpyAndCheck_def MAX_IFACENAME_LEN_def
        split: prod.splits if_splits) (metis fst_conv)
  with run failed_quota_drops_shared [OF sample_names(1) _ _ _ run] show ?thesis
    by (auto simp: sample_bw_def)
qed

text \<open>
  Changing the alert of an interface writes the old limit to the kernel again and records the new one: from
  then on the record and the kernel disagree.
\<close>

theorem alert_update_writes_old_limit:
  assumes "isIfaceName i" and "isIfaceName (i @ ''Alert'')" and "b \<noteq> 0"
    and "find_quota i (quotaIfaces s) = Some q" and "alert q \<noteq> 0"
    and "run_state (setInterfaceAlert e i b) s = (r, s')"
  shows "(\<exists>opened. hist s' = EvFprintf (xt_quota_path (i @ ''Alert'')) (fmt_d (alert q) @ [CHR 0x0A]) opened # hist s \<and>
                   r = (if opened then 0 else - 1)) \<and>
         find_quota i (quotaIfaces s') = Some (q\<lparr>alert := b\<rparr>)"
proof -
  let ?path = "xt_quota_path (i @ ''Alert'')" and ?text = "fmt_d (alert q) @ [CHR 0x0A]"
  let ?opened = "env_write e (hist s) ?path ?text"
  have upd: "find_quota i (upd_quota i (alert_update (\<lambda>_. b)) qs) = map_option (alert_update (\<lambda>_. b)) (find_quota i qs)" for qs
    by (induction qs) (auto simp: find_quota_def)
  have "run_state (setCostlyAlert e i b (alert q)) s =
      ((if ?opened then 0 else - 1, b), s\<lparr>hist := EvFprintf ?path ?text ?opened # hist s\<rparr>)"
    using assms(1-3,5) by (simp add: setCostlyAlert_def updateQuota_def run_simps Let_def)
  then have "r = (if ?opened then 0 else - 1)" and
    s': "s' = quotaIfaces_update (upd_quota i (alert_update (\<lambda>_. b))) (s\<lparr>hist := EvFprintf ?path ?text ?opened # hist s\<rparr>)"
    using assms by (simp_all add: setInterfaceAlert_def run_simps)
  moreover have "find_quota i (quotaIfaces s') = Some (q\<lparr>alert := b\<rparr>)" using assms(4) by (simp add: s' upd)
  ultimately show ?thesis by auto
qed

theorem alert_update_writes_old_limit_witness:
  "\<exists>r s'. run_state (setInterfaceAlert sample_env ''wlan0'' 70) sample_bw = (r, s') \<and>
        find_quota ''wlan0'' (quotaIfaces s') = Some \<lparr>ifaceName = ''wlan0'', quota = 9, alert = 70\<rparr>"
proof -
  let ?q = "\<lparr>ifaceName = ''wlan0'', quota = 9, alert = 5\<rparr>"
  obtain r s' where run: "run_state (setInterfaceAlert sample_env ''wlan0'' 70) sample_bw = (r, s')" by fastforce
  have q: "find_quota ''wlan0'' (quotaIfaces sample_bw) = Some ?q" by (simp add: find_quota_def sample_bw_def)
  have "isIfaceName (''wlan0'' @ ''Alert'')" using sample_names(3) by simp
  from run alert_update_writes_old_limit [OF sample_names(2) this _ q _ run] show ?thesis by auto
qed

text \<open>
  An app whose rule could not be installed stays on the list although the error path has taken its rule
  away, and is then refused without any command being run.
\<close>

theorem failed_app_stays_listed:
  assumes "parse_uids [str] = Some [u]" and "u \<notin> set (naughtyAppUids s)"
    and "run_state (addNaughtyApps e [str]) s = (r, s')" and "r \<noteq> 0"
  shows "u \<in> set (naughtyAppUids s') \<and> run_state (addNaughtyApps e [str]) s' = (- 1, s')"
proof -
  let ?s1 = "naughtyAppUids_update (\<lambda>l. u # l) s"
  let ?c1 = "makeIptablesSpecialAppCmd IptOpInsert u ''bw_penalty_box''"
  let ?c2 = "makeIptablesSpecialAppCmd IptOpDelete u ''bw_penalty_box''"
  obtain r2 s2 where 2: "run_state (bw_runIpxtablesCmd e ?c1 IptJumpReject) ?s1 = (r2, s2)" by fastforce
  obtain r3 s3 where 3: "run_state (bw_runIpxtablesCmd e ?c2 IptJumpReject) s2 = (r3, s3)" by fastforce
  have "s' = s3"
    using assms 2 3
    by (auto simp: addNaughtyApps_def manipulateNaughtyApps_def manipulateSpecialApps_def run_simps
        simp del: parse_uids.simps split: if_splits)
  moreover have "u \<in> set (naughtyAppUids s3)"
    using hist_only_rules(1) [OF _ 2] hist_only_rules(1) [OF _ 3] by auto
  ultimately show ?thesis
    using assms(1) by (simp add: addNaughtyApps_def manipulateNaughtyApps_def manipulateSpecialApps_def run_simps
        del: parse_uids.simps)
qed

theorem failed_app_stays_listed_witness:
  "\<exists>r s'. run_state (addNaughtyApps failing_env [''7'']) sample_bw = (r, s') \<and> r \<noteq> 0 \<and> 7 \<in> set (naughtyAppUids s')"
proof -
  have p: "parse_uids [''7''] = Some [7]"
    by (simp add: strtoul_def split_sign_def split_base_def is_base_digit_def digit_val_def isdigit_def isspace_def
        less_eq_char_def ULONG_MAX_def)
  obtain r s' where run: "run_state (addNaughtyApps failing_env [''7'']) sample_bw = (r, s')" by fastforce
  have fails: "fst (run_state (bw_runIpxtablesCmd failing_env c j) s) \<noteq> 0" for c j and s :: bw
    by (simp add: bw_runIpxtablesCmd_def runIptablesCmd_def run_simps failing_env_def Let_def)
  have "r \<noteq> 0"
    using run fails p
    by (auto simp: addNaughtyApps_def manipulateNaughtyApps_def manipulateSpecialApps_def run_simps sample_bw_def
        simp del: parse_uids.simps split: prod.splits if_splits) (metis fst_conv)
  with run failed_app_stays_listed [OF p _ run] show ?thesis by (auto simp: sample_bw_def)
qed

end
