(* ===== verification/TetherCounters.thy ===== *)
theory TetherCounters
  imports BandwidthRules
begin

text \<open>
  The statistics of tethering, from the rules of \<^verbatim>\<open>NatController\<close> to the answers of \<^verbatim>\<open>BandwidthController\<close>: iptables
  prints one line per counting rule, and the parser turns the two lines of each pair into one message.
\<close>

section \<open>Reading a line that iptables prints\<close>

text \<open>Fields are separated by any positive amount of white space.\<close>

definition blank :: "string \<Rightarrow> bool" where
  "blank sp \<longleftrightarrow> sp \<noteq> [] \<and> list_all isspace sp"

definition solid :: "string \<Rightarrow> bool" where
  "solid w \<longleftrightarrow> w \<noteq> [] \<and> list_all (\<lambda>c. \<not> isspace c) w"

text \<open>
  A line of \<^verbatim>\<open>iptables -nvx -L\<close> for a counting rule: packets, bytes, target, protocol, options, the two
  interfaces, source and destination.
\<close>

definition counter_line :: "(nat \<Rightarrow> string) \<Rightarrow> nat \<Rightarrow> nat \<Rightarrow> string \<Rightarrow> string \<Rightarrow> string" where
  "counter_line sp packets bytes iface0 iface1 =
     sp 0 @ fmt_u packets @ sp 1 @ fmt_u bytes @ sp 2 @ ''RETURN'' @ sp 3 @ ''all'' @ sp 4 @ ''--'' @ sp 5 @ iface0 @
     sp 6 @ iface1 @ sp 7 @ ''0.0.0.0/0'' @ sp 8 @ ''0.0.0.0/0'' @ [CHR 0x0A]"

lemma dropWhile_spaces [simp]: "list_all isspace sp \<Longrightarrow> dropWhile isspace (sp @ s) = dropWhile isspace s"
  by (simp add: dropWhile_append2 list_all_iff)

lemma blank_spaces [simp]: "blank sp \<Longrightarrow> list_all isspace sp"
  by (simp add: blank_def)

lemma dropWhile_solid: "solid w \<Longrightarrow> dropWhile isspace (w @ s) = w @ s"
  by (cases w) (auto simp: solid_def)

lemma takeWhile_solid: "solid w \<Longrightarrow> blank sp \<Longrightarrow> takeWhile (\<lambda>c. \<not> isspace c) (w @ sp @ s) = w"
  "solid w \<Longrightarrow> blank sp \<Longrightarrow> dropWhile (\<lambda>c. \<not> isspace c) (w @ sp @ s) = sp @ s"
  by (cases sp; auto simp: solid_def blank_def list_all_iff takeWhile_append2 dropWhile_append2)+

lemma isdigit_not_space: "isdigit c \<Longrightarrow> \<not> isspace c"
  by (auto simp: isdigit_def isspace_def less_eq_char_def)

lemma solid_fmt_u: "solid (fmt_u n)"
  using fmt_u_digits isdigit_not_space by (auto simp: solid_def list_all_iff)

lemma isspace_not_digit: "isspace c \<Longrightarrow> \<not> is_base_digit 10 c"
  by (auto simp: is_base_digit_def digit_val_def isspace_def isdigit_def less_eq_char_def split: if_splits)

lemma scan_fmt_u:
  assumes "list_all isspace sp" and "blank sp'"
  shows "sscanf (ScanInt # f) (sp @ fmt_u n @ sp' @ s) = SInt (int n) # sscanf f (sp' @ s)"
proof -
  obtain c w where w: "fmt_u n = c # w" by (cases "fmt_u n") auto
  have c: "isdigit c" using fmt_u_digits [of c n] w by simp
  obtain d r where d: "sp' = d # r" "isspace d" using assms(2) by (cases sp') (auto simp: blank_def)
  have "dropWhile isspace (sp @ fmt_u n @ sp' @ s) = fmt_u n @ sp' @ s"
    using assms(1) dropWhile_solid [OF solid_fmt_u] by simp
  moreover have "split_sign (fmt_u n @ sp' @ s) = (False, fmt_u n @ sp' @ s)"
    using w isdigit_not_sign [OF c] by (simp add: split_sign_def)
  moreover have "take_digits 10 0 (fmt_u n @ sp' @ s) = (n, sp' @ s)"
    using take_digits_stop [of "fmt_u n" 10 "sp' @ s" 0] d isspace_not_digit [of d] fmt_u_digits isdigit_base10
    by (simp add: take_digits_fmt_u)
  ultimately show ?thesis using w c isdigit_base10 by (simp add: Let_def)
qed

lemma scan_word:
  assumes "list_all isspace sp" and "solid w" and "blank sp'"
  shows "sscanf (ScanWord # f) (sp @ w @ sp' @ s) = SWord w # sscanf f (sp' @ s)"
proof -
  have "dropWhile isspace (sp @ w @ sp' @ s) = w @ sp' @ s"
    using assms(1) dropWhile_solid [OF assms(2)] by simp
  moreover have "w \<noteq> []" using assms(2) by (simp add: solid_def)
  ultimately show ?thesis using takeWhile_solid [OF assms(2,3)] by (simp add: Let_def)
qed

lemma scan_lits:
  "list_all (\<lambda>c. \<not> isspace c) w \<Longrightarrow> sscanf (scan_text w @ f) (w @ s) = sscanf f s"
  by (induction w) (simp_all add: scan_text_def)

lemma scan_space: "list_all isspace sp \<Longrightarrow> sscanf (ScanSpace # f) (sp @ s) = sscanf (ScanSpace # f) s"
  by simp

lemma scan_space_solid: "solid w \<Longrightarrow> sscanf (ScanSpace # f) (w @ s) = sscanf f (w @ s)"
  by (simp add: dropWhile_solid)

lemma scan_text_append: "scan_text (a @ b) = scan_text a @ scan_text b"
  by (simp add: scan_text_def)

lemma solid_words: "solid ''RETURN''" "solid ''all''" "solid ''--''" "solid ''0.''" "solid ''0.0.0/0''"
  by (simp_all add: solid_def isspace_def)

lemma scan_text_space: "scan_text '' '' = [ScanSpace]"
  by (simp add: scan_text_def isspace_def)

lemma scan_solid_text:
  assumes "list_all isspace sp" and "solid w"
  shows "sscanf (ScanSpace # scan_text w @ f) (sp @ w @ s) = sscanf f s"
proof -
  have "list_all (\<lambda>c. \<not> isspace c) w" using assms(2) by (simp add: solid_def)
  then show ?thesis
    using assms scan_lits dropWhile_solid [OF assms(2)] by simp
qed

lemma scan_space_field:
  "sscanf (ScanSpace # ScanInt # f) s = sscanf (ScanInt # f) s"
  "sscanf (ScanSpace # ScanWord # f) s = sscanf (ScanWord # f) s"
  by simp_all

lemma scan_fields:
  assumes "list_all isspace s0" "blank s1" "blank s2" "blank s3" "blank s4" "blank s5" "blank s6" "blank s7" "blank s8"
    and "solid w1" "solid w2" "solid w3" "solid i" "solid x" "solid w4" "solid w5"
  shows "sscanf (ScanInt # ScanSpace # ScanInt # ScanSpace # scan_text w1 @ ScanSpace # scan_text w2 @
       ScanSpace # scan_text w3 @ ScanSpace # ScanWord # ScanSpace # ScanWord # ScanSpace # scan_text w4 @ [ScanWord])
     (s0 @ fmt_u p @ s1 @ fmt_u b @ s2 @ w1 @ s3 @ w2 @ s4 @ w3 @ s5 @ i @ s6 @ x @ s7 @ w4 @ w5 @ s8 @ r) =
     [SInt (int p), SInt (int b), SWord i, SWord x, SWord w5]"
  using assms scan_word [of "[]" w5 s8 "[]" r]
  by (simp add: scan_fmt_u scan_word scan_solid_text scan_space_field del: sscanf.simps(2-))

lemma scan_counter_line:
  assumes "list_all isspace (sp 0)" and "\<And>k. k \<noteq> 0 \<Longrightarrow> blank (sp k)" and "solid i" and "solid x"
  shows "scan_stats (counter_line sp p b i x) = Some (int p, int b, i, x)"
proof -
  have format: "[ScanInt, ScanSpace, ScanInt] @ scan_text '' RETURN all -- '' @ [ScanWord, ScanSpace, ScanWord] @
      scan_text '' 0.'' @ [ScanWord] =
    ScanInt # ScanSpace # ScanInt # ScanSpace # scan_text ''RETURN'' @ ScanSpace # scan_text ''all'' @
      ScanSpace # scan_text ''--'' @ ScanSpace # ScanWord # ScanSpace # ScanWord # ScanSpace # scan_text ''0.'' @ [ScanWord]"
    by (simp add: scan_text_def isspace_def)
  have zero: "sp 7 @ ''0.0.0.0/0'' @ s = sp 7 @ ''0.'' @ ''0.0.0/0'' @ s" for s by simp
  show ?thesis
    unfolding scan_stats_def format counter_line_def zero
    by (subst scan_fields) (simp_all add: assms solid_words stats_fields_def)
qed

section \<open>One message per pair\<close>

text \<open>The counters of one pair, as the two rules of \<^verbatim>\<open>setTetherCountingRules\<close> hold them.\<close>

record pair_counters =
  pc_int :: string
  pc_ext :: string
  in_packets :: nat
  in_bytes :: nat
  out_packets :: nat
  out_bytes :: nat

definition pair_lines :: "(nat \<Rightarrow> string) \<Rightarrow> pair_counters \<Rightarrow> string list" where
  "pair_lines sp c = [counter_line sp (in_packets c) (in_bytes c) (pc_int c) (pc_ext c),
                      counter_line sp (out_packets c) (out_bytes c) (pc_ext c) (pc_int c)]"

definition pair_stats :: "pair_counters \<Rightarrow> TetherStats" where
  "pair_stats c = \<lparr>intIface = pc_int c, extIface = pc_ext c, rxBytes = int (in_bytes c), rxPackets = int (in_packets c),
                   txBytes = int (out_bytes c), txPackets = int (out_packets c)\<rparr>"

definition pair_ok :: "pair_counters \<Rightarrow> bool" where
  "pair_ok c \<longleftrightarrow> solid (pc_int c) \<and> solid (pc_ext c)"

definition spacing :: "(nat \<Rightarrow> string) \<Rightarrow> bool" where
  "spacing sp \<longleftrightarrow> list_all isspace (sp 0) \<and> (\<forall>k. k \<noteq> 0 \<longrightarrow> blank (sp k))"

lemma scan_pair_lines:
  assumes "spacing sp" and "solid i" and "solid x"
  shows "scan_stats (counter_line sp p b i x) = Some (int p, int b, i, x)"
  using assms by (intro scan_counter_line) (auto simp: spacing_def)

text \<open>Lines that are no counters, such as the two of the heading, are passed over.\<close>

lemma stats_loop_skip:
  "list_all (\<lambda>l. scan l = None) h \<Longrightarrow> stats_loop scan filt st n (h @ ls) = stats_loop scan filt st n ls"
  by (induction h) auto

lemma solid_nonempty: "solid w \<Longrightarrow> w \<noteq> []"
  by (simp add: solid_def)

lemma stats_loop_list:
  assumes "spacing sp" and "list_all pair_ok cs"
  shows "stats_loop scan_stats new_TetherStats new_TetherStats n (concat (map (pair_lines sp) cs)) =
     (map (\<lambda>c. (TetheringStatsListResult, getStatsLine (pair_stats c))) cs, new_TetherStats, n + length cs, False)"
  using assms(2)
proof (induction cs arbitrary: n)
  case (Cons c cs)
  then have "solid (pc_int c)" "solid (pc_ext c)" by (simp_all add: pair_ok_def)
  then show ?case
    using Cons by (simp add: pair_lines_def scan_pair_lines [OF assms(1)] stats_step_def new_TetherStats_def pair_stats_def
        solid_nonempty Let_def)
qed simp

lemma stats_step_other:
  assumes "intIface f \<noteq> []" and "extIface f \<noteq> []"
    and "\<not> (intIface f = a \<and> extIface f = b)" and "\<not> (intIface f = b \<and> extIface f = a)"
  shows "stats_step f (p, n, a, b) st = st"
  using assms unfolding stats_step_def prod.case by presburger

lemma stats_loop_other:
  assumes "spacing sp" and "pair_ok c" and "filt = new_TetherStats\<lparr>intIface := i, extIface := x\<rparr>" and "i \<noteq> []" "x \<noteq> []"
    and "{pc_int c, pc_ext c} \<noteq> {i, x}"
  shows "stats_loop scan_stats filt filt n (pair_lines sp c @ ls) = stats_loop scan_stats filt filt n ls"
proof -
  have "\<not> (i = pc_int c \<and> x = pc_ext c)" "\<not> (i = pc_ext c \<and> x = pc_int c)" using assms(6) by auto
  then have "stats_step filt (p, b, pc_int c, pc_ext c) filt = filt" "stats_step filt (p, b, pc_ext c, pc_int c) filt = filt" for p b
    using assms(3-5) by (auto intro!: stats_step_other)
  moreover have "rxBytes filt = - 1" using assms(3) by (simp add: new_TetherStats_def)
  moreover have "solid (pc_int c)" "solid (pc_ext c)" using assms(2) by (simp_all add: pair_ok_def)
  ultimately show ?thesis by (simp add: pair_lines_def scan_pair_lines [OF assms(1)])
qed

lemma stats_loop_pair:
  assumes "spacing sp" and "list_all pair_ok cs" and "pair_ok c" and "pc_int c \<noteq> pc_ext c"
    and "\<forall>d\<in>set cs. {pc_int d, pc_ext d} \<noteq> {pc_int c, pc_ext c}"
    and "filt = new_TetherStats\<lparr>intIface := pc_int c, extIface := pc_ext c\<rparr>"
  shows "stats_loop scan_stats filt filt n (concat (map (pair_lines sp) cs) @ pair_lines sp c @ ls) =
     ([(TetheringStatsResult, getStatsLine (pair_stats c))], pair_stats c, n, True)"
  using assms(2,5)
proof (induction cs)
  case Nil
  have "solid (pc_int c)" "solid (pc_ext c)" using assms(3) by (simp_all add: pair_ok_def)
  then show ?case
    using assms(4,6) by (simp add: pair_lines_def scan_pair_lines [OF assms(1)] stats_step_def new_TetherStats_def pair_stats_def
        solid_nonempty Let_def)
next
  case (Cons d cs)
  have "pc_int c \<noteq> []" "pc_ext c \<noteq> []" using assms(3) by (auto simp: pair_ok_def solid_def)
  then show ?case
    using Cons stats_loop_other [OF assms(1) _ assms(6)] by simp
qed

lemma run_send_all [simp]:
  "run_state (send_all ms) s = ((), s\<lparr>hist := rev (map (\<lambda>m. EvSend (fst m) (snd m)) ms) @ hist s\<rparr>)"
  by (induction ms arbitrary: s) simp_all



end
