(* ===== verification/Children.thy ===== *)
theory Children
  imports NetdConstants
begin

text \<open>
  The processes that the daemon starts and has to wait for. Several controllers keep the process id of a program
  that they run (dnsmasq, radish, pppd, hostapd, clatd); here is what the history says about the children that
  are running, and the contract that each of these controllers is shown to keep.
\<close>

section \<open>Specification\<close>

text \<open>
  The children after a history: a successful \<^verbatim>\<open>fork\<close> adds one, \<^verbatim>\<open>waitpid\<close> takes one away, and so does a
  \<^verbatim>\<open>waitpid\<close> with \<^verbatim>\<open>WNOHANG\<close> that does not return 0.
\<close>

fun child_event :: "event \<Rightarrow> int multiset \<Rightarrow> int multiset" where
  "child_event (EvCall (SysFork argv) pid) M = (if pid > 0 then add_mset pid M else M)"
| "child_event (EvCall (SysWaitpid pid) r) M = M - {#pid#}"
| "child_event (EvCall (SysWaitNoHang pid) r) M = (if r \<noteq> 0 then M - {#pid#} else M)"
| "child_event _ M = M"

primrec children :: "event list \<Rightarrow> int multiset" where
  "children [] = {#}"
| "children (ev # h) = child_event ev (children h)"

text \<open>What is documented of \<^verbatim>\<open>fork\<close> in the parent: the process id of the child, which is not 0, or -1.\<close>

definition forks_ok :: "env \<Rightarrow> bool" where
  "forks_ok e \<longleftrightarrow> (\<forall>h argv. env_call e h (SysFork argv) \<noteq> 0)"

text \<open>The process id of a controller, 0 for none, as a multiset.\<close>

definition slot :: "int \<Rightarrow> int multiset" where
  "slot pid = (if pid = 0 then {#} else {#pid#})"

text \<open>
  An operation is accounted for if, whatever other children there are, those of the controller are the recorded
  ones afterwards when they were so before.
\<close>

definition tracks :: "('a sys_scheme \<Rightarrow> int multiset) \<Rightarrow> ('a sys_scheme, 'r) state \<Rightarrow> bool" where
  "tracks recorded m \<longleftrightarrow>
     (\<forall>M. keeps (\<lambda>s. children (hist s) = recorded s + M) m)"

primrec run_calls :: "('c \<Rightarrow> ('s, 'r) state) \<Rightarrow> 'c list \<Rightarrow> ('s, 'r list) state" where
  "run_calls run [] = ret []"
| "run_calls run (c # cs) = do { r \<leftarrow> run c; rs \<leftarrow> run_calls run cs; ret (r # rs) }"

lemma tracksI:
  assumes "\<And>s r s' M. children (hist s) = recorded s + M \<Longrightarrow> run_state m s = (r, s') \<Longrightarrow>
    children (hist s') = recorded s' + M"
  shows "tracks recorded m"
  unfolding tracks_def by (intro allI hoareI) (rule assms)

lemma tracksD:
  assumes "tracks recorded m" and "run_state m s = (r, s')" and "children (hist s) = recorded s + M"
  shows "children (hist s') = recorded s' + M"
proof -
  have "keeps (\<lambda>s. children (hist s) = recorded s + M) m" using assms(1) unfolding tracks_def by blast
  from hoareD [OF this assms(3,2)] show ?thesis .
qed

text \<open>
  A controller that supervises children: the ones it has on record are, in the states that satisfy its invariant,
  those it has started and not waited for.
\<close>

locale supervisor =
  fixes ok :: "'a sys_scheme \<Rightarrow> bool"
    and recorded :: "'a sys_scheme \<Rightarrow> int multiset"
    and run :: "env \<Rightarrow> 'c \<Rightarrow> ('a sys_scheme, int) state"
  assumes run_tracks: "forks_ok e \<Longrightarrow> keeps (\<lambda>s. ok s \<and> children (hist s) = recorded s + M) (run e c)"
begin

lemma calls_track: "forks_ok e \<Longrightarrow> keeps (\<lambda>s. ok s \<and> children (hist s) = recorded s + M) (run_calls (run e) cs)"
  by (induction cs) (simp_all add: keeps_return keeps_bind run_tracks)

lemma no_child_lost:
  assumes "forks_ok e" and "ok s" and "children (hist s) = recorded s" and "run_state (run_calls (run e) cs) s = (rs, s')"
  shows "ok s' \<and> children (hist s') = recorded s'"
proof -
  have "ok s \<and> children (hist s) = recorded s + {#}" using assms(2,3) by simp
  from hoareD [OF calls_track [OF assms(1)] this assms(4)] show ?thesis by simp
qed

end

lemma tracks_supervises: "tracks recorded m \<Longrightarrow> keeps (\<lambda>s. True \<and> children (hist s) = recorded s + M) m"
  unfolding tracks_def by simp

section \<open>Lemmas\<close>

lemma tracks_return [wp]: "tracks recorded (ret a)"
  by (simp add: tracks_def keeps_return)

lemma tracks_gets [wp]: "tracks recorded (gets f)"
  by (simp add: tracks_def keeps_gets)

lemma tracks_bind [wp]: "tracks recorded m \<Longrightarrow> (\<And>a. tracks recorded (k a)) \<Longrightarrow> tracks recorded (State_Monad.bind m k)"
  by (simp add: tracks_def keeps_bind)

lemma tracks_if [wp]: "(b \<Longrightarrow> tracks recorded m) \<Longrightarrow> (\<not> b \<Longrightarrow> tracks recorded k) \<Longrightarrow> tracks recorded (if b then m else k)"
  by simp

lemma tracks_case_option [wp]:
  "tracks recorded m \<Longrightarrow> (\<And>a. tracks recorded (f a)) \<Longrightarrow> tracks recorded (case x of None \<Rightarrow> m | Some a \<Rightarrow> f a)"
  by (cases x) simp_all

lemma tracks_modify: "(\<And>s. recorded (f s) = recorded s \<and> hist (f s) = hist s) \<Longrightarrow> tracks recorded (modify f)"
  by (simp add: tracks_def hoare_def)

text \<open>An event that starts or ends no child.\<close>

definition childless :: "event \<Rightarrow> bool" where
  "childless ev \<longleftrightarrow> (\<forall>M. child_event ev M = M)"

lemma childless_simps [simp]:
  "childless (EvReadFile p x1)" "childless (EvWriteFile p t b)" "childless (EvPipe r)" "childless (EvReadDir d x2)"
  "childless (EvCall (SysKill k) i)" "childless (EvCall (SysClose k) i)" "childless (EvCall (SysWriteFd k w) i)"
  "childless (EvCall (SysAccess a) i)" "childless (EvCall (SysLib f args) i)" "childless (EvCall (SysSystem a) i)"
  "childless (EvSend c w)" "childless (EvSendErrno c w x3)" "childless (EvPopen q out)" "childless (EvRun argv i)"
  by (simp_all add: childless_def)

lemma quiet_childless: "quiet ev \<Longrightarrow> childless ev"
  by (cases ev rule: quiet.cases) (simp_all add: childless_def)

lemma hist_free_children:
  assumes "\<And>s h. recorded (s\<lparr>hist := h\<rparr>) = recorded s"
  shows "hist_free (\<lambda>s. children (hist s) = recorded s + M)"
  using assms quiet_childless by (simp add: hist_free_def childless_def)

text \<open>Whatever keeps every predicate that quiet events do not change starts and ends no child.\<close>

lemma tracks_quiet:
  assumes "\<And>s h. recorded (s\<lparr>hist := h\<rparr>) = recorded s" and "\<And>I. hist_free I \<Longrightarrow> keeps I m"
  shows "tracks recorded m"
  unfolding tracks_def by (intro allI assms(2) hist_free_children) (rule assms(1))

lemma tracks_events:
  assumes "\<And>s h. recorded (s\<lparr>hist := h\<rparr>) = recorded s"
  shows "tracks recorded (read_path e p)" "tracks recorded (write_path e p t)" "tracks recorded (pipe_sys e)"
    "tracks recorded (read_dir e p)" "tracks recorded (fork_execvp0 e argv)" "tracks recorded (writeFile e p t)"
    "(\<And>r. childless (EvCall c r)) \<Longrightarrow> tracks recorded (call_sys e c)"
  using assms by (auto intro!: tracksI simp: run_simps childless_def writeFile_def)

end
