(* ===== verification/InterfaceController.thy ===== *)
theory InterfaceController
  imports Children RouteController
begin

text \<open>
  \<^verbatim>\<open>server/InterfaceController.cpp\<close>: settings of interfaces that are files below \<^verbatim>\<open>/proc\<close> and \<^verbatim>\<open>/sys\<close>.
\<close>

section \<open>Model\<close>

definition ipv6_proc_path :: string where "ipv6_proc_path = ''/proc/sys/net/ipv6/conf''"
definition sys_net_path :: string where "sys_net_path = ''/sys/class/net''"
definition wl_util_path :: string where "wl_util_path = ''/system/xbin/wlutil''"

definition writeIPv6ProcPath :: "env \<Rightarrow> string \<Rightarrow> string \<Rightarrow> string \<Rightarrow> ('a sys_scheme, int) state" where
  "writeIPv6ProcPath e interface setting value =
     (if \<not> isIfaceName interface then ret (- 1)
      else writeFile e (ipv6_proc_path @ ''/'' @ interface @ ''/'' @ setting) value)"

definition setEnableIPv6 :: "env \<Rightarrow> string \<Rightarrow> bool \<Rightarrow> ('a sys_scheme, int) state" where
  "setEnableIPv6 e interface on = writeIPv6ProcPath e interface ''disable_ipv6'' (if on then ''0'' else ''1'')"

definition setIPv6PrivacyExtensions :: "env \<Rightarrow> string \<Rightarrow> bool \<Rightarrow> ('a sys_scheme, int) state" where
  "setIPv6PrivacyExtensions e interface on = writeIPv6ProcPath e interface ''use_tempaddr'' (if on then ''2'' else ''0'')"

definition setIPv6NdOffload :: "env \<Rightarrow> string \<Rightarrow> bool \<Rightarrow> ('a sys_scheme, int) state" where
  "setIPv6NdOffload e interface on = do {
     accessible \<leftarrow> call_sys e (SysAccess wl_util_path);
     if accessible = 0
     then fork_execvp0 e [wl_util_path, ''-a'', interface, ''ndoe'', if on then ''1'' else ''0'']
     else ret 0 }"

definition isInterfaceName :: "string \<Rightarrow> bool" where
  "isInterfaceName name \<longleftrightarrow> name \<noteq> ''.'' \<and> name \<noteq> ''..'' \<and> name \<noteq> ''default'' \<and> name \<noteq> ''all''"

primrec set_on_each :: "env \<Rightarrow> string \<Rightarrow> string \<Rightarrow> (string \<times> bool) list \<Rightarrow> ('a sys_scheme, unit) state" where
  "set_on_each e filename value [] = ret ()"
| "set_on_each e filename value (d # ds) = do {
     (if snd d \<and> isInterfaceName (fst d)
      then do { _ \<leftarrow> writeIPv6ProcPath e (fst d) filename value; ret () } else ret ());
     set_on_each e filename value ds }"

definition setOnAllInterfaces :: "env \<Rightarrow> string \<Rightarrow> string \<Rightarrow> ('a sys_scheme, unit) state" where
  "setOnAllInterfaces e filename value = do {
     _ \<leftarrow> writeIPv6ProcPath e ''default'' filename value;
     dir \<leftarrow> read_dir e ipv6_proc_path;
     case dir of None \<Rightarrow> ret () | Some ds \<Rightarrow> set_on_each e filename value ds }"

definition setAcceptRA :: "env \<Rightarrow> string \<Rightarrow> ('a sys_scheme, unit) state" where
  "setAcceptRA e value = setOnAllInterfaces e ''accept_ra'' value"

definition setAcceptRARouteTable :: "env \<Rightarrow> int \<Rightarrow> ('a sys_scheme, unit) state" where
  "setAcceptRARouteTable e tableOrOffset = setOnAllInterfaces e ''accept_ra_rt_table'' (fmt_d tableOrOffset)"

definition setMtu :: "env \<Rightarrow> string \<Rightarrow> string \<Rightarrow> ('a sys_scheme, int) state" where
  "setMtu e interface mtu =
     (if \<not> isIfaceName interface then ret (- 1)
      else writeFile e (sys_net_path @ ''/'' @ interface @ ''/mtu'') mtu)"

definition setIPv6OptimisticMode :: "env \<Rightarrow> string \<Rightarrow> ('a sys_scheme, unit) state" where
  "setIPv6OptimisticMode e value = do {
     setOnAllInterfaces e ''optimistic_dad'' value;
     setOnAllInterfaces e ''use_optimistic'' value }"

definition InterfaceController_new :: "env \<Rightarrow> ('a sys_scheme, unit) state" where
  "InterfaceController_new e = do {
     setAcceptRA e ''2'';
     setAcceptRARouteTable e (- sint ROUTE_TABLE_OFFSET_FROM_INDEX);
     setIPv6OptimisticMode e ''1'' }"

section \<open>Specification\<close>

text \<open>
  A path for a setting of one interface: the two directories, a name that is a single component and no
  parent directory, and the file.
\<close>

definition one_component :: "string \<Rightarrow> bool" where
  "one_component name \<longleftrightarrow> name \<noteq> [] \<and> CHR ''/'' \<notin> set name \<and> name \<noteq> ''.'' \<and> name \<noteq> ''..''"

definition settings :: "string set" where
  "settings = {''disable_ipv6'', ''use_tempaddr'', ''accept_ra'', ''accept_ra_rt_table'', ''optimistic_dad'', ''use_optimistic''}"

definition confined :: "string \<Rightarrow> bool" where
  "confined path \<longleftrightarrow>
     (\<exists>name. one_component name \<and>
        ((\<exists>setting\<in>settings. path = ipv6_proc_path @ ''/'' @ name @ ''/'' @ setting) \<or>
         path = sys_net_path @ ''/'' @ name @ ''/mtu''))"

definition writes_confined :: "event list \<Rightarrow> bool" where
  "writes_confined h \<longleftrightarrow> (\<forall>path text ok. EvWriteFile path text ok \<in> set h \<longrightarrow> confined path)"

datatype ifc_call =
    EnableIPv6 string bool
  | PrivacyExtensions string bool
  | NdOffload string bool
  | Mtu string string

fun ifc_run :: "env \<Rightarrow> ifc_call \<Rightarrow> ('a sys_scheme, int) state" where
  "ifc_run e (EnableIPv6 i b) = setEnableIPv6 e i b"
| "ifc_run e (PrivacyExtensions i b) = setIPv6PrivacyExtensions e i b"
| "ifc_run e (NdOffload i b) = setIPv6NdOffload e i b"
| "ifc_run e (Mtu i v) = setMtu e i v"

section \<open>Lemmas\<close>

lemma isIfaceName_component: "isIfaceName name \<Longrightarrow> one_component name"
proof -
  assume n: "isIfaceName name"
  then have "c \<noteq> CHR ''/'' \<and> c \<noteq> CHR ''.''" if "c \<in> set name" for c
    using isIfaceName_chars [OF n that] iface_char_safe by blast
  moreover have "name \<noteq> []" using isIfaceName_length [OF n] by auto
  ultimately show ?thesis by (auto simp: one_component_def)
qed

lemma confinedI:
  "isIfaceName name \<Longrightarrow> setting \<in> settings \<Longrightarrow> confined (ipv6_proc_path @ ''/'' @ name @ ''/'' @ setting)"
  "isIfaceName name \<Longrightarrow> confined (sys_net_path @ ''/'' @ name @ ''/mtu'')"
  unfolding confined_def using isIfaceName_component by blast+

abbreviation confined_state :: "'a sys_scheme \<Rightarrow> bool" where
  "confined_state s \<equiv> writes_confined (hist s)"

lemma confined_events [wp]:
  "confined p \<Longrightarrow> keeps confined_state (writeFile e p t)" "keeps confined_state (read_dir e p)"
  "keeps confined_state (call_sys e c)" "keeps confined_state (fork_execvp0 e argv)"
  by (auto simp: hoare_def run_simps writeFile_def writes_confined_def)

lemma confined_proc [wp]: "setting \<in> settings \<Longrightarrow> keeps confined_state (writeIPv6ProcPath e i setting v)"
  unfolding writeIPv6ProcPath_def
  using confinedI(1) by (auto intro!: wp simp del: append.simps)

lemma confined_mtu [wp]: "keeps confined_state (setMtu e i v)"
  unfolding setMtu_def using confinedI(2) by (auto intro!: wp simp del: append.simps)

lemma confined_set_on_each [wp]: "setting \<in> settings \<Longrightarrow> keeps confined_state (set_on_each e setting v ds)"
  by (induction ds) (auto intro!: wp)

lemma confined_setOnAll [wp]: "setting \<in> settings \<Longrightarrow> keeps confined_state (setOnAllInterfaces e setting v)"
  unfolding setOnAllInterfaces_def by (auto intro!: wp)

lemma confined_run: "keeps confined_state (ifc_run e c)"
  by (cases c) (auto simp: setEnableIPv6_def setIPv6PrivacyExtensions_def setIPv6NdOffload_def settings_def intro!: wp)

lemma confined_new: "keeps confined_state (InterfaceController_new e)"
  unfolding InterfaceController_new_def setAcceptRA_def setAcceptRARouteTable_def setIPv6OptimisticMode_def
  by (auto simp: settings_def intro!: wp)

lemma confined_runs: "keeps confined_state (run_calls (ifc_run e) cs)"
  by (induction cs) (auto intro!: wp confined_run)

section \<open>Properties\<close>

text \<open>
  C26: From start-up on, whatever the arguments of the commands and whatever directories the kernel lists, the interface
  controller writes only files \<^verbatim>\<open>/proc/sys/net/ipv6/conf/NAME/SETTING\<close> for six settings and \<^verbatim>\<open>/sys/class/net/NAME/mtu\<close>,
  where the name is a single path component: no argument escapes these directories.
\<close>

theorem interface_writes_confined:
  assumes "hist s0 = []" and "run_state (do { InterfaceController_new e; run_calls (ifc_run e) cs }) s0 = (rs, s)"
    and "EvWriteFile path text ok \<in> set (hist s)"
  shows "confined path"
proof -
  have all: "keeps confined_state (do { InterfaceController_new e; run_calls (ifc_run e) cs })"
    by (intro keeps_bind confined_new confined_runs)
  have "writes_confined (hist s0)" using assms(1) by (simp add: writes_confined_def)
  from hoareD [OF all this assms(2)] show ?thesis using assms(3) by (auto simp: writes_confined_def)
qed

theorem interface_writes_confined_witness:
  "\<exists>rs s ok. run_state (do { InterfaceController_new sample_env; run_calls (ifc_run sample_env) [Mtu ''wlan0'' ''1400''] })
       \<lparr>hist = []\<rparr> = (rs, s) \<and>
     EvWriteFile (sys_net_path @ ''/wlan0/mtu'') ''1400'' ok \<in> set (hist s) \<and> confined (sys_net_path @ ''/wlan0/mtu'')"
proof -
  obtain rs s where run: "run_state (do { InterfaceController_new sample_env; run_calls (ifc_run sample_env) [Mtu ''wlan0'' ''1400''] })
      \<lparr>hist = []\<rparr> = (rs, s)" by fastforce
  have name: "isIfaceName ''wlan0''"
    by (simp add: isIfaceName_def IFNAMSIZ_def iface_char_def isalnum_def isdigit_def less_eq_char_def)
  obtain s1 where "run_state (InterfaceController_new sample_env) \<lparr>hist = []\<rparr> = ((), s1)"
    by (metis (full_types) old.unit.exhaust surj_pair)
  then have "\<exists>ok. EvWriteFile (sys_net_path @ ''/wlan0/mtu'') ''1400'' ok \<in> set (hist s)"
    using run name by (auto simp: setMtu_def writeFile_def run_simps)
  then show ?thesis using run interface_writes_confined [OF _ run] by auto
qed

end
