(* ===== verification/TetherController.thy ===== *)
theory TetherController
  imports Children Fwmark
begin

text \<open>
  \<^verbatim>\<open>server/TetherController.cpp\<close>: IP forwarding, the DHCP and DNS server (dnsmasq) for tethered interfaces, which is
  controlled through a pipe, and the router advertisement daemon for IPv6. An address is the list of its four
  bytes.
\<close>

section \<open>Model\<close>

record tether = sys +
  tc_mInterfaces :: "string list"
  mDnsNetId :: u32
  mDnsForwarders :: "bytes list"
  mDaemonPid :: int
  mDaemonFd :: int
  mRtrAdvPid :: int
  mUpstreamInterfaces :: "string list"

text \<open>The constructor leaves \<^verbatim>\<open>mDnsNetId\<close> and \<^verbatim>\<open>mRtrAdvPid\<close> as it finds them.\<close>

definition TetherController_new :: "'a tether_scheme \<Rightarrow> 'a tether_scheme" where
  "TetherController_new s =
     s\<lparr>tc_mInterfaces := [], mUpstreamInterfaces := [], mDnsForwarders := [], mDaemonFd := - 1, mDaemonPid := 0\<rparr>"

definition RTRADVDAEMON :: string where "RTRADVDAEMON = ''/system/bin/radish''"
definition IP4_CFG_IP_FORWARD :: string where "IP4_CFG_IP_FORWARD = ''/proc/sys/net/ipv4/ip_forward''"
definition IP6_CFG_ALL_PROXY_NDP :: string where "IP6_CFG_ALL_PROXY_NDP = ''/proc/sys/net/ipv6/conf/all/proxy_ndp''"
definition IP6_CFG_ALL_FORWARDING :: string where "IP6_CFG_ALL_FORWARDING = ''/proc/sys/net/ipv6/conf/all/forwarding''"
definition PROC_PATH_SIZE :: nat where "PROC_PATH_SIZE = 255"
definition RTRADVDAEMON_MIN_IFACES :: nat where "RTRADVDAEMON_MIN_IFACES = 2"
definition MAX_TABLE_LEN :: nat where "MAX_TABLE_LEN = 11"
definition MIN_TABLE_NUMBER :: int where "MIN_TABLE_NUMBER = 0"
definition BASE_TABLE_NUMBER :: int where "BASE_TABLE_NUMBER = 1000"
definition MAX_CMD_SIZE :: nat where "MAX_CMD_SIZE = 1024"

subsection \<open>IP forwarding\<close>

definition config_write_setting :: "env \<Rightarrow> string \<Rightarrow> string \<Rightarrow> ('a sys_scheme, int) state" where
  "config_write_setting e path value = do { ok \<leftarrow> write_path e path value; ret (if ok then 0 else - 1) }"

definition setIpFwdEnabled :: "env \<Rightarrow> bool \<Rightarrow> ('a sys_scheme, int) state" where
  "setIpFwdEnabled e enable =
     (if \<not> enable \<and> env_property e ''ro.bootmode'' = Some ''bp-tools'' then ret 0
      else do {
        ok \<leftarrow> write_path e IP4_CFG_IP_FORWARD (if enable then ''1'' else ''0'');
        if \<not> ok then ret (- 1)
        else do {
          r \<leftarrow> config_write_setting e IP6_CFG_ALL_PROXY_NDP (if enable then ''2'' else ''0'');
          if r \<noteq> 0 then ret (- 1)
          else do {
            r \<leftarrow> config_write_setting e IP6_CFG_ALL_FORWARDING (if enable then ''2'' else ''0'');
            if r \<noteq> 0 then ret (- 1) else ret 0 } } })"

text \<open>
  No text is a file that cannot be opened, an empty one is a \<^verbatim>\<open>read\<close> that does not return 1: \<^verbatim>\<open>return -1\<close> of a
  function with result type \<^verbatim>\<open>bool\<close>.
\<close>

definition getIpFwdEnabled :: "env \<Rightarrow> ('a sys_scheme, bool) state" where
  "getIpFwdEnabled e = do {
     file \<leftarrow> read_path e IP4_CFG_IP_FORWARD;
     case file of
       None \<Rightarrow> ret False
     | Some text \<Rightarrow> ret (if text = [] then True else hd text = CHR ''1'') }"

subsection \<open>The DHCP and DNS server\<close>

text \<open>\<^verbatim>\<open>inet_ntoa\<close>\<close>

fun inet_ntoa :: "bytes \<Rightarrow> string" where
  "inet_ntoa [] = []"
| "inet_ntoa [b] = fmt_u (unat b)"
| "inet_ntoa (b # bs) = fmt_u (unat b) @ ''.'' @ inet_ntoa bs"

text \<open>The loop over the pairs of addresses.\<close>

fun dhcp_ranges :: "bytes list \<Rightarrow> string list" where
  "dhcp_ranges (start # end # addrs) = (''--dhcp-range='' @ inet_ntoa start @ '','' @ inet_ntoa end @ '',1h'') # dhcp_ranges addrs"
| "dhcp_ranges _ = []"

definition dnsmasq_args :: "bytes list \<Rightarrow> string list" where
  "dnsmasq_args addrs =
     [''/system/bin/dnsmasq'', ''--keep-in-foreground'', ''--no-resolv'', ''--no-poll'', ''--dhcp-authoritative'',
      ''--dhcp-option-force=43,ANDROID_METERED'', ''--pid-file'', []] @ dhcp_ranges addrs"

text \<open>The loop of \<^verbatim>\<open>applyDnsInterfaces\<close>: the command and \<^verbatim>\<open>haveInterfaces\<close>.\<close>

fun iface_words :: "nat \<Rightarrow> string \<Rightarrow> bool \<Rightarrow> string list \<Rightarrow> string \<times> bool" where
  "iface_words cmdLen daemonCmd haveInterfaces [] = (daemonCmd, haveInterfaces)"
| "iface_words cmdLen daemonCmd haveInterfaces (it # its) =
     (let cmdLen = cmdLen + (length it + 1)
      in if cmdLen + 1 \<ge> MAX_CMD_SIZE then (daemonCmd, haveInterfaces)
         else iface_words cmdLen (daemonCmd @ '':'' @ it) True its)"

definition applyDnsInterfaces :: "env \<Rightarrow> ('a tether_scheme, int) state" where
  "applyDnsInterfaces e = do {
     ifaces \<leftarrow> gets tc_mInterfaces;
     let (daemonCmd, haveInterfaces) = iface_words (length ''update_ifaces'') ''update_ifaces'' False ifaces;
     fd \<leftarrow> gets mDaemonFd;
     if fd \<noteq> - 1 \<and> haveInterfaces then do {
       r \<leftarrow> call_sys e (SysWriteFd fd daemonCmd);
       ret (if r < 0 then - 1 else 0) }
     else ret 0 }"

definition startTethering :: "env \<Rightarrow> bytes list \<Rightarrow> ('a tether_scheme, int) state" where
  "startTethering e addrs = do {
     running \<leftarrow> gets mDaemonPid;
     if running \<noteq> 0 then ret (- 1)
     else do {
       pipefd \<leftarrow> pipe_sys e;
       case pipefd of
         None \<Rightarrow> ret (- 1)
       | Some (rd, wr) \<Rightarrow> do {
           pid \<leftarrow> call_sys e (SysFork (dnsmasq_args addrs));
           if pid < 0 then do {
             _ \<leftarrow> call_sys e (SysClose rd);
             _ \<leftarrow> call_sys e (SysClose wr);
             ret (- 1) }
           else do {
             _ \<leftarrow> call_sys e (SysClose rd);
             modify (mDaemonPid_update (\<lambda>_. pid));
             modify (mDaemonFd_update (\<lambda>_. wr));
             _ \<leftarrow> applyDnsInterfaces e;
             ret 0 } } } }"

definition stopTethering :: "env \<Rightarrow> ('a tether_scheme, int) state" where
  "stopTethering e = do {
     pid \<leftarrow> gets mDaemonPid;
     if pid = 0 then ret 0
     else do {
       _ \<leftarrow> call_sys e (SysKill pid);
       _ \<leftarrow> call_sys e (SysWaitpid pid);
       modify (mDaemonPid_update (\<lambda>_. 0));
       fd \<leftarrow> gets mDaemonFd;
       _ \<leftarrow> call_sys e (SysClose fd);
       modify (mDaemonFd_update (\<lambda>_. - 1));
       ret 0 } }"

definition isTetheringStarted :: "'a tether_scheme \<Rightarrow> bool" where
  "isTetheringStarted s = (if mDaemonPid s = 0 then False else True)"

subsection \<open>The router advertisement daemon\<close>

definition table_args :: "int \<Rightarrow> string list" where
  "table_args table_number =
     (if table_number > MIN_TABLE_NUMBER then
        let table_name = fmt_d (table_number + BASE_TABLE_NUMBER)
        in if length table_name \<ge> MAX_TABLE_LEN then [] else [''-t'', table_name]
      else [])"

definition radish_args :: "string list \<Rightarrow> int \<Rightarrow> string list" where
  "radish_args ifaces table_number =
     [RTRADVDAEMON] @ concat (map (\<lambda>i. [''-i'', i, ''-x'']) ifaces) @ table_args table_number"

definition startV6RtrAdv :: "env \<Rightarrow> string list \<Rightarrow> int \<Rightarrow> ('a tether_scheme, int) state" where
  "startV6RtrAdv e ifaces table_number =
     (if length ifaces < RTRADVDAEMON_MIN_IFACES then ret 0
      else do {
        pid \<leftarrow> call_sys e (SysFork (radish_args ifaces table_number));
        if pid < 0 then ret (- 1)
        else do { modify (mRtrAdvPid_update (\<lambda>_. pid)); ret 0 } })"

definition stopV6RtrAdv :: "env \<Rightarrow> ('a tether_scheme, int) state" where
  "stopV6RtrAdv e = do {
     pid \<leftarrow> gets mRtrAdvPid;
     if pid = 0 then ret 0
     else do {
       _ \<leftarrow> call_sys e (SysKill pid);
       _ \<leftarrow> call_sys e (SysWaitpid pid);
       modify (mRtrAdvPid_update (\<lambda>_. 0));
       ret 0 } }"

text \<open>Of what \<^verbatim>\<open>fgets\<close> reads the last piece counts.\<close>

definition getIfaceIndexForIface :: "env \<Rightarrow> string \<Rightarrow> ('a sys_scheme, int) state" where
  "getIfaceIndexForIface e iface =
     (let if_index = ''/sys/class/net/'' @ iface @ ''/ifindex''
      in if length if_index \<ge> PROC_PATH_SIZE then ret (- 1)
         else do {
           file \<leftarrow> read_path e if_index;
           case file of
             None \<Rightarrow> ret (- 1)
           | Some text \<Rightarrow> ret (fold (\<lambda>res _. atoi res) (fgets_all (MAX_TABLE_LEN - 2) [] text) (- 1)) })"

text \<open>The loop over the upstream interfaces: the index of the last one.\<close>

primrec upstream_index :: "env \<Rightarrow> int \<Rightarrow> string list \<Rightarrow> ('a sys_scheme, int) state" where
  "upstream_index e iface_index [] = ret iface_index"
| "upstream_index e iface_index (it # its) = do {
     iface_index \<leftarrow> getIfaceIndexForIface e it;
     upstream_index e iface_index its }"

definition configureV6RtrAdv :: "env \<Rightarrow> ('a tether_scheme, int) state" where
  "configureV6RtrAdv e = do {
     ifaces \<leftarrow> gets tc_mInterfaces;
     upstream \<leftarrow> gets mUpstreamInterfaces;
     iface_index \<leftarrow> upstream_index e (- 1) upstream;
     _ \<leftarrow> stopV6RtrAdv e;
     _ \<leftarrow> startV6RtrAdv e (ifaces @ upstream) iface_index;
     ret 0 }"

definition isV6RtrAdvStarted :: "'a tether_scheme \<Rightarrow> bool" where
  "isV6RtrAdvStarted s = (if mRtrAdvPid s = 0 then False else True)"

subsection \<open>DNS forwarders\<close>

definition dns_fwmark :: "u32 \<Rightarrow> Fwmark" where
  "dns_fwmark n = (set_netId n new_Fwmark)\<lparr>explicitlySelected := True, protectedFromVpn := True, permission := PERMISSION_SYSTEM\<rparr>"

text \<open>The loop over the servers: the command and the addresses, \<^const>\<open>None\<close> for one that is not an address.\<close>

fun server_words :: "env \<Rightarrow> nat \<Rightarrow> string \<Rightarrow> bytes list \<Rightarrow> string list \<Rightarrow> (string \<times> bytes list) option" where
  "server_words e cmdLen daemonCmd forwarders [] = Some (daemonCmd, forwarders)"
| "server_words e cmdLen daemonCmd forwarders (server # servers) =
     (case env_inet_aton e server of
        None \<Rightarrow> None
      | Some a \<Rightarrow>
          let cmdLen = cmdLen + (length server + 1)
          in if cmdLen + 1 \<ge> MAX_CMD_SIZE then Some (daemonCmd, forwarders)
             else server_words e cmdLen (daemonCmd @ '':'' @ server) (forwarders @ [a]) servers)"

definition setDnsForwarders :: "env \<Rightarrow> u32 \<Rightarrow> string list \<Rightarrow> ('a tether_scheme, int) state" where
  "setDnsForwarders e n servers =
     (let daemonCmd = take (MAX_CMD_SIZE - 1) (''update_dns:0x'' @ fmt_x (unat (intValue (dns_fwmark n))))
      in case server_words e (length daemonCmd) daemonCmd [] servers of
        None \<Rightarrow> do { modify (mDnsForwarders_update (\<lambda>_. [])); ret (- 1) }
      | Some (daemonCmd, forwarders) \<Rightarrow> do {
          modify (mDnsForwarders_update (\<lambda>_. forwarders));
          modify (mDnsNetId_update (\<lambda>_. n));
          fd \<leftarrow> gets mDaemonFd;
          if fd \<noteq> - 1 then do {
            r \<leftarrow> call_sys e (SysWriteFd fd daemonCmd);
            if r < 0 then do { modify (mDnsForwarders_update (\<lambda>_. [])); ret (- 1) } else ret 0 }
          else ret 0 })"

definition getDnsNetId :: "'a tether_scheme \<Rightarrow> u32" where
  "getDnsNetId s = mDnsNetId s"

subsection \<open>Interfaces\<close>

definition addUpstreamInterface :: "env \<Rightarrow> string \<Rightarrow> ('a tether_scheme, int) state" where
  "addUpstreamInterface e iface = do {
     upstream \<leftarrow> gets mUpstreamInterfaces;
     if iface \<in> set upstream then ret 0
     else do {
       modify (mUpstreamInterfaces_update (\<lambda>l. l @ [iface]));
       configureV6RtrAdv e } }"

definition removeUpstreamInterface :: "env \<Rightarrow> string \<Rightarrow> ('a tether_scheme, int) state" where
  "removeUpstreamInterface e iface = do {
     upstream \<leftarrow> gets mUpstreamInterfaces;
     if iface \<in> set upstream then do {
       modify (mUpstreamInterfaces_update (remove1 iface));
       configureV6RtrAdv e }
     else ret 0 }"

definition tetherInterface :: "env \<Rightarrow> string \<Rightarrow> ('a tether_scheme, int) state" where
  "tetherInterface e interface =
     (if \<not> isIfaceName interface then ret (- 1)
      else do {
        modify (tc_mInterfaces_update (\<lambda>l. l @ [interface]));
        _ \<leftarrow> configureV6RtrAdv e;
        r \<leftarrow> applyDnsInterfaces e;
        if r \<noteq> 0 then do { modify (tc_mInterfaces_update (remove1 interface)); ret (- 1) } else ret 0 })"

definition untetherInterface :: "env \<Rightarrow> string \<Rightarrow> ('a tether_scheme, int) state" where
  "untetherInterface e interface = do {
     ifaces \<leftarrow> gets tc_mInterfaces;
     if interface \<in> set ifaces then do {
       modify (tc_mInterfaces_update (remove1 interface));
       _ \<leftarrow> configureV6RtrAdv e;
       applyDnsInterfaces e }
     else ret (- 1) }"

section \<open>Specification\<close>

text \<open>
  The operations that the commands \<^verbatim>\<open>ipfwd\<close> and \<^verbatim>\<open>tether\<close> call. (\<^verbatim>\<open>startV6RtrAdv\<close> on its own is called only by a command
  that is never registered.)
\<close>

datatype tether_call =
    SetIpFwd bool
  | StartTethering "bytes list"
  | StopTethering
  | SetForwarders u32 "string list"
  | AddUpstream string
  | RemoveUpstream string
  | TetherIface string
  | UntetherIface string

fun tether_run :: "env \<Rightarrow> tether_call \<Rightarrow> ('a tether_scheme, int) state" where
  "tether_run e (SetIpFwd b) = setIpFwdEnabled e b"
| "tether_run e (StartTethering addrs) = startTethering e addrs"
| "tether_run e StopTethering = stopTethering e"
| "tether_run e (SetForwarders n servers) = setDnsForwarders e n servers"
| "tether_run e (AddUpstream i) = addUpstreamInterface e i"
| "tether_run e (RemoveUpstream i) = removeUpstreamInterface e i"
| "tether_run e (TetherIface i) = tetherInterface e i"
| "tether_run e (UntetherIface i) = untetherInterface e i"

text \<open>The children that the controller has on record.\<close>

definition tether_pids :: "'a tether_scheme \<Rightarrow> int multiset" where
  "tether_pids s = slot (mDaemonPid s) + slot (mRtrAdvPid s)"

text \<open>Every text that was written to a descriptor fits, with its final NUL, the buffer that it was built in.\<close>

definition writes_fit :: "event list \<Rightarrow> bool" where
  "writes_fit h \<longleftrightarrow> (\<forall>fd w r. EvCall (SysWriteFd fd w) r \<in> set h \<longrightarrow> length w + 1 \<le> MAX_CMD_SIZE)"

section \<open>Lemmas\<close>

lemma tether_pids_frame [simp]:
  "tether_pids (s\<lparr>hist := h\<rparr>) = tether_pids s" "tether_pids (tc_mInterfaces_update f s) = tether_pids s"
  "tether_pids (mUpstreamInterfaces_update f s) = tether_pids s" "tether_pids (mDnsForwarders_update g s) = tether_pids s"
  "tether_pids (mDnsNetId_update k s) = tether_pids s" "tether_pids (mDaemonFd_update fd s) = tether_pids s"
  by (simp_all add: tether_pids_def)

lemmas tether_tracks = tracks_events [of tether_pids, OF tether_pids_frame(1)]

lemma tracks_applyDns [wp]: "tracks tether_pids (applyDnsInterfaces e)"
  unfolding applyDnsInterfaces_def Let_def
  by (intro wp tether_tracks) (auto intro!: wp tether_tracks split: prod.split)

lemma tracks_ipfwd [wp]: "tracks tether_pids (setIpFwdEnabled e b)"
  unfolding setIpFwdEnabled_def config_write_setting_def by (intro wp tether_tracks)

lemma tracks_upstream_index [wp]: "tracks tether_pids (upstream_index e k is)"
  by (induction "is" arbitrary: k) (auto simp: getIfaceIndexForIface_def Let_def intro!: wp tether_tracks)

lemma tracks_restart:
  assumes "forks_ok e"
  shows "tracks tether_pids (do { _ \<leftarrow> stopV6RtrAdv e; _ \<leftarrow> startV6RtrAdv e is n; ret 0 })"
proof (rule tracksI)
  fix s s' r M
  assume "children (hist s) = tether_pids s + M"
    and "run_state (do { _ \<leftarrow> stopV6RtrAdv e; _ \<leftarrow> startV6RtrAdv e is n; ret 0 }) s = (r, s')"
  moreover have "env_call e h (SysFork argv) \<noteq> 0" for h argv using assms by (simp add: forks_ok_def)
  ultimately show "children (hist s') = tether_pids s' + M"
    by (auto simp: stopV6RtrAdv_def startV6RtrAdv_def run_simps tether_pids_def slot_def split: if_splits)
qed

lemma tracks_configureV6RtrAdv [wp]: "forks_ok e \<Longrightarrow> tracks tether_pids (configureV6RtrAdv e)"
  unfolding configureV6RtrAdv_def by (intro tracks_bind wp tracks_restart)

lemma tracks_setDnsForwarders [wp]: "tracks tether_pids (setDnsForwarders e n servers)"
  unfolding setDnsForwarders_def Let_def
  by (intro wp tether_tracks) (auto intro!: wp tether_tracks tracks_modify split: prod.split)

lemma tracks_ifaces [wp]:
  assumes "forks_ok e"
  shows "tracks tether_pids (tetherInterface e i)" "tracks tether_pids (untetherInterface e i)"
    "tracks tether_pids (addUpstreamInterface e i)" "tracks tether_pids (removeUpstreamInterface e i)"
  unfolding tetherInterface_def untetherInterface_def addUpstreamInterface_def removeUpstreamInterface_def
  using assms by (auto intro!: wp tracks_modify)

lemma tracks_stopTethering [wp]: "tracks tether_pids (stopTethering e)"
  by (rule tracksI) (auto simp: stopTethering_def run_simps tether_pids_def slot_def split: if_splits)

lemma tracks_startTethering [wp]:
  assumes "forks_ok e"
  shows "tracks tether_pids (startTethering e addrs)"
proof (rule tracksI)
  fix s r s' M
  assume pre: "children (hist s) = tether_pids s + M" and run: "run_state (startTethering e addrs) s = (r, s')"
  let ?pipe = "env_pipe e (hist s)" and ?h1 = "EvPipe (env_pipe e (hist s)) # hist s"
  let ?pid = "env_call e ?h1 (SysFork (dnsmasq_args addrs))"
  have fork: "?pid \<noteq> 0" using assms by (simp add: forks_ok_def)
  show "children (hist s') = tether_pids s' + M"
  proof (cases "mDaemonPid s \<noteq> 0 \<or> ?pipe = None \<or> ?pid < 0")
    case True
    then show ?thesis
      using pre run by (auto simp: startTethering_def run_simps split: if_splits option.splits)
  next
    case False
    then obtain rd wr where pipe: "?pipe = Some (rd, wr)" by auto
    let ?h3 = "EvCall (SysClose rd) (env_call e (EvCall (SysFork (dnsmasq_args addrs)) ?pid # ?h1) (SysClose rd)) #
      EvCall (SysFork (dnsmasq_args addrs)) ?pid # ?h1"
    let ?s = "s\<lparr>hist := ?h3, mDaemonPid := ?pid, mDaemonFd := wr\<rparr>"
    have "children (hist ?s) = tether_pids ?s + M"
      using pre False fork by (simp add: tether_pids_def slot_def)
    moreover have "s' = snd (run_state (applyDnsInterfaces e) ?s)"
      using run False pipe by (auto simp: startTethering_def run_simps split: prod.splits if_splits)
    ultimately show ?thesis using tracksD [OF tracks_applyDns prod.collapse [symmetric]] by blast
  qed
qed

lemma tether_run_tracks: "forks_ok e \<Longrightarrow> tracks tether_pids (tether_run e c)"
  by (cases c) (auto intro: wp)

interpretation tether_children: supervisor "\<lambda>_. True" tether_pids tether_run
  by unfold_locales (rule tracks_supervises [OF tether_run_tracks])

subsection \<open>The buffer of the pipe\<close>

lemma iface_words_fit:
  "length cmd \<le> n \<Longrightarrow> n + 1 \<le> MAX_CMD_SIZE \<Longrightarrow> length (fst (iface_words n cmd b is)) + 1 \<le> MAX_CMD_SIZE"
  by (induction n cmd b "is" rule: iface_words.induct) (auto simp: Let_def)

lemma server_words_fit:
  "server_words e n cmd fs servers = Some (w, fs') \<Longrightarrow> length cmd \<le> n \<Longrightarrow> n + 1 \<le> MAX_CMD_SIZE \<Longrightarrow> length w + 1 \<le> MAX_CMD_SIZE"
  by (induction e n cmd fs servers rule: server_words.induct) (auto simp: Let_def split: option.splits if_splits)

definition unwritten :: "event \<Rightarrow> bool" where
  "unwritten ev \<longleftrightarrow> (case ev of EvCall (SysWriteFd fd w) r \<Rightarrow> False | _ \<Rightarrow> True)"

lemma writes_fit_Cons [simp]:
  "writes_fit (EvCall (SysWriteFd fd w) r # h) \<longleftrightarrow> length w + 1 \<le> MAX_CMD_SIZE \<and> writes_fit h"
  "unwritten ev \<Longrightarrow> writes_fit (ev # h) \<longleftrightarrow> writes_fit h"
  by (auto simp: writes_fit_def unwritten_def)

abbreviation fit_state :: "'a tether_scheme \<Rightarrow> bool" where
  "fit_state s \<equiv> writes_fit (hist s)"

lemma fit_events [wp]:
  "keeps fit_state (read_path e p)" "keeps fit_state (write_path e p t)" "keeps fit_state (pipe_sys e)"
  "(\<And>r. unwritten (EvCall c r)) \<Longrightarrow> keeps fit_state (call_sys e c)"
  "length w + 1 \<le> MAX_CMD_SIZE \<Longrightarrow> keeps fit_state (call_sys e (SysWriteFd fd w))"
  by (auto simp: hoare_def run_simps) (auto simp: unwritten_def)

lemma unwritten_calls [simp]:
  "unwritten (EvCall (SysKill k) r)" "unwritten (EvCall (SysClose k) r)" "unwritten (EvCall (SysFork a) r)"
  "unwritten (EvCall (SysWaitpid k) r)"
  by (simp_all add: unwritten_def)

lemma fit_modify [wp]:
  "keeps fit_state (modify (tc_mInterfaces_update f))" "keeps fit_state (modify (mUpstreamInterfaces_update f))"
  "keeps fit_state (modify (mDnsForwarders_update g))" "keeps fit_state (modify (mDnsNetId_update k))"
  "keeps fit_state (modify (mDaemonFd_update fd))" "keeps fit_state (modify (mDaemonPid_update fd))"
  "keeps fit_state (modify (mRtrAdvPid_update fd))"
  by (simp_all add: keeps_modify)

lemma fit_applyDns [wp]: "keeps fit_state (applyDnsInterfaces e)"
proof -
  have "length (fst (iface_words (length ''update_ifaces'') ''update_ifaces'' b is)) + 1 \<le> MAX_CMD_SIZE" for b "is"
    by (rule iface_words_fit) (simp_all add: MAX_CMD_SIZE_def)
  then show ?thesis
    unfolding applyDnsInterfaces_def Let_def
    by (intro keeps_bind keeps_gets keeps_case_prod keeps_if keeps_return fit_events(5)) (metis fst_conv)
qed

lemma fit_setDnsForwarders [wp]: "keeps fit_state (setDnsForwarders e n servers)"
proof -
  let ?cmd = "take (MAX_CMD_SIZE - 1) (''update_dns:0x'' @ fmt_x (unat (intValue (dns_fwmark n))))"
  have len: "length ?cmd + 1 \<le> MAX_CMD_SIZE" by (simp add: MAX_CMD_SIZE_def)
  show ?thesis
  proof (cases "server_words e (length ?cmd) ?cmd [] servers")
    case None
    then show ?thesis unfolding setDnsForwarders_def Let_def by (simp add: wp)
  next
    case (Some x)
    then obtain w fs where x: "x = (w, fs)" by fastforce
    have "length w + 1 \<le> MAX_CMD_SIZE" using server_words_fit [OF Some [unfolded x] order_refl len] .
    then show ?thesis unfolding setDnsForwarders_def Let_def Some x by (auto intro!: wp)
  qed
qed

lemma fit_upstream_index [wp]: "keeps fit_state (upstream_index e k is)"
  by (induction "is" arbitrary: k) (auto simp: getIfaceIndexForIface_def Let_def intro!: wp)

lemma fit_configureV6RtrAdv [wp]: "keeps fit_state (configureV6RtrAdv e)"
  unfolding configureV6RtrAdv_def stopV6RtrAdv_def startV6RtrAdv_def by (intro wp unwritten_calls)

lemma tether_run_fits: "keeps fit_state (tether_run e c)"
proof (cases c)
  case (StartTethering addrs)
  then show ?thesis by (auto simp: startTethering_def intro!: wp)
qed (auto simp: setIpFwdEnabled_def config_write_setting_def stopTethering_def addUpstreamInterface_def
    removeUpstreamInterface_def tetherInterface_def untetherInterface_def intro!: wp)

lemma tether_runs_fit: "keeps fit_state (run_calls (tether_run e) cs)"
  by (induction cs) (auto intro!: wp tether_run_fits)

section \<open>Properties\<close>

text \<open>
  Whatever sequence of tethering operations runs, and whichever of them fail, the dnsmasq and radish processes that
  the controller has on record are exactly the children it has started and not waited for, provided that the process
  id of radish, which the constructor does not set, was 0 at the start.
\<close>

theorem tether_no_child_lost:
  assumes "forks_ok e" and "mRtrAdvPid s0 = 0" and "hist s0 = []"
    and "run_state (run_calls (tether_run e) cs) (TetherController_new s0) = (rs, s)"
  shows "children (hist s) = slot (mDaemonPid s) + slot (mRtrAdvPid s)"
proof -
  have "children (hist (TetherController_new s0)) = tether_pids (TetherController_new s0)"
    using assms(2,3) by (simp add: TetherController_new_def tether_pids_def slot_def)
  from tether_children.no_child_lost [OF assms(1) TrueI this assms(4)] show ?thesis by (simp add: tether_pids_def)
qed

definition sample_tether :: tether where
  "sample_tether = \<lparr>hist = [], tc_mInterfaces = [], mDnsNetId = 0, mDnsForwarders = [], mDaemonPid = 0, mDaemonFd = 0,
     mRtrAdvPid = 0, mUpstreamInterfaces = []\<rparr>"

definition forking_env :: env where
  "forking_env = sample_env\<lparr>env_call := (\<lambda>h c. case c of SysFork argv \<Rightarrow> 41 | _ \<Rightarrow> 0), env_pipe := (\<lambda>h. Some (3, 4))\<rparr>"

theorem tether_no_child_lost_witness:
  "\<exists>rs s. run_state (run_calls (tether_run forking_env) [StartTethering []]) (TetherController_new sample_tether) = (rs, s) \<and>
     mDaemonPid s = 41 \<and> children (hist s) = {#41#}"
proof -
  obtain rs s where run: "run_state (run_calls (tether_run forking_env) [StartTethering []]) (TetherController_new sample_tether) = (rs, s)"
    by fastforce
  have "forks_ok forking_env" by (simp add: forks_ok_def forking_env_def)
  from tether_no_child_lost [OF this _ _ run] have "children (hist s) = slot (mDaemonPid s) + slot (mRtrAdvPid s)"
    by (simp add: sample_tether_def)
  moreover have "mDaemonPid s = 41" "mRtrAdvPid s = 0"
    using run by (auto simp: startTethering_def applyDnsInterfaces_def run_simps forking_env_def TetherController_new_def
        sample_tether_def)
  ultimately show ?thesis using run by (simp add: slot_def)
qed

text \<open>
  C25: Every command that is sent to dnsmasq fits the buffer of 1024 bytes that it is built in, with its terminating NUL,
  however many interfaces and servers there are and however long their names.
\<close>

theorem tether_commands_fit:
  assumes "hist s0 = []" and "run_state (run_calls (tether_run e) cs) s0 = (rs, s)"
    and "EvCall (SysWriteFd fd w) r \<in> set (hist s)"
  shows "length w + 1 \<le> MAX_CMD_SIZE"
proof -
  have "writes_fit (hist s0)" using assms(1) by (simp add: writes_fit_def)
  from hoareD [OF tether_runs_fit this assms(2)] assms(3) show ?thesis by (auto simp: writes_fit_def)
qed

theorem tether_commands_fit_witness:
  "\<exists>rs s w. run_state (run_calls (tether_run forking_env) [StartTethering [], SetForwarders 7 []])
       (TetherController_new sample_tether) = (rs, s) \<and>
     EvCall (SysWriteFd 4 w) 0 \<in> set (hist s) \<and> length w + 1 \<le> MAX_CMD_SIZE"
proof -
  obtain rs s where run: "run_state (run_calls (tether_run forking_env) [StartTethering [], SetForwarders 7 []])
      (TetherController_new sample_tether) = (rs, s)" by fastforce
  then have "\<exists>w. EvCall (SysWriteFd 4 w) 0 \<in> set (hist s)"
    by (auto simp: startTethering_def applyDnsInterfaces_def setDnsForwarders_def run_simps forking_env_def
        TetherController_new_def sample_tether_def Let_def)
  then show ?thesis
    using run tether_commands_fit [OF _ run] by (auto simp: TetherController_new_def sample_tether_def)
qed

text \<open>When the forwarding flag cannot be read, forwarding is reported to be on.\<close>

lemma unreadable_forwarding_is_on:
  "env_read e (hist s) IP4_CFG_IP_FORWARD = Some [] \<Longrightarrow> fst (run_state (getIpFwdEnabled e) s) = True"
  by (simp add: getIpFwdEnabled_def run_simps)

end
