(* ===== verification/PppController.thy ===== *)
theory PppController
  imports TetherController
begin

text \<open>
  \<^verbatim>\<open>server/PppController.cpp\<close> and \<^verbatim>\<open>server/ResolverController.cpp\<close>: the one pppd process, the list of terminals it may
  use, and the calls that set and flush name servers.
\<close>

section \<open>PppController\<close>

record ppp = sys +
  mTtys :: "string list"
  ppp_mPid :: int

definition PppController_new :: "'a ppp_scheme \<Rightarrow> 'a ppp_scheme" where
  "PppController_new s = s\<lparr>mTtys := [], ppp_mPid := 0\<rparr>"

text \<open>The device name is cut to the 31 characters that fit the buffer.\<close>

definition pppd_args :: "string \<Rightarrow> bytes \<Rightarrow> bytes \<Rightarrow> bytes \<Rightarrow> bytes \<Rightarrow> string list" where
  "pppd_args tty local_addr remote dns1 dns2 =
     [''/system/bin/pppd'', ''-detach'', take 31 (''/dev/'' @ tty), ''115200'', inet_ntoa local_addr @ '':'' @ inet_ntoa remote,
      ''ms-dns'', inet_ntoa dns1, ''ms-dns'', inet_ntoa dns2, ''lcp-max-configure'', ''99999'']"

definition attachPppd :: "env \<Rightarrow> string \<Rightarrow> bytes \<Rightarrow> bytes \<Rightarrow> bytes \<Rightarrow> bytes \<Rightarrow> ('a ppp_scheme, int) state" where
  "attachPppd e tty local_addr remote dns1 dns2 = do {
     running \<leftarrow> gets ppp_mPid;
     ttys \<leftarrow> gets mTtys;
     if running \<noteq> 0 then ret (- 1)
     else if tty \<notin> set ttys then ret (- 1)
     else do {
       pid \<leftarrow> call_sys e (SysFork (pppd_args tty local_addr remote dns1 dns2));
       if pid < 0 then ret (- 1)
       else do { modify (ppp_mPid_update (\<lambda>_. pid)); ret 0 } } }"

definition detachPppd :: "env \<Rightarrow> string \<Rightarrow> ('a ppp_scheme, int) state" where
  "detachPppd e tty = do {
     pid \<leftarrow> gets ppp_mPid;
     if pid = 0 then ret 0
     else do {
       _ \<leftarrow> call_sys e (SysKill pid);
       _ \<leftarrow> call_sys e (SysWaitpid pid);
       modify (ppp_mPid_update (\<lambda>_. 0));
       ret 0 } }"

definition is_tty :: "string \<Rightarrow> bool" where
  "is_tty name \<longleftrightarrow> take 1 name \<noteq> ''.'' \<and> take 3 name = ''tty'' \<and> length name > 3"

definition updateTtyList :: "env \<Rightarrow> ('a ppp_scheme, int) state" where
  "updateTtyList e = do {
     modify (mTtys_update (\<lambda>_. []));
     dir \<leftarrow> read_dir e ''/sys/class/tty'';
     case dir of
       None \<Rightarrow> ret (- 1)
     | Some ds \<Rightarrow> do { modify (mTtys_update (\<lambda>_. filter is_tty (map fst ds))); ret 0 } }"

definition getTtyList :: "env \<Rightarrow> ('a ppp_scheme, string list) state" where
  "getTtyList e = do { _ \<leftarrow> updateTtyList e; gets mTtys }"

section \<open>ResolverController\<close>

text \<open>The functions of the resolver library, whose results are not looked at.\<close>

definition setDnsServers :: "env \<Rightarrow> u32 \<Rightarrow> string \<Rightarrow> string list \<Rightarrow> ('a sys_scheme, int) state" where
  "setDnsServers e n domains servers = do {
     _ \<leftarrow> call_sys e (SysLib ''_resolv_set_nameservers_for_net'' (fmt_u (unat n) # domains # servers));
     ret 0 }"

definition clearDnsServers :: "env \<Rightarrow> u32 \<Rightarrow> ('a sys_scheme, int) state" where
  "clearDnsServers e n = do {
     _ \<leftarrow> call_sys e (SysLib ''_resolv_set_nameservers_for_net'' [fmt_u (unat n), []]);
     ret 0 }"

definition flushDnsCache :: "env \<Rightarrow> u32 \<Rightarrow> ('a sys_scheme, int) state" where
  "flushDnsCache e n = do {
     _ \<leftarrow> call_sys e (SysLib ''_resolv_flush_cache_for_net'' [fmt_u (unat n)]);
     ret 0 }"

section \<open>Specification\<close>

datatype ppp_call = AttachPppd string bytes bytes bytes bytes | DetachPppd string | ListTtys

fun ppp_run :: "env \<Rightarrow> ppp_call \<Rightarrow> ('a ppp_scheme, int) state" where
  "ppp_run e (AttachPppd tty l r d1 d2) = attachPppd e tty l r d1 d2"
| "ppp_run e (DetachPppd tty) = detachPppd e tty"
| "ppp_run e ListTtys = do { _ \<leftarrow> getTtyList e; ret 0 }"

definition ppp_pids :: "'a ppp_scheme \<Rightarrow> int multiset" where
  "ppp_pids s = slot (ppp_mPid s)"

section \<open>Lemmas\<close>

lemma ppp_run_tracks:
  assumes "forks_ok e"
  shows "tracks ppp_pids (ppp_run e c)"
proof (rule tracksI)
  fix s r s' M
  assume "children (hist s) = ppp_pids s + M" and "run_state (ppp_run e c) s = (r, s')"
  moreover have "env_call e h (SysFork argv) \<noteq> 0" for h argv using assms by (simp add: forks_ok_def)
  ultimately show "children (hist s') = ppp_pids s' + M"
    by (cases c) (auto simp: attachPppd_def detachPppd_def getTtyList_def updateTtyList_def run_simps ppp_pids_def slot_def
        split: if_splits option.splits)
qed

interpretation ppp_children: supervisor "\<lambda>_. True" ppp_pids ppp_run
  by unfold_locales (rule tracks_supervises [OF ppp_run_tracks])

section \<open>Properties\<close>

text \<open>
  At most one pppd runs at any time, it is the one on record, and it is started only on a terminal that a listing has
  found before: until then every attachment is refused.
\<close>

lemma pppd_single:
  assumes "forks_ok e" and "hist s0 = []" and "run_state (run_calls (ppp_run e) cs) (PppController_new s0) = (rs, s)"
  shows "children (hist s) = slot (ppp_mPid s) \<and> size (children (hist s)) \<le> 1"
proof -
  have "children (hist (PppController_new s0)) = ppp_pids (PppController_new s0)"
    using assms(2) by (simp add: PppController_new_def ppp_pids_def slot_def)
  from ppp_children.no_child_lost [OF assms(1) TrueI this assms(3)] show ?thesis by (simp add: ppp_pids_def slot_def)
qed

lemma attach_needs_listing: "run_state (attachPppd e tty l r d1 d2) (PppController_new s) = (- 1, PppController_new s)"
  by (simp add: attachPppd_def PppController_new_def run_simps)

end
