(* ===== verification/ClatdController.thy ===== *)
theory ClatdController
  imports PppController NetworkController
begin

text \<open>
  \<^verbatim>\<open>server/ClatdController.cpp\<close>: one clatd process per interface. The controller asks the network controller for the
  network of the interface, so its record extends that one.
\<close>

section \<open>Model\<close>

record clatd = nc +
  mClatdPids :: "(string \<times> int) list"

definition kClatdPath :: string where "kClatdPath = ''/system/bin/clatd''"

definition getClatdPid :: "'a clatd_scheme \<Rightarrow> string \<Rightarrow> int" where
  "getClatdPid s interface = (case map_of (mClatdPids s) interface of None \<Rightarrow> 0 | Some pid \<Rightarrow> pid)"

definition clatd_args :: "string \<Rightarrow> u32 \<Rightarrow> string list" where
  "clatd_args interface n =
     [kClatdPath, ''clatd-'' @ interface, ''-i'', interface, ''-n'', fmt_u (unat n), ''-m'',
      ''0x'' @ fmt_x (unat (intValue (dns_fwmark n)))]"

definition startClatd :: "env \<Rightarrow> string \<Rightarrow> ('a clatd_scheme, int) state" where
  "startClatd e interface = do {
     running \<leftarrow> gets (\<lambda>s. getClatdPid s interface);
     if running \<noteq> 0 then ret (- 1)
     else do {
       n \<leftarrow> gets (\<lambda>s. getNetworkForInterface s interface);
       if n = NETID_UNSET then ret (- 1)
       else do {
         pid \<leftarrow> call_sys e (SysFork (clatd_args interface n));
         if pid < 0 then ret (- 1)
         else do { modify (mClatdPids_update (map_put interface pid)); ret 0 } } } }"

definition stopClatd :: "env \<Rightarrow> string \<Rightarrow> ('a clatd_scheme, int) state" where
  "stopClatd e interface = do {
     pid \<leftarrow> gets (\<lambda>s. getClatdPid s interface);
     if pid = 0 then ret (- 1)
     else do {
       _ \<leftarrow> call_sys e (SysKill pid);
       _ \<leftarrow> call_sys e (SysWaitpid pid);
       modify (mClatdPids_update (map_erase interface));
       ret 0 } }"

definition isClatdStarted :: "env \<Rightarrow> string \<Rightarrow> ('a clatd_scheme, bool) state" where
  "isClatdStarted e interface = do {
     pid \<leftarrow> gets (\<lambda>s. getClatdPid s interface);
     if pid = 0 then ret False
     else do {
       waitpid_status \<leftarrow> call_sys e (SysWaitNoHang pid);
       (if waitpid_status \<noteq> 0 then modify (mClatdPids_update (map_erase interface)) else ret ());
       ret (waitpid_status = 0) } }"

section \<open>Specification\<close>

datatype clatd_call = StartClatd string | StopClatd string | StatusClatd string

fun clatd_run :: "env \<Rightarrow> clatd_call \<Rightarrow> ('a clatd_scheme, int) state" where
  "clatd_run e (StartClatd i) = startClatd e i"
| "clatd_run e (StopClatd i) = stopClatd e i"
| "clatd_run e (StatusClatd i) = do { b \<leftarrow> isClatdStarted e i; ret (if b then 1 else 0) }"

definition clatd_pids :: "'a clatd_scheme \<Rightarrow> int multiset" where
  "clatd_pids s = image_mset snd (mset (mClatdPids s))"

definition clatd_ok :: "'a clatd_scheme \<Rightarrow> bool" where
  "clatd_ok s \<longleftrightarrow> wf_map (mClatdPids s) \<and> 0 \<notin> snd ` set (mClatdPids s)"

section \<open>Lemmas\<close>

lemma getClatdPid_eq_0: "clatd_ok s \<Longrightarrow> getClatdPid s i = 0 \<longleftrightarrow> map_of (mClatdPids s) i = None"
  by (force simp: clatd_ok_def getClatdPid_def dest: map_of_SomeD split: option.split)

lemma getClatdPid_Some: "clatd_ok s \<Longrightarrow> getClatdPid s i \<noteq> 0 \<Longrightarrow> map_of (mClatdPids s) i = Some (getClatdPid s i)"
  by (auto simp: getClatdPid_def split: option.splits)

lemma clatd_put:
  assumes "clatd_ok s" and "getClatdPid s i = 0" and "pid \<noteq> 0"
  shows "clatd_ok (mClatdPids_update (map_put i pid) (s\<lparr>hist := h\<rparr>))"
    and "clatd_pids (mClatdPids_update (map_put i pid) (s\<lparr>hist := h\<rparr>)) = add_mset pid (clatd_pids s)"
proof -
  have none: "map_of (mClatdPids s) i = None" using assms getClatdPid_eq_0 by blast
  show "clatd_pids (mClatdPids_update (map_put i pid) (s\<lparr>hist := h\<rparr>)) = add_mset pid (clatd_pids s)"
    using none by (simp add: clatd_pids_def mset_map_put_new)
  have "set (map_put i pid (mClatdPids s)) = insert (i, pid) {x \<in> set (mClatdPids s). fst x \<noteq> i}"
    using assms(1) by (simp add: clatd_ok_def set_map_put)
  then show "clatd_ok (mClatdPids_update (map_put i pid) (s\<lparr>hist := h\<rparr>))"
    using assms by (auto simp: clatd_ok_def)
qed

lemma clatd_erase:
  assumes "clatd_ok s" and "getClatdPid s i \<noteq> 0"
  shows "clatd_ok (mClatdPids_update (map_erase i) (s\<lparr>hist := h\<rparr>))"
    and "clatd_pids (mClatdPids_update (map_erase i) (s\<lparr>hist := h\<rparr>)) = clatd_pids s - {#getClatdPid s i#}"
    and "getClatdPid s i \<in># clatd_pids s"
proof -
  have some: "map_of (mClatdPids s) i = Some (getClatdPid s i)" using assms getClatdPid_Some by blast
  show "clatd_ok (mClatdPids_update (map_erase i) (s\<lparr>hist := h\<rparr>))"
    using assms(1) by (auto simp: clatd_ok_def)
  have "(i, getClatdPid s i) \<in># mset (mClatdPids s)" using map_of_SomeD [OF some] by simp
  then show "clatd_pids (mClatdPids_update (map_erase i) (s\<lparr>hist := h\<rparr>)) = clatd_pids s - {#getClatdPid s i#}"
    "getClatdPid s i \<in># clatd_pids s"
    using assms(1) some by (force simp: clatd_pids_def clatd_ok_def mset_map_erase image_mset_Diff)+
qed

lemma clatd_frame [simp]:
  "clatd_ok (s\<lparr>hist := h\<rparr>) = clatd_ok s" "clatd_pids (s\<lparr>hist := h\<rparr>) = clatd_pids s" "getClatdPid (s\<lparr>hist := h\<rparr>) i = getClatdPid s i"
  by (simp_all add: clatd_ok_def clatd_pids_def getClatdPid_def)

lemma clatd_run_tracks:
  assumes "forks_ok e"
  shows "keeps (\<lambda>s. clatd_ok s \<and> children (hist s) = clatd_pids s + M) (clatd_run e c)"
proof (rule hoareI)
  fix s r s'
  assume pre: "clatd_ok s \<and> children (hist s) = clatd_pids s + M" and run: "run_state (clatd_run e c) s = (r, s')"
  have fork: "env_call e h (SysFork argv) \<noteq> 0" for h argv using assms by (simp add: forks_ok_def)
  show "clatd_ok s' \<and> children (hist s') = clatd_pids s' + M"
  proof (cases c)
    case (StartClatd i)
    then show ?thesis
      using pre run fork by (auto simp: startClatd_def run_simps clatd_put split: if_splits)
  next
    case (StopClatd i)
    then show ?thesis
      using pre run clatd_erase [of s i] by (auto simp: stopClatd_def run_simps clatd_erase split: if_splits)
  next
    case (StatusClatd i)
    then show ?thesis
      using pre run clatd_erase [of s i] by (auto simp: isClatdStarted_def run_simps clatd_erase split: if_splits)
  qed
qed

interpretation clatd_children: supervisor clatd_ok clatd_pids clatd_run
  by unfold_locales (rule clatd_run_tracks)

section \<open>Properties\<close>

text \<open>
  C27: Each interface has at most one clatd process, and the processes on record are exactly those that have been
  started and not waited for; a process is started only for an interface of some network, and is told that network's
  NetId and a mark that carries it.
\<close>

theorem clatd_per_interface:
  assumes "forks_ok e" and "mClatdPids s0 = []" and "hist s0 = []"
    and "run_state (run_calls (clatd_run e) cs) s0 = (rs, s)"
  shows "distinct (map fst (mClatdPids s)) \<and> children (hist s) = image_mset snd (mset (mClatdPids s)) \<and>
    (\<forall>i s1. run_state (startClatd e i) s = (0, s1) \<longrightarrow>
       getNetworkForInterface s i \<noteq> NETID_UNSET \<and>
       (\<exists>pid. hist s1 = EvCall (SysFork (clatd_args i (getNetworkForInterface s i))) pid # hist s \<and> getClatdPid s1 i = pid))"
proof -
  have "clatd_ok s0" "children (hist s0) = clatd_pids s0" using assms(2,3) by (simp_all add: clatd_ok_def clatd_pids_def)
  from clatd_children.no_child_lost [OF assms(1) this assms(4)]
  have "distinct (map fst (mClatdPids s)) \<and> children (hist s) = image_mset snd (mset (mClatdPids s))"
    by (simp add: clatd_pids_def clatd_ok_def wf_map_distinct)
  moreover have "getNetworkForInterface s i \<noteq> NETID_UNSET \<and>
      (\<exists>pid. hist s1 = EvCall (SysFork (clatd_args i (getNetworkForInterface s i))) pid # hist s \<and> getClatdPid s1 i = pid)"
    if "run_state (startClatd e i) s = (0, s1)" for i s1
    using that by (auto simp: startClatd_def run_simps getClatdPid_def split: if_splits)
  ultimately show ?thesis by blast
qed

definition sample_clatd :: clatd where
  "sample_clatd = \<lparr>hist = [], interfaceToTable = [], mDefaultNetId = 0,
     mNetworks = [(100, Physical \<lparr>mNetId = 100, mInterfaces = [''rmnet0''], mPermission = PERMISSION_NONE, mIsDefault = False\<rparr>)],
     mUsers = [], mProtectableUsers = [], mClatdPids = []\<rparr>"

theorem clatd_per_interface_witness:
  "\<exists>s. run_state (run_calls (clatd_run forking_env) [StartClatd ''rmnet0'']) sample_clatd = ([0], s) \<and> children (hist s) = {#41#}"
proof -
  obtain rs s where run: "run_state (run_calls (clatd_run forking_env) [StartClatd ''rmnet0'']) sample_clatd = (rs, s)" by fastforce
  have "forks_ok forking_env" by (simp add: forks_ok_def forking_env_def)
  from clatd_per_interface [OF this _ _ run] have "children (hist s) = image_mset snd (mset (mClatdPids s))"
    by (simp add: sample_clatd_def)
  moreover have "rs = [0]" "mClatdPids s = [(''rmnet0'', 41)]"
    using run by (auto simp: startClatd_def run_simps forking_env_def sample_clatd_def getClatdPid_def getNetworkForInterface_def
        NETID_UNSET_def)
  ultimately show ?thesis using run by simp
qed

end
