(* ===== verification/SoftapController.thy ===== *)
theory SoftapController
  imports Children ResponseCode
begin

text \<open>
  \<^verbatim>\<open>server/SoftapController.cpp\<close>: the hostapd process of the mobile hotspot, its configuration file, and the choice of
  firmware. The key derivation of OpenSSL and the firmware paths of the Wi-Fi library are parameters.
\<close>

section \<open>Model\<close>

record softap = sys +
  sap_mPid :: int

definition HOSTAPD_CONF_FILE :: string where "HOSTAPD_CONF_FILE = ''/data/misc/wifi/hostapd.conf''"
definition HOSTAPD_BIN_FILE :: string where "HOSTAPD_BIN_FILE = ''/system/bin/hostapd''"
definition HOSTAPD_SOCKETS_DIR :: string where "HOSTAPD_SOCKETS_DIR = ''/data/misc/wifi/sockets''"
definition AP_CHANNEL_DEFAULT :: int where "AP_CHANNEL_DEFAULT = 6"

definition SoftapController_new :: "'a softap_scheme \<Rightarrow> 'a softap_scheme" where
  "SoftapController_new s = s\<lparr>sap_mPid := 0\<rparr>"

definition startSoftap :: "env \<Rightarrow> string \<Rightarrow> ('a softap_scheme, int) state" where
  "startSoftap e entropy_file = do {
     running \<leftarrow> gets sap_mPid;
     if running \<noteq> 0 then ret SoftapStatusResult
     else do {
       _ \<leftarrow> call_sys e (SysLib ''ensure_entropy_file_exists'' []);
       pid \<leftarrow> call_sys e (SysFork [HOSTAPD_BIN_FILE, ''-e'', entropy_file, HOSTAPD_CONF_FILE]);
       if pid < 0 then ret ServiceStartFailed
       else do {
         modify (sap_mPid_update (\<lambda>_. pid));
         dir \<leftarrow> read_dir e HOSTAPD_SOCKETS_DIR;
         h \<leftarrow> gets hist;
         (if dir = None \<and> env_errno e h = ENOENT then do {
            _ \<leftarrow> call_sys e (SysLib ''mkdir'' [HOSTAPD_SOCKETS_DIR]);
            _ \<leftarrow> call_sys e (SysLib ''chown'' [HOSTAPD_SOCKETS_DIR]);
            _ \<leftarrow> call_sys e (SysLib ''chmod'' [HOSTAPD_SOCKETS_DIR]);
            ret () }
          else ret ());
         ret SoftapStatusResult } } }"

definition stopSoftap :: "env \<Rightarrow> ('a softap_scheme, int) state" where
  "stopSoftap e = do {
     pid \<leftarrow> gets sap_mPid;
     if pid = 0 then ret SoftapStatusResult
     else do {
       _ \<leftarrow> call_sys e (SysKill pid);
       _ \<leftarrow> call_sys e (SysWaitpid pid);
       modify (sap_mPid_update (\<lambda>_. 0));
       ret SoftapStatusResult } }"

definition isSoftapStarted :: "'a softap_scheme \<Rightarrow> bool" where
  "isSoftapStarted s \<longleftrightarrow> sap_mPid s \<noteq> 0"

text \<open>\<^verbatim>\<open>%02x\<close> and \<^verbatim>\<open>strcasecmp\<close>\<close>

definition hex_digit :: "nat \<Rightarrow> char" where
  "hex_digit d = (if d < 10 then char_of (48 + d) else char_of (87 + d))"

definition fmt_02x :: "u8 \<Rightarrow> string" where
  "fmt_02x b = [hex_digit (unat b div 16), hex_digit (unat b mod 16)]"

definition tolower :: "char \<Rightarrow> char" where
  "tolower c = (if CHR ''A'' \<le> c \<and> c \<le> CHR ''Z'' then char_of (of_char c + 32 :: nat) else c)"

definition generatePsk :: "(string \<Rightarrow> string \<Rightarrow> bytes) \<Rightarrow> string \<Rightarrow> string \<Rightarrow> string" where
  "generatePsk pbkdf2 ssid passphrase = concat (map fmt_02x (pbkdf2 passphrase ssid))"

definition nl :: string where "nl = [CHR 0x0A]"

text \<open>The text in \<^verbatim>\<open>wbuf\<close>.\<close>

definition ap_config :: "string \<Rightarrow> string \<Rightarrow> int \<Rightarrow> bool \<Rightarrow> string" where
  "ap_config iface ssid channel hidden =
     ''interface='' @ iface @ nl @ ''driver=nl80211'' @ nl @ ''ctrl_interface=/data/misc/wifi/hostapd'' @ nl @
     ''ssid='' @ ssid @ nl @ ''channel='' @ fmt_d channel @ nl @ ''ieee80211n=1'' @ nl @ ''hw_mode=g'' @ nl @
     ''ignore_broadcast_ssid='' @ (if hidden then ''1'' else ''0'') @ nl @ ''wowlan_triggers=any'' @ nl"

text \<open>The text in \<^verbatim>\<open>fbuf\<close>, \<^const>\<open>None\<close> where the pointer stays NULL.\<close>

definition ap_security :: "(string \<Rightarrow> string \<Rightarrow> bytes) \<Rightarrow> string list \<Rightarrow> string \<Rightarrow> string option" where
  "ap_security pbkdf2 argv wbuf =
     (let argc = length argv in
      if argc > 7 then
        let psk_str = generatePsk pbkdf2 (argv ! 3) (argv ! 7) in
        if argv ! 6 = ''wpa-psk'' then Some (wbuf @ ''wpa=3'' @ nl @ ''wpa_pairwise=TKIP CCMP'' @ nl @ ''wpa_psk='' @ psk_str @ nl)
        else if argv ! 6 = ''wpa2-psk'' then Some (wbuf @ ''wpa=2'' @ nl @ ''rsn_pairwise=CCMP'' @ nl @ ''wpa_psk='' @ psk_str @ nl)
        else if argv ! 6 = ''open'' then Some wbuf
        else None
      else if argc > 6 then (if argv ! 6 = ''open'' then Some wbuf else None)
      else Some wbuf)"

text \<open>
  The whole function; \<^const>\<open>None\<close> is undefined behaviour: reading the argument after the last one, or \<^verbatim>\<open>strlen(NULL)\<close>.
\<close>

definition setSoftap :: "env \<Rightarrow> (string \<Rightarrow> string \<Rightarrow> bytes) \<Rightarrow> string list \<Rightarrow> ('a sys_scheme, int option) state" where
  "setSoftap e pbkdf2 argv =
     (let argc = length argv in
      if argc < 5 then ret (Some CommandSyntaxError)
      else if argc = 5 then ret None
      else let hidden = (map tolower (argv ! 4) = ''hidden'');
               ch = atoi (argv ! 5);
               channel = (if ch \<le> 0 then AP_CHANNEL_DEFAULT else ch);
               wbuf = ap_config (argv ! 2) (argv ! 3) channel hidden
           in do {
             fd \<leftarrow> call_sys e (SysLib ''open'' [HOSTAPD_CONF_FILE]);
             if fd < 0 then ret (Some OperationFailed)
             else case ap_security pbkdf2 argv wbuf of
               None \<Rightarrow> ret None
             | Some fbuf \<Rightarrow> do {
                 w \<leftarrow> call_sys e (SysWriteFd fd fbuf);
                 r \<leftarrow> call_sys e (SysLib ''fchmod'' [HOSTAPD_CONF_FILE]);
                 if r < 0 then do {
                   _ \<leftarrow> call_sys e (SysClose fd);
                   _ \<leftarrow> call_sys e (SysLib ''unlink'' [HOSTAPD_CONF_FILE]);
                   ret (Some OperationFailed) }
                 else do {
                   r \<leftarrow> call_sys e (SysLib ''fchown'' [HOSTAPD_CONF_FILE]);
                   if r < 0 then do {
                     _ \<leftarrow> call_sys e (SysClose fd);
                     _ \<leftarrow> call_sys e (SysLib ''unlink'' [HOSTAPD_CONF_FILE]);
                     ret (Some OperationFailed) }
                   else do {
                     _ \<leftarrow> call_sys e (SysClose fd);
                     ret (Some (if w < 0 then OperationFailed else SoftapStatusResult)) } } } })"

datatype fw_kind = FwAP | FwP2P | FwSTA

definition fwReloadSoftap :: "env \<Rightarrow> (fw_kind \<Rightarrow> cstr) \<Rightarrow> string list \<Rightarrow> ('a sys_scheme, int) state" where
  "fwReloadSoftap e wifi_get_fw_path argv =
     (if length argv < 4 then ret CommandSyntaxError
      else let fwpath = (if argv ! 3 = ''AP'' then wifi_get_fw_path FwAP
                         else if argv ! 3 = ''P2P'' then wifi_get_fw_path FwP2P
                         else if argv ! 3 = ''STA'' then wifi_get_fw_path FwSTA
                         else None)
           in case fwpath of
             None \<Rightarrow> ret CommandParameterError
           | Some path \<Rightarrow> do {
               r \<leftarrow> call_sys e (SysLib ''wifi_change_fw_path'' [path]);
               ret (if r \<noteq> 0 then OperationFailed else SoftapStatusResult) })"

section \<open>Specification\<close>

datatype softap_call = StartSoftap | StopSoftap

fun softap_run :: "env \<Rightarrow> softap_call \<Rightarrow> ('a softap_scheme, int) state" where
  "softap_run e StartSoftap = startSoftap e ''/data/misc/wifi/entropy.bin''"
| "softap_run e StopSoftap = stopSoftap e"

definition softap_pids :: "'a softap_scheme \<Rightarrow> int multiset" where
  "softap_pids s = slot (sap_mPid s)"

text \<open>How hostapd reads its file: lines, each split at the first equals sign.\<close>

definition config_lines :: "string \<Rightarrow> string list" where
  "config_lines text = filter (\<lambda>l. l \<noteq> []) (strsep_all CHR 0x0A text)"

definition config_entry :: "string \<Rightarrow> string \<times> string" where
  "config_entry line = (case strchr line CHR ''='' of None \<Rightarrow> (line, []) | Some (k, v) \<Rightarrow> (k, v))"

definition config_of :: "string \<Rightarrow> (string \<times> string) list" where
  "config_of text = map config_entry (config_lines text)"

definition no_newline :: "string \<Rightarrow> bool" where
  "no_newline w \<longleftrightarrow> CHR 0x0A \<notin> set w"

section \<open>Lemmas\<close>

lemma softap_run_tracks:
  assumes "forks_ok e"
  shows "tracks softap_pids (softap_run e c)"
proof (rule tracksI)
  fix s r s' M
  assume "children (hist s) = softap_pids s + M" and "run_state (softap_run e c) s = (r, s')"
  moreover have "env_call e h (SysFork argv) \<noteq> 0" for h argv using assms by (simp add: forks_ok_def)
  ultimately show "children (hist s') = softap_pids s' + M"
    by (cases c) (auto simp: startSoftap_def stopSoftap_def run_simps softap_pids_def slot_def split: if_splits)
qed

interpretation softap_children: supervisor "\<lambda>_. True" softap_pids softap_run
  by unfold_locales (rule tracks_supervises [OF softap_run_tracks])

lemma strsep_line: "no_newline w \<Longrightarrow> strsep_all CHR 0x0A (w @ nl @ rest) = w # strsep_all CHR 0x0A rest"
  by (induction w) (auto simp: no_newline_def nl_def split: list.split)

lemma config_of_line: "no_newline w \<Longrightarrow> w \<noteq> [] \<Longrightarrow> config_of (w @ nl @ rest) = config_entry w # config_of rest"
  by (simp add: config_of_def config_lines_def strsep_line)

lemma config_of_Nil [simp]: "config_of [] = []"
  by (simp add: config_of_def config_lines_def)

lemma config_of_key:
  assumes "no_newline v" and "no_newline k" and "CHR ''='' \<notin> set k"
  shows "config_of (k @ ''='' @ v @ nl @ rest) = (k, v) # config_of rest"
proof -
  have "no_newline (k @ ''='' @ v)" using assms by (simp add: no_newline_def)
  moreover have "config_entry (k @ ''='' @ v) = (k, v)"
    using strchr_append [OF assms(3), of v] by (simp add: config_entry_def)
  ultimately show ?thesis using config_of_line [of "k @ ''='' @ v" rest] by simp
qed

lemma no_newline_words [simp]: "no_newline (fmt_d n)" "no_newline (concat (map fmt_02x bs))"
proof -
  have "\<not> isdigit CHR 0x0A" by (simp add: isdigit_def less_eq_char_def)
  then have "CHR 0x0A \<notin> set (fmt_u m)" for m using fmt_u_digits by blast
  then show "no_newline (fmt_d n)" by (simp add: no_newline_def fmt_d_def)
  have big: "48 \<le> (of_char (hex_digit d) :: nat)" if "d < 16" for d using that by (simp add: hex_digit_def)
  have "unat (b :: u8) div 16 < 16" for b
    using unsigned_less [of b, where ?'a = nat] by (simp add: less_mult_imp_div_less)
  then have "hex_digit (unat (b :: u8) div 16) \<noteq> CHR 0x0A" for b using big [of "unat b div 16"] by auto
  moreover have "hex_digit (unat (b :: u8) mod 16) \<noteq> CHR 0x0A" for b using big [of "unat b mod 16"] by auto
  ultimately have "CHR 0x0A \<notin> set (fmt_02x b)" for b unfolding fmt_02x_def by simp metis
  then show "no_newline (concat (map fmt_02x bs))" by (simp add: no_newline_def)
qed

definition config_key :: "string \<Rightarrow> bool" where
  "config_key k \<longleftrightarrow> no_newline k \<and> CHR ''='' \<notin> set k"

lemma ap_config_keys:
  assumes "no_newline i" and "no_newline ssid"
  shows "config_of (ap_config i ssid ch hidden @ rest) =
    [(''interface'', i), (''driver'', ''nl80211''), (''ctrl_interface'', ''/data/misc/wifi/hostapd''), (''ssid'', ssid),
     (''channel'', fmt_d ch), (''ieee80211n'', ''1''), (''hw_mode'', ''g''),
     (''ignore_broadcast_ssid'', if hidden then ''1'' else ''0''), (''wowlan_triggers'', ''any'')] @ config_of rest"
proof -
  have line: "config_of ((k @ ''='') @ v @ nl @ r) = (k, v) # config_of r" if "config_key k" "no_newline v" for k v r
    using config_of_key [of v k r] that by (simp add: config_key_def)
  have whole: "ap_config i ssid ch hidden @ rest =
    (''interface'' @ ''='') @ i @ nl @ (''driver'' @ ''='') @ ''nl80211'' @ nl @ (''ctrl_interface'' @ ''='') @ ''/data/misc/wifi/hostapd'' @ nl @
    (''ssid'' @ ''='') @ ssid @ nl @ (''channel'' @ ''='') @ fmt_d ch @ nl @ (''ieee80211n'' @ ''='') @ ''1'' @ nl @ (''hw_mode'' @ ''='') @ ''g'' @ nl @
    (''ignore_broadcast_ssid'' @ ''='') @ (if hidden then ''1'' else ''0'') @ nl @ (''wowlan_triggers'' @ ''='') @ ''any'' @ nl @ rest"
    by (simp add: ap_config_def)
  have keys: "config_key ''interface''" "config_key ''driver''" "config_key ''ctrl_interface''" "config_key ''ssid''" "config_key ''channel''"
    "config_key ''ieee80211n''" "config_key ''hw_mode''" "config_key ''ignore_broadcast_ssid''" "config_key ''wowlan_triggers''"
    by (simp_all add: no_newline_def config_key_def)
  have vals: "no_newline ''nl80211''" "no_newline ''/data/misc/wifi/hostapd''" "no_newline ''1''" "no_newline ''g''" "no_newline ''any''"
    "no_newline (if hidden then ''1'' else ''0'')"
    by (simp_all add: no_newline_def)
  show ?thesis
    unfolding whole by (simp only: line [OF keys(1) assms(1)] line [OF keys(2) vals(1)] line [OF keys(3) vals(2)] line [OF keys(4) assms(2)]
        line [OF keys(5) no_newline_words(1)] line [OF keys(6) vals(3)] line [OF keys(7) vals(4)] line [OF keys(8) vals(6)]
        line [OF keys(9) vals(5)]) simp
qed

lemma wpa2_keys:
  assumes "no_newline psk"
  shows "config_of (''wpa=2'' @ nl @ ''rsn_pairwise=CCMP'' @ nl @ ''wpa_psk='' @ psk @ nl) =
    [(''wpa'', ''2''), (''rsn_pairwise'', ''CCMP''), (''wpa_psk'', psk)]"
  using config_of_key [of "''2''" "''wpa''" "''rsn_pairwise=CCMP'' @ nl @ ''wpa_psk='' @ psk @ nl"]
    config_of_key [of "''CCMP''" "''rsn_pairwise''" "''wpa_psk='' @ psk @ nl"] config_of_key [of psk "''wpa_psk''" "[]"] assms
  by (simp add: no_newline_def)

lemma setSoftap_write:
  assumes "length argv > 5" and "ap_security pbkdf2 argv (ap_config (argv ! 2) (argv ! 3)
      (if atoi (argv ! 5) \<le> 0 then 6 else atoi (argv ! 5)) (map tolower (argv ! 4) = ''hidden'')) = Some w"
    and "0 \<le> env_call e (hist s) (SysLib ''open'' [HOSTAPD_CONF_FILE])"
  shows "\<exists>fd r h h'. hist (snd (run_state (setSoftap e pbkdf2 argv) s)) = h @ EvCall (SysWriteFd fd w) r # h'"
proof -
  let ?fd = "env_call e (hist s) (SysLib ''open'' [HOSTAPD_CONF_FILE])"
  let ?h1 = "EvCall (SysLib ''open'' [HOSTAPD_CONF_FILE]) ?fd # hist s"
  let ?w = "EvCall (SysWriteFd ?fd w) (env_call e ?h1 (SysWriteFd ?fd w))"
  have "\<exists>h. hist (snd (run_state (setSoftap e pbkdf2 argv) s)) = h @ ?w # ?h1"
    using assms unfolding setSoftap_def Let_def AP_CHANNEL_DEFAULT_def
    by (simp add: run_simps)
  then show ?thesis by blast
qed

section \<open>Properties\<close>

text \<open>
  With an interface and a network name that contain no newline, the configuration that is written for hostapd, read back as
  hostapd reads it, has exactly the intended settings: the interface, the name, the channel (6 when the argument is not
  positive), whether the name is broadcast, and for \<^verbatim>\<open>wpa2-psk\<close> the derived key.
\<close>

theorem softap_config_roundtrip:
  assumes "length argv = 8" and "no_newline (argv ! 2)" and "no_newline (argv ! 3)" and "argv ! 6 = ''wpa2-psk''"
    and "0 \<le> env_call e (hist s) (SysLib ''open'' [HOSTAPD_CONF_FILE])"
  shows "\<exists>fd w r. EvCall (SysWriteFd fd w) r \<in> set (hist (snd (run_state (setSoftap e pbkdf2 argv) s))) \<and>
    config_of w =
    [(''interface'', argv ! 2), (''driver'', ''nl80211''), (''ctrl_interface'', ''/data/misc/wifi/hostapd''), (''ssid'', argv ! 3),
     (''channel'', fmt_d (if atoi (argv ! 5) \<le> 0 then 6 else atoi (argv ! 5))), (''ieee80211n'', ''1''), (''hw_mode'', ''g''),
     (''ignore_broadcast_ssid'', if map tolower (argv ! 4) = ''hidden'' then ''1'' else ''0''), (''wowlan_triggers'', ''any''),
     (''wpa'', ''2''), (''rsn_pairwise'', ''CCMP''), (''wpa_psk'', generatePsk pbkdf2 (argv ! 3) (argv ! 7))]"
proof -
  let ?wbuf = "ap_config (argv ! 2) (argv ! 3) (if atoi (argv ! 5) \<le> 0 then 6 else atoi (argv ! 5)) (map tolower (argv ! 4) = ''hidden'')"
  let ?psk = "generatePsk pbkdf2 (argv ! 3) (argv ! 7)"
  let ?w = "?wbuf @ ''wpa=2'' @ nl @ ''rsn_pairwise=CCMP'' @ nl @ ''wpa_psk='' @ ?psk @ nl"
  have psk: "no_newline ?psk" by (simp add: generatePsk_def)
  have sec: "ap_security pbkdf2 argv ?wbuf = Some ?w" using assms(1,4) by (simp add: ap_security_def)
  have len: "length argv > 5" using assms(1) by simp
  obtain fd r h h' where "hist (snd (run_state (setSoftap e pbkdf2 argv) s)) = h @ EvCall (SysWriteFd fd ?w) r # h'"
    using setSoftap_write [OF len sec assms(5)] by blast
  then have "EvCall (SysWriteFd fd ?w) r \<in> set (hist (snd (run_state (setSoftap e pbkdf2 argv) s)))" by simp
  moreover note ap_config_keys [OF assms(2,3), of "if atoi (argv ! 5) \<le> 0 then 6 else atoi (argv ! 5)" "map tolower (argv ! 4) = ''hidden''"
      "''wpa=2'' @ nl @ ''rsn_pairwise=CCMP'' @ nl @ ''wpa_psk='' @ ?psk @ nl", unfolded wpa2_keys [OF psk]]
  ultimately show ?thesis by (intro exI [of _ fd] exI [of _ ?w] exI [of _ r] conjI) (assumption, simp only: append.simps)
qed

definition sample_softap :: "string list" where
  "sample_softap = [''softap'', ''set'', ''wlan0'', ''AndroidAP'', ''broadcast'', ''11'', ''wpa2-psk'', ''secretkey'']"

theorem softap_config_roundtrip_witness:
  "\<exists>fd w r. EvCall (SysWriteFd fd w) r \<in> set (hist (snd (run_state (setSoftap sample_env (\<lambda>p s. []) sample_softap) (\<lparr>hist = []\<rparr> :: sys)))) \<and>
     map_of (config_of w) ''ssid'' = Some ''AndroidAP''"
proof -
  note sample = sample_softap_def no_newline_def sample_env_def
  obtain fd w r where "EvCall (SysWriteFd fd w) r \<in> set (hist (snd (run_state (setSoftap sample_env (\<lambda>p s. []) sample_softap) (\<lparr>hist = []\<rparr> :: sys))))"
    and "map_of (config_of w) ''ssid'' = Some (sample_softap ! 3)"
    using softap_config_roundtrip [of sample_softap sample_env "\<lparr>hist = []\<rparr> :: sys" "\<lambda>p s. []"] by (auto simp: sample)
  then show ?thesis by (auto simp: sample_softap_def)
qed

text \<open>
  Two argument lists for which the behaviour is undefined: without a channel, the test of the number of arguments is off by
  one and the argument after the last one is read; with an unknown kind of security, the text to write is NULL.
\<close>

lemma softap_undefined:
  "length argv = 5 \<Longrightarrow> fst (run_state (setSoftap e pbkdf2 argv) s) = None"
  "length argv = 7 \<Longrightarrow> argv ! 6 \<noteq> ''open'' \<Longrightarrow> 0 \<le> env_call e (hist s) (SysLib ''open'' [HOSTAPD_CONF_FILE]) \<Longrightarrow>
   fst (run_state (setSoftap e pbkdf2 argv) s) = None"
  by (simp_all add: setSoftap_def ap_security_def run_simps Let_def)

end
