(* ===== verification/QcRouteController.thy ===== *)
theory QcRouteController
  imports NetdConstants
begin

text \<open>
  \<^verbatim>\<open>server/QcRouteController.cpp\<close>: routes and source rules by commands of \<^verbatim>\<open>/system/bin/ip\<close>, which a shell runs. An operation
  succeeds when the command prints nothing; its result is the text of the error, empty for success.
\<close>

section \<open>Model\<close>

definition QC_MAIN_TABLE :: string where "QC_MAIN_TABLE = ''254''"
definition SOURCE_POLICY_RULE_PRIO :: string where "SOURCE_POLICY_RULE_PRIO = ''150''"
definition MAXSIZE :: nat where "MAXSIZE = 256"
definition E2BIG :: int where "E2BIG = 7"

text \<open>
  \<^verbatim>\<open>fgets\<close> gives the first line, cut to the buffer, if there is any output.
\<close>

definition runIpCmd :: "env \<Rightarrow> string \<Rightarrow> ('a sys_scheme, string) state" where
  "runIpCmd e cmd =
     (if length cmd > 255 then ret (env_strerror e E2BIG)
      else do {
        fp \<leftarrow> popen_read e (IP_PATH @ '' '' @ cmd @ '' 2>&1'');
        h \<leftarrow> gets hist;
        ret (case fp of
          None \<Rightarrow> env_strerror e (env_errno e h)
        | Some [] \<Rightarrow> []
        | Some (line # lines) \<Rightarrow> cmd @ '': '' @ take (MAXSIZE - 1) line) })"

text \<open>\<^verbatim>\<open>snprintf(buffer, sizeof buffer, ...)\<close> with the buffers of 255 bytes.\<close>

definition buffer255 :: "string \<Rightarrow> string" where
  "buffer255 text = take 254 text"

definition flushCache :: "env \<Rightarrow> ('a sys_scheme, string) state" where
  "flushCache e = runIpCmd e (buffer255 ''route flush cached'')"

definition repDefRoute :: "env \<Rightarrow> string \<Rightarrow> cstr \<Rightarrow> string \<Rightarrow> string \<Rightarrow> ('a sys_scheme, string) state" where
  "repDefRoute e iface gateway table ipver =
     runIpCmd e (buffer255 (case gateway of
       Some g \<Rightarrow> ipver @ '' route replace default via '' @ g @ '' dev '' @ iface @ '' scope global table '' @ table
     | None \<Rightarrow> ipver @ '' route replace default dev '' @ iface @ '' table '' @ table))"

definition delDefRoute :: "env \<Rightarrow> string \<Rightarrow> string \<Rightarrow> cstr \<Rightarrow> ('a sys_scheme, string) state" where
  "delDefRoute e table ipver iface =
     runIpCmd e (buffer255 (case iface of
       Some i \<Rightarrow> ipver @ '' route del default dev '' @ i @ '' table '' @ table
     | None \<Rightarrow> ipver @ '' route del default table '' @ table))"

definition addRule :: "env \<Rightarrow> string \<Rightarrow> string \<Rightarrow> string \<Rightarrow> ('a sys_scheme, string) state" where
  "addRule e address table ipver =
     runIpCmd e (buffer255 (ipver @ '' rule add from '' @ address @ '' lookup '' @ table @ '' prio '' @ SOURCE_POLICY_RULE_PRIO))"

definition delRule :: "env \<Rightarrow> string \<Rightarrow> string \<Rightarrow> ('a sys_scheme, string) state" where
  "delRule e table ipver = runIpCmd e (buffer255 (ipver @ '' rule del table '' @ table))"

definition delHostRoute :: "env \<Rightarrow> string \<Rightarrow> string \<Rightarrow> ('a sys_scheme, string) state" where
  "delHostRoute e dstPrefix table = runIpCmd e (buffer255 (''route del '' @ dstPrefix @ '' table '' @ table))"

text \<open>\<^verbatim>\<open>if (res.empty()) res = k\<close>\<close>

definition if_empty :: "('s, string) state \<Rightarrow> string \<Rightarrow> ('s, string) state" where
  "if_empty k res = (if res = [] then k else ret res)"

definition repSrcRoute :: "env \<Rightarrow> string \<Rightarrow> string \<Rightarrow> cstr \<Rightarrow> string \<Rightarrow> string \<Rightarrow> ('a sys_scheme, string) state" where
  "repSrcRoute e iface srcPrefix gateway table ipver = do {
     res \<leftarrow> repDefRoute e iface gateway table ipver;
     if_empty (do {
       _ \<leftarrow> delRule e table ipver;
       res \<leftarrow> addRule e srcPrefix table ipver;
       if_empty (flushCache e) res }) res }"

definition delSrcRoute :: "env \<Rightarrow> string \<Rightarrow> string \<Rightarrow> ('a sys_scheme, string) state" where
  "delSrcRoute e table ipver = do {
     _ \<leftarrow> delDefRoute e table ipver None;
     res \<leftarrow> delRule e table ipver;
     if_empty (flushCache e) res }"

text \<open>\<^verbatim>\<open>res.find(word) != npos\<close>\<close>

definition has_word :: "string \<Rightarrow> string \<Rightarrow> bool" where
  "has_word w text \<longleftrightarrow> (\<exists>k\<in>{0..<Suc (length text)}. take (length w) (drop k text) = w)"

definition addDstRoute :: "env \<Rightarrow> string \<Rightarrow> string \<Rightarrow> cstr \<Rightarrow> int \<Rightarrow> string \<Rightarrow> ('a sys_scheme, string) state" where
  "addDstRoute e iface dstPrefix gateway metric table =
     (let buffer = buffer255 (case gateway of
            Some g \<Rightarrow> ''route add '' @ dstPrefix @ '' via '' @ g @ '' dev '' @ iface @ '' table '' @ table @ '' metric '' @ fmt_d metric
          | None \<Rightarrow> ''route add '' @ dstPrefix @ '' dev '' @ iface @ '' table '' @ table @ '' metric '' @ fmt_d metric)
      in do {
        _ \<leftarrow> delHostRoute e dstPrefix table;
        res \<leftarrow> runIpCmd e buffer;
        if res = [] \<or> has_word ''exists'' res then flushCache e else ret res })"

definition delDstRoute :: "env \<Rightarrow> string \<Rightarrow> string \<Rightarrow> ('a sys_scheme, string) state" where
  "delDstRoute e dstPrefix table = do {
     res \<leftarrow> delHostRoute e dstPrefix table;
     if_empty (flushCache e) res }"

definition replaceDefRoute :: "env \<Rightarrow> string \<Rightarrow> cstr \<Rightarrow> string \<Rightarrow> ('a sys_scheme, string) state" where
  "replaceDefRoute e iface gateway ipver = do {
     res \<leftarrow> repDefRoute e iface gateway QC_MAIN_TABLE ipver;
     if_empty (flushCache e) res }"

definition addDefRoute :: "env \<Rightarrow> string \<Rightarrow> cstr \<Rightarrow> string \<Rightarrow> int \<Rightarrow> string \<Rightarrow> ('a sys_scheme, string) state" where
  "addDefRoute e iface gateway ipver metric table = do {
     _ \<leftarrow> delDefRoute e table ipver (Some iface);
     res \<leftarrow> runIpCmd e (buffer255 (case gateway of
       Some g \<Rightarrow> ipver @ '' route add default via '' @ g @ '' dev '' @ iface @ '' table '' @ table @ '' metric '' @ fmt_d metric
     | None \<Rightarrow> ipver @ '' route add default dev '' @ iface @ '' table '' @ table @ '' metric '' @ fmt_d metric));
     if_empty (flushCache e) res }"

section \<open>Specification\<close>

text \<open>
  Characters that have no meaning to the shell, and commands whose text between the path of the program and the
  redirection consists of such characters: the shell runs exactly one program.
\<close>

definition plain :: "char \<Rightarrow> bool" where
  "plain c \<longleftrightarrow> isalnum c \<or> c \<in> set '' -_.:/%+''"

definition plain_cmd :: "string \<Rightarrow> bool" where
  "plain_cmd cmd \<longleftrightarrow> (\<exists>body. cmd = IP_PATH @ '' '' @ body @ '' 2>&1'' \<and> list_all plain body)"

definition popens_plain :: "event list \<Rightarrow> bool" where
  "popens_plain h \<longleftrightarrow> (\<forall>cmd out. EvPopen cmd out \<in> set h \<longrightarrow> plain_cmd cmd)"

section \<open>Lemmas\<close>

abbreviation plain_state :: "'a sys_scheme \<Rightarrow> bool" where
  "plain_state s \<equiv> popens_plain (hist s)"

lemma plain_runIpCmd: "list_all plain cmd \<Longrightarrow> keeps plain_state (runIpCmd e cmd)"
  by (auto simp: runIpCmd_def hoare_def run_simps popens_plain_def plain_cmd_def)

lemma plain_buffer: "list_all plain text \<Longrightarrow> list_all plain (buffer255 text)"
  by (auto simp: buffer255_def list_all_iff dest: in_set_takeD)

lemma isdigit_plain: "isdigit c \<Longrightarrow> plain c"
  by (simp add: plain_def isalnum_def)

lemma fmt_u_plain: "list_all plain (fmt_u n)"
  using fmt_u_digits isdigit_plain by (auto simp: list_all_iff)

lemma fmt_d_plain: "list_all plain (fmt_d n)"
  using fmt_u_plain by (auto simp: fmt_d_def plain_def)

lemma plain_words: 
  "list_all plain ''route flush cached''" "list_all plain '' route replace default via ''" "list_all plain '' dev ''"
  "list_all plain '' scope global table ''" "list_all plain '' route replace default dev ''" "list_all plain '' table ''"
  "list_all plain '' route del default dev ''" "list_all plain '' route del default table ''" "list_all plain '' rule add from ''"
  "list_all plain '' lookup ''" "list_all plain '' prio ''" "list_all plain SOURCE_POLICY_RULE_PRIO" "list_all plain '' rule del table ''"
  "list_all plain ''route del ''" "list_all plain ''route add ''" "list_all plain '' via ''" "list_all plain '' metric ''"
  "list_all plain '' route add default via ''" "list_all plain '' route add default dev ''" "list_all plain QC_MAIN_TABLE"
  by (simp_all add: plain_def isalnum_def isdigit_def less_eq_char_def SOURCE_POLICY_RULE_PRIO_def QC_MAIN_TABLE_def)

lemma plain_parts:
  "keeps plain_state (flushCache e)"
  "list_all plain i \<Longrightarrow> pred_option (list_all plain) g \<Longrightarrow> list_all plain t \<Longrightarrow> list_all plain v \<Longrightarrow> keeps plain_state (repDefRoute e i g t v)"
  "pred_option (list_all plain) g \<Longrightarrow> list_all plain t \<Longrightarrow> list_all plain v \<Longrightarrow> keeps plain_state (delDefRoute e t v g)"
  "list_all plain a \<Longrightarrow> list_all plain t \<Longrightarrow> list_all plain v \<Longrightarrow> keeps plain_state (addRule e a t v)"
  "list_all plain t \<Longrightarrow> list_all plain v \<Longrightarrow> keeps plain_state (delRule e t v)"
  "list_all plain a \<Longrightarrow> list_all plain t \<Longrightarrow> keeps plain_state (delHostRoute e a t)"
  unfolding flushCache_def repDefRoute_def delDefRoute_def addRule_def delRule_def delHostRoute_def
  by (cases g; intro plain_runIpCmd plain_buffer;
      simp only: list_all_append option.case option.pred_inject plain_words simp_thms)+

lemma plain_if_empty: "keeps plain_state k \<Longrightarrow> keeps plain_state (if_empty k res)"
  by (auto simp: if_empty_def intro: wp)

text \<open>Every operation, applied to plain arguments, has the shell run \<^verbatim>\<open>ip\<close> only.\<close>

lemma plain_routes:
  assumes "list_all plain i" and "pred_option (list_all plain) g" and "list_all plain a" and "list_all plain t" and "list_all plain v"
  shows "keeps plain_state (repSrcRoute e i a g t v)" "keeps plain_state (delSrcRoute e t v)"
    "keeps plain_state (addDstRoute e i a g m t)" "keeps plain_state (delDstRoute e a t)"
    "keeps plain_state (replaceDefRoute e i g v)" "keeps plain_state (addDefRoute e i g v m t)"
proof -
  note rules = keeps_bind keeps_return keeps_if plain_if_empty plain_parts plain_words
  show "keeps plain_state (repSrcRoute e i a g t v)" "keeps plain_state (delSrcRoute e t v)"
    "keeps plain_state (delDstRoute e a t)" "keeps plain_state (replaceDefRoute e i g v)"
    unfolding repSrcRoute_def delSrcRoute_def delDstRoute_def replaceDefRoute_def
    by (intro rules; use assms in \<open>simp; fail\<close>)+
  have dst: "list_all plain (case g of
       Some g \<Rightarrow> ''route add '' @ a @ '' via '' @ g @ '' dev '' @ i @ '' table '' @ t @ '' metric '' @ fmt_d m
     | None \<Rightarrow> ''route add '' @ a @ '' dev '' @ i @ '' table '' @ t @ '' metric '' @ fmt_d m)"
    using assms by (cases g; simp only: list_all_append option.case option.pred_inject plain_words fmt_d_plain simp_thms)
  show "keeps plain_state (addDstRoute e i a g m t)"
    unfolding addDstRoute_def Let_def by (intro rules plain_runIpCmd plain_buffer dst) (use assms in simp_all)
  have dflt: "list_all plain (case g of
       Some g \<Rightarrow> v @ '' route add default via '' @ g @ '' dev '' @ i @ '' table '' @ t @ '' metric '' @ fmt_d m
     | None \<Rightarrow> v @ '' route add default dev '' @ i @ '' table '' @ t @ '' metric '' @ fmt_d m)"
    using assms by (cases g; simp only: list_all_append option.case option.pred_inject plain_words fmt_d_plain simp_thms)
  show "keeps plain_state (addDefRoute e i g v m t)"
    unfolding addDefRoute_def by (intro rules plain_runIpCmd plain_buffer dflt) (use assms in simp_all)
qed

end
