(* ===== verification/NetworkCommand.thy ===== *)
theory NetworkCommand
  imports NetworkRules ResponseCode
begin

text \<open>
  The command \<^verbatim>\<open>network\<close> of \<^verbatim>\<open>server/CommandListener.cpp\<close>: how the words of a command line become a call of the
  network controller, and how its result becomes an answer. The words are \<^verbatim>\<open>argv\<close>, their number \<^verbatim>\<open>argc\<close>; every
  access to \<^verbatim>\<open>argv\<close> is guarded by a test of \<^verbatim>\<open>argc\<close>, as in the source.
\<close>

section \<open>Model\<close>

definition NUM_OEM_IDS :: u32 where
  "NUM_OEM_IDS = MAX_OEM_ID - MIN_OEM_ID + 1"

definition stringToPermission :: "string \<Rightarrow> permission" where
  "stringToPermission arg =
     (if arg = ''NETWORK'' then PERMISSION_NETWORK
      else if arg = ''SYSTEM'' then PERMISSION_SYSTEM
      else PERMISSION_NONE)"

text \<open>\<^verbatim>\<open>unsigned\<close> keeps 32 of the 64 bits of \<^verbatim>\<open>strtoul\<close>.\<close>

definition stringToNetId :: "string \<Rightarrow> u32" where
  "stringToNetId arg =
     (if arg = ''local'' then LOCAL_NET_ID
      else if take 3 arg = ''oem'' then
        let n = ucast (fst (strtoul (drop 3 arg) 0)) :: u32
        in if 1 \<le> n \<and> n \<le> NUM_OEM_IDS then MIN_OEM_ID + n else NETID_UNSET
      else ucast (fst (strtoul arg 0)))"

text \<open>Answers. The result is that of \<^verbatim>\<open>runCommand\<close>, \<^const>\<open>None\<close> where the controller has no defined result.\<close>

definition syntaxError :: "string \<Rightarrow> ('a sys_scheme, int option) state" where
  "syntaxError message = do { sendMsg CommandSyntaxError message; ret (Some 0) }"

definition operationError :: "string \<Rightarrow> int \<Rightarrow> ('a sys_scheme, int option) state" where
  "operationError message r = do { sendMsgErrno OperationFailed message (Some (- r)); ret (Some 0) }"

definition success :: "('a sys_scheme, int option) state" where
  "success = do { sendMsg CommandOkay ''success''; ret (Some 0) }"

text \<open>\<^verbatim>\<open>if (int ret = ...) return operationError(client, message, ret); ... return success(client);\<close>\<close>

definition answer :: "string \<Rightarrow> int \<Rightarrow> ('a sys_scheme, int option) state" where
  "answer message r = (if r \<noteq> 0 then operationError message r else success)"

definition network_route :: "env \<Rightarrow> string list \<Rightarrow> ('a nc_scheme, int option) state" where
  "network_route e argv =
     (let argc = length argv in
      if argc < 6 \<or> argc > 9 then syntaxError ''Incorrect number of arguments''
      else let legacy = (argv ! 2 = ''legacy'');
               uid = (if legacy then ucast (fst (strtoul (argv ! 3) 0)) else 0);
               nextArg = (if legacy then 4 else 2)
           in if argv ! nextArg \<noteq> ''add'' \<and> argv ! nextArg \<noteq> ''remove'' then syntaxError ''Unknown argument''
              else let add = (argv ! nextArg = ''add''); nextArg = nextArg + 1
                   in if argc < nextArg + 3 \<or> argc > nextArg + 4 then syntaxError ''Incorrect number of arguments''
                      else let netId = stringToNetId (argv ! nextArg);
                               iface = argv ! (nextArg + 1);
                               destination = argv ! (nextArg + 2);
                               nexthop = (if argc > nextArg + 3 then Some (argv ! (nextArg + 3)) else None)
                           in if add then do {
                                r \<leftarrow> addRoute e netId iface (Some destination) nexthop legacy uid;
                                answer ''addRoute() failed'' r }
                              else do {
                                r \<leftarrow> removeRoute e netId iface (Some destination) nexthop legacy uid;
                                answer ''removeRoute() failed'' r })"

definition network_interface :: "env \<Rightarrow> string list \<Rightarrow> ('a nc_scheme, int option) state" where
  "network_interface e argv =
     (if length argv \<noteq> 5 then syntaxError ''Missing argument''
      else let netId = stringToNetId (argv ! 3)
           in if argv ! 2 = ''add'' then do {
                r \<leftarrow> addInterfaceToNetwork e netId (argv ! 4);
                answer ''addInterfaceToNetwork() failed'' r }
              else if argv ! 2 = ''remove'' then do {
                r \<leftarrow> removeInterfaceFromNetwork e netId (argv ! 4);
                answer ''removeInterfaceFromNetwork() failed'' r }
              else syntaxError ''Unknown argument'')"

definition network_create :: "env \<Rightarrow> string list \<Rightarrow> ('a nc_scheme, int option) state" where
  "network_create e argv =
     (let argc = length argv in
      if argc < 3 then syntaxError ''Missing argument''
      else let netId = stringToNetId (argv ! 2)
           in if argc = 6 \<and> argv ! 3 = ''vpn'' then do {
                r \<leftarrow> createVirtualNetwork e netId (atoi (argv ! 4) \<noteq> 0) (atoi (argv ! 5) \<noteq> 0);
                answer ''createVirtualNetwork() failed'' r }
              else if argc > 4 then syntaxError ''Unknown trailing argument(s)''
              else let perm = (if argc = 4 then stringToPermission (argv ! 3) else PERMISSION_NONE)
                   in if argc = 4 \<and> perm = PERMISSION_NONE then syntaxError ''Unknown permission''
                      else do {
                        r \<leftarrow> createPhysicalNetwork e netId perm;
                        answer ''createPhysicalNetwork() failed'' r })"

definition network_destroy :: "env \<Rightarrow> string list \<Rightarrow> ('a nc_scheme, int option) state" where
  "network_destroy e argv =
     (if length argv \<noteq> 3 then syntaxError ''Incorrect number of arguments''
      else do {
        r \<leftarrow> destroyNetwork e (stringToNetId (argv ! 2));
        case r of None \<Rightarrow> ret None | Some r \<Rightarrow> answer ''destroyNetwork() failed'' r })"

definition network_default :: "env \<Rightarrow> string list \<Rightarrow> ('a nc_scheme, int option) state" where
  "network_default e argv =
     (let argc = length argv in
      if argc < 3 then syntaxError ''Missing argument''
      else if argv ! 2 = ''set'' \<and> argc < 4 then syntaxError ''Missing netId''
      else if argv ! 2 \<noteq> ''set'' \<and> argv ! 2 \<noteq> ''clear'' then syntaxError ''Unknown argument''
      else do {
        r \<leftarrow> setDefaultNetwork e (if argv ! 2 = ''set'' then stringToNetId (argv ! 3) else NETID_UNSET);
        answer ''setDefaultNetwork() failed'' r })"

text \<open>The loop over the ids: all of them, or \<^const>\<open>None\<close> when one is not a number.\<close>

fun parse_ids :: "string list \<Rightarrow> u32 list option" where
  "parse_ids [] = Some []"
| "parse_ids (arg # args) =
     (let (v, endPtr) = strtoul arg 0
      in if arg = [] \<or> endPtr \<noteq> [] then None
         else case parse_ids args of None \<Rightarrow> None | Some ids \<Rightarrow> Some (ucast v # ids))"

definition network_permission :: "env \<Rightarrow> string list \<Rightarrow> ('a nc_scheme, int option) state" where
  "network_permission e argv =
     (let argc = length argv in
      if argc < 5 then syntaxError ''Missing argument''
      else let perm = (if argv ! 3 = ''set'' then stringToPermission (argv ! 4) else PERMISSION_NONE);
               nextArg = (if argv ! 3 = ''set'' then 5 else 4)
           in if argv ! 3 = ''set'' \<and> perm = PERMISSION_NONE then syntaxError ''Unknown permission''
              else if argv ! 3 \<noteq> ''set'' \<and> argv ! 3 \<noteq> ''clear'' then syntaxError ''Unknown argument''
              else if nextArg = argc then syntaxError ''Missing id''
              else case parse_ids (drop nextArg argv) of
                None \<Rightarrow> syntaxError ''Invalid id''
              | Some ids \<Rightarrow>
                  if argv ! 2 = ''user'' then do { setPermissionForUsers perm ids; success }
                  else if argv ! 2 = ''network'' then do {
                    r \<leftarrow> setPermissionForNetworks e perm ids;
                    answer ''setPermissionForNetworks() failed'' r }
                  else syntaxError ''Unknown argument'')"

definition network_users :: "env \<Rightarrow> string list \<Rightarrow> ('a nc_scheme, int option) state" where
  "network_users e argv =
     (if length argv < 4 then syntaxError ''Missing argument''
      else let netId = stringToNetId (argv ! 3)
           in case parseFrom (drop 4 argv) of (ok, uidRanges) \<Rightarrow>
             if \<not> ok then syntaxError ''Invalid UIDs''
             else if argv ! 2 = ''add'' then do {
               r \<leftarrow> addUsersToNetwork e netId uidRanges;
               answer ''addUsersToNetwork() failed'' r }
             else if argv ! 2 = ''remove'' then do {
               r \<leftarrow> removeUsersFromNetwork e netId uidRanges;
               answer ''removeUsersFromNetwork() failed'' r }
             else syntaxError ''Unknown argument'')"

definition network_protect :: "string list \<Rightarrow> ('a nc_scheme, int option) state" where
  "network_protect argv =
     (if length argv < 4 then syntaxError ''Missing argument''
      else let uids = map (\<lambda>arg. ucast (fst (strtoul arg 0))) (drop 3 argv)
           in if argv ! 2 = ''allow'' then do { allowProtect uids; success }
              else if argv ! 2 = ''deny'' then do { denyProtect uids; success }
              else syntaxError ''Unknown argument'')"

definition NetworkCommand_runCommand :: "env \<Rightarrow> string list \<Rightarrow> ('a nc_scheme, int option) state" where
  "NetworkCommand_runCommand e argv =
     (if length argv < 2 then syntaxError ''Missing argument''
      else if argv ! 1 = ''route'' then network_route e argv
      else if argv ! 1 = ''interface'' then network_interface e argv
      else if argv ! 1 = ''create'' then network_create e argv
      else if argv ! 1 = ''destroy'' then network_destroy e argv
      else if argv ! 1 = ''default'' then network_default e argv
      else if argv ! 1 = ''permission'' then network_permission e argv
      else if argv ! 1 = ''users'' then network_users e argv
      else if argv ! 1 = ''protect'' then network_protect argv
      else syntaxError ''Unknown argument'')"

section \<open>Specification\<close>

text \<open>
  An answered command: the operation of the controller, and then the one message that reports its
  result.
\<close>

definition run_command :: "env \<Rightarrow> nc_command \<Rightarrow> string \<Rightarrow> ('a nc_scheme, int option) state" where
  "run_command e c message = do {
     r \<leftarrow> nc_exec e c;
     case r of None \<Rightarrow> ret None | Some r \<Rightarrow> answer message r }"

definition answered :: "env \<Rightarrow> ('a nc_scheme, int option) state \<Rightarrow> bool" where
  "answered e m \<longleftrightarrow> (\<exists>message. m = syntaxError message) \<or> (\<exists>c message. command_ok c \<and> m = run_command e c message)"

text \<open>How a client writes a command.\<close>

definition range_arg :: "range \<Rightarrow> string" where
  "range_arg r = fmt_u (unat (fst r)) @ ''-'' @ fmt_u (unat (snd r))"

definition id_arg :: "u32 \<Rightarrow> string" where
  "id_arg n = fmt_u (unat n)"

definition bool_arg :: "bool \<Rightarrow> string" where
  "bool_arg b = (if b then ''1'' else ''0'')"

definition perm_arg :: "permission \<Rightarrow> string" where
  "perm_arg p = (if p = PERMISSION_NETWORK then ''NETWORK'' else ''SYSTEM'')"

definition route_args :: "string \<Rightarrow> u32 \<Rightarrow> string \<Rightarrow> cstr \<Rightarrow> cstr \<Rightarrow> bool \<Rightarrow> uid \<Rightarrow> string list" where
  "route_args op k i d nh legacy uid =
     [''network'', ''route''] @ (if legacy then [''legacy'', id_arg uid] else []) @ [op, id_arg k, i] @
     (case d of None \<Rightarrow> [] | Some d \<Rightarrow> [d]) @ (case nh of None \<Rightarrow> [] | Some nh \<Rightarrow> [nh])"

definition permission_args :: "string \<Rightarrow> permission \<Rightarrow> u32 list \<Rightarrow> string list" where
  "permission_args who p ids =
     [''network'', ''permission'', who] @ (if p = PERMISSION_NONE then [''clear''] else [''set'', perm_arg p]) @ map id_arg ids"

fun command_args :: "nc_command \<Rightarrow> string list" where
  "command_args (SetDefault k) = (if k = NETID_UNSET then [''network'', ''default'', ''clear'']
     else [''network'', ''default'', ''set'', id_arg k])"
| "command_args (CreatePhysical k p) =
     [''network'', ''create'', id_arg k] @ (if p = PERMISSION_NONE then [] else [perm_arg p])"
| "command_args (CreateVirtual k dns secure) = [''network'', ''create'', id_arg k, ''vpn'', bool_arg dns, bool_arg secure]"
| "command_args (Destroy k) = [''network'', ''destroy'', id_arg k]"
| "command_args (AddInterface k i) = [''network'', ''interface'', ''add'', id_arg k, i]"
| "command_args (RemoveInterface k i) = [''network'', ''interface'', ''remove'', id_arg k, i]"
| "command_args (SetUserPermission p uids) = permission_args ''user'' p uids"
| "command_args (SetNetworkPermission p ks) = permission_args ''network'' p ks"
| "command_args (AddUsers k rs) = [''network'', ''users'', ''add'', id_arg k] @ map range_arg rs"
| "command_args (RemoveUsers k rs) = [''network'', ''users'', ''remove'', id_arg k] @ map range_arg rs"
| "command_args (AddRoute k i d nh legacy uid) = route_args ''add'' k i d nh legacy uid"
| "command_args (RemoveRoute k i d nh legacy uid) = route_args ''remove'' k i d nh legacy uid"
| "command_args (AllowProtect uids) = [''network'', ''protect'', ''allow''] @ map id_arg uids"
| "command_args (DenyProtect uids) = [''network'', ''protect'', ''deny''] @ map id_arg uids"

text \<open>
  The commands that can be written: a route has a destination, and no user is given when it is not a
  legacy one; permissions are those that have a name; lists of ids have an element, except that of the
  ranges; ranges are well formed.
\<close>

definition route_ok :: "cstr \<Rightarrow> bool \<Rightarrow> uid \<Rightarrow> bool" where
  "route_ok d legacy uid \<longleftrightarrow> d \<noteq> None \<and> (legacy \<or> uid = 0)"

definition perm_ok :: "permission \<Rightarrow> bool" where
  "perm_ok p \<longleftrightarrow> p \<in> {PERMISSION_NONE, PERMISSION_NETWORK, PERMISSION_SYSTEM}"

fun writable :: "nc_command \<Rightarrow> bool" where
  "writable (CreatePhysical k p) = perm_ok p"
| "writable (SetUserPermission p uids) = (perm_ok p \<and> uids \<noteq> [])"
| "writable (SetNetworkPermission p ks) = (perm_ok p \<and> ks \<noteq> [])"
| "writable (AddUsers k rs) = wf_ranges rs"
| "writable (RemoveUsers k rs) = wf_ranges rs"
| "writable (AddRoute k i d nh legacy uid) = route_ok d legacy uid"
| "writable (RemoveRoute k i d nh legacy uid) = route_ok d legacy uid"
| "writable (AllowProtect uids) = (uids \<noteq> [])"
| "writable (DenyProtect uids) = (uids \<noteq> [])"
| "writable _ = True"

section \<open>Lemmas\<close>

text \<open>Each way in which a handler ends is an answered command.\<close>

lemma answered_syntaxError: "answered e (syntaxError message)"
  by (auto simp: answered_def)

lemma bind_some_result: "State_Monad.bind (some_result m) f = State_Monad.bind m (\<lambda>r. f (Some r))"
  by (simp add: some_result_def)

lemma bind_no_result: "State_Monad.bind (no_result m) f = State_Monad.bind m (\<lambda>_. f (Some 0))"
  by (simp add: no_result_def)

lemma answer_0: "answer message 0 = success"
  by (simp add: answer_def)

lemmas run_command_simps = run_command_def bind_some_result bind_no_result answer_0

lemma answered_run_command: "command_ok c \<Longrightarrow> m = run_command e c message \<Longrightarrow> answered e m"
  by (auto simp: answered_def)

lemma answered_if: "(b \<Longrightarrow> answered e m) \<Longrightarrow> (\<not> b \<Longrightarrow> answered e k) \<Longrightarrow> answered e (if b then m else k)"
  by simp

lemma answered_calls:
  "answered e (do { r \<leftarrow> addRoute e k i d nh legacy uid; answer message r })"
  "answered e (do { r \<leftarrow> removeRoute e k i d nh legacy uid; answer message r })"
  "answered e (do { r \<leftarrow> addInterfaceToNetwork e k i; answer message r })"
  "answered e (do { r \<leftarrow> removeInterfaceFromNetwork e k i; answer message r })"
  "answered e (do { r \<leftarrow> createVirtualNetwork e k dns secure; answer message r })"
  "answered e (do { r \<leftarrow> createPhysicalNetwork e k p; answer message r })"
  "answered e (do { r \<leftarrow> destroyNetwork e k; case r of None \<Rightarrow> ret None | Some r \<Rightarrow> answer message r })"
  "answered e (do { r \<leftarrow> setDefaultNetwork e k; answer message r })"
  "answered e (do { setPermissionForUsers p ids; success })"
  "answered e (do { r \<leftarrow> setPermissionForNetworks e p ids; answer message r })"
  "wf_ranges rs \<Longrightarrow> answered e (do { r \<leftarrow> addUsersToNetwork e k rs; answer message r })"
  "wf_ranges rs \<Longrightarrow> answered e (do { r \<leftarrow> removeUsersFromNetwork e k rs; answer message r })"
  "answered e (do { allowProtect ids; success })"
  "answered e (do { denyProtect ids; success })"
proof -
  note c = answered_run_command
  show "answered e (do { r \<leftarrow> addRoute e k i d nh legacy uid; answer message r })"
    by (rule c [of "AddRoute k i d nh legacy uid"]) (simp_all add: run_command_simps)
  show "answered e (do { r \<leftarrow> removeRoute e k i d nh legacy uid; answer message r })"
    by (rule c [of "RemoveRoute k i d nh legacy uid"]) (simp_all add: run_command_simps)
  show "answered e (do { r \<leftarrow> addInterfaceToNetwork e k i; answer message r })"
    by (rule c [of "AddInterface k i"]) (simp_all add: run_command_simps)
  show "answered e (do { r \<leftarrow> removeInterfaceFromNetwork e k i; answer message r })"
    by (rule c [of "RemoveInterface k i"]) (simp_all add: run_command_simps)
  show "answered e (do { r \<leftarrow> createVirtualNetwork e k dns secure; answer message r })"
    by (rule c [of "CreateVirtual k dns secure"]) (simp_all add: run_command_simps)
  show "answered e (do { r \<leftarrow> createPhysicalNetwork e k p; answer message r })"
    by (rule c [of "CreatePhysical k p"]) (simp_all add: run_command_simps)
  show "answered e (do { r \<leftarrow> destroyNetwork e k; case r of None \<Rightarrow> ret None | Some r \<Rightarrow> answer message r })"
    by (rule c [of "Destroy k"]) (simp_all add: run_command_simps)
  show "answered e (do { r \<leftarrow> setDefaultNetwork e k; answer message r })"
    by (rule c [of "SetDefault k"]) (simp_all add: run_command_simps)
  show "answered e (do { setPermissionForUsers p ids; success })"
    by (rule c [of "SetUserPermission p ids"]) (simp_all add: run_command_simps)
  show "answered e (do { r \<leftarrow> setPermissionForNetworks e p ids; answer message r })"
    by (rule c [of "SetNetworkPermission p ids"]) (simp_all add: run_command_simps)
  show "wf_ranges rs \<Longrightarrow> answered e (do { r \<leftarrow> addUsersToNetwork e k rs; answer message r })"
    by (rule c [of "AddUsers k rs"]) (simp_all add: run_command_simps)
  show "wf_ranges rs \<Longrightarrow> answered e (do { r \<leftarrow> removeUsersFromNetwork e k rs; answer message r })"
    by (rule c [of "RemoveUsers k rs"]) (simp_all add: run_command_simps)
  show "answered e (do { allowProtect ids; success })"
    by (rule c [of "AllowProtect ids"]) (simp_all add: run_command_simps)
  show "answered e (do { denyProtect ids; success })"
    by (rule c [of "DenyProtect ids"]) (simp_all add: run_command_simps)
qed

lemmas answered_rules = answered_syntaxError answered_if answered_calls

lemma parseFrom_wf: "parseFrom args = (True, rs) \<Longrightarrow> wf_ranges rs"
  by (simp add: parseFrom_def parse_ranges_wf)

lemma answered_users: "answered e (network_users e argv)"
  unfolding network_users_def Let_def
  by (auto intro!: answered_rules dest: parseFrom_wf split: prod.split)

lemma answered_permission: "answered e (network_permission e argv)"
  unfolding network_permission_def Let_def
  by (auto intro!: answered_rules split: option.split)

lemma answered_handlers:
  "answered e (network_route e argv)" "answered e (network_interface e argv)" "answered e (network_create e argv)"
  "answered e (network_destroy e argv)" "answered e (network_default e argv)" "answered e (network_protect argv)"
  unfolding network_route_def network_interface_def network_create_def network_destroy_def network_default_def
    network_protect_def Let_def
  by (auto intro!: answered_rules)

subsection \<open>Reading back what a client writes\<close>

lemma unat_ULONG_MAX: "unat (n :: u32) \<le> ULONG_MAX"
  using unsigned_less [of n, where ?'a = nat] by (simp add: ULONG_MAX_def)

lemma ucast_ucast_u32 [simp]: "ucast (ucast (n :: u32) :: u64) = n"
  by (rule bit_word_eqI) (simp add: bit_simps)

lemma strtoul_id_arg: "strtoul (id_arg n) 0 = (ucast n, [])"
  by (simp add: id_arg_def strtoul_fmt_u_0 unat_ULONG_MAX)

lemma id_arg_digit:
  obtains c cs where "id_arg n = c # cs" and "isdigit c"
proof -
  obtain c cs where "id_arg n = c # cs" by (cases "id_arg n") (auto simp: id_arg_def)
  moreover from this have "isdigit c" using fmt_u_digits [of c "unat n"] by (simp add: id_arg_def)
  ultimately show ?thesis using that by blast
qed

lemma id_arg_word:
  assumes "\<not> isdigit a"
  shows "id_arg n \<noteq> a # w" and "take 3 (id_arg n) \<noteq> a # w" and "id_arg n \<noteq> []"
  using assms by (rule_tac id_arg_digit [of n]; auto)+

lemma not_digits: "\<not> isdigit CHR ''l''" "\<not> isdigit CHR ''o''" "\<not> isdigit CHR ''v''"
  by (simp_all add: isdigit_def less_eq_char_def)

lemma stringToNetId_id_arg [simp]: "stringToNetId (id_arg n) = n"
  by (simp add: stringToNetId_def strtoul_id_arg id_arg_word not_digits)

lemma parse_ids_id_args [simp]: "parse_ids (map id_arg ids) = Some ids"
  by (induction ids) (simp_all add: strtoul_id_arg id_arg_word [OF not_digits(1)])

lemma uids_id_args [simp]: "map ((\<lambda>arg. ucast (fst (strtoul arg 0))) \<circ> id_arg) uids = (uids :: u32 list)"
  by (induction uids) (simp_all add: strtoul_id_arg)

lemma strtoul_range_start: "strtoul (id_arg n @ CHR ''-'' # w) 0 = (ucast n, CHR ''-'' # w)"
proof (cases "n = 0")
  case True
  have "fmt_u 0 = ''0''" by (subst fmt_u.simps) (simp add: digit_char_def char_of_def bit_0)
  then show ?thesis
    using True by (simp add: id_arg_def strtoul_def split_sign_def split_base_def is_base_digit_def digit_val_def isdigit_def
        isspace_def less_eq_char_def ULONG_MAX_def)
next
  case False
  then have "0 < unat n" by (simp add: unat_gt_0)
  moreover have "\<not> is_base_digit 10 CHR ''-''" by (simp add: is_base_digit_def digit_val_def isdigit_def less_eq_char_def)
  ultimately show ?thesis
    using strtoul_fmt_u [of "unat n" 0 "CHR ''-'' # w"] unat_ULONG_MAX by (simp add: id_arg_def)
qed

lemma parse_range_arg:
  assumes "wf_range r"
  shows "parse_range (range_arg r) = Some r"
proof -
  obtain a b where r: "r = (a, b)" by fastforce
  have arg: "range_arg (a, b) = id_arg a @ CHR ''-'' # id_arg b" by (simp add: range_arg_def id_arg_def)
  show ?thesis
    using assms unfolding r by (simp add: arg parse_range_def strtoul_range_start strtoul_id_arg
        id_arg_word [OF not_digits(1)] wf_range_def not_less)
qed

lemma parse_range_args: "list_all wf_range rs \<Longrightarrow> parse_ranges acc (map range_arg rs) = (True, sort (acc @ rs))"
  by (induction rs arbitrary: acc) (simp_all add: parse_range_arg)

lemma parseFrom_range_args [simp]: "wf_ranges rs \<Longrightarrow> parseFrom (map range_arg rs) = (True, rs)"
  by (simp add: parseFrom_def parse_range_args wf_ranges_def sorted_sort_id)

lemma atoi_bool_arg [simp]: "atoi (bool_arg b) \<noteq> 0 \<longleftrightarrow> b"
  by (simp add: atoi_def bool_arg_def strtol_def split_sign_def split_base_def is_base_digit_def digit_val_def isdigit_def
      isspace_def less_eq_char_def)

lemma stringToPermission_perm_arg [simp]:
  "perm_ok p \<Longrightarrow> p \<noteq> PERMISSION_NONE \<Longrightarrow> stringToPermission (perm_arg p) = p"
  by (auto simp: perm_ok_def perm_arg_def stringToPermission_def)

text \<open>The message for the failure of each command.\<close>

fun failure_message :: "nc_command \<Rightarrow> string" where
  "failure_message (SetDefault k) = ''setDefaultNetwork() failed''"
| "failure_message (CreatePhysical k p) = ''createPhysicalNetwork() failed''"
| "failure_message (CreateVirtual k dns secure) = ''createVirtualNetwork() failed''"
| "failure_message (Destroy k) = ''destroyNetwork() failed''"
| "failure_message (AddInterface k i) = ''addInterfaceToNetwork() failed''"
| "failure_message (RemoveInterface k i) = ''removeInterfaceFromNetwork() failed''"
| "failure_message (SetNetworkPermission p ks) = ''setPermissionForNetworks() failed''"
| "failure_message (AddUsers k rs) = ''addUsersToNetwork() failed''"
| "failure_message (RemoveUsers k rs) = ''removeUsersFromNetwork() failed''"
| "failure_message (AddRoute k i d nh legacy uid) = ''addRoute() failed''"
| "failure_message (RemoveRoute k i d nh legacy uid) = ''removeRoute() failed''"
| "failure_message _ = []"

lemma route_args_run:
  assumes "route_ok d legacy uid"
  shows "network_route e (route_args ''add'' k i d nh legacy uid) =
      (do { r \<leftarrow> addRoute e k i d nh legacy uid; answer ''addRoute() failed'' r })"
    and "network_route e (route_args ''remove'' k i d nh legacy uid) =
      (do { r \<leftarrow> removeRoute e k i d nh legacy uid; answer ''removeRoute() failed'' r })"
  using assms
  by (cases legacy; cases d; cases nh; simp add: network_route_def route_args_def route_ok_def strtoul_id_arg)+

lemma permission_args_run:
  assumes "perm_ok p" and "ids \<noteq> []"
  shows "network_permission e (permission_args ''user'' p ids) = (do { setPermissionForUsers p ids; success })"
    and "network_permission e (permission_args ''network'' p ids) =
      (do { r \<leftarrow> setPermissionForNetworks e p ids; answer ''setPermissionForNetworks() failed'' r })"
proof -
  have len: "0 < length ids" using assms(2) by simp
  show "network_permission e (permission_args ''user'' p ids) = (do { setPermissionForUsers p ids; success })"
    "network_permission e (permission_args ''network'' p ids) =
      (do { r \<leftarrow> setPermissionForNetworks e p ids; answer ''setPermissionForNetworks() failed'' r })"
    using assms len by (simp_all add: network_permission_def permission_args_def Let_def)
qed

lemma args_dispatch:
  "NetworkCommand_runCommand e (route_args op k i d nh legacy uid) = network_route e (route_args op k i d nh legacy uid)"
  "NetworkCommand_runCommand e (permission_args who p ids) = network_permission e (permission_args who p ids)"
proof -
  obtain w where "route_args op k i d nh legacy uid = ''network'' # ''route'' # w" by (simp add: route_args_def)
  then show "NetworkCommand_runCommand e (route_args op k i d nh legacy uid) = network_route e (route_args op k i d nh legacy uid)"
    by (simp add: NetworkCommand_runCommand_def)
  obtain w where "permission_args who p ids = ''network'' # ''permission'' # w" by (simp add: permission_args_def)
  then show "NetworkCommand_runCommand e (permission_args who p ids) = network_permission e (permission_args who p ids)"
    by (simp add: NetworkCommand_runCommand_def)
qed

lemma users_args_run:
  assumes "wf_ranges rs"
  shows "NetworkCommand_runCommand e ([''network'', ''users'', ''add'', id_arg k] @ map range_arg rs) =
      run_command e (AddUsers k rs) ''addUsersToNetwork() failed''"
    and "NetworkCommand_runCommand e ([''network'', ''users'', ''remove'', id_arg k] @ map range_arg rs) =
      run_command e (RemoveUsers k rs) ''removeUsersFromNetwork() failed''"
  using assms by (simp_all add: NetworkCommand_runCommand_def network_users_def run_command_simps)

lemma protect_args_run:
  assumes "uids \<noteq> []"
  shows "NetworkCommand_runCommand e ([''network'', ''protect'', ''allow''] @ map id_arg uids) = run_command e (AllowProtect uids) m"
    and "NetworkCommand_runCommand e ([''network'', ''protect'', ''deny''] @ map id_arg uids) = run_command e (DenyProtect uids) m"
proof -
  have len: "0 < length uids" using assms by simp
  show "NetworkCommand_runCommand e ([''network'', ''protect'', ''allow''] @ map id_arg uids) = run_command e (AllowProtect uids) m"
    "NetworkCommand_runCommand e ([''network'', ''protect'', ''deny''] @ map id_arg uids) = run_command e (DenyProtect uids) m"
    using len by (simp_all add: NetworkCommand_runCommand_def network_protect_def run_command_simps)
qed

lemma create_args_run:
  assumes "perm_ok p"
  shows "NetworkCommand_runCommand e (command_args (CreatePhysical k p)) =
    run_command e (CreatePhysical k p) ''createPhysicalNetwork() failed''"
  using assms by (simp add: NetworkCommand_runCommand_def network_create_def run_command_simps Let_def)

lemma answered_network: "answered e (NetworkCommand_runCommand e argv)"
  unfolding NetworkCommand_runCommand_def
  by (intro answered_if answered_syntaxError answered_handlers answered_users answered_permission)

section \<open>Properties\<close>


text \<open>
  C24: Every operation of the network controller can be issued as a command line: the line that a client writes for
  it runs just that operation, with the same NetIds, users, ranges, permissions and addresses, and reports its result.
\<close>

theorem network_command_roundtrip:
  assumes "writable c"
  shows "NetworkCommand_runCommand e (command_args c) = run_command e c (failure_message c)"
proof (cases c)
  case (AddRoute k i d nh legacy uid)
  then show ?thesis
    using assms by (simp add: run_command_simps args_dispatch route_args_run)
next
  case (RemoveRoute k i d nh legacy uid)
  then show ?thesis
    using assms by (simp add: run_command_simps args_dispatch route_args_run)
next
  case (SetUserPermission p ids)
  then show ?thesis
    using assms by (simp add: run_command_simps args_dispatch permission_args_run)
next
  case (SetNetworkPermission p ids)
  then show ?thesis
    using assms by (simp add: run_command_simps args_dispatch permission_args_run)
next
  case (CreatePhysical k p)
  then show ?thesis using create_args_run [of p] assms by (simp del: command_args.simps)
next
  case (AddUsers k rs)
  then show ?thesis using assms users_args_run(1) by simp
next
  case (RemoveUsers k rs)
  then show ?thesis using assms users_args_run(2) by simp
next
  case (AllowProtect uids)
  then show ?thesis using assms protect_args_run(1) by simp
next
  case (DenyProtect uids)
  then show ?thesis using assms protect_args_run(2) by simp
qed (simp_all add: NetworkCommand_runCommand_def network_default_def network_create_def network_destroy_def
  network_interface_def run_command_simps)

theorem network_command_roundtrip_witness:
  "(NetworkCommand_runCommand sample_env [''network'', ''users'', ''add'', id_arg 100, range_arg (10, 20)] :: (nc, int option) state) =
     run_command sample_env (AddUsers 100 [(10, 20)]) ''addUsersToNetwork() failed''"
  using network_command_roundtrip [of "AddUsers 100 [(10, 20)]" sample_env]
  by (simp add: wf_ranges_def wf_range_def INVALID_UID_def)

text \<open>
  The names \<^verbatim>\<open>oem1\<close> to \<^verbatim>\<open>oem50\<close>, which the source documents for the NetIds 1 to 50 of the manufacturer, stand
  for 2 to 51: 1 has no such name, and the network of \<^verbatim>\<open>oem50\<close> cannot be created.
\<close>

theorem oem_names_off_by_one:
  assumes "1 \<le> n" and "n \<le> 50"
  shows "stringToNetId (''oem'' @ fmt_u n) = word_of_nat (n + 1) \<and>
         (n = 50 \<longrightarrow> createPhysicalNetwork e (stringToNetId (''oem'' @ fmt_u n)) p = (ret (- EINVAL) :: ('a nc_scheme, int) state))"
proof -
  have "strtoul (fmt_u n) 0 = (word_of_nat n, [])"
    using assms by (intro strtoul_fmt_u_0) (simp add: ULONG_MAX_def)
  moreover have "ucast (word_of_nat n :: u64) = (word_of_nat n :: u32)"
    using assms by (simp add: word_eq_iff_unsigned unsigned_ucast_eq unsigned_of_nat take_bit_nat_eq_self)
  moreover have "1 \<le> (word_of_nat n :: u32)" "(word_of_nat n :: u32) \<le> 50"
    using assms by (simp_all add: word_le_nat_alt unsigned_of_nat take_bit_nat_eq_self)
  ultimately have "stringToNetId (''oem'' @ fmt_u n) = word_of_nat (n + 1)"
    by (simp add: stringToNetId_def NUM_OEM_IDS_def net_id_defs)
  moreover have "n = 50 \<Longrightarrow> createPhysicalNetwork e (word_of_nat (n + 1)) p = (ret (- EINVAL) :: ('a nc_scheme, int) state)"
    by (simp add: createPhysicalNetwork_def net_id_defs)
  ultimately show ?thesis by metis
qed

theorem oem_names_off_by_one_witness: "stringToNetId (''oem'' @ fmt_u 1) = 2"
  using oem_names_off_by_one [of 1] by simp

end
