(* ===== verification/ControllerCommands.thy ===== *)
theory ControllerCommands
  imports FirewallController IdletimerController BandwidthController InterfaceController ClatdController SoftapController
    QcRouteController NetworkCommand
begin

text \<open>
  The commands of \<^verbatim>\<open>server/CommandListener.cpp\<close> other than \<^verbatim>\<open>network\<close>, each over the state of the controllers it calls. The
  result is that of \<^verbatim>\<open>runCommand\<close>; where a command may read an argument that is not there, which for the argument after
  the last one is a NULL pointer handed to a function that does not expect it, the result is \<^const>\<open>None\<close>. The functions of the
  system's network library that return more than an error are the parameter \<open>netutils\<close>.
\<close>

record netutils =
  ifc_get_info :: "event list \<Rightarrow> string \<Rightarrow> int \<times> bytes \<times> int \<times> u32"
  ifc_get_hwaddr :: "event list \<Rightarrow> string \<Rightarrow> bytes"
  prefixLengthToIpv4Netmask :: "int \<Rightarrow> bytes"

text \<open>A message, and \<^verbatim>\<open>return 0\<close>.\<close>

definition reply :: "int \<Rightarrow> string \<Rightarrow> ('a sys_scheme, int option) state" where
  "reply code msg = do { sendMsg code msg; ret (Some 0) }"

definition reply_errno :: "int \<Rightarrow> string \<Rightarrow> ('a sys_scheme, int option) state" where
  "reply_errno code msg = do { sendMsgErrno code msg None; ret (Some 0) }"

text \<open>\<^verbatim>\<open>if (!rc) sendMsg(CommandOkay, ...) else sendMsg(OperationFailed, ...)\<close>\<close>

definition ok_or_failed :: "string \<Rightarrow> string \<Rightarrow> int \<Rightarrow> ('a sys_scheme, int option) state" where
  "ok_or_failed okay failed rc = (if rc = 0 then reply CommandOkay okay else reply OperationFailed failed)"

definition ok_or_errno :: "string \<Rightarrow> string \<Rightarrow> int \<Rightarrow> ('a sys_scheme, int option) state" where
  "ok_or_errno okay failed rc = (if rc = 0 then reply CommandOkay okay else reply_errno OperationFailed failed)"

section \<open>interface\<close>

definition flag_word :: "u32 \<Rightarrow> u32 \<Rightarrow> string \<Rightarrow> string \<Rightarrow> string" where
  "flag_word flags f yes no = (if flags AND f \<noteq> 0 then yes else no)"

definition IFF_UP :: u32 where "IFF_UP = 0x1"
definition IFF_BROADCAST :: u32 where "IFF_BROADCAST = 0x2"
definition IFF_LOOPBACK :: u32 where "IFF_LOOPBACK = 0x8"
definition IFF_POINTOPOINT :: u32 where "IFF_POINTOPOINT = 0x10"
definition IFF_RUNNING :: u32 where "IFF_RUNNING = 0x40"
definition IFF_MULTICAST :: u32 where "IFF_MULTICAST = 0x1000"

definition cfg_flags :: "u32 \<Rightarrow> string" where
  "cfg_flags flags = flag_word flags IFF_UP ''up'' ''down'' @ flag_word flags IFF_BROADCAST '' broadcast'' [] @
     flag_word flags IFF_LOOPBACK '' loopback'' [] @ flag_word flags IFF_POINTOPOINT '' point-to-point'' [] @
     flag_word flags IFF_RUNNING '' running'' [] @ flag_word flags IFF_MULTICAST '' multicast'' []"

fun colon_hex :: "bytes \<Rightarrow> string" where
  "colon_hex [] = []"
| "colon_hex [b] = fmt_02x b"
| "colon_hex (b # bs) = fmt_02x b @ '':'' @ colon_hex bs"

definition interface_list :: "env \<Rightarrow> ('a sys_scheme, int option) state" where
  "interface_list e = do {
     d \<leftarrow> read_dir e ''/sys/class/net'';
     case d of
       None \<Rightarrow> reply_errno OperationFailed ''Failed to open sysfs dir''
     | Some ds \<Rightarrow> do {
         send_each InterfaceListResult (filter (\<lambda>n. take 1 n \<noteq> ''.'') (map fst ds));
         reply CommandOkay ''Interface list completed'' } }"

definition interface_getcfg :: "netutils \<Rightarrow> string list \<Rightarrow> ('a sys_scheme, int option) state" where
  "interface_getcfg net argv = do {
     h \<leftarrow> gets hist;
     case ifc_get_info net h (argv ! 2) of (err, addr, prefixLength, flags) \<Rightarrow>
       if err \<noteq> 0 then reply_errno OperationFailed ''Interface not found''
       else reply InterfaceGetCfgResult
         (colon_hex (ifc_get_hwaddr net h (argv ! 2)) @ '' '' @ inet_ntoa addr @ '' '' @ fmt_d prefixLength @ '' '' @ cfg_flags flags) }"

text \<open>
  The loop over the flags, and the answer after it. The calls of \<^verbatim>\<open>ifc_init\<close> and \<^verbatim>\<open>ifc_close\<close>, which open and close a socket
  of the library and whose results are not looked at, are left out.
\<close>

fun cfg_apply :: "env \<Rightarrow> string \<Rightarrow> string list \<Rightarrow> ('a sys_scheme, int option) state" where
  "cfg_apply e iface [] = reply CommandOkay ''Interface configuration set''"
| "cfg_apply e iface (flag # flags) =
     (if flag = ''up'' then do {
        r \<leftarrow> call_sys e (SysLib ''ifc_up'' [iface]);
        if r \<noteq> 0 then reply_errno OperationFailed ''Failed to up interface'' else cfg_apply e iface flags }
      else if flag = ''down'' then do {
        r \<leftarrow> call_sys e (SysLib ''ifc_down'' [iface]);
        if r \<noteq> 0 then reply_errno OperationFailed ''Failed to down interface'' else cfg_apply e iface flags }
      else if flag \<in> {''broadcast'', ''multicast'', ''running'', ''loopback'', ''point-to-point''} then cfg_apply e iface flags
      else reply CommandParameterError ''Flag unsupported'')"

definition interface_setcfg :: "env \<Rightarrow> string list \<Rightarrow> ('a sys_scheme, int option) state" where
  "interface_setcfg e argv =
     (if length argv < 4 then reply CommandSyntaxError ''Missing argument''
      else case env_inet_aton e (argv ! 3) of
        None \<Rightarrow> cfg_apply e (argv ! 2) (drop 3 argv)
      | Some addr \<Rightarrow> do {
          r \<leftarrow> call_sys e (SysLib ''ifc_set_addr'' [argv ! 2, inet_ntoa addr]);
          if r \<noteq> 0 then reply_errno OperationFailed ''Failed to set address''
          else if list_all (\<lambda>b. b = 0) addr then cfg_apply e (argv ! 2) (drop 5 argv)
          else if length argv = 4 then ret None
          else do {
            r \<leftarrow> call_sys e (SysLib ''ifc_set_prefixLength'' [argv ! 2, fmt_d (atoi (argv ! 4))]);
            if r \<noteq> 0 then reply_errno OperationFailed ''Failed to set prefixLength''
            else cfg_apply e (argv ! 2) (drop 5 argv) } })"

definition interface_toggle ::
  "string \<Rightarrow> (string \<Rightarrow> bool \<Rightarrow> ('a sys_scheme, int) state) \<Rightarrow> string \<Rightarrow> string \<Rightarrow> string list \<Rightarrow> ('a sys_scheme, int option) state" where
  "interface_toggle usage op okay failed argv =
     (if length argv \<noteq> 4 then reply CommandSyntaxError usage
      else do {
        rc \<leftarrow> op (argv ! 2) (argv ! 3 = ''enable'');
        ok_or_errno okay failed rc })"

definition interface_setmtu :: "env \<Rightarrow> string list \<Rightarrow> ('a sys_scheme, int option) state" where
  "interface_setmtu e argv =
     (if length argv \<noteq> 4 then reply CommandSyntaxError ''Usage: interface setmtu <interface> <val>''
      else do {
        rc \<leftarrow> setMtu e (argv ! 2) (argv ! 3);
        ok_or_errno ''MTU changed'' ''Failed to get MTU'' rc })"

definition InterfaceCmd_runCommand :: "env \<Rightarrow> netutils \<Rightarrow> string list \<Rightarrow> ('a sys_scheme, int option) state" where
  "InterfaceCmd_runCommand e net argv =
     (if length argv < 2 then reply CommandSyntaxError ''Missing argument''
      else if argv ! 1 = ''list'' then interface_list e
      else if length argv < 3 then reply CommandSyntaxError ''Missing argument''
      else if argv ! 1 = ''getcfg'' then interface_getcfg net argv
      else if argv ! 1 = ''setcfg'' then interface_setcfg e argv
      else if argv ! 1 = ''clearaddrs'' then do {
        _ \<leftarrow> call_sys e (SysLib ''ifc_clear_addresses'' [argv ! 2]);
        reply CommandOkay ''Interface IP addresses cleared'' }
      else if argv ! 1 = ''ipv6privacyextensions'' then
        interface_toggle ''Usage: interface ipv6privacyextensions <interface> <enable|disable>'' (setIPv6PrivacyExtensions e)
          ''IPv6 privacy extensions changed'' ''Failed to set ipv6 privacy extensions'' argv
      else if argv ! 1 = ''ipv6'' then
        interface_toggle ''Usage: interface ipv6 <interface> <enable|disable>'' (setEnableIPv6 e)
          ''IPv6 state changed'' ''Failed to change IPv6 state'' argv
      else if argv ! 1 = ''ipv6ndoffload'' then
        interface_toggle ''Usage: interface ipv6ndoffload <interface> <enable|disable>'' (setIPv6NdOffload e)
          ''IPv6 ND offload changed'' ''Failed to change IPv6 ND offload state'' argv
      else if argv ! 1 = ''setmtu'' then interface_setmtu e argv
      else reply CommandSyntaxError ''Unknown interface cmd'')"

section \<open>list\_ttys and pppd\<close>

definition ListTtysCmd_runCommand :: "env \<Rightarrow> ('a ppp_scheme, int option) state" where
  "ListTtysCmd_runCommand e = do {
     tlist \<leftarrow> getTtyList e;
     send_each TtyListResult tlist;
     reply CommandOkay ''Ttys listed.'' }"

definition PppdCmd_runCommand :: "env \<Rightarrow> string list \<Rightarrow> ('a ppp_scheme, int option) state" where
  "PppdCmd_runCommand e argv =
     (let argc = length argv in
      if argc < 3 then reply CommandSyntaxError ''Missing argument''
      else if argv ! 1 = ''attach'' then
        if argc < 4 then ret None
        else case env_inet_aton e (argv ! 3) of
          None \<Rightarrow> reply CommandParameterError ''Invalid local address''
        | Some l \<Rightarrow>
        if argc < 5 then ret None
        else case env_inet_aton e (argv ! 4) of
          None \<Rightarrow> reply CommandParameterError ''Invalid remote address''
        | Some r \<Rightarrow>
        if argc < 6 then ret None
        else case env_inet_aton e (argv ! 5) of
          None \<Rightarrow> reply CommandParameterError ''Invalid dns1 address''
        | Some dns1 \<Rightarrow>
        if argc < 7 then ret None
        else case env_inet_aton e (argv ! 6) of
          None \<Rightarrow> reply CommandParameterError ''Invalid dns2 address''
        | Some dns2 \<Rightarrow> do {
            rc \<leftarrow> attachPppd e (argv ! 2) l r dns1 dns2;
            ok_or_errno ''Pppd operation succeeded'' ''Pppd operation failed'' rc }
      else if argv ! 1 = ''detach'' then do {
        rc \<leftarrow> detachPppd e (argv ! 2);
        ok_or_errno ''Pppd operation succeeded'' ''Pppd operation failed'' rc }
      else reply CommandSyntaxError ''Unknown pppd cmd'')"

section \<open>tether and v6rtradv\<close>

text \<open>The addresses of \<^verbatim>\<open>tether start\<close>.\<close>

fun aton_all :: "env \<Rightarrow> string list \<Rightarrow> bytes list option" where
  "aton_all e [] = Some []"
| "aton_all e (a # as) =
     (case env_inet_aton e a of None \<Rightarrow> None
      | Some addr \<Rightarrow> (case aton_all e as of None \<Rightarrow> None | Some addrs \<Rightarrow> Some (addr # addrs)))"

definition tether_done :: "int \<Rightarrow> ('a sys_scheme, int option) state" where
  "tether_done rc = ok_or_errno ''Tether operation succeeded'' ''Tether operation failed'' rc"

definition tether_three :: "string list \<Rightarrow> ('a tether_scheme, int option) state" where
  "tether_three argv = do {
     (if argv ! 1 = ''interface'' \<and> argv ! 2 = ''list'' then do {
        ilist \<leftarrow> gets tc_mInterfaces;
        send_each TetherInterfaceListResult ilist }
      else if argv ! 1 = ''dns'' \<and> argv ! 2 = ''list'' then do {
        n \<leftarrow> gets getDnsNetId;
        sendMsg TetherDnsFwdNetIdResult (fmt_u (unat n));
        dlist \<leftarrow> gets mDnsForwarders;
        send_each TetherDnsFwdTgtListResult (map inet_ntoa dlist) }
      else ret ());
     tether_done 0 }"

definition tether_four :: "env \<Rightarrow> string list \<Rightarrow> ('a tether_scheme, int option) state" where
  "tether_four e argv =
     (let argc = length argv in
      if argc < 4 then reply CommandSyntaxError ''Missing argument''
      else if argv ! 1 = ''start'' then
        if argc mod 2 = 1 then reply CommandSyntaxError ''Bad number of arguments''
        else case aton_all e (drop 2 argv) of
          None \<Rightarrow> reply CommandParameterError ''Invalid address''
        | Some addrs \<Rightarrow> do { rc \<leftarrow> startTethering e addrs; tether_done rc }
      else if argv ! 1 = ''interface'' then
        if argv ! 2 = ''add'' then do { rc \<leftarrow> tetherInterface e (argv ! 3); tether_done rc }
        else if argv ! 2 = ''remove'' then do { rc \<leftarrow> untetherInterface e (argv ! 3); tether_done rc }
        else if argv ! 2 = ''add_upstream'' then do { rc \<leftarrow> addUpstreamInterface e (argv ! 3); tether_done rc }
        else if argv ! 2 = ''remove_upstream'' then do { rc \<leftarrow> removeUpstreamInterface e (argv ! 3); tether_done rc }
        else reply CommandParameterError ''Unknown tether interface operation''
      else if argv ! 1 = ''dns'' then
        if argv ! 2 = ''set'' then
          if argc < 5 then reply CommandSyntaxError ''Missing argument''
          else do { rc \<leftarrow> setDnsForwarders e (stringToNetId (argv ! 3)) (drop 4 argv); tether_done rc }
        else reply CommandParameterError ''Unknown tether interface operation''
      else reply CommandSyntaxError ''Unknown tether cmd'')"

definition TetherCmd_runCommand :: "env \<Rightarrow> string list \<Rightarrow> ('a tether_scheme, int option) state" where
  "TetherCmd_runCommand e argv =
     (if length argv < 2 then reply CommandSyntaxError ''Missing argument''
      else if argv ! 1 = ''stop'' then do { rc \<leftarrow> stopTethering e; tether_done rc }
      else if argv ! 1 = ''status'' then do {
        b \<leftarrow> gets isTetheringStarted;
        reply TetherStatusResult (''Tethering services '' @ (if b then ''started'' else ''stopped'')) }
      else if length argv = 3 then tether_three argv
      else tether_four e argv)"

definition V6RtrAdvCmd_runCommand :: "env \<Rightarrow> string list \<Rightarrow> ('a tether_scheme, int option) state" where
  "V6RtrAdvCmd_runCommand e argv =
     (let argc = length argv; finish = (\<lambda>rc. ok_or_errno ''V6RtrAdv operation succeeded'' ''V6RtrAdv operation failed'' rc) in
      if argc < 2 then reply CommandSyntaxError ''Missing argument''
      else if argv ! 1 = ''stop'' then do { rc \<leftarrow> stopV6RtrAdv e; finish rc }
      else if argv ! 1 = ''status'' then do {
        b \<leftarrow> gets isV6RtrAdvStarted;
        reply V6RtrAdvResult (''IPv6 Router Advertisement service '' @ (if b then ''started'' else ''stopped'')) }
      else if argc < 4 then reply CommandSyntaxError ''Missing argument''
      else if argv ! 1 = ''start'' then do { rc \<leftarrow> startV6RtrAdv e (drop 2 argv) (- 1); finish rc }
      else if argv ! 1 = ''interface'' then
        if argv ! 2 = ''add'' then do { rc \<leftarrow> tetherInterface e (argv ! 3); finish rc }
        else if argv ! 2 = ''remove'' then do { rc \<leftarrow> untetherInterface e (argv ! 3); finish rc }
        else if argv ! 2 = ''list'' then do {
          ilist \<leftarrow> gets tc_mInterfaces;
          send_each TetherInterfaceListResult ilist;
          finish 0 }
        else reply CommandParameterError ''Unknown tether interface operation''
      else reply CommandSyntaxError ''Unknown v6rtradv cmd'')"

section \<open>softap\<close>

definition SoftapCmd_runCommand ::
  "env \<Rightarrow> (string \<Rightarrow> string \<Rightarrow> bytes) \<Rightarrow> (fw_kind \<Rightarrow> cstr) \<Rightarrow> string \<Rightarrow> string list \<Rightarrow> ('a softap_scheme, int option) state" where
  "SoftapCmd_runCommand e pbkdf2 wifi_get_fw_path entropy_file argv =
     (let finish = (\<lambda>rc. reply rc (if rc \<ge> 400 \<and> rc < 600 then ''SoftAP command has failed'' else ''Ok'')) in
      if length argv < 2 then reply CommandSyntaxError ''Missing argument in a SoftAP command''
      else if argv ! 1 = ''startap'' then do { rc \<leftarrow> startSoftap e entropy_file; finish rc }
      else if argv ! 1 = ''stopap'' then do { rc \<leftarrow> stopSoftap e; finish rc }
      else if argv ! 1 = ''fwreload'' then do { rc \<leftarrow> fwReloadSoftap e wifi_get_fw_path argv; finish rc }
      else if argv ! 1 = ''status'' then do {
        b \<leftarrow> gets isSoftapStarted;
        reply SoftapStatusResult (''Softap service '' @ (if b then ''is'' else ''is not'') @ '' running'') }
      else if argv ! 1 = ''set'' then do {
        rc \<leftarrow> setSoftap e pbkdf2 argv;
        case rc of None \<Rightarrow> ret None | Some rc \<Rightarrow> finish rc }
      else reply CommandSyntaxError ''Unrecognized SoftAP command'')"

section \<open>resolver\<close>

definition ResolverCmd_runCommand :: "env \<Rightarrow> string list \<Rightarrow> ('a sys_scheme, int option) state" where
  "ResolverCmd_runCommand e argv =
     (let argc = length argv;
          netId = (\<lambda>arg. ucast (fst (strtoul arg 0)) :: u32);
          finish = (\<lambda>rc. ok_or_errno ''Resolver command succeeded'' ''Resolver command failed'' rc) in
      if argc < 2 then reply CommandSyntaxError ''Resolver missing arguments''
      else if argv ! 1 = ''setnetdns'' then
        if argc \<ge> 5 then do { rc \<leftarrow> setDnsServers e (netId (argv ! 2)) (argv ! 3) (drop 4 argv); finish rc }
        else reply CommandSyntaxError ''Wrong number of arguments to resolver setnetdns''
      else if argv ! 1 = ''clearnetdns'' then
        if argc = 3 then do { rc \<leftarrow> clearDnsServers e (netId (argv ! 2)); finish rc }
        else reply CommandSyntaxError ''Wrong number of arguments to resolver clearnetdns''
      else if argv ! 1 = ''flushnet'' then
        if argc = 3 then do { rc \<leftarrow> flushDnsCache e (netId (argv ! 2)); finish rc }
        else reply CommandSyntaxError ''Wrong number of arguments to resolver flushnet''
      else reply CommandSyntaxError ''Resolver unknown command'')"

end
