(* ===== verification/TrafficCommands.thy ===== *)
theory TrafficCommands
  imports ControllerCommands
begin

text \<open>
  The commands \<^verbatim>\<open>bandwidth\<close>, \<^verbatim>\<open>idletimer\<close>, \<^verbatim>\<open>firewall\<close>, \<^verbatim>\<open>clatd\<close> and \<^verbatim>\<open>route\<close> of \<^verbatim>\<open>server/CommandListener.cpp\<close>.
\<close>

section \<open>bandwidth\<close>

definition sendGenericSyntaxError :: "string \<Rightarrow> ('a sys_scheme, int option) state" where
  "sendGenericSyntaxError usageMsg = reply CommandSyntaxError (''Usage: bandwidth '' @ usageMsg)"

definition bw_sendGenericOkFail :: "int \<Rightarrow> ('a sys_scheme, int option) state" where
  "bw_sendGenericOkFail cond = ok_or_failed ''Bandwidth command succeeeded'' ''Bandwidth command failed'' cond"

definition sendGenericOpFailed :: "string \<Rightarrow> ('a sys_scheme, int option) state" where
  "sendGenericOpFailed errMsg = reply OperationFailed errMsg"

text \<open>A command with a fixed number of words that runs one operation and reports whether it succeeded.\<close>

definition bw_simple :: "bool \<Rightarrow> string \<Rightarrow> ('a bw_scheme, int) state \<Rightarrow> ('a bw_scheme, int option) state" where
  "bw_simple args_ok usage m =
     (if \<not> args_ok then sendGenericSyntaxError usage else do { rc \<leftarrow> m; bw_sendGenericOkFail rc })"

definition bw_getquota :: "('a bw_scheme, int \<times> int option) state \<Rightarrow> ('a bw_scheme, int option) state" where
  "bw_getquota m = do {
     (rc, bytes) \<leftarrow> m;
     if rc \<noteq> 0 then sendGenericOpFailed ''Failed to get quota''
     else reply QuotaCounterResult (fmt_d (the bytes)) }"

text \<open>The loops of \<^verbatim>\<open>setquotas\<close> and \<^verbatim>\<open>removequotas\<close>, which stop at the first failure.\<close>

fun bw_setquotas :: "env \<Rightarrow> string \<Rightarrow> string list \<Rightarrow> ('a bw_scheme, int option) state" where
  "bw_setquotas e bytes [] = bw_sendGenericOkFail 0"
| "bw_setquotas e bytes (iface # ifaces) = do {
     rc \<leftarrow> setInterfaceSharedQuota e iface (atoll bytes);
     if rc \<noteq> 0 then reply OperationFailed (''bandwidth setquotas '' @ bytes @ '' '' @ iface @ '' failed'')
     else bw_setquotas e bytes ifaces }"

fun bw_removequotas :: "env \<Rightarrow> string list \<Rightarrow> ('a bw_scheme, int option) state" where
  "bw_removequotas e [] = bw_sendGenericOkFail 0"
| "bw_removequotas e (iface # ifaces) = do {
     rc \<leftarrow> removeInterfaceSharedQuota e iface;
     if rc \<noteq> 0 then reply OperationFailed (''bandwidth removequotas '' @ iface @ '' failed'')
     else bw_removequotas e ifaces }"

definition bw_happybox :: "env \<Rightarrow> string list \<Rightarrow> ('a bw_scheme, int option) state" where
  "bw_happybox e argv =
     (if length argv < 3 then sendGenericSyntaxError ''happybox (enable | disable)''
      else if argv ! 2 = ''enable'' then do { rc \<leftarrow> enableHappyBox e; bw_sendGenericOkFail rc }
      else if argv ! 2 = ''disable'' then do { rc \<leftarrow> disableHappyBox e; bw_sendGenericOkFail rc }
      else sendGenericSyntaxError ''happybox (enable | disable)'')"

text \<open>\<open>pairs\<close> is \<^verbatim>\<open>sNatCtrl->ifacePairList\<close>.\<close>

definition bw_gettetherstats :: "env \<Rightarrow> string list \<Rightarrow> string list \<Rightarrow> ('a bw_scheme, int option) state" where
  "bw_gettetherstats e pairs argv =
     (let argc = length argv in
      if argc < 2 \<or> argc > 4 then sendGenericSyntaxError ''gettetherstats [<intInterface> <extInterface>]''
      else let tetherStats = new_TetherStats\<lparr>intIface := (if argc > 2 then argv ! 2 else []), extIface := (if argc > 3 then argv ! 3 else [])\<rparr>
           in if argc \<le> 2 \<and> pairs = [] then reply CommandOkay ''Tethering stats list completed''
              else do {
                (rc, extraProcessingInfo) \<leftarrow> getTetherStats e tetherStats;
                if rc \<noteq> 0 then sendGenericOpFailed (''Failed to get tethering stats.'' @ [CHR 0x0A] @ extraProcessingInfo) else ret (Some 0) })"

definition bw_quota_cmd :: "env \<Rightarrow> string list \<Rightarrow> ('a bw_scheme, int option) state option" where
  "bw_quota_cmd e argv =
     (let argc = length argv; cmd = argv ! 1 in
      if cmd \<in> {''removequota'', ''rq''} then
        Some (bw_simple (argc = 3) ''removequota <interface>'' (removeInterfaceSharedQuota e (argv ! 2)))
      else if cmd \<in> {''getquota'', ''gq''} then
        Some (if argc \<noteq> 2 then sendGenericSyntaxError ''getquota'' else bw_getquota (getInterfaceSharedQuota e))
      else if cmd \<in> {''getiquota'', ''giq''} then
        Some (if argc \<noteq> 3 then sendGenericSyntaxError ''getiquota <iface>'' else bw_getquota (getInterfaceQuota e (argv ! 2)))
      else if cmd \<in> {''setquota'', ''sq''} then
        Some (bw_simple (argc = 4) ''setquota <interface> <bytes>'' (setInterfaceSharedQuota e (argv ! 2) (atoll (argv ! 3))))
      else if cmd \<in> {''setquotas'', ''sqs''} then
        Some (if argc < 4 then sendGenericSyntaxError ''setquotas <bytes> <interface> ...'' else bw_setquotas e (argv ! 2) (drop 3 argv))
      else if cmd \<in> {''removequotas'', ''rqs''} then
        Some (if argc < 3 then sendGenericSyntaxError ''removequotas <interface> ...'' else bw_removequotas e (drop 2 argv))
      else if cmd \<in> {''removeiquota'', ''riq''} then
        Some (bw_simple (argc = 3) ''removeiquota <interface>'' (removeInterfaceQuota e (argv ! 2)))
      else if cmd \<in> {''setiquota'', ''siq''} then
        Some (bw_simple (argc = 4) ''setiquota <interface> <bytes>'' (setInterfaceQuota e (argv ! 2) (atoll (argv ! 3))))
      else None)"

definition bw_apps_cmd :: "env \<Rightarrow> string list \<Rightarrow> ('a bw_scheme, int option) state option" where
  "bw_apps_cmd e argv =
     (let argc = length argv; cmd = argv ! 1 in
      if cmd \<in> {''addnaughtyapps'', ''ana''} then
        Some (bw_simple (argc \<ge> 3) ''addnaughtyapps <appUid> ...'' (addNaughtyApps e (drop 2 argv)))
      else if cmd \<in> {''removenaughtyapps'', ''rna''} then
        Some (bw_simple (argc \<ge> 3) ''removenaughtyapps <appUid> ...'' (removeNaughtyApps e (drop 2 argv)))
      else if cmd = ''happybox'' then Some (bw_happybox e argv)
      else if cmd \<in> {''addniceapps'', ''aha''} then
        Some (bw_simple (argc \<ge> 3) ''addniceapps <appUid> ...'' (addNiceApps e (drop 2 argv)))
      else if cmd \<in> {''removeniceapps'', ''rha''} then
        Some (bw_simple (argc \<ge> 3) ''removeniceapps <appUid> ...'' (removeNiceApps e (drop 2 argv)))
      else None)"

definition bw_alert_cmd :: "env \<Rightarrow> string list \<Rightarrow> ('a bw_scheme, int option) state option" where
  "bw_alert_cmd e argv =
     (let argc = length argv; cmd = argv ! 1 in
      if cmd \<in> {''setglobalalert'', ''sga''} then
        Some (bw_simple (argc = 3) ''setglobalalert <bytes>'' (setGlobalAlert e (atoll (argv ! 2))))
      else if cmd \<in> {''debugsettetherglobalalert'', ''dstga''} then
        Some (bw_simple (argc = 4) ''debugsettetherglobalalert <interface0> <interface1>'' (setGlobalAlertInForwardChain e))
      else if cmd \<in> {''removeglobalalert'', ''rga''} then
        Some (bw_simple (argc = 2) ''removeglobalalert'' (removeGlobalAlert e))
      else if cmd \<in> {''debugremovetetherglobalalert'', ''drtga''} then
        Some (bw_simple (argc = 4) ''debugremovetetherglobalalert <interface0> <interface1>'' (removeGlobalAlertInForwardChain e))
      else if cmd \<in> {''setsharedalert'', ''ssa''} then
        Some (bw_simple (argc = 3) ''setsharedalert <bytes>'' (setSharedAlert e (atoll (argv ! 2))))
      else if cmd \<in> {''removesharedalert'', ''rsa''} then
        Some (bw_simple (argc = 2) ''removesharedalert'' (removeSharedAlert e))
      else if cmd \<in> {''setinterfacealert'', ''sia''} then
        Some (bw_simple (argc = 4) ''setinterfacealert <interface> <bytes>'' (setInterfaceAlert e (argv ! 2) (atoll (argv ! 3))))
      else if cmd \<in> {''removeinterfacealert'', ''ria''} then
        Some (bw_simple (argc = 3) ''removeinterfacealert <interface>'' (removeInterfaceAlert e (argv ! 2)))
      else None)"

definition BandwidthControlCmd_runCommand :: "env \<Rightarrow> string list \<Rightarrow> string list \<Rightarrow> ('a bw_scheme, int option) state" where
  "BandwidthControlCmd_runCommand e pairs argv =
     (if length argv < 2 then sendGenericSyntaxError ''<cmds> <args...>''
      else if argv ! 1 = ''enable'' then do { rc \<leftarrow> enableBandwidthControl e True None; bw_sendGenericOkFail rc }
      else if argv ! 1 = ''disable'' then do { rc \<leftarrow> disableBandwidthControl e; bw_sendGenericOkFail rc }
      else case bw_quota_cmd e argv of Some m \<Rightarrow> m | None \<Rightarrow>
        (case bw_apps_cmd e argv of Some m \<Rightarrow> m | None \<Rightarrow>
          (case bw_alert_cmd e argv of Some m \<Rightarrow> m | None \<Rightarrow>
             if argv ! 1 \<in> {''gettetherstats'', ''gts''} then bw_gettetherstats e pairs argv
             else reply CommandSyntaxError ''Unknown bandwidth cmd'')))"

section \<open>idletimer\<close>

definition IdletimerControlCmd_runCommand :: "env \<Rightarrow> string list \<Rightarrow> ('a sys_scheme, int option) state" where
  "IdletimerControlCmd_runCommand e argv =
     (let argc = length argv in
      if argc < 2 then reply CommandSyntaxError ''Missing argument''
      else if argv ! 1 = ''enable'' then do {
        rc \<leftarrow> enableIdletimerControl e;
        if rc \<noteq> 0 then reply CommandSyntaxError ''Missing argument'' else reply CommandOkay ''Enable success'' }
      else if argv ! 1 = ''disable'' then do {
        rc \<leftarrow> disableIdletimerControl e;
        if rc \<noteq> 0 then reply CommandSyntaxError ''Missing argument'' else reply CommandOkay ''Disable success'' }
      else if argv ! 1 = ''add'' then
        if argc \<noteq> 5 then reply CommandSyntaxError ''Missing argument''
        else do {
          rc \<leftarrow> addInterfaceIdletimer e (argv ! 2) (word_of_int (atoi (argv ! 3))) (argv ! 4);
          ok_or_failed ''Add success'' ''Failed to add interface'' rc }
      else if argv ! 1 = ''remove'' then
        if argc \<noteq> 5 then reply CommandSyntaxError ''Missing argument''
        else do {
          rc \<leftarrow> removeInterfaceIdletimer e (argv ! 2) (word_of_int (atoi (argv ! 3))) (argv ! 4);
          ok_or_failed ''Remove success'' ''Failed to remove interface'' rc }
      else reply CommandSyntaxError ''Unknown idletimer cmd'')"

section \<open>firewall\<close>

definition fw_sendGenericOkFail :: "int \<Rightarrow> ('a sys_scheme, int option) state" where
  "fw_sendGenericOkFail cond = ok_or_failed ''Firewall command succeeded'' ''Firewall command failed'' cond"

definition parseRule :: "string \<Rightarrow> FirewallRule" where
  "parseRule arg = (if arg = ''allow'' then ALLOW else DENY)"

definition PROTOCOL_TCP :: int where "PROTOCOL_TCP = 6"
definition PROTOCOL_UDP :: int where "PROTOCOL_UDP = 17"

definition FirewallCmd_runCommand :: "env \<Rightarrow> string list \<Rightarrow> ('a sys_scheme, int option) state" where
  "FirewallCmd_runCommand e argv =
     (let argc = length argv in
      if argc < 2 then reply CommandSyntaxError ''Missing command''
      else if argv ! 1 = ''enable'' then do { res \<leftarrow> enableFirewall e; fw_sendGenericOkFail res }
      else if argv ! 1 = ''disable'' then do { res \<leftarrow> disableFirewall e; fw_sendGenericOkFail res }
      else if argv ! 1 = ''is_enabled'' then fw_sendGenericOkFail isFirewallEnabled
      else if argv ! 1 = ''set_interface_rule'' then
        if argc \<noteq> 4 then reply CommandSyntaxError ''Usage: firewall set_interface_rule <rmnet0> <allow|deny>''
        else do { res \<leftarrow> setInterfaceRule e (argv ! 2) (parseRule (argv ! 3)); fw_sendGenericOkFail res }
      else if argv ! 1 = ''set_egress_source_rule'' then
        if argc \<noteq> 4 then reply CommandSyntaxError ''Usage: firewall set_egress_source_rule <192.168.0.1> <allow|deny>''
        else do { res \<leftarrow> setEgressSourceRule e (argv ! 2) (parseRule (argv ! 3)); fw_sendGenericOkFail res }
      else if argv ! 1 = ''set_egress_dest_rule'' then
        if argc \<noteq> 5 then reply CommandSyntaxError ''Usage: firewall set_egress_dest_rule <192.168.0.1> <80> <allow|deny>''
        else do {
          res \<leftarrow> or_all [setEgressDestRule e (argv ! 2) PROTOCOL_TCP (atoi (argv ! 3)) (parseRule (argv ! 4)),
                         setEgressDestRule e (argv ! 2) PROTOCOL_UDP (atoi (argv ! 3)) (parseRule (argv ! 4))];
          fw_sendGenericOkFail res }
      else if argv ! 1 = ''set_uid_rule'' then
        if argc \<noteq> 4 then reply CommandSyntaxError ''Usage: firewall set_uid_rule <1000> <allow|deny>''
        else do { res \<leftarrow> setUidRule e (atoi (argv ! 2)) (parseRule (argv ! 3)); fw_sendGenericOkFail res }
      else reply CommandSyntaxError ''Unknown command'')"

section \<open>clatd\<close>

definition ClatdCmd_runCommand :: "env \<Rightarrow> string list \<Rightarrow> ('a clatd_scheme, int option) state" where
  "ClatdCmd_runCommand e argv =
     (if length argv < 3 then reply CommandSyntaxError ''Missing argument''
      else if argv ! 1 = ''stop'' then do {
        rc \<leftarrow> stopClatd e (argv ! 2); ok_or_failed ''Clatd operation succeeded'' ''Clatd operation failed'' rc }
      else if argv ! 1 = ''status'' then do {
        b \<leftarrow> isClatdStarted e (argv ! 2);
        reply ClatdStatusResult (''Clatd status: '' @ (if b then ''started'' else ''stopped'')) }
      else if argv ! 1 = ''start'' then do {
        rc \<leftarrow> startClatd e (argv ! 2); ok_or_failed ''Clatd operation succeeded'' ''Clatd operation failed'' rc }
      else reply CommandSyntaxError ''Unknown clatd cmd'')"

end
