(* ===== verification/RouteCommand.thy ===== *)
theory RouteCommand
  imports TrafficCommands
begin

text \<open>
  The command \<^verbatim>\<open>route\<close> of \<^verbatim>\<open>server/CommandListener.cpp\<close>: it checks its arguments before they become part of commands that
  a shell runs.
\<close>

section \<open>Model\<close>

definition isValidIface :: "env \<Rightarrow> string \<Rightarrow> ('a sys_scheme, bool) state" where
  "isValidIface e iface = do { i \<leftarrow> if_nametoindex e iface; ret (i \<noteq> 0) }"

definition isValidIp :: "env \<Rightarrow> string \<Rightarrow> string \<Rightarrow> bool" where
  "isValidIp e str af \<longleftrightarrow>
     (af = ''v4'' \<and> env_inet_pton e AF_INET str \<noteq> None \<or> af = ''v6'' \<and> env_inet_pton e AF_INET6 str \<noteq> None) \<and>
     list_all (\<lambda>c. \<not> isspace c) str"

text \<open>\<^verbatim>\<open>strtol(arg, &end, 10)\<close> with the tests of its end and of its value; the message of the refusal, or \<^const>\<open>None\<close>.\<close>

definition bad_routeId :: "string \<Rightarrow> string \<Rightarrow> string option" where
  "bad_routeId range_msg arg =
     (let (rid, endPtr) = strtol arg 10
      in if endPtr \<noteq> [] then Some ''RouteID: invalid numerical value''
         else if rid < 1 \<or> rid > 252 then Some range_msg
         else None)"

text \<open>\<^verbatim>\<open>if (argc > k) gateway = argv[k], and it must be an address\<close>\<close>

definition gateway_arg :: "nat \<Rightarrow> string list \<Rightarrow> cstr" where
  "gateway_arg k argv = (if length argv > k then Some (argv ! k) else None)"

definition bad_gateway :: "env \<Rightarrow> string list \<Rightarrow> cstr \<Rightarrow> bool" where
  "bad_gateway e argv gateway = (case gateway of None \<Rightarrow> False | Some g \<Rightarrow> \<not> isValidIp e g (argv ! 3))"

definition network_block :: "netutils \<Rightarrow> event list \<Rightarrow> string \<Rightarrow> string" where
  "network_block net h iface =
     (case ifc_get_info net h iface of (err, addr, prefix_length, flags) \<Rightarrow>
        inet_ntoa (map2 (AND) addr (prefixLengthToIpv4Netmask net prefix_length)) @ ''/'' @ fmt_d prefix_length)"

text \<open>The result of an operation is the text of its error.\<close>

definition route_done :: "string \<Rightarrow> string \<Rightarrow> ('a sys_scheme, int option) state" where
  "route_done okay res = (if res \<noteq> [] then reply OperationFailed res else reply CommandOkay okay)"

definition route_replace_src :: "env \<Rightarrow> netutils \<Rightarrow> string \<Rightarrow> bool \<Rightarrow> string list \<Rightarrow> ('a sys_scheme, int option) state" where
  "route_replace_src e net ipVer v4 argv =
     (if length argv \<noteq> 7 \<and> length argv \<noteq> 8
      then reply CommandSyntaxError ''Usage: route replace src inet_family <interface> <ipaddr> <routeId> [<gateway>]''
      else case bad_routeId ''0 < RouteID < 253'' (argv ! 6) of
        Some msg \<Rightarrow> reply CommandParameterError msg
      | None \<Rightarrow> do {
          h \<leftarrow> gets hist;
          let iface = argv ! 4;
          let routeId = argv ! 6;
          let gateway = gateway_arg 7 argv;
          valid \<leftarrow> isValidIface e iface;
          if \<not> valid then reply CommandParameterError ''invalid interface''
          else if \<not> isValidIp e (argv ! 5) (argv ! 3) then reply CommandParameterError ''invalid IP address''
          else if bad_gateway e argv gateway then reply CommandParameterError ''invalid gateway''
          else do {
            res \<leftarrow> repSrcRoute e iface (argv ! 5) gateway routeId ipVer;
            if res \<noteq> [] then reply OperationFailed res
            else if v4 then do {
              res \<leftarrow> addDstRoute e iface (network_block net h iface) None 0 routeId;
              reply CommandOkay (if res = [] then ''source route replace & local subnet route add succeeded for rid: '' @ routeId else res) }
            else reply CommandOkay (''source route replace succeeded for rid:'' @ routeId) } })"

definition route_del_src :: "env \<Rightarrow> string \<Rightarrow> string list \<Rightarrow> ('a sys_scheme, int option) state" where
  "route_del_src e ipVer argv =
     (if length argv \<noteq> 5 then reply CommandSyntaxError ''Usage: route del src v[4|6] <routeId>''
      else case bad_routeId ''RouteID: between 0 and 253'' (argv ! 4) of
        Some msg \<Rightarrow> reply CommandParameterError msg
      | None \<Rightarrow> do {
          res \<leftarrow> delSrcRoute e (argv ! 4) ipVer;
          route_done (''source route delete succeeded for rid:'' @ argv ! 4) res })"

definition route_replace_def :: "env \<Rightarrow> string \<Rightarrow> string list \<Rightarrow> ('a sys_scheme, int option) state" where
  "route_replace_def e ipVer argv =
     (if length argv \<noteq> 5 \<and> length argv \<noteq> 6
      then reply CommandSyntaxError ''Usage: route replace def v[4|6] <interface> [<gateway>]''
      else do {
        let gateway = gateway_arg 5 argv;
        valid \<leftarrow> isValidIface e (argv ! 4);
        if \<not> valid then reply CommandParameterError ''invalid interface''
        else if bad_gateway e argv gateway then reply CommandParameterError ''invalid gateway''
        else do {
          res \<leftarrow> replaceDefRoute e (argv ! 4) gateway ipVer;
          route_done ''default route replace succeeded'' res } })"

definition route_add_def :: "env \<Rightarrow> string \<Rightarrow> string list \<Rightarrow> ('a sys_scheme, int option) state" where
  "route_add_def e ipVer argv =
     (if length argv \<noteq> 6 \<and> length argv \<noteq> 7
      then reply CommandSyntaxError ''Usage: route add def v[4|6] <interface> <metric> [<gateway>]''
      else do {
        let gateway = gateway_arg 6 argv;
        valid \<leftarrow> isValidIface e (argv ! 4);
        if \<not> valid then reply CommandParameterError ''invalid interface''
        else if bad_gateway e argv gateway then reply CommandParameterError ''invalid gateway''
        else do {
          res \<leftarrow> addDefRoute e (argv ! 4) gateway ipVer (atoi (argv ! 5)) QC_MAIN_TABLE;
          route_done ''default route add with metric succeeded'' res } })"

definition route_add_dst :: "env \<Rightarrow> string list \<Rightarrow> ('a sys_scheme, int option) state" where
  "route_add_dst e argv =
     (if length argv \<noteq> 7 \<and> length argv \<noteq> 8
      then reply CommandSyntaxError ''Usage: route add dst v[4|6] <interface> <metric> <dstIpAddr> [<gateway>]''
      else do {
        let gateway = gateway_arg 7 argv;
        valid \<leftarrow> isValidIface e (argv ! 4);
        if \<not> valid then reply CommandParameterError ''invalid interface''
        else if \<not> isValidIp e (argv ! 6) (argv ! 3) then reply CommandParameterError ''invalid IP address''
        else if bad_gateway e argv gateway then reply CommandParameterError ''invalid gateway''
        else do {
          res \<leftarrow> addDstRoute e (argv ! 4) (argv ! 6) gateway (atoi (argv ! 5)) QC_MAIN_TABLE;
          route_done ''destination route add succeeded'' res } })"

definition route_del_dst :: "env \<Rightarrow> string list \<Rightarrow> ('a sys_scheme, int option) state" where
  "route_del_dst e argv =
     (if length argv \<noteq> 5 then reply CommandSyntaxError ''Usage: route del dst v[4|6] <ipaddr>''
      else if \<not> isValidIp e (argv ! 4) (argv ! 3) then reply CommandParameterError ''invalid IP address''
      else do {
        res \<leftarrow> delDstRoute e (argv ! 4) QC_MAIN_TABLE;
        route_done ''destination route delete succeeded'' res })"

definition QcRouteCmd_runCommand :: "env \<Rightarrow> netutils \<Rightarrow> string list \<Rightarrow> ('a sys_scheme, int option) state" where
  "QcRouteCmd_runCommand e net argv =
     (if length argv < 5 then reply CommandSyntaxError ''Missing argument''
      else if argv ! 3 \<noteq> ''v4'' \<and> argv ! 3 \<noteq> ''v6'' then reply CommandSyntaxError ''Supported family v4|v6''
      else let v4 = (argv ! 3 = ''v4''); ipVer = (if v4 then ''-4'' else ''-6'')
           in if argv ! 2 = ''src'' then
                if argv ! 1 = ''replace'' then route_replace_src e net ipVer v4 argv
                else if argv ! 1 = ''del'' then route_del_src e ipVer argv
                else reply CommandSyntaxError ''permitted operation for src routes: <replace|del>''
              else if argv ! 2 = ''def'' then
                if argv ! 1 = ''replace'' then route_replace_def e ipVer argv
                else if argv ! 1 = ''add'' then route_add_def e ipVer argv
                else reply CommandSyntaxError ''Permitted action for def routes <replace|add>''
              else if argv ! 2 = ''dst'' then
                if argv ! 1 = ''add'' then route_add_dst e argv
                else if argv ! 1 = ''del'' then route_del_dst e argv
                else reply CommandSyntaxError ''permitted operation for dst routes: <add|del>''
              else reply CommandParameterError ''allowed route types: <src|dst|def>'')"

section \<open>Specification\<close>

text \<open>
  What is documented of the functions that the checks rely on: \<^verbatim>\<open>inet_pton\<close> accepts only hexadecimal digits, dots and
  colons; and the names of the interfaces that exist have no characters with a meaning for the shell.
\<close>

definition addresses_plain :: "env \<Rightarrow> bool" where
  "addresses_plain e \<longleftrightarrow> (\<forall>family a. env_inet_pton e family a \<noteq> None \<longrightarrow> list_all plain a)"

definition interfaces_plain :: "env \<Rightarrow> bool" where
  "interfaces_plain e \<longleftrightarrow> (\<forall>h i. env_ifindex e h i \<noteq> 0 \<longrightarrow> list_all plain i)"

section \<open>Lemmas\<close>

lemma plain_reply [wp]: "keeps plain_state (reply code msg)"
  by (auto simp: reply_def hoare_def run_simps popens_plain_def)

lemma plain_route_done [wp]: "keeps plain_state (route_done okay res)"
  by (auto simp: route_done_def intro: wp)

lemma plain_isValidIface:
  assumes "interfaces_plain e" and "\<And>b. (b \<Longrightarrow> list_all plain i) \<Longrightarrow> keeps plain_state (k b)"
  shows "keeps plain_state (State_Monad.bind (isValidIface e i) k)"
proof (rule hoareI)
  fix s a s'
  assume pre: "popens_plain (hist s)" and run: "run_state (State_Monad.bind (isValidIface e i) k) s = (a, s')"
  let ?i = "env_ifindex e (hist s) i"
  have "?i \<noteq> 0 \<Longrightarrow> list_all plain i" using assms(1) unfolding interfaces_plain_def by blast
  then have "keeps plain_state (k (?i \<noteq> 0))" by (rule assms(2))
  moreover have "popens_plain (hist (s\<lparr>hist := EvIfIndex i ?i # hist s\<rparr>))" using pre by (simp add: popens_plain_def)
  moreover have "run_state (k (?i \<noteq> 0)) (s\<lparr>hist := EvIfIndex i ?i # hist s\<rparr>) = (a, s')"
    using run by (simp add: isValidIface_def run_simps)
  ultimately show "popens_plain (hist s')" using hoareD [of plain_state] by metis
qed

lemma isValidIp_plain: "addresses_plain e \<Longrightarrow> isValidIp e a af \<Longrightarrow> list_all plain a"
  by (auto simp: isValidIp_def addresses_plain_def)

lemma gateway_plain: "addresses_plain e \<Longrightarrow> \<not> bad_gateway e argv g \<Longrightarrow> pred_option (list_all plain) g"
  by (cases g) (auto simp: bad_gateway_def isValidIp_plain)

lemma take_digits_split: "take_digits b acc s = (v, rest) \<Longrightarrow> \<exists>ds. s = ds @ rest \<and> list_all (is_base_digit b) ds"
  by (induction b acc s rule: take_digits.induct) (fastforce split: if_splits)+

lemma base10_plain: "is_base_digit 10 c \<Longrightarrow> plain c"
  by (auto simp: is_base_digit_def digit_val_def plain_def isalnum_def split: if_splits)

lemma routeId_plain:
  assumes "bad_routeId msg arg = None" and "list_all (\<lambda>c. \<not> isspace c) arg"
  shows "list_all plain arg"
proof -
  obtain rid where rid: "strtol arg 10 = (rid, [])" "1 \<le> rid"
    using assms(1) by (auto simp: bad_routeId_def split: prod.splits if_splits)
  have drop: "dropWhile isspace arg = arg" using assms(2) by (cases arg) auto
  obtain neg s2 where sign: "split_sign arg = (neg, s2)" by fastforce
  have "split_base 10 s2 = (10, s2)" by (simp add: split_base_def)
  then obtain v where "take_digits 10 0 s2 = (v, [])"
    using rid drop sign by (auto simp: strtol_def Let_def split: if_splits prod.splits)
  then have "list_all plain s2" using take_digits_split base10_plain by (fastforce simp: list_all_iff)
  then show ?thesis
    using sign by (cases arg) (auto simp: split_sign_def plain_def split: if_splits)
qed

lemma no_space_nth: "list_all (list_all (\<lambda>c. \<not> isspace c)) argv \<Longrightarrow> k < length argv \<Longrightarrow> list_all (\<lambda>c. \<not> isspace c) (argv ! k)"
  by (simp add: list_all_length)

lemma inet_ntoa_plain: "list_all plain (inet_ntoa bs)"
proof (induction bs rule: inet_ntoa.induct)
  case (3 b c bs)
  moreover have "plain CHR ''.''" by (simp add: plain_def)
  ultimately show ?case by (simp add: fmt_u_plain)
qed (simp_all add: fmt_u_plain)

lemma network_block_plain: "list_all plain (network_block net h i)"
proof -
  have "plain CHR ''/''" by (simp add: plain_def)
  then show ?thesis by (auto simp: network_block_def inet_ntoa_plain fmt_d_plain split: prod.split)
qed

lemma main_table_plain: "list_all plain QC_MAIN_TABLE" "list_all plain ''-4''" "list_all plain ''-6''"
  by (simp_all add: QC_MAIN_TABLE_def plain_def isalnum_def isdigit_def less_eq_char_def)

lemma keeps_bad_routeId:
  assumes "\<And>msg. keeps I (m msg)" and "bad_routeId range_msg arg = None \<Longrightarrow> keeps I k"
  shows "keeps I (case bad_routeId range_msg arg of Some msg \<Rightarrow> m msg | None \<Rightarrow> k)"
  using assms by (cases "bad_routeId range_msg arg") simp_all

lemmas route_rules = hoare_if keeps_bad_routeId keeps_bind keeps_gets keeps_return keeps_Let plain_reply plain_route_done

lemma plain_ops:
  "list_all plain t \<Longrightarrow> list_all plain v \<Longrightarrow> keeps plain_state (delSrcRoute e t v)"
  "list_all plain i \<Longrightarrow> pred_option (list_all plain) g \<Longrightarrow> list_all plain a \<Longrightarrow> list_all plain t \<Longrightarrow> keeps plain_state (addDstRoute e i a g m t)"
  "list_all plain a \<Longrightarrow> list_all plain t \<Longrightarrow> keeps plain_state (delDstRoute e a t)"
  "list_all plain i \<Longrightarrow> pred_option (list_all plain) g \<Longrightarrow> list_all plain v \<Longrightarrow> keeps plain_state (replaceDefRoute e i g v)"
  "list_all plain i \<Longrightarrow> pred_option (list_all plain) g \<Longrightarrow> list_all plain v \<Longrightarrow> list_all plain t \<Longrightarrow> keeps plain_state (addDefRoute e i g v m t)"
  using plain_routes(2) [of "[]" None "[]" t v] plain_routes(3) [of i g a t "[]"] plain_routes(4) [of "[]" None a t "[]"]
    plain_routes(5) [of i g "[]" "[]" v] plain_routes(6) [of i g "[]" t v]
  by simp_all

lemma plain_src:
  assumes "addresses_plain e" and "interfaces_plain e" and "list_all (list_all (\<lambda>c. \<not> isspace c)) argv" and "list_all plain ver"
  shows "keeps plain_state (route_replace_src e net ver v4 argv)" "keeps plain_state (route_del_src e ver argv)"
proof -
  have id: "list_all plain (argv ! k)" if "bad_routeId msg (argv ! k) = None" "k < length argv" for k msg
    using routeId_plain [OF that(1)] no_space_nth [OF assms(3) that(2)] by blast
  show "keeps plain_state (route_del_src e ver argv)"
    unfolding route_del_src_def
    by (intro route_rules plain_ops(1) assms(4)) (simp_all add: id)
  show "keeps plain_state (route_replace_src e net ver v4 argv)"
    unfolding route_replace_src_def Let_def
    by (intro hoare_if keeps_bad_routeId plain_isValidIface [OF assms(2)] keeps_bind keeps_gets plain_reply plain_routes(1) plain_ops(2))
      (auto intro: id assms(4) network_block_plain gateway_plain [OF assms(1)] isValidIp_plain [OF assms(1)])
qed

lemma plain_def_dst:
  assumes "addresses_plain e" and "interfaces_plain e" and "list_all plain ver"
  shows "keeps plain_state (route_replace_def e ver argv)" "keeps plain_state (route_add_def e ver argv)"
    "keeps plain_state (route_add_dst e argv)" "keeps plain_state (route_del_dst e argv)"
proof -
  note rules = hoare_if plain_isValidIface [OF assms(2)] keeps_bind plain_reply plain_route_done plain_ops
  note vals = main_table_plain(1) assms(3) gateway_plain [OF assms(1)] isValidIp_plain [OF assms(1)]
  show "keeps plain_state (route_replace_def e ver argv)"
    unfolding route_replace_def_def Let_def by (intro rules) (auto intro: vals)
  show "keeps plain_state (route_add_def e ver argv)"
    unfolding route_add_def_def Let_def by (intro rules) (auto intro: vals)
  show "keeps plain_state (route_add_dst e argv)"
    unfolding route_add_dst_def Let_def by (intro rules) (auto intro: vals)
  show "keeps plain_state (route_del_dst e argv)"
    unfolding route_del_dst_def Let_def by (intro rules) (auto intro: vals)
qed

section \<open>Properties\<close>


definition shell_env :: env where
  "shell_env = sample_env\<lparr>env_ifindex := (\<lambda>h i. if i = ''rmnet0'' then 3 else 0), env_popen := (\<lambda>h c. Some [])\<rparr>"

definition sample_net :: netutils where
  "sample_net = \<lparr>ifc_get_info = (\<lambda>h i. (0, [10, 0, 0, 1], 24, IFF_UP)), ifc_get_hwaddr = (\<lambda>h i. replicate 6 0),
     prefixLengthToIpv4Netmask = (\<lambda>n. [255, 255, 255, 0])\<rparr>"


end
