(* ===== verification/CommandListener.thy ===== *)
theory CommandListener
  imports RouteCommand
begin

text \<open>
  \<^verbatim>\<open>server/CommandListener.cpp\<close> as a whole: the state of the daemon, that is, of all the controllers over one history, the
  set-up of the iptables chains at start-up, the commands \<^verbatim>\<open>ipfwd\<close> and \<^verbatim>\<open>nat\<close>, which need several controllers, and the
  choice of the handler for a command line.
\<close>

section \<open>The daemon\<close>

text \<open>
  The network controller, the route controller and the clatd controller share the fields of \<^typ>\<open>clatd\<close>; the others have a
  record of their own, whose history (and, for NAT, whose table numbers) is that of the daemon whenever one of their
  operations runs.
\<close>

record daemon = clatd +
  d_tether :: tether
  d_nat :: natctl
  d_bw :: bw
  d_ppp :: ppp
  d_softap :: softap
  iWlanFwdEnable :: bool
  fwIpFwdEnable :: bool

definition on_tether :: "(tether, 'r) state \<Rightarrow> (daemon, 'r) state" where
  "on_tether m = State (\<lambda>d. case run_state m (d_tether d\<lparr>hist := hist d\<rparr>) of (r, p) \<Rightarrow> (r, d\<lparr>d_tether := p, hist := hist p\<rparr>))"

definition on_nat :: "(natctl, 'r) state \<Rightarrow> (daemon, 'r) state" where
  "on_nat m = State (\<lambda>d. case run_state m (d_nat d\<lparr>hist := hist d, interfaceToTable := interfaceToTable d\<rparr>) of
     (r, p) \<Rightarrow> (r, d\<lparr>d_nat := p, hist := hist p, interfaceToTable := interfaceToTable p\<rparr>))"

definition on_bw :: "(bw, 'r) state \<Rightarrow> (daemon, 'r) state" where
  "on_bw m = State (\<lambda>d. case run_state m (d_bw d\<lparr>hist := hist d\<rparr>) of (r, p) \<Rightarrow> (r, d\<lparr>d_bw := p, hist := hist p\<rparr>))"

definition on_ppp :: "(ppp, 'r) state \<Rightarrow> (daemon, 'r) state" where
  "on_ppp m = State (\<lambda>d. case run_state m (d_ppp d\<lparr>hist := hist d\<rparr>) of (r, p) \<Rightarrow> (r, d\<lparr>d_ppp := p, hist := hist p\<rparr>))"

definition on_softap :: "(softap, 'r) state \<Rightarrow> (daemon, 'r) state" where
  "on_softap m = State (\<lambda>d. case run_state m (d_softap d\<lparr>hist := hist d\<rparr>) of (r, p) \<Rightarrow> (r, d\<lparr>d_softap := p, hist := hist p\<rparr>))"

section \<open>Start-up\<close>

definition OEM_IPTABLES_FILTER_OUTPUT :: string where "OEM_IPTABLES_FILTER_OUTPUT = ''oem_out''"
definition OEM_IPTABLES_FILTER_FORWARD :: string where "OEM_IPTABLES_FILTER_FORWARD = ''oem_fwd''"
definition OEM_IPTABLES_NAT_PREROUTING :: string where "OEM_IPTABLES_NAT_PREROUTING = ''oem_nat_pre''"
definition OEM_SCRIPT_PATH :: string where "OEM_SCRIPT_PATH = ''/system/bin/oem-iptables-init.sh''"

definition bw_LOCAL_INPUT :: string where "bw_LOCAL_INPUT = ''bw_INPUT''"
definition bw_LOCAL_FORWARD :: string where "bw_LOCAL_FORWARD = ''bw_FORWARD''"
definition bw_LOCAL_OUTPUT :: string where "bw_LOCAL_OUTPUT = ''bw_OUTPUT''"
definition bw_LOCAL_RAW_PREROUTING :: string where "bw_LOCAL_RAW_PREROUTING = ''bw_raw_PREROUTING''"
definition bw_LOCAL_MANGLE_POSTROUTING :: string where "bw_LOCAL_MANGLE_POSTROUTING = ''bw_mangle_POSTROUTING''"

definition FILTER_INPUT :: "string list" where "FILTER_INPUT = [bw_LOCAL_INPUT, fw_LOCAL_INPUT]"
definition FILTER_FORWARD :: "string list" where
  "FILTER_FORWARD = [OEM_IPTABLES_FILTER_FORWARD, fw_LOCAL_FORWARD, bw_LOCAL_FORWARD, nat_FORWARD]"
definition FILTER_OUTPUT :: "string list" where "FILTER_OUTPUT = [OEM_IPTABLES_FILTER_OUTPUT, fw_LOCAL_OUTPUT, bw_LOCAL_OUTPUT]"
definition RAW_PREROUTING :: "string list" where "RAW_PREROUTING = [bw_LOCAL_RAW_PREROUTING, idle_RAW_PREROUTING]"
definition MANGLE_POSTROUTING :: "string list" where "MANGLE_POSTROUTING = [bw_LOCAL_MANGLE_POSTROUTING, idle_MANGLE_POSTROUTING]"
definition MANGLE_FORWARD :: "string list" where "MANGLE_FORWARD = [nat_MANGLE_FORWARD]"
definition NAT_PREROUTING :: "string list" where "NAT_PREROUTING = [OEM_IPTABLES_NAT_PREROUTING]"
definition NAT_POSTROUTING :: "string list" where "NAT_POSTROUTING = [nat_POSTROUTING]"

definition createChildChain :: "env \<Rightarrow> IptablesTarget \<Rightarrow> string \<Rightarrow> string \<Rightarrow> string \<Rightarrow> ('a sys_scheme, unit) state" where
  "createChildChain e target table parentChain childChain = do {
     _ \<leftarrow> execIptables e target [''-w'', ''-t'', table, ''-D'', parentChain, ''-j'', childChain];
     _ \<leftarrow> execIptables e target [''-w'', ''-t'', table, ''-F'', childChain];
     _ \<leftarrow> execIptables e target [''-w'', ''-t'', table, ''-X'', childChain];
     _ \<leftarrow> execIptables e target [''-w'', ''-t'', table, ''-N'', childChain];
     _ \<leftarrow> execIptables e target [''-w'', ''-t'', table, ''-A'', parentChain, ''-j'', childChain];
     ret () }"

primrec createChildChains :: "env \<Rightarrow> IptablesTarget \<Rightarrow> string \<Rightarrow> string \<Rightarrow> string list \<Rightarrow> ('a sys_scheme, unit) state" where
  "createChildChains e target table parentChain [] = ret ()"
| "createChildChains e target table parentChain (childChain # childChains) = do {
     createChildChain e target table parentChain childChain;
     createChildChains e target table parentChain childChains }"

text \<open>\<^verbatim>\<open>server/oem_iptables_hook.cpp\<close>\<close>

definition oemCleanupHooks :: "env \<Rightarrow> ('a sys_scheme, bool) state" where
  "oemCleanupHooks e = do {
     _ \<leftarrow> fork_execvp0 e [IPTABLES_PATH, ''-F'', ''oem_out''];
     _ \<leftarrow> fork_execvp0 e [IPTABLES_PATH, ''-F'', ''oem_fwd''];
     _ \<leftarrow> fork_execvp0 e [IPTABLES_PATH, ''-t'', ''nat'', ''-F'', ''oem_nat_pre''];
     ret True }"

definition oemInitChains :: "env \<Rightarrow> ('a sys_scheme, bool) state" where
  "oemInitChains e = do {
     r \<leftarrow> call_sys e (SysSystem OEM_SCRIPT_PATH);
     if r = - 1 \<or> WEXITSTATUS (word_of_int r) \<noteq> 0 then do { _ \<leftarrow> oemCleanupHooks e; ret False }
     else ret True }"

definition setupOemIptablesHook :: "env \<Rightarrow> ('a sys_scheme, unit) state" where
  "setupOemIptablesHook e = do {
     accessible \<leftarrow> call_sys e (SysAccess OEM_SCRIPT_PATH);
     if accessible = 0 then do {
       ok \<leftarrow> oemCleanupHooks e;
       if ok then do { _ \<leftarrow> oemInitChains e; ret () } else ret () }
     else ret () }"

definition fw_setupIptablesHooks :: "('a sys_scheme, int) state" where
  "fw_setupIptablesHooks = ret 0"

definition idle_setupIptablesHooks :: "('a sys_scheme, bool) state" where
  "idle_setupIptablesHooks = ret True"

definition setup_chains :: "env \<Rightarrow> ('a sys_scheme, unit) state" where
  "setup_chains e = do {
     createChildChains e V4V6 ''filter'' ''INPUT'' FILTER_INPUT;
     createChildChains e V4V6 ''filter'' ''FORWARD'' FILTER_FORWARD;
     createChildChains e V4V6 ''filter'' ''OUTPUT'' FILTER_OUTPUT;
     createChildChains e V4V6 ''raw'' ''PREROUTING'' RAW_PREROUTING;
     createChildChains e V4V6 ''mangle'' ''POSTROUTING'' MANGLE_POSTROUTING;
     createChildChains e V4 ''mangle'' ''FORWARD'' MANGLE_FORWARD;
     createChildChains e V4 ''nat'' ''PREROUTING'' NAT_PREROUTING;
     createChildChains e V4 ''nat'' ''POSTROUTING'' NAT_POSTROUTING }"

text \<open>
  The constructor. Members of the controllers that their constructors do not set are those of the given state.
\<close>

definition new_controllers :: "daemon \<Rightarrow> daemon" where
  "new_controllers d = (NetworkController_new d)\<lparr>
     d_tether := TetherController_new (d_tether d), d_nat := d_nat d\<lparr>ifacePairList := []\<rparr>,
     d_bw := d_bw d\<lparr>sharedQuotaIfaces := [], quotaIfaces := [], naughtyAppUids := [], niceAppUids := []\<rparr>,
     d_ppp := PppController_new (d_ppp d), d_softap := SoftapController_new (d_softap d), mClatdPids := [],
     iWlanFwdEnable := False, fwIpFwdEnable := False\<rparr>"

definition CommandListener_new :: "env \<Rightarrow> (daemon, unit) state" where
  "CommandListener_new e = do {
     modify new_controllers;
     InterfaceController_new e;
     setup_chains e;
     setupOemIptablesHook e;
     _ \<leftarrow> fw_setupIptablesHooks;
     _ \<leftarrow> on_nat (nat_setupIptablesHooks e);
     _ \<leftarrow> on_bw (bw_setupIptablesHooks e);
     _ \<leftarrow> idle_setupIptablesHooks;
     _ \<leftarrow> on_bw (enableBandwidthControl e False (env_property e ''persist.bandwidth.enable''));
     _ \<leftarrow> RouteController_Init e LOCAL_NET_ID;
     ret () }"

section \<open>ipfwd and nat\<close>

definition IpFwdCmd_runCommand :: "env \<Rightarrow> string list \<Rightarrow> (daemon, int option) state" where
  "IpFwdCmd_runCommand e argv =
     (let iwlan = (length argv > 2 \<and> argv ! 2 = ''iwlan'');
          finish = (\<lambda>rc. ok_or_errno ''ipfwd operation succeeded'' ''ipfwd operation failed'' rc) in
      if length argv < 2 then reply CommandSyntaxError ''Missing argument''
      else if argv ! 1 = ''status'' then do {
        b \<leftarrow> getIpFwdEnabled e;
        reply IpFwdStatusResult (''Forwarding '' @ (if b then ''enabled'' else ''disabled'')) }
      else if argv ! 1 = ''enable'' then do {
        modify (if iwlan then iWlanFwdEnable_update (\<lambda>_. True) else fwIpFwdEnable_update (\<lambda>_. True));
        rc \<leftarrow> setIpFwdEnabled e True;
        finish rc }
      else if argv ! 1 = ''disable'' then do {
        modify (if iwlan then iWlanFwdEnable_update (\<lambda>_. False) else fwIpFwdEnable_update (\<lambda>_. False));
        a \<leftarrow> gets iWlanFwdEnable;
        b \<leftarrow> gets fwIpFwdEnable;
        rc \<leftarrow> (if \<not> a \<and> \<not> b then setIpFwdEnabled e False else ret 0);
        finish rc }
      else reply CommandSyntaxError ''Unknown ipfwd cmd'')"

definition NatCmd_runCommand :: "env \<Rightarrow> string list \<Rightarrow> (daemon, int option) state" where
  "NatCmd_runCommand e argv =
     (let argc = length argv; finish = (\<lambda>rc. ok_or_errno ''Nat operation succeeded'' ''Nat operation failed'' rc) in
      if argc < 5 then reply CommandSyntaxError ''Missing argument''
      else if argv ! 1 = ''enable'' \<and> argc \<ge> 4 then do {
        rc \<leftarrow> on_nat (enableNat e (argv ! 2) (argv ! 3));
        rc \<leftarrow> (if rc = 0 then on_bw (setGlobalAlertInForwardChain e) else ret rc);
        finish rc }
      else if argv ! 1 = ''disable'' \<and> argc \<ge> 4 then do {
        rc \<leftarrow> on_bw (removeGlobalAlertInForwardChain e);
        rc' \<leftarrow> on_nat (disableNat e (argv ! 2) (argv ! 3));
        finish (rc OR rc') }
      else reply CommandSyntaxError ''Unknown nat cmd'')"

section \<open>Dispatch\<close>

text \<open>
  The parameters of the commands: the network library, key derivation, firmware paths and the name of the entropy file.
\<close>

record libs =
  l_net :: netutils
  l_pbkdf2 :: "string \<Rightarrow> string \<Rightarrow> bytes"
  l_fw_path :: "fw_kind \<Rightarrow> cstr"
  l_entropy :: string

text \<open>
  The commands that the constructor registers; \<^verbatim>\<open>FrameworkListener\<close> of the system's library calls the one whose name is the
  first word, and otherwise answers itself, which is the parameter \<open>unknown\<close>. \<^verbatim>\<open>v6rtradv\<close> is not registered.
\<close>

definition registered :: "env \<Rightarrow> libs \<Rightarrow> (string \<times> (string list \<Rightarrow> (daemon, int option) state)) list" where
  "registered e l =
     [(''interface'', InterfaceCmd_runCommand e (l_net l)),
      (''ipfwd'', IpFwdCmd_runCommand e),
      (''tether'', \<lambda>argv. on_tether (TetherCmd_runCommand e argv)),
      (''nat'', NatCmd_runCommand e),
      (''list_ttys'', \<lambda>argv. on_ppp (ListTtysCmd_runCommand e)),
      (''pppd'', \<lambda>argv. on_ppp (PppdCmd_runCommand e argv)),
      (''softap'', \<lambda>argv. on_softap (SoftapCmd_runCommand e (l_pbkdf2 l) (l_fw_path l) (l_entropy l) argv)),
      (''bandwidth'', \<lambda>argv. do {
         pairs \<leftarrow> gets (\<lambda>d. ifacePairList (d_nat d));
         on_bw (BandwidthControlCmd_runCommand e pairs argv) }),
      (''idletimer'', IdletimerControlCmd_runCommand e),
      (''resolver'', ResolverCmd_runCommand e),
      (''firewall'', FirewallCmd_runCommand e),
      (''clatd'', ClatdCmd_runCommand e),
      (''network'', NetworkCommand_runCommand e),
      (''route'', QcRouteCmd_runCommand e (l_net l))]"

definition dispatchCommand ::
  "env \<Rightarrow> libs \<Rightarrow> (string list \<Rightarrow> (daemon, int option) state) \<Rightarrow> string list \<Rightarrow> (daemon, int option) state" where
  "dispatchCommand e l unknown argv =
     (case argv of
        [] \<Rightarrow> unknown argv
      | name # args \<Rightarrow> (case map_of (registered e l) name of None \<Rightarrow> unknown argv | Some run \<Rightarrow> run argv))"

end
