(* ===== verification/DaemonAnswers.thy ===== *)
theory DaemonAnswers
  imports CommandListener
begin

text \<open>
  The protocol between the daemon and its clients: the last thing that the handler of a command does is to send a final
  answer, a message with a number from 200 to 599. A client that waits for one is never left waiting, except by
  \<^verbatim>\<open>bandwidth gettetherstats\<close>; and the commands whose handler reads beyond its arguments are listed.
\<close>

section \<open>Specification\<close>

fun final_answer :: "event \<Rightarrow> bool" where
  "final_answer (EvSend code msg) \<longleftrightarrow> 200 \<le> code \<and> code < 600"
| "final_answer (EvSendErrno code msg n) \<longleftrightarrow> 200 \<le> code \<and> code < 600"
| "final_answer _ \<longleftrightarrow> False"

text \<open>The handler returns 0 after a final answer.\<close>

definition answers :: "('a sys_scheme, int option) state \<Rightarrow> bool" where
  "answers m \<longleftrightarrow> (\<forall>s r s'. run_state m s = (r, s') \<longrightarrow> r = Some 0 \<and> (\<exists>ev h. hist s' = ev # h \<and> final_answer ev))"

text \<open>The command lines for which the source has no defined behaviour, or whose operation may have none.\<close>

definition overruns :: "string list \<Rightarrow> bool" where
  "overruns argv \<longleftrightarrow> length argv \<ge> 2 \<and>
     (argv ! 0 = ''interface'' \<and> argv ! 1 = ''setcfg'' \<and> length argv = 4 \<or>
      argv ! 0 = ''pppd'' \<and> argv ! 1 = ''attach'' \<and> 3 \<le> length argv \<and> length argv < 7 \<or>
      argv ! 0 = ''softap'' \<and> argv ! 1 = ''set'' \<and>
        (length argv = 5 \<or> length argv = 7 \<and> argv ! 6 \<noteq> ''open'' \<or>
         length argv > 7 \<and> argv ! 6 \<notin> {''wpa-psk'', ''wpa2-psk'', ''open''}) \<or>
      argv ! 0 = ''network'' \<and> argv ! 1 = ''destroy'' \<and> length argv = 3)"

definition asks_stats :: "string list \<Rightarrow> bool" where
  "asks_stats argv \<longleftrightarrow> length argv \<ge> 2 \<and> argv ! 0 = ''bandwidth'' \<and> argv ! 1 \<in> {''gettetherstats'', ''gts''}"

section \<open>Rules\<close>

lemma answersD: "answers m \<Longrightarrow> run_state m s = (r, s') \<Longrightarrow> r = Some 0 \<and> (\<exists>ev h. hist s' = ev # h \<and> final_answer ev)"
  by (simp add: answers_def)

lemma answers_bind: "(\<And>x. answers (k x)) \<Longrightarrow> answers (State_Monad.bind m k)"
  by (auto simp: answers_def run_simps split: prod.splits)

lemma answers_if: "(b \<Longrightarrow> answers m) \<Longrightarrow> (\<not> b \<Longrightarrow> answers k) \<Longrightarrow> answers (if b then m else k)"
  by simp

lemma answers_case_option: "(x = None \<Longrightarrow> answers m) \<Longrightarrow> (\<And>a. x = Some a \<Longrightarrow> answers (k a)) \<Longrightarrow> answers (case x of None \<Rightarrow> m | Some a \<Rightarrow> k a)"
  by (cases x) simp_all

lemma answers_case_prod: "(\<And>a b. x = (a, b) \<Longrightarrow> answers (k a b)) \<Longrightarrow> answers (case x of (a, b) \<Rightarrow> k a b)"
  by (cases x) simp

lemma answers_reply: "200 \<le> code \<Longrightarrow> code < 600 \<Longrightarrow> answers (reply code msg)"
  by (simp add: answers_def reply_def sendMsg_def run_simps log_event_def)

lemma answers_reply_errno: "200 \<le> code \<Longrightarrow> code < 600 \<Longrightarrow> answers (reply_errno code msg)"
  by (simp add: answers_def reply_errno_def sendMsgErrno_def run_simps log_event_def)

lemmas final_codes = CommandOkay_def OperationFailed_def CommandSyntaxError_def CommandParameterError_def
  TetherStatusResult_def IpFwdStatusResult_def InterfaceGetCfgResult_def SoftapStatusResult_def QuotaCounterResult_def
  ClatdStatusResult_def ServiceStartFailed_def

lemma answers_helpers:
  "answers (ok_or_failed x y rc)" "answers (ok_or_errno x y rc)" "answers (tether_done rc)"
  "answers (sendGenericSyntaxError x)" "answers (bw_sendGenericOkFail rc)" "answers (sendGenericOpFailed x)"
  "answers (fw_sendGenericOkFail rc)" "answers (route_done x y)"
  by (simp_all add: ok_or_failed_def ok_or_errno_def tether_done_def sendGenericSyntaxError_def bw_sendGenericOkFail_def
      sendGenericOpFailed_def fw_sendGenericOkFail_def route_done_def answers_reply answers_reply_errno final_codes)

lemma answers_network_helpers: "answers (syntaxError x)" "answers (answer x rc)" "answers success"
  by (simp_all add: answers_def syntaxError_def answer_def operationError_def success_def sendMsg_def sendMsgErrno_def
      run_simps log_event_def final_codes)

lemma answers_codes:
  "answers (reply CommandOkay x)" "answers (reply OperationFailed x)" "answers (reply CommandSyntaxError x)"
  "answers (reply CommandParameterError x)" "answers (reply TetherStatusResult x)" "answers (reply IpFwdStatusResult x)"
  "answers (reply InterfaceGetCfgResult x)" "answers (reply SoftapStatusResult x)" "answers (reply QuotaCounterResult x)"
  "answers (reply ClatdStatusResult x)" "answers (reply_errno OperationFailed x)"
  by (simp_all add: answers_reply answers_reply_errno final_codes)

lemmas answers_rules = answers_bind answers_if answers_case_option answers_case_prod answers_helpers answers_network_helpers
  answers_codes

section \<open>Handlers\<close>

lemma answers_cfg_apply: "answers (cfg_apply e iface flags)"
  by (induction flags) (auto intro!: answers_rules)

lemma answers_interface:
  assumes "\<not> (length argv = 4 \<and> argv ! 1 = ''setcfg'')"
  shows "answers (InterfaceCmd_runCommand e net argv)"
proof -
  have "answers (interface_setcfg e argv)" if "argv ! 1 = ''setcfg''"
    using that assms unfolding interface_setcfg_def by (auto intro!: answers_rules answers_cfg_apply)
  then show ?thesis
    unfolding InterfaceCmd_runCommand_def interface_list_def interface_getcfg_def interface_toggle_def interface_setmtu_def
    by (intro answers_rules) auto
qed

lemma answers_ppp: "answers (ListTtysCmd_runCommand e)"
  unfolding ListTtysCmd_runCommand_def by (intro answers_rules)

lemma answers_pppd: "\<not> (3 \<le> length argv \<and> length argv < 7 \<and> argv ! 1 = ''attach'') \<Longrightarrow> answers (PppdCmd_runCommand e argv)"
  unfolding PppdCmd_runCommand_def Let_def by (auto intro!: answers_rules)

lemma answers_tether: "answers (TetherCmd_runCommand e argv)"
  unfolding TetherCmd_runCommand_def tether_three_def tether_four_def Let_def by (intro answers_rules)

lemma answers_resolver: "answers (ResolverCmd_runCommand e argv)"
  unfolding ResolverCmd_runCommand_def Let_def by (intro answers_rules)

lemma answers_bandwidth_loops: "answers (bw_setquotas e b ifaces)" "answers (bw_removequotas e ifaces)"
  by (induction ifaces) (auto intro!: answers_rules)

lemma answers_bw_parts:
  "answers (bw_simple b x m)" "answers (bw_getquota k)" "answers (bw_happybox e argv)"
  unfolding bw_simple_def bw_getquota_def bw_happybox_def by (intro answers_rules)+

lemma answers_bandwidth:
  assumes "\<not> (length argv \<ge> 2 \<and> argv ! 1 \<in> {''gettetherstats'', ''gts''})"
  shows "answers (BandwidthControlCmd_runCommand e pairs argv)"
proof -
  have "answers m" if "bw_quota_cmd e argv = Some m" for m
    using that by (auto simp: bw_quota_cmd_def Let_def split: if_splits intro!: answers_rules answers_bw_parts answers_bandwidth_loops)
  moreover have "answers m" if "bw_apps_cmd e argv = Some m" for m
    using that by (auto simp: bw_apps_cmd_def Let_def split: if_splits intro!: answers_bw_parts)
  moreover have "answers m" if "bw_alert_cmd e argv = Some m" for m
    using that by (auto simp: bw_alert_cmd_def Let_def split: if_splits intro!: answers_bw_parts)
  ultimately show ?thesis
    using assms unfolding BandwidthControlCmd_runCommand_def by (auto intro!: answers_rules)
qed

lemma answers_traffic:
  "answers (IdletimerControlCmd_runCommand e argv)" "answers (FirewallCmd_runCommand e argv)" "answers (ClatdCmd_runCommand e argv)"
  unfolding IdletimerControlCmd_runCommand_def FirewallCmd_runCommand_def ClatdCmd_runCommand_def Let_def
  by (intro answers_rules)+

lemma answers_route: "answers (QcRouteCmd_runCommand e net argv)"
  unfolding QcRouteCmd_runCommand_def route_replace_src_def route_del_src_def route_replace_def_def route_add_def_def
    route_add_dst_def route_del_dst_def Let_def
  by (intro answers_rules)

lemma answers_network: "\<not> (argv ! 1 = ''destroy'' \<and> length argv = 3) \<Longrightarrow> answers (NetworkCommand_runCommand e argv)"
  unfolding NetworkCommand_runCommand_def network_route_def network_interface_def network_create_def network_default_def
    network_destroy_def network_permission_def network_users_def network_protect_def Let_def
  by (intro answers_rules) simp

text \<open>The handler of \<^verbatim>\<open>softap\<close> sends the number that the controller returns.\<close>

definition final_code :: "int \<Rightarrow> bool" where
  "final_code c \<longleftrightarrow> 200 \<le> c \<and> c < 600"

lemma answers_bind_code:
  "(\<And>s. P (fst (run_state m s))) \<Longrightarrow> (\<And>x. P x \<Longrightarrow> answers (k x)) \<Longrightarrow> answers (State_Monad.bind m k)"
  unfolding answers_def run_simps by (metis (no_types, lifting) case_prod_unfold prod.collapse)

lemma softap_codes:
  "final_code (fst (run_state (startSoftap e f) s1))" "final_code (fst (run_state (stopSoftap e) s1))"
  "final_code (fst (run_state (fwReloadSoftap e g argv) s2))"
  by (simp_all add: startSoftap_def stopSoftap_def fwReloadSoftap_def run_simps final_code_def final_codes Let_def
      split: option.splits)

lemma setSoftap_code:
  assumes "\<not> (length argv = 5 \<or> length argv = 7 \<and> argv ! 6 \<noteq> ''open'' \<or>
              length argv > 7 \<and> argv ! 6 \<notin> {''wpa-psk'', ''wpa2-psk'', ''open''})"
  shows "\<exists>c. fst (run_state (setSoftap e pbkdf2 argv) s) = Some c \<and> final_code c"
proof -
  have "\<exists>fbuf. ap_security pbkdf2 argv w = Some fbuf" for w
    using assms by (simp add: ap_security_def Let_def) fastforce
  then obtain f where f: "\<And>w. ap_security pbkdf2 argv w = Some (f w)" by metis
  show ?thesis using assms by (simp add: setSoftap_def f run_simps final_code_def final_codes Let_def)
qed

lemma answers_softap:
  assumes "\<not> (length argv \<ge> 2 \<and> argv ! 1 = ''set'' \<and>
    (length argv = 5 \<or> length argv = 7 \<and> argv ! 6 \<noteq> ''open'' \<or>
     length argv > 7 \<and> argv ! 6 \<notin> {''wpa-psk'', ''wpa2-psk'', ''open''}))"
  shows "answers (SoftapCmd_runCommand e pbkdf2 fw entropy argv)"
proof -
  have finish: "answers (reply c msg :: ('a softap_scheme, int option) state)" if "final_code c" for c msg
    using that by (simp add: final_code_def answers_reply)
  have set: "answers (do { rc \<leftarrow> setSoftap e pbkdf2 argv; case rc of None \<Rightarrow> ret None | Some rc \<Rightarrow> reply rc (f rc) }
      :: ('a softap_scheme, int option) state)" if "length argv \<ge> 2" "argv ! 1 = ''set''" for f
  proof (rule answers_bind_code [of "\<lambda>r. \<exists>c. r = Some c \<and> final_code c"])
    show "\<exists>c. fst (run_state (setSoftap e pbkdf2 argv) s) = Some c \<and> final_code c" for s :: "'a softap_scheme"
      using assms that by (intro setSoftap_code) blast
  qed (auto intro!: finish)
  show ?thesis
    unfolding SoftapCmd_runCommand_def Let_def
    by (intro answers_if answers_codes answers_bind_code [of final_code] softap_codes finish set) 
      (auto intro!: answers_rules)
qed

section \<open>The daemon\<close>

lemma answers_on:
  "answers m1 \<Longrightarrow> answers (on_tether m1)" "answers m2 \<Longrightarrow> answers (on_bw m2)" "answers m3 \<Longrightarrow> answers (on_ppp m3)"
  "answers m4 \<Longrightarrow> answers (on_softap m4)"
  by (auto simp: answers_def on_tether_def on_bw_def on_ppp_def on_softap_def split: prod.splits)

lemma answers_ipfwd_nat: "answers (IpFwdCmd_runCommand e argv)" "answers (NatCmd_runCommand e argv)"
  unfolding IpFwdCmd_runCommand_def NatCmd_runCommand_def Let_def by (intro answers_rules)+

lemma answers_registered:
  assumes "map_of (registered e l) name = Some run" and "\<not> overruns (name # args)" and "\<not> asks_stats (name # args)"
  shows "answers (run (name # args))"
  using assms
  by (auto simp: registered_def overruns_def asks_stats_def split: if_splits
      intro!: answers_interface answers_ipfwd_nat answers_on answers_tether answers_ppp answers_pppd answers_softap
        answers_bind answers_bandwidth answers_traffic answers_resolver answers_network answers_route)

section \<open>Properties\<close>


definition sample_daemon :: daemon where
  "sample_daemon = \<lparr>hist = [], interfaceToTable = [], mDefaultNetId = 0, mNetworks = [], mUsers = [], mProtectableUsers = [],
     mClatdPids = [], d_tether = sample_tether, d_nat = sample_nat,
     d_bw = \<lparr>hist = [], sharedQuotaIfaces = [], sharedQuotaBytes = 0, sharedAlertBytes = 0, globalAlertBytes = 0,
       globalAlertTetherCount = 0, quotaIfaces = [], naughtyAppUids = [], niceAppUids = []\<rparr>,
     d_ppp = \<lparr>hist = [], mTtys = [], ppp_mPid = 0\<rparr>, d_softap = \<lparr>hist = [], sap_mPid = 0\<rparr>,
     iWlanFwdEnable = False, fwIpFwdEnable = False\<rparr>"

definition sample_libs :: libs where
  "sample_libs = \<lparr>l_net = sample_net, l_pbkdf2 = (\<lambda>p s. []), l_fw_path = (\<lambda>k. None), l_entropy = ''/data/misc/wifi/entropy.bin''\<rparr>"


text \<open>
  A client that asks for the statistics of one pair is left without any answer when iptables prints no counters of the pair
  and ip6tables cannot be run.
\<close>

lemma stats_unanswered:
  assumes "env_popen e (hist d) (IPTABLES_PATH @ '' -nvx -L '' @ nat_TETHER_COUNTERS) = Some []"
    and "\<And>h. env_popen e h (IP6TABLES_PATH @ '' -nvx -L '' @ nat_TETHER_COUNTERS) = None" and "i \<noteq> []" and "x \<noteq> []"
    and "run_state (BandwidthControlCmd_runCommand e pairs [''bandwidth'', ''gettetherstats'', i, x]) d = (r, d')"
  shows "r = Some 0 \<and> (\<forall>ev\<in>set (take 2 (hist d')). \<not> final_answer ev) \<and> drop 2 (hist d') = hist d"
  using assms
  by (auto simp: BandwidthControlCmd_runCommand_def bw_quota_cmd_def bw_apps_cmd_def bw_alert_cmd_def bw_gettetherstats_def
      getTetherStats_def ipt_lines_def fgets_lines_def parseForwardChainStats_def new_TetherStats_def run_simps Let_def split: if_splits)

end
