(* ===== verification/DaemonChains.thy ===== *)
theory DaemonChains
  imports DaemonAnswers
begin

text \<open>
  The daemon and the chains of iptables: what the constructor of \<^verbatim>\<open>CommandListener\<close> leaves in the top-level chains, and that
  no command changes them afterwards (\<^verbatim>\<open>This is the only time we touch top-level chains in iptables\<close>, as the source says).
\<close>

section \<open>Specification\<close>

definition top_chains :: "string set" where
  "top_chains = {''INPUT'', ''OUTPUT'', ''FORWARD'', ''PREROUTING'', ''POSTROUTING''}"

definition same_tops :: "chains \<Rightarrow> chains \<Rightarrow> bool" where
  "same_tops c c' \<longleftrightarrow> (\<forall>path table chain. chain \<in> top_chains \<longrightarrow> c (path, table, chain) = c' (path, table, chain))"

text \<open>The rule that jumps to a chain of the daemon.\<close>

definition jump_rule :: "string \<Rightarrow> rule_args" where
  "jump_rule child = [''-j'', child]"

text \<open>
  A world in which iptables refuses a command only if it would have no effect (deleting a rule or a chain that is not there).
\<close>

definition no_spurious :: "env \<Rightarrow> chains \<Rightarrow> bool" where
  "no_spurious e c0 \<longleftrightarrow>
     (\<forall>h argv. (case env_exec e h argv of (res, status) \<Rightarrow> exec_ok res status) \<or> ipt_run argv (chains_of c0 h) = chains_of c0 h)"

text \<open>The chains of the daemon, by table and parent, in the order that the source declares.\<close>

definition hooks :: "(IptablesTarget \<times> string \<times> string \<times> string list) set" where
  "hooks = {(V4V6, ''filter'', ''INPUT'', FILTER_INPUT), (V4V6, ''filter'', ''FORWARD'', FILTER_FORWARD),
     (V4V6, ''filter'', ''OUTPUT'', FILTER_OUTPUT), (V4V6, ''raw'', ''PREROUTING'', RAW_PREROUTING),
     (V4V6, ''mangle'', ''POSTROUTING'', MANGLE_POSTROUTING), (V4, ''mangle'', ''FORWARD'', MANGLE_FORWARD),
     (V4, ''nat'', ''PREROUTING'', NAT_PREROUTING), (V4, ''nat'', ''POSTROUTING'', NAT_POSTROUTING)}"

definition paths :: "IptablesTarget \<Rightarrow> string set" where
  "paths t = (if t = V4 \<or> t = V4V6 then {IPTABLES_PATH} else {}) \<union> (if t = V6 \<or> t = V4V6 then {IP6TABLES_PATH} else {})"

text \<open>A command line that leaves the top-level chains alone, whatever they are.\<close>

definition spares_tops :: "string list \<Rightarrow> bool" where
  "spares_tops argv \<longleftrightarrow> (\<forall>c. same_tops (ipt_run argv c) c)"

abbreviation tops_at :: "chains \<Rightarrow> chains \<Rightarrow> 'a sys_scheme \<Rightarrow> bool" where
  "tops_at c0 g s \<equiv> same_tops (chains_at c0 s) g"

section \<open>Commands that spare the top-level chains\<close>

lemma sparesD: "spares_tops argv \<Longrightarrow> same_tops c g \<Longrightarrow> same_tops (ipt_run argv c) g"
  by (simp add: spares_tops_def same_tops_def)

lemma ipt_run_at:
  "take_table (skip_wait args) = (table, op # chain # rule) \<Longrightarrow> chain \<notin> top_chains \<Longrightarrow> spares_tops (path # args)"
  by (auto simp: spares_tops_def same_tops_def ipt_run_def)

lemma spares_forms:
  assumes "chain \<notin> top_chains" and "op \<noteq> ''-t''"
  shows "op \<noteq> ''-w'' \<Longrightarrow> spares_tops (path # op # chain # rule)"
    and "spares_tops (path # ''-w'' # op # chain # rule)"
    and "spares_tops (path # ''-t'' # table # op # chain # rule)"
    and "spares_tops (path # ''-w'' # ''-t'' # table # op # chain # rule)"
  by (rule ipt_run_at [OF _ assms(1)]; use assms in \<open>simp add: skip_wait_def take_table_def\<close>)+

lemma keeps_tops_execIptables:
  "(\<And>path. spares_tops (path # args)) \<Longrightarrow> keeps (tops_at c0 g) (execIptables e t args)"
  by (intro keeps_chains_execIptables sparesD)

lemma keeps_tops_execvp0: "spares_tops argv \<Longrightarrow> keeps (tops_at c0 g) (fork_execvp0 e argv)"
  by (intro keeps_chains_execvp0 sparesD)

lemma keeps_tops_execvp:
  "spares_tops argv \<Longrightarrow> keeps (tops_at c0 g) (fork_execvp e argv)"
  by (rule hoareI) (auto simp: run_simps sparesD)

text \<open>Everything else that the controllers do has no effect on the chains.\<close>

lemma tops_other:
  "keeps (tops_at c0 g) (popen_read e cmd)" "keeps (tops_at c0 g) (read_path e p)" "keeps (tops_at c0 g) (fprintf_path e p t)"
  "keeps (tops_at c0 g) (sendMsg c m)" "keeps (tops_at c0 g) (sendMsgErrno c m n)" "keeps (tops_at c0 g) (log_event (EvSend c m))"
  "keeps (tops_at c0 g) (netlink_io e msg)" "keeps (tops_at c0 g) (if_nametoindex e i)" "keeps (tops_at c0 g) (reply c m)"
  "keeps (tops_at c0 g) (reply_errno c m)"
  by (simp_all add: hoare_def run_simps sendMsg_def sendMsgErrno_def reply_def reply_errno_def)

lemma tops_modify: "(\<And>s. hist (f s) = hist s) \<Longrightarrow> keeps (tops_at c0 g) (modify f)"
  by (rule keeps_modify) simp

lemma own_chains:
  "fw_LOCAL_INPUT \<notin> top_chains" "fw_LOCAL_OUTPUT \<notin> top_chains" "fw_LOCAL_FORWARD \<notin> top_chains"
  "idle_RAW_PREROUTING \<notin> top_chains" "idle_MANGLE_POSTROUTING \<notin> top_chains"
  "nat_FORWARD \<notin> top_chains" "nat_POSTROUTING \<notin> top_chains" "nat_MANGLE_FORWARD \<notin> top_chains" "nat_TETHER_COUNTERS \<notin> top_chains"
  by (simp_all add: top_chains_def fw_chain_defs idle_RAW_PREROUTING_def idle_MANGLE_POSTROUTING_def nat_FORWARD_def nat_POSTROUTING_def
      nat_MANGLE_FORWARD_def nat_TETHER_COUNTERS_def)

section \<open>firewall and idletimer\<close>

lemma tops_fw_command: "op \<noteq> ''-t'' \<Longrightarrow> chain \<notin> top_chains \<Longrightarrow> keeps (tops_at c0 g) (execIptables e t (''-w'' # op # chain # rule))"
  by (intro keeps_tops_execIptables spares_forms)

lemma tops_fw_run: "keeps (tops_at c0 g) (fw_run e call)"
  by (cases call)
    (auto simp: setInterfaceRule_def setEgressSourceRule_def setEgressDestRule_def setUidRule_def Let_def own_chains
      intro!: wp_basic tops_fw_command)

lemma tops_fw_switch: "keeps (tops_at c0 g) (enableFirewall e)" "keeps (tops_at c0 g) (disableFirewall e)"
  unfolding enableFirewall_def disableFirewall_def or_all.simps
  by (intro wp_basic tops_fw_command own_chains; simp)+

lemma tops_firewall: "keeps (tops_at c0 g) (FirewallCmd_runCommand e argv)"
  unfolding FirewallCmd_runCommand_def fw_sendGenericOkFail_def ok_or_failed_def or_all.simps Let_def
  by (intro wp_basic tops_other tops_fw_switch tops_fw_run [of _ _ _ "InterfaceRule i r" for i r, simplified]
      tops_fw_run [of _ _ _ "EgressSourceRule i r" for i r, simplified]
      tops_fw_run [of _ _ _ "EgressDestRule i p q r" for i p q r, simplified] tops_fw_run [of _ _ _ "UidRule i r" for i r, simplified])

lemma tops_idle_run: "op \<noteq> ''-t'' \<Longrightarrow> chain \<notin> top_chains \<Longrightarrow> keeps (tops_at c0 g) (idle_runIpxtablesCmd e (''-t'' # table # op # chain # rule))"
  unfolding idle_runIpxtablesCmd_def by (intro wp_basic keeps_tops_execvp0 spares_forms)

lemma tops_idletimer: "keeps (tops_at c0 g) (IdletimerControlCmd_runCommand e argv)"
  unfolding IdletimerControlCmd_runCommand_def enableIdletimerControl_def disableIdletimerControl_def idle_setDefaults_def
    addInterfaceIdletimer_def removeInterfaceIdletimer_def modifyInterfaceIdletimer_def ok_or_failed_def Let_def
  by (intro wp_basic tops_other tops_idle_run own_chains; simp)

section \<open>nat\<close>

lemma tops_nat_run: "spares_tops argv \<Longrightarrow> keeps (tops_at c0 g) (nat_runCmd e argv)"
  unfolding nat_runCmd_def by (rule keeps_tops_execvp0)

lemma tops_nat_defaults: "keeps (tops_at c0 g) (nat_setDefaults e)"
  unfolding nat_setDefaults_def run_commands_def
  by (auto intro!: wp_basic tops_nat_run tops_modify spares_forms own_chains)

lemma tops_nat_rules:
  "keeps (tops_at c0 g) (setTetherCountingRules e add i x)" "keeps (tops_at c0 g) (setForwardRules e add i x)"
  "keeps (tops_at c0 g) (unwind_first e)"
proof -
  show 1: "keeps (tops_at c0 g) (setTetherCountingRules e add i x)"
    unfolding setTetherCountingRules_def
    by (auto intro!: wp_basic tops_nat_run tops_modify spares_forms own_chains)
  show "keeps (tops_at c0 g) (setForwardRules e add i x)"
    unfolding setForwardRules_def Let_def append.simps
    by (intro wp_basic tops_nat_run 1 spares_forms own_chains; simp)
  show "keeps (tops_at c0 g) (unwind_first e)"
    unfolding unwind_first_def by (intro wp_basic tops_nat_defaults)
qed

lemma tops_tethering: "keeps (tops_at c0 g) (enableTethering e i x)" "keeps (tops_at c0 g) (disableTethering e i x)"
  unfolding enableTethering_def disableTethering_def modifyTetheredNetwork_def getRouteTableForInterface_def modifyIpRule_def
    sendNetlinkRequest_def
  by (intro wp_basic tops_other tops_modify; simp)+

lemma tops_nat: "keeps (tops_at c0 g) (enableNat e i x)" "keeps (tops_at c0 g) (disableNat e i x)"
  unfolding enableNat_def disableNat_def nat_set_errno_def
  by (intro wp_basic tops_nat_run tops_nat_defaults tops_nat_rules tops_tethering tops_modify spares_forms own_chains; simp)+

section \<open>bandwidth\<close>

text \<open>Splitting a command text at spaces.\<close>

lemma strsep_prefix: "c \<notin> set w \<Longrightarrow> \<exists>x ys. strsep_all c (w @ rest) = (w @ x) # ys"
proof (induction w)
  case Nil
  show ?case by (cases rest) (auto split: list.split)
next
  case (Cons a w)
  then show ?case by auto
qed

text \<open>A text of which the split command line, for both programs, leaves the top-level chains alone.\<close>

definition bw_spares :: "string \<Rightarrow> bool" where
  "bw_spares cmd \<longleftrightarrow> (\<forall>v rest. spares_tops (strsep_all (CHR '' '') (ipt_path v @ '' '' @ cmd @ rest)))"

lemma path_word: "CHR '' '' \<notin> set (ipt_path v)"
  by (simp add: ipt_path_def IPTABLES_PATH_def IP6TABLES_PATH_def)

lemma strsep_words:
  "\<forall>w\<in>set ws. c \<notin> set w \<Longrightarrow> strsep_all c (concat (map (\<lambda>w. w @ [c]) ws) @ rest) = ws @ strsep_all c rest"
  by (induction ws) (simp_all add: strsep_word)

lemma bw_sparesI:
  assumes "\<forall>w\<in>set ws. CHR '' '' \<notin> set w" and "\<And>path x ys. spares_tops (path # ws @ (''bw_'' @ x) # ys)"
  shows "bw_spares (concat (map (\<lambda>w. w @ '' '') ws) @ ''bw_'' @ text)"
  unfolding bw_spares_def
proof (intro allI)
  fix v and rest :: string
  have "CHR '' '' \<notin> set ''bw_''" by simp
  from strsep_prefix [OF this, of "text @ rest"] obtain x ys where "strsep_all (CHR '' '') (''bw_'' @ text @ rest) = (''bw_'' @ x) # ys"
    by blast
  with strsep_words [of "ipt_path v # ws" "CHR '' ''" "''bw_'' @ text @ rest"] path_word assms(1)
  have "strsep_all (CHR '' '') (ipt_path v @ '' '' @ (concat (map (\<lambda>w. w @ '' '') ws) @ ''bw_'' @ text) @ rest) =
      ipt_path v # ws @ (''bw_'' @ x) # ys" by simp
  with assms(2) show "spares_tops (strsep_all (CHR '' '') (ipt_path v @ '' '' @ (concat (map (\<lambda>w. w @ '' '') ws) @ ''bw_'' @ text) @ rest))"
    by (simp only:)
qed

lemma bw_chain: "''bw_'' @ x \<notin> top_chains"
  by (simp add: top_chains_def)

lemma bw_spares_forms:
  assumes "CHR '' '' \<notin> set op" and "op \<noteq> ''-t''" and "op \<noteq> ''-w''" and "CHR '' '' \<notin> set table"
  shows "bw_spares (op @ '' bw_'' @ text)" "bw_spares (''-w '' @ op @ '' bw_'' @ text)" "bw_spares (''-t '' @ table @ '' '' @ op @ '' bw_'' @ text)"
    "bw_spares (''-w -t '' @ table @ '' '' @ op @ '' bw_'' @ text)"
proof -
  have "bw_spares (concat (map (\<lambda>w. w @ '' '') ws) @ ''bw_'' @ text)"
    if "ws \<in> {[op], [''-w'', op], [''-t'', table, op], [''-w'', ''-t'', table, op]}" for ws
    by (rule bw_sparesI) (use that assms bw_chain in \<open>auto intro!: spares_forms\<close>)
  from this [of "[op]"] this [of "[''-w'', op]"] this [of "[''-t'', table, op]"] this [of "[''-w'', ''-t'', table, op]"]
  show "bw_spares (op @ '' bw_'' @ text)" "bw_spares (''-w '' @ op @ '' bw_'' @ text)"
    "bw_spares (''-t '' @ table @ '' '' @ op @ '' bw_'' @ text)" "bw_spares (''-w -t '' @ table @ '' '' @ op @ '' bw_'' @ text)"
    by simp_all
qed

lemma bw_spares_op: "bw_spares (op_flag op @ '' bw_'' @ text)"
  by (rule bw_spares_forms(1) [of _ "[]"]) (simp_all add: op_flag_def split: IptOp.split)

lemma bw_spares_prefix:
  "bw_spares (CHR ''-'' # CHR ''F'' # '' bw_'' @ text)" "bw_spares (CHR ''-'' # CHR ''X'' # '' bw_'' @ text)"
  "bw_spares (CHR ''-'' # CHR ''N'' # '' bw_'' @ text)" "bw_spares (CHR ''-'' # CHR ''A'' # '' bw_'' @ text)"
  "bw_spares (CHR ''-'' # CHR ''D'' # '' bw_'' @ text)" "bw_spares (CHR ''-'' # CHR ''I'' # '' bw_'' @ text)"
  using bw_spares_forms(1) [of "''-F''" "[]"] bw_spares_forms(1) [of "''-X''" "[]"] bw_spares_forms(1) [of "''-N''" "[]"]
    bw_spares_forms(1) [of "''-A''" "[]"] bw_spares_forms(1) [of "''-D''" "[]"] bw_spares_forms(1) [of "''-I''" "[]"] by simp_all

lemma bw_spares_cmd_text: "bw_spares (cmd_text (CHR ''-'' # f # '' bw_'' @ text))" if "f \<in> set ''FXNADI''"
  using that by (auto simp: cmd_text_def MAX_CMD_LEN_def bw_spares_prefix [simplified])

lemma tops_bw_run: "bw_spares cmd \<Longrightarrow> keeps (tops_at c0 g) (bw_runIpxtablesCmd e cmd j)"
  unfolding bw_runIpxtablesCmd_def runIptablesCmd_def or_all.simps Let_def
  by (intro wp_basic keeps_tops_execvp) (simp_all add: bw_spares_def)

lemma tops_runCommands: "(\<And>cmd. cmd \<in> set cmds \<Longrightarrow> bw_spares cmd) \<Longrightarrow> keeps (tops_at c0 g) (runCommands e cmds h)"
  unfolding runCommands_def by (intro wp_basic tops_bw_run)

lemma bw_spares_constants:
  "cmd \<in> set IPT_FLUSH_COMMANDS \<Longrightarrow> bw_spares cmd" "cmd \<in> set IPT_CLEANUP_COMMANDS \<Longrightarrow> bw_spares cmd"
  "cmd \<in> set IPT_SETUP_COMMANDS \<Longrightarrow> bw_spares cmd" "cmd \<in> set IPT_BASIC_ACCOUNTING_COMMANDS \<Longrightarrow> bw_spares cmd"
  using bw_spares_forms(2) [of "''-N''" "[]"] bw_spares_forms(2) [of "''-A''" "[]"]
    bw_spares_forms(3,4) [of "''-F''" "''raw''"] bw_spares_forms(3,4) [of "''-F''" "''mangle''"]
    bw_spares_forms(4) [of "''-A''" "''raw''"] bw_spares_forms(4) [of "''-A''" "''mangle''"]
  by (auto simp: IPT_FLUSH_COMMANDS_def IPT_CLEANUP_COMMANDS_def IPT_SETUP_COMMANDS_def IPT_BASIC_ACCOUNTING_COMMANDS_def
      bw_spares_prefix [simplified])

lemmas bw_spares_simps [simp] = bw_spares_prefix [simplified] bw_spares_cmd_text [simplified]

lemma tops_flush: "keeps (tops_at c0 g) (parseAndFlushCostlyTables e d fp)" "keeps (tops_at c0 g) (flushCleanTables e d)"
proof -
  show *: "keeps (tops_at c0 g) (parseAndFlushCostlyTables e d fp)" for fp
    by (induction fp) (auto intro!: wp_basic tops_bw_run)
  show "keeps (tops_at c0 g) (flushCleanTables e d)"
    unfolding flushCleanTables_def flushExistingCostlyTables_def
    by (auto intro!: wp_basic * tops_other tops_runCommands dest: bw_spares_constants)
qed

lemma tops_bw_switch:
  "keeps (tops_at c0 g) (bw_setupIptablesHooks e)" "keeps (tops_at c0 g) (enableBandwidthControl e b p)"
  "keeps (tops_at c0 g) (disableBandwidthControl e)"
  unfolding bw_setupIptablesHooks_def enableBandwidthControl_def disableBandwidthControl_def
  by (auto intro!: wp_basic tops_flush tops_runCommands tops_modify dest: bw_spares_constants)

lemma tops_happy_box: "keeps (tops_at c0 g) (enableHappyBox e)" "keeps (tops_at c0 g) (disableHappyBox e)"
  unfolding enableHappyBox_def disableHappyBox_def
  by (auto intro!: wp_basic tops_modify tops_bw_run)

lemma tops_special:
  assumes "\<And>f s. hist (upd f s) = hist s" and "chain = ''bw_'' @ x"
  shows "keeps (tops_at c0 g) (manipulateSpecialApps e uids chain get upd j appOp)"
proof -
  have "bw_spares (makeIptablesSpecialAppCmd op uid chain)" if "op \<noteq> IptOpAppend" for op uid
    using that bw_spares_op [of op "x @ '' -m owner --uid-owner '' @ fmt_d uid"] assms(2) by (simp add: makeIptablesSpecialAppCmd_def)
  then have "keeps (tops_at c0 g) (special_apps_loop e chain get upd j appOp us)" for us
    by (induction us) (auto intro!: wp_basic tops_bw_run tops_modify assms(1))
  then show ?thesis unfolding manipulateSpecialApps_def by (intro wp_basic)
qed

lemma tops_apps:
  "keeps (tops_at c0 g) (addNaughtyApps e uids)" "keeps (tops_at c0 g) (removeNaughtyApps e uids)"
  "keeps (tops_at c0 g) (addNiceApps e uids)" "keeps (tops_at c0 g) (removeNiceApps e uids)"
  unfolding addNaughtyApps_def removeNaughtyApps_def addNiceApps_def removeNiceApps_def manipulateNaughtyApps_def manipulateNiceApps_def
  by (rule tops_special; simp)+

lemma cost_chain_bw: "\<exists>x. cost_chain i q = ''bw_'' @ x"
  by (cases q) (simp_all add: cost_chain_def)

lemma tops_costly: "keeps (tops_at c0 g) (prepCostlyIface e i q)" "keeps (tops_at c0 g) (cleanupCostlyIface e i q)"
proof -
  obtain x where x: "cost_chain i q = ''bw_'' @ x" using cost_chain_bw by blast
  show "keeps (tops_at c0 g) (prepCostlyIface e i q)"
    unfolding prepCostlyIface_def Let_def x by (intro wp_basic tops_bw_run) simp_all
  show "keeps (tops_at c0 g) (cleanupCostlyIface e i q)"
    unfolding cleanupCostlyIface_def Let_def x by (intro keeps_or_all) (auto intro!: tops_bw_run split: if_splits)
qed

lemma bw_spares_quota: "bw_spares (makeIptablesQuotaCmd op n q)"
  using bw_spares_op [of op "''costly_'' @ n @ '' -m quota2 ! --quota '' @ fmt_d q @ '' --name '' @ n"] by (simp add: makeIptablesQuotaCmd_def)

lemma bw_spares_alert:
  "bw_spares (alert_cmd (op_flag op) (''bw_'' @ x) b n)" "bw_spares (alert_cmd ''-A'' (''bw_'' @ x) b n)" "bw_spares (alert_cmd ''-D'' (''bw_'' @ x) b n)"
  using bw_spares_op [of op "x @ '' -m quota2 ! --quota '' @ fmt_d b @ '' --name '' @ n"] by (simp_all add: alert_cmd_def)

lemma tops_updateQuota: "keeps (tops_at c0 g) (updateQuota e n b)" "keeps (tops_at c0 g) (getInterfaceQuota e n)"
  unfolding updateQuota_def getInterfaceQuota_def by (intro wp_basic tops_other)+

lemma tops_alerts:
  "keeps (tops_at c0 g) (setCostlyAlert e n b a)" "keeps (tops_at c0 g) (removeCostlyAlert e n a)"
  "keeps (tops_at c0 g) (runIptablesAlertCmd e op n b)" "keeps (tops_at c0 g) (runIptablesAlertFwdCmd e op n b)"
  unfolding setCostlyAlert_def removeCostlyAlert_def runIptablesAlertCmd_def runIptablesAlertFwdCmd_def or_all.simps Let_def
  by (intro wp_basic tops_updateQuota tops_bw_run;
      use bw_spares_alert(2,3) [of "''costly_'' @ n"] bw_spares_alert(1) [of op "''INPUT''"] bw_spares_alert(1) [of op "''OUTPUT''"]
        bw_spares_alert(1) [of op "''FORWARD''"] in simp)+

lemma tops_global_alerts:
  "keeps (tops_at c0 g) (setGlobalAlert e b)" "keeps (tops_at c0 g) (removeGlobalAlert e)"
  "keeps (tops_at c0 g) (setGlobalAlertInForwardChain e)" "keeps (tops_at c0 g) (removeGlobalAlertInForwardChain e)"
  "keeps (tops_at c0 g) (setSharedAlert e b)" "keeps (tops_at c0 g) (removeSharedAlert e)"
  "keeps (tops_at c0 g) (setInterfaceAlert e i b)" "keeps (tops_at c0 g) (removeInterfaceAlert e i)"
  unfolding setGlobalAlert_def removeGlobalAlert_def setGlobalAlertInForwardChain_def removeGlobalAlertInForwardChain_def
    setSharedAlert_def removeSharedAlert_def setInterfaceAlert_def removeInterfaceAlert_def
  by (intro wp_basic tops_alerts tops_updateQuota tops_modify; simp)+

lemma tops_quotas:
  "keeps (tops_at c0 g) (removeInterfaceSharedQuota e i)" "keeps (tops_at c0 g) (setInterfaceSharedQuota e i b)"
  "keeps (tops_at c0 g) (removeInterfaceQuota e i)" "keeps (tops_at c0 g) (setInterfaceQuota e i b)"
proof -
  show 1: "keeps (tops_at c0 g) (removeInterfaceSharedQuota e i)"
    unfolding removeInterfaceSharedQuota_def
    by (intro wp_basic tops_costly tops_bw_run bw_spares_quota tops_global_alerts tops_modify; simp)
  show "keeps (tops_at c0 g) (setInterfaceSharedQuota e i b)"
    unfolding setInterfaceSharedQuota_def shared_insert_def shared_update_def Let_def
    by (intro wp_basic 1 tops_costly tops_bw_run bw_spares_quota tops_updateQuota tops_modify; simp)
  show 2: "keeps (tops_at c0 g) (removeInterfaceQuota e i)"
    unfolding removeInterfaceQuota_def by (intro wp_basic tops_costly tops_modify; simp)
  show "keeps (tops_at c0 g) (setInterfaceQuota e i b)"
    unfolding setInterfaceQuota_def
    by (intro wp_basic 1 2 tops_costly tops_bw_run bw_spares_quota tops_updateQuota tops_modify; simp)
qed

lemma tops_stats: "keeps (tops_at c0 g) (getTetherStats e st)"
proof -
  have "keeps (tops_at c0 g) (send_all ms)" for ms by (induction ms) (auto intro!: wp_basic tops_other)
  then show ?thesis
    unfolding getTetherStats_def parseForwardChainStats_def parseForwardChainStatsv6_def Let_def
    by (intro wp_basic tops_other)
qed

lemmas tops_bw_ops = tops_bw_switch tops_happy_box tops_apps tops_updateQuota tops_global_alerts tops_quotas tops_stats

lemma tops_bw_loops: "keeps (tops_at c0 g) (bw_setquotas e b ifaces)" "keeps (tops_at c0 g) (bw_removequotas e ifaces)"
  by (induction ifaces) (auto simp: bw_sendGenericOkFail_def ok_or_failed_def intro!: wp_basic tops_other tops_quotas)

lemma tops_bw_answers:
  "keeps (tops_at c0 g) (sendGenericSyntaxError x)" "keeps (tops_at c0 g) (sendGenericOpFailed x)" "keeps (tops_at c0 g) (bw_sendGenericOkFail r)"
  unfolding sendGenericSyntaxError_def sendGenericOpFailed_def bw_sendGenericOkFail_def ok_or_failed_def by (intro wp_basic tops_other)+

lemma tops_bw_simple: "keeps (tops_at c0 g) m \<Longrightarrow> keeps (tops_at c0 g) (bw_simple b x m)"
  unfolding bw_simple_def by (intro wp_basic tops_bw_answers)

lemma tops_bw_getquota: "keeps (tops_at c0 g) m \<Longrightarrow> keeps (tops_at c0 g) (bw_getquota m)"
  unfolding bw_getquota_def by (intro wp_basic tops_bw_answers tops_other)

lemma tops_bandwidth: "keeps (tops_at c0 g) (BandwidthControlCmd_runCommand e pairs argv)"
proof -
  have "keeps (tops_at c0 g) m" if "bw_quota_cmd e argv = Some m" for m
    using that
    by (auto simp: bw_quota_cmd_def getInterfaceSharedQuota_def Let_def split: if_splits
        intro!: tops_bw_simple tops_bw_getquota tops_bw_answers tops_bw_loops tops_quotas tops_updateQuota)
  moreover have "keeps (tops_at c0 g) m" if "bw_apps_cmd e argv = Some m" for m
    using that
    by (auto simp: bw_apps_cmd_def bw_happybox_def Let_def split: if_splits
        intro!: wp_basic tops_bw_simple tops_bw_answers tops_apps tops_happy_box)
  moreover have "keeps (tops_at c0 g) m" if "bw_alert_cmd e argv = Some m" for m
    using that by (auto simp: bw_alert_cmd_def Let_def split: if_splits intro!: tops_bw_simple tops_global_alerts)
  ultimately show ?thesis
    unfolding BandwidthControlCmd_runCommand_def bw_gettetherstats_def Let_def
    by (intro wp_basic tops_bw_answers tops_other tops_bw_switch tops_stats)
qed

lemma tops_on:
  "keeps (tops_at c0 g) m1 \<Longrightarrow> keeps (tops_at c0 g) (on_bw m1)" "keeps (tops_at c0 g) m2 \<Longrightarrow> keeps (tops_at c0 g) (on_nat m2)"
  by (rule hoareI; auto simp: on_bw_def on_nat_def split: prod.splits dest!: hoareD [rotated 2])+

lemma tops_NatCmd: "keeps (tops_at c0 g) (NatCmd_runCommand e argv)"
  unfolding NatCmd_runCommand_def ok_or_errno_def Let_def
  by (intro wp_basic tops_other tops_on tops_nat tops_global_alerts)

section \<open>Start-up\<close>

lemma chains_execIptablesCommand:
  "no_spurious e c0 \<Longrightarrow> run_state (execIptablesCommand e argv) s = (r, s') \<Longrightarrow> chains_at c0 s' = ipt_run argv (chains_at c0 s)"
  by (auto simp: execIptablesCommand_def run_simps no_spurious_def split: prod.splits if_splits) metis+

lemma chains_execIptables:
  assumes "no_spurious e c0" and "run_state (execIptables e t args) s = (r, s')"
  shows "chains_at c0 s' = both_run t args (chains_at c0 s)"
proof (cases t)
  case V4
  then show ?thesis using assms chains_execIptablesCommand by (fastforce simp: execIptables_def both_run_def run_simps split: prod.splits)
next
  case V6
  then show ?thesis using assms chains_execIptablesCommand by (fastforce simp: execIptables_def both_run_def run_simps split: prod.splits)
next
  case V4V6
  obtain r4 s4 r6 s6 where "run_state (execIptablesCommand e (IPTABLES_PATH # args)) s = (r4, s4)"
      "run_state (execIptablesCommand e (IP6TABLES_PATH # args)) s4 = (r6, s6)" by fastforce
  with chains_execIptablesCommand [OF assms(1) this(1)] chains_execIptablesCommand [OF assms(1) this(2)] V4V6 assms(2) show ?thesis
    by (auto simp: execIptables_def both_run_def run_simps)
qed

lemma both_run_at:
  "both_run t (''-w'' # ''-t'' # table # op # chain # rule) c (p, tb, ch) =
     (if p \<in> paths t \<and> tb = table \<and> ch = chain then ipt_change op rule (c (p, tb, ch)) else c (p, tb, ch))"
  by (cases t) (auto simp: both_run_def paths_def ipt_run_def skip_wait_def take_table_def)

text \<open>What one chain does to its parent: its jump, wherever it was, becomes the last rule.\<close>

definition requeue :: "string \<Rightarrow> rule_args list \<Rightarrow> rule_args list" where
  "requeue child rs = remove1 (jump_rule child) rs @ [jump_rule child]"

lemma chains_createChildChain:
  assumes "no_spurious e c0" and "run_state (createChildChain e t table parent child) s = (r, s')" and "parent \<noteq> child"
  shows "chains_at c0 s' (p, tb, ch) =
     (if p \<in> paths t \<and> tb = table \<and> ch = parent then requeue child (chains_at c0 s (p, tb, ch))
      else if p \<in> paths t \<and> tb = table \<and> ch = child then [] else chains_at c0 s (p, tb, ch))"
proof -
  let ?x = "\<lambda>args. execIptables e t (''-w'' # ''-t'' # table # args)"
  obtain r1 s1 r2 s2 r3 s3 r4 s4 r5 s5 where 1: "run_state (?x [''-D'', parent, ''-j'', child]) s = (r1, s1)"
    and 2: "run_state (?x [''-F'', child]) s1 = (r2, s2)" and 3: "run_state (?x [''-X'', child]) s2 = (r3, s3)"
    and 4: "run_state (?x [''-N'', child]) s3 = (r4, s4)" and 5: "run_state (?x [''-A'', parent, ''-j'', child]) s4 = (r5, s5)"
    by fastforce
  have "s' = s5" using assms(2) 1 2 3 4 5 by (simp add: createChildChain_def run_simps)
  then show ?thesis
    using chains_execIptables [OF assms(1) 1] chains_execIptables [OF assms(1) 2] chains_execIptables [OF assms(1) 3]
      chains_execIptables [OF assms(1) 4] chains_execIptables [OF assms(1) 5] assms(3)
    by (simp add: both_run_at ipt_change_def requeue_def jump_rule_def)
qed

lemma chains_createChildChains:
  assumes "no_spurious e c0" and "run_state (createChildChains e t table parent childs) s = (r, s')" and "parent \<notin> set childs"
  shows "chains_at c0 s' (p, tb, ch) =
     (if p \<in> paths t \<and> tb = table \<and> ch = parent then fold requeue childs (chains_at c0 s (p, tb, ch))
      else if p \<in> paths t \<and> tb = table \<and> ch \<in> set childs then [] else chains_at c0 s (p, tb, ch))"
  using assms(2,3)
proof (induction childs arbitrary: s)
  case Nil
  then show ?case by (simp add: run_simps)
next
  case (Cons child childs)
  obtain r1 s1 where 1: "run_state (createChildChain e t table parent child) s = (r1, s1)" using prod.exhaust by blast
  then have run: "run_state (createChildChains e t table parent childs) s1 = (r, s')" using Cons.prems by (simp add: run_simps)
  have "parent \<notin> set childs" "parent \<noteq> child" using Cons.prems by simp_all
  from Cons.IH [OF run this(1)] chains_createChildChain [OF assms(1) 1 this(2)] this show ?case by auto
qed

lemma remove1_once: "count_list rs x \<le> 1 \<Longrightarrow> remove1 x rs = filter (\<lambda>r. r \<noteq> x) rs"
  by (induction rs) (auto simp: count_list_0_iff intro!: filter_True [symmetric])

lemma count_list_filter_neq: "x \<noteq> y \<Longrightarrow> count_list (filter (\<lambda>r. r \<noteq> x) rs) y = count_list rs y"
  by (induction rs) auto

lemma jump_rule_inject [simp]: "jump_rule a = jump_rule b \<longleftrightarrow> a = b"
  by (simp add: jump_rule_def)

lemma fold_requeue:
  "distinct childs \<Longrightarrow> \<forall>child\<in>set childs. count_list rs (jump_rule child) \<le> 1 \<Longrightarrow>
   fold requeue childs rs = filter (\<lambda>r. r \<notin> jump_rule ` set childs) rs @ map jump_rule childs"
proof (induction childs arbitrary: rs)
  case (Cons child childs)
  let ?rs = "filter (\<lambda>r. r \<noteq> jump_rule child) rs @ [jump_rule child]"
  have "requeue child rs = ?rs" using Cons.prems by (simp add: requeue_def remove1_once)
  moreover have "\<forall>c\<in>set childs. count_list ?rs (jump_rule c) \<le> 1"
    using Cons.prems by (auto simp: count_list_filter_neq)
  then have "fold requeue childs ?rs = filter (\<lambda>r. r \<notin> jump_rule ` set childs) ?rs @ map jump_rule childs"
    using Cons.IH Cons.prems by simp
  moreover have "filter (\<lambda>r. r \<notin> jump_rule ` set childs) ?rs =
      filter (\<lambda>r. r \<notin> jump_rule ` set (child # childs)) rs @ [jump_rule child]"
    using Cons.prems(1) by (auto simp: conj_commute)
  ultimately show ?case by simp
qed simp

lemma hooks_defs: "FILTER_INPUT = [''bw_INPUT'', ''fw_INPUT'']"
  "FILTER_FORWARD = [''oem_fwd'', ''fw_FORWARD'', ''bw_FORWARD'', ''natctrl_FORWARD'']"
  "FILTER_OUTPUT = [''oem_out'', ''fw_OUTPUT'', ''bw_OUTPUT'']"
  "RAW_PREROUTING = [''bw_raw_PREROUTING'', ''idletimer_raw_PREROUTING'']"
  "MANGLE_POSTROUTING = [''bw_mangle_POSTROUTING'', ''idletimer_mangle_POSTROUTING'']"
  "MANGLE_FORWARD = [''natctrl_mangle_FORWARD'']" "NAT_PREROUTING = [''oem_nat_pre'']" "NAT_POSTROUTING = [''natctrl_nat_POSTROUTING'']"
  by (simp_all add: FILTER_INPUT_def FILTER_FORWARD_def FILTER_OUTPUT_def RAW_PREROUTING_def MANGLE_POSTROUTING_def MANGLE_FORWARD_def
      NAT_PREROUTING_def NAT_POSTROUTING_def bw_LOCAL_INPUT_def bw_LOCAL_FORWARD_def bw_LOCAL_OUTPUT_def bw_LOCAL_RAW_PREROUTING_def
      bw_LOCAL_MANGLE_POSTROUTING_def fw_chain_defs idle_RAW_PREROUTING_def idle_MANGLE_POSTROUTING_def OEM_IPTABLES_FILTER_OUTPUT_def
      OEM_IPTABLES_FILTER_FORWARD_def OEM_IPTABLES_NAT_PREROUTING_def nat_FORWARD_def nat_MANGLE_FORWARD_def nat_POSTROUTING_def)

lemma chains_setup:
  assumes "no_spurious e c0" and "run_state (setup_chains e) s = (r, s')" and "(t, table, parent, childs) \<in> hooks" and "p \<in> paths t"
  shows "chains_at c0 s' (p, table, parent) = fold requeue childs (chains_at c0 s (p, table, parent))"
proof -
  obtain s1 s2 s3 s4 s5 s6 s7 where
    1: "run_state (createChildChains e V4V6 ''filter'' ''INPUT'' FILTER_INPUT) s = ((), s1)" and
    2: "run_state (createChildChains e V4V6 ''filter'' ''FORWARD'' FILTER_FORWARD) s1 = ((), s2)" and
    3: "run_state (createChildChains e V4V6 ''filter'' ''OUTPUT'' FILTER_OUTPUT) s2 = ((), s3)" and
    4: "run_state (createChildChains e V4V6 ''raw'' ''PREROUTING'' RAW_PREROUTING) s3 = ((), s4)" and
    5: "run_state (createChildChains e V4V6 ''mangle'' ''POSTROUTING'' MANGLE_POSTROUTING) s4 = ((), s5)" and
    6: "run_state (createChildChains e V4 ''mangle'' ''FORWARD'' MANGLE_FORWARD) s5 = ((), s6)" and
    7: "run_state (createChildChains e V4 ''nat'' ''PREROUTING'' NAT_PREROUTING) s6 = ((), s7)" and
    8: "run_state (createChildChains e V4 ''nat'' ''POSTROUTING'' NAT_POSTROUTING) s7 = ((), s')"
    using assms(2) by (auto simp: setup_chains_def run_simps split: prod.splits)
  note at = chains_createChildChains [OF assms(1), unfolded hooks_defs]
  note steps = 1 [unfolded hooks_defs, THEN at, simplified] 2 [unfolded hooks_defs, THEN at, simplified]
    3 [unfolded hooks_defs, THEN at, simplified] 4 [unfolded hooks_defs, THEN at, simplified]
    5 [unfolded hooks_defs, THEN at, simplified] 6 [unfolded hooks_defs, THEN at, simplified]
    7 [unfolded hooks_defs, THEN at, simplified] 8 [unfolded hooks_defs, THEN at, simplified]
  from assms(3) show ?thesis
    unfolding hooks_def hooks_defs insert_iff empty_iff prod.inject
    by (elim disjE conjE; insert assms(4); simp add: steps del: fold_simps)
qed

text \<open>The rest of the constructor leaves the top-level chains alone, when there is no script of the manufacturer.\<close>

lemma tops_more_events:
  "keeps (tops_at c0 g) (write_path e p t)" "keeps (tops_at c0 g) (read_dir e p)" "keeps (tops_at c0 g) (call_sys e c)"
  by (simp_all add: hoare_def run_simps)

lemma tops_interface_controller: "keeps (tops_at c0 g) (InterfaceController_new e)"
proof -
  have w: "keeps (tops_at c0 g) (writeIPv6ProcPath e i n v)" for i n v
    unfolding writeIPv6ProcPath_def writeFile_def by (intro wp_basic tops_more_events)
  then have "keeps (tops_at c0 g) (set_on_each e f v ds)" for f v ds by (induction ds) (auto intro!: wp_basic)
  with w have "keeps (tops_at c0 g) (setOnAllInterfaces e f v)" for f v
    unfolding setOnAllInterfaces_def by (intro wp_basic tops_more_events)
  then show ?thesis
    unfolding InterfaceController_new_def setAcceptRA_def setAcceptRARouteTable_def setIPv6OptimisticMode_def by (intro wp_basic)
qed

lemma tops_nat_setup: "keeps (tops_at c0 g) (nat_setupIptablesHooks e)"
  unfolding nat_setupIptablesHooks_def run_commands_def
  by (auto intro!: wp_basic tops_nat_defaults tops_nat_run tops_modify spares_forms own_chains)

lemma tops_modifyIpRule: "keeps (tops_at c0 g) (modifyIpRule e a prio tbl m k i x u1 u2)"
  unfolding modifyIpRule_def sendNetlinkRequest_def by (intro wp_basic tops_other)

lemma ip_spares: "spares_tops (IP_PATH # args)"
  by (simp add: spares_tops_def same_tops_def ipt_run_def IP_PATH_def IPTABLES_PATH_def IP6TABLES_PATH_def split: prod.split list.split)

lemma tops_route_init: "keeps (tops_at c0 g) (RouteController_Init e n)"
  unfolding RouteController_Init_def flushRules_def addLegacyRouteRules_def addLocalNetworkRules_def addDirectlyConnectedRule_def
    addUnreachableRule_def modifyIpRule5_def modifyExplicitNetworkRule_def updateTableNamesFile_def Let_def
  by (intro wp_basic tops_modifyIpRule tops_more_events keeps_tops_execvp0 ip_spares)

lemma tops_rest:
  "keeps (tops_at c0 g) (do {
     _ \<leftarrow> fw_setupIptablesHooks;
     _ \<leftarrow> on_nat (nat_setupIptablesHooks e);
     _ \<leftarrow> on_bw (bw_setupIptablesHooks e);
     _ \<leftarrow> idle_setupIptablesHooks;
     _ \<leftarrow> on_bw (enableBandwidthControl e False p);
     _ \<leftarrow> RouteController_Init e LOCAL_NET_ID;
     ret () })"
  unfolding fw_setupIptablesHooks_def idle_setupIptablesHooks_def
  by (intro wp_basic tops_on tops_nat_setup tops_bw_switch tops_route_init)

section \<open>Properties\<close>

text \<open>
  C32: After start-up every top-level chain that the daemon hooks into holds what it held before, without the daemon's own jumps,
  followed by the jumps to the daemon's chains in the order that the source declares as critical: bandwidth accounting first for input,
  the manufacturer's chain, then the firewall, bandwidth and NAT for forwarding. This holds on a restart as well, when the jumps of
  the previous run are still there, provided that iptables refuses only commands without effect and that there is no script of the
  manufacturer.
\<close>

theorem startup_chain_order:
  assumes "no_spurious e c0" and "\<And>h. env_call e h (SysAccess OEM_SCRIPT_PATH) \<noteq> 0"
    and "run_state (CommandListener_new e) d = (r, d')"
    and "(t, table, parent, childs) \<in> hooks" and "p \<in> paths t"
    and "\<forall>child\<in>set childs. count_list (chains_at c0 d (p, table, parent)) (jump_rule child) \<le> 1"
  shows "chains_at c0 d' (p, table, parent) =
    filter (\<lambda>r. r \<notin> jump_rule ` set childs) (chains_at c0 d (p, table, parent)) @ map jump_rule childs"
proof -
  have top: "parent \<in> top_chains" and dist: "distinct childs"
    using assms(4) by (auto simp: hooks_def hooks_defs top_chains_def)
  let ?d1 = "new_controllers d"
  obtain r1 d2 where i: "run_state (InterfaceController_new e) ?d1 = (r1, d2)" using prod.exhaust by blast
  obtain r2 d3 where s: "run_state (setup_chains e) d2 = (r2, d3)" using prod.exhaust by blast
  let ?d4 = "d3\<lparr>hist := EvCall (SysAccess OEM_SCRIPT_PATH) (env_call e (hist d3) (SysAccess OEM_SCRIPT_PATH)) # hist d3\<rparr>"
  have oem: "run_state (setupOemIptablesHook e) d3 = ((), ?d4)"
    using assms(2) by (simp add: setupOemIptablesHook_def run_simps)
  have "same_tops (chains_at c0 d2) (chains_at c0 ?d1)"
    using hoareD [OF tops_interface_controller _ i, of c0] by (simp add: same_tops_def)
  moreover have "same_tops (chains_at c0 d') (chains_at c0 ?d4)"
  proof (rule hoareD [OF tops_rest])
    show "same_tops (chains_at c0 ?d4) (chains_at c0 ?d4)" by (simp add: same_tops_def)
    show "run_state (do {
       _ \<leftarrow> fw_setupIptablesHooks;
       _ \<leftarrow> on_nat (nat_setupIptablesHooks e);
       _ \<leftarrow> on_bw (bw_setupIptablesHooks e);
       _ \<leftarrow> idle_setupIptablesHooks;
       _ \<leftarrow> on_bw (enableBandwidthControl e False (env_property e ''persist.bandwidth.enable''));
       _ \<leftarrow> RouteController_Init e LOCAL_NET_ID;
       ret () }) ?d4 = (r, d')"
      using assms(3) i s oem by (simp add: CommandListener_new_def run_simps)
  qed
  moreover have "hist ?d1 = hist d" by (cases d) (simp add: new_controllers_def NetworkController_new_def)
  ultimately have "chains_at c0 d' (p, table, parent) = chains_at c0 d3 (p, table, parent)"
      "chains_at c0 d2 (p, table, parent) = chains_at c0 d (p, table, parent)"
    using top by (simp_all add: same_tops_def)
  with chains_setup [OF assms(1) s assms(4,5)] fold_requeue [OF dist assms(6)] show ?thesis by simp
qed

definition startup_env :: env where
  "startup_env = sample_env\<lparr>env_call := (\<lambda>h c. - 1)\<rparr>"

theorem startup_chain_order_witness:
  "\<exists>r d'. run_state (CommandListener_new startup_env) sample_daemon = (r, d') \<and>
     chains_at (\<lambda>_. [jump_rule ''fw_INPUT'', [''-j'', ''LOG'']]) d' (IPTABLES_PATH, ''filter'', ''INPUT'') =
     [[''-j'', ''LOG''], jump_rule ''bw_INPUT'', jump_rule ''fw_INPUT'']"
proof -
  let ?c0 = "\<lambda>_. [jump_rule ''fw_INPUT'', [''-j'', ''LOG'']]"
  obtain r d' where run: "run_state (CommandListener_new startup_env) sample_daemon = (r, d')" using prod.exhaust by blast
  have "no_spurious startup_env ?c0"
    by (simp add: no_spurious_def startup_env_def sample_env_def exec_ok_def WIFEXITED_def WEXITSTATUS_def)
  from startup_chain_order [OF this _ run, of V4V6 "''filter''" "''INPUT''" FILTER_INPUT IPTABLES_PATH] run show ?thesis
    by (simp add: startup_env_def hooks_def paths_def hooks_defs sample_daemon_def jump_rule_def)
qed

text \<open>
  C33: After start-up no command touches a top-level chain: whatever words follow the commands of the four controllers that run
  iptables, and whatever iptables answers, the chains INPUT, OUTPUT, FORWARD, PREROUTING and POSTROUTING of every table are the same
  before and after.
\<close>

theorem commands_spare_tops:
  assumes "name \<in> {''firewall'', ''idletimer'', ''nat'', ''bandwidth''}"
    and "run_state (dispatchCommand e l unknown (name # args)) d = (r, d')" and "chain \<in> top_chains"
  shows "chains_at c0 d' (path, table, chain) = chains_at c0 d (path, table, chain)"
proof -
  have "\<exists>run. map_of (registered e l) name = Some run \<and> (\<forall>argv g. keeps (tops_at c0 g) (run argv))"
    using assms(1)
    by (elim insertE emptyE)
      (simp_all add: registered_def tops_firewall tops_idletimer tops_NatCmd keeps_bind keeps_gets tops_on tops_bandwidth)
  then obtain run where run: "map_of (registered e l) name = Some run" and keep: "\<And>argv g. keeps (tops_at c0 g) (run argv)"
    by blast
  have "run_state (run (name # args)) d = (r, d')" using assms(2) run by (simp add: dispatchCommand_def)
  from hoareD [OF keep _ this, of "chains_at c0 d"] assms(3) show ?thesis by (simp add: same_tops_def)
qed

theorem commands_spare_tops_witness:
  "\<exists>r d'. run_state (dispatchCommand sample_env sample_libs (\<lambda>argv. ret None) [''firewall'', ''enable'']) sample_daemon = (r, d') \<and>
     chains_at no_chains d' (IPTABLES_PATH, ''filter'', ''INPUT'') = []"
proof -
  obtain r d' where run: "run_state (dispatchCommand sample_env sample_libs (\<lambda>argv. ret None) [''firewall'', ''enable'']) sample_daemon = (r, d')"
    using prod.exhaust by blast
  have "chains_at no_chains d' (IPTABLES_PATH, ''filter'', ''INPUT'') = chains_at no_chains sample_daemon (IPTABLES_PATH, ''filter'', ''INPUT'')"
    by (rule commands_spare_tops [OF _ run]) (simp_all add: top_chains_def)
  with run show ?thesis by (simp add: sample_daemon_def no_chains_def)
qed

end
