(* ===== verification/DaemonRuns.thy ===== *)
theory DaemonRuns
  imports DaemonAnswers BandwidthRules
begin

text \<open>
  Whole runs of the daemon: after start-up and any sequence of command lines, the networks satisfy the invariant of their controller,
  and the children that the daemon has started and not waited for are those that the four controllers with child processes have on
  record. Each controller has been shown to account for its own children whatever others there are; here is the composition.
\<close>

section \<open>Specification\<close>

definition daemon_pids :: "daemon \<Rightarrow> int multiset" where
  "daemon_pids d = tether_pids (d_tether d) + ppp_pids (d_ppp d) + softap_pids (d_softap d) + clatd_pids d"

definition children_ok :: "daemon \<Rightarrow> bool" where
  "children_ok d \<longleftrightarrow> clatd_ok d \<and> children (hist d) = daemon_pids d"

text \<open>The process id of radish is not set by any constructor; the runs start from a state in which it is 0.\<close>

inductive daemon_reach :: "env \<Rightarrow> libs \<Rightarrow> daemon \<Rightarrow> bool" for e l where
  start: "hist d = [] \<Longrightarrow> mRtrAdvPid (d_tether d) = 0 \<Longrightarrow> run_state (CommandListener_new e) d = (u, d') \<Longrightarrow> daemon_reach e l d'"
| line: "daemon_reach e l d \<Longrightarrow> map_of (registered e l) name = Some run \<Longrightarrow> run_state (run (name # args)) d = (r, d') \<Longrightarrow>
    daemon_reach e l d'"

section \<open>Handlers that start no child\<close>

lemma keeps_replies [wp]:
  "hist_free I \<Longrightarrow> keeps I (reply c m)" "hist_free I \<Longrightarrow> keeps I (reply_errno c m)" "hist_free I \<Longrightarrow> keeps I (ok_or_failed x y rc)"
  "hist_free I \<Longrightarrow> keeps I (ok_or_errno x y rc)" "hist_free I \<Longrightarrow> keeps I (route_done x y)"
  "hist_free I \<Longrightarrow> keeps I (sendGenericSyntaxError x)" "hist_free I \<Longrightarrow> keeps I (sendGenericOpFailed x)"
  "hist_free I \<Longrightarrow> keeps I (bw_sendGenericOkFail rc)" "hist_free I \<Longrightarrow> keeps I (fw_sendGenericOkFail rc)"
  "hist_free I \<Longrightarrow> keeps I (tether_done rc)" "hist_free I \<Longrightarrow> keeps I (syntaxError x)" "hist_free I \<Longrightarrow> keeps I (answer x rc)"
  unfolding reply_def reply_errno_def ok_or_failed_def ok_or_errno_def route_done_def sendGenericSyntaxError_def
    sendGenericOpFailed_def bw_sendGenericOkFail_def fw_sendGenericOkFail_def tether_done_def syntaxError_def answer_def
    operationError_def success_def
  by (intro wp; assumption)+

lemma keeps_write_ipv6 [wp]: "hist_free I \<Longrightarrow> keeps I (writeIPv6ProcPath e i n v)" "hist_free I \<Longrightarrow> keeps I (writeFile e p v)"
  unfolding writeIPv6ProcPath_def writeFile_def by (intro wp; assumption)+

lemma keeps_on_interfaces [wp]: "hist_free I \<Longrightarrow> keeps I (set_on_each e f v ds)" "hist_free I \<Longrightarrow> keeps I (setOnAllInterfaces e f v)"
proof -
  show *: "hist_free I \<Longrightarrow> keeps I (set_on_each e f v ds)" for ds by (induction ds) (auto intro!: wp)
  show "hist_free I \<Longrightarrow> keeps I (setOnAllInterfaces e f v)" unfolding setOnAllInterfaces_def by (intro wp *; assumption)
qed

lemma keeps_cfg_apply [wp]: "hist_free I \<Longrightarrow> keeps I (cfg_apply e i flags)"
  by (induction flags) (auto intro!: wp)

lemma keeps_interface: "hist_free I \<Longrightarrow> keeps I (InterfaceCmd_runCommand e net argv)"
  unfolding InterfaceCmd_runCommand_def interface_list_def interface_getcfg_def interface_setcfg_def interface_toggle_def
    interface_setmtu_def setIPv6PrivacyExtensions_def setEnableIPv6_def setIPv6NdOffload_def setMtu_def
  by (intro wp; assumption)

lemma keeps_resolver: "hist_free I \<Longrightarrow> keeps I (ResolverCmd_runCommand e argv)"
  unfolding ResolverCmd_runCommand_def setDnsServers_def clearDnsServers_def flushDnsCache_def by (intro wp; assumption)

lemma keeps_fw_rules [wp]:
  "hist_free I \<Longrightarrow> keeps I (enableFirewall e)" "hist_free I \<Longrightarrow> keeps I (disableFirewall e)"
  "hist_free I \<Longrightarrow> keeps I (setInterfaceRule e i r)" "hist_free I \<Longrightarrow> keeps I (setEgressSourceRule e a r)"
  "hist_free I \<Longrightarrow> keeps I (setEgressDestRule e a p q r)" "hist_free I \<Longrightarrow> keeps I (setUidRule e u r)"
  unfolding enableFirewall_def disableFirewall_def setInterfaceRule_def setEgressSourceRule_def setEgressDestRule_def
    setUidRule_def or_all.simps
  by (intro wp_basic keeps_execIptables; assumption)+

lemma keeps_firewall: "hist_free I \<Longrightarrow> keeps I (FirewallCmd_runCommand e argv)"
  unfolding FirewallCmd_runCommand_def or_all.simps by (intro wp_basic keeps_replies keeps_fw_rules; assumption)

lemma keeps_idletimer: "hist_free I \<Longrightarrow> keeps I (IdletimerControlCmd_runCommand e argv)"
  unfolding IdletimerControlCmd_runCommand_def enableIdletimerControl_def disableIdletimerControl_def idle_setDefaults_def
    addInterfaceIdletimer_def removeInterfaceIdletimer_def modifyInterfaceIdletimer_def idle_runIpxtablesCmd_def
  by (intro wp; assumption)

lemma keeps_runIpCmd [wp]: "hist_free I \<Longrightarrow> keeps I (runIpCmd e cmd)" "keeps I m \<Longrightarrow> keeps I (if_empty m res)"
  unfolding runIpCmd_def if_empty_def by (intro wp; assumption)+

lemma keeps_route: "hist_free I \<Longrightarrow> keeps I (QcRouteCmd_runCommand e net argv)"
  unfolding QcRouteCmd_runCommand_def route_replace_src_def route_del_src_def route_replace_def_def route_add_def_def
    route_add_dst_def route_del_dst_def isValidIface_def repSrcRoute_def delSrcRoute_def addDstRoute_def delDstRoute_def
    replaceDefRoute_def addDefRoute_def flushCache_def repDefRoute_def delDefRoute_def addRule_def delRule_def delHostRoute_def
  by (intro wp; assumption)

section \<open>Nat and bandwidth\<close>

text \<open>These controllers change their own state as well, and none of it is about children.\<close>

abbreviation kids :: "int multiset \<Rightarrow> 'a sys_scheme \<Rightarrow> bool" where
  "kids C s \<equiv> children (hist s) = C"

lemma kids_free [simp]: "hist_free (kids C)" "rc_free (kids C)"
  using quiet_childless by (auto simp: hist_free_def rc_free_def childless_def)

lemma kids_modify: "(\<And>s. hist (f s) = hist s) \<Longrightarrow> keeps (kids C) (modify f)"
  by (rule keeps_modify) simp

lemma kids_nat_basics [wp]:
  "keeps (kids C) (nat_set_errno n)" "keeps (kids C) (nat_runCmd e argv)" "keeps (kids C) (run_commands e cmds)"
  "keeps (kids C) (nat_setDefaults e)" "keeps (kids C) (unwind_first e)"
  unfolding nat_set_errno_def nat_runCmd_def run_commands_def nat_setDefaults_def unwind_first_def
  by (intro wp kids_modify kids_free; simp)+

lemma kids_nat [wp]:
  "keeps (kids C) (nat_setupIptablesHooks e)" "keeps (kids C) (setTetherCountingRules e add i x)"
  "keeps (kids C) (setForwardRules e add i x)" "keeps (kids C) (enableNat e i x)" "keeps (kids C) (disableNat e i x)"
proof -
  show 1: "keeps (kids C) (setTetherCountingRules e add i x)" for add
    unfolding setTetherCountingRules_def by (intro wp kids_modify; simp)
  show 2: "keeps (kids C) (setForwardRules e add i x)" for add
    unfolding setForwardRules_def Let_def by (intro wp_basic kids_nat_basics 1)
  show "keeps (kids C) (nat_setupIptablesHooks e)"
    unfolding nat_setupIptablesHooks_def by (intro wp kids_modify; simp)
  show "keeps (kids C) (enableNat e i x)" "keeps (kids C) (disableNat e i x)"
    unfolding enableNat_def disableNat_def by (intro wp_basic kids_nat_basics 2 keeps_RouteController kids_free kids_modify; simp)+
qed

lemma kids_bw_switch [wp]:
  "keeps (kids C) (bw_setupIptablesHooks e)" "keeps (kids C) (enableBandwidthControl e b p)"
  "keeps (kids C) (disableBandwidthControl e)" "keeps (kids C) (enableHappyBox e)" "keeps (kids C) (disableHappyBox e)"
  unfolding bw_setupIptablesHooks_def enableBandwidthControl_def disableBandwidthControl_def enableHappyBox_def disableHappyBox_def
  by (intro wp kids_modify kids_free; simp)+

lemma kids_special [wp]:
  assumes "\<And>f s. hist (upd f s) = hist s"
  shows "keeps (kids C) (manipulateSpecialApps e uids chain get upd j appOp)"
proof -
  have "keeps (kids C) (special_apps_loop e chain get upd j appOp us)" for us
    by (induction us) (auto intro!: wp kids_modify assms)
  then show ?thesis unfolding manipulateSpecialApps_def by (intro wp)
qed

lemma kids_apps [wp]:
  "keeps (kids C) (addNaughtyApps e uids)" "keeps (kids C) (removeNaughtyApps e uids)"
  "keeps (kids C) (addNiceApps e uids)" "keeps (kids C) (removeNiceApps e uids)"
  unfolding addNaughtyApps_def removeNaughtyApps_def addNiceApps_def removeNiceApps_def manipulateNaughtyApps_def manipulateNiceApps_def
  by (rule kids_special; simp)+

lemma kids_alerts [wp]:
  "keeps (kids C) (setGlobalAlert e b)" "keeps (kids C) (removeGlobalAlert e)"
  "keeps (kids C) (setGlobalAlertInForwardChain e)" "keeps (kids C) (removeGlobalAlertInForwardChain e)"
  "keeps (kids C) (setSharedAlert e b)" "keeps (kids C) (removeSharedAlert e)"
  "keeps (kids C) (setInterfaceAlert e i b)" "keeps (kids C) (removeInterfaceAlert e i)" "keeps (kids C) (getInterfaceQuota e i)"
  unfolding setGlobalAlert_def removeGlobalAlert_def setGlobalAlertInForwardChain_def removeGlobalAlertInForwardChain_def
    setSharedAlert_def removeSharedAlert_def setInterfaceAlert_def removeInterfaceAlert_def getInterfaceQuota_def
  by (intro wp kids_modify kids_free; simp)+

lemma kids_quotas [wp]:
  "keeps (kids C) (removeInterfaceSharedQuota e i)" "keeps (kids C) (setInterfaceSharedQuota e i b)"
  "keeps (kids C) (removeInterfaceQuota e i)" "keeps (kids C) (setInterfaceQuota e i b)"
proof -
  show 1: "keeps (kids C) (removeInterfaceSharedQuota e i)"
    unfolding removeInterfaceSharedQuota_def by (intro wp kids_modify kids_free; simp)
  show "keeps (kids C) (setInterfaceSharedQuota e i b)"
    unfolding setInterfaceSharedQuota_def shared_insert_def shared_update_def by (intro wp 1 kids_modify kids_free; simp)
  show 2: "keeps (kids C) (removeInterfaceQuota e i)"
    unfolding removeInterfaceQuota_def by (intro wp kids_modify kids_free; simp)
  show "keeps (kids C) (setInterfaceQuota e i b)"
    unfolding setInterfaceQuota_def by (intro wp 1 2 kids_modify kids_free; simp)
qed

lemma kids_stats [wp]: "keeps (kids C) (getTetherStats e st)"
proof -
  have "keeps (kids C) (send_all ms)" for ms by (induction ms) (auto intro!: wp)
  then show ?thesis
    unfolding getTetherStats_def parseForwardChainStats_def parseForwardChainStatsv6_def by (intro wp kids_free; simp)
qed

lemma kids_bw_loops: "keeps (kids C) (bw_setquotas e b ifaces)" "keeps (kids C) (bw_removequotas e ifaces)"
  by (induction ifaces) (auto intro!: wp)

lemma kids_bw_forms: "keeps (kids C) m \<Longrightarrow> keeps (kids C) (bw_simple b x m)" "keeps (kids C) k \<Longrightarrow> keeps (kids C) (bw_getquota k)"
  unfolding bw_simple_def bw_getquota_def by (intro wp kids_free; assumption)+

lemma kids_bandwidth: "keeps (kids C) (BandwidthControlCmd_runCommand e pairs argv)"
proof -
  have "keeps (kids C) m" if "bw_quota_cmd e argv = Some m" for m
    using that
    by (auto simp: bw_quota_cmd_def getInterfaceSharedQuota_def Let_def split: if_splits
        intro!: kids_bw_forms kids_bw_loops kids_quotas kids_alerts keeps_replies)
  moreover have "keeps (kids C) m" if "bw_apps_cmd e argv = Some m" for m
    using that
    by (auto simp: bw_apps_cmd_def bw_happybox_def Let_def split: if_splits
        intro!: wp_basic kids_bw_forms kids_bw_switch kids_apps keeps_replies)
  moreover have "keeps (kids C) m" if "bw_alert_cmd e argv = Some m" for m
    using that by (auto simp: bw_alert_cmd_def Let_def split: if_splits intro!: kids_bw_forms kids_alerts)
  ultimately show ?thesis
    unfolding BandwidthControlCmd_runCommand_def bw_gettetherstats_def
    by (intro wp_basic keeps_replies kids_bw_switch kids_stats kids_free)
qed

section \<open>Controllers with children\<close>

lemma daemon_frame [simp]:
  "d_tether (hist_update f d) = d_tether d" "d_ppp (hist_update f d) = d_ppp d" "d_softap (hist_update f d) = d_softap d"
  "d_tether (interfaceToTable_update g d) = d_tether d" "d_ppp (interfaceToTable_update g d) = d_ppp d"
  "d_softap (interfaceToTable_update g d) = d_softap d"
  by (cases d; simp)+

lemma children_on:
  "tracks tether_pids m1 \<Longrightarrow> keeps children_ok (on_tether m1)" "tracks ppp_pids m2 \<Longrightarrow> keeps children_ok (on_ppp m2)"
  "tracks softap_pids m3 \<Longrightarrow> keeps children_ok (on_softap m3)"
proof -
  show "tracks tether_pids m1 \<Longrightarrow> keeps children_ok (on_tether m1)"
    by (rule hoareI) (auto simp: children_ok_def clatd_ok_def daemon_pids_def clatd_pids_def on_tether_def ac_simps
        split: prod.splits dest!: tracksD)
  show "tracks ppp_pids m2 \<Longrightarrow> keeps children_ok (on_ppp m2)"
    by (rule hoareI) (auto simp: children_ok_def clatd_ok_def daemon_pids_def clatd_pids_def ppp_pids_def on_ppp_def ac_simps
        split: prod.splits dest!: tracksD)
  show "tracks softap_pids m3 \<Longrightarrow> keeps children_ok (on_softap m3)"
    by (rule hoareI) (auto simp: children_ok_def clatd_ok_def daemon_pids_def clatd_pids_def softap_pids_def on_softap_def ac_simps
        split: prod.splits dest!: tracksD)
qed

lemma children_on_quiet:
  "(\<And>C. keeps (kids C) m1) \<Longrightarrow> keeps children_ok (on_nat m1)" "(\<And>C. keeps (kids C) m2) \<Longrightarrow> keeps children_ok (on_bw m2)"
  by (rule hoareI; auto simp: children_ok_def clatd_ok_def daemon_pids_def clatd_pids_def on_nat_def on_bw_def
        split: prod.splits dest!: hoareD [rotated 2])+

lemma ppp_frame: "ppp_pids (s\<lparr>hist := h\<rparr>) = ppp_pids s"
  by (simp add: ppp_pids_def)

lemma softap_frame: "softap_pids (s\<lparr>hist := h\<rparr>) = softap_pids s"
  by (simp add: softap_pids_def)

lemmas tether_quiet = tracks_quiet [of tether_pids, OF tether_pids_frame(1)]
lemmas ppp_quiet = tracks_quiet [of ppp_pids, OF ppp_frame]
lemmas softap_quiet = tracks_quiet [of softap_pids, OF softap_frame]

lemma tracks_tether_cmd:
  assumes "forks_ok e"
  shows "tracks tether_pids (TetherCmd_runCommand e argv)"
proof -
  have "tracks tether_pids (tether_three argv)"
    unfolding tether_three_def by (intro tracks_bind tracks_if tracks_return tracks_gets tether_quiet wp)
  then show ?thesis
    unfolding TetherCmd_runCommand_def tether_four_def Let_def
    by (intro tracks_bind tracks_if tracks_case_option tracks_gets tracks_stopTethering tracks_startTethering tracks_ifaces
        tracks_setDnsForwarders assms tether_quiet [OF keeps_replies(1)] tether_quiet [OF keeps_replies(10)])
qed

lemma tracks_ppp_cmds:
  assumes "forks_ok e"
  shows "tracks ppp_pids (ListTtysCmd_runCommand e)" "tracks ppp_pids (PppdCmd_runCommand e argv)"
proof -
  note run = ppp_run_tracks [OF assms]
  have list: "tracks ppp_pids (getTtyList e)"
    unfolding getTtyList_def updateTtyList_def
    by (intro tracks_bind tracks_case_option tracks_return tracks_gets tracks_modify tracks_events ppp_frame) (simp_all add: ppp_pids_def)
  show "tracks ppp_pids (ListTtysCmd_runCommand e)"
    unfolding ListTtysCmd_runCommand_def
    by (intro tracks_bind list ppp_quiet [OF keeps_replies(1)] ppp_quiet [OF keeps_send_each])
  have ops: "tracks ppp_pids (attachPppd e tty l r d1 d2)" "tracks ppp_pids (detachPppd e tty)" for tty l r d1 d2
    using run [of "AttachPppd tty l r d1 d2"] run [of "DetachPppd tty"] by simp_all
  show "tracks ppp_pids (PppdCmd_runCommand e argv)"
    unfolding PppdCmd_runCommand_def Let_def
    by (intro tracks_bind tracks_if tracks_case_option tracks_return ops ppp_quiet [OF keeps_replies(1)] ppp_quiet [OF keeps_replies(4)])
qed

lemma tracks_startSoftap:
  assumes "forks_ok e"
  shows "tracks softap_pids (startSoftap e f)" "tracks softap_pids (stopSoftap e)"
proof -
  have fork: "env_call e h (SysFork argv) \<noteq> 0" for h argv using assms by (simp add: forks_ok_def)
  show "tracks softap_pids (startSoftap e f)"
    by (rule tracksI) (use fork in \<open>auto simp: startSoftap_def run_simps softap_pids_def slot_def split: if_splits\<close>)
  show "tracks softap_pids (stopSoftap e)"
    by (rule tracksI) (auto simp: stopSoftap_def run_simps softap_pids_def slot_def split: if_splits)
qed

lemma tracks_softap_cmd:
  assumes "forks_ok e"
  shows "tracks softap_pids (SoftapCmd_runCommand e pbkdf2 fw entropy argv)"
proof -
  have "tracks softap_pids (setSoftap e pbkdf2 argv)"
    unfolding setSoftap_def Let_def by (rule softap_quiet) (intro wp)
  moreover have "tracks softap_pids (fwReloadSoftap e fw argv)"
    unfolding fwReloadSoftap_def Let_def by (rule softap_quiet) (intro wp)
  ultimately show ?thesis
    unfolding SoftapCmd_runCommand_def Let_def
    by (intro tracks_bind tracks_if tracks_case_option tracks_return tracks_gets tracks_startSoftap assms softap_quiet [OF keeps_replies(1)])
qed

section \<open>The network controller\<close>

text \<open>Predicates that the network controller's own state does not matter for.\<close>

definition nc_free :: "('a nc_scheme \<Rightarrow> bool) \<Rightarrow> bool" where
  "nc_free I \<longleftrightarrow> rc_free I \<and> (\<forall>s f. I (mDefaultNetId_update f s) = I s) \<and> (\<forall>s f. I (mNetworks_update f s) = I s) \<and>
     (\<forall>s f. I (mUsers_update f s) = I s) \<and> (\<forall>s f. I (mProtectableUsers_update f s) = I s)"

lemma nc_freeD: "nc_free I \<Longrightarrow> rc_free I" "nc_free I \<Longrightarrow> hist_free I"
  by (simp_all add: nc_free_def rc_free_def)

lemma nc_free_modify:
  "nc_free I \<Longrightarrow> keeps I (modify (mDefaultNetId_update f1))" "nc_free I \<Longrightarrow> keeps I (modify (mNetworks_update f2))"
  "nc_free I \<Longrightarrow> keeps I (modify (mUsers_update f3))" "nc_free I \<Longrightarrow> keeps I (modify (mProtectableUsers_update f4))"
  by (auto simp: nc_free_def intro: keeps_modify)

lemma nc_free_call: "nc_free I \<Longrightarrow> keeps I m \<Longrightarrow> keeps I (call_network k m)"
  unfolding call_network_def by (intro wp nc_free_modify; assumption)

lemma nc_free_exec:
  assumes "nc_free I"
  shows "keeps I (nc_exec e c)"
proof -
  note free = assms nc_freeD [OF assms]
  show ?thesis
    by (cases c; simp only: nc_exec.simps setDefaultNetwork_def createPhysicalNetwork_def createVirtualNetwork_def destroyNetwork_def
        addInterfaceToNetwork_def removeInterfaceFromNetwork_def setPermissionForUsers_def setPermissionForNetworks_def
        addUsersToNetwork_def removeUsersFromNetwork_def addRoute_def removeRoute_def modifyRoute_def allowProtect_def denyProtect_def
        resolv_delete_cache_for_net_def Let_def;
      intro keeps_some_result keeps_no_result nc_free_call nc_free_modify wp free; simp)
qed

lemma keeps_network_cmd:
  assumes "\<And>c. command_ok c \<Longrightarrow> keeps I (nc_exec e c)" and "hist_free I"
  shows "keeps I (NetworkCommand_runCommand e argv)"
proof -
  consider message where "NetworkCommand_runCommand e argv = (syntaxError message :: ('a nc_scheme, int option) state)"
    | c message where "command_ok c" "NetworkCommand_runCommand e argv = (run_command e c message :: ('a nc_scheme, int option) state)"
    using answered_network [of e argv] unfolding answered_def by blast
  then show ?thesis
    by cases (simp_all add: run_command_def keeps_replies keeps_bind keeps_case_option keeps_return assms)
qed

section \<open>The children of the daemon\<close>

lemma daemon_frame_nc [simp]:
  "d_tether (mDefaultNetId_update f1 d) = d_tether d" "d_ppp (mDefaultNetId_update f1 d) = d_ppp d"
  "d_softap (mDefaultNetId_update f1 d) = d_softap d" "d_tether (mNetworks_update f2 d) = d_tether d"
  "d_ppp (mNetworks_update f2 d) = d_ppp d" "d_softap (mNetworks_update f2 d) = d_softap d"
  "d_tether (mUsers_update f3 d) = d_tether d" "d_ppp (mUsers_update f3 d) = d_ppp d"
  "d_softap (mUsers_update f3 d) = d_softap d" "d_tether (mProtectableUsers_update f4 d) = d_tether d"
  "d_ppp (mProtectableUsers_update f4 d) = d_ppp d" "d_softap (mProtectableUsers_update f4 d) = d_softap d"
  "d_tether (mClatdPids_update f5 d) = d_tether d" "d_ppp (mClatdPids_update f5 d) = d_ppp d"
  "d_softap (mClatdPids_update f5 d) = d_softap d"
  by (cases d; simp)+

lemma nc_free_children: "nc_free children_ok"
  using quiet_childless
  by (auto simp: nc_free_def rc_free_def hist_free_def children_ok_def clatd_ok_def daemon_pids_def clatd_pids_def childless_def)

lemmas free_children = nc_free_children nc_freeD [OF nc_free_children]

lemma children_clatd_run:
  assumes "forks_ok e"
  shows "keeps children_ok (clatd_run e c)"
proof (rule hoareI)
  fix d r d'
  assume pre: "children_ok d" and run: "run_state (clatd_run e c) d = (r, d')"
  let ?M = "tether_pids (d_tether d) + ppp_pids (d_ppp d) + softap_pids (d_softap d)"
  have "clatd_ok d \<and> children (hist d) = clatd_pids d + ?M" using pre by (simp add: children_ok_def daemon_pids_def ac_simps)
  from hoareD [OF clatd_run_tracks [OF assms] this run] 
  have "clatd_ok d' \<and> children (hist d') = clatd_pids d' + ?M" .
  moreover have "d_tether d' = d_tether d \<and> d_ppp d' = d_ppp d \<and> d_softap d' = d_softap d"
    using run by (cases c) (auto simp: startClatd_def stopClatd_def isClatdStarted_def run_simps split: if_splits)
  ultimately show "children_ok d'" by (simp add: children_ok_def daemon_pids_def ac_simps)
qed

lemma clatd_cmd_run: 
  assumes "\<And>c. keeps I (clatd_run e c)" and "hist_free I"
  shows "keeps I (ClatdCmd_runCommand e argv)"
proof -
  have "keeps I (startClatd e i)" "keeps I (stopClatd e i)" for i
    using assms(1) [of "StartClatd i"] assms(1) [of "StopClatd i"] by simp_all
  moreover have "keeps I (isClatdStarted e i)" for i
    using assms(1) [of "StatusClatd i"] by (auto simp: hoare_def run_simps split: prod.splits)
  ultimately show ?thesis unfolding ClatdCmd_runCommand_def Let_def by (intro wp assms(2))
qed

lemma keeps_ipfwd [wp]: "hist_free I \<Longrightarrow> keeps I (setIpFwdEnabled e b)" "hist_free I \<Longrightarrow> keeps I (getIpFwdEnabled e)"
  unfolding setIpFwdEnabled_def getIpFwdEnabled_def config_write_setting_def by (intro wp; assumption)+

lemma keeps_ipfwd_cmd:
  assumes "hist_free I" "\<And>d f. I (iWlanFwdEnable_update f d) = I d" "\<And>d f. I (fwIpFwdEnable_update f d) = I d"
  shows "keeps I (IpFwdCmd_runCommand e argv)"
proof -
  have "keeps I (modify (if b then iWlanFwdEnable_update f else fwIpFwdEnable_update f))" for b f
    by (rule keeps_modify) (simp add: assms)
  then show ?thesis unfolding IpFwdCmd_runCommand_def Let_def by (intro wp assms(1))
qed

lemma keeps_nat_cmd:
  assumes "hist_free I" "\<And>i x. keeps I (on_nat (enableNat e i x))" "\<And>i x. keeps I (on_nat (disableNat e i x))"
    "keeps I (on_bw (setGlobalAlertInForwardChain e))" "keeps I (on_bw (removeGlobalAlertInForwardChain e))"
  shows "keeps I (NatCmd_runCommand e argv)"
  unfolding NatCmd_runCommand_def Let_def by (intro wp assms)

lemma children_fwd: "children_ok (iWlanFwdEnable_update f d) = children_ok d" "children_ok (fwIpFwdEnable_update f d) = children_ok d"
  by (simp_all add: children_ok_def clatd_ok_def daemon_pids_def clatd_pids_def)

lemma children_registered:
  assumes "forks_ok e" and "map_of (registered e l) name = Some run"
  shows "keeps children_ok (run argv)"
  using assms
  by (auto simp: registered_def split: if_splits
      intro!: keeps_interface keeps_ipfwd_cmd children_on tracks_tether_cmd keeps_nat_cmd children_on_quiet kids_nat kids_alerts
        tracks_ppp_cmds tracks_softap_cmd keeps_bind keeps_gets kids_bandwidth keeps_idletimer keeps_resolver keeps_firewall
        clatd_cmd_run children_clatd_run keeps_network_cmd nc_free_exec keeps_route free_children children_fwd)

section \<open>The networks of the daemon\<close>

lemma free_networks: "rc_free nc_inv" "hist_free nc_inv"
  by (rule rc_free_nc_inv, rule rc_free_hist [OF rc_free_nc_inv])

lemma networks_frame:
  "nc_inv (d\<lparr>d_tether := x1\<rparr>) = nc_inv d" "nc_inv (d\<lparr>d_nat := x2\<rparr>) = nc_inv d" "nc_inv (d\<lparr>d_bw := x3\<rparr>) = nc_inv d"
  "nc_inv (d\<lparr>d_ppp := x4\<rparr>) = nc_inv d" "nc_inv (d\<lparr>d_softap := x5\<rparr>) = nc_inv d"
  "nc_inv (iWlanFwdEnable_update f d) = nc_inv d" "nc_inv (fwIpFwdEnable_update f d) = nc_inv d"
  "nc_inv (d\<lparr>hist := h\<rparr>) = nc_inv d" "nc_inv (d\<lparr>interfaceToTable := t\<rparr>) = nc_inv d"
  by (simp_all add: nc_inv_def)

lemma networks_on:
  "keeps nc_inv (on_tether m1)" "keeps nc_inv (on_nat m2)" "keeps nc_inv (on_bw m3)" "keeps nc_inv (on_ppp m4)"
  "keeps nc_inv (on_softap m5)"
  by (rule hoareI; auto simp: on_tether_def on_nat_def on_bw_def on_ppp_def on_softap_def networks_frame split: prod.splits)+

lemma networks_clatd_run: "keeps nc_inv (clatd_run e c)"
  by (rule hoareI, cases c)
    (auto simp: startClatd_def stopClatd_def isClatdStarted_def nc_inv_def run_simps split: if_splits)

lemma networks_registered:
  assumes "map_of (registered e l) name = Some run"
  shows "keeps nc_inv (run argv)"
  using assms
  by (auto simp: registered_def split: if_splits
      intro!: keeps_interface keeps_ipfwd_cmd networks_on keeps_nat_cmd keeps_bind keeps_gets keeps_idletimer keeps_resolver
        keeps_firewall clatd_cmd_run networks_clatd_run keeps_network_cmd nc_exec_inv keeps_route free_networks networks_frame)

section \<open>Start-up\<close>

lemma keeps_startup [wp]:
  "hist_free I \<Longrightarrow> keeps I (InterfaceController_new e)" "hist_free I \<Longrightarrow> keeps I (setup_chains e)"
  "hist_free I \<Longrightarrow> keeps I (setupOemIptablesHook e)"
proof -
  have "hist_free I \<Longrightarrow> keeps I (createChildChains e t table p cs)" for t table p cs
    by (induction cs) (auto simp: createChildChain_def intro!: wp)
  then show "hist_free I \<Longrightarrow> keeps I (setup_chains e)" unfolding setup_chains_def by (intro wp_basic; simp)
  show "hist_free I \<Longrightarrow> keeps I (InterfaceController_new e)" "hist_free I \<Longrightarrow> keeps I (setupOemIptablesHook e)"
    unfolding InterfaceController_new_def setAcceptRA_def setAcceptRARouteTable_def setIPv6OptimisticMode_def
      setupOemIptablesHook_def oemCleanupHooks_def oemInitChains_def
    by (intro wp; assumption)+
qed

lemma keeps_started:
  assumes "rc_free I" and "\<And>d. I' d \<Longrightarrow> I (new_controllers d)"
    and "keeps I (on_nat (nat_setupIptablesHooks e))" "keeps I (on_bw (bw_setupIptablesHooks e))"
    and "\<And>p. keeps I (on_bw (enableBandwidthControl e False p))"
  shows "hoare I' (CommandListener_new e) (\<lambda>_. I)"
proof -
  have "keeps I (do {
     InterfaceController_new e;
     setup_chains e;
     setupOemIptablesHook e;
     _ \<leftarrow> fw_setupIptablesHooks;
     _ \<leftarrow> on_nat (nat_setupIptablesHooks e);
     _ \<leftarrow> on_bw (bw_setupIptablesHooks e);
     _ \<leftarrow> idle_setupIptablesHooks;
     _ \<leftarrow> on_bw (enableBandwidthControl e False (env_property e ''persist.bandwidth.enable''));
     _ \<leftarrow> RouteController_Init e LOCAL_NET_ID;
     ret () })"
    unfolding fw_setupIptablesHooks_def idle_setupIptablesHooks_def
    by (intro wp_basic assms keeps_startup keeps_RouteController rc_free_hist)
  then show ?thesis using assms(2) unfolding CommandListener_new_def by (auto simp: hoare_def run_simps)
qed

lemma new_controllers_children:
  "hist d = [] \<Longrightarrow> mRtrAdvPid (d_tether d) = 0 \<Longrightarrow> children_ok (new_controllers d)"
  by (cases d) (simp add: new_controllers_def children_ok_def clatd_ok_def daemon_pids_def tether_pids_def ppp_pids_def
      softap_pids_def clatd_pids_def slot_def TetherController_new_def PppController_new_def SoftapController_new_def
      NetworkController_new_def)

lemma started:
  "hoare (\<lambda>d. hist d = [] \<and> mRtrAdvPid (d_tether d) = 0) (CommandListener_new e) (\<lambda>_. children_ok)"
  "hoare (\<lambda>d. True) (CommandListener_new e) (\<lambda>_. nc_inv)"
proof -
  show "hoare (\<lambda>d. hist d = [] \<and> mRtrAdvPid (d_tether d) = 0) (CommandListener_new e) (\<lambda>_. children_ok)"
    by (rule keeps_started)
      (auto intro!: free_children children_on_quiet kids_nat kids_bw_switch new_controllers_children)
  have "nc_inv (new_controllers d)" for d
    using NetworkController_new_inv [of d] by (simp add: new_controllers_def nc_inv_def)
  then show "hoare (\<lambda>d. True) (CommandListener_new e) (\<lambda>_. nc_inv)"
    by (intro keeps_started free_networks networks_on)
qed

lemma daemon_reach_ok: "daemon_reach e l d \<Longrightarrow> nc_inv d \<and> (forks_ok e \<longrightarrow> children_ok d)"
proof (induction rule: daemon_reach.induct)
  case (start d u d')
  then show ?case using hoareD [OF started(1)] hoareD [OF started(2)] by blast
next
  case (line d name run args r d')
  then show ?case using hoareD [OF networks_registered] hoareD [OF children_registered] by blast
qed

section \<open>Properties\<close>

text \<open>
  C29: In every state that the daemon reaches from its start by lines that name a registered command, whatever their other words are and
  whatever the outside world answers, the networks satisfy the controller's invariant, each interface has at most one clatd process, and
  the children that were started and not waited for are exactly those on record: dnsmasq, radish, pppd, hostapd and the clatd processes.
  No command of one controller loses a child of another. The process id of radish, which no constructor sets, is 0 at the start.
\<close>

theorem daemon_invariant:
  assumes "forks_ok e" and "daemon_reach e l d"
  shows "nc_inv d \<and> distinct (map fst (mClatdPids d)) \<and>
    children (hist d) = slot (mDaemonPid (d_tether d)) + slot (mRtrAdvPid (d_tether d)) + slot (ppp_mPid (d_ppp d)) +
      slot (sap_mPid (d_softap d)) + image_mset snd (mset (mClatdPids d))"
  using daemon_reach_ok [OF assms(2)] assms(1)
  by (simp add: children_ok_def clatd_ok_def wf_map_distinct daemon_pids_def tether_pids_def ppp_pids_def softap_pids_def clatd_pids_def)

lemma no_softap_at_start: "hoare (\<lambda>d. True) (CommandListener_new e) (\<lambda>_ d. sap_mPid (d_softap d) = 0)"
proof (rule keeps_started)
  show "rc_free (\<lambda>d. sap_mPid (d_softap d) = 0)" by (simp add: rc_free_def hist_free_def)
  show "sap_mPid (d_softap (new_controllers d)) = 0" for d
    by (simp add: new_controllers_def SoftapController_new_def)
qed (auto intro!: hoareI simp: on_nat_def on_bw_def split: prod.splits)

theorem daemon_invariant_witness:
  "\<exists>d. daemon_reach forking_env sample_libs d \<and> sap_mPid (d_softap d) = 41 \<and> nc_inv d \<and> 41 \<in># children (hist d)"
proof -
  obtain u d1 where new: "run_state (CommandListener_new forking_env) sample_daemon = (u, d1)" using prod.exhaust by blast
  have "hist sample_daemon = []" "mRtrAdvPid (d_tether sample_daemon) = 0" by (simp_all add: sample_daemon_def sample_tether_def)
  from daemon_reach.start [OF this new] have reach: "daemon_reach forking_env sample_libs d1" .
  have idle: "sap_mPid (d_softap d1) = 0" using hoareD [OF no_softap_at_start _ new] by simp
  obtain run where run: "map_of (registered forking_env sample_libs) ''softap'' = Some run"
    and run_def: "run = (\<lambda>argv. on_softap (SoftapCmd_runCommand forking_env (l_pbkdf2 sample_libs) (l_fw_path sample_libs)
      (l_entropy sample_libs) argv))" by (simp add: registered_def)
  obtain r d2 where start: "run_state (run (''softap'' # [''startap''])) d1 = (r, d2)" using prod.exhaust by blast
  have reach2: "daemon_reach forking_env sample_libs d2" by (rule daemon_reach.line [OF reach run start])
  have pid: "sap_mPid (d_softap d2) = 41"
    using start idle unfolding run_def
    by (auto simp: on_softap_def SoftapCmd_runCommand_def startSoftap_def forking_env_def reply_def sendMsg_def run_simps split: if_splits)
  have "forks_ok forking_env" by (simp add: forks_ok_def forking_env_def)
  from daemon_invariant [OF this reach2] pid have "nc_inv d2 \<and> 41 \<in># children (hist d2)" by (simp add: slot_def)
  then show ?thesis using reach2 pid by blast
qed

end
