(* ===== verification/IpForwarding.thy ===== *)
theory IpForwarding
  imports DaemonAnswers
begin

text \<open>
  The command \<^verbatim>\<open>ipfwd\<close> has two kinds of users, the framework and iwlan. The specification is the set of users that want packets
  to be forwarded; the daemon keeps two flags, and the kernel three files.
\<close>

section \<open>Specification\<close>

definition requester :: "string list \<Rightarrow> string" where
  "requester argv = (if length argv > 2 \<and> argv ! 2 = ''iwlan'' then ''iwlan'' else ''framework'')"

definition requests :: "string list \<Rightarrow> string set \<Rightarrow> string set" where
  "requests argv S =
     (if length argv < 2 then S
      else if argv ! 1 = ''enable'' then insert (requester argv) S
      else if argv ! 1 = ''disable'' then S - {requester argv}
      else S)"

text \<open>The text that a file was last set to.\<close>

fun last_write :: "string \<Rightarrow> event list \<Rightarrow> string option" where
  "last_write p [] = None"
| "last_write p (EvWriteFile q text ok # h) = (if q = p \<and> ok then Some text else last_write p h)"
| "last_write p (ev # h) = last_write p h"

definition forwarding_is :: "bool \<Rightarrow> event list \<Rightarrow> bool" where
  "forwarding_is on h \<longleftrightarrow>
     (if on then last_write IP4_CFG_IP_FORWARD h = Some ''1'' \<and> last_write IP6_CFG_ALL_PROXY_NDP h = Some ''2'' \<and>
                 last_write IP6_CFG_ALL_FORWARDING h = Some ''2''
      else \<forall>p\<in>{IP4_CFG_IP_FORWARD, IP6_CFG_ALL_PROXY_NDP, IP6_CFG_ALL_FORWARDING}. last_write p h \<in> {None, Some ''0''})"

definition writable_files :: "env \<Rightarrow> bool" where
  "writable_files e \<longleftrightarrow> (\<forall>h p text. env_write e h p text) \<and> env_property e ''ro.bootmode'' \<noteq> Some ''bp-tools''"

definition wanting :: "daemon \<Rightarrow> string set" where
  "wanting d = (if iWlanFwdEnable d then {''iwlan''} else {}) \<union> (if fwIpFwdEnable d then {''framework''} else {})"

section \<open>Lemmas\<close>

lemma paths_differ [simp]:
  "IP4_CFG_IP_FORWARD \<noteq> IP6_CFG_ALL_PROXY_NDP" "IP4_CFG_IP_FORWARD \<noteq> IP6_CFG_ALL_FORWARDING"
  "IP6_CFG_ALL_PROXY_NDP \<noteq> IP6_CFG_ALL_FORWARDING" "IP6_CFG_ALL_PROXY_NDP \<noteq> IP4_CFG_IP_FORWARD"
  "IP6_CFG_ALL_FORWARDING \<noteq> IP4_CFG_IP_FORWARD" "IP6_CFG_ALL_FORWARDING \<noteq> IP6_CFG_ALL_PROXY_NDP"
  by (simp_all add: IP4_CFG_IP_FORWARD_def IP6_CFG_ALL_PROXY_NDP_def IP6_CFG_ALL_FORWARDING_def)

lemma setIpFwdEnabled_sets:
  assumes "writable_files e" and "run_state (setIpFwdEnabled e on) s = (r, s')"
  shows "r = 0 \<and> (\<exists>h. s' = s\<lparr>hist := h\<rparr> \<and> forwarding_is on h)"
  using assms
  by (auto simp: setIpFwdEnabled_def config_write_setting_def writable_files_def forwarding_is_def run_simps split: if_splits)

lemma forwarding_is_send [simp]:
  "forwarding_is on (EvSend c m # h) = forwarding_is on h" "forwarding_is on (EvSendErrno c m n # h) = forwarding_is on h"
  "forwarding_is on (EvReadFile p x # h) = forwarding_is on h"
  by (simp_all add: forwarding_is_def)

lemma wanting_simps [simp]: "wanting (d\<lparr>hist := h\<rparr>) = wanting d"
  "wanting (d\<lparr>iWlanFwdEnable := b\<rparr>) = (if b then insert ''iwlan'' (wanting d) else wanting d - {''iwlan''})"
  "wanting (d\<lparr>fwIpFwdEnable := b\<rparr>) = (if b then insert ''framework'' (wanting d) else wanting d - {''framework''})"
  by (auto simp: wanting_def)

lemma wanting_empty: "wanting d = {} \<longleftrightarrow> \<not> iWlanFwdEnable d \<and> \<not> fwIpFwdEnable d"
  by (simp add: wanting_def)

text \<open>The flag of the requester, and the answer, which changes neither the flags nor the files.\<close>

definition set_flag :: "string list \<Rightarrow> bool \<Rightarrow> daemon \<Rightarrow> daemon" where
  "set_flag argv b = (if requester argv = ''iwlan'' then iWlanFwdEnable_update (\<lambda>_. b) else fwIpFwdEnable_update (\<lambda>_. b))"

lemma wanting_set_flag:
  "wanting (set_flag argv b d) = (if b then insert (requester argv) (wanting d) else wanting d - {requester argv})"
  "hist (set_flag argv b d) = hist d"
  by (auto simp: set_flag_def requester_def wanting_def)

lemma run_answer:
  "run_state (ok_or_errno x y 0) d = (r, d') \<Longrightarrow> d' = d\<lparr>hist := EvSend CommandOkay x # hist d\<rparr>"
  by (auto simp: ok_or_errno_def reply_def sendMsg_def run_simps)

lemma ipfwd_enable:
  assumes "writable_files e" and "length argv \<ge> 2" "argv ! 1 = ''enable''" and "run_state (IpFwdCmd_runCommand e argv) d = (r, d')"
  shows "wanting d' = insert (requester argv) (wanting d) \<and> forwarding_is True (hist d')"
proof -
  let ?d = "set_flag argv True d"
  obtain q d2 where s: "run_state (setIpFwdEnabled e True) ?d = (q, d2)" using prod.exhaust by blast
  then obtain h where h: "q = 0" "d2 = ?d\<lparr>hist := h\<rparr>" "forwarding_is True h" using setIpFwdEnabled_sets [OF assms(1)] by blast
  have "run_state (ok_or_errno ''ipfwd operation succeeded'' ''ipfwd operation failed'' 0) d2 = (r, d')"
    using assms(2-4) s h(1)
    by (auto simp: IpFwdCmd_runCommand_def run_simps set_flag_def requester_def Let_def split: if_splits)
  from run_answer [OF this] h show ?thesis by (simp add: wanting_set_flag)
qed

lemma ipfwd_disable:
  assumes "writable_files e" and "length argv \<ge> 2" "argv ! 1 = ''disable''" and "run_state (IpFwdCmd_runCommand e argv) d = (r, d')"
    and "forwarding_is (wanting d \<noteq> {}) (hist d)"
  shows "wanting d' = wanting d - {requester argv} \<and> forwarding_is (wanting d' \<noteq> {}) (hist d')"
proof -
  let ?d = "set_flag argv False d"
  let ?m = "if wanting ?d = {} then setIpFwdEnabled e False else ret 0"
  obtain q d2 where s: "run_state ?m ?d = (q, d2)" using prod.exhaust by blast
  have d2: "q = 0 \<and> wanting d2 = wanting ?d \<and> forwarding_is (wanting ?d \<noteq> {}) (hist d2)"
  proof (cases "wanting ?d = {}")
    case True
    then show ?thesis using setIpFwdEnabled_sets [OF assms(1), of False ?d] s by auto
  next
    case False
    then have "wanting d \<noteq> {}" by (auto simp: wanting_set_flag)
    then have "forwarding_is (wanting ?d \<noteq> {}) (hist ?d)" using False assms(5) by (simp add: wanting_set_flag(2))
    then show ?thesis using s False by (simp add: run_simps)
  qed
  have "run_state (ok_or_errno ''ipfwd operation succeeded'' ''ipfwd operation failed'' 0) d2 = (r, d')"
    using assms(2-4) s d2
    by (auto simp: IpFwdCmd_runCommand_def run_simps wanting_empty set_flag_def requester_def Let_def split: if_splits)
  from run_answer [OF this] d2 show ?thesis by (auto simp: wanting_set_flag)
qed

lemma ipfwd_step:
  assumes "writable_files e" and "run_state (IpFwdCmd_runCommand e argv) d = (r, d')"
    and "forwarding_is (wanting d \<noteq> {}) (hist d)"
  shows "wanting d' = requests argv (wanting d) \<and> forwarding_is (wanting d' \<noteq> {}) (hist d')"
proof (cases "length argv \<ge> 2 \<and> argv ! 1 \<in> {''enable'', ''disable''}")
  case True
  then consider "length argv \<ge> 2" "argv ! 1 = ''enable''" | "length argv \<ge> 2" "argv ! 1 = ''disable''" by blast
  then show ?thesis
  proof cases
    case 1
    from ipfwd_enable [OF assms(1) this assms(2)] 1 show ?thesis by (simp add: requests_def)
  next
    case 2
    have "requests argv (wanting d) = wanting d - {requester argv}" using 2 by (simp add: requests_def)
    with ipfwd_disable [OF assms(1) 2 assms(2,3)] show ?thesis by metis
  qed
next
  case False
  then have "wanting d' = wanting d \<and> forwarding_is (wanting d \<noteq> {}) (hist d')"
    using assms(2,3)
    by (auto simp: IpFwdCmd_runCommand_def getIpFwdEnabled_def reply_def sendMsg_def run_simps Let_def split: if_splits option.splits)
  then show ?thesis using False by (auto simp: requests_def)
qed

section \<open>Properties\<close>

text \<open>
  C34: IP forwarding is shared without conflict: after any sequence of \<^verbatim>\<open>ipfwd\<close> command lines, the files of the kernel say that packets
  are forwarded just if the framework or iwlan has enabled forwarding and not disabled it since. Neither can turn off forwarding that the
  other still wants. The files are assumed to be writable, and the device not to be in the mode \<^verbatim>\<open>bp-tools\<close>.
\<close>

theorem ipfwd_follows_requests:
  assumes "writable_files e" and "wanting d = {}" and "hist d = []"
    and "run_state (run_calls (IpFwdCmd_runCommand e) lines) d = (rs, d')"
  shows "forwarding_is (fold requests lines {} \<noteq> {}) (hist d')"
proof -
  have "wanting d' = fold requests lines (wanting d) \<and> forwarding_is (wanting d' \<noteq> {}) (hist d')"
    if "forwarding_is (wanting d \<noteq> {}) (hist d)" "run_state (run_calls (IpFwdCmd_runCommand e) lines) d = (rs, d')" for lines rs d
    using that
  proof (induction lines arbitrary: d rs)
    case (Cons argv lines)
    obtain r d1 where 1: "run_state (IpFwdCmd_runCommand e argv) d = (r, d1)" using prod.exhaust by blast
    obtain rs' d2 where 2: "run_state (run_calls (IpFwdCmd_runCommand e) lines) d1 = (rs', d2)" using prod.exhaust by blast
    have "run_state (run_calls (IpFwdCmd_runCommand e) lines) d1 = (rs', d')" using Cons.prems(2) 1 2 by (simp add: run_simps)
    from Cons.IH [OF _ this] ipfwd_step [OF assms(1) 1 Cons.prems(1)] show ?case by auto
  qed (simp add: run_simps)
  moreover have "forwarding_is (wanting d \<noteq> {}) (hist d)" using assms(2,3) by (simp add: forwarding_is_def)
  ultimately show ?thesis using assms(2,4) by metis
qed

theorem ipfwd_follows_requests_witness:
  "\<exists>rs d'. run_state (run_calls (IpFwdCmd_runCommand sample_env)
       [[''ipfwd'', ''enable'', ''iwlan''], [''ipfwd'', ''enable''], [''ipfwd'', ''disable'']]) sample_daemon = (rs, d') \<and>
     forwarding_is True (hist d')"
proof -
  let ?lines = "[[''ipfwd'', ''enable'', ''iwlan''], [''ipfwd'', ''enable''], [''ipfwd'', ''disable'']]"
  obtain rs d' where run: "run_state (run_calls (IpFwdCmd_runCommand sample_env) ?lines) sample_daemon = (rs, d')"
    using prod.exhaust by blast
  have "fold requests ?lines {} = {''iwlan''}" by (auto simp: requests_def requester_def)
  with ipfwd_follows_requests [OF _ _ _ run] run show ?thesis
    by (simp add: writable_files_def sample_env_def sample_daemon_def wanting_def)
qed

end
