(* ===== verification/LinkedList.thy ===== *)
theory LinkedList
  imports Prelude
begin

text \<open>
  The list class of the daemon, \<^verbatim>\<open>server/List.h\<close>: a circle of doubly linked nodes through a sentinel, in an explicit store. Every
  access to a node that is not allocated, and the value of the sentinel, is undefined behaviour and has the value \<^const>\<open>None\<close>; so
  is a loop that does not end. The refinement theorem at the end covers any number of lists in one store. The other theories, whose
  controllers keep their collections in this class, use HOL lists for it.
\<close>

section \<open>Nodes and the store\<close>

type_synonym addr = nat

text \<open>The sentinel is raw storage: its value is never constructed, which is \<^const>\<open>None\<close> here.\<close>

record 'a list_node =
  mVal :: "'a option"
  mpPrev :: addr
  mpNext :: addr

record 'a store =
  cells :: "addr \<Rightarrow> 'a list_node option"
  fresh_addr :: addr

text \<open>\<^verbatim>\<open>new\<close> and \<^verbatim>\<open>delete\<close>. A fresh node's pointers are not initialised; addresses are not used again.\<close>

definition new_node :: "'a option \<Rightarrow> 'a store \<Rightarrow> addr \<times> 'a store" where
  "new_node v h =
     (fresh_addr h, h\<lparr>cells := (cells h)(fresh_addr h \<mapsto> \<lparr>mVal = v, mpPrev = 0, mpNext = 0\<rparr>), fresh_addr := fresh_addr h + 1\<rparr>)"

definition delete_node :: "addr \<Rightarrow> 'a store \<Rightarrow> 'a store option" where
  "delete_node p h = (case cells h p of None \<Rightarrow> None | Some _ \<Rightarrow> Some (h\<lparr>cells := (cells h)(p := None)\<rparr>))"

definition getRef :: "'a store \<Rightarrow> addr \<Rightarrow> 'a option" where
  "getRef h p = Option.bind (cells h p) mVal"

definition getPrev :: "'a store \<Rightarrow> addr \<Rightarrow> addr option" where
  "getPrev h p = map_option mpPrev (cells h p)"

definition getNext :: "'a store \<Rightarrow> addr \<Rightarrow> addr option" where
  "getNext h p = map_option mpNext (cells h p)"

definition setVal :: "addr \<Rightarrow> 'a \<Rightarrow> 'a store \<Rightarrow> 'a store option" where
  "setVal p v h = map_option (\<lambda>n. h\<lparr>cells := (cells h)(p \<mapsto> n\<lparr>mVal := Some v\<rparr>)\<rparr>) (cells h p)"

definition setPrev :: "addr \<Rightarrow> addr \<Rightarrow> 'a store \<Rightarrow> 'a store option" where
  "setPrev p q h = map_option (\<lambda>n. h\<lparr>cells := (cells h)(p \<mapsto> n\<lparr>mpPrev := q\<rparr>)\<rparr>) (cells h p)"

definition setNext :: "addr \<Rightarrow> addr \<Rightarrow> 'a store \<Rightarrow> 'a store option" where
  "setNext p q h = map_option (\<lambda>n. h\<lparr>cells := (cells h)(p \<mapsto> n\<lparr>mpNext := q\<rparr>)\<rparr>) (cells h p)"

section \<open>The class\<close>

text \<open>A list object is its sentinel \<^verbatim>\<open>mpMiddle\<close>, an iterator the node that it points to.\<close>

definition prep :: "'a store \<Rightarrow> (addr \<times> 'a store) option" where
  "prep h = (let (mpMiddle, h) = new_node None h in
     do { h \<leftarrow> setPrev mpMiddle mpMiddle h; h \<leftarrow> setNext mpMiddle mpMiddle h; Some (mpMiddle, h) })"

definition List_new :: "'a store \<Rightarrow> (addr \<times> 'a store) option" where
  "List_new h = prep h"

definition List_empty :: "'a store \<Rightarrow> addr \<Rightarrow> bool option" where
  "List_empty h l = do { n \<leftarrow> getNext h l; Some (n = l) }"

definition List_begin :: "'a store \<Rightarrow> addr \<Rightarrow> addr option" where
  "List_begin h l = getNext h l"

definition List_end :: "addr \<Rightarrow> addr" where
  "List_end l = l"

text \<open>\<^verbatim>\<open>operator++\<close> and \<^verbatim>\<open>operator--\<close> of the iterator.\<close>

definition iter_inc :: "'a store \<Rightarrow> addr \<Rightarrow> addr option" where
  "iter_inc h mpNode = getNext h mpNode"

definition iter_dec :: "'a store \<Rightarrow> addr \<Rightarrow> addr option" where
  "iter_dec h mpNode = getPrev h mpNode"

definition insert_one :: "addr \<Rightarrow> 'a \<Rightarrow> 'a store \<Rightarrow> (addr \<times> 'a store) option" where
  "insert_one posn val h = (let (newNode, h) = new_node (Some val) h in
     do {
       h \<leftarrow> setNext newNode posn h;
       p \<leftarrow> getPrev h posn;
       h \<leftarrow> setPrev newNode p h;
       p \<leftarrow> getPrev h posn;
       h \<leftarrow> setNext p newNode h;
       h \<leftarrow> setPrev posn newNode h;
       Some (newNode, h) })"

partial_function (option) insert_range :: "addr \<Rightarrow> addr \<Rightarrow> addr \<Rightarrow> 'a store \<Rightarrow> 'a store option" where
  "insert_range posn first last' h =
     (if first \<noteq> last' then do {
        v \<leftarrow> getRef h first;
        (_, h) \<leftarrow> insert_one posn v h;
        first \<leftarrow> iter_inc h first;
        insert_range posn first last' h }
      else Some h)"

definition erase_one :: "addr \<Rightarrow> 'a store \<Rightarrow> (addr \<times> 'a store) option" where
  "erase_one posn h = do {
     pNext \<leftarrow> getNext h posn;
     pPrev \<leftarrow> getPrev h posn;
     h \<leftarrow> setNext pPrev pNext h;
     h \<leftarrow> setPrev pNext pPrev h;
     h \<leftarrow> delete_node posn h;
     Some (pNext, h) }"

partial_function (option) erase_range :: "addr \<Rightarrow> addr \<Rightarrow> 'a store \<Rightarrow> (addr \<times> 'a store) option" where
  "erase_range first last' h =
     (if first \<noteq> last' then do {
        nxt \<leftarrow> iter_inc h first;
        (_, h) \<leftarrow> erase_one first h;
        erase_range nxt last' h }
      else Some (last', h))"

definition push_front :: "addr \<Rightarrow> 'a \<Rightarrow> 'a store \<Rightarrow> 'a store option" where
  "push_front l val h = do { b \<leftarrow> List_begin h l; (_, h) \<leftarrow> insert_one b val h; Some h }"

definition push_back :: "addr \<Rightarrow> 'a \<Rightarrow> 'a store \<Rightarrow> 'a store option" where
  "push_back l val h = do { (_, h) \<leftarrow> insert_one (List_end l) val h; Some h }"

partial_function (option) clear_loop :: "addr \<Rightarrow> addr \<Rightarrow> 'a store \<Rightarrow> 'a store option" where
  "clear_loop mpMiddle pCurrent h =
     (if pCurrent \<noteq> mpMiddle then do {
        pNext \<leftarrow> getNext h pCurrent;
        h \<leftarrow> delete_node pCurrent h;
        clear_loop mpMiddle pNext h }
      else Some h)"

definition List_clear :: "addr \<Rightarrow> 'a store \<Rightarrow> 'a store option" where
  "List_clear l h = do {
     pCurrent \<leftarrow> getNext h l;
     h \<leftarrow> clear_loop l pCurrent h;
     h \<leftarrow> setPrev l l h;
     setNext l l h }"

text \<open>The count is a \<^verbatim>\<open>ptrdiff_t\<close>; it cannot overflow, since there are not more nodes than addresses.\<close>

partial_function (option) distance :: "'a store \<Rightarrow> addr \<Rightarrow> addr \<Rightarrow> int \<Rightarrow> int option" where
  "distance h first last' count' =
     (if first \<noteq> last' then do { first \<leftarrow> iter_inc h first; distance h first last' (count' + 1) } else Some count')"

definition List_size :: "'a store \<Rightarrow> addr \<Rightarrow> nat option" where
  "List_size h l = do { b \<leftarrow> List_begin h l; n \<leftarrow> distance h b (List_end l) 0; Some (nat n) }"

definition List_copy :: "addr \<Rightarrow> 'a store \<Rightarrow> (addr \<times> 'a store) option" where
  "List_copy src h = do {
     (l, h) \<leftarrow> prep h;
     b \<leftarrow> List_begin h l;
     first \<leftarrow> List_begin h src;
     h \<leftarrow> insert_range b first (List_end src) h;
     Some (l, h) }"

definition List_delete :: "addr \<Rightarrow> 'a store \<Rightarrow> 'a store option" where
  "List_delete l h = do { h \<leftarrow> List_clear l h; delete_node l h }"

partial_function (option) assign_loop ::
    "addr \<Rightarrow> addr \<Rightarrow> addr \<Rightarrow> addr \<Rightarrow> 'a store \<Rightarrow> (addr \<times> addr \<times> 'a store) option" where
  "assign_loop firstSrc lastSrc firstDst lastDst h =
     (if firstSrc \<noteq> lastSrc \<and> firstDst \<noteq> lastDst then do {
        v \<leftarrow> getRef h firstSrc;
        h \<leftarrow> setVal firstDst v h;
        s \<leftarrow> iter_inc h firstSrc;
        d \<leftarrow> iter_inc h firstDst;
        assign_loop s lastSrc d lastDst h }
      else Some (firstSrc, firstDst, h))"

definition List_assign :: "addr \<Rightarrow> addr \<Rightarrow> 'a store \<Rightarrow> 'a store option" where
  "List_assign l right h =
     (if l = right then Some h
      else do {
        firstDst \<leftarrow> List_begin h l;
        firstSrc \<leftarrow> List_begin h right;
        (firstSrc, firstDst, h) \<leftarrow> assign_loop firstSrc (List_end right) firstDst (List_end l) h;
        if firstSrc = List_end right then do { (_, h) \<leftarrow> erase_range firstDst (List_end l) h; Some h }
        else insert_range (List_end l) firstSrc (List_end right) h })"

section \<open>Circles of nodes\<close>

text \<open>\<open>seg h x ps y\<close>: the nodes \<open>ps\<close> lead from \<open>x\<close> to \<open>y\<close>, forwards and backwards.\<close>

fun seg :: "'a store \<Rightarrow> addr \<Rightarrow> addr list \<Rightarrow> addr \<Rightarrow> bool" where
  "seg h x [] y \<longleftrightarrow> getNext h x = Some y \<and> getPrev h y = Some x"
| "seg h x (p # ps) y \<longleftrightarrow> getNext h x = Some p \<and> getPrev h p = Some x \<and> seg h p ps y"

definition holds_list :: "'a store \<Rightarrow> addr \<Rightarrow> addr list \<Rightarrow> 'a list \<Rightarrow> bool" where
  "holds_list h l ps xs \<longleftrightarrow> distinct (l # ps) \<and> seg h l ps l \<and> map (getRef h) ps = map Some xs"

definition store_ok :: "'a store \<Rightarrow> bool" where
  "store_ok h \<longleftrightarrow> dom (cells h) \<subseteq> {..<fresh_addr h}"

lemma store_ok_less: "store_ok h \<Longrightarrow> cells h p = Some n \<Longrightarrow> p < fresh_addr h"
  by (auto simp: store_ok_def)

lemma seg_append: "seg h x (ps @ p # qs) y \<longleftrightarrow> seg h x ps p \<and> seg h p qs y"
  by (induction ps arbitrary: x) auto

lemma seg_prev: "seg h x ps y \<Longrightarrow> getPrev h y = Some (last (x # ps))"
  by (induction ps arbitrary: x) auto

lemma seg_next: "seg h x ps y \<Longrightarrow> getNext h x = Some (hd (ps @ [y]))"
  by (cases ps) auto

lemma seg_cong:
  assumes "seg h x ps y" and "\<And>q. q \<in> set (x # ps) \<Longrightarrow> getNext h' q = getNext h q"
    and "\<And>q. q \<in> set (ps @ [y]) \<Longrightarrow> getPrev h' q = getPrev h q"
  shows "seg h' x ps y"
  using assms by (induction ps arbitrary: x) auto

text \<open>The end of a segment is redirected to another node.\<close>

lemma seg_redirect:
  assumes "seg h x ps y" and "distinct (x # ps)" and "getNext h' (last (x # ps)) = Some z" and "getPrev h' z = Some (last (x # ps))"
    and "\<And>q. q \<in> set (x # ps) \<Longrightarrow> q \<noteq> last (x # ps) \<Longrightarrow> getNext h' q = getNext h q"
    and "\<And>q. q \<in> set ps \<Longrightarrow> getPrev h' q = getPrev h q"
  shows "seg h' x ps z"
  using assms
proof (induction ps arbitrary: x)
  case (Cons p ps)
  have "x \<noteq> last (p # ps)" using Cons.prems(2) last_in_set [of "p # ps"] by force
  with Cons show ?case by (auto split: if_splits)
qed simp

lemma seg_allocated: "seg h x ps y \<Longrightarrow> set (x # ps @ [y]) \<subseteq> dom (cells h)"
  by (induction ps arbitrary: x) (auto simp: getNext_def getPrev_def)

subsection \<open>Effects on the store\<close>

text \<open>
  What an operation on the nodes \<open>A\<close> leaves behind: the nodes \<open>B\<close> in their place, some of them new, and every other node as it was.
\<close>

definition frame :: "'a store \<Rightarrow> addr set \<Rightarrow> addr set \<Rightarrow> 'a store \<Rightarrow> bool" where
  "frame h A B h' \<longleftrightarrow> store_ok h' \<and> fresh_addr h \<le> fresh_addr h' \<and> dom (cells h') = (dom (cells h) - A) \<union> B \<and>
     B \<subseteq> A \<union> {fresh_addr h..} \<and> (\<forall>r\<in>dom (cells h) - A. cells h' r = cells h r)"

lemma frame_refl: "store_ok h \<Longrightarrow> A \<subseteq> dom (cells h) \<Longrightarrow> frame h A A h"
  by (auto simp: frame_def)

lemma frame_fresh: "frame h A B h' \<Longrightarrow> store_ok h \<Longrightarrow> B \<inter> (dom (cells h) - A) = {}"
  by (fastforce simp: frame_def store_ok_def)

lemma frame_trans:
  assumes "frame h A B h1" and "frame h1 B C h2" and "store_ok h"
  shows "frame h A C h2"
proof -
  have "(dom (cells h) - A) \<inter> B = {}" using frame_fresh [OF assms(1,3)] by blast
  moreover have "C \<subseteq> A \<union> {fresh_addr h..}" using assms(1,2) by (fastforce simp: frame_def)
  moreover have "cells h2 r = cells h r" if "r \<in> dom (cells h) - A" for r
    using that assms(1,2) calculation(1) unfolding frame_def by (metis Diff_iff Int_iff Un_iff empty_iff)
  ultimately show ?thesis using assms(1,2) unfolding frame_def by (simp add: Un_Diff) blast
qed

lemma frame_keeps_list:
  assumes "frame h A B h'" and "holds_list h l ps xs" and "set (l # ps) \<inter> A = {}"
  shows "holds_list h' l ps xs"
proof -
  have c: "cells h' q = cells h q" if "q \<in> set (l # ps)" for q
    using assms seg_allocated [of h l ps l] that unfolding frame_def holds_list_def by fastforce
  have "seg h' l ps l"
    by (rule seg_cong [of h]) (use assms(2) c in \<open>auto simp: holds_list_def getNext_def getPrev_def\<close>)
  moreover have "map (getRef h') ps = map (getRef h) ps" using c by (simp add: getRef_def)
  ultimately show ?thesis using assms(2) by (metis holds_list_def)
qed

lemmas node_defs = getRef_def getPrev_def getNext_def setVal_def setPrev_def setNext_def new_node_def delete_node_def

lemma insert_one_effect:
  assumes "store_ok h" and "getPrev h posn = Some pr" and "pr \<in> dom (cells h)"
  shows "\<exists>h'. insert_one posn v h = Some (fresh_addr h, h') \<and>
    getNext h' = (getNext h)(pr := Some (fresh_addr h), fresh_addr h := Some posn) \<and>
    getPrev h' = (getPrev h)(fresh_addr h := Some pr, posn := Some (fresh_addr h)) \<and>
    getRef h' = (getRef h)(fresh_addr h := Some v) \<and> dom (cells h') = insert (fresh_addr h) (dom (cells h)) \<and>
    fresh_addr h' = fresh_addr h + 1 \<and> (\<forall>r\<in>dom (cells h) - {pr, posn}. cells h' r = cells h r)"
proof -
  obtain a where a: "cells h posn = Some a" "mpPrev a = pr" using assms(2) by (auto simp: getPrev_def)
  obtain b where b: "cells h pr = Some b" using assms(3) by blast
  have n: "posn \<noteq> fresh_addr h" "pr \<noteq> fresh_addr h" using assms(1) a(1) b by (auto simp: store_ok_def)
  show ?thesis
    using a b n assms(1)
    by (auto simp: insert_one_def node_defs fun_eq_iff store_ok_def dom_def)
qed

lemma erase_one_effect:
  assumes "getPrev h posn = Some pr" and "getNext h posn = Some nx" and "pr \<in> dom (cells h)" "nx \<in> dom (cells h)"
    and "pr \<noteq> posn" "nx \<noteq> posn"
  shows "\<exists>h'. erase_one posn h = Some (nx, h') \<and> getNext h' = (getNext h)(pr := Some nx, posn := None) \<and>
    getPrev h' = (getPrev h)(nx := Some pr, posn := None) \<and> getRef h' = (getRef h)(posn := None) \<and>
    dom (cells h') = dom (cells h) - {posn} \<and> fresh_addr h' = fresh_addr h \<and>
    (\<forall>r\<in>dom (cells h) - {pr, posn, nx}. cells h' r = cells h r)"
proof -
  obtain a where a: "cells h posn = Some a" "mpPrev a = pr" "mpNext a = nx" using assms(1,2) by (auto simp: getPrev_def getNext_def)
  obtain b c where b: "cells h pr = Some b" "cells h nx = Some c" using assms(3,4) by blast
  show ?thesis
    using a b assms(5,6)
    by (auto simp: erase_one_def node_defs fun_eq_iff dom_def)
qed

subsection \<open>The operations on one list\<close>

text \<open>The node at a position: the end is the sentinel.\<close>

abbreviation node_at :: "addr \<Rightarrow> addr list \<Rightarrow> addr" where
  "node_at l ps \<equiv> hd (ps @ [l])"

lemma insert_one_list:
  assumes "store_ok h" and "holds_list h l (as @ bs) (xs @ ys)" and "length as = length xs"
  shows "\<exists>n h'. insert_one (node_at l bs) v h = Some (n, h') \<and> holds_list h' l (as @ n # bs) (xs @ v # ys) \<and>
    frame h (set (l # as @ bs)) (set (l # as @ n # bs)) h'"
proof -
  let ?q = "node_at l bs" and ?n = "fresh_addr h" and ?w = "last (l # as)"
  have dist: "distinct (l # as @ bs)" and sg: "seg h l (as @ bs) l" and vs: "map (getRef h) (as @ bs) = map Some (xs @ ys)"
    using assms(2) by (auto simp: holds_list_def)
  have alloc: "set (l # as @ bs) \<subseteq> dom (cells h)" using seg_allocated [OF sg] by auto
  have s1: "seg h l as ?q" and s2: "bs \<noteq> [] \<Longrightarrow> seg h ?q (tl bs) l"
    using sg by (cases bs; auto simp: seg_append)+
  have w: "?w \<in> set (l # as)" using last_in_set [of "l # as"] by blast
  have n: "?n \<notin> set (l # as @ bs)" using assms(1) alloc by (fastforce simp: store_ok_def)
  have "?w \<in> dom (cells h)" using w alloc by auto
  from insert_one_effect [OF assms(1) seg_prev [OF s1] this, of v] obtain h' where
    h': "insert_one ?q v h = Some (?n, h')" "getNext h' = (getNext h)(?w := Some ?n, ?n := Some ?q)"
      "getPrev h' = (getPrev h)(?n := Some ?w, ?q := Some ?n)" "getRef h' = (getRef h)(?n := Some v)"
      "dom (cells h') = insert ?n (dom (cells h))" "fresh_addr h' = ?n + 1" "\<forall>r\<in>dom (cells h) - {?w, ?q}. cells h' r = cells h r"
    by blast
  have q: "?q \<notin> set as" "?q \<noteq> ?n" using dist n by (cases bs; auto)+
  have "seg h' l as ?n"
    by (rule seg_redirect [OF s1]) (use dist n q w in \<open>auto simp: h'(2,3)\<close>)
  moreover have "seg h' ?n [] ?q" using q by (simp add: h'(2,3))
  moreover have "seg h' ?q (tl bs) l" if "bs \<noteq> []"
    by (rule seg_cong [OF s2 [OF that]]) (use that dist n w in \<open>cases bs; auto simp: h'(2,3)\<close>)+
  ultimately have "seg h' l (as @ ?n # bs) l"
    by (cases bs) (auto simp: seg_append)
  moreover have "map (getRef h') (as @ ?n # bs) = map Some (xs @ v # ys)"
    using vs assms(3) n by (auto simp: h'(4) append_eq_append_conv)
  ultimately have "holds_list h' l (as @ ?n # bs) (xs @ v # ys)" using dist n by (auto simp: holds_list_def)
  moreover have "frame h (set (l # as @ bs)) (set (l # as @ ?n # bs)) h'"
  proof -
    have "?q \<in> set (l # as @ bs)" by (cases bs) auto
    then show ?thesis using assms(1) alloc w h'(5-7) by (auto simp: frame_def store_ok_def)
  qed
  ultimately show ?thesis using h'(1) by blast
qed

lemma list_split:
  assumes "holds_list h l (as @ p # bs) (xs @ y # ys)" and "length as = length xs"
  shows "getRef h p = Some y" and "getNext h p = Some (node_at l bs)" and "getPrev h p = Some (last (l # as))"
    and "p \<noteq> l" and "p \<in> dom (cells h)"
proof -
  have s: "seg h l as p" "seg h p bs l" using assms(1) by (auto simp: holds_list_def seg_append)
  show "getNext h p = Some (node_at l bs)" "getPrev h p = Some (last (l # as))" using seg_next [OF s(2)] seg_prev [OF s(1)] by simp_all
  show "p \<in> dom (cells h)" using seg_allocated [OF s(2)] by auto
  show "p \<noteq> l" using assms(1) by (auto simp: holds_list_def)
  show "getRef h p = Some y" using assms by (auto simp: holds_list_def append_eq_append_conv)
qed

lemma list_next: "holds_list h l (as @ p # bs) xs \<Longrightarrow> getNext h p = Some (node_at l bs)"
  by (auto simp: holds_list_def seg_append dest: seg_next)

lemma list_begin: "holds_list h l ps xs \<Longrightarrow> List_begin h l = Some (node_at l ps)"
  by (auto simp: holds_list_def List_begin_def dest: seg_next)

lemma list_back: "holds_list h l (as @ bs) xs \<Longrightarrow> getPrev h (node_at l bs) = Some (last (l # as))"
  by (cases bs) (auto simp: holds_list_def seg_append dest: seg_prev)

lemma list_nodes: "holds_list h l ps xs \<Longrightarrow> set (l # ps) \<subseteq> dom (cells h) \<and> length ps = length xs \<and> l \<notin> set ps"
  unfolding holds_list_def using seg_allocated [of h l ps l] by (auto dest: map_eq_imp_length_eq)

lemma frame_list_refl: "store_ok h \<Longrightarrow> holds_list h l ps xs \<Longrightarrow> frame h (set (l # ps)) (set (l # ps)) h"
  using list_nodes by (intro frame_refl) blast+

lemma erase_one_list:
  assumes "store_ok h" and "holds_list h l (as @ p # bs) (xs @ y # ys)" and "length as = length xs"
  shows "\<exists>h'. erase_one p h = Some (node_at l bs, h') \<and> holds_list h' l (as @ bs) (xs @ ys) \<and>
    frame h (set (l # as @ p # bs)) (set (l # as @ bs)) h'"
proof -
  let ?q = "node_at l bs" and ?w = "last (l # as)"
  have dist: "distinct (l # as @ p # bs)" and sg: "seg h l as p" "seg h p bs l"
    and vs: "map (getRef h) (as @ p # bs) = map Some (xs @ y # ys)"
    using assms(2) by (auto simp: holds_list_def seg_append)
  have alloc: "set (l # as @ p # bs) \<subseteq> dom (cells h)" using list_nodes [OF assms(2)] by blast
  have w: "?w \<in> set (l # as)" using last_in_set [of "l # as"] by blast
  have q: "?q \<in> set (l # bs)" "?q \<notin> set as" by (cases bs; use dist in auto)+
  have "?w \<in> dom (cells h)" "?q \<in> dom (cells h)" "?w \<noteq> p" "?q \<noteq> p" using w q alloc dist by auto
  from erase_one_effect [OF list_split(3,2) [OF assms(2,3)] this] obtain h' where
    h': "erase_one p h = Some (?q, h')" "getNext h' = (getNext h)(?w := Some ?q, p := None)"
      "getPrev h' = (getPrev h)(?q := Some ?w, p := None)" "getRef h' = (getRef h)(p := None)"
      "dom (cells h') = dom (cells h) - {p}" "fresh_addr h' = fresh_addr h"
      "\<forall>r\<in>dom (cells h) - {?w, p, ?q}. cells h' r = cells h r"
    by blast
  have "seg h' l as ?q"
    by (rule seg_redirect [OF sg(1)]) (use dist q w \<open>?w \<noteq> p\<close> \<open>?q \<noteq> p\<close> in \<open>auto simp: h'(2,3)\<close>)
  moreover have "seg h' ?q (tl bs) l" if "bs \<noteq> []"
  proof (rule seg_cong)
    show "seg h ?q (tl bs) l" using sg(2) that by (cases bs) auto
  qed (use that dist w in \<open>cases bs; auto simp: h'(2,3)\<close>)+
  ultimately have "seg h' l (as @ bs) l" by (cases bs) (auto simp: seg_append)
  moreover have "map (getRef h') (as @ bs) = map Some (xs @ ys)"
    using vs assms(3) dist by (auto simp: h'(4) append_eq_append_conv)
  ultimately have "holds_list h' l (as @ bs) (xs @ ys)" using dist by (auto simp: holds_list_def)
  moreover have "frame h (set (l # as @ p # bs)) (set (l # as @ bs)) h'"
    using assms(1) alloc w q dist h'(5-7) by (auto simp: frame_def store_ok_def)
  ultimately show ?thesis using h'(1) by blast
qed

lemma setVal_list:
  assumes "store_ok h" and "holds_list h l (as @ p # bs) (xs @ y # ys)" and "length as = length xs"
  shows "\<exists>h'. setVal p v h = Some h' \<and> holds_list h' l (as @ p # bs) (xs @ v # ys) \<and>
    frame h (set (l # as @ p # bs)) (set (l # as @ p # bs)) h'"
proof -
  obtain a where a: "cells h p = Some a" using list_split(5) [OF assms(2,3)] by blast
  define h' where "h' = h\<lparr>cells := (cells h)(p \<mapsto> a\<lparr>mVal := Some v\<rparr>)\<rparr>"
  have n: "getNext h' = getNext h" "getPrev h' = getPrev h" "getRef h' = (getRef h)(p := Some v)"
    using a by (auto simp: h'_def node_defs fun_eq_iff)
  have "seg h' l (as @ p # bs) l" by (rule seg_cong [of h]) (use assms(2) in \<open>auto simp: n holds_list_def\<close>)
  moreover have "map (getRef h') (as @ p # bs) = map Some (xs @ v # ys)"
    using assms(2,3) by (auto simp: n holds_list_def append_eq_append_conv)
  ultimately have "holds_list h' l (as @ p # bs) (xs @ v # ys)" using assms(2) by (simp add: holds_list_def)
  moreover have "frame h (set (l # as @ p # bs)) (set (l # as @ p # bs)) h'"
    using list_nodes [OF assms(2)] a assms(1) by (auto simp: frame_def store_ok_def h'_def)
  moreover have "setVal p v h = Some h'" using a by (simp add: setVal_def h'_def)
  ultimately show ?thesis by blast
qed

subsection \<open>The loops\<close>

lemma insert_range_list:
  assumes "store_ok h" and "holds_list h l (as @ bs) (xs @ ys)" and "length as = length xs"
    and "holds_list h s (cs @ ds) (us @ vs)" and "length cs = length us" and "set (l # as @ bs) \<inter> set (s # cs @ ds) = {}"
  shows "\<exists>ns h'. insert_range (node_at l bs) (node_at s ds) s h = Some h' \<and> length ns = length vs \<and>
    holds_list h' l (as @ ns @ bs) (xs @ vs @ ys) \<and> frame h (set (l # as @ bs)) (set (l # as @ ns @ bs)) h'"
  using assms
proof (induction ds arbitrary: h as xs cs us vs)
  case Nil
  then have "vs = []" using list_nodes [OF Nil.prems(4)] by simp
  then show ?case using Nil.prems frame_list_refl [OF Nil.prems(1,2)]
    by (intro exI [of _ "[]"] exI [of _ h]) (simp add: insert_range.simps)
next
  case (Cons d ds)
  then obtain v vs' where vs: "vs = v # vs'" using list_nodes [OF Cons.prems(4)] by (cases vs) auto
  note src = Cons.prems(4) [unfolded vs]
  from insert_one_list [OF Cons.prems(1-3), of v] obtain n h1 where
    1: "insert_one (node_at l bs) v h = Some (n, h1)" "holds_list h1 l (as @ n # bs) (xs @ v # ys)"
      "frame h (set (l # as @ bs)) (set (l # as @ n # bs)) h1" by blast
  have ok1: "store_ok h1" using 1(3) by (simp add: frame_def)
  have src1: "holds_list h1 s (cs @ d # ds) (us @ v # vs')"
    by (rule frame_keeps_list [OF 1(3) src]) (use Cons.prems(6) in auto)
  have "n \<notin> dom (cells h)"
    using 1(2,3) list_nodes [OF Cons.prems(2)] Cons.prems(1)
    by (fastforce simp: frame_def store_ok_def holds_list_def)
  then have "set (l # (as @ [n]) @ bs) \<inter> set (s # (cs @ [d]) @ ds) = {}"
    using Cons.prems(6) list_nodes [OF src] by auto
  with Cons.IH [of h1 "as @ [n]" "xs @ [v]" "cs @ [d]" "us @ [v]" vs'] 1(2) src1 ok1 Cons.prems(3,5) obtain ns h' where
    2: "insert_range (node_at l bs) (node_at s ds) s h1 = Some h'" "length ns = length vs'"
      "holds_list h' l (as @ (n # ns) @ bs) (xs @ (v # vs') @ ys)"
      "frame h1 (set (l # as @ n # bs)) (set (l # as @ (n # ns) @ bs)) h'"
    by auto
  have "frame h (set (l # as @ bs)) (set (l # as @ (n # ns) @ bs)) h'" by (rule frame_trans [OF 1(3) 2(4) Cons.prems(1)])
  moreover have "insert_range (node_at l bs) (node_at s (d # ds)) s h = Some h'"
    using list_split(1,4) [OF src Cons.prems(5)] list_split(2) [OF src1 Cons.prems(5)] 1(1) 2(1)
    by (simp add: insert_range.simps [of _ d] iter_inc_def)
  ultimately show ?case using 2(2,3) vs by (metis length_Cons)
qed

lemma erase_range_list:
  assumes "store_ok h" and "holds_list h l (as @ bs @ cs) (xs @ ys @ zs)" and "length as = length xs" and "length bs = length ys"
  shows "\<exists>h'. erase_range (node_at l (bs @ cs)) (node_at l cs) h = Some (node_at l cs, h') \<and>
    holds_list h' l (as @ cs) (xs @ zs) \<and> frame h (set (l # as @ bs @ cs)) (set (l # as @ cs)) h'"
  using assms
proof (induction bs arbitrary: h ys)
  case Nil
  then show ?case using frame_list_refl [OF Nil.prems(1,2)] by (simp add: erase_range.simps)
next
  case (Cons b bs)
  then obtain y ys' where ys: "ys = y # ys'" by (cases ys) auto
  note lst = Cons.prems(2) [unfolded ys, simplified]
  from erase_one_list [OF Cons.prems(1) lst Cons.prems(3)] obtain h1 where
    1: "erase_one b h = Some (node_at l (bs @ cs), h1)" "holds_list h1 l (as @ bs @ cs) (xs @ ys' @ zs)"
      "frame h (set (l # as @ b # bs @ cs)) (set (l # as @ bs @ cs)) h1" by auto
  then have ok1: "store_ok h1" by (simp add: frame_def)
  from Cons.IH [OF ok1 1(2) Cons.prems(3)] Cons.prems(4) ys obtain h' where
    2: "erase_range (node_at l (bs @ cs)) (node_at l cs) h1 = Some (node_at l cs, h')" "holds_list h' l (as @ cs) (xs @ zs)"
      "frame h1 (set (l # as @ bs @ cs)) (set (l # as @ cs)) h'" by auto
  have "frame h (set (l # as @ b # bs @ cs)) (set (l # as @ cs)) h'" by (rule frame_trans [OF 1(3) 2(3) Cons.prems(1)])
  moreover have "b \<noteq> node_at l cs" using list_nodes [OF lst] lst by (cases cs) (auto simp: holds_list_def)
  then have "erase_range (node_at l ((b # bs) @ cs)) (node_at l cs) h = Some (node_at l cs, h')"
    using list_split(2) [OF lst Cons.prems(3)] 1(1) 2(1) by (simp add: erase_range.simps [of b] iter_inc_def)
  ultimately show ?case using 2(2) by auto
qed

lemma distance_list:
  assumes "holds_list h l (as @ bs @ cs) xs"
  shows "distance h (node_at l (bs @ cs)) (node_at l cs) n = Some (n + int (length bs))"
  using assms
proof (induction bs arbitrary: as n)
  case (Cons b bs)
  have "b \<noteq> node_at l cs" using Cons.prems by (cases cs) (auto simp: holds_list_def)
  with list_next [of h l as b "bs @ cs" xs] Cons.IH [of "as @ [b]" "n + 1"] Cons.prems show ?case
    by (simp add: distance.simps [of h b] iter_inc_def)
qed (simp add: distance.simps)

lemma clear_loop_list:
  assumes "seg h p ps l" and "distinct (l # p # ps)"
  shows "\<exists>h'. clear_loop l p h = Some h' \<and> cells h' = (\<lambda>q. if q \<in> set (p # ps) then None else cells h q) \<and> fresh_addr h' = fresh_addr h"
  using assms
proof (induction ps arbitrary: p h)
  case Nil
  then obtain a where "cells h p = Some a" "mpNext a = l" by (auto simp: getNext_def)
  then show ?case using Nil.prems by (auto simp: clear_loop.simps node_defs fun_eq_iff)
next
  case (Cons q ps)
  then obtain a where a: "cells h p = Some a" "mpNext a = q" by (auto simp: getNext_def)
  let ?h = "h\<lparr>cells := (cells h)(p := None)\<rparr>"
  have "seg ?h q ps l"
    by (rule seg_cong [of h]) (use Cons.prems in \<open>auto simp: getNext_def getPrev_def\<close>)
  with Cons.IH [of ?h q] Cons.prems(2) obtain h' where
    "clear_loop l q ?h = Some h'" "cells h' = (\<lambda>r. if r \<in> set (q # ps) then None else cells ?h r)" "fresh_addr h' = fresh_addr h"
    by auto
  then show ?case using a Cons.prems(2) by (auto simp: clear_loop.simps [of l p] node_defs fun_eq_iff)
qed

lemma clear_list:
  assumes "store_ok h" and "holds_list h l ps xs"
  shows "\<exists>h'. List_clear l h = Some h' \<and> holds_list h' l [] [] \<and> frame h (set (l # ps)) {l} h'"
proof -
  have "\<exists>h1. clear_loop l (node_at l ps) h = Some h1 \<and> cells h1 = (\<lambda>q. if q \<in> set ps then None else cells h q) \<and> fresh_addr h1 = fresh_addr h"
  proof (cases ps)
    case (Cons p qs)
    then show ?thesis using clear_loop_list [of h p qs l] assms(2) by (auto simp: holds_list_def)
  qed (auto simp: clear_loop.simps)
  then obtain h1 where 1: "clear_loop l (node_at l ps) h = Some h1"
    "cells h1 = (\<lambda>q. if q \<in> set ps then None else cells h q)" "fresh_addr h1 = fresh_addr h" by blast
  obtain a where a: "cells h l = Some a" "l \<notin> set ps" using list_nodes [OF assms(2)] by auto
  define h' where "h' = h1\<lparr>cells := (cells h1)(l \<mapsto> a\<lparr>mpPrev := l, mpNext := l\<rparr>)\<rparr>"
  have "List_clear l h = Some h'"
    using list_begin [OF assms(2)] 1 a by (simp add: List_clear_def List_begin_def setPrev_def setNext_def h'_def)
  moreover have "holds_list h' l [] []" by (simp add: holds_list_def h'_def node_defs)
  moreover have "frame h (set (l # ps)) {l} h'"
    using store_ok_less [OF assms(1)] 1(2,3) a by (auto simp: frame_def store_ok_def h'_def split: if_splits)
  ultimately show ?thesis by blast
qed

lemma prep_list:
  assumes "store_ok h"
  shows "\<exists>l h'. prep h = Some (l, h') \<and> holds_list h' l [] [] \<and> frame h {} {l} h'"
  using assms by (auto simp: prep_def node_defs holds_list_def frame_def store_ok_def)

lemma delete_list:
  assumes "store_ok h" and "holds_list h l ps xs"
  shows "\<exists>h'. List_delete l h = Some h' \<and> frame h (set (l # ps)) {} h'"
proof -
  from clear_list [OF assms] obtain h1 where 1: "List_clear l h = Some h1" "holds_list h1 l [] []" "frame h (set (l # ps)) {l} h1"
    by blast
  obtain a where a: "cells h1 l = Some a" using list_nodes [OF 1(2)] by auto
  let ?h = "h1\<lparr>cells := (cells h1)(l := None)\<rparr>"
  have "frame h1 {l} {} ?h" using store_ok_less [of h1] 1(3) by (auto simp: frame_def store_ok_def [of ?h])
  from frame_trans [OF 1(3) this assms(1)] 1(1) a show ?thesis by (simp add: List_delete_def delete_node_def)
qed

lemma copy_list:
  assumes "store_ok h" and "holds_list h s ss xs"
  shows "\<exists>l ps h'. List_copy s h = Some (l, h') \<and> holds_list h' l ps xs \<and> frame h {} (set (l # ps)) h'"
proof -
  from prep_list [OF assms(1)] obtain l h1 where 1: "prep h = Some (l, h1)" "holds_list h1 l [] []" "frame h {} {l} h1" by blast
  have src: "holds_list h1 s ss xs" by (rule frame_keeps_list [OF 1(3) assms(2)]) simp
  have "l \<notin> dom (cells h)" using 1(3) assms(1) by (fastforce simp: frame_def store_ok_def)
  then have "set [l] \<inter> set (s # ss) = {}" using list_nodes [OF assms(2)] by auto
  with insert_range_list [of h1 l "[]" "[]" "[]" "[]" s "[]" ss "[]" xs] 1(2,3) src obtain ps h' where
    2: "insert_range l (node_at s ss) s h1 = Some h'" "holds_list h' l ps xs" "frame h1 {l} (set (l # ps)) h'"
    by (auto simp: frame_def)
  from frame_trans [OF 1(3) 2(3) assms(1)] 1(1) 2(1,2) list_begin [OF 1(2)] list_begin [OF src] show ?thesis
    by (auto simp: List_copy_def List_end_def)
qed

lemma assign_loop_list:
  assumes "store_ok h" and "holds_list h l (as @ bs) (xs @ ys)" and "length as = length xs"
    and "holds_list h s (cs @ ds) (us @ vs)" and "length cs = length us" and "set (l # as @ bs) \<inter> set (s # cs @ ds) = {}"
  shows "\<exists>h'. assign_loop (node_at s ds) s (node_at l bs) l h =
      Some (node_at s (drop (length bs) ds), node_at l (drop (length ds) bs), h') \<and>
    holds_list h' l (as @ bs) (xs @ take (length bs) vs @ drop (length ds) ys) \<and>
    frame h (set (l # as @ bs)) (set (l # as @ bs)) h'"
  using assms
proof (induction bs arbitrary: h as xs ys cs ds us vs)
  case Nil
  then show ?case using frame_list_refl [OF Nil.prems(1,2)] list_nodes [OF Nil.prems(2)] by (simp add: assign_loop.simps)
next
  case (Cons b bs)
  then obtain y ys' where ys: "ys = y # ys'" using list_nodes [OF Cons.prems(2)] by (cases ys) auto
  show ?case
  proof (cases ds)
    case Nil
    then have "vs = []" using list_nodes [OF Cons.prems(4)] Cons.prems(5) by simp
    then show ?thesis using Nil frame_list_refl [OF Cons.prems(1,2)] Cons.prems(2) by (simp add: assign_loop.simps)
  next
    case ds: (Cons d ds')
    then obtain v vs' where vs: "vs = v # vs'" using list_nodes [OF Cons.prems(4)] Cons.prems(5) by (cases vs) auto
    note src = Cons.prems(4) [unfolded ds vs] and dst = Cons.prems(2) [unfolded ys]
    from setVal_list [OF Cons.prems(1) dst Cons.prems(3), of v] obtain h1 where
      1: "setVal b v h = Some h1" "holds_list h1 l (as @ b # bs) (xs @ v # ys')"
        "frame h (set (l # as @ b # bs)) (set (l # as @ b # bs)) h1" by blast
    have src1: "holds_list h1 s (cs @ d # ds') (us @ v # vs')"
      by (rule frame_keeps_list [OF 1(3) src]) (use Cons.prems(6) ds in auto)
    have ok1: "store_ok h1" using 1(3) by (simp add: frame_def)
    have "\<exists>h'. assign_loop (node_at s ds') s (node_at l bs) l h1 =
        Some (node_at s (drop (length bs) ds'), node_at l (drop (length ds') bs), h') \<and>
      holds_list h' l ((as @ [b]) @ bs) ((xs @ [v]) @ take (length bs) vs' @ drop (length ds') ys') \<and>
      frame h1 (set (l # (as @ [b]) @ bs)) (set (l # (as @ [b]) @ bs)) h'"
      by (rule Cons.IH [of h1 "as @ [b]" "xs @ [v]" _ "cs @ [d]" _ "us @ [v]"]) (use 1(2) src1 ok1 Cons.prems(3,5,6) ds in auto)
    then obtain h' where 2: "assign_loop (node_at s ds') s (node_at l bs) l h1 =
        Some (node_at s (drop (length bs) ds'), node_at l (drop (length ds') bs), h')"
      "holds_list h' l (as @ b # bs) (xs @ v # take (length bs) vs' @ drop (length ds') ys')"
      "frame h1 (set (l # as @ b # bs)) (set (l # as @ b # bs)) h'" by auto
    have "frame h (set (l # as @ b # bs)) (set (l # as @ b # bs)) h'" by (rule frame_trans [OF 1(3) 2(3) Cons.prems(1)])
    moreover have "assign_loop d s b l h = assign_loop (node_at s ds') s (node_at l bs) l h1"
      using list_split(1,4) [OF src Cons.prems(5)] list_split(4) [OF dst Cons.prems(3)] list_split(2) [OF src1 Cons.prems(5)]
        list_split(2) [OF 1(2) Cons.prems(3)] 1(1) by (simp add: assign_loop.simps [of d] iter_inc_def)
    ultimately show ?thesis using 2 ds ys vs by simp
  qed
qed

lemma assign_list:
  assumes "store_ok h" and "holds_list h l ps xs" and "holds_list h s ss ys" and "set (l # ps) \<inter> set (s # ss) = {}"
  shows "\<exists>ps' h'. List_assign l s h = Some h' \<and> holds_list h' l ps' ys \<and> frame h (set (l # ps)) (set (l # ps')) h'"
proof -
  let ?m = "length ps" and ?n = "length ss"
  have len: "length xs = ?m" "length ys = ?n" using list_nodes [OF assms(2)] list_nodes [OF assms(3)] by simp_all
  from assign_loop_list [of h l "[]" ps "[]" xs s "[]" ss "[]" ys] assms obtain h1 where
    1: "assign_loop (node_at s ss) s (node_at l ps) l h = Some (node_at s (drop ?m ss), node_at l (drop ?n ps), h1)"
      "holds_list h1 l ps (take ?m ys @ drop ?n xs)" "frame h (set (l # ps)) (set (l # ps)) h1" by auto
  have ok1: "store_ok h1" using 1(3) by (simp add: frame_def)
  have src1: "holds_list h1 s ss ys" by (rule frame_keeps_list [OF 1(3) assms(3)]) (use assms(4) in auto)
  have ls: "l \<noteq> s" using assms(4) by auto
  have run: "List_assign l s h =
      (if node_at s (drop ?m ss) = s then do { (_, h) \<leftarrow> erase_range (node_at l (drop ?n ps)) l h1; Some h }
       else insert_range l (node_at s (drop ?m ss)) s h1)"
    using 1(1) ls list_begin [OF assms(2)] list_begin [OF assms(3)] by (simp add: List_assign_def List_end_def)
  show ?thesis
  proof (cases "?n \<le> ?m")
    case True
    then have "holds_list h1 l (take ?n ps @ drop ?n ps @ []) (ys @ drop ?n xs @ [])" using 1(2) len by simp
    from erase_range_list [OF ok1 this] True len obtain h' where
      2: "erase_range (node_at l (drop ?n ps)) l h1 = Some (l, h')" "holds_list h' l (take ?n ps) ys"
        "frame h1 (set (l # ps)) (set (l # take ?n ps)) h'" by (auto simp: set_append [symmetric] simp del: set_append)
    from frame_trans [OF 1(3) 2(3) assms(1)] 2(1,2) run True show ?thesis by auto
  next
    case False
    then have d: "drop ?m ss \<noteq> []" "drop ?n ps = []" by simp_all
    then have "hd (drop ?m ss) \<in> set ss" using hd_in_set in_set_dropD by fast
    then have ne: "node_at s (drop ?m ss) \<noteq> s" using d(1) list_nodes [OF assms(3)] by auto
    have "\<exists>ns h'. insert_range (node_at l []) (node_at s (drop ?m ss)) s h1 = Some h' \<and> length ns = length (drop ?m ys) \<and>
      holds_list h' l (ps @ ns @ []) (take ?m ys @ drop ?m ys @ []) \<and> frame h1 (set (l # ps @ [])) (set (l # ps @ ns @ [])) h'"
      by (rule insert_range_list [OF ok1, of l ps "[]" _ _ s "take ?m ss" _ "take ?m ys"])
        (use 1(2) src1 False len assms(4) in auto)
    then obtain ns h' where 2: "insert_range l (node_at s (drop ?m ss)) s h1 = Some h'" "holds_list h' l (ps @ ns) ys"
      "frame h1 (set (l # ps)) (set (l # ps @ ns)) h'" by auto
    from frame_trans [OF 1(3) 2(3) assms(1)] 2(1,2) run ne show ?thesis by auto
  qed
qed

section \<open>Any number of lists\<close>

text \<open>
  A program over list objects. A position is reached by counting from the beginning with \<^verbatim>\<open>operator++\<close>; \<open>elements\<close> and
  \<open>elements_back\<close> are the loops with which the controllers walk over a list.
\<close>

primrec advance :: "'a store \<Rightarrow> nat \<Rightarrow> addr \<Rightarrow> addr option" where
  "advance h 0 p = Some p"
| "advance h (Suc k) p = do { p \<leftarrow> iter_inc h p; advance h k p }"

partial_function (option) elements_loop :: "'a store \<Rightarrow> addr \<Rightarrow> addr \<Rightarrow> 'a list \<Rightarrow> 'a list option" where
  "elements_loop h it l acc =
     (if it \<noteq> List_end l then do { v \<leftarrow> getRef h it; it \<leftarrow> iter_inc h it; elements_loop h it l (acc @ [v]) } else Some acc)"

definition elements :: "'a store \<Rightarrow> addr \<Rightarrow> 'a list option" where
  "elements h l = do { b \<leftarrow> List_begin h l; elements_loop h b l [] }"

partial_function (option) elements_back_loop :: "'a store \<Rightarrow> addr \<Rightarrow> addr \<Rightarrow> 'a list \<Rightarrow> 'a list option" where
  "elements_back_loop h it b acc =
     (if it \<noteq> b then do { it \<leftarrow> iter_dec h it; v \<leftarrow> getRef h it; elements_back_loop h it b (acc @ [v]) } else Some acc)"

definition elements_back :: "'a store \<Rightarrow> addr \<Rightarrow> 'a list option" where
  "elements_back h l = do { b \<leftarrow> List_begin h l; elements_back_loop h (List_end l) b [] }"

datatype 'a list_op =
    New | Copy nat | Delete nat | Assign nat nat | PushFront nat 'a | PushBack nat 'a
  | InsertAt nat nat 'a | InsertRange nat nat nat | EraseAt nat nat | EraseRange nat nat nat | Clear nat

definition on_store :: "addr list \<Rightarrow> 'a store option \<Rightarrow> (addr list \<times> 'a store) option" where
  "on_store ls r = map_option (Pair ls) r"

definition position :: "'a store \<Rightarrow> addr \<Rightarrow> nat \<Rightarrow> addr option" where
  "position h l k = do { b \<leftarrow> List_begin h l; advance h k b }"

fun list_exec :: "'a list_op \<Rightarrow> addr list \<times> 'a store \<Rightarrow> (addr list \<times> 'a store) option" where
  "list_exec New (ls, h) = do { (l, h) \<leftarrow> List_new h; Some (ls @ [l], h) }"
| "list_exec (Copy i) (ls, h) = do { (l, h) \<leftarrow> List_copy (ls ! i) h; Some (ls @ [l], h) }"
| "list_exec (Delete i) (ls, h) = do { h \<leftarrow> List_delete (ls ! i) h; Some (take i ls @ drop (Suc i) ls, h) }"
| "list_exec (Assign i j) (ls, h) = on_store ls (List_assign (ls ! i) (ls ! j) h)"
| "list_exec (PushFront i v) (ls, h) = on_store ls (push_front (ls ! i) v h)"
| "list_exec (PushBack i v) (ls, h) = on_store ls (push_back (ls ! i) v h)"
| "list_exec (InsertAt i k v) (ls, h) = do { p \<leftarrow> position h (ls ! i) k; (_, h) \<leftarrow> insert_one p v h; Some (ls, h) }"
| "list_exec (InsertRange i k j) (ls, h) = do {
     p \<leftarrow> position h (ls ! i) k; first \<leftarrow> List_begin h (ls ! j); on_store ls (insert_range p first (List_end (ls ! j)) h) }"
| "list_exec (EraseAt i k) (ls, h) = do { p \<leftarrow> position h (ls ! i) k; (_, h) \<leftarrow> erase_one p h; Some (ls, h) }"
| "list_exec (EraseRange i k m) (ls, h) = do {
     p \<leftarrow> position h (ls ! i) k; q \<leftarrow> position h (ls ! i) m; (_, h) \<leftarrow> erase_range p q h; Some (ls, h) }"
| "list_exec (Clear i) (ls, h) = on_store ls (List_clear (ls ! i) h)"

text \<open>
  The specification on HOL lists. It is \<^const>\<open>None\<close> outside the contract of the class: an object that does not exist, a position
  beyond the end, or the range of a list inserted into that list itself.
\<close>

fun list_spec :: "'a list_op \<Rightarrow> 'a list list \<Rightarrow> 'a list list option" where
  "list_spec New xss = Some (xss @ [[]])"
| "list_spec (Copy i) xss = (if i < length xss then Some (xss @ [xss ! i]) else None)"
| "list_spec (Delete i) xss = (if i < length xss then Some (take i xss @ drop (Suc i) xss) else None)"
| "list_spec (Assign i j) xss = (if i < length xss \<and> j < length xss then Some (xss[i := xss ! j]) else None)"
| "list_spec (PushFront i v) xss = (if i < length xss then Some (xss[i := v # xss ! i]) else None)"
| "list_spec (PushBack i v) xss = (if i < length xss then Some (xss[i := xss ! i @ [v]]) else None)"
| "list_spec (InsertAt i k v) xss =
     (if i < length xss \<and> k \<le> length (xss ! i) then Some (xss[i := take k (xss ! i) @ v # drop k (xss ! i)]) else None)"
| "list_spec (InsertRange i k j) xss =
     (if i < length xss \<and> k \<le> length (xss ! i) \<and> j < length xss \<and> i \<noteq> j
      then Some (xss[i := take k (xss ! i) @ xss ! j @ drop k (xss ! i)]) else None)"
| "list_spec (EraseAt i k) xss =
     (if i < length xss \<and> k < length (xss ! i) then Some (xss[i := take k (xss ! i) @ drop (Suc k) (xss ! i)]) else None)"
| "list_spec (EraseRange i k m) xss =
     (if i < length xss \<and> k \<le> m \<and> m \<le> length (xss ! i) then Some (xss[i := take k (xss ! i) @ drop m (xss ! i)]) else None)"
| "list_spec (Clear i) xss = (if i < length xss then Some (xss[i := []]) else None)"

primrec run_ops :: "('op \<Rightarrow> 's \<Rightarrow> 's option) \<Rightarrow> 'op list \<Rightarrow> 's \<Rightarrow> 's option" where
  "run_ops f [] s = Some s"
| "run_ops f (x # xs) s = Option.bind (f x s) (run_ops f xs)"

definition empty_store :: "'a store" where
  "empty_store = \<lparr>cells = Map.empty, fresh_addr = 1\<rparr>"

subsection \<open>The simulation\<close>

text \<open>A list object with its nodes and its contents; all nodes are different, and nothing else is allocated.\<close>

type_synonym 'a list_obj = "addr \<times> addr list \<times> 'a list"

definition obj_nodes :: "'a list_obj list \<Rightarrow> addr list" where
  "obj_nodes ts = concat (map (\<lambda>(l, ps, xs). l # ps) ts)"

definition stored :: "'a store \<Rightarrow> 'a list_obj list \<Rightarrow> bool" where
  "stored h ts \<longleftrightarrow> store_ok h \<and> distinct (obj_nodes ts) \<and> dom (cells h) = set (obj_nodes ts) \<and>
     (\<forall>(l, ps, xs)\<in>set ts. holds_list h l ps xs)"

lemma obj_nodes_simps [simp]:
  "obj_nodes [] = []" "obj_nodes ((l, ps, xs) # ts) = l # ps @ obj_nodes ts" "obj_nodes (ts @ ts') = obj_nodes ts @ obj_nodes ts'"
  by (simp_all add: obj_nodes_def)

lemma obj_nodes_mem: "(l, ps, xs) \<in> set ts \<Longrightarrow> set (l # ps) \<subseteq> set (obj_nodes ts)"
  by (auto simp: obj_nodes_def)

lemma stored_replace:
  assumes "stored h (us @ ts @ vs)" and "frame h (set (obj_nodes ts)) (set (obj_nodes ts')) h'" and "distinct (obj_nodes ts')"
    and "\<And>l ps xs. (l, ps, xs) \<in> set ts' \<Longrightarrow> holds_list h' l ps xs"
  shows "stored h' (us @ ts' @ vs)"
proof -
  have rest: "set (obj_nodes us) \<union> set (obj_nodes vs) = dom (cells h) - set (obj_nodes ts)"
    using assms(1) by (auto simp: stored_def)
  have "set (obj_nodes ts') \<inter> (dom (cells h) - set (obj_nodes ts)) = {}"
    using frame_fresh [OF assms(2)] assms(1) by (simp add: stored_def)
  then have "distinct (obj_nodes (us @ ts' @ vs))" using assms(1,3) rest by (auto simp: stored_def)
  moreover have "dom (cells h') = set (obj_nodes (us @ ts' @ vs))" using assms(2) rest by (auto simp: frame_def)
  moreover have "holds_list h' l ps xs" if "(l, ps, xs) \<in> set us \<union> set vs" for l ps xs
  proof (rule frame_keeps_list [OF assms(2)])
    show "holds_list h l ps xs" using assms(1) that by (fastforce simp: stored_def)
    have "set (l # ps) \<subseteq> set (obj_nodes us) \<union> set (obj_nodes vs)" using that obj_nodes_mem by fastforce
    then show "set (l # ps) \<inter> set (obj_nodes ts) = {}" using rest by blast
  qed
  then have "\<forall>(l, ps, xs)\<in>set (us @ ts' @ vs). holds_list h' l ps xs" using assms(4) by auto
  moreover have "store_ok h'" using assms(2) by (simp add: frame_def)
  ultimately show ?thesis by (simp only: stored_def)
qed

lemma stored_nth:
  assumes "stored h ts" and "i < length ts" and "ts ! i = (l, ps, xs)"
  shows "holds_list h l ps xs" and "store_ok h"
  using assms nth_mem [of i ts] by (auto simp: stored_def)

lemma distinct_concat_nth:
  "distinct (concat xss) \<Longrightarrow> i < length xss \<Longrightarrow> j < length xss \<Longrightarrow> i \<noteq> j \<Longrightarrow> set (xss ! i) \<inter> set (xss ! j) = {}"
proof (induction xss arbitrary: i j)
  case (Cons xs xss)
  have "set (xss ! k) \<inter> set xs = {}" if "k < length xss" for k
    using Cons.prems(1) nth_mem [OF that] by auto
  with Cons show ?case by (cases i; cases j) (auto simp: Int_commute)
qed simp

lemma stored_disjoint:
  assumes "stored h ts" and "i < length ts" "j < length ts" "i \<noteq> j" and "ts ! i = (l, ps, xs)" "ts ! j = (m, qs, ys)"
  shows "set (l # ps) \<inter> set (m # qs) = {}"
proof -
  have "distinct (obj_nodes ts)" using assms(1) by (simp add: stored_def)
  then have "set (map (\<lambda>(l, ps, xs). l # ps) ts ! i) \<inter> set (map (\<lambda>(l, ps, xs). l # ps) ts ! j) = {}"
    unfolding obj_nodes_def using assms(2-4) by (intro distinct_concat_nth) simp_all
  then show ?thesis using assms(2-6) by simp
qed

lemma stored_update:
  assumes "stored h ts" and "i < length ts" and "ts ! i = (l, ps, xs)" and "frame h (set (l # ps)) (set (l # ps')) h'"
    and "holds_list h' l ps' xs'"
  shows "stored h' (ts[i := (l, ps', xs')])"
proof -
  have "stored h (take i ts @ [(l, ps, xs)] @ drop (Suc i) ts)" using assms(1-3) by (metis append_Cons append_Nil id_take_nth_drop)
  from stored_replace [OF this, of "[(l, ps', xs')]" h'] assms(4,5) show ?thesis
    using assms(2) by (simp add: upd_conv_take_nth_drop holds_list_def)
qed

lemma stored_add:
  assumes "stored h ts" and "frame h {} (set (l # ps)) h'" and "holds_list h' l ps xs"
  shows "stored h' (ts @ [(l, ps, xs)])"
  using stored_replace [of h ts "[]" "[]" "[(l, ps, xs)]" h'] assms by (simp add: holds_list_def)

lemma stored_remove:
  assumes "stored h ts" and "i < length ts" and "ts ! i = (l, ps, xs)" and "frame h (set (l # ps)) {} h'"
  shows "stored h' (take i ts @ drop (Suc i) ts)"
proof -
  have "stored h (take i ts @ [(l, ps, xs)] @ drop (Suc i) ts)" using assms(1-3) by (metis append_Cons append_Nil id_take_nth_drop)
  from stored_replace [OF this, of "[]" h'] assms(4) show ?thesis by simp
qed

lemma advance_list:
  assumes "holds_list h l (as @ bs) xs" and "k \<le> length bs"
  shows "advance h k (node_at l bs) = Some (node_at l (drop k bs))"
  using assms
proof (induction k arbitrary: as bs)
  case (Suc k)
  then obtain b cs where bs: "bs = b # cs" by (cases bs) auto
  with Suc.IH [of "as @ [b]" cs] list_next [of h l as b cs xs] Suc.prems show ?case by (simp add: iter_inc_def)
qed simp

lemma position_list: "holds_list h l ps xs \<Longrightarrow> k \<le> length ps \<Longrightarrow> position h l k = Some (node_at l (drop k ps))"
  using advance_list [of h l "[]"] by (simp add: position_def list_begin)

text \<open>The operations at a position, in terms of the position.\<close>

lemma split_at:
  "holds_list h l ps xs \<Longrightarrow> k \<le> length xs \<Longrightarrow>
     holds_list h l (take k ps @ drop k ps) (take k xs @ drop k xs) \<and> length (take k ps) = length (take k xs)"
  using list_nodes [of h l ps xs] by simp

lemma insert_at_list:
  assumes "store_ok h" and "holds_list h l ps xs" and "k \<le> length xs"
  shows "\<exists>n h' ps'. insert_one (node_at l (drop k ps)) v h = Some (n, h') \<and> holds_list h' l ps' (take k xs @ v # drop k xs) \<and>
    frame h (set (l # ps)) (set (l # ps')) h'"
  using insert_one_list [OF assms(1), of l "take k ps" "drop k ps" "take k xs" "drop k xs" v] split_at [OF assms(2,3)]
  by (metis append_take_drop_id)

lemma erase_at_list:
  assumes "store_ok h" and "holds_list h l ps xs" and "k < length xs"
  shows "\<exists>n h' ps'. erase_one (node_at l (drop k ps)) h = Some (n, h') \<and> holds_list h' l ps' (take k xs @ drop (Suc k) xs) \<and>
    frame h (set (l # ps)) (set (l # ps')) h'"
proof -
  have len: "k < length ps" using list_nodes [OF assms(2)] assms(3) by simp
  then have ps: "take k ps @ ps ! k # drop (Suc k) ps = ps" and xs: "take k xs @ xs ! k # drop (Suc k) xs = xs"
    using assms(3) by (simp_all add: id_take_nth_drop [symmetric])
  have "erase_one (ps ! k) h = Some (node_at l (drop (Suc k) ps), h') \<and> holds_list h' l (take k ps @ drop (Suc k) ps) (take k xs @ drop (Suc k) xs) \<and>
      frame h (set (l # ps)) (set (l # take k ps @ drop (Suc k) ps)) h' \<Longrightarrow> ?thesis" for h'
    using len by (metis Cons_nth_drop_Suc append_Cons list.sel(1))
  with erase_one_list [OF assms(1), of l "take k ps" "ps ! k" "drop (Suc k) ps" "take k xs" "xs ! k" "drop (Suc k) xs"]
  show ?thesis unfolding ps xs using assms(2,3) len by auto
qed

lemma erase_between_list:
  assumes "store_ok h" and "holds_list h l ps xs" and "k \<le> m" "m \<le> length xs"
  shows "\<exists>n h' ps'. erase_range (node_at l (drop k ps)) (node_at l (drop m ps)) h = Some (n, h') \<and>
    holds_list h' l ps' (take k xs @ drop m xs) \<and> frame h (set (l # ps)) (set (l # ps')) h'"
proof -
  have split: "take k zs @ take (m - k) (drop k zs) @ drop m zs = zs" "drop k zs = take (m - k) (drop k zs) @ drop m zs" for zs :: "'b list"
    using assms(3) by (metis append_take_drop_id drop_drop le_add_diff_inverse2)+
  from erase_range_list [OF assms(1), of l "take k ps" "take (m - k) (drop k ps)" "drop m ps" "take k xs" "take (m - k) (drop k xs)" "drop m xs"]
  show ?thesis using assms list_nodes [OF assms(2)] by (metis split length_take length_drop)
qed

text \<open>One operation: the objects keep their sentinels, and the contents follow the specification.\<close>

abbreviation contents :: "'a list_obj list \<Rightarrow> 'a list list" where
  "contents ts \<equiv> map (\<lambda>(l, ps, xs). xs) ts"

abbreviation obj_of :: "'a list_obj \<Rightarrow> addr" where
  "obj_of t \<equiv> fst t"

definition simulated :: "'a list_op \<Rightarrow> 'a store \<Rightarrow> 'a list_obj list \<Rightarrow> 'a list list \<Rightarrow> bool" where
  "simulated p h ts xss \<longleftrightarrow>
     (\<exists>ts' h'. list_exec p (map obj_of ts, h) = Some (map obj_of ts', h') \<and> stored h' ts' \<and> contents ts' = xss)"

lemma simulated_update:
  assumes "stored h ts" and "i < length ts" and "ts ! i = (l, ps, xs)" and "list_exec p (map obj_of ts, h) = Some (map obj_of ts, h')"
    and "holds_list h' l ps' xs'" and "frame h (set (l # ps)) (set (l # ps')) h'"
  shows "simulated p h ts ((contents ts)[i := xs'])"
proof -
  have "map obj_of (ts[i := (l, ps', xs')]) = map obj_of ts"
    using assms(2,3) by (metis fst_conv list_update_id map_update)
  then show ?thesis
    using stored_update [OF assms(1-3,6,5)] assms(4) unfolding simulated_def
    by (intro exI [of _ "ts[i := (l, ps', xs')]"] exI [of _ h']) (simp add: map_update)
qed

lemma contents_nth: "i < length ts \<Longrightarrow> contents ts ! i = snd (snd (ts ! i))"
  by (simp add: split_beta)

lemma list_step_object:
  assumes "stored h ts" and "list_spec p (contents ts) = Some xss" and "p \<in> {New} \<union> range Copy \<union> range Delete"
  shows "simulated p h ts xss"
proof -
  have ok: "store_ok h" using assms(1) by (simp add: stored_def)
  consider "p = New" | i where "p = Copy i" | i where "p = Delete i" using assms(3) by blast
  then show ?thesis
  proof cases
    case 1
    from prep_list [OF ok] obtain l h' where "prep h = Some (l, h')" "holds_list h' l [] []" "frame h {} (set [l]) h'" by auto
    with stored_add [OF assms(1), of l "[]" h' "[]"] assms(2) 1 show ?thesis
      unfolding simulated_def by (intro exI [of _ "ts @ [(l, [], [])]"] exI [of _ h']) (simp add: List_new_def)
  next
    case (2 i)
    then have i: "i < length ts" using assms(2) by (simp split: if_splits)
    obtain s ss xs where t: "ts ! i = (s, ss, xs)" by (cases "ts ! i")
    from copy_list [OF ok stored_nth(1) [OF assms(1) i t]] obtain l ps h' where
      "List_copy s h = Some (l, h')" "holds_list h' l ps xs" "frame h {} (set (l # ps)) h'" by blast
    with stored_add [OF assms(1), of l ps h' xs] assms(2) 2 i t show ?thesis
      unfolding simulated_def by (intro exI [of _ "ts @ [(l, ps, xs)]"] exI [of _ h']) (auto simp: contents_nth)
  next
    case (3 i)
    then have i: "i < length ts" using assms(2) by (simp split: if_splits)
    obtain l ps xs where t: "ts ! i = (l, ps, xs)" by (cases "ts ! i")
    from delete_list [OF ok stored_nth(1) [OF assms(1) i t]] obtain h' where
      "List_delete l h = Some h'" "frame h (set (l # ps)) {} h'" by blast
    with stored_remove [OF assms(1) i t] assms(2) 3 i t show ?thesis
      unfolding simulated_def by (intro exI [of _ "take i ts @ drop (Suc i) ts"] exI [of _ h']) (simp add: take_map drop_map)
  qed
qed

text \<open>The operations that change one list, by the list and its new contents.\<close>

fun target :: "'a list_op \<Rightarrow> nat" where
  "target (Assign i j) = i"
| "target (PushFront i v) = i"
| "target (PushBack i v) = i"
| "target (InsertAt i k v) = i"
| "target (InsertRange i k j) = i"
| "target (EraseAt i k) = i"
| "target (EraseRange i k m) = i"
| "target (Clear i) = i"
| "target p = 0"

lemma list_step_two:
  assumes "stored h ts" and "list_spec p (contents ts) = Some xss" and "p = Assign i j \<or> p = InsertRange i k j"
  shows "simulated p h ts xss"
proof -
  have i: "i < length ts" "j < length ts" using assms(2,3) by (auto split: if_splits)
  obtain l ps xs s ss ys where t: "ts ! i = (l, ps, xs)" "ts ! j = (s, ss, ys)" by (cases "ts ! i"; cases "ts ! j")
  note hl = stored_nth [OF assms(1) i(1) t(1)] and hs = stored_nth(1) [OF assms(1) i(2) t(2)]
  show ?thesis
  proof (cases "i = j")
    case True
    then have p: "p = Assign i j" "xss = (contents ts)[i := xs]" using assms(2,3) i t by (auto simp: contents_nth split: if_splits)
    have "list_exec p (map obj_of ts, h) = Some (map obj_of ts, h)" using p(1) True by (simp add: List_assign_def on_store_def)
    from simulated_update [OF assms(1) i(1) t(1) this hl(1) frame_list_refl [OF hl(2,1)]] p(2) show ?thesis by simp
  next
    case False
    note disj = stored_disjoint [OF assms(1) i False t]
    have "\<exists>ps' h' xs'. list_exec p (map obj_of ts, h) = Some (map obj_of ts, h') \<and> holds_list h' l ps' xs' \<and>
      frame h (set (l # ps)) (set (l # ps')) h' \<and> xss = (contents ts)[i := xs']"
      using assms(3)
    proof
      assume p: "p = Assign i j"
      from assign_list [OF hl(2,1) hs disj] p assms(2) i t show ?thesis by (auto simp: on_store_def contents_nth)
    next
      assume p: "p = InsertRange i k j"
      then have k: "k \<le> length xs" "xss = (contents ts)[i := take k xs @ ys @ drop k xs]"
        using assms(2) i t by (auto simp: contents_nth split: if_splits)
      from insert_range_list [OF hl(2), of l "take k ps" "drop k ps" "take k xs" "drop k xs" s "[]" ss "[]" ys]
        split_at [OF hl(1) k(1)] hs disj obtain ns h' where
        "insert_range (node_at l (drop k ps)) (node_at s ss) s h = Some h'"
        "holds_list h' l (take k ps @ ns @ drop k ps) (take k xs @ ys @ drop k xs)"
        "frame h (set (l # ps)) (set (l # take k ps @ ns @ drop k ps)) h'"
        by (auto simp: set_append [symmetric] simp del: set_append)
      moreover have "k \<le> length ps" using k(1) list_nodes [OF hl(1)] by simp
      ultimately show ?thesis
        using position_list [OF hl(1)] list_begin [OF hs] p k(2) i t
        by (intro exI [of _ "take k ps @ ns @ drop k ps"] exI [of _ h'] exI [of _ "take k xs @ ys @ drop k xs"])
          (simp add: on_store_def List_end_def)
    qed
    then show ?thesis using simulated_update [OF assms(1) i(1) t(1)] by blast
  qed
qed

lemma list_step_one:
  assumes "stored h ts" and "list_spec p (contents ts) = Some xss"
    and "p \<notin> {New} \<union> range Copy \<union> range Delete" and "\<And>i j k. p \<noteq> Assign i j \<and> p \<noteq> InsertRange i k j"
  shows "simulated p h ts xss"
proof -
  define i where "i = target p"
  have i: "i < length ts" using assms(2-4) by (cases p) (auto simp: i_def split: if_splits)
  obtain l ps xs where t: "ts ! i = (l, ps, xs)" by (cases "ts ! i")
  note hl = stored_nth [OF assms(1) i t]
  have len: "length ps = length xs" using list_nodes [OF hl(1)] by simp
  have obj: "map obj_of ts ! i = l" "contents ts ! i = xs" using i t by simp_all
  have "\<exists>ps' h' xs'. list_exec p (map obj_of ts, h) = Some (map obj_of ts, h') \<and> holds_list h' l ps' xs' \<and>
      frame h (set (l # ps)) (set (l # ps')) h' \<and> xss = (contents ts)[i := xs']"
  proof (cases p)
    case (PushFront a v)
    with insert_at_list [OF hl(2,1), of 0 v] list_begin [OF hl(1)] assms(2) obj i show ?thesis
      by (fastforce simp: i_def push_front_def on_store_def)
  next
    case (PushBack a v)
    with insert_at_list [OF hl(2,1), of "length xs" v] len assms(2) obj i show ?thesis
      by (fastforce simp: i_def push_back_def List_end_def on_store_def)
  next
    case (InsertAt a k v)
    with insert_at_list [OF hl(2,1), of k v] position_list [OF hl(1), of k] len assms(2) obj i show ?thesis
      by (fastforce simp: i_def split: if_splits)
  next
    case (EraseAt a k)
    with erase_at_list [OF hl(2,1), of k] position_list [OF hl(1), of k] len assms(2) obj i show ?thesis
      by (fastforce simp: i_def split: if_splits)
  next
    case (EraseRange a k m)
    with erase_between_list [OF hl(2,1), of k m] position_list [OF hl(1), of k] position_list [OF hl(1), of m] len assms(2) obj i
    show ?thesis by (fastforce simp: i_def split: if_splits)
  next
    case (Clear a)
    from clear_list [OF hl(2,1)] obtain h' where
      "List_clear l h = Some h'" "holds_list h' l [] []" "frame h (set (l # ps)) (set [l]) h'" by auto
    with Clear assms(2) obj i show ?thesis by (fastforce simp: i_def on_store_def)
  qed (use assms(3,4) in auto)
  then show ?thesis using simulated_update [OF assms(1) i t] by blast
qed

lemma list_step:
  assumes "stored h ts" and "list_spec p (contents ts) = Some xss"
  shows "simulated p h ts xss"
proof (cases "p \<in> {New} \<union> range Copy \<union> range Delete \<or> (\<exists>i j k. p = Assign i j \<or> p = InsertRange i k j)")
  case True
  then show ?thesis using list_step_object [OF assms] list_step_two [OF assms] by blast
next
  case False
  then show ?thesis using list_step_one [OF assms] by blast
qed

lemma run_list_ops:
  assumes "stored h ts" and "run_ops list_spec ps (contents ts) = Some xss"
  shows "\<exists>ts' h'. run_ops list_exec ps (map obj_of ts, h) = Some (map obj_of ts', h') \<and> stored h' ts' \<and> contents ts' = xss"
  using assms
proof (induction ps arbitrary: ts h)
  case (Cons p ps)
  from Cons.prems(2) obtain yss where 1: "list_spec p (contents ts) = Some yss" "run_ops list_spec ps yss = Some xss"
    by (auto split: bind_splits)
  from list_step [OF Cons.prems(1) 1(1)] obtain ts1 h1 where
    "list_exec p (map obj_of ts, h) = Some (map obj_of ts1, h1)" "stored h1 ts1" "contents ts1 = yss"
    unfolding simulated_def by blast
  with Cons.IH [of h1 ts1] 1(2) show ?case by simp
qed auto

text \<open>What a client sees of a list.\<close>

lemma elements_list:
  assumes "holds_list h l (as @ bs) (xs @ ys)" and "length as = length xs"
  shows "elements_loop h (node_at l bs) l acc = Some (acc @ ys)"
  using assms
proof (induction bs arbitrary: as xs ys acc)
  case Nil
  then show ?case using list_nodes [OF Nil.prems(1)] by (simp add: elements_loop.simps List_end_def)
next
  case (Cons b bs)
  then obtain y ys' where ys: "ys = y # ys'" using list_nodes [OF Cons.prems(1)] by (cases ys) auto
  note b = list_split [OF Cons.prems(1) [unfolded ys] Cons.prems(2)]
  from Cons.IH [of "as @ [b]" "xs @ [y]" ys' "acc @ [y]"] b Cons.prems ys show ?case
    by (simp add: elements_loop.simps [of h b] iter_inc_def List_end_def)
qed

lemma elements_back_list:
  assumes "holds_list h l (as @ bs) (xs @ ys)" and "length as = length xs"
  shows "elements_back_loop h (node_at l bs) (node_at l (as @ bs)) acc = Some (acc @ rev xs)"
  using assms
proof (induction as arbitrary: bs xs ys acc rule: rev_induct)
  case Nil
  then show ?case by (simp add: elements_back_loop.simps)
next
  case (snoc a as)
  then obtain xs' x where xs: "xs = xs' @ [x]" by (cases xs rule: rev_cases) auto
  have l: "holds_list h l (as @ a # bs) (xs' @ x # ys)" using snoc.prems xs by simp
  have "node_at l bs \<noteq> node_at l ((as @ [a]) @ bs)"
    using snoc.prems(1) by (cases bs; cases as) (auto simp: holds_list_def)
  moreover have "getPrev h (node_at l bs) = Some a" using list_back [of h l "as @ [a]" bs] snoc.prems(1) by simp
  ultimately show ?case
    using snoc.IH [OF l, of "acc @ [x]"] snoc.prems list_split(1) [OF l] xs
    by (simp add: elements_back_loop.simps [of h "node_at l bs"] iter_dec_def)
qed

lemma client_view:
  assumes "holds_list h l ps xs"
  shows "elements h l = Some xs" and "elements_back h l = Some (rev xs)" and "List_size h l = Some (length xs)"
    and "List_empty h l = Some (xs = [])"
proof -
  show "elements h l = Some xs"
    using elements_list [of h l "[]" ps "[]" xs] assms by (simp add: elements_def list_begin)
  show "elements_back h l = Some (rev xs)"
    using elements_back_list [of h l ps "[]" xs "[]"] list_nodes [OF assms] assms
    by (simp add: elements_back_def list_begin List_end_def)
  show "List_size h l = Some (length xs)"
    using distance_list [of h l "[]" ps "[]" xs 0] list_nodes [OF assms] assms by (simp add: List_size_def list_begin List_end_def)
  show "List_empty h l = Some (xs = [])"
    using list_begin [OF assms] list_nodes [OF assms] by (cases ps) (auto simp: List_empty_def List_begin_def)
qed

section \<open>Properties\<close>

text \<open>
  C35: The class implements lists, and is safe with memory. Any program over list objects that stays within the contract of the class
  (creating, copying, assigning, deleting and changing lists at any position, in any order) runs to its end and never touches a node
  that has been freed or was never allocated. Walking over a list forwards gives the elements that HOL lists would have, walking
  backwards the same in reverse, size and empty agree, and the nodes that are allocated are just one for each element and one for each
  list object: nothing leaks.
\<close>

theorem list_class_refines:
  assumes "run_ops list_spec ops [] = Some xss"
  shows "\<exists>ls h. run_ops list_exec ops ([], empty_store) = Some (ls, h) \<and>
     map (elements h) ls = map Some xss \<and> map (elements_back h) ls = map (Some \<circ> rev) xss \<and>
     map (List_size h) ls = map (Some \<circ> length) xss \<and> map (List_empty h) ls = map (\<lambda>xs. Some (xs = [])) xss \<and>
     card (dom (cells h)) = (\<Sum>xs\<leftarrow>xss. length xs + 1)"
proof -
  have "stored empty_store []" by (simp add: stored_def empty_store_def store_ok_def)
  from run_list_ops [OF this, of ops xss] assms obtain ts h where
    run: "run_ops list_exec ops ([], empty_store) = Some (map obj_of ts, h)" and st: "stored h ts" and xss: "xss = contents ts"
    by auto
  have view: "holds_list h l ps xs" if "(l, ps, xs) \<in> set ts" for l ps xs using st that by (fastforce simp: stored_def)
  have "length (obj_nodes ts') = (\<Sum>xs\<leftarrow>contents ts'. length xs + 1)" if "set ts' \<subseteq> set ts" for ts'
    using that by (induction ts') (auto dest!: view list_nodes)
  then have "card (dom (cells h)) = (\<Sum>xs\<leftarrow>xss. length xs + 1)"
    using st xss by (auto simp: stored_def distinct_card)
  moreover have "map (elements h) (map obj_of ts) = map Some xss \<and> map (elements_back h) (map obj_of ts) = map (Some \<circ> rev) xss \<and>
     map (List_size h) (map obj_of ts) = map (Some \<circ> length) xss \<and> map (List_empty h) (map obj_of ts) = map (\<lambda>xs. Some (xs = [])) xss"
    using client_view [OF view] by (auto simp: xss)
  ultimately show ?thesis using run by blast
qed

theorem list_class_refines_witness:
  "\<exists>ls h. run_ops list_exec [New, PushBack 0 ''wlan0'', PushFront 0 ''usb0'', Copy 0, EraseAt 0 0, Assign 1 0] ([], empty_store) = Some (ls, h) \<and>
     map (elements h) ls = [Some [''wlan0''], Some [''wlan0'']] \<and> card (dom (cells h)) = 4"
  using list_class_refines [of "[New, PushBack 0 ''wlan0'', PushFront 0 ''usb0'', Copy 0, EraseAt 0 0, Assign 1 0]" "[[''wlan0''], [''wlan0'']]"]
  by auto

end
