(* ===== verification/MDnsSdListener.thy ===== *)
theory MDnsSdListener
  imports ResponseCode CLib
begin

text \<open>
  The multicast DNS listener, \<^verbatim>\<open>server/MDnsSdListener.cpp\<close>: the command \<^verbatim>\<open>mdnssd\<close> starts and stops requests of the library
  dns\_sd, and a thread of its own polls the sockets of the requests that are live. The two share a list of elements under a lock; the
  arrays for \<^verbatim>\<open>poll\<close> belong to the thread, which rebuilds them when a byte arrives on a control socket. The library is a parameter,
  and so are the functions of libsysutils and libc that format names and addresses.
\<close>

section \<open>The library\<close>

text \<open>The flags and the interface index of a request, and then what each kind of request has. A NULL text is \<^const>\<open>None\<close>.\<close>

datatype dns_request =
    DNSServiceBrowse u32 u32 string cstr
  | DNSServiceRegister u32 u32 string string cstr cstr u16 nat bytes
  | DNSServiceResolve u32 u32 string string string
  | DNSServiceGetAddrInfo u32 u32 u32 string
  | DNSSetHostname u32 string

datatype dns_call =
    DnsRequest dns_request int int
  | DnsRefSockFD int int
  | DnsProcessResult int
  | DnsRefDeallocate int

text \<open>What the library hands to a callback; the first argument is the error code.\<close>

datatype dns_result =
    DiscoverResult int u32 string string string
  | RegisterResult int string
  | ResolveResult int string string u16 u16
  | GetAddrInfoResult int string u8 bytes u32
  | SetHostnameResult int string

record dns_lib =
  lib_request :: "dns_call list \<Rightarrow> dns_request \<Rightarrow> int \<times> int"
  lib_sockfd :: "dns_call list \<Rightarrow> int \<Rightarrow> int"
  lib_results :: "dns_call list \<Rightarrow> int \<Rightarrow> dns_result list"
  lib_property :: "event list \<Rightarrow> string \<Rightarrow> string"
  lib_quoteArg :: "string \<Rightarrow> string"
  lib_inet_ntop :: "u8 \<Rightarrow> bytes \<Rightarrow> string"

section \<open>State\<close>

text \<open>
  An element of the monitor's list. Its context is the number that is handed to the callbacks; \<open>eAddr\<close> is its address, which
  \<^verbatim>\<open>mPollRefs\<close> points to.
\<close>

record element =
  mId :: int
  mRef :: int
  mContext :: int
  mReady :: int
  eAddr :: nat

record pollfd =
  fd :: int
  pollin :: bool

text \<open>
  The monitor: the linked list from \<^verbatim>\<open>mHead\<close>, the number of live requests, the arrays for \<^verbatim>\<open>poll\<close> with their length, the local
  variable \<^verbatim>\<open>pollCount\<close> of the thread, and the number of bytes in the control socket.
\<close>

record mdns = sys +
  mHead :: "element list"
  mLiveCount :: int
  mPollSize :: int
  mPollFds :: "pollfd list"
  mPollRefs :: "nat option list"
  pollCount :: nat
  mCtrlBytes :: nat
  nextElement :: nat
  dnsCalls :: "dns_call list"

definition log_dns :: "dns_call \<Rightarrow> ('a mdns_scheme, unit) state" where
  "log_dns c = modify (dnsCalls_update (\<lambda>cs. c # cs))"

lemma run_log_dns [run_simps]: "run_state (log_dns c) s = ((), s\<lparr>dnsCalls := c # dnsCalls s\<rparr>)"
  by (simp add: log_dns_def)

definition kDNSServiceErr_NoError :: int where "kDNSServiceErr_NoError = 0"
definition kDNSServiceFlagsAdd :: u32 where "kDNSServiceFlagsAdd = 2"
definition MDNS_SERVICE_NAME :: string where "MDNS_SERVICE_NAME = ''mdnsd''"
definition MDNS_SERVICE_STATUS :: string where "MDNS_SERVICE_STATUS = ''init.svc.mdnsd''"
definition NAP_TIME :: int where "NAP_TIME = 200"

section \<open>The monitor\<close>

definition Monitor_new :: "'a mdns_scheme \<Rightarrow> 'a mdns_scheme" where
  "Monitor_new s = s\<lparr>mHead := [], mLiveCount := 0, mPollFds := [], mPollRefs := [], mPollSize := 10, mCtrlBytes := 0\<rparr>"

definition no_pollfd :: pollfd where
  "no_pollfd = \<lparr>fd = 0, pollin = False\<rparr>"

definition ctrl_pollfd :: pollfd where
  "ctrl_pollfd = \<lparr>fd = -1, pollin = True\<rparr>"

text \<open>The arrays, cleared, with the control socket in the first place.\<close>

definition clear_polls :: "int \<Rightarrow> 'a mdns_scheme \<Rightarrow> 'a mdns_scheme" where
  "clear_polls n s = s\<lparr>mPollSize := n, mPollFds := (replicate (nat n) no_pollfd)[0 := ctrl_pollfd],
                         mPollRefs := replicate (nat n) None\<rparr>"

definition Monitor_run_start :: "('a mdns_scheme, unit) state" where
  "Monitor_run_start = modify (\<lambda>s. (clear_polls (mPollSize s) s)\<lparr>pollCount := 1\<rparr>)"

definition lookupServiceRef :: "int \<Rightarrow> ('a mdns_scheme, element option) state" where
  "lookupServiceRef rid = gets (\<lambda>s. find (\<lambda>cur. mId cur = rid) (mHead s))"

text \<open>The address of the new element, or \<^const>\<open>None\<close> for NULL.\<close>

definition allocateServiceRef :: "int \<Rightarrow> int \<Rightarrow> ('a mdns_scheme, nat option) state" where
  "allocateServiceRef rid ctx = do {
     found \<leftarrow> lookupServiceRef rid;
     if found \<noteq> None then ret None
     else do {
       a \<leftarrow> gets nextElement;
       modify (\<lambda>s. s\<lparr>nextElement := a + 1,
         mHead := \<lparr>mId = rid, mRef = 0, mContext = ctx, mReady = 0, eAddr = a\<rparr> # mHead s\<rparr>);
       ret (Some a) } }"

fun mark_ready :: "int \<Rightarrow> element list \<Rightarrow> element list option" where
  "mark_ready rid [] = None"
| "mark_ready rid (cur # es) =
     (if mId cur = rid then Some (cur\<lparr>mReady := 1\<rparr> # es) else map_option (Cons cur) (mark_ready rid es))"

definition startMonitoring :: "int \<Rightarrow> ('a mdns_scheme, unit) state" where
  "startMonitoring rid = modify (\<lambda>s. case mark_ready rid (mHead s) of
       None \<Rightarrow> s
     | Some es \<Rightarrow> s\<lparr>mLiveCount := mLiveCount s + 1, mHead := es, mCtrlBytes := mCtrlBytes s + 1\<rparr>)"

text \<open>The new list, and whether the thread is told to rescan.\<close>

fun mark_free :: "int \<Rightarrow> element list \<Rightarrow> (element list \<times> bool) option" where
  "mark_free rid [] = None"
| "mark_free rid (cur # es) =
     (if mId cur = rid then (if mReady cur = 1 then Some (cur\<lparr>mReady := -1\<rparr> # es, True) else Some (es, False))
      else map_option (\<lambda>(es, wake). (cur # es, wake)) (mark_free rid es))"

definition freeServiceRef :: "int \<Rightarrow> ('a mdns_scheme, unit) state" where
  "freeServiceRef rid = modify (\<lambda>s. case mark_free rid (mHead s) of
       None \<Rightarrow> s
     | Some (es, wake) \<Rightarrow>
         s\<lparr>mLiveCount := mLiveCount s - 1, mHead := es, mCtrlBytes := mCtrlBytes s + (if wake then 1 else 0)\<rparr>)"

text \<open>
  The loop of \<^verbatim>\<open>rescan\<close>: the elements that stay and the index after the last entry. \<^const>\<open>None\<close> stands for a write beyond the arrays
  and for an element whose state is none of the three, on which the loop would not end.
\<close>

fun rescan_loop :: "dns_lib \<Rightarrow> element list \<Rightarrow> nat \<Rightarrow> ('a mdns_scheme, (element list \<times> nat) option) state" where
  "rescan_loop lib [] i = ret (Some ([], i))"
| "rescan_loop lib (cur # es) i =
     (if mReady cur = 1 then do {
        calls \<leftarrow> gets dnsCalls;
        let f = lib_sockfd lib calls (mRef cur);
        log_dns (DnsRefSockFD (mRef cur) f);
        n \<leftarrow> gets (\<lambda>s. length (mPollFds s));
        if f \<noteq> -1 \<and> i \<ge> n then ret None
        else do {
          modify (\<lambda>s. if f \<noteq> -1 then s\<lparr>mPollFds := (mPollFds s)[i := \<lparr>fd = f, pollin = True\<rparr>],
                                          mPollRefs := (mPollRefs s)[i := Some (eAddr cur)]\<rparr> else s);
          r \<leftarrow> rescan_loop lib es (if f \<noteq> -1 then i + 1 else i);
          ret (map_option (\<lambda>(kept, n). (cur # kept, n)) r) } }
      else if mReady cur = -1 then rescan_loop lib es i
      else if mReady cur = 0 then do {
        r \<leftarrow> rescan_loop lib es i;
        ret (map_option (\<lambda>(kept, n). (cur # kept, n)) r) }
      else ret None)"

definition rescan :: "dns_lib \<Rightarrow> ('a mdns_scheme, nat option) state" where
  "rescan lib = do {
     modify (\<lambda>s. clear_polls (if mPollSize s \<le> mLiveCount s then mLiveCount s + 5 else mPollSize s) s);
     es \<leftarrow> gets mHead;
     r \<leftarrow> rescan_loop lib es 1;
     case r of
       None \<Rightarrow> ret None
     | Some (kept, i) \<Rightarrow> do { modify (\<lambda>s. s\<lparr>mHead := kept\<rparr>); ret (Some i) } }"

section \<open>The callbacks\<close>

definition ntohs :: "u16 \<Rightarrow> u16" where
  "ntohs w = push_bit 8 w OR drop_bit 8 w"

definition htons :: "u16 \<Rightarrow> u16" where
  "htons w = push_bit 8 w OR drop_bit 8 w"

definition MDnsSdListenerDiscoverCallback ::
    "dns_lib \<Rightarrow> u32 \<Rightarrow> int \<Rightarrow> string \<Rightarrow> string \<Rightarrow> string \<Rightarrow> int \<Rightarrow> ('a sys_scheme, unit) state" where
  "MDnsSdListenerDiscoverCallback lib flags errorCode serviceName regType replyDomain refNumber =
     (if errorCode \<noteq> kDNSServiceErr_NoError then sendBroadcast ServiceDiscoveryFailed (spaced [fmt_d refNumber, fmt_d errorCode])
      else sendBroadcast
        (if flags AND kDNSServiceFlagsAdd \<noteq> 0 then ServiceDiscoveryServiceAdded else ServiceDiscoveryServiceRemoved)
        (spaced [fmt_d refNumber, lib_quoteArg lib serviceName, regType, replyDomain]))"

definition MDnsSdListenerRegisterCallback :: "dns_lib \<Rightarrow> int \<Rightarrow> string \<Rightarrow> int \<Rightarrow> ('a sys_scheme, unit) state" where
  "MDnsSdListenerRegisterCallback lib errorCode serviceName refNumber =
     (if errorCode \<noteq> kDNSServiceErr_NoError then sendBroadcast ServiceRegistrationFailed (spaced [fmt_d refNumber, fmt_d errorCode])
      else sendBroadcast ServiceRegistrationSucceeded (spaced [fmt_d refNumber, lib_quoteArg lib serviceName]))"

definition MDnsSdListenerResolveCallback ::
    "dns_lib \<Rightarrow> int \<Rightarrow> string \<Rightarrow> string \<Rightarrow> u16 \<Rightarrow> u16 \<Rightarrow> int \<Rightarrow> ('a sys_scheme, unit) state" where
  "MDnsSdListenerResolveCallback lib errorCode fullname hosttarget port txtLen refNumber =
     (let port = ntohs port in
      if errorCode \<noteq> kDNSServiceErr_NoError then sendBroadcast ServiceResolveFailed (spaced [fmt_d refNumber, fmt_d errorCode])
      else sendBroadcast ServiceResolveSuccess
        (spaced [fmt_d refNumber, lib_quoteArg lib fullname, lib_quoteArg lib hosttarget, fmt_d (uint port), fmt_d (uint txtLen)]))"

text \<open>The time to live is unsigned but printed with \<^verbatim>\<open>%d\<close>.\<close>

definition MDnsSdListenerGetAddrInfoCallback ::
    "dns_lib \<Rightarrow> int \<Rightarrow> string \<Rightarrow> u8 \<Rightarrow> bytes \<Rightarrow> u32 \<Rightarrow> int \<Rightarrow> ('a sys_scheme, unit) state" where
  "MDnsSdListenerGetAddrInfoCallback lib errorCode hostname family sa ttl refNumber =
     (if errorCode \<noteq> kDNSServiceErr_NoError then sendBroadcast ServiceGetAddrInfoFailed (spaced [fmt_d refNumber, fmt_d errorCode])
      else sendBroadcast ServiceGetAddrInfoSuccess
        (spaced [fmt_d refNumber, lib_quoteArg lib hostname, fmt_d (sint ttl), lib_inet_ntop lib family sa]))"

definition MDnsSdListenerSetHostnameCallback :: "dns_lib \<Rightarrow> int \<Rightarrow> string \<Rightarrow> int \<Rightarrow> ('a sys_scheme, unit) state" where
  "MDnsSdListenerSetHostnameCallback lib errorCode hostname refNumber =
     (if errorCode \<noteq> kDNSServiceErr_NoError then sendBroadcast ServiceSetHostnameFailed (spaced [fmt_d refNumber, fmt_d errorCode])
      else sendBroadcast ServiceSetHostnameSuccess (spaced [fmt_d refNumber, lib_quoteArg lib hostname]))"

fun callback :: "dns_lib \<Rightarrow> int \<Rightarrow> dns_result \<Rightarrow> ('a sys_scheme, unit) state" where
  "callback lib ref (DiscoverResult err flags name type domain) = MDnsSdListenerDiscoverCallback lib flags err name type domain ref"
| "callback lib ref (RegisterResult err name) = MDnsSdListenerRegisterCallback lib err name ref"
| "callback lib ref (ResolveResult err name host port len) = MDnsSdListenerResolveCallback lib err name host port len ref"
| "callback lib ref (GetAddrInfoResult err host family sa ttl) = MDnsSdListenerGetAddrInfoCallback lib err host family sa ttl ref"
| "callback lib ref (SetHostnameResult err host) = MDnsSdListenerSetHostnameCallback lib err host ref"

primrec callbacks :: "dns_lib \<Rightarrow> int \<Rightarrow> dns_result list \<Rightarrow> ('a sys_scheme, unit) state" where
  "callbacks lib ref [] = ret ()"
| "callbacks lib ref (r # rs) = do { callback lib ref r; callbacks lib ref rs }"

section \<open>The thread\<close>

text \<open>
  \<^verbatim>\<open>DNSServiceProcessResult(*(mPollRefs[i]))\<close>: \<^const>\<open>None\<close> for a pointer to an element that does not exist any more. The library
  calls back with the context that the element's request was made with.
\<close>

definition process_result :: "dns_lib \<Rightarrow> nat \<Rightarrow> ('a mdns_scheme, unit option) state" where
  "process_result lib i = do {
     target \<leftarrow> gets (\<lambda>s. if i < length (mPollRefs s) then find (\<lambda>cur. mPollRefs s ! i = Some (eAddr cur)) (mHead s) else None);
     case target of
       None \<Rightarrow> ret None
     | Some cur \<Rightarrow> do {
         calls \<leftarrow> gets dnsCalls;
         log_dns (DnsProcessResult (mRef cur));
         callbacks lib (mContext cur) (lib_results lib calls (mRef cur));
         ret (Some ()) } }"

text \<open>The indices with a nonzero \<^verbatim>\<open>revents\<close>.\<close>

primrec process_all :: "dns_lib \<Rightarrow> nat list \<Rightarrow> ('a mdns_scheme, unit option) state" where
  "process_all lib [] = ret (Some ())"
| "process_all lib (i # is) = do { r \<leftarrow> process_result lib i; case r of None \<Rightarrow> ret None | Some _ \<Rightarrow> process_all lib is }"

text \<open>
  One round of the loop of \<^verbatim>\<open>run\<close>: \<open>ready\<close> says for each index whether \<^verbatim>\<open>poll\<close> has reported something. The control socket carries
  nothing but the byte that asks for a rescan.
\<close>

definition run_round :: "dns_lib \<Rightarrow> (nat \<Rightarrow> bool) \<Rightarrow> ('a mdns_scheme, unit option) state" where
  "run_round lib ready = do {
     n \<leftarrow> gets pollCount;
     r \<leftarrow> process_all lib (filter ready [1..<n]);
     case r of
       None \<Rightarrow> ret None
     | Some _ \<Rightarrow>
         if ready 0 then do {
           modify (\<lambda>s. s\<lparr>mCtrlBytes := mCtrlBytes s - 1\<rparr>);
           c \<leftarrow> rescan lib;
           case c of None \<Rightarrow> ret None | Some c \<Rightarrow> do { modify (\<lambda>s. s\<lparr>pollCount := c\<rparr>); ret (Some ()) } }
         else ret (Some ()) }"

section \<open>The daemon mdnsd\<close>

text \<open>Returns 0 as soon as the property has the desired value, -1 after the last nap.\<close>

primrec wait_naps :: "env \<Rightarrow> dns_lib \<Rightarrow> string \<Rightarrow> string \<Rightarrow> nat \<Rightarrow> ('a sys_scheme, int) state" where
  "wait_naps e lib name desired 0 = ret (- 1)"
| "wait_naps e lib name desired (Suc n) = do {
     _ \<leftarrow> call_sys e (SysLib ''usleep'' [fmt_d (NAP_TIME * 1000)]);
     value \<leftarrow> gets (\<lambda>s. lib_property lib (hist s) name);
     if value \<noteq> [] \<and> value = desired then ret 0 else wait_naps e lib name desired n }"

definition wait_for_property :: "env \<Rightarrow> dns_lib \<Rightarrow> string \<Rightarrow> string \<Rightarrow> int \<Rightarrow> ('a sys_scheme, int) state" where
  "wait_for_property e lib name desired maxwait =
     (let maxnaps = maxwait * 1000 div NAP_TIME in
      wait_naps e lib name desired (nat (if maxnaps < 1 then 1 else maxnaps)))"

definition startService :: "env \<Rightarrow> dns_lib \<Rightarrow> ('a sys_scheme, int) state" where
  "startService e lib = do {
     value \<leftarrow> gets (\<lambda>s. lib_property lib (hist s) MDNS_SERVICE_STATUS);
     if value \<noteq> ''running'' then do {
       _ \<leftarrow> call_sys e (SysLib ''property_set'' [''ctl.start'', MDNS_SERVICE_NAME]);
       _ \<leftarrow> wait_for_property e lib MDNS_SERVICE_STATUS ''running'' 5;
       ret (- 1) }
     else ret 0 }"

definition stopService :: "env \<Rightarrow> dns_lib \<Rightarrow> ('a mdns_scheme, int) state" where
  "stopService e lib = do {
     es \<leftarrow> gets mHead;
     if es = [] then do {
       _ \<leftarrow> call_sys e (SysLib ''property_set'' [''ctl.stop'', MDNS_SERVICE_NAME]);
       _ \<leftarrow> wait_for_property e lib MDNS_SERVICE_STATUS ''stopped'' 5;
       ret (- 1) }
     else ret 0 }"

section \<open>The command\<close>

definition ifaceNameToI :: "cstr \<Rightarrow> u32" where
  "ifaceNameToI iface = 0"

definition iToFlags :: "int \<Rightarrow> u32" where
  "iToFlags i = 0"

text \<open>
  The five handlers that start a request have the same shape. Here is its first half, up to the answer of the library, and the second
  half, which makes the request live; the poll thread may run in between. The library writes the reference into the element.
\<close>

definition set_ref :: "nat \<Rightarrow> int \<Rightarrow> element list \<Rightarrow> element list" where
  "set_ref a ref es = map (\<lambda>cur. if eAddr cur = a then cur\<lparr>mRef := ref\<rparr> else cur) es"

definition begin_request ::
    "dns_lib \<Rightarrow> int \<Rightarrow> dns_request \<Rightarrow> string \<Rightarrow> string \<Rightarrow> ('a mdns_scheme, bool) state" where
  "begin_request lib requestId req in_use failed = do {
     ref \<leftarrow> allocateServiceRef requestId requestId;
     case ref of
       None \<Rightarrow> do { sendMsg CommandParameterError in_use; ret False }
     | Some a \<Rightarrow> do {
         calls \<leftarrow> gets dnsCalls;
         let (result, handle) = lib_request lib calls req;
         log_dns (DnsRequest req result handle);
         modify (\<lambda>s. s\<lparr>mHead := set_ref a handle (mHead s)\<rparr>);
         if result \<noteq> kDNSServiceErr_NoError then do {
           freeServiceRef requestId;
           sendMsg CommandParameterError failed;
           ret False }
         else ret True } }"

definition finish_request :: "int \<Rightarrow> string \<Rightarrow> ('a mdns_scheme, unit) state" where
  "finish_request requestId started = do { startMonitoring requestId; sendMsg CommandOkay started }"

definition start_request ::
    "dns_lib \<Rightarrow> int \<Rightarrow> dns_request \<Rightarrow> string \<Rightarrow> string \<Rightarrow> string \<Rightarrow> ('a mdns_scheme, unit) state" where
  "start_request lib requestId req in_use failed started = do {
     ok \<leftarrow> begin_request lib requestId req in_use failed;
     if ok then finish_request requestId started else ret () }"

definition discover :: "dns_lib \<Rightarrow> cstr \<Rightarrow> string \<Rightarrow> cstr \<Rightarrow> int \<Rightarrow> int \<Rightarrow> ('a mdns_scheme, unit) state" where
  "discover lib iface regType domain requestId requestFlags =
     start_request lib requestId (DNSServiceBrowse (iToFlags requestFlags) (ifaceNameToI iface) regType domain)
       ''RequestId already in use during discover call'' ''Discover request got an error from DNSServiceBrowse''
       ''Discover operation started''"

text \<open>The two numbers are passed in the wrong order; both are 0.\<close>

definition serviceRegister ::
    "dns_lib \<Rightarrow> int \<Rightarrow> cstr \<Rightarrow> string \<Rightarrow> string \<Rightarrow> cstr \<Rightarrow> cstr \<Rightarrow> int \<Rightarrow> nat \<Rightarrow> bytes \<Rightarrow> ('a mdns_scheme, unit) state" where
  "serviceRegister lib requestId interfaceName serviceName serviceType domain host port txtLen txtRecord =
     (let port = htons (word_of_int port) in
      start_request lib requestId
        (DNSServiceRegister (ifaceNameToI interfaceName) 0 serviceName serviceType domain host port txtLen txtRecord)
        ''RequestId already in use during register call'' ''serviceRegister request got an error from DNSServiceRegister''
        ''serviceRegister started'')"

definition resolveService :: "dns_lib \<Rightarrow> int \<Rightarrow> cstr \<Rightarrow> string \<Rightarrow> string \<Rightarrow> string \<Rightarrow> ('a mdns_scheme, unit) state" where
  "resolveService lib requestId interfaceName serviceName regType domain =
     start_request lib requestId (DNSServiceResolve 0 (ifaceNameToI interfaceName) serviceName regType domain)
       ''RequestId already in use during resolve call'' ''resolveService got an error from DNSServiceResolve'' ''resolveService started''"

definition mdns_getAddrInfo :: "dns_lib \<Rightarrow> int \<Rightarrow> cstr \<Rightarrow> u32 \<Rightarrow> string \<Rightarrow> ('a mdns_scheme, unit) state" where
  "mdns_getAddrInfo lib requestId interfaceName protocol hostname =
     start_request lib requestId (DNSServiceGetAddrInfo 0 (ifaceNameToI interfaceName) protocol hostname)
       ''RequestId already in use during getAddrInfo call'' ''getAddrInfo request got an error from DNSServiceGetAddrInfo''
       ''getAddrInfo started''"

definition setHostname :: "dns_lib \<Rightarrow> int \<Rightarrow> string \<Rightarrow> ('a mdns_scheme, unit) state" where
  "setHostname lib requestId hostname =
     start_request lib requestId (DNSSetHostname 0 hostname)
       ''RequestId already in use during setHostname call'' ''setHostname got an error from DNSSetHostname'' ''setHostname started''"

definition mdns_stop :: "dns_lib \<Rightarrow> string list \<Rightarrow> string \<Rightarrow> ('a mdns_scheme, unit) state" where
  "mdns_stop lib argv str =
     (if length argv \<noteq> 3 then sendMsg CommandParameterError (''Invalid number of arguments to '' @ str)
      else do {
        let requestId = atoi (argv ! 2);
        ref \<leftarrow> lookupServiceRef requestId;
        case ref of
          None \<Rightarrow> sendMsg CommandParameterError ''Unknown requestId''
        | Some cur \<Rightarrow> do {
            log_dns (DnsRefDeallocate (mRef cur));
            freeServiceRef requestId;
            sendMsg CommandOkay (str @ '' stopped'') } })"

text \<open>
  The TXT record is built in a buffer of 2048 bytes: each field with its length in front, copied with \<^verbatim>\<open>strcpy\<close>, which writes a zero
  after it. \<open>TxtOverflow\<close> is the write of that zero beyond the buffer.
\<close>

datatype txt_result = TxtRecord nat bytes | TxtFieldTooLong | TxtTooLong | TxtOverflow

definition TXT_SIZE :: nat where "TXT_SIZE = 2048"

definition char_byte :: "char \<Rightarrow> u8" where
  "char_byte c = word_of_nat (of_char c)"

fun txt_fill :: "string list \<Rightarrow> nat \<Rightarrow> bytes \<Rightarrow> txt_result" where
  "txt_fill [] ptr buf = TxtRecord ptr buf"
| "txt_fill (arg # args) ptr buf =
     (let dataLength = length arg in
      if dataLength < 1 then txt_fill args ptr buf
      else if dataLength > 255 then TxtFieldTooLong
      else if ptr + dataLength + 1 > TXT_SIZE then TxtTooLong
      else if ptr + 1 + dataLength \<ge> TXT_SIZE then TxtOverflow
      else txt_fill args (ptr + 1 + dataLength)
             (take ptr buf @ [word_of_nat dataLength] @ map char_byte arg @ [0] @ drop (ptr + dataLength + 2) buf))"

definition txt_record :: "string list \<Rightarrow> txt_result" where
  "txt_record args = txt_fill args 0 (replicate TXT_SIZE 0)"

text \<open>The answer of the whole command; \<^const>\<open>None\<close> is undefined behaviour.\<close>

definition Handler_runCommand :: "env \<Rightarrow> dns_lib \<Rightarrow> string list \<Rightarrow> ('a mdns_scheme, int option) state" where
  "Handler_runCommand e lib argv =
     (let argc = length argv; refuse = \<lambda>msg. do { sendMsg CommandParameterError msg; ret (Some 0) };
          done = \<lambda>m. do { _ \<leftarrow> m; ret (Some 0) } in
      if argc < 2 then do {
        sendMsg CommandParameterError (''Invalid number of arguments to mdnssd: '' @ fmt_d (int argc)); ret (Some (- 1)) }
      else if argv ! 1 = ''discover'' then
        (if argc \<noteq> 4 then refuse ''Invalid number of arguments to mdnssd discover''
         else done (discover lib None (argv ! 3) None (atoi (argv ! 2)) 0))
      else if argv ! 1 = ''stop-discover'' then done (mdns_stop lib argv ''discover'')
      else if argv ! 1 = ''register'' then
        (if argc < 6 then refuse ''Invalid number of arguments to mdnssd register''
         else case txt_record (drop 6 argv) of
           TxtOverflow \<Rightarrow> ret None
         | TxtFieldTooLong \<Rightarrow> refuse ''TXT record fields must not be longer than 255 characters''
         | TxtTooLong \<Rightarrow> refuse ''Total length of TXT record must be smaller than 2048 bytes''
         | TxtRecord n buf \<Rightarrow>
             done (serviceRegister lib (atoi (argv ! 2)) None (argv ! 3) (argv ! 4) None None (atoi (argv ! 5)) n buf))
      else if argv ! 1 = ''stop-register'' then done (mdns_stop lib argv ''register'')
      else if argv ! 1 = ''resolve'' then
        (if argc \<noteq> 6 then refuse ''Invalid number of arguments to mdnssd resolve''
         else done (resolveService lib (atoi (argv ! 2)) None (argv ! 3) (argv ! 4) (argv ! 5)))
      else if argv ! 1 = ''stop-resolve'' then done (mdns_stop lib argv ''resolve'')
      else if argv ! 1 = ''start-service'' then do {
        r \<leftarrow> startService e lib;
        done (if r \<noteq> 0 then sendMsg CommandOkay ''Service Started'' else sendMsg ServiceStartFailed ''Service already running'') }
      else if argv ! 1 = ''stop-service'' then do {
        r \<leftarrow> stopService e lib;
        done (if r \<noteq> 0 then sendMsg CommandOkay ''Service Stopped'' else sendMsg ServiceStopFailed ''Service still in use'') }
      else if argv ! 1 = ''sethostname'' then
        (if argc \<noteq> 4 then refuse ''Invalid number of arguments to mdnssd sethostname''
         else done (setHostname lib (atoi (argv ! 2)) (argv ! 3)))
      else if argv ! 1 = ''stop-sethostname'' then done (mdns_stop lib argv ''sethostname'')
      else if argv ! 1 = ''getaddrinfo'' then
        (if argc \<noteq> 4 then refuse ''Invalid number of arguments to mdnssd getaddrinfo''
         else done (mdns_getAddrInfo lib (atoi (argv ! 2)) None 0 (argv ! 3)))
      else if argv ! 1 = ''stop-getaddrinfo'' then done (mdns_stop lib argv ''getaddrinfo'')
      else do { sendMsg CommandSyntaxError ''Unknown mdnssd cmd''; ret (Some 0) })"

section \<open>The TXT record\<close>

text \<open>A reader of TXT records: fields with their lengths in front.\<close>

fun read_txt :: "bytes \<Rightarrow> bytes list" where
  "read_txt [] = []"
| "read_txt (n # bs) = take (unat n) bs # read_txt (drop (unat n) bs)"

definition field_bytes :: "string \<Rightarrow> bytes" where
  "field_bytes arg = word_of_nat (length arg) # map char_byte arg"

lemma read_txt_field:
  "0 < length arg \<Longrightarrow> length arg \<le> 255 \<Longrightarrow> read_txt (field_bytes arg @ bs) = map char_byte arg # read_txt bs"
  by (simp add: field_bytes_def unat_of_nat)

lemma txt_fill_result:
  assumes "txt_fill args ptr buf = TxtRecord n buf'" and "ptr < TXT_SIZE" and "length buf = TXT_SIZE"
  shows "take n buf' = take ptr buf @ concat (map field_bytes (filter (\<lambda>a. a \<noteq> []) args)) \<and> n < TXT_SIZE \<and> length buf' = TXT_SIZE \<and>
    (\<forall>a\<in>set args. length a \<le> 255)"
  using assms
proof (induction args ptr buf rule: txt_fill.induct)
  case (2 arg args ptr buf)
  show ?case
  proof (cases "arg = []")
    case False
    let ?buf = "take ptr buf @ [word_of_nat (length arg)] @ map char_byte arg @ [0] @ drop (ptr + length arg + 2) buf"
    from 2(3) False have c: "length arg \<le> 255" "ptr + 1 + length arg < TXT_SIZE"
      "txt_fill args (ptr + 1 + length arg) ?buf = TxtRecord n buf'"
      by (auto simp: Let_def split: if_splits)
    have "length ?buf = TXT_SIZE" using c(2) 2(5) by simp
    from 2(2) [OF refl _ _ _ _ c(3) c(2) this] False c(1,2) 2(5) show ?thesis by (auto simp: field_bytes_def)
  qed (use 2 in \<open>auto simp: Let_def\<close>)
qed simp

lemma read_fields:
  "\<forall>a\<in>set args. a \<noteq> [] \<and> length a \<le> 255 \<Longrightarrow> read_txt (concat (map field_bytes args)) = map (map char_byte) args"
  by (induction args) (simp_all add: read_txt_field)

text \<open>
  The record that is handed to the library holds just the fields of the command line that are not empty, in their order. The check
  against the size of the buffer does not count the final zero: the zero lands beyond the buffer when the fields fill it exactly.
\<close>

lemma txt_record_roundtrip:
  assumes "txt_record args = TxtRecord n buf"
  shows "read_txt (take n buf) = map (map char_byte) (filter (\<lambda>a. a \<noteq> []) args)" and "n < length buf"
proof -
  from txt_fill_result [OF assms [unfolded txt_record_def]] have
    "take n buf = concat (map field_bytes (filter (\<lambda>a. a \<noteq> []) args))" "n < length buf" "\<forall>a\<in>set args. length a \<le> 255"
    by (simp_all add: TXT_SIZE_def)
  then show "read_txt (take n buf) = map (map char_byte) (filter (\<lambda>a. a \<noteq> []) args)" "n < length buf" by (simp_all add: read_fields)
qed

lemma txt_record_overflow: "txt_record (replicate 8 (replicate 255 c)) = TxtOverflow"
  by (simp add: txt_record_def TXT_SIZE_def numeral_eq_Suc)

section \<open>The two threads\<close>

text \<open>
  The threads take turns: the commands that start a request in two steps, stopping a request, and a round of the poll thread. The
  second component of a state is the request between its two halves.
\<close>

datatype mdns_act =
    Begin int dns_request string string
  | Finish string
  | Stop "string list" string
  | Round "nat \<Rightarrow> bool"

fun mdns_exec :: "dns_lib \<Rightarrow> mdns_act \<Rightarrow> 'a mdns_scheme \<times> int option \<Rightarrow> ('a mdns_scheme \<times> int option) option" where
  "mdns_exec lib (Begin i req in_use failed) (s, p) =
     (case run_state (begin_request lib i req in_use failed) s of (ok, s') \<Rightarrow> Some (s', if ok then Some i else None))"
| "mdns_exec lib (Finish started) (s, p) =
     (case p of None \<Rightarrow> None | Some i \<Rightarrow> Some (snd (run_state (finish_request i started) s), None))"
| "mdns_exec lib (Stop argv str) (s, p) = Some (snd (run_state (mdns_stop lib argv str) s), p)"
| "mdns_exec lib (Round ready) (s, p) =
     (case run_state (run_round lib ready) s of (None, s') \<Rightarrow> None | (Some _, s') \<Rightarrow> Some (s', p))"

text \<open>
  What may happen next: the commands come one after another, and a request is not stopped again while the poll thread has not yet
  removed it.
\<close>

fun may_follow :: "mdns_act \<Rightarrow> 'a mdns_scheme \<times> int option \<Rightarrow> bool" where
  "may_follow (Begin i req in_use failed) (s, p) \<longleftrightarrow> p = None"
| "may_follow (Finish started) (s, p) \<longleftrightarrow> p \<noteq> None"
| "may_follow (Stop argv str) (s, p) \<longleftrightarrow>
     p = None \<and> (\<forall>cur\<in>set (mHead s). length argv = 3 \<and> mId cur = atoi (argv ! 2) \<longrightarrow> mReady cur \<noteq> -1)"
| "may_follow (Round ready) (s, p) \<longleftrightarrow> True"

definition polls_ok :: "'a mdns_scheme \<Rightarrow> bool" where
  "polls_ok s \<longleftrightarrow> 1 \<le> mPollSize s \<and> length (mPollFds s) = nat (mPollSize s) \<and> length (mPollRefs s) = nat (mPollSize s) \<and>
     pollCount s \<le> nat (mPollSize s) \<and>
     (\<forall>i. 1 \<le> i \<and> i < pollCount s \<longrightarrow> (\<exists>cur\<in>set (mHead s). mPollRefs s ! i = Some (eAddr cur)))"

definition live :: "element list \<Rightarrow> element list" where
  "live es = filter (\<lambda>cur. mReady cur = 1) es"

definition elements_ok :: "element list \<Rightarrow> int option \<Rightarrow> bool" where
  "elements_ok es p \<longleftrightarrow> distinct (map mId es) \<and> (\<forall>cur\<in>set es. mReady cur \<in> {-1, 1} \<or> mReady cur = 0 \<and> p = Some (mId cur)) \<and>
     (\<forall>i. p = Some i \<longrightarrow> (\<exists>cur\<in>set es. mId cur = i \<and> mReady cur = 0))"

definition mdns_inv :: "'a mdns_scheme \<Rightarrow> int option \<Rightarrow> bool" where
  "mdns_inv s p \<longleftrightarrow> polls_ok s \<and> elements_ok (mHead s) p \<and> mLiveCount s = int (length (live (mHead s)))"

lemma live_simps [simp]: "live [] = []" "live (cur # es) = (if mReady cur = 1 then cur # live es else live es)"
  by (simp_all add: live_def)

lemma elements_ok_Nil [simp]: "elements_ok [] p \<longleftrightarrow> p = None"
  by (auto simp: elements_ok_def)

lemma elements_ok_Cons:
  "elements_ok (cur # es) p \<longleftrightarrow> mId cur \<notin> mId ` set es \<and>
     (if p = Some (mId cur) then mReady cur = 0 \<and> elements_ok es None else mReady cur \<in> {-1, 1} \<and> elements_ok es p)"
proof (cases "p = Some (mId cur)")
  case True
  then show ?thesis by (auto simp: elements_ok_def image_iff)
next
  case False
  then show ?thesis by (auto simp: elements_ok_def)
qed

lemma elements_ok_filter: "elements_ok es p \<Longrightarrow> elements_ok (filter (\<lambda>cur. mReady cur \<noteq> -1) es) p"
  by (induction es arbitrary: p) (auto simp: elements_ok_Cons split: if_splits)

lemma mdns_inv_frame [simp]:
  "mdns_inv (s\<lparr>hist := h\<rparr>) p = mdns_inv s p" "mdns_inv (s\<lparr>mCtrlBytes := n\<rparr>) p = mdns_inv s p"
  "mdns_inv (s\<lparr>dnsCalls := c\<rparr>) p = mdns_inv s p"
  by (simp_all add: mdns_inv_def polls_ok_def)

lemma mark_ready_ok:
  "elements_ok es (Some i) \<Longrightarrow>
     \<exists>es'. mark_ready i es = Some es' \<and> elements_ok es' None \<and> length (live es') = length (live es) + 1 \<and>
       map eAddr es' = map eAddr es \<and> mId ` set es' = mId ` set es"
proof (induction es)
  case (Cons cur es)
  show ?case
  proof (cases "mId cur = i")
    case False
    with Cons.prems have "elements_ok es (Some i)" by (simp add: elements_ok_Cons)
    from Cons.IH [OF this] False Cons.prems show ?thesis by (auto simp: elements_ok_Cons)
  qed (use Cons.prems in \<open>simp add: elements_ok_Cons\<close>)
qed simp

lemma mark_free_ok:
  "elements_ok es None \<Longrightarrow> find (\<lambda>cur. mId cur = i) es = Some c \<Longrightarrow> mReady c \<noteq> -1 \<Longrightarrow>
     \<exists>es'. mark_free i es = Some (es', True) \<and> elements_ok es' None \<and> length (live es) = length (live es') + 1 \<and>
       map eAddr es' = map eAddr es \<and> mId ` set es' = mId ` set es"
proof (induction es)
  case (Cons cur es)
  show ?case
  proof (cases "mId cur = i")
    case False
    with Cons.IH Cons.prems obtain es' where "mark_free i es = Some (es', True)" "elements_ok es' None"
      "length (live es) = length (live es') + 1" "map eAddr es' = map eAddr es" "mId ` set es' = mId ` set es"
      by (auto simp: elements_ok_Cons)
    with False Cons.prems show ?thesis by (intro exI [of _ "cur # es'"]) (simp add: elements_ok_Cons)
  qed (use Cons.prems in \<open>auto simp: elements_ok_Cons\<close>)
qed simp

text \<open>The loop of \<^verbatim>\<open>rescan\<close> when there is room for every live element.\<close>

lemma rescan_loop_ok:
  assumes "elements_ok es p" and "i + length (live es) \<le> length (mPollFds s)" and "length (mPollRefs s) = length (mPollFds s)"
    and "1 \<le> i" and "\<And>k. 1 \<le> k \<Longrightarrow> k < i \<Longrightarrow> \<exists>a\<in>A. mPollRefs s ! k = Some a"
  shows "\<exists>n s'. run_state (rescan_loop lib es i) s = (Some (filter (\<lambda>cur. mReady cur \<noteq> -1) es, n), s') \<and>
    n \<le> length (mPollFds s) \<and> length (mPollFds s') = length (mPollFds s) \<and> length (mPollRefs s') = length (mPollFds s) \<and>
    mPollSize s' = mPollSize s \<and> mHead s' = mHead s \<and> mLiveCount s' = mLiveCount s \<and> pollCount s' = pollCount s \<and>
    (\<forall>k. 1 \<le> k \<and> k < n \<longrightarrow> (\<exists>a\<in>A \<union> eAddr ` set (live es). mPollRefs s' ! k = Some a))"
  using assms
proof (induction es arbitrary: p i s A)
  case Nil
  then show ?case by simp
next
  case (Cons cur es)
  from Cons.prems(1) obtain q where ok: "elements_ok es q" by (auto simp: elements_ok_Cons split: if_splits)
  have ready: "mReady cur \<in> {-1, 0, 1}" using Cons.prems(1) by (auto simp: elements_ok_Cons split: if_splits)
  let ?f = "lib_sockfd lib (dnsCalls s) (mRef cur)"
  let ?s = "s\<lparr>dnsCalls := DnsRefSockFD (mRef cur) ?f # dnsCalls s\<rparr>"
  let ?s2 = "?s\<lparr>mPollFds := (mPollFds s)[i := \<lparr>fd = ?f, pollin = True\<rparr>], mPollRefs := (mPollRefs s)[i := Some (eAddr cur)]\<rparr>"
  consider "mReady cur = 1" "?f \<noteq> -1" | "mReady cur = 1" "?f = -1" | "mReady cur \<noteq> 1" using ready by blast
  then show ?case
  proof cases
    case 1
    have "\<exists>a\<in>insert (eAddr cur) A. mPollRefs ?s2 ! k = Some a" if "1 \<le> k" "k < i + 1" for k
      using that Cons.prems(2,3) Cons.prems(5) [of k] 1 by (cases "k = i") (auto simp: nth_list_update)
    with Cons.IH [OF ok, of "i + 1" ?s2 "insert (eAddr cur) A"] Cons.prems(2-4) 1 show ?thesis
      by (auto simp: run_simps  Let_def)
  next
    case 2
    with Cons.IH [OF ok, of i ?s A] Cons.prems(2-5) show ?thesis by (auto simp: run_simps  Let_def)
  next
    case 3
    with Cons.IH [OF ok, of i s A] Cons.prems(2-5) ready show ?thesis by (auto simp: run_simps)
  qed
qed

text \<open>Processing results sends broadcasts and nothing else.\<close>

lemma callbacks_run: "\<exists>h. run_state (callbacks lib ref rs) s = ((), s\<lparr>hist := h\<rparr>)"
proof (induction rs arbitrary: s)
  case Nil
  show ?case by (rule exI [of _ "hist s"]) (simp add: run_simps)
next
  case (Cons r rs)
  have "\<exists>h. run_state (callback lib ref r) s = ((), s\<lparr>hist := h\<rparr>)"
    by (cases r) (auto simp: run_simps MDnsSdListenerDiscoverCallback_def MDnsSdListenerRegisterCallback_def
      MDnsSdListenerResolveCallback_def MDnsSdListenerGetAddrInfoCallback_def MDnsSdListenerSetHostnameCallback_def Let_def)
  then obtain h where "run_state (callback lib ref r) s = ((), s\<lparr>hist := h\<rparr>)" by blast
  with Cons [of "s\<lparr>hist := h\<rparr>"] show ?case by (auto simp: run_simps)
qed

lemma process_all_ok:
  assumes "\<forall>i\<in>set is. i < length (mPollRefs s) \<and> (\<exists>cur\<in>set (mHead s). mPollRefs s ! i = Some (eAddr cur))"
  shows "\<exists>h c. run_state (process_all lib is) s = (Some (), s\<lparr>hist := h, dnsCalls := c\<rparr>)"
  using assms
proof (induction "is" arbitrary: s)
  case Nil
  show ?case by (rule exI [of _ "hist s"], rule exI [of _ "dnsCalls s"]) (simp add: run_simps)
next
  case (Cons i "is")
  then obtain cur where cur: "find (\<lambda>cur. mPollRefs s ! i = Some (eAddr cur)) (mHead s) = Some cur"
    by (cases "find (\<lambda>cur. mPollRefs s ! i = Some (eAddr cur)) (mHead s)") (auto simp: find_None_iff)
  let ?s = "s\<lparr>dnsCalls := DnsProcessResult (mRef cur) # dnsCalls s\<rparr>"
  obtain h where "run_state (callbacks lib (mContext cur) (lib_results lib (dnsCalls s) (mRef cur))) ?s = ((), ?s\<lparr>hist := h\<rparr>)"
    using callbacks_run by blast
  with cur Cons.prems Cons.IH [of "?s\<lparr>hist := h\<rparr>"] show ?case
    by (auto simp: process_result_def run_simps)
qed

lemma rescan_ok:
  assumes "mdns_inv s p"
  shows "\<exists>n s'. run_state (rescan lib) s = (Some n, s') \<and> mdns_inv (s'\<lparr>pollCount := n\<rparr>) p \<and>
    mHead s' = filter (\<lambda>cur. mReady cur \<noteq> -1) (mHead s)"
proof -
  let ?m = "if mPollSize s \<le> mLiveCount s then mLiveCount s + 5 else mPollSize s"
  let ?s = "clear_polls ?m s"
  have m: "1 \<le> ?m" "mLiveCount s < ?m" "mLiveCount s = int (length (live (mHead s)))" and ok: "elements_ok (mHead s) p"
    using assms by (auto simp: mdns_inv_def polls_ok_def)
  then have "1 + length (live (mHead s)) \<le> length (mPollFds ?s)" "length (mPollRefs ?s) = length (mPollFds ?s)"
    by (auto simp: clear_polls_def)
  from rescan_loop_ok [OF ok this, of "{}" lib] obtain n s' where
    r: "run_state (rescan_loop lib (mHead s) 1) ?s = (Some (filter (\<lambda>cur. mReady cur \<noteq> -1) (mHead s), n), s')"
      "n \<le> length (mPollFds ?s)" "length (mPollFds s') = length (mPollFds ?s)" "length (mPollRefs s') = length (mPollFds ?s)"
      "mPollSize s' = mPollSize ?s" "mLiveCount s' = mLiveCount s"
      "\<forall>k. 1 \<le> k \<and> k < n \<longrightarrow> (\<exists>a\<in>eAddr ` set (live (mHead s)). mPollRefs s' ! k = Some a)"
    by (auto simp: clear_polls_def)
  define kept where "kept = filter (\<lambda>cur. mReady cur \<noteq> -1) (mHead s)"
  have kept_live: "set (live (mHead s)) \<subseteq> set kept" by (auto simp: kept_def live_def)
  have "live kept = live (mHead s)" by (auto simp: kept_def live_def intro: filter_cong)
  moreover from this have "\<forall>k. 1 \<le> k \<and> k < n \<longrightarrow> (\<exists>cur\<in>set kept. mPollRefs s' ! k = Some (eAddr cur))"
    using r(7) kept_live by blast
  moreover have "elements_ok kept p" using elements_ok_filter [OF ok] by (simp add: kept_def)
  ultimately have "mdns_inv (s'\<lparr>mHead := kept, pollCount := n\<rparr>) p"
    using m r(2-6) by (simp add: mdns_inv_def polls_ok_def clear_polls_def)
  then show ?thesis using r(1) by (simp add: rescan_def run_simps clear_polls_def kept_def)
qed

text \<open>The library writes the references, which nothing else depends on.\<close>

lemma set_ref_ok:
  "elements_ok (set_ref a r es) p = elements_ok es p" "length (live (set_ref a r es)) = length (live es)"
  "eAddr ` set (set_ref a r es) = eAddr ` set es"
proof -
  have "map mId (set_ref a r es) = map mId es" "map eAddr (set_ref a r es) = map eAddr es" for es by (simp_all add: set_ref_def)
  then have ids: "mId ` set (set_ref a r es) = mId ` set es" "eAddr ` set (set_ref a r es) = eAddr ` set es" for es
    by (metis list.set_map)+
  show "elements_ok (set_ref a r es) p = elements_ok es p"
  proof (induction es arbitrary: p)
    case (Cons cur es)
    have "set_ref a r (cur # es) = (if eAddr cur = a then cur\<lparr>mRef := r\<rparr> else cur) # set_ref a r es" by (simp add: set_ref_def)
    with Cons ids(1) [of es] show ?case by (auto simp: elements_ok_Cons)
  qed (simp add: set_ref_def)
  show "length (live (set_ref a r es)) = length (live es)" by (induction es) (auto simp: set_ref_def)
  show "eAddr ` set (set_ref a r es) = eAddr ` set es" by (rule ids)
qed

lemma polls_ok_same:
  assumes "polls_ok s" and "mPollSize s' = mPollSize s" "mPollFds s' = mPollFds s" "mPollRefs s' = mPollRefs s" "pollCount s' = pollCount s"
    and "eAddr ` set (mHead s) \<subseteq> eAddr ` set (mHead s')"
  shows "polls_ok s'"
proof -
  have "\<exists>cur\<in>set (mHead s'). mPollRefs s ! i = Some (eAddr cur)" if "1 \<le> i" "i < pollCount s" for i
    using assms(1,6) that unfolding polls_ok_def by (metis (no_types, opaque_lifting) image_iff imageI subsetD)
  then show ?thesis using assms(1-5) by (simp add: polls_ok_def)
qed

lemma begin_ok:
  assumes "mdns_inv s None" and "\<And>calls req. fst (lib_request lib calls req) = kDNSServiceErr_NoError"
    and "run_state (begin_request lib i req in_use failed) s = (ok, s')"
  shows "mdns_inv s' (if ok then Some i else None)"
proof (cases "find (\<lambda>cur. mId cur = i) (mHead s)")
  case None
  then have i: "i \<notin> mId ` set (mHead s)" by (auto simp: find_None_iff)
  let ?new = "\<lparr>mId = i, mRef = 0, mContext = i, mReady = 0, eAddr = nextElement s\<rparr>"
  obtain r where r: "lib_request lib (dnsCalls s) req = (kDNSServiceErr_NoError, r)" using assms(2) by (metis prod.collapse)
  have s': "ok" "mHead s' = set_ref (nextElement s) r (?new # mHead s)" "mLiveCount s' = mLiveCount s" "mPollSize s' = mPollSize s"
    "mPollFds s' = mPollFds s" "mPollRefs s' = mPollRefs s" "pollCount s' = pollCount s"
    using assms(3) None r by (auto simp: begin_request_def allocateServiceRef_def lookupServiceRef_def run_simps Let_def)
  have "elements_ok (?new # mHead s) (Some i)" using assms(1) i by (simp add: elements_ok_Cons mdns_inv_def)
  moreover have "polls_ok s'"
    by (rule polls_ok_same [of s]) (use assms(1) s' set_ref_ok(3) [of "nextElement s" r "?new # mHead s"] in \<open>auto simp: mdns_inv_def\<close>)
  ultimately show ?thesis using assms(1) s' by (simp add: mdns_inv_def set_ref_ok)
next
  case (Some c)
  then show ?thesis
    using assms(1,3) by (auto simp: begin_request_def allocateServiceRef_def lookupServiceRef_def run_simps)
qed

lemma finish_ok:
  assumes "mdns_inv s (Some i)"
  shows "mdns_inv (snd (run_state (finish_request i started) s)) None"
proof -
  from assms obtain es' where es: "mark_ready i (mHead s) = Some es'" "elements_ok es' None"
    "length (live es') = length (live (mHead s)) + 1" "map eAddr es' = map eAddr (mHead s)"
    using mark_ready_ok unfolding mdns_inv_def by blast
  from es(4) have sub: "eAddr ` set (mHead s) \<subseteq> eAddr ` set es'" by (metis list.set_map order_refl)
  have "polls_ok (s\<lparr>mLiveCount := mLiveCount s + 1, mHead := es'\<rparr>)"
    by (rule polls_ok_same [of s]) (use assms sub in \<open>simp_all add: mdns_inv_def\<close>)
  then have "mdns_inv (s\<lparr>mLiveCount := mLiveCount s + 1, mHead := es'\<rparr>) None" using assms es by (simp add: mdns_inv_def)
  then show ?thesis using es(1) by (simp add: finish_request_def startMonitoring_def run_simps)
qed

lemma stop_ok:
  assumes "mdns_inv s None" and "may_follow (Stop argv str) (s, None)"
  shows "mdns_inv (snd (run_state (mdns_stop lib argv str) s)) None"
proof (cases "length argv = 3 \<and> find (\<lambda>cur. mId cur = atoi (argv ! 2)) (mHead s) \<noteq> None")
  case True
  then obtain c where c: "length argv = 3" "find (\<lambda>cur. mId cur = atoi (argv ! 2)) (mHead s) = Some c" by blast
  then have "mReady c \<noteq> -1" using assms(2) by (auto simp: find_Some_iff)
  with c(2) assms(1) obtain es' where es: "mark_free (atoi (argv ! 2)) (mHead s) = Some (es', True)" "elements_ok es' None"
    "length (live (mHead s)) = length (live es') + 1" "map eAddr es' = map eAddr (mHead s)"
    using mark_free_ok unfolding mdns_inv_def by blast
  from es(4) have sub: "eAddr ` set (mHead s) \<subseteq> eAddr ` set es'" by (metis list.set_map order_refl)
  have "polls_ok (s\<lparr>dnsCalls := cs, mLiveCount := mLiveCount s - 1, mHead := es'\<rparr>)" for cs
    by (rule polls_ok_same [of s]) (use assms(1) sub in \<open>simp_all add: mdns_inv_def\<close>)
  then have "mdns_inv (s\<lparr>dnsCalls := cs, mLiveCount := mLiveCount s - 1, mHead := es'\<rparr>) None" for cs
    using assms(1) es by (simp add: mdns_inv_def)
  then show ?thesis using es(1) c by (simp add: mdns_stop_def lookupServiceRef_def freeServiceRef_def run_simps Let_def)
next
  case False
  then show ?thesis using assms(1) by (auto simp: mdns_stop_def lookupServiceRef_def run_simps Let_def)
qed

lemma round_ok:
  assumes "mdns_inv s p"
  shows "\<exists>s'. run_state (run_round lib ready) s = (Some (), s') \<and> mdns_inv s' p \<and>
    mHead s' = (if ready 0 then filter (\<lambda>cur. mReady cur \<noteq> -1) (mHead s) else mHead s)"
proof -
  have "\<forall>i\<in>set (filter ready [1..<pollCount s]). i < length (mPollRefs s) \<and> (\<exists>cur\<in>set (mHead s). mPollRefs s ! i = Some (eAddr cur))"
    using assms by (auto simp: mdns_inv_def polls_ok_def)
  from process_all_ok [OF this, of lib] obtain h c where
    r: "run_state (process_all lib (filter ready [1..<pollCount s])) s = (Some (), s\<lparr>hist := h, dnsCalls := c\<rparr>)" by blast
  let ?s = "s\<lparr>hist := h, dnsCalls := c, mCtrlBytes := mCtrlBytes s - 1\<rparr>"
  from rescan_ok [of ?s p lib] assms obtain n s' where
    "run_state (rescan lib) ?s = (Some n, s')" "mdns_inv (s'\<lparr>pollCount := n\<rparr>) p" "mHead s' = filter (\<lambda>cur. mReady cur \<noteq> -1) (mHead s)"
    by auto
  with r assms show ?thesis by (auto simp: run_round_def run_simps)
qed

section \<open>Properties\<close>

inductive mdns_reach :: "dns_lib \<Rightarrow> 'a mdns_scheme \<Rightarrow> int option \<Rightarrow> bool" for lib where
  start: "mdns_reach lib (snd (run_state Monitor_run_start (Monitor_new s))) None"
| step: "mdns_reach lib s p \<Longrightarrow> may_follow a (s, p) \<Longrightarrow> mdns_exec lib a (s, p) = Some (s', p') \<Longrightarrow> mdns_reach lib s' p'"

lemma mdns_step_ok:
  assumes "\<And>calls req. fst (lib_request lib calls req) = kDNSServiceErr_NoError" and "mdns_inv s p" and "may_follow a (s, p)"
  shows "\<exists>s' p'. mdns_exec lib a (s, p) = Some (s', p') \<and> mdns_inv s' p'"
proof (cases a)
  case (Begin i req in_use failed)
  with assms begin_ok [of s lib i req in_use failed] show ?thesis by (auto split: prod.splits)
next
  case (Finish started)
  with assms finish_ok show ?thesis by auto
next
  case (Stop argv str)
  with assms stop_ok [of s argv str lib] show ?thesis by auto
next
  case (Round ready)
  with round_ok [OF assms(2), of lib ready] show ?thesis by (auto split: prod.splits)
qed

lemma mdns_reach_inv:
  assumes "\<And>calls req. fst (lib_request lib calls req) = kDNSServiceErr_NoError" and "mdns_reach lib s p"
  shows "mdns_inv s p"
  using assms(2)
proof induction
  case (start s)
  show ?case by (simp add: Monitor_run_start_def Monitor_new_def clear_polls_def mdns_inv_def polls_ok_def)
next
  case (step s p a s' p')
  with mdns_step_ok [OF assms(1), of s p a] show ?case by auto
qed


definition sample_lib :: dns_lib where
  "sample_lib = \<lparr>lib_request = (\<lambda>calls req. (0, 7)), lib_sockfd = (\<lambda>calls ref. 20), lib_results = (\<lambda>calls ref. []),
     lib_property = (\<lambda>h name. []), lib_quoteArg = (\<lambda>t. t), lib_inet_ntop = (\<lambda>f a. [])\<rparr>"

definition sample_mdns :: mdns where
  "sample_mdns = \<lparr>hist = [], mHead = [], mLiveCount = 0, mPollSize = 10, mPollFds = [], mPollRefs = [], pollCount = 1, mCtrlBytes = 0,
     nextElement = 0, dnsCalls = []\<rparr>"


text \<open>
  Without these assumptions the count goes wrong: a request that the library refuses is counted off although it was never counted, and
  so is one that is stopped twice. With a count that is too small the arrays are not made larger, and the loop writes beyond them.
\<close>

lemma refused_request_miscounted:
  assumes "fst (lib_request lib (dnsCalls s) req) \<noteq> kDNSServiceErr_NoError" and "find (\<lambda>cur. mId cur = i) (mHead s) = None"
  shows "mLiveCount (snd (run_state (begin_request lib i req in_use failed) s)) = mLiveCount s - 1"
    and "mHead (snd (run_state (begin_request lib i req in_use failed) s)) = set_ref (nextElement s) (snd (lib_request lib (dnsCalls s) req)) (mHead s)"
  using assms by (auto simp: begin_request_def allocateServiceRef_def lookupServiceRef_def freeServiceRef_def set_ref_def run_simps Let_def
    split: prod.splits)

lemma rescan_overruns:
  assumes "mLiveCount s < mPollSize s" and "\<forall>cur\<in>set (mHead s). mReady cur = 1" and "mPollSize s \<le> int (length (mHead s))"
    and "\<And>calls ref. lib_sockfd lib calls ref \<noteq> -1" and "1 \<le> mPollSize s"
  shows "fst (run_state (rescan lib) s) = None"
proof -
  have "fst (run_state (rescan_loop lib es i) s) = None"
    if "\<forall>cur\<in>set es. mReady cur = 1" "length (mPollFds s) < i + length es" "i \<le> length (mPollFds s)" for es i and s :: "'b mdns_scheme"
    using that
  proof (induction es arbitrary: i s)
    case (Cons cur es)
    let ?f = "lib_sockfd lib (dnsCalls s) (mRef cur)"
    let ?s = "s\<lparr>dnsCalls := DnsRefSockFD (mRef cur) ?f # dnsCalls s, mPollFds := (mPollFds s)[i := \<lparr>fd = ?f, pollin = True\<rparr>],
      mPollRefs := (mPollRefs s)[i := Some (eAddr cur)]\<rparr>"
    have "fst (run_state (rescan_loop lib es (i + 1)) ?s) = None" if "i < length (mPollFds s)"
      using Cons.IH [of ?s "i + 1"] Cons.prems that by simp
    then show ?case
      using assms(4) Cons.prems(1) by (cases "run_state (rescan_loop lib es (i + 1)) ?s") (auto simp: run_simps Let_def)
  qed simp
  from this [of "mHead s" "clear_polls (mPollSize s) s" 1] assms
  have "fst (run_state (rescan_loop lib (mHead s) 1) (clear_polls (mPollSize s) s)) = None"
    by (simp add: clear_polls_def)
  then obtain s' where "run_state (rescan_loop lib (mHead s) 1) (clear_polls (mPollSize s) s) = (None, s')" by (metis prod.collapse)
  moreover have "mHead (clear_polls (mPollSize s) s) = mHead s" by (simp add: clear_polls_def)
  ultimately show ?thesis using assms(1) by (simp add: rescan_def run_simps)
qed


end
