(* ===== verification/DnsProxyListener.thy ===== *)
theory DnsProxyListener
  imports NetworkController ResponseCode CLib
begin

text \<open>
  The DNS proxy, \<^verbatim>\<open>server/DnsProxyListener.cpp\<close>: three commands that each start a thread, which asks the resolver on the network that
  the network controller chooses for the client and writes the answer to the socket as blocks of bytes with their lengths in front.
  The resolver and the socket are parameters.
\<close>

section \<open>The resolver and the socket\<close>

definition AI_ADDRCONFIG :: int where "AI_ADDRCONFIG = 0x400"

record addrinfo_hints =
  ai_flags :: int
  ai_family :: int
  ai_socktype :: int
  ai_protocol :: int

text \<open>
  An answer as it lies in memory: the bytes of the structure itself, those of the address, and the canonical name. Of an address of a
  \<^verbatim>\<open>hostent\<close> we have the bytes that can be read from where its pointer points.
\<close>

record addrinfo =
  ai_struct :: bytes
  ai_addr :: bytes
  ai_canonname :: cstr

record hostent =
  h_name :: cstr
  h_aliases :: "string list"
  h_addrtype :: int
  h_length :: int
  h_addr_list :: "bytes list"

record resolver =
  android_getaddrinfofornet :: "event list \<Rightarrow> cstr \<Rightarrow> cstr \<Rightarrow> addrinfo_hints option \<Rightarrow> u32 \<Rightarrow> u32 \<Rightarrow> u32 + addrinfo list"
  android_gethostbynamefornet :: "event list \<Rightarrow> cstr \<Rightarrow> int \<Rightarrow> u32 \<Rightarrow> u32 \<Rightarrow> hostent option"
  android_gethostbyaddrfornet :: "event list \<Rightarrow> bytes \<Rightarrow> int \<Rightarrow> int \<Rightarrow> u32 \<Rightarrow> u32 \<Rightarrow> hostent option"
  client_sendData :: "event list \<Rightarrow> bytes \<Rightarrow> int"

definition sendData :: "resolver \<Rightarrow> bytes \<Rightarrow> ('a sys_scheme, int) state" where
  "sendData l data = do {
     h \<leftarrow> gets hist;
     let r = client_sendData l h data;
     log_event (EvSendData data r);
     ret r }"

definition sendCode :: "env \<Rightarrow> int \<Rightarrow> ('a sys_scheme, int) state" where
  "sendCode e code = call_sys e (SysLib ''sendCode'' [fmt_d code])"

definition sendBinaryMsg :: "env \<Rightarrow> int \<Rightarrow> bytes \<Rightarrow> ('a sys_scheme, int) state" where
  "sendBinaryMsg e code data = call_sys e (SysLib ''sendBinaryMsg'' [fmt_d code, map (\<lambda>b. char_of (unat b)) data])"

section \<open>Sending\<close>

text \<open>The number in network byte order, as it lies in memory.\<close>

definition be32 :: "u32 \<Rightarrow> bytes" where
  "be32 w = rev (le32 w)"

definition sendLenAndData :: "resolver \<Rightarrow> bytes \<Rightarrow> ('a sys_scheme, bool) state" where
  "sendLenAndData l data = do {
     a \<leftarrow> sendData l (be32 (word_of_nat (length data)));
     if a \<noteq> 0 then ret False
     else if data = [] then ret True
     else do { b \<leftarrow> sendData l data; ret (b = 0) } }"

primrec send_blocks :: "resolver \<Rightarrow> bytes list \<Rightarrow> ('a sys_scheme, bool) state" where
  "send_blocks l [] = ret True"
| "send_blocks l (b # bs) = do { x \<leftarrow> sendLenAndData l b; y \<leftarrow> send_blocks l bs; ret (x \<and> y) }"

text \<open>
  All parts are sent even if one fails. For a NULL name the result of \<^verbatim>\<open>sendLenAndData\<close> is compared with 0, which inverts it. Sixteen
  bytes are read from every address; \<^const>\<open>None\<close> when there are fewer.
\<close>

definition sendhostent :: "resolver \<Rightarrow> hostent \<Rightarrow> ('a sys_scheme, bool option) state" where
  "sendhostent l hp = do {
     a \<leftarrow> (case h_name hp of
            Some name \<Rightarrow> sendLenAndData l (str_bytes name @ [0])
          | None \<Rightarrow> do { x \<leftarrow> sendLenAndData l []; ret (\<not> x) });
     b \<leftarrow> send_blocks l (map (\<lambda>alias. str_bytes alias @ [0]) (h_aliases hp));
     c \<leftarrow> sendLenAndData l [];
     d \<leftarrow> sendData l (be32 (word_of_int (h_addrtype hp)));
     f \<leftarrow> sendData l (be32 (word_of_int (h_length hp)));
     if \<exists>addr\<in>set (h_addr_list hp). length addr < 16 then ret None
     else do {
       g \<leftarrow> send_blocks l (map (take 16) (h_addr_list hp));
       i \<leftarrow> sendLenAndData l [];
       ret (Some (a \<and> b \<and> c \<and> d = 0 \<and> f = 0 \<and> g \<and> i)) } }"

primrec send_addrinfos :: "resolver \<Rightarrow> addrinfo list \<Rightarrow> ('a sys_scheme, bool) state" where
  "send_addrinfos l [] = ret True"
| "send_addrinfos l (ai # ais) = do {
     a \<leftarrow> sendLenAndData l (ai_struct ai);
     b \<leftarrow> (if a then sendLenAndData l (ai_addr ai) else ret False);
     c \<leftarrow> (if b then sendLenAndData l (case ai_canonname ai of Some name \<Rightarrow> str_bytes name @ [0] | None \<Rightarrow> []) else ret False);
     if c then send_addrinfos l ais else ret False }"

section \<open>Handlers\<close>

datatype dns_handler =
    GetAddrInfoHandler cstr cstr "addrinfo_hints option" u32 u32
  | GetHostByNameHandler cstr int u32 u32
  | GetHostByAddrHandler bytes int int u32 u32

text \<open>The threads that have been started, and the references to the client.\<close>

record dns_proxy = nc +
  mThreads :: "dns_handler list"
  clientRefs :: int

definition handler_start :: "env \<Rightarrow> dns_handler \<Rightarrow> ('a dns_proxy_scheme, unit) state" where
  "handler_start e handler = do {
     r \<leftarrow> call_sys e (SysLib ''pthread_create'' []);
     if r = 0 then modify (\<lambda>s. s\<lparr>mThreads := mThreads s @ [handler]\<rparr>) else ret () }"

definition incRef :: "('a dns_proxy_scheme, unit) state" where
  "incRef = modify (\<lambda>s. s\<lparr>clientRefs := clientRefs s + 1\<rparr>)"

definition decRef :: "('a dns_proxy_scheme, unit) state" where
  "decRef = modify (\<lambda>s. s\<lparr>clientRefs := clientRefs s - 1\<rparr>)"

definition GetAddrInfoHandler_run ::
    "env \<Rightarrow> resolver \<Rightarrow> cstr \<Rightarrow> cstr \<Rightarrow> addrinfo_hints option \<Rightarrow> u32 \<Rightarrow> u32 \<Rightarrow> ('a dns_proxy_scheme, unit option) state" where
  "GetAddrInfoHandler_run e l mHost mService mHints n mark = do {
     h \<leftarrow> gets hist;
     case android_getaddrinfofornet l h mHost mService mHints n mark of
       Inl rv \<Rightarrow> do { _ \<leftarrow> sendBinaryMsg e DnsProxyOperationFailed (le32 rv); decRef; ret (Some ()) }
     | Inr result \<Rightarrow> do {
         code \<leftarrow> sendCode e DnsProxyQueryResult;
         success \<leftarrow> (if code = 0 then send_addrinfos l result else ret False);
         _ \<leftarrow> (if success then sendLenAndData l [] else ret False);
         decRef;
         ret (Some ()) } }"

definition send_hostent_answer :: "env \<Rightarrow> resolver \<Rightarrow> hostent option \<Rightarrow> ('a dns_proxy_scheme, unit option) state" where
  "send_hostent_answer e l hp = do {
     r \<leftarrow> (case hp of
            Some hp \<Rightarrow> do { _ \<leftarrow> sendCode e DnsProxyQueryResult; r \<leftarrow> sendhostent l hp; ret (map_option (\<lambda>_. ()) r) }
          | None \<Rightarrow> do { _ \<leftarrow> sendBinaryMsg e DnsProxyOperationFailed []; ret (Some ()) });
     case r of None \<Rightarrow> ret None | Some _ \<Rightarrow> do { decRef; ret (Some ()) } }"

definition GetHostByNameHandler_run ::
    "env \<Rightarrow> resolver \<Rightarrow> cstr \<Rightarrow> int \<Rightarrow> u32 \<Rightarrow> u32 \<Rightarrow> ('a dns_proxy_scheme, unit option) state" where
  "GetHostByNameHandler_run e l mName mAf n mark = do {
     h \<leftarrow> gets hist;
     send_hostent_answer e l (android_gethostbynamefornet l h mName mAf n mark) }"

definition GetHostByAddrHandler_run ::
    "env \<Rightarrow> resolver \<Rightarrow> bytes \<Rightarrow> int \<Rightarrow> int \<Rightarrow> u32 \<Rightarrow> u32 \<Rightarrow> ('a dns_proxy_scheme, unit option) state" where
  "GetHostByAddrHandler_run e l mAddress mAddressLen mAddressFamily n mark = do {
     h \<leftarrow> gets hist;
     send_hostent_answer e l (android_gethostbyaddrfornet l h mAddress mAddressLen mAddressFamily n mark) }"

text \<open>\<^verbatim>\<open>threadStart\<close>: the thread runs and the handler is deleted.\<close>

fun handler_run :: "env \<Rightarrow> resolver \<Rightarrow> dns_handler \<Rightarrow> ('a dns_proxy_scheme, unit option) state" where
  "handler_run e l (GetAddrInfoHandler host service hints n m) = GetAddrInfoHandler_run e l host service hints n m"
| "handler_run e l (GetHostByNameHandler name af n m) = GetHostByNameHandler_run e l name af n m"
| "handler_run e l (GetHostByAddrHandler addr len family n m) = GetHostByAddrHandler_run e l addr len family n m"

definition threadStart :: "env \<Rightarrow> resolver \<Rightarrow> nat \<Rightarrow> ('a dns_proxy_scheme, unit option) state" where
  "threadStart e l i = do {
     handler \<leftarrow> gets (\<lambda>s. mThreads s ! i);
     r \<leftarrow> handler_run e l handler;
     modify (\<lambda>s. s\<lparr>mThreads := take i (mThreads s) @ drop (Suc i) (mThreads s)\<rparr>);
     ret r }"

section \<open>Commands\<close>

definition hat_null :: "string \<Rightarrow> cstr" where
  "hat_null arg = (if arg = ''^'' then None else Some arg)"

definition GetAddrInfoCmd_runCommand :: "env \<Rightarrow> uid \<Rightarrow> string list \<Rightarrow> ('a dns_proxy_scheme, int option) state" where
  "GetAddrInfoCmd_runCommand e uid argv =
     (if length argv \<noteq> 8 then do {
        sendMsg CommandParameterError (''Invalid number of arguments to getaddrinfo: '' @ fmt_d (int (length argv)));
        ret (Some (- 1)) }
      else do {
        let name = hat_null (argv ! 1);
        let service = hat_null (argv ! 2);
        let flags = atoi (argv ! 3);
        let family = atoi (argv ! 4);
        let socktype = atoi (argv ! 5);
        let protocol = atoi (argv ! 6);
        dns \<leftarrow> gets (\<lambda>s. getNetworkForDns s (ucast (fst (strtoul (argv ! 7) 10))) uid);
        case dns of
          None \<Rightarrow> ret None
        | Some (n, mark) \<Rightarrow> do {
            dflt \<leftarrow> gets getDefaultNetwork;
            let hints =
              (if flags \<noteq> -1 \<or> family \<noteq> -1 \<or> socktype \<noteq> -1 \<or> protocol \<noteq> -1
               then Some \<lparr>ai_flags = (if flags AND AI_ADDRCONFIG \<noteq> 0 \<and> n \<noteq> dflt then flags AND NOT AI_ADDRCONFIG else flags),
                          ai_family = family, ai_socktype = socktype, ai_protocol = protocol\<rparr>
               else None);
            incRef;
            handler_start e (GetAddrInfoHandler name service hints n mark);
            ret (Some 0) } })"

definition GetHostByNameCmd_runCommand :: "env \<Rightarrow> uid \<Rightarrow> string list \<Rightarrow> ('a dns_proxy_scheme, int option) state" where
  "GetHostByNameCmd_runCommand e uid argv =
     (if length argv \<noteq> 4 then do {
        sendMsg CommandParameterError (''Invalid number of arguments to gethostbyname: '' @ fmt_d (int (length argv)));
        ret (Some (- 1)) }
      else do {
        let name = hat_null (argv ! 2);
        let af = atoi (argv ! 3);
        dns \<leftarrow> gets (\<lambda>s. getNetworkForDns s (ucast (fst (strtoul (argv ! 1) 10))) uid);
        case dns of
          None \<Rightarrow> ret None
        | Some (n, mark) \<Rightarrow> do { incRef; handler_start e (GetHostByNameHandler name af n mark); ret (Some 0) } })"

text \<open>\<^verbatim>\<open>inet_pton\<close> knows two families; for any other it sets errno.\<close>

definition GetHostByAddrCmd_runCommand :: "env \<Rightarrow> uid \<Rightarrow> string list \<Rightarrow> ('a dns_proxy_scheme, int option) state" where
  "GetHostByAddrCmd_runCommand e uid argv =
     (if length argv \<noteq> 5 then do {
        sendMsg CommandParameterError (''Invalid number of arguments to gethostbyaddr: '' @ fmt_d (int (length argv)));
        ret (Some (- 1)) }
      else do {
        let addrStr = argv ! 1;
        let addrLen = atoi (argv ! 2);
        let addrFamily = atoi (argv ! 3);
        let known = (addrFamily = uint AF_INET \<or> addrFamily = uint AF_INET6);
        case (if known then env_inet_pton e (word_of_int addrFamily) addrStr else None) of
          None \<Rightarrow> do {
            sendMsg OperationFailed (''inet_pton(\"'' @ addrStr @ ''\") failed '' @ env_strerror e (if known then 0 else EAFNOSUPPORT));
            ret (Some (- 1)) }
        | Some addr \<Rightarrow> do {
            dns \<leftarrow> gets (\<lambda>s. getNetworkForDns s (ucast (fst (strtoul (argv ! 4) 10))) uid);
            case dns of
              None \<Rightarrow> ret None
            | Some (n, mark) \<Rightarrow> do { incRef; handler_start e (GetHostByAddrHandler addr addrLen addrFamily n mark); ret (Some 0) } } })"

text \<open>The three commands that the constructor registers.\<close>

definition dns_commands :: "env \<Rightarrow> uid \<Rightarrow> (string \<times> (string list \<Rightarrow> ('a dns_proxy_scheme, int option) state)) list" where
  "dns_commands e uid =
     [(''getaddrinfo'', GetAddrInfoCmd_runCommand e uid), (''gethostbyaddr'', GetHostByAddrCmd_runCommand e uid),
      (''gethostbyname'', GetHostByNameCmd_runCommand e uid)]"

section \<open>The client's side\<close>

text \<open>What the client has received, and a reader of blocks, of a \<^verbatim>\<open>hostent\<close> and of a list of \<^verbatim>\<open>addrinfo\<close>.\<close>

fun sent_data :: "event list \<Rightarrow> bytes" where
  "sent_data [] = []"
| "sent_data (EvSendData data r # h) = sent_data h @ (if r = 0 then data else [])"
| "sent_data (ev # h) = sent_data h"

definition read_word :: "bytes \<Rightarrow> (u32 \<times> bytes) option" where
  "read_word bs = (if length bs < 4 then None else Some (rd32 (rev (take 4 bs)), drop 4 bs))"

definition read_block :: "bytes \<Rightarrow> (bytes \<times> bytes) option" where
  "read_block bs =
     (case read_word bs of
        None \<Rightarrow> None
      | Some (n, rest) \<Rightarrow> if length rest < unat n then None else Some (take (unat n) rest, drop (unat n) rest))"

lemma read_block_shorter: "read_block bs = Some (b, rest) \<Longrightarrow> length rest < length bs"
  by (auto simp: read_block_def read_word_def split: if_splits)

function read_blocks :: "bytes \<Rightarrow> (bytes list \<times> bytes) option" where
  "read_blocks bs =
     (case read_block bs of
        None \<Rightarrow> None
      | Some (b, rest) \<Rightarrow> if b = [] then Some ([], rest) else map_option (\<lambda>(xs, r). (b # xs, r)) (read_blocks rest))"
  by pat_completeness auto
termination by (relation "measure length") (auto dest: read_block_shorter)

definition read_hostent :: "bytes \<Rightarrow> (bytes \<times> bytes list \<times> u32 \<times> u32 \<times> bytes list \<times> bytes) option" where
  "read_hostent bs = do {
     (name, bs) \<leftarrow> read_block bs;
     (aliases, bs) \<leftarrow> read_blocks bs;
     (addrtype, bs) \<leftarrow> read_word bs;
     (len, bs) \<leftarrow> read_word bs;
     (addrs, bs) \<leftarrow> read_blocks bs;
     Some (name, aliases, addrtype, len, addrs, bs) }"

function read_addrinfos :: "bytes \<Rightarrow> ((bytes \<times> bytes \<times> bytes) list \<times> bytes) option" where
  "read_addrinfos bs =
     (case read_block bs of
        None \<Rightarrow> None
      | Some (st, bs1) \<Rightarrow>
          if st = [] then Some ([], bs1)
          else case read_block bs1 of
            None \<Rightarrow> None
          | Some (addr, bs2) \<Rightarrow>
              case read_block bs2 of
                None \<Rightarrow> None
              | Some (canon, bs3) \<Rightarrow> map_option (\<lambda>(xs, r). ((st, addr, canon) # xs, r)) (read_addrinfos bs3))"
  by pat_completeness auto
termination by (relation "measure length") (auto dest!: read_block_shorter)

declare read_blocks.simps [simp del] read_addrinfos.simps [simp del]

text \<open>A block is read back.\<close>

definition block :: "bytes \<Rightarrow> bytes" where
  "block data = be32 (word_of_nat (length data)) @ data"

lemma length_be32 [simp]: "length (be32 w) = 4"
  by (simp add: be32_def le32_def)

lemma read_word_be32 [simp]: "read_word (be32 w @ bs) = Some (w, bs)"
  by (simp add: read_word_def) (simp add: be32_def rd32_le32)

lemma read_block_block [simp]: "length data < 2 ^ 32 \<Longrightarrow> read_block (block data @ bs) = Some (data, bs)"
  by (simp add: read_block_def block_def unat_of_nat)

lemma read_blocks_blocks:
  "(\<And>b. b \<in> set xs \<Longrightarrow> b \<noteq> [] \<and> length b < 2 ^ 32) \<Longrightarrow> read_blocks (concat (map block xs) @ block [] @ bs) = Some (xs, bs)"
  by (induction xs) (simp_all add: read_blocks.simps)

section \<open>What is sent\<close>

text \<open>A socket that takes everything. What is sent through it is determined, as events and as bytes.\<close>

definition open_socket :: "resolver \<Rightarrow> bool" where
  "open_socket l \<longleftrightarrow> (\<forall>h data. client_sendData l h data = 0)"

definition block_events :: "bytes \<Rightarrow> event list" where
  "block_events data = (if data = [] then [] else [EvSendData data 0]) @ [EvSendData (be32 (word_of_nat (length data))) 0]"

lemma sent_data_append: "sent_data (h @ h') = sent_data h' @ sent_data h"
  by (induction h rule: sent_data.induct) auto

lemma sent_block_events [simp]: "sent_data (block_events data) = block data"
  by (simp add: block_events_def block_def)

lemma sent_blocks_events [simp]: "sent_data (concat (rev (map block_events xs))) = concat (map block xs)"
  by (induction xs) (simp_all add: sent_data_append)

lemma run_sendData: "open_socket l \<Longrightarrow> run_state (sendData l data) s = (0, s\<lparr>hist := EvSendData data 0 # hist s\<rparr>)"
  by (simp add: sendData_def open_socket_def run_simps Let_def)

lemma run_sendLenAndData:
  "open_socket l \<Longrightarrow> run_state (sendLenAndData l data) s = (True, s\<lparr>hist := block_events data @ hist s\<rparr>)"
  by (simp add: sendLenAndData_def block_events_def run_simps run_sendData)

lemma run_send_blocks:
  "open_socket l \<Longrightarrow> run_state (send_blocks l xs) s = (True, s\<lparr>hist := concat (rev (map block_events xs)) @ hist s\<rparr>)"
  by (induction xs arbitrary: s) (simp_all add: run_simps run_sendLenAndData)

lemmas run_sending = run_sendData run_sendLenAndData run_send_blocks

definition name_bytes :: "cstr \<Rightarrow> bytes" where
  "name_bytes name = (case name of Some t \<Rightarrow> str_bytes t @ [0] | None \<Rightarrow> [])"

abbreviation alias_bytes :: "hostent \<Rightarrow> bytes list" where
  "alias_bytes hp \<equiv> map (\<lambda>alias. str_bytes alias @ [0]) (h_aliases hp)"

definition hostent_events :: "hostent \<Rightarrow> event list" where
  "hostent_events hp =
     block_events [] @ concat (rev (map block_events (map (take 16) (h_addr_list hp)))) @
     [EvSendData (be32 (word_of_int (h_length hp))) 0, EvSendData (be32 (word_of_int (h_addrtype hp))) 0] @
     block_events [] @ concat (rev (map block_events (alias_bytes hp))) @ block_events (name_bytes (h_name hp))"

text \<open>The result is wrong for a NULL name, but what is sent is right.\<close>

lemma run_sendhostent:
  assumes "open_socket l" and "\<forall>addr\<in>set (h_addr_list hp). 16 \<le> length addr"
  shows "run_state (sendhostent l hp) s = (Some (h_name hp \<noteq> None), s\<lparr>hist := hostent_events hp @ hist s\<rparr>)"
proof -
  have "\<not> (\<exists>addr\<in>set (h_addr_list hp). length addr < 16)" using assms(2) by (simp add: not_less)
  then show ?thesis
    by (cases "h_name hp") (simp_all add: sendhostent_def run_simps run_sending [OF assms(1)] hostent_events_def name_bytes_def)
qed

definition addrinfo_events :: "addrinfo \<Rightarrow> event list" where
  "addrinfo_events ai = block_events (name_bytes (ai_canonname ai)) @ block_events (ai_addr ai) @ block_events (ai_struct ai)"

lemma run_send_addrinfos:
  "open_socket l \<Longrightarrow>
     run_state (send_addrinfos l ais) s = (True, s\<lparr>hist := concat (rev (map addrinfo_events ais)) @ hist s\<rparr>)"
  by (induction ais arbitrary: s) (simp_all add: run_simps run_sending addrinfo_events_def name_bytes_def)

definition fits :: "bytes \<Rightarrow> bool" where
  "fits bs \<longleftrightarrow> length bs < 2 ^ 32"

definition hostent_ok :: "hostent \<Rightarrow> bool" where
  "hostent_ok hp \<longleftrightarrow> fits (name_bytes (h_name hp)) \<and> (\<forall>b\<in>set (alias_bytes hp). fits b) \<and> (\<forall>addr\<in>set (h_addr_list hp). 16 \<le> length addr)"

definition addrinfo_ok :: "addrinfo \<Rightarrow> bool" where
  "addrinfo_ok ai \<longleftrightarrow> ai_struct ai \<noteq> [] \<and> fits (ai_struct ai) \<and> fits (ai_addr ai) \<and> fits (name_bytes (ai_canonname ai))"

lemma read_hostent_events:
  assumes "hostent_ok hp"
  shows "read_hostent (sent_data (hostent_events hp)) =
    Some (name_bytes (h_name hp), alias_bytes hp, word_of_int (h_addrtype hp), word_of_int (h_length hp), map (take 16) (h_addr_list hp), [])"
proof -
  have a: "read_blocks (concat (map block (alias_bytes hp)) @ block [] @ bs) = Some (alias_bytes hp, bs)" for bs
    by (rule read_blocks_blocks) (use assms in \<open>auto simp: hostent_ok_def fits_def\<close>)
  have "read_blocks (concat (map block (map (take 16) (h_addr_list hp))) @ block [] @ []) = Some (map (take 16) (h_addr_list hp), [])"
    by (rule read_blocks_blocks) (use assms in \<open>auto simp: hostent_ok_def\<close>)
  with a assms show ?thesis
    by (simp add: read_hostent_def hostent_events_def sent_data_append hostent_ok_def fits_def del: map_map)
qed

lemma read_addrinfo_events:
  assumes "\<forall>ai\<in>set ais. addrinfo_ok ai"
  shows "read_addrinfos (sent_data (block_events [] @ concat (rev (map addrinfo_events ais)))) =
    Some (map (\<lambda>ai. (ai_struct ai, ai_addr ai, name_bytes (ai_canonname ai))) ais, [])"
proof -
  have "read_addrinfos (sent_data (concat (rev (map addrinfo_events ais))) @ block []) =
    Some (map (\<lambda>ai. (ai_struct ai, ai_addr ai, name_bytes (ai_canonname ai))) ais, [])"
    using assms
  proof (induction ais)
    case Nil
    have "read_block (block []) = Some ([], [])" using read_block_block [of "[]" "[]"] by simp
    then show ?case by (simp add: read_addrinfos.simps)
  next
    case (Cons ai ais)
    then show ?case by (simp add: sent_data_append addrinfo_events_def addrinfo_ok_def fits_def read_addrinfos.simps [of "block (ai_struct ai) @ _"])
  qed
  then show ?thesis by (simp add: sent_data_append)
qed

section \<open>Properties\<close>

text \<open>What the resolver answers to the query of a handler.\<close>

fun host_answer :: "resolver \<Rightarrow> event list \<Rightarrow> dns_handler \<Rightarrow> hostent option" where
  "host_answer l h (GetHostByNameHandler name af n m) = android_gethostbynamefornet l h name af n m"
| "host_answer l h (GetHostByAddrHandler addr len family n m) = android_gethostbyaddrfornet l h addr len family n m"
| "host_answer l h (GetAddrInfoHandler host service hints n m) = None"

fun addr_answer :: "resolver \<Rightarrow> event list \<Rightarrow> dns_handler \<Rightarrow> addrinfo list option" where
  "addr_answer l h (GetAddrInfoHandler host service hints n m) =
     (case android_getaddrinfofornet l h host service hints n m of Inl rv \<Rightarrow> None | Inr ais \<Rightarrow> Some ais)"
| "addr_answer l h _ = None"

lemma run_host_answer:
  assumes "open_socket l" and "\<And>h args. env_call e h (SysLib ''sendCode'' args) = 0" and "host_answer l (hist s) handler = Some hp" and "hostent_ok hp"
  shows "hist (snd (run_state (handler_run e l handler) s)) =
    hostent_events hp @ EvCall (SysLib ''sendCode'' [fmt_d DnsProxyQueryResult]) 0 # hist s"
  using assms(3,4)
  by (cases handler) (simp_all add: GetHostByNameHandler_run_def GetHostByAddrHandler_run_def send_hostent_answer_def sendCode_def
    decRef_def hostent_ok_def run_simps assms(2) run_sendhostent [OF assms(1)])

lemma run_addr_answer:
  assumes "open_socket l" and "\<And>h args. env_call e h (SysLib ''sendCode'' args) = 0" and "addr_answer l (hist s) handler = Some ais"
  shows "hist (snd (run_state (handler_run e l handler) s)) =
    block_events [] @ concat (rev (map addrinfo_events ais)) @ EvCall (SysLib ''sendCode'' [fmt_d DnsProxyQueryResult]) 0 # hist s"
  using assms(3)
  by (cases handler) (simp_all add: GetAddrInfoHandler_run_def sendCode_def decRef_def run_simps assms(2) run_send_addrinfos [OF assms(1)]
    run_sendLenAndData [OF assms(1)] split: sum.splits)

text \<open>
  C37: A client that reads the bytes of an answer back, length by length, gets just what the resolver answered: for a host the name, the
  aliases, the type, the length and the addresses (sixteen bytes of each), for a list of addresses each structure with its address and
  its canonical name. Nothing is left over. This holds for every answer whose parts are shorter than 4 GB, as long as the socket takes
  what is written.
\<close>

theorem dns_answer_roundtrip:
  assumes "open_socket l" and "\<And>h args. env_call e h (SysLib ''sendCode'' args) = 0"
    and "received = drop (length (sent_data (hist s))) (sent_data (hist (snd (run_state (handler_run e l handler) s))))"
  shows "(\<forall>hp. host_answer l (hist s) handler = Some hp \<and> hostent_ok hp \<longrightarrow>
      read_hostent received = Some (name_bytes (h_name hp), map (\<lambda>alias. str_bytes alias @ [0]) (h_aliases hp),
        word_of_int (h_addrtype hp), word_of_int (h_length hp), map (take 16) (h_addr_list hp), [])) \<and>
    (\<forall>ais. addr_answer l (hist s) handler = Some ais \<and> (\<forall>ai\<in>set ais. addrinfo_ok ai) \<longrightarrow>
      read_addrinfos received = Some (map (\<lambda>ai. (ai_struct ai, ai_addr ai, name_bytes (ai_canonname ai))) ais, []))"
  using run_host_answer [OF assms(1,2), of s handler] run_addr_answer [OF assms(1,2), of s handler]
    read_hostent_events read_addrinfo_events assms(3)
  by (simp add: sent_data_append)

definition sample_resolver :: resolver where
  "sample_resolver =
     \<lparr>android_getaddrinfofornet = (\<lambda>h host service hints n m. Inr [\<lparr>ai_struct = [1, 2], ai_addr = [3], ai_canonname = host\<rparr>]),
      android_gethostbynamefornet = (\<lambda>h name af n m. None),
      android_gethostbyaddrfornet = (\<lambda>h addr len family n m. None),
      client_sendData = (\<lambda>h data. 0)\<rparr>"

definition sample_proxy :: dns_proxy where
  "sample_proxy = \<lparr>hist = [], interfaceToTable = [], mDefaultNetId = 0, mNetworks = [], mUsers = [], mProtectableUsers = [],
     mThreads = [], clientRefs = 1\<rparr>"

theorem dns_answer_roundtrip_witness:
  "read_addrinfos (sent_data (hist (snd (run_state
       (handler_run sample_env sample_resolver (GetAddrInfoHandler (Some ''host'') None None 100 0)) sample_proxy)))) =
     Some ([([1, 2], [3], str_bytes ''host'' @ [0])], [])"
  using dns_answer_roundtrip [of sample_resolver sample_env _ sample_proxy "GetAddrInfoHandler (Some ''host'') None None 100 0", OF _ _ refl]
  by (simp add: open_socket_def sample_resolver_def sample_env_def sample_proxy_def addrinfo_ok_def fits_def name_bytes_def str_bytes_def)

fun query_network :: "dns_handler \<Rightarrow> u32 \<times> u32" where
  "query_network (GetAddrInfoHandler host service hints n m) = (n, m)"
| "query_network (GetHostByNameHandler name af n m) = (n, m)"
| "query_network (GetHostByAddrHandler addr len family n m) = (n, m)"

fun asks_addrconfig :: "dns_handler \<Rightarrow> bool" where
  "asks_addrconfig (GetAddrInfoHandler host service (Some hints) n m) \<longleftrightarrow> ai_flags hints AND AI_ADDRCONFIG \<noteq> 0"
| "asks_addrconfig _ \<longleftrightarrow> False"

definition requested_network :: "string list \<Rightarrow> u32" where
  "requested_network argv =
     ucast (fst (strtoul (argv ! (if argv ! 0 = ''getaddrinfo'' then 7 else if argv ! 0 = ''gethostbyname'' then 1 else 4)) 10))"

text \<open>A command that succeeds: the query, the thread and the reference to the client.\<close>

definition query_started :: "u32 \<times> u32 \<Rightarrow> dns_handler \<Rightarrow> 'a dns_proxy_scheme \<Rightarrow> 'a dns_proxy_scheme \<Rightarrow> bool" where
  "query_started nm handler s s' \<longleftrightarrow> query_network handler = nm \<and> mThreads s' \<in> {mThreads s, mThreads s @ [handler]} \<and>
     clientRefs s' = clientRefs s + 1 \<and> (asks_addrconfig handler \<longrightarrow> fst nm = getDefaultNetwork s)"

lemma and_not_and: "(x AND NOT y) AND y = (0 :: int)"
  by (simp add: and.assoc)

lemma some_handler: "\<exists>handler. query_network handler = (n, m) \<and> (asks_addrconfig handler \<longrightarrow> P)"
  by (rule exI [of _ "GetHostByNameHandler None 0 n m"]) simp

lemma command_starts_query:
  assumes "map_of (dns_commands e uid) (argv ! 0) = Some cmd" and "run_state (cmd argv) s = (Some 0, s')"
  shows "\<exists>nm handler. getNetworkForDns s (requested_network argv) uid = Some nm \<and> query_started nm handler s s'"
proof -
  consider "argv ! 0 = ''getaddrinfo''" "cmd = GetAddrInfoCmd_runCommand e uid" | "argv ! 0 = ''gethostbyname''" "cmd = GetHostByNameCmd_runCommand e uid"
    | "argv ! 0 = ''gethostbyaddr''" "cmd = GetHostByAddrCmd_runCommand e uid"
    using assms(1) by (auto simp: dns_commands_def split: if_splits)
  then show ?thesis
  proof cases
    case 1
    with assms(2) show ?thesis
      by (auto simp: GetAddrInfoCmd_runCommand_def requested_network_def incRef_def query_started_def run_simps Let_def and_not_and
        handler_start_def some_handler split: if_splits option.splits prod.splits)
  next
    case 2
    with assms(2) show ?thesis
      by (auto simp: GetHostByNameCmd_runCommand_def requested_network_def incRef_def query_started_def run_simps Let_def handler_start_def some_handler
        split: if_splits option.splits prod.splits)
  next
    case 3
    with assms(2) show ?thesis
      by (auto simp: GetHostByAddrCmd_runCommand_def requested_network_def incRef_def query_started_def run_simps Let_def handler_start_def some_handler
        split: if_splits option.splits prod.splits)
  qed
qed

text \<open>
  C38: Every command that reports success has started at most one thread, and its query goes to the network that the network controller
  chooses for the client: the one that the client asked for if the user may use it, and the user's VPN or the default network otherwise.
  It is a network that exists, the mark of the query carries its number, and the query is marked as explicitly selected just if the user
  may use the network. A query asks for addresses that the device is configured for only on the default network.
\<close>

theorem dns_queries_confined:
  assumes "nc_inv s" and "map_of (dns_commands e uid) (argv ! 0) = Some cmd" and "run_state (cmd argv) s = (Some 0, s')"
  shows "\<exists>n m handler. query_started (n, m) handler s s' \<and>
    n = (if checkUserNetworkAccess s uid (requested_network argv) = Some 0 then requested_network argv
         else case getVirtualNetworkForUserLocked s uid of
           Some v \<Rightarrow> if mHasDns v then mNetId v else mDefaultNetId s
         | None \<Rightarrow> mDefaultNetId s) \<and>
    (n = NETID_UNSET \<or> isValidNetwork s n) \<and> ucast (netId (fwmark_of m)) = n \<and>
    explicitlySelected (fwmark_of m) = (checkUserNetworkAccess s uid (requested_network argv) = Some 0)"
proof -
  from command_starts_query [OF assms(2,3)] obtain n m handler where
    d: "getNetworkForDns s (requested_network argv) uid = Some (n, m)" "query_started (n, m) handler s s'" by (metis prod.collapse)
  note spec = getNetworkForDns_spec [OF assms(1) d(1)]
  then have "explicitlySelected (fwmark_of m) = (checkUserNetworkAccess s uid (requested_network argv) = Some 0)" by simp
  with spec d(2) show ?thesis by blast
qed

theorem dns_queries_confined_witness:
  "\<exists>s' n m handler. run_state (GetHostByNameCmd_runCommand sample_env 10001 [''gethostbyname'', ''0'', ''host'', ''2''])
       (NetworkController_new sample_proxy) = (Some 0, s') \<and>
     query_started (n, m) handler (NetworkController_new sample_proxy) s' \<and> n = NETID_UNSET"
proof -
  let ?s = "NetworkController_new sample_proxy" and ?argv = "[''gethostbyname'', ''0'', ''host'', ''2'']"
  have n: "requested_network ?argv = 0"
    by (simp add: requested_network_def strtoul_def split_sign_def isspace_def split_base_def ULONG_MAX_def digit_val_def isdigit_def)
  have a: "checkUserNetworkAccess ?s 10001 0 = Some (- ENONET)"
    by (simp add: checkUserNetworkAccess_def NetworkController_new_def getNetworkLocked_def LOCAL_NET_ID_def)
  obtain s' where run: "run_state (GetHostByNameCmd_runCommand sample_env 10001 ?argv) ?s = (Some 0, s')"
    using a n
    by (simp add: GetHostByNameCmd_runCommand_def getNetworkForDns_def requested_network_def incRef_def handler_start_def sample_env_def
      run_simps Let_def)
  have "map_of (dns_commands sample_env 10001) (?argv ! 0) = Some (GetHostByNameCmd_runCommand sample_env 10001)"
    by (simp add: dns_commands_def)
  from dns_queries_confined [OF NetworkController_new_inv this run] run n a show ?thesis
    by (auto simp: errno_defs getVirtualNetworkForUserLocked_def NetworkController_new_def NETID_UNSET_def)
qed

text \<open>When the thread cannot be created, nobody gives the reference to the client back and nobody answers.\<close>

lemma lost_thread_keeps_reference:
  assumes "env_call e (hist s) (SysLib ''pthread_create'' []) \<noteq> 0" and "run_state (do { incRef; handler_start e handler }) s = ((), s')"
  shows "mThreads s' = mThreads s" and "clientRefs s' = clientRefs s + 1"
  using assms by (auto simp: incRef_def handler_start_def run_simps)

end
