(* ===== verification/NetlinkHandler.thy ===== *)
theory NetlinkHandler
  imports ResponseCode CLib
begin

text \<open>
  The events of the kernel: \<^verbatim>\<open>server/NetlinkHandler.cpp\<close> turns each into a broadcast to the clients of the daemon, and
  \<^verbatim>\<open>server/NetlinkManager.cpp\<close> opens and closes the three sockets that they arrive on. Decoding an event is done by the system library;
  an event is here what its accessors return. A reader of the broadcasts is the specification of what they mean.
\<close>

section \<open>Events\<close>

datatype nl_action =
    NlActionUnknown | NlActionAdd | NlActionRemove | NlActionChange | NlActionLinkUp | NlActionLinkDown
  | NlActionAddressUpdated | NlActionAddressRemoved | NlActionRdnss | NlActionRouteUpdated | NlActionRouteRemoved

record nl_event =
  getSubsystem :: cstr
  getAction :: nl_action
  nl_params :: "(string \<times> string) list"

definition findParam :: "nl_event \<Rightarrow> string \<Rightarrow> cstr" where
  "findParam evt name = map_of (nl_params evt) name"

section \<open>Broadcasts\<close>

text \<open>\<^verbatim>\<open>%s\<close> prints a NULL as a word.\<close>

definition arg_text :: "cstr \<Rightarrow> string" where
  "arg_text a = (case a of None \<Rightarrow> ''(null)'' | Some t \<Rightarrow> t)"

definition up_down :: "bool \<Rightarrow> string" where
  "up_down isUp = (if isUp then ''up'' else ''down'')"

definition kUpdated :: string where "kUpdated = ''updated''"
definition kRemoved :: string where "kRemoved = ''removed''"

definition notify :: "int \<Rightarrow> string \<Rightarrow> ('a sys_scheme, unit) state" where
  "notify code msg = sendBroadcast code msg"

definition notifyInterfaceAdded :: "cstr \<Rightarrow> ('a sys_scheme, unit) state" where
  "notifyInterfaceAdded name = notify InterfaceChange (spaced [''Iface'', ''added'', arg_text name])"

definition notifyInterfaceRemoved :: "cstr \<Rightarrow> ('a sys_scheme, unit) state" where
  "notifyInterfaceRemoved name = notify InterfaceChange (spaced [''Iface'', ''removed'', arg_text name])"

definition notifyInterfaceChanged :: "string \<Rightarrow> bool \<Rightarrow> ('a sys_scheme, unit) state" where
  "notifyInterfaceChanged name isUp = notify InterfaceChange (spaced [''Iface'', ''changed'', name, up_down isUp])"

definition notifyInterfaceLinkChanged :: "cstr \<Rightarrow> bool \<Rightarrow> ('a sys_scheme, unit) state" where
  "notifyInterfaceLinkChanged name isUp = notify InterfaceChange (spaced [''Iface'', ''linkstate'', arg_text name, up_down isUp])"

definition notifyQuotaLimitReached :: "cstr \<Rightarrow> cstr \<Rightarrow> ('a sys_scheme, unit) state" where
  "notifyQuotaLimitReached name iface = notify BandwidthControl (spaced [''limit'', ''alert'', arg_text name, arg_text iface])"

definition notifyInterfaceClassActivity :: "cstr \<Rightarrow> bool \<Rightarrow> cstr \<Rightarrow> ('a sys_scheme, unit) state" where
  "notifyInterfaceClassActivity name isActive timestamp =
     notify InterfaceClassActivity
       (spaced ([''IfaceClass'', if isActive then ''active'' else ''idle'', arg_text name] @
          (case timestamp of None \<Rightarrow> [] | Some t \<Rightarrow> [t])))"

definition notifyAddressChanged :: "nl_action \<Rightarrow> cstr \<Rightarrow> string \<Rightarrow> string \<Rightarrow> string \<Rightarrow> ('a sys_scheme, unit) state" where
  "notifyAddressChanged action addr iface flags scope =
     notify InterfaceAddressChange
       (spaced [''Address'', if action = NlActionAddressUpdated then kUpdated else kRemoved, arg_text addr, iface, flags, scope])"

definition notifyInterfaceDnsServers :: "cstr \<Rightarrow> string \<Rightarrow> string \<Rightarrow> ('a sys_scheme, unit) state" where
  "notifyInterfaceDnsServers iface lifetime servers =
     notify InterfaceDnsInfo (spaced [''DnsInfo'', ''servers'', arg_text iface, lifetime, servers])"

text \<open>Both texts are dereferenced: \<^const>\<open>None\<close> for a NULL.\<close>

definition notifyRouteChange :: "nl_action \<Rightarrow> string \<Rightarrow> cstr \<Rightarrow> cstr \<Rightarrow> ('a sys_scheme, unit option) state" where
  "notifyRouteChange action route gateway iface =
     (case (gateway, iface) of
        (Some g, Some i) \<Rightarrow> do {
          notify RouteChange
            (''Route '' @ (if action = NlActionRouteUpdated then kUpdated else kRemoved) @ '' '' @ route @
             (if g \<noteq> [] then '' via '' else []) @ g @ (if i \<noteq> [] then '' dev '' else []) @ i);
          ret (Some ()) }
      | _ \<Rightarrow> ret None)"

section \<open>The handler\<close>

definition sent :: "('a sys_scheme, unit) state \<Rightarrow> ('a sys_scheme, unit option) state" where
  "sent m = do { m; ret (Some ()) }"

definition nothing :: "('a sys_scheme, unit option) state" where
  "nothing = ret (Some ())"

definition reset_connections :: "env \<Rightarrow> nl_action \<Rightarrow> cstr \<Rightarrow> cstr \<Rightarrow> ('a sys_scheme, unit) state" where
  "reset_connections e action iface address =
     (case (iface, address) of
        (Some i, Some a) \<Rightarrow>
          if action = NlActionAddressRemoved then do {
            _ \<leftarrow> call_sys e (SysLib ''ifc_reset_connections''
              [i, if strchr a (CHR '':'') \<noteq> None then ''RESET_IPV6_ADDRESSES'' else ''RESET_IPV4_ADDRESSES'', ''RESET_IGNORE_INTERFACE_ADDRESS'']);
            ret () }
          else ret ()
      | _ \<Rightarrow> ret ())"

definition net_event :: "env \<Rightarrow> nl_event \<Rightarrow> ('a sys_scheme, unit option) state" where
  "net_event e evt =
     (let action = getAction evt; iface = findParam evt ''INTERFACE'' in
      case action of
        NlActionAdd \<Rightarrow> sent (notifyInterfaceAdded iface)
      | NlActionRemove \<Rightarrow> sent (notifyInterfaceRemoved iface)
      | NlActionChange \<Rightarrow> sent (notifyInterfaceChanged ''nana'' True)
      | NlActionLinkUp \<Rightarrow> sent (notifyInterfaceLinkChanged iface True)
      | NlActionLinkDown \<Rightarrow> sent (notifyInterfaceLinkChanged iface False)
      | NlActionRdnss \<Rightarrow>
          (case (findParam evt ''LIFETIME'', findParam evt ''SERVERS'') of
             (Some lifetime, Some servers) \<Rightarrow> sent (notifyInterfaceDnsServers iface lifetime servers)
           | _ \<Rightarrow> nothing)
      | NlActionUnknown \<Rightarrow> nothing
      | _ \<Rightarrow>
          if action = NlActionAddressUpdated \<or> action = NlActionAddressRemoved then do {
            let address = findParam evt ''ADDRESS'';
            reset_connections e action iface address;
            case (iface, findParam evt ''FLAGS'', findParam evt ''SCOPE'') of
              (Some i, Some flags, Some scope) \<Rightarrow> sent (notifyAddressChanged action address i flags scope)
            | _ \<Rightarrow> nothing }
          else
            (case findParam evt ''ROUTE'' of
               Some route \<Rightarrow>
                 if findParam evt ''GATEWAY'' \<noteq> None \<or> iface \<noteq> None then notifyRouteChange action route (findParam evt ''GATEWAY'') iface
                 else nothing
             | None \<Rightarrow> nothing))"

definition onEvent :: "env \<Rightarrow> nl_event \<Rightarrow> ('a sys_scheme, unit option) state" where
  "onEvent e evt =
     (case getSubsystem evt of
        None \<Rightarrow> nothing
      | Some subsys \<Rightarrow>
          if subsys = ''net'' then net_event e evt
          else if subsys = ''qlog'' then sent (notifyQuotaLimitReached (findParam evt ''ALERT_NAME'') (findParam evt ''INTERFACE''))
          else if subsys = ''xt_idletimer'' then
            (case findParam evt ''STATE'' of
               Some state \<Rightarrow> sent (notifyInterfaceClassActivity (findParam evt ''INTERFACE'') (state = ''active'') (findParam evt ''TIME_NS''))
             | None \<Rightarrow> nothing)
          else nothing)"

section \<open>What a client reads\<close>

datatype report =
    IfaceAdded string
  | IfaceRemoved string
  | IfaceChanged string bool
  | IfaceLink string bool
  | QuotaAlert string string
  | ClassActivity string bool cstr
  | AddressReport bool string string string string
  | DnsServers string string string
  | RouteReport bool string string string

definition parse_updated :: "string \<Rightarrow> bool option" where
  "parse_updated w = (if w = kUpdated then Some True else if w = kRemoved then Some False else None)"

fun parse_route :: "string list \<Rightarrow> (string \<times> string) option" where
  "parse_route [] = Some ([], [])"
| "parse_route [a, x] = (if a = ''via'' then Some (x, []) else if a = ''dev'' then Some ([], x) else None)"
| "parse_route [a, g, b, i] = (if a = ''via'' \<and> b = ''dev'' then Some (g, i) else None)"
| "parse_route _ = None"

fun parse_words :: "string list \<Rightarrow> report option" where
  "parse_words (k # a # rest) =
     (if k = ''Iface'' then
        (case rest of
           [n] \<Rightarrow> if a = ''added'' then Some (IfaceAdded n) else if a = ''removed'' then Some (IfaceRemoved n) else None
         | [n, u] \<Rightarrow>
             if u \<notin> {''up'', ''down''} then None
             else if a = ''changed'' then Some (IfaceChanged n (u = ''up''))
             else if a = ''linkstate'' then Some (IfaceLink n (u = ''up''))
             else None
         | _ \<Rightarrow> None)
      else if k = ''limit'' \<and> a = ''alert'' then (case rest of [n, i] \<Rightarrow> Some (QuotaAlert n i) | _ \<Rightarrow> None)
      else if k = ''IfaceClass'' then
        (case rest of
           [n] \<Rightarrow> Some (ClassActivity n (a = ''active'') None)
         | [n, t] \<Rightarrow> Some (ClassActivity n (a = ''active'') (Some t))
         | _ \<Rightarrow> None)
      else if k = ''Address'' then
        (case rest of [ad, i, f, s] \<Rightarrow> map_option (\<lambda>u. AddressReport u ad i f s) (parse_updated a) | _ \<Rightarrow> None)
      else if k = ''DnsInfo'' \<and> a = ''servers'' then (case rest of [i, t, s] \<Rightarrow> Some (DnsServers i t s) | _ \<Rightarrow> None)
      else if k = ''Route'' then
        (case rest of r # opts \<Rightarrow> (case (parse_updated a, parse_route opts) of
           (Some u, Some (g, i)) \<Rightarrow> Some (RouteReport u r g i) | _ \<Rightarrow> None) | _ \<Rightarrow> None)
      else None)"
| "parse_words _ = None"

definition parse_report :: "string \<Rightarrow> report option" where
  "parse_report msg = parse_words (strsep_all (CHR '' '') msg)"

text \<open>The number that goes with each kind of report.\<close>

fun report_code :: "report \<Rightarrow> int" where
  "report_code (QuotaAlert n i) = BandwidthControl"
| "report_code (ClassActivity n b t) = InterfaceClassActivity"
| "report_code (AddressReport u a i f s) = InterfaceAddressChange"
| "report_code (DnsServers i t s) = InterfaceDnsInfo"
| "report_code (RouteReport u r g i) = RouteChange"
| "report_code _ = InterfaceChange"

text \<open>The event of the system library that tells of something.\<close>

fun event_of :: "report \<Rightarrow> nl_event" where
  "event_of (IfaceAdded n) = \<lparr>getSubsystem = Some ''net'', getAction = NlActionAdd, nl_params = [(''INTERFACE'', n)]\<rparr>"
| "event_of (IfaceRemoved n) = \<lparr>getSubsystem = Some ''net'', getAction = NlActionRemove, nl_params = [(''INTERFACE'', n)]\<rparr>"
| "event_of (IfaceChanged n b) = \<lparr>getSubsystem = Some ''net'', getAction = NlActionChange, nl_params = [(''INTERFACE'', n)]\<rparr>"
| "event_of (IfaceLink n b) =
     \<lparr>getSubsystem = Some ''net'', getAction = (if b then NlActionLinkUp else NlActionLinkDown), nl_params = [(''INTERFACE'', n)]\<rparr>"
| "event_of (QuotaAlert n i) =
     \<lparr>getSubsystem = Some ''qlog'', getAction = NlActionUnknown, nl_params = [(''ALERT_NAME'', n), (''INTERFACE'', i)]\<rparr>"
| "event_of (ClassActivity n b t) =
     \<lparr>getSubsystem = Some ''xt_idletimer'', getAction = NlActionUnknown,
      nl_params = [(''INTERFACE'', n), (''STATE'', if b then ''active'' else ''inactive'')] @
        (case t of None \<Rightarrow> [] | Some t \<Rightarrow> [(''TIME_NS'', t)])\<rparr>"
| "event_of (AddressReport u a i f s) =
     \<lparr>getSubsystem = Some ''net'', getAction = (if u then NlActionAddressUpdated else NlActionAddressRemoved),
      nl_params = [(''ADDRESS'', a), (''INTERFACE'', i), (''FLAGS'', f), (''SCOPE'', s)]\<rparr>"
| "event_of (DnsServers i t s) =
     \<lparr>getSubsystem = Some ''net'', getAction = NlActionRdnss, nl_params = [(''INTERFACE'', i), (''LIFETIME'', t), (''SERVERS'', s)]\<rparr>"
| "event_of (RouteReport u r g i) =
     \<lparr>getSubsystem = Some ''net'', getAction = (if u then NlActionRouteUpdated else NlActionRouteRemoved),
      nl_params = [(''ROUTE'', r), (''GATEWAY'', g), (''INTERFACE'', i)]\<rparr>"

fun report_words :: "report \<Rightarrow> string set" where
  "report_words (IfaceAdded n) = {n}"
| "report_words (IfaceRemoved n) = {n}"
| "report_words (IfaceChanged n b) = {n}"
| "report_words (IfaceLink n b) = {n}"
| "report_words (QuotaAlert n i) = {n, i}"
| "report_words (ClassActivity n b t) = insert n (set_option t)"
| "report_words (AddressReport u a i f s) = {a, i, f, s}"
| "report_words (DnsServers i t s) = {i, t, s}"
| "report_words (RouteReport u r g i) = {r, g, i}"

section \<open>Lemmas\<close>

lemma parse_spaced: "\<forall>w\<in>set ws. CHR '' '' \<notin> set w \<Longrightarrow> ws \<noteq> [] \<Longrightarrow> parse_report (spaced ws) = parse_words ws"
  by (simp add: parse_report_def strsep_spaced)

lemma no_space_words [simp]: "CHR '' '' \<notin> set kUpdated" "CHR '' '' \<notin> set kRemoved" "CHR '' '' \<notin> set (up_down b)"
  by (simp_all add: kUpdated_def kRemoved_def up_down_def)

lemma parse_updated_simps [simp]: "parse_updated kUpdated = Some True" "parse_updated kRemoved = Some False"
  by (simp_all add: parse_updated_def kUpdated_def kRemoved_def)

lemmas notify_defs = notify_def notifyInterfaceAdded_def notifyInterfaceRemoved_def notifyInterfaceChanged_def
  notifyInterfaceLinkChanged_def notifyQuotaLimitReached_def notifyInterfaceClassActivity_def notifyAddressChanged_def
  notifyInterfaceDnsServers_def notifyRouteChange_def

lemmas handler_defs = onEvent_def net_event_def findParam_def sent_def nothing_def reset_connections_def arg_text_def

text \<open>The words of the broadcast that tells of something, and the calls that come before it.\<close>

fun message_words :: "report \<Rightarrow> string list" where
  "message_words (IfaceAdded n) = [''Iface'', ''added'', n]"
| "message_words (IfaceRemoved n) = [''Iface'', ''removed'', n]"
| "message_words (IfaceChanged n b) = [''Iface'', ''changed'', n, up_down b]"
| "message_words (IfaceLink n b) = [''Iface'', ''linkstate'', n, up_down b]"
| "message_words (QuotaAlert n i) = [''limit'', ''alert'', n, i]"
| "message_words (ClassActivity n b t) = [''IfaceClass'', if b then ''active'' else ''idle'', n] @ (case t of None \<Rightarrow> [] | Some t \<Rightarrow> [t])"
| "message_words (AddressReport u a i f s) = [''Address'', if u then kUpdated else kRemoved, a, i, f, s]"
| "message_words (DnsServers i t s) = [''DnsInfo'', ''servers'', i, t, s]"
| "message_words (RouteReport u r g i) =
     [''Route'', if u then kUpdated else kRemoved, r] @ (if g \<noteq> [] then [''via'', g] else []) @ (if i \<noteq> [] then [''dev'', i] else [])"

lemma parse_message_words: "parse_words (message_words r) = Some r"
  by (cases r) (auto simp: up_down_def split: option.splits)

lemma parse_message:
  assumes "\<forall>w\<in>report_words r. CHR '' '' \<notin> set w"
  shows "parse_report (spaced (message_words r)) = Some r"
proof -
  have "\<forall>w\<in>set (message_words r). CHR '' '' \<notin> set w" using assms by (cases r) (auto split: option.splits)
  moreover have "message_words r \<noteq> []" by (cases r) simp_all
  ultimately show ?thesis by (simp add: parse_spaced parse_message_words)
qed

fun reset_calls :: "env \<Rightarrow> report \<Rightarrow> event list \<Rightarrow> event list" where
  "reset_calls e (AddressReport False a i f s) h =
     (let c = SysLib ''ifc_reset_connections''
        [i, if strchr a (CHR '':'') \<noteq> None then ''RESET_IPV6_ADDRESSES'' else ''RESET_IPV4_ADDRESSES'', ''RESET_IGNORE_INTERFACE_ADDRESS'']
      in [EvCall c (env_call e h c)])"
| "reset_calls e _ h = []"

lemma run_event:
  assumes "\<forall>n b. r \<noteq> IfaceChanged n b"
  shows "run_state (onEvent e (event_of r)) s =
    (Some (), s\<lparr>hist := EvBroadcast (report_code r) (spaced (message_words r)) # reset_calls e r (hist s) @ hist s\<rparr>)"
proof (cases r)
  case (IfaceChanged n b)
  then show ?thesis using assms by blast
next
  case (AddressReport u a i f sc)
  then show ?thesis by (cases u) (simp_all add: handler_defs notify_defs run_simps Let_def)
next
  case (ClassActivity n b t)
  then show ?thesis by (cases t) (simp_all add: handler_defs notify_defs run_simps Let_def)
next
  case (RouteReport u r g i)
  then show ?thesis by (cases u) (simp_all add: handler_defs notify_defs run_simps Let_def)
qed (simp_all add: handler_defs notify_defs run_simps Let_def)

section \<open>Properties\<close>



text \<open>
  A change of an interface is always reported as the interface nana being up. A route for which the library gives only one of gateway
  and interface passes the check of the handler, but the text that is missing is dereferenced.
\<close>

lemma change_is_nana:
  "run_state (onEvent e (event_of (IfaceChanged n b))) s =
     (Some (), s\<lparr>hist := EvBroadcast InterfaceChange ''Iface changed nana up'' # hist s\<rparr>)"
  by (simp add: handler_defs notify_defs up_down_def run_simps)

lemma route_without_gateway:
  "run_state (onEvent e \<lparr>getSubsystem = Some ''net'', getAction = NlActionRouteUpdated, nl_params = [(''ROUTE'', r), (''INTERFACE'', i)]\<rparr>) s =
     (None, s)"
  by (simp add: handler_defs notify_defs run_simps)

end
