(* ===== verification/QsoftapCmd.thy ===== *)
theory QsoftapCmd
  imports DaemonAnswers
begin

text \<open>
  \<^verbatim>\<open>server/QsoftapCmd.cpp\<close>: the softap command of builds with the vendor library for access points. The library takes a command in a
  buffer of 256 bytes and leaves its answer there; what it answers is the parameter \<open>hostd\<close>. Whether the part for stations that run beside
  the access point is compiled in is the parameter \<open>concurrency\<close>.
\<close>

section \<open>Model\<close>

definition QC_MAX_CMD_SIZE :: nat where "QC_MAX_CMD_SIZE = 256"

text \<open>The loop that prints the words into the rest of the buffer; the word that does not fit and those after it are left out.\<close>

fun qc_words :: "nat \<Rightarrow> string list \<Rightarrow> string" where
  "qc_words len [] = []"
| "qc_words len (arg # args) =
     (let text = CHR '' '' # arg in
      if length text \<ge> len then [] else text @ qc_words (len - length text) args)"

type_synonym hostd = "event list \<Rightarrow> string \<Rightarrow> string"

definition qsap_hostd_exec_cmd :: "env \<Rightarrow> hostd \<Rightarrow> string \<Rightarrow> ('a sys_scheme, string) state" where
  "qsap_hostd_exec_cmd e hostd cmd = do {
     h \<leftarrow> gets hist;
     _ \<leftarrow> call_sys e (SysLib ''qsap_hostd_exec_cmd'' [cmd]);
     ret (hostd h cmd) }"

text \<open>\<^verbatim>\<open>sendMsg\<close> with a text only\<close>

definition send_raw :: "env \<Rightarrow> string \<Rightarrow> ('a sys_scheme, unit) state" where
  "send_raw e text = do { _ \<leftarrow> call_sys e (SysLib ''sendMsg'' [text]); ret () }"

definition softap_done :: "int \<Rightarrow> ('a sys_scheme, int option) state" where
  "softap_done rc = ok_or_errno ''Softap operation succeeded'' ''Softap operation failed'' rc"

text \<open>
  The channel is read at a fixed place of the answer; \<^const>\<open>None\<close> is the behaviour where the answer ends before it. When the channels
  agree nothing but the answer of the library is sent.
\<close>

definition sap_sta_concurrency :: "env \<Rightarrow> hostd \<Rightarrow> int \<Rightarrow> ('a softap_scheme, int option) state" where
  "sap_sta_concurrency e hostd sta_channel = do {
     buf \<leftarrow> qsap_hostd_exec_cmd e hostd '' get channel'';
     send_raw e buf;
     if length buf < 16 then ret None
     else if sta_channel \<noteq> atoi (drop 16 buf) then do {
       rc \<leftarrow> stopSoftap e;
       _ \<leftarrow> softap_done rc;
       buf \<leftarrow> qsap_hostd_exec_cmd e hostd '' set reset_ap=5'';
       send_raw e buf;
       ret (Some 0) }
     else ret (Some 0) }"

definition sta_assoc_complete_ind :: "env \<Rightarrow> hostd \<Rightarrow> string \<Rightarrow> ('a softap_scheme, int option) state" where
  "sta_assoc_complete_ind e hostd entropy_file = do {
     started \<leftarrow> gets isSoftapStarted;
     if started then ret (Some 0)
     else do {
       buf \<leftarrow> qsap_hostd_exec_cmd e hostd '' set reset_ap=4'';
       send_raw e buf;
       rc \<leftarrow> startSoftap e entropy_file;
       softap_done rc } }"

definition qccmd :: "env \<Rightarrow> bool \<Rightarrow> hostd \<Rightarrow> string \<Rightarrow> string list \<Rightarrow> ('a softap_scheme, int option) state" where
  "qccmd e concurrency hostd entropy_file argv =
     (if length argv < 4 then reply_errno OperationFailed ''failure: invalid arguments''
      else if concurrency \<and> take 20 (argv ! 3) = ''sap_sta_concurrency='' \<and> argv ! 2 = ''set''
      then sap_sta_concurrency e hostd (atoi (drop 20 (argv ! 3)))
      else if concurrency \<and> argv ! 3 = ''sta_assoc_complete_ind'' \<and> argv ! 2 = ''set''
      then sta_assoc_complete_ind e hostd entropy_file
      else do {
        buf \<leftarrow> qsap_hostd_exec_cmd e hostd (qc_words QC_MAX_CMD_SIZE (drop 2 argv));
        reply CommandOkay buf })"

definition QsoftapCmd_runCommand ::
  "env \<Rightarrow> bool \<Rightarrow> hostd \<Rightarrow> (string \<Rightarrow> string \<Rightarrow> bytes) \<Rightarrow> (fw_kind \<Rightarrow> cstr) \<Rightarrow> string \<Rightarrow> string list \<Rightarrow> ('a softap_scheme, int option) state" where
  "QsoftapCmd_runCommand e concurrency hostd pbkdf2 wifi_get_fw_path entropy_file argv =
     (if length argv < 2 then reply CommandSyntaxError ''Softap Missing argument''
      else if argv ! 1 = ''qccmd'' then qccmd e concurrency hostd entropy_file argv
      else if argv ! 1 = ''set'' then
        if (case env_property e ''wlan.driver.ath'' of None \<Rightarrow> False | Some v \<Rightarrow> take 1 v = ''2'')
        then SoftapCmd_runCommand e pbkdf2 wifi_get_fw_path entropy_file argv
        else do { rc \<leftarrow> call_sys e (SysLib ''qsapsetSoftap'' argv); softap_done rc }
      else if argv ! 1 = ''create'' then
        if length argv > 2 then do { rc \<leftarrow> call_sys e (SysLib ''qsap_create_intf'' [argv ! 2]); softap_done rc }
        else softap_done 0
      else if argv ! 1 = ''remove'' then
        if length argv > 2 then do { rc \<leftarrow> call_sys e (SysLib ''qsap_remove_intf'' [argv ! 2]); softap_done rc }
        else softap_done 0
      else SoftapCmd_runCommand e pbkdf2 wifi_get_fw_path entropy_file argv)"

section \<open>Lemmas\<close>

lemma qc_words_fit: "0 < len \<Longrightarrow> length (qc_words len args) < len"
proof (induction len args rule: qc_words.induct)
  case (2 len arg args)
  show ?case
  proof (cases "Suc (length arg) \<ge> len")
    case False
    with 2(1)[of "CHR '' '' # arg"] have "length (qc_words (len - Suc (length arg)) args) < len - Suc (length arg)" by simp
    then show ?thesis using False by (simp add: Let_def)
  qed (use 2(2) in simp)
qed simp

lemma qc_words_all:
  "length (concat (map ((#) (CHR '' '')) args)) < len \<Longrightarrow> qc_words len args = concat (map ((#) (CHR '' '')) args)"
  by (induction len args rule: qc_words.induct) (auto simp: Let_def)

text \<open>
  The command that the vendor library gets fits its buffer with the terminator, and consists of whole words: a prefix of those of the client,
  and all of them just when they fit.
\<close>

lemma qccmd_whole_words:
  fixes args :: "string list"
  defines "spaced_words \<equiv> (\<lambda>ws. concat (map ((#) (CHR '' '')) ws))"
  shows "length (qc_words QC_MAX_CMD_SIZE args) < QC_MAX_CMD_SIZE"
    and "\<exists>k. qc_words QC_MAX_CMD_SIZE args = spaced_words (take k args)"
    and "qc_words QC_MAX_CMD_SIZE args = spaced_words args \<longleftrightarrow> length (spaced_words args) < QC_MAX_CMD_SIZE"
proof -
  show fit: "length (qc_words QC_MAX_CMD_SIZE args) < QC_MAX_CMD_SIZE"
    by (rule qc_words_fit) (simp add: QC_MAX_CMD_SIZE_def)
  show "qc_words QC_MAX_CMD_SIZE args = spaced_words args \<longleftrightarrow> length (spaced_words args) < QC_MAX_CMD_SIZE"
    using fit qc_words_all[of args QC_MAX_CMD_SIZE] by (auto simp: spaced_words_def)
  have "\<exists>k. qc_words len ws = spaced_words (take k ws)" for len and ws :: "string list"
  proof (induction len ws rule: qc_words.induct)
    case (2 len arg args)
    show ?case
    proof (cases "Suc (length arg) \<ge> len")
      case True
      then have "qc_words len (arg # args) = spaced_words (take 0 (arg # args))" by (simp add: spaced_words_def)
      then show ?thesis by blast
    next
      case False
      with 2[of "CHR '' '' # arg"] obtain k where "qc_words (len - Suc (length arg)) args = spaced_words (take k args)" by auto
      then have "qc_words len (arg # args) = spaced_words (take (Suc k) (arg # args))"
        using False by (simp add: spaced_words_def Let_def)
      then show ?thesis by blast
    qed
  qed (simp add: spaced_words_def)
  then show "\<exists>k. qc_words QC_MAX_CMD_SIZE args = spaced_words (take k args)" .
qed

text \<open>
  The controller reports success with a number that is not 0, so a start for a station that has joined is always answered as a failure,
  also when the access point runs.
\<close>

lemma sta_start_reported_failed:
  assumes "run_state (sta_assoc_complete_ind e hostd entropy) (s :: 'a softap_scheme) = (r, s')" and "\<not> isSoftapStarted s"
  shows "\<exists>h. hist s' = EvSendErrno OperationFailed ''Softap operation failed'' None # h"
proof -
  define pre :: "('a softap_scheme, int) state" where "pre = do { buf \<leftarrow> qsap_hostd_exec_cmd e hostd '' set reset_ap=4''; send_raw e buf; startSoftap e entropy }"
  have eq: "sta_assoc_complete_ind e hostd entropy =
    do { started \<leftarrow> gets isSoftapStarted; if started then ret (Some 0) else do { rc \<leftarrow> pre; softap_done rc } }"
    unfolding sta_assoc_complete_ind_def pre_def State_Monad.bind_assoc by (rule refl)
  obtain rc s1 where 1: "run_state pre s = (rc, s1)" by (metis prod.collapse)
  then have "rc \<noteq> 0"
    by (auto simp: pre_def qsap_hostd_exec_cmd_def send_raw_def startSoftap_def run_simps SoftapStatusResult_def ServiceStartFailed_def
        split: if_splits prod.splits)
  with assms 1 show ?thesis
    by (auto simp: eq softap_done_def ok_or_errno_def reply_errno_def run_simps)
qed

text \<open>Outside the part for stations, and where the common handler is defined, the command is answered like every other one.\<close>

lemma qsoftap_answered:
  assumes "\<not> concurrency"
    and "\<not> (length argv \<ge> 2 \<and> argv ! 1 = ''set'' \<and>
      (length argv = 5 \<or> length argv = 7 \<and> argv ! 6 \<noteq> ''open'' \<or>
       length argv > 7 \<and> argv ! 6 \<notin> {''wpa-psk'', ''wpa2-psk'', ''open''}))"
  shows "answers (QsoftapCmd_runCommand e concurrency hostd pbkdf2 fw entropy argv)"
  unfolding QsoftapCmd_runCommand_def qccmd_def softap_done_def
  using assms(1) by (auto intro!: answers_rules answers_softap [OF assms(2)])

end
