(* ===== verification/Ndc.thy ===== *)
theory Ndc
  imports DaemonAnswers
begin

text \<open>
  The command-line client, \<^verbatim>\<open>server/ndc.c\<close>: it writes its arguments as one line to the socket of the daemon and prints the messages that
  come back. What the socket delivers is a list of inputs, one for each turn of the loop; a client that is still waiting at the end of
  the list has no result.
\<close>

section \<open>Commands\<close>

definition needs_quoting :: "string \<Rightarrow> bool" where
  "needs_quoting arg \<longleftrightarrow> strchr arg (CHR '' '') \<noteq> None"

definition quote_arg :: "string \<Rightarrow> string" where
  "quote_arg arg = (if needs_quoting arg then CHR 0x22 # arg @ [CHR 0x22] else arg)"

fun join_args :: "string list \<Rightarrow> string" where
  "join_args [] = []"
| "join_args [arg] = quote_arg arg"
| "join_args (arg # args) = quote_arg arg @ '' '' @ join_args args"

text \<open>
  The line for the arguments after the name of the program, \<^const>\<open>None\<close> if one of them has quotes in it. Without a number for the
  sequence in front the line gets one.
\<close>

definition final_cmd :: "string list \<Rightarrow> string option" where
  "final_cmd args =
     (if \<exists>arg\<in>set args. strchr arg (CHR 0x22) \<noteq> None then None
      else Some ((if snd (strtol (args ! 0) 10) = args ! 0 then ''0 '' else []) @ join_args args))"

section \<open>Messages\<close>

datatype ndc_input = SelectError int | SelectTimeout | ReadError int | ReadEnd | ReadData string

definition ECONNRESET :: int where "ECONNRESET = 104"

definition ends_command :: "string \<Rightarrow> bool" where
  "ends_command msg \<longleftrightarrow> 200 \<le> atoi (take 3 msg) \<and> atoi (take 3 msg) < 600"

text \<open>The loop over one buffer: the text since the last zero, what has been printed, and whether the client is to stop.\<close>

fun scan_buffer :: "bool \<Rightarrow> string \<Rightarrow> string \<Rightarrow> string list \<Rightarrow> string list \<times> bool" where
  "scan_buffer stop [] cur out = (out, False)"
| "scan_buffer stop (c # cs) cur out =
     (if c = CHR 0x00 then
        if stop \<and> ends_command cur then (out @ [cur], True) else scan_buffer stop cs [] (out @ [cur])
      else scan_buffer stop cs (cur @ [c]) out)"

fun monitor_loop :: "bool \<Rightarrow> ndc_input list \<Rightarrow> string list \<Rightarrow> string list \<times> int option" where
  "monitor_loop stop [] out = (out, None)"
| "monitor_loop stop (SelectError n # is) out = (out, Some n)"
| "monitor_loop stop (SelectTimeout # is) out = monitor_loop stop is out"
| "monitor_loop stop (ReadError n # is) out = (out, Some n)"
| "monitor_loop stop (ReadEnd # is) out = (out, Some ECONNRESET)"
| "monitor_loop stop (ReadData buffer # is) out =
     (let (out', found) = scan_buffer stop buffer [] out in if found then (out', Some 0) else monitor_loop stop is out')"

definition do_monitor :: "bool \<Rightarrow> ndc_input list \<Rightarrow> string list \<times> int option" where
  "do_monitor stop_after_cmd is = monitor_loop stop_after_cmd is (if stop_after_cmd then [] else [''[Connected to Netd]''])"

text \<open>
  The line that is written, what is printed, and the exit status. The first argument is the errno of a failed \<^verbatim>\<open>write\<close>.
\<close>

definition do_cmd :: "int option \<Rightarrow> string list \<Rightarrow> ndc_input list \<Rightarrow> string option \<times> string list \<times> int option" where
  "do_cmd write_error args is =
     (case final_cmd args of
        None \<Rightarrow> (None, [], Some 1)
      | Some line \<Rightarrow>
          (case write_error of
             Some n \<Rightarrow> (None, [], Some n)
           | None \<Rightarrow> (case do_monitor True is of (out, r) \<Rightarrow> (Some line, out, r))))"

text \<open>
  The main function for the arguments after the name of the program: the first may be the name of a socket. The first parameter says
  which sockets can be connected to; the exit status 4 is for a daemon that cannot be reached, 1 for wrong usage.
\<close>

definition ndc_main ::
    "(string \<Rightarrow> bool) \<Rightarrow> int option \<Rightarrow> string list \<Rightarrow> ndc_input list \<Rightarrow> string option \<times> string list \<times> int option" where
  "ndc_main connects write_error args is =
     (if args = [] then (None, [], Some 1)
      else if connects (args ! 0) then
        (if length args < 2 then (None, [], Some 1)
         else
           let note = ''Using alt socket '' @ args ! 0 in
           if args ! 1 = ''monitor'' then (case do_monitor False is of (out, r) \<Rightarrow> (None, note # out, r))
           else (case do_cmd write_error (tl args) is of (line, out, r) \<Rightarrow> (line, note # out, r)))
      else if connects ''netd'' then
        (if args ! 0 = ''monitor'' then (case do_monitor False is of (out, r) \<Rightarrow> (None, out, r)) else do_cmd write_error args is)
      else (None, [], Some 4))"

section \<open>The reader of the line\<close>

text \<open>The words of a line: a space outside quotes ends a word.\<close>

fun read_words :: "string \<Rightarrow> string \<Rightarrow> bool \<Rightarrow> string list" where
  "read_words [] cur quoted = [cur]"
| "read_words (c # cs) cur quoted =
     (if c = CHR 0x22 then read_words cs cur (\<not> quoted)
      else if c = CHR '' '' \<and> \<not> quoted then cur # read_words cs [] quoted
      else read_words cs (cur @ [c]) quoted)"

lemma read_words_plain:
  "CHR 0x22 \<notin> set w \<Longrightarrow> quoted \<or> CHR '' '' \<notin> set w \<Longrightarrow> read_words (w @ cs) cur quoted = read_words cs (cur @ w) quoted"
  by (induction w arbitrary: cur) auto

lemma read_words_quote_arg: "CHR 0x22 \<notin> set arg \<Longrightarrow> read_words (quote_arg arg @ cs) [] False = read_words cs arg False"
  using read_words_plain [of arg True "CHR 0x22 # cs" "[]"] read_words_plain [of arg False cs "[]"]
  by (auto simp: quote_arg_def needs_quoting_def strchr_None)

lemma read_words_join:
  "args \<noteq> [] \<Longrightarrow> \<forall>arg\<in>set args. CHR 0x22 \<notin> set arg \<Longrightarrow> read_words (join_args args) [] False = args"
proof (induction args rule: join_args.induct)
  case (2 arg)
  then show ?case using read_words_quote_arg [of arg "[]"] by simp
next
  case (3 arg arg' args)
  then show ?case using read_words_quote_arg [of arg "'' '' @ join_args (arg' # args)"] by simp
qed simp

lemma final_cmd_words:
  assumes "final_cmd args = Some line" and "args \<noteq> []"
  shows "read_words line [] False = (if snd (strtol (args ! 0) 10) = args ! 0 then ''0'' # args else args)"
  using assms read_words_join [of args] by (auto simp: final_cmd_def strchr_None split: if_splits)

section \<open>Whole messages\<close>

text \<open>A buffer of whole messages, each with its zero.\<close>

definition buffer_of :: "string list \<Rightarrow> string" where
  "buffer_of msgs = concat (map (\<lambda>m. m @ [CHR 0x00]) msgs)"

fun until_end :: "string list \<Rightarrow> string list" where
  "until_end [] = []"
| "until_end (m # ms) = (if ends_command m then [m] else m # until_end ms)"

lemma scan_message:
  "CHR 0x00 \<notin> set m \<Longrightarrow>
     scan_buffer stop (m @ CHR 0x00 # cs) cur out =
       (if stop \<and> ends_command (cur @ m) then (out @ [cur @ m], True) else scan_buffer stop cs [] (out @ [cur @ m]))"
  by (induction m arbitrary: cur) auto

lemma scan_messages:
  "\<forall>m\<in>set ms. CHR 0x00 \<notin> set m \<Longrightarrow>
     scan_buffer True (buffer_of ms) [] out = (out @ until_end ms, \<exists>m\<in>set ms. ends_command m)"
  by (induction ms arbitrary: out) (auto simp: buffer_of_def scan_message)

lemma until_end_append: "until_end (xs @ ys) = (if \<exists>m\<in>set xs. ends_command m then until_end xs else until_end xs @ until_end ys)"
  by (induction xs) auto

lemma monitor_messages:
  "\<forall>m\<in>set (concat mss). CHR 0x00 \<notin> set m \<Longrightarrow>
     monitor_loop True (map (\<lambda>ms. ReadData (buffer_of ms)) mss) out =
       (out @ until_end (concat mss), if \<exists>m\<in>set (concat mss). ends_command m then Some 0 else None)"
  by (induction mss arbitrary: out) (auto simp: scan_messages until_end_append)

text \<open>The message of an answer: its number, with three digits, comes first.\<close>

lemma length_fmt_u: "100 \<le> n \<Longrightarrow> n < 1000 \<Longrightarrow> length (fmt_u n) = 3"
  by (simp add: fmt_u.simps) linarith

lemma final_number:
  assumes "200 \<le> code" and "code < 600"
  shows "ends_command (fmt_d code @ rest)"
proof -
  have "take 3 (fmt_d code @ rest) = fmt_u (nat code)" using assms length_fmt_u [of "nat code"] by (simp add: fmt_d_def)
  then show ?thesis using assms by (simp add: ends_command_def atoi_fmt_u)
qed

section \<open>Properties\<close>

text \<open>
  How the system library writes an answer: the number first, and no zero inside. Only answers are written to the client's socket.
\<close>

fun answer_code :: "event \<Rightarrow> int option" where
  "answer_code (EvSend code msg) = Some code"
| "answer_code (EvSendErrno code msg n) = Some code"
| "answer_code _ = None"

definition writes_answers :: "(event \<Rightarrow> string) \<Rightarrow> bool" where
  "writes_answers fmt \<longleftrightarrow>
     (\<forall>ev code. answer_code ev = Some code \<longrightarrow> CHR 0x00 \<notin> set (fmt ev) \<and> (\<exists>rest. fmt ev = fmt_d code @ rest))"

definition messages :: "(event \<Rightarrow> string) \<Rightarrow> event list \<Rightarrow> string list" where
  "messages fmt h = map fmt (filter (\<lambda>ev. answer_code ev \<noteq> None) (rev h))"


definition sample_fmt :: "event \<Rightarrow> string" where
  "sample_fmt ev = (case answer_code ev of Some code \<Rightarrow> fmt_d code | None \<Rightarrow> [])"


text \<open>
  A message that arrives in two portions is not put together: what came before the end of the first is forgotten, so that the client
  does not see the final answer and waits.
\<close>

lemma split_message_missed:
  "do_monitor True [ReadData ''200 0 ok'', ReadData [CHR 0x00]] = ([[]], None)"
  by (simp add: do_monitor_def ends_command_def atoi_def strtol_def split_sign_def split_base_def)

end
