(* ===== verification/NetlinkManager.thy ===== *)
theory NetlinkManager
  imports ResponseCode
begin

text \<open>
  The sockets on which the events of the kernel arrive, \<^verbatim>\<open>server/NetlinkManager.cpp\<close>, with the handlers that listen on them. The calls of
  the kernel have unknown results; listening is done by the system library.
\<close>

section \<open>State\<close>

datatype nl_format = NETLINK_FORMAT_ASCII | NETLINK_FORMAT_BINARY

record nl_handler =
  listenerSocket :: int
  nl_format :: nl_format

text \<open>
  A handler that is NULL is \<^const>\<open>None\<close>; \<open>handlers\<close> counts the handler objects that have been created and not deleted.
\<close>

record nl_manager = sys +
  mUeventHandler :: "nl_handler option"
  mRouteHandler :: "nl_handler option"
  mQuotaHandler :: "nl_handler option"
  mUeventSock :: int
  mRouteSock :: int
  mQuotaSock :: int
  handlers :: int

definition NFLOG_QUOTA_GROUP :: int where "NFLOG_QUOTA_GROUP = 1"
definition NETLINK_KOBJECT_UEVENT :: int where "NETLINK_KOBJECT_UEVENT = 15"
definition NETLINK_ROUTE :: int where "NETLINK_ROUTE = 0"
definition NETLINK_NFLOG :: int where "NETLINK_NFLOG = 5"
definition RTMGRP_LINK :: int where "RTMGRP_LINK = 1"
definition RTMGRP_IPV4_IFADDR :: int where "RTMGRP_IPV4_IFADDR = 0x10"
definition RTMGRP_IPV6_IFADDR :: int where "RTMGRP_IPV6_IFADDR = 0x100"
definition RTMGRP_IPV6_ROUTE :: int where "RTMGRP_IPV6_ROUTE = 0x400"
definition RTNLGRP_ND_USEROPT :: nat where "RTNLGRP_ND_USEROPT = 20"

section \<open>Operations\<close>

definition sys_socket :: "env \<Rightarrow> int \<Rightarrow> ('a sys_scheme, int) state" where
  "sys_socket e family = call_sys e (SysLib ''socket'' [''PF_NETLINK'', ''SOCK_DGRAM'', fmt_d family])"

definition sys_setsockopt :: "env \<Rightarrow> int \<Rightarrow> string \<Rightarrow> int \<Rightarrow> ('a sys_scheme, int) state" where
  "sys_setsockopt e sock opt val = call_sys e (SysLib ''setsockopt'' [fmt_d sock, ''SOL_SOCKET'', opt, fmt_d val])"

definition sys_bind :: "env \<Rightarrow> int \<Rightarrow> int \<Rightarrow> ('a sys_scheme, int) state" where
  "sys_bind e sock groups = call_sys e (SysLib ''bind'' [fmt_d sock, ''AF_NETLINK'', fmt_d groups])"

definition sys_close :: "env \<Rightarrow> int \<Rightarrow> ('a sys_scheme, unit) state" where
  "sys_close e sock = do { _ \<leftarrow> call_sys e (SysClose sock); ret () }"

definition NetlinkHandler_start :: "env \<Rightarrow> nl_handler \<Rightarrow> ('a sys_scheme, int) state" where
  "NetlinkHandler_start e handler = call_sys e (SysLib ''startListener'' [fmt_d (listenerSocket handler)])"

definition NetlinkHandler_stop :: "env \<Rightarrow> nl_handler \<Rightarrow> ('a sys_scheme, int) state" where
  "NetlinkHandler_stop e handler = call_sys e (SysLib ''stopListener'' [fmt_d (listenerSocket handler)])"

definition NetlinkHandler_new :: "int \<Rightarrow> nl_format \<Rightarrow> ('a nl_manager_scheme, nl_handler) state" where
  "NetlinkHandler_new sock format = do {
     modify (\<lambda>s. s\<lparr>handlers := handlers s + 1\<rparr>);
     ret \<lparr>listenerSocket = sock, nl_format = format\<rparr> }"

text \<open>The socket and the handler; the handler is not deleted when it cannot be started.\<close>

definition setupSocket :: "env \<Rightarrow> int \<Rightarrow> int \<Rightarrow> nl_format \<Rightarrow> ('a nl_manager_scheme, int \<times> nl_handler option) state" where
  "setupSocket e netlinkFamily groups format = do {
     sock \<leftarrow> sys_socket e netlinkFamily;
     if sock < 0 then ret (sock, None)
     else do {
       a \<leftarrow> sys_setsockopt e sock ''SO_RCVBUFFORCE'' (64 * 1024);
       if a < 0 then do { sys_close e sock; ret (sock, None) }
       else do {
         b \<leftarrow> sys_setsockopt e sock ''SO_PASSCRED'' 1;
         if b < 0 then do { sys_close e sock; ret (sock, None) }
         else do {
           c \<leftarrow> sys_bind e sock groups;
           if c < 0 then do { sys_close e sock; ret (sock, None) }
           else do {
             handler \<leftarrow> NetlinkHandler_new sock format;
             d \<leftarrow> NetlinkHandler_start e handler;
             if d \<noteq> 0 then do { sys_close e sock; ret (sock, None) }
             else ret (sock, Some handler) } } } } }"

definition NetlinkManager_start :: "env \<Rightarrow> ('a nl_manager_scheme, int) state" where
  "NetlinkManager_start e = do {
     (sock, handler) \<leftarrow> setupSocket e NETLINK_KOBJECT_UEVENT 0xffffffff NETLINK_FORMAT_ASCII;
     modify (\<lambda>s. s\<lparr>mUeventSock := sock, mUeventHandler := handler\<rparr>);
     if handler = None then ret (- 1)
     else do {
       (sock, handler) \<leftarrow> setupSocket e NETLINK_ROUTE
         (RTMGRP_LINK OR RTMGRP_IPV4_IFADDR OR RTMGRP_IPV6_IFADDR OR RTMGRP_IPV6_ROUTE OR push_bit (RTNLGRP_ND_USEROPT - 1) 1)
         NETLINK_FORMAT_BINARY;
       modify (\<lambda>s. s\<lparr>mRouteSock := sock, mRouteHandler := handler\<rparr>);
       if handler = None then ret (- 1)
       else do {
         (sock, handler) \<leftarrow> setupSocket e NETLINK_NFLOG NFLOG_QUOTA_GROUP NETLINK_FORMAT_BINARY;
         modify (\<lambda>s. s\<lparr>mQuotaSock := sock, mQuotaHandler := handler\<rparr>);
         ret 0 } } }"

text \<open>Stopping and deleting a handler and closing its socket; the status that remains.\<close>

definition stop_handler :: "env \<Rightarrow> nl_handler \<Rightarrow> int \<Rightarrow> int \<Rightarrow> ('a nl_manager_scheme, int) state" where
  "stop_handler e handler sock status = do {
     r \<leftarrow> NetlinkHandler_stop e handler;
     modify (\<lambda>s. s\<lparr>handlers := handlers s - 1\<rparr>);
     sys_close e sock;
     ret (if r \<noteq> 0 then - 1 else status) }"

text \<open>The first two handlers are dereferenced without a check: \<^const>\<open>None\<close> for a NULL.\<close>

definition NetlinkManager_stop :: "env \<Rightarrow> ('a nl_manager_scheme, int option) state" where
  "NetlinkManager_stop e = do {
     s \<leftarrow> gets (\<lambda>s. s);
     case mUeventHandler s of
       None \<Rightarrow> ret None
     | Some u \<Rightarrow> do {
         status \<leftarrow> stop_handler e u (mUeventSock s) 0;
         modify (\<lambda>s. s\<lparr>mUeventHandler := None, mUeventSock := - 1\<rparr>);
         case mRouteHandler s of
           None \<Rightarrow> ret None
         | Some r \<Rightarrow> do {
             status \<leftarrow> stop_handler e r (mRouteSock s) status;
             modify (\<lambda>s. s\<lparr>mRouteHandler := None, mRouteSock := - 1\<rparr>);
             case mQuotaHandler s of
               None \<Rightarrow> ret (Some status)
             | Some q \<Rightarrow> do {
                 status \<leftarrow> stop_handler e q (mQuotaSock s) status;
                 modify (\<lambda>s. s\<lparr>mQuotaHandler := None, mQuotaSock := - 1\<rparr>);
                 ret (Some status) } } } }"

section \<open>Descriptors\<close>

text \<open>The sockets that are open, by what has happened.\<close>

fun is_socket :: "syscall \<Rightarrow> bool" where
  "is_socket (SysLib name args) \<longleftrightarrow> name = ''socket''"
| "is_socket _ \<longleftrightarrow> False"

fun open_socks :: "event list \<Rightarrow> int set" where
  "open_socks [] = {}"
| "open_socks (EvCall (SysClose fd) r # h) = open_socks h - {fd}"
| "open_socks (EvCall c r # h) = (if is_socket c \<and> r \<ge> 0 then insert r (open_socks h) else open_socks h)"
| "open_socks (ev # h) = open_socks h"

text \<open>The kernel never gives out a descriptor that is open.\<close>

definition fresh_sockets :: "env \<Rightarrow> bool" where
  "fresh_sockets e \<longleftrightarrow> (\<forall>h c. is_socket c \<longrightarrow> env_call e h c \<notin> open_socks h)"

definition sock_of :: "nl_handler option \<Rightarrow> int set" where
  "sock_of h = listenerSocket ` set_option h"

lemma open_socks_simps [simp]:
  "open_socks (EvCall (SysLib n args) r # h) = (if n = ''socket'' \<and> r \<ge> 0 then insert r (open_socks h) else open_socks h)"
  by simp

lemmas nl_defs = sys_socket_def sys_setsockopt_def sys_bind_def sys_close_def NetlinkHandler_start_def NetlinkHandler_stop_def
  NetlinkHandler_new_def

text \<open>The handlers of the manager as they were, and the open sockets.\<close>

abbreviation same_handlers :: "'a nl_manager_scheme \<Rightarrow> 'a nl_manager_scheme \<Rightarrow> bool" where
  "same_handlers s s' \<equiv> mUeventHandler s' = mUeventHandler s \<and> mRouteHandler s' = mRouteHandler s \<and> mQuotaHandler s' = mQuotaHandler s \<and>
     mUeventSock s' = mUeventSock s \<and> mRouteSock s' = mRouteSock s \<and> mQuotaSock s' = mQuotaSock s"

definition socks_are :: "int set \<Rightarrow> 'a nl_manager_scheme \<Rightarrow> 'a nl_manager_scheme \<Rightarrow> bool" where
  "socks_are A s0 s \<longleftrightarrow> open_socks (hist s) = A \<and> same_handlers s0 s"

definition setup_post :: "int set \<Rightarrow> 'a nl_manager_scheme \<Rightarrow> int \<times> nl_handler option \<Rightarrow> 'a nl_manager_scheme \<Rightarrow> bool" where
  "setup_post A s0 r s \<longleftrightarrow> socks_are (A \<union> sock_of (snd r)) s0 s \<and> sock_of (snd r) \<subseteq> {fst r} \<and> sock_of (snd r) \<inter> A = {}"

lemma keeps_lib_call: "name \<noteq> ''socket'' \<Longrightarrow> keeps (socks_are A s0) (call_sys e (SysLib name args))"
  by (simp add: hoare_def run_simps socks_are_def)

lemma close_fails:
  "sock \<notin> A \<Longrightarrow> hoare (socks_are (insert sock A) s0) (do { sys_close e sock; ret (sock, None) }) (setup_post A s0)"
  by (simp add: hoare_def sys_close_def run_simps socks_are_def setup_post_def sock_of_def)

lemma setup_started:
  assumes "sock \<notin> A"
  shows "hoare (socks_are (insert sock A) s0)
    (do { handler \<leftarrow> NetlinkHandler_new sock format;
          d \<leftarrow> NetlinkHandler_start e handler;
          if d \<noteq> 0 then do { sys_close e sock; ret (sock, None) } else ret (sock, Some handler) }) (setup_post A s0)"
proof (rule hoare_bind)
  show "hoare (socks_are (insert sock A) s0) (NetlinkHandler_new sock format)
    (\<lambda>handler s. socks_are (insert sock A) s0 s \<and> listenerSocket handler = sock)"
    by (simp add: hoare_def NetlinkHandler_new_def run_simps socks_are_def)
  show "hoare (\<lambda>s. socks_are (insert sock A) s0 s \<and> listenerSocket handler = sock)
    (do { d \<leftarrow> NetlinkHandler_start e handler; if d \<noteq> 0 then do { sys_close e sock; ret (sock, None) } else ret (sock, Some handler) })
    (setup_post A s0)" for handler
    using assms by (auto simp: hoare_def NetlinkHandler_start_def sys_close_def run_simps socks_are_def setup_post_def sock_of_def)
qed

lemma setup_configured:
  assumes "sock \<notin> A"
  shows "hoare (socks_are (insert sock A) s0)
    (do { a \<leftarrow> sys_setsockopt e sock ''SO_RCVBUFFORCE'' (64 * 1024);
          if a < 0 then do { sys_close e sock; ret (sock, None) }
          else do {
            b \<leftarrow> sys_setsockopt e sock ''SO_PASSCRED'' 1;
            if b < 0 then do { sys_close e sock; ret (sock, None) }
            else do {
              c \<leftarrow> sys_bind e sock groups;
              if c < 0 then do { sys_close e sock; ret (sock, None) }
              else do {
                handler \<leftarrow> NetlinkHandler_new sock format;
                d \<leftarrow> NetlinkHandler_start e handler;
                if d \<noteq> 0 then do { sys_close e sock; ret (sock, None) } else ret (sock, Some handler) } } } }) (setup_post A s0)"
  unfolding sys_setsockopt_def sys_bind_def
  by (intro hoare_bind [OF keeps_lib_call] hoare_if close_fails setup_started assms) simp_all

lemma setupSocket_result:
  assumes "fresh_sockets e" and "run_state (setupSocket e family groups format) s = (r, s')"
  shows "setup_post (open_socks (hist s)) s r s'"
proof -
  let ?c = "SysLib ''socket'' [''PF_NETLINK'', ''SOCK_DGRAM'', fmt_d family]"
  let ?sock = "env_call e (hist s) ?c"
  let ?s = "s\<lparr>hist := EvCall ?c ?sock # hist s\<rparr>"
  have fresh: "?sock \<notin> open_socks (hist s)" using assms(1) by (simp add: fresh_sockets_def)
  show ?thesis
  proof (cases "?sock < 0")
    case True
    then show ?thesis using assms(2)
      by (simp add: setupSocket_def sys_socket_def run_simps) (auto simp: setup_post_def socks_are_def sock_of_def)
  next
    case False
    then have "socks_are (insert ?sock (open_socks (hist s))) s ?s" by (simp add: socks_are_def)
    from hoareD [OF setup_configured [OF fresh], OF this] show ?thesis
      using assms(2) False unfolding setupSocket_def sys_socket_def by (simp only: run_state_bind run_call_sys prod.case if_False)
  qed
qed

text \<open>What start has set up: each handler listens on its socket, and these are the sockets that are open.\<close>

definition started :: "'a nl_manager_scheme \<Rightarrow> bool" where
  "started s \<longleftrightarrow> sock_of (mUeventHandler s) = {mUeventSock s} \<and> sock_of (mRouteHandler s) = {mRouteSock s} \<and>
     sock_of (mQuotaHandler s) \<subseteq> {mQuotaSock s} \<and>
     open_socks (hist s) = sock_of (mUeventHandler s) \<union> sock_of (mRouteHandler s) \<union> sock_of (mQuotaHandler s)"

lemma sock_of_None [simp]: "sock_of None = {}"
  by (simp add: sock_of_def)

lemma sock_of_single: "h \<noteq> None \<Longrightarrow> sock_of h \<subseteq> {x} \<Longrightarrow> sock_of h = {x}"
  by (auto simp: sock_of_def)

lemma start_result:
  assumes "fresh_sockets e" and "open_socks (hist s) = {}" and "run_state (NetlinkManager_start e) s = (r, s')"
  shows "if r = 0 then started s' else r = -1 \<and> open_socks (hist s') = sock_of (mUeventHandler s')"
proof -
  let ?u = "setupSocket e NETLINK_KOBJECT_UEVENT 0xffffffff NETLINK_FORMAT_ASCII"
  let ?g = "RTMGRP_LINK OR RTMGRP_IPV4_IFADDR OR RTMGRP_IPV6_IFADDR OR RTMGRP_IPV6_ROUTE OR push_bit (RTNLGRP_ND_USEROPT - 1) 1"
  obtain us uh s1 where 1: "run_state ?u s = ((us, uh), s1)" by (metis prod.collapse)
  let ?s1 = "s1\<lparr>mUeventSock := us, mUeventHandler := uh\<rparr>"
  obtain rs rh s2 where 2: "run_state (setupSocket e NETLINK_ROUTE ?g NETLINK_FORMAT_BINARY) ?s1 = ((rs, rh), s2)" by (metis prod.collapse)
  let ?s2 = "s2\<lparr>mRouteSock := rs, mRouteHandler := rh\<rparr>"
  obtain qs qh s3 where 3: "run_state (setupSocket e NETLINK_NFLOG NFLOG_QUOTA_GROUP NETLINK_FORMAT_BINARY) ?s2 = ((qs, qh), s3)"
    by (metis prod.collapse)
  have u: "open_socks (hist s1) = sock_of uh" "sock_of uh \<subseteq> {us}"
    using setupSocket_result [OF assms(1) 1] assms(2) by (auto simp: setup_post_def socks_are_def)
  have r: "open_socks (hist s2) = sock_of uh \<union> sock_of rh" "sock_of rh \<subseteq> {rs}" "mUeventHandler s2 = uh" "mUeventSock s2 = us"
    using setupSocket_result [OF assms(1) 2] u by (auto simp: setup_post_def socks_are_def)
  have q: "open_socks (hist s3) = sock_of uh \<union> sock_of rh \<union> sock_of qh" "sock_of qh \<subseteq> {qs}" "mUeventHandler s3 = uh" "mUeventSock s3 = us"
      "mRouteHandler s3 = rh" "mRouteSock s3 = rs"
    using setupSocket_result [OF assms(1) 3] r by (auto simp: setup_post_def socks_are_def)
  have run: "(r, s') = (if uh = None then (-1, ?s1) else if rh = None then (-1, ?s2) else (0, s3\<lparr>mQuotaSock := qs, mQuotaHandler := qh\<rparr>))"
    using assms(3) 1 2 3 by (auto simp: NetlinkManager_start_def run_simps)
  show ?thesis
  proof (cases "uh = None \<or> rh = None")
    case True
    then show ?thesis using run u r by (auto split: if_splits)
  next
    case False
    then have "sock_of uh = {us}" "sock_of rh = {rs}" using sock_of_single u(2) r(2) by blast+
    moreover have "r = 0" "s' = s3\<lparr>mQuotaSock := qs, mQuotaHandler := qh\<rparr>" using False run by auto
    ultimately show ?thesis using q by (simp add: started_def)
  qed
qed

lemma run_stop_handler:
  "\<exists>status' h. run_state (stop_handler e handler sock status) s = (status', s\<lparr>handlers := handlers s - 1, hist := h\<rparr>) \<and>
     open_socks h = open_socks (hist s) - {sock}"
  by (simp add: stop_handler_def NetlinkHandler_stop_def sys_close_def run_simps) (rule exI, rule conjI, rule refl, simp)

lemma stop_result:
  assumes "started s"
  shows "\<exists>status s'. run_state (NetlinkManager_stop e) s = (Some status, s') \<and> open_socks (hist s') = {} \<and>
    mUeventHandler s' = None \<and> mRouteHandler s' = None \<and> mQuotaHandler s' = None"
proof -
  obtain u r where h: "mUeventHandler s = Some u" "mRouteHandler s = Some r"
    using assms by (cases "mUeventHandler s"; cases "mRouteHandler s") (auto simp: started_def)
  obtain st1 h1 where 1: "run_state (stop_handler e u (mUeventSock s) 0) s = (st1, s\<lparr>handlers := handlers s - 1, hist := h1\<rparr>)"
    "open_socks h1 = open_socks (hist s) - {mUeventSock s}" using run_stop_handler by blast
  define s1 where "s1 = s\<lparr>handlers := handlers s - 1, hist := h1, mUeventHandler := None, mUeventSock := - 1\<rparr>"
  obtain st2 h2 where 2: "run_state (stop_handler e r (mRouteSock s) st1) s1 = (st2, s1\<lparr>handlers := handlers s1 - 1, hist := h2\<rparr>)"
    "open_socks h2 = open_socks h1 - {mRouteSock s}" using run_stop_handler [of e r "mRouteSock s" st1 s1] by (auto simp: s1_def)
  define s2 where "s2 = s1\<lparr>handlers := handlers s1 - 1, hist := h2, mRouteHandler := None, mRouteSock := - 1\<rparr>"
  show ?thesis
  proof (cases "mQuotaHandler s")
    case None
    then have "open_socks h2 = {}" using assms 1(2) 2(2) by (auto simp: started_def)
    moreover have "run_state (NetlinkManager_stop e) s = (Some st2, s2)"
      using 1(1) 2(1) h None unfolding NetlinkManager_stop_def by (simp add: run_simps flip: s1_def s2_def)
    ultimately show ?thesis using None by (simp add: s1_def s2_def)
  next
    case (Some q)
    obtain st3 h3 where 3: "run_state (stop_handler e q (mQuotaSock s) st2) s2 = (st3, s2\<lparr>handlers := handlers s2 - 1, hist := h3\<rparr>)"
      "open_socks h3 = open_socks h2 - {mQuotaSock s}" using run_stop_handler [of e q "mQuotaSock s" st2 s2] by (auto simp: s2_def)
    have "open_socks h3 = {}" using assms 1(2) 2(2) 3(2) unfolding started_def by blast
    moreover have "run_state (NetlinkManager_stop e) s =
        (Some st3, s2\<lparr>handlers := handlers s2 - 1, hist := h3, mQuotaHandler := None, mQuotaSock := - 1\<rparr>)"
      using 1(1) 2(1) 3(1) h Some unfolding NetlinkManager_stop_def by (simp add: run_simps flip: s1_def s2_def)
    ultimately show ?thesis by (simp add: s1_def s2_def)
  qed
qed

section \<open>Properties\<close>

text \<open>
  C40: The manager keeps its sockets in order. Whatever fails, a start that reports failure leaves no socket open but the one whose handler
  is running; after a start that reports success the open sockets are those of the running handlers, and a stop then ends with every
  socket closed and every handler gone. The kernel is assumed not to give out a descriptor that is open.
\<close>

theorem netlink_sockets_balanced:
  assumes "fresh_sockets e" and "open_socks (hist s) = {}" and "run_state (NetlinkManager_start e) s = (r, s1)"
  shows "if r = 0
    then \<exists>status s2. run_state (NetlinkManager_stop e) s1 = (Some status, s2) \<and> open_socks (hist s2) = {} \<and>
      mUeventHandler s2 = None \<and> mRouteHandler s2 = None \<and> mQuotaHandler s2 = None
    else r = -1 \<and> open_socks (hist s1) = sock_of (mUeventHandler s1)"
  using start_result [OF assms] stop_result by auto

text \<open>A kernel that gives out the number after the highest one that is open.\<close>

definition next_sock_env :: env where
  "next_sock_env = sample_env\<lparr>env_call := (\<lambda>h c. if is_socket c then Max (insert 0 (open_socks h)) + 1 else 0)\<rparr>"

lemma finite_open_socks: "finite (open_socks h)"
  by (induction h rule: open_socks.induct) auto

lemma fresh_next_sock: "fresh_sockets next_sock_env"
proof -
  have "Max (insert 0 (open_socks h)) + 1 \<notin> open_socks h" for h
    using Max_ge [of "insert 0 (open_socks h)" "Max (insert 0 (open_socks h)) + 1"] finite_open_socks [of h] by auto
  then show ?thesis by (simp add: fresh_sockets_def next_sock_env_def)
qed

definition sample_manager :: nl_manager where
  "sample_manager = \<lparr>hist = [], mUeventHandler = None, mRouteHandler = None, mQuotaHandler = None, mUeventSock = -1, mRouteSock = -1,
     mQuotaSock = -1, handlers = 0\<rparr>"

theorem netlink_sockets_balanced_witness:
  "\<exists>r s1. run_state (NetlinkManager_start next_sock_env) sample_manager = (r, s1) \<and>
     (if r = 0
      then \<exists>status s2. run_state (NetlinkManager_stop next_sock_env) s1 = (Some status, s2) \<and> open_socks (hist s2) = {}
      else open_socks (hist s1) = sock_of (mUeventHandler s1))"
proof -
  obtain r s1 where run: "run_state (NetlinkManager_start next_sock_env) sample_manager = (r, s1)" by (metis prod.collapse)
  from netlink_sockets_balanced [OF fresh_next_sock _ run] run show ?thesis by (auto simp: sample_manager_def split: if_splits)
qed

end
