(* ===== verification/NetdMain.thy ===== *)
theory NetdMain
  imports CommandListener NetlinkManager MDnsSdListener
begin

text \<open>
  The main function of the daemon, \<^verbatim>\<open>server/main.cpp\<close>: it creates the parts of the daemon and starts their sockets, the one for commands
  last, and then only sleeps. Listening is done by the system library.
\<close>

section \<open>State\<close>

record netd = sys +
  n_daemon :: daemon
  n_netlink :: nl_manager
  n_mdns :: mdns

definition on_daemon :: "(daemon, 'r) state \<Rightarrow> (netd, 'r) state" where
  "on_daemon m = State (\<lambda>s. case run_state m (n_daemon s\<lparr>hist := hist s\<rparr>) of (r, p) \<Rightarrow> (r, s\<lparr>n_daemon := p, hist := hist p\<rparr>))"

definition on_netlink :: "(nl_manager, 'r) state \<Rightarrow> (netd, 'r) state" where
  "on_netlink m = State (\<lambda>s. case run_state m (n_netlink s\<lparr>hist := hist s\<rparr>) of (r, p) \<Rightarrow> (r, s\<lparr>n_netlink := p, hist := hist p\<rparr>))"

text \<open>The result of the start: an exit status, or a running daemon and whether its process id has been written.\<close>

datatype main_result = Exit int | Running bool

section \<open>The file with the process id\<close>

definition PID_FILE_PATH :: string where "PID_FILE_PATH = ''/data/misc/net/netd_pid''"
definition PID_FILE_FLAGS :: string where "PID_FILE_FLAGS = ''O_CREAT|O_TRUNC|O_WRONLY|O_NOFOLLOW|O_CLOEXEC''"
definition PID_FILE_MODE :: string where "PID_FILE_MODE = ''0644''"

definition remove_pid_file :: "env \<Rightarrow> ('a sys_scheme, unit) state" where
  "remove_pid_file e = do { _ \<leftarrow> call_sys e (SysLib ''unlink'' [PID_FILE_PATH]); ret () }"

definition write_pid_file :: "env \<Rightarrow> ('a sys_scheme, bool) state" where
  "write_pid_file e = do {
     pid \<leftarrow> call_sys e (SysLib ''getpid'' []);
     let pid_buf = fmt_d pid @ [CHR 0x0A];
     fd \<leftarrow> call_sys e (SysLib ''open'' [PID_FILE_PATH, PID_FILE_FLAGS, PID_FILE_MODE]);
     if fd = -1 then ret False
     else do {
       m \<leftarrow> call_sys e (SysLib ''fchmod'' [fmt_d fd, PID_FILE_MODE]);
       if m = -1 then do { _ \<leftarrow> call_sys e (SysClose fd); remove_pid_file e; ret False }
       else do {
         w \<leftarrow> call_sys e (SysWriteFd fd pid_buf);
         if w \<noteq> int (length pid_buf) then do { _ \<leftarrow> call_sys e (SysClose fd); remove_pid_file e; ret False }
         else do { _ \<leftarrow> call_sys e (SysClose fd); ret True } } } }"

definition blockSigpipe :: "env \<Rightarrow> ('a sys_scheme, unit) state" where
  "blockSigpipe e = do { _ \<leftarrow> call_sys e (SysLib ''sigprocmask'' [''SIG_BLOCK'', ''SIGPIPE'']); ret () }"

section \<open>Start\<close>

definition startListener :: "env \<Rightarrow> string \<Rightarrow> ('a sys_scheme, int) state" where
  "startListener e name = call_sys e (SysLib ''startListener'' [name])"

definition exit_unless_0 :: "(netd, int) state \<Rightarrow> (netd, main_result) state \<Rightarrow> (netd, main_result) state" where
  "exit_unless_0 m k = do { r \<leftarrow> m; if r \<noteq> 0 then ret (Exit 1) else k }"

definition main_start :: "env \<Rightarrow> (netd, main_result) state" where
  "main_start e = do {
     remove_pid_file e;
     blockSigpipe e;
     on_daemon (CommandListener_new e);
     exit_unless_0 (on_netlink (NetlinkManager_start e)) (do {
       _ \<leftarrow> call_sys e (SysLib ''setenv'' [''ANDROID_DNS_MODE'', ''local'', ''1'']);
       exit_unless_0 (startListener e ''dnsproxyd'') (do {
         modify (\<lambda>s. s\<lparr>n_mdns := Monitor_new (n_mdns s)\<rparr>);
         exit_unless_0 (startListener e ''mdns'')
           (exit_unless_0 (startListener e ''fwmarkd'')
             (exit_unless_0 (startListener e ''netd'') (do {
               wrote_pid \<leftarrow> write_pid_file e;
               ret (Running wrote_pid) }))) }) }) }"

text \<open>One turn of the endless loop.\<close>

definition main_turn :: "env \<Rightarrow> bool \<Rightarrow> ('a sys_scheme, bool) state" where
  "main_turn e wrote_pid = do {
     _ \<leftarrow> call_sys e (SysLib ''sleep'' [''30'']);
     if \<not> wrote_pid then write_pid_file e else ret True }"

section \<open>Lemmas\<close>

text \<open>
  When the process id counts as written, the last things done were to write it completely and to close the file; otherwise the file
  could not be opened, or has been removed again.
\<close>

lemma write_pid_file_result:
  assumes "run_state (write_pid_file e) s = (ok, s')"
  shows "if ok
    then \<exists>fd pid x h. hist s' = EvCall (SysClose fd) x # EvCall (SysWriteFd fd (fmt_d pid @ [CHR 0x0A])) (int (length (fmt_d pid) + 1)) # h
    else \<exists>c x h. hist s' = EvCall (SysLib c [PID_FILE_PATH]) x # h \<and> c = ''unlink'' \<or>
      hist s' = EvCall (SysLib ''open'' [PID_FILE_PATH, PID_FILE_FLAGS, PID_FILE_MODE]) (- 1) # h"
  using assms by (auto simp: write_pid_file_def remove_pid_file_def run_simps Let_def split: if_splits)

abbreviation listening :: "string \<Rightarrow> event" where
  "listening name \<equiv> EvCall (SysLib ''startListener'' [name]) 0"

lemma write_pid_file_extends: "\<exists>p. hist (snd (run_state (write_pid_file e) s)) = p @ hist s"
  by (simp add: write_pid_file_def remove_pid_file_def run_simps Let_def)

lemma hist_n_mdns_update [simp]: "hist (n_mdns_update f s) = hist s"
  by (cases s) simp

lemma write_pid_file_run:
  assumes "run_state (write_pid_file e) s = (ok, s')"
  shows "\<exists>p. hist s' = p @ hist s"
  using write_pid_file_extends[of e s] assms by simp

lemma exit_unless_0_run:
  "run_state (exit_unless_0 m k) s = (case run_state m s of (r, t) \<Rightarrow> if r \<noteq> 0 then (Exit 1, t) else run_state k t)"
  by (simp add: exit_unless_0_def run_simps split: prod.splits)

text \<open>
  Commands are taken only when everything else is up: a daemon that runs has started the four sockets without an error, the one for
  commands last. Otherwise it exits with status 1.
\<close>

lemma main_starts_in_order:
  assumes "run_state (main_start e) s = (r, s')"
  shows "case r of
      Running wrote \<Rightarrow> \<exists>pid_calls x h. hist s' = pid_calls @ [listening ''netd'', listening ''fwmarkd'', listening ''mdns'', listening ''dnsproxyd''] @
        EvCall (SysLib ''setenv'' [''ANDROID_DNS_MODE'', ''local'', ''1'']) x # h
    | Exit n \<Rightarrow> n = 1"
proof -
  define start where "start = do { remove_pid_file e; blockSigpipe e; on_daemon (CommandListener_new e) }"
  define rest where "rest = do {
       _ \<leftarrow> call_sys e (SysLib ''setenv'' [''ANDROID_DNS_MODE'', ''local'', ''1'']);
       exit_unless_0 (startListener e ''dnsproxyd'') (do {
         modify (\<lambda>s. s\<lparr>n_mdns := Monitor_new (n_mdns s)\<rparr>);
         exit_unless_0 (startListener e ''mdns'')
           (exit_unless_0 (startListener e ''fwmarkd'')
             (exit_unless_0 (startListener e ''netd'') (do {
               wrote_pid \<leftarrow> write_pid_file e;
               ret (Running wrote_pid) }))) }) }"
  have main: "main_start e = do { start; exit_unless_0 (on_netlink (NetlinkManager_start e)) rest }"
    by (simp add: main_start_def start_def rest_def)
  obtain u s1 where 1: "run_state start s = (u, s1)" by (metis prod.collapse)
  obtain n s2 where 2: "run_state (on_netlink (NetlinkManager_start e)) s1 = (n, s2)" by (metis prod.collapse)
  have run: "(r, s') = (if n \<noteq> 0 then (Exit 1, s2) else run_state rest s2)"
    using assms 1 2 by (simp add: main exit_unless_0_run)
  show ?thesis
  proof (cases "n = 0")
    case True
    with run have "run_state rest s2 = (r, s')" by simp
    then show ?thesis
      by (auto simp: rest_def exit_unless_0_run startListener_def run_simps split: if_splits prod.splits
          dest!: write_pid_file_run) blast
  qed (use run in simp)
qed

end
