(* ===== verification/Spec2Isabelle.thy ===== *)
theory Spec2Isabelle
  imports NetworkRules NetdClient FirewallController IdletimerController TetherCounters DaemonChains DaemonRuns IpForwarding LinkedList MDnsSdListener DnsProxyListener
    NetlinkHandler QsoftapCmd Ndc NetdMain
begin

text \<open>
  A verification of netd, the network daemon of Android (with the additions of the vendor tree): the daemon under
  \<^verbatim>\<open>server/\<close>, the client library under \<^verbatim>\<open>client/\<close>, and the headers that they share under \<^verbatim>\<open>include/\<close>.

  \<^bold>\<open>The program.\<close> The framework sends lines of text to the socket \<^verbatim>\<open>netd\<close>. \<^verbatim>\<open>CommandListener\<close> hands each line to the
  handler of its first word, the handler calls a controller, and the controller changes the kernel: routing rules and
  routes as netlink messages, iptables rules by running a program, settings by writing files, services as child
  processes. Apart from that there are three more sockets: applications ask \<^verbatim>\<open>FwmarkServer\<close>, through the client library,
  to mark their sockets, so that the routing rules choose a network for them; \<^verbatim>\<open>DnsProxyListener\<close> resolves names for
  them; \<^verbatim>\<open>MDnsSdListener\<close> does service discovery. All three ask the one \<^verbatim>\<open>NetworkController\<close> who may use which network.
  \<^verbatim>\<open>NetlinkManager\<close> and \<^verbatim>\<open>NetlinkHandler\<close> report what the kernel says to the clients of the command socket.

  \<^bold>\<open>The outside world.\<close> Nothing that is not code of the repository has a definition. The record \<open>env\<close> of the theory
  \<open>Sys\<close> answers for the kernel, the programs that are run, files, children and the libraries; each answer may depend on
  everything that has happened before. Every interaction is added to \<open>hist\<close>, the field that the records of all
  components extend, so that a theorem about all \<open>env\<close> holds however the world behaves, and what the daemon has done is
  a fact about \<open>hist\<close>. A component is a record; an operation is a function in the state monad; an error is its result, a
  negative number or a message as in the source. Where the source has no defined behaviour (it reads beyond its
  arguments, or casts an object to a class that it does not have) the result is \<^const>\<open>None\<close>. Machine integers have
  their width. Locks are taken for a whole operation, so an operation is one step; where threads share data without
  that, in \<open>MDnsSdListener\<close>, the reachable states are those of any order of the steps of both threads.

  \<^bold>\<open>Foundations.\<close>
  \<^item> \<open>Prelude\<close>: the collections of lemmas (rules for Hoare triples, evaluation of the monad, error numbers), machine
    integers, lists and maps.
  \<^item> \<open>Sys\<close>: the outside world and its calls. \<open>CLib\<close>: the functions of the C library that the source uses
    (\<^verbatim>\<open>strtoul\<close>, \<^verbatim>\<open>strsep\<close>, \<^verbatim>\<open>snprintf\<close> of numbers and others).
  \<^item> \<open>NetdConstants\<close> (\<^verbatim>\<open>NetdConstants.cpp\<close>), \<open>ResponseCode\<close> (\<^verbatim>\<open>ResponseCode.h\<close>), \<open>LinkedList\<close> (\<^verbatim>\<open>List.h\<close>).
  \<^item> \<open>Iptables\<close>: what chains hold after the commands in a history. \<open>Children\<close>: which children have been started and not
    collected, and the locale \<open>supervisor\<close> of a controller that remembers just these.

  \<^bold>\<open>Networks and marks.\<close>
  \<^item> \<open>Fwmark\<close> (\<^verbatim>\<open>Fwmark.h\<close>, \<^verbatim>\<open>Permission.h\<close>): the mark as a record and as a number, and that both say the same.
  \<^item> \<open>UidRanges\<close> (\<^verbatim>\<open>UidRanges.cpp\<close>): parsing, searching, merging. The locale \<open>range_bag\<close> is the contract of adding and
    removing ranges; it is interpreted with the merge and the difference of sorted vectors.
  \<^item> \<open>Netlink\<close>, \<open>RouteController\<close> (\<^verbatim>\<open>RouteController.cpp\<close>): the bytes of requests, with a reader for them as
    specification; every rule and route function. Which packets a rule matches, that removing undoes adding, that
    flushing ends, and that everything succeeds when the kernel does.
  \<^item> \<open>Networks\<close> (\<^verbatim>\<open>Network.cpp\<close>, \<^verbatim>\<open>LocalNetwork.cpp\<close>, \<^verbatim>\<open>PhysicalNetwork.cpp\<close>, \<^verbatim>\<open>VirtualNetwork.cpp\<close>): the locale
    \<open>network_class\<close> is the contract of the base class, with an interpretation for each subclass, and \<open>fallthrough_delegate\<close>
    that of the delegate, with one for the delegate of the controller.
  \<^item> \<open>NetworkController\<close> (\<^verbatim>\<open>NetworkController.cpp\<close>): all operations, the invariant, and who may use which network.
    \<open>NetworkRules\<close>: the rules that a set of networks calls for, and that each operation takes the acknowledged rules from
    those of the old state to those of the new one. The theorems below conclude from both about whole runs.
  \<^item> \<open>FwmarkServer\<close> (\<^verbatim>\<open>FwmarkServer.cpp\<close>), \<open>NetdClient\<close> (\<^verbatim>\<open>NetdClient.cpp\<close>, \<^verbatim>\<open>FwmarkClient.cpp\<close>): requests byte by byte;
    nobody gets a mark that he is not entitled to, nobody escapes a secure VPN, and from the application to the controller
    and back the answer is that of the access check.

  \<^bold>\<open>Traffic.\<close>
  \<^item> \<open>FirewallController\<close>, \<open>IdletimerController\<close>, \<open>NatController\<close>, \<open>BandwidthController\<close> (the files of these names): the
    iptables commands on every path, with their undoing. \<open>BandwidthRules\<close>: the lists of the controller and the
    chains agree. \<open>TetherCounters\<close>: the parser of counters against a table of rules.

  \<^bold>\<open>Services.\<close>
  \<^item> \<open>TetherController\<close>, \<open>PppController\<close>, \<open>ClatdController\<close>, \<open>SoftapController\<close>, \<open>InterfaceController\<close>,
    \<open>QcRouteController\<close> (the files of these names; \<^verbatim>\<open>ResolverController.cpp\<close> is in \<open>PppController\<close>): child processes, each an
    interpretation of \<open>supervisor\<close>, their configuration, the files and shell commands that are written.

  \<^bold>\<open>Sockets.\<close>
  \<^item> \<open>NetworkCommand\<close>, \<open>ControllerCommands\<close>, \<open>TrafficCommands\<close>, \<open>RouteCommand\<close>, \<open>CommandListener\<close>, \<open>QsoftapCmd\<close>
    (\<^verbatim>\<open>CommandListener.cpp\<close>, \<^verbatim>\<open>oem_iptables_hook.cpp\<close>, \<^verbatim>\<open>QsoftapCmd.cpp\<close>): the handlers, the table of commands, the constructor.
  \<^item> \<open>DaemonAnswers\<close>: which lines get a final answer. \<open>DaemonChains\<close>: the order of the chains after start-up, and that
    no command changes it. \<open>IpForwarding\<close>: forwarding is on just if somebody wants it. \<open>DaemonRuns\<close>: whole runs of the daemon, in
    which the networks keep their invariant and every child of every controller is accounted for.
  \<^item> \<open>DnsProxyListener\<close>, \<open>MDnsSdListener\<close>, \<open>NetlinkHandler\<close>, \<open>NetlinkManager\<close> (the files of these names), \<open>NetdMain\<close>
    (\<^verbatim>\<open>main.cpp\<close>), \<open>Ndc\<close> (\<^verbatim>\<open>ndc.c\<close>): answers byte by byte with a reader for them, the two threads of the monitor, events and
    the messages about them, sockets that are open, the order of the start, and the client for the command line together
    with the daemon.

  \<^bold>\<open>Loops and bounds.\<close> Loops over arguments, lines and lists are recursive functions, so they end; that flushing routes stops after its
  attempts, and that waiting for a child stops, is a number of steps as in the source. The loops of \<open>LinkedList\<close> follow pointers and might
  not end: they are partial functions, and the theorem about the class says that they return. There is no fuel. Buffers have the sizes of
  the source; that commands for dnsmasq and for the vendor library fit is proved, and where they do not (the TXT record, the
  arrays of the monitor after a refused request) there is a lemma that says so. The loops that never end (\<^verbatim>\<open>main\<close>, the poll thread,
  \<^verbatim>\<open>ndc monitor\<close>) are steps, or runs over a list of inputs.

  \<^bold>\<open>Not modelled.\<close> Logging; destructors that only free memory; the base classes of the listeners in the system library
  (accepting clients, splitting lines into words, registration), of which \<open>dispatchCommand\<close> states what the daemon relies on; the
  decoding of netlink messages, which is done there too; the resolver, the library for service discovery, OpenSSL and the Wi-Fi
  and vendor libraries, which are parameters; \<^verbatim>\<open>NetdCommand.cpp\<close>, which only passes on a name. Where \<^verbatim>\<open>asprintf\<close> or
  \<^verbatim>\<open>malloc\<close> could fail the model assumes that they do not. Values that a constructor leaves unset are those of the state that it
  starts from, so that theorems about them hold for any.
\<close>

section \<open>Properties that span components\<close>


definition sample_start :: nc where
  "sample_start = \<lparr>hist = [], interfaceToTable = [], mDefaultNetId = 0, mNetworks = [], mUsers = [],
                   mProtectableUsers = []\<rparr>"

lemma run_nc_success:
  assumes "nc_success e s" and "command_ok c" and "users_present s c" and "fst (run_state (nc_exec e c) s) = Some 0"
  shows "nc_success e (snd (run_state (nc_exec e c) s))"
  using nc_success.step [OF assms(1-3), of "snd (run_state (nc_exec e c) s)"] assms(4) by (metis prod.collapse)


text \<open>
  C2: In every state that the commands can reach, whatever the outside world answers and whichever
  commands fail half-way: the networks are filed under their own NetIds, which lie in the ranges the
  class hands out, the local network exists, no interface belongs to two networks, all containers are
  sorted and duplicate free, user ranges are well formed, and the default network, if any, is an
  existing physical network marked as default.
\<close>

theorem reachable_invariant: "nc_reach e s \<Longrightarrow> nc_inv s"
  by (induction rule: nc_reach.induct) (auto intro: NetworkController_new_inv hoareD [OF nc_exec_inv])

theorem reachable_invariant_witness:
  "nc_inv (snd (run_state (nc_exec sample_env (CreatePhysical 100 PERMISSION_NONE)) (NetworkController_new sample_start)))"
  by (rule reachable_invariant [of sample_env],
      rule nc_reach.step [OF nc_reach.start [of _ sample_start] _ prod.collapse [symmetric]]) simp

text \<open>
  When the outside world accepts every request, an interface with a name of at most 15
  characters can be added to any existing network, local, physical or virtual, default or not, as
  long as no other network has it.
\<close>

theorem addInterface_succeeds:
  assumes "accepting e" and "nc_inv s" and "map_of (mNetworks s) k = Some n" and "short_name i"
    and "getNetworkForInterface s i \<in> {NETID_UNSET, k}"
  shows "fst (run_state (addInterfaceToNetwork e k i) s) = 0"
  using assms by (rule addInterfaceToNetwork_ok)

theorem addInterface_succeeds_witness:
  "fst (run_state (addInterfaceToNetwork sample_env 100 ''eth0'') sample_nc) = 0"
  by (rule addInterface_succeeds [OF sample_env_accepting nc_inv_sample])
    (simp_all add: sample_nc_def short_name_def IFNAMSIZ_def getNetworkForInterface_def NETID_UNSET_def)

end
